(* ===== verification/Revera_Prelude.thy ===== *)
theory Revera_Prelude
  imports Main "HOL-Library.Word" "HOL-Library.Char_ord" "HOL-Library.List_Lexorder"
    "HOL-Library.Product_Lexorder" "HOL-Library.Sublist"
begin

text \<open>
  The prelude of the Revera development: machine integers and the saturating and checked
  operations the Rust sources use on them, and the small iterator functions of the Rust standard
  library (\<open>position\<close>, \<open>min_by_key\<close>, \<open>reduce\<close>, \<open>enumerate\<close>, "push when not contained") with the
  lemmas the components share.

  Conventions of the whole development.  A Rust \<open>u32\<close> that can wrap is a \<open>32 word\<close>; a \<open>usize\<close>
  (a length or an index of data held in memory) and a \<open>u64\<close> counter are \<open>nat\<close>; a \<open>Duration\<close> or
  an \<open>Instant\<close> is a \<open>nat\<close> of nanoseconds.  \<open>Result\<close> is a sum with the error on the left.
  Log output (\<open>tracing::...\<close>) has no counterpart in the model.
\<close>

section \<open>Collections of facts\<close>

named_theorems str_simps \<open>evaluation of the string functions on constructors\<close>
named_theorems keeps \<open>fields or predicates that an operation keeps\<close>

section \<open>Machine integers\<close>

type_synonym u32 = "32 word"

definition u32_sat_sub :: "u32 \<Rightarrow> u32 \<Rightarrow> u32" where
  "u32_sat_sub a b = (if b \<le> a then a - b else 0)"

definition u32_sat_add :: "u32 \<Rightarrow> u32 \<Rightarrow> u32" where
  "u32_sat_add a b = (if unat a + unat b < 2 ^ 32 then a + b else - 1)"

lemma unat_u32_sat_sub: "unat (u32_sat_sub a b) = unat a - unat b"
proof (cases "b \<le> a")
  case True
  then show ?thesis by (simp add: u32_sat_sub_def unat_sub)
next
  case False
  then have "unat a \<le> unat b" by (simp add: word_le_nat_alt)
  then show ?thesis using False by (simp add: u32_sat_sub_def)
qed

lemma unat_u32_less: "unat (a::u32) < 2 ^ 32"
  using unsigned_less[of a] by simp

lemma unat_u32_sat_add: "unat (u32_sat_add a b) = min (unat a + unat b) (2 ^ 32 - 1)"
proof (cases "unat a + unat b < 2 ^ 32")
  case True
  then show ?thesis by (simp add: u32_sat_add_def unat_word_ariths)
next
  case False
  have "unat (- 1 :: u32) = 2 ^ 32 - 1" by (simp add: unsigned_minus_1_eq_mask mask_eq_exp_minus_1)
  then show ?thesis using False by (simp add: u32_sat_add_def)
qed

section \<open>Iterators of the Rust standard library\<close>

text \<open>\<open>iter().position(p)\<close>: the index of the first element that satisfies \<open>p\<close>.\<close>

fun position :: "('a \<Rightarrow> bool) \<Rightarrow> 'a list \<Rightarrow> nat option" where
  "position p [] = None"
| "position p (x # xs) = (if p x then Some 0 else map_option Suc (position p xs))"

lemma position_Some:
  "position p xs = Some i \<Longrightarrow> i < length xs \<and> p (xs ! i) \<and> (\<forall>j<i. \<not> p (xs ! j))"
proof (induction xs arbitrary: i)
  case (Cons x xs)
  show ?case
  proof (cases "p x")
    case False
    with Cons.prems obtain k where k: "position p xs = Some k" "i = Suc k" by auto
    with Cons.IH have "k < length xs \<and> p (xs ! k) \<and> (\<forall>j<k. \<not> p (xs ! j))" by blast
    with k False show ?thesis by (auto simp: nth_Cons split: nat.splits)
  qed (use Cons.prems in auto)
qed simp

lemma position_None: "position p xs = None \<longleftrightarrow> (\<forall>x\<in>set xs. \<not> p x)"
  by (induction xs) auto

lemma position_lt: "position p xs = Some i \<Longrightarrow> i < length xs"
  by (simp add: position_Some)

text \<open>\<open>iter().min_by_key(f)\<close>: the first of the elements with the least key.\<close>

fun min_by_key :: "('a \<Rightarrow> 'b::linorder) \<Rightarrow> 'a list \<Rightarrow> 'a option" where
  "min_by_key f [] = None"
| "min_by_key f (x # xs) =
     (case min_by_key f xs of None \<Rightarrow> Some x | Some y \<Rightarrow> if f y < f x then Some y else Some x)"

lemma min_by_key_None [simp]: "min_by_key f xs = None \<longleftrightarrow> xs = []"
  by (cases xs) (auto split: option.splits)

lemma min_by_key_Some:
  "min_by_key f xs = Some m \<Longrightarrow> m \<in> set xs \<and> (\<forall>x\<in>set xs. f m \<le> f x)"
proof (induction xs arbitrary: m)
  case (Cons x xs)
  show ?case
  proof (cases "min_by_key f xs")
    case None
    with Cons.prems show ?thesis by auto
  next
    case (Some y)
    with Cons.IH have y: "y \<in> set xs" "\<forall>z\<in>set xs. f y \<le> f z" by blast+
    show ?thesis
    proof (cases "f y < f x")
      case True
      with Cons.prems Some y show ?thesis by auto
    next
      case False
      with Cons.prems Some y show ?thesis by (auto intro: order_trans)
    qed
  qed
qed simp

text \<open>\<open>iter().enumerate()\<close> over a list, and \<open>iter().reduce(f)\<close>.\<close>

definition enum :: "'a list \<Rightarrow> (nat \<times> 'a) list" where
  "enum xs = zip [0..<length xs] xs"

lemma length_enum [simp]: "length (enum xs) = length xs"
  by (simp add: enum_def)

lemma in_set_enum: "(i, x) \<in> set (enum xs) \<longleftrightarrow> i < length xs \<and> xs ! i = x"
  by (force simp: enum_def set_zip)

fun reduce :: "('a \<Rightarrow> 'a \<Rightarrow> 'a) \<Rightarrow> 'a list \<Rightarrow> 'a option" where
  "reduce f [] = None"
| "reduce f (x # xs) = Some (foldl f x xs)"

text \<open>\<open>if !xs.contains(&x) { xs.push(x) }\<close>, also with a coarser equality.\<close>

definition push_new_by :: "('a \<Rightarrow> 'a \<Rightarrow> bool) \<Rightarrow> 'a list \<Rightarrow> 'a \<Rightarrow> 'a list" where
  "push_new_by eq xs x = (if list_ex (\<lambda>y. eq y x) xs then xs else xs @ [x])"

definition push_all_new_by :: "('a \<Rightarrow> 'a \<Rightarrow> bool) \<Rightarrow> 'a list \<Rightarrow> 'a list \<Rightarrow> 'a list" where
  "push_all_new_by eq xs ys = foldl (push_new_by eq) xs ys"

abbreviation push_all_new :: "'a list \<Rightarrow> 'a list \<Rightarrow> 'a list" where
  "push_all_new \<equiv> push_all_new_by (=)"

lemma push_new_by_prefix: "\<exists>zs. push_new_by eq xs x = xs @ zs"
  by (auto simp: push_new_by_def)

lemma push_all_new_by_prefix: "\<exists>zs. push_all_new_by eq xs ys = xs @ zs"
proof (induction ys arbitrary: xs)
  case (Cons y ys)
  obtain zs where zs: "push_new_by eq xs y = xs @ zs" using push_new_by_prefix[of eq xs y] by blast
  obtain us where "push_all_new_by eq (push_new_by eq xs y) ys = push_new_by eq xs y @ us"
    using Cons.IH[of "push_new_by eq xs y"] by blast
  with zs show ?case by (simp add: push_all_new_by_def)
qed (simp add: push_all_new_by_def)

lemma set_push_all_new [simp]: "set (push_all_new xs ys) = set xs \<union> set ys"
proof (induction ys arbitrary: xs)
  case (Cons y ys)
  have step: "set (push_new_by (=) xs y) = insert y (set xs)"
    by (auto simp: push_new_by_def list_ex_iff)
  have "set (push_all_new xs (y # ys)) = set (push_all_new (push_new_by (=) xs y) ys)"
    by (simp add: push_all_new_by_def)
  also have "\<dots> = set xs \<union> set (y # ys)" using Cons.IH step by auto
  finally show ?case .
qed (simp add: push_all_new_by_def)

lemma set_push_all_new_by_subset: "set (push_all_new_by eq xs ys) \<subseteq> set xs \<union> set ys"
proof (induction ys arbitrary: xs)
  case (Cons y ys)
  have "set (push_new_by eq xs y) \<subseteq> insert y (set xs)"
    by (auto simp: push_new_by_def)
  moreover have "push_all_new_by eq xs (y # ys) = push_all_new_by eq (push_new_by eq xs y) ys"
    by (simp add: push_all_new_by_def)
  ultimately show ?case using Cons.IH[of "push_new_by eq xs y"] by fastforce
qed (simp add: push_all_new_by_def)

lemma push_new_by_covers:
  "(\<And>y. eq y y) \<Longrightarrow> \<exists>y\<in>set (push_new_by eq xs x). eq y x"
  by (auto simp: push_new_by_def list_ex_iff)

lemma push_all_new_by_covers:
  assumes refl: "\<And>y. eq y y" and y: "y \<in> set ys"
  shows "\<exists>z\<in>set (push_all_new_by eq xs ys). eq z y"
  using y
proof (induction ys arbitrary: xs)
  case (Cons a ys)
  have unf: "push_all_new_by eq xs (a # ys) = push_all_new_by eq (push_new_by eq xs a) ys"
    by (simp add: push_all_new_by_def)
  show ?case
  proof (cases "y = a")
    case True
    obtain z where "z \<in> set (push_new_by eq xs a)" "eq z a"
      using push_new_by_covers[of eq xs a] refl by blast
    moreover obtain zs where "push_all_new_by eq (push_new_by eq xs a) ys = push_new_by eq xs a @ zs"
      using push_all_new_by_prefix[of eq "push_new_by eq xs a" ys] by blast
    ultimately show ?thesis using True unf by auto
  next
    case False
    with Cons show ?thesis by (simp add: unf)
  qed
qed simp

section \<open>Lists\<close>

lemma list_update_same_length_nth:
  "i < length xs \<Longrightarrow> xs[i := y] ! j = (if i = j then y else xs ! j)"
  by (cases "j < length xs") (auto simp: nth_list_update)

lemma set_list_update_subset: "set (xs[i := y]) \<subseteq> insert y (set xs)"
  by (simp add: set_update_subset_insert)

lemma find_Some_iff_set: "List.find P xs = Some x \<Longrightarrow> x \<in> set xs \<and> P x"
  by (auto simp: find_Some_iff)

lemma map_filter_conv [simp]:
  "List.map_filter f [] = []"
  "List.map_filter f (x # xs) =
     (case f x of None \<Rightarrow> List.map_filter f xs | Some y \<Rightarrow> y # List.map_filter f xs)"
  by (simp_all add: List.map_filter_def split: option.splits)

section \<open>Results\<close>

text \<open>The operator \<open>?\<close> on a \<open>Result\<close>.\<close>

definition sum_then :: "'e + 'a \<Rightarrow> ('a \<Rightarrow> 'e + 'b) \<Rightarrow> 'e + 'b" where
  "sum_then x f = (case x of Inl e \<Rightarrow> Inl e | Inr y \<Rightarrow> f y)"

lemma sum_then_simps [simp]: "sum_then (Inl e) f = Inl e" "sum_then (Inr x) f = f x"
  by (simp_all add: sum_then_def)

lemma sum_then_Inr: "sum_then x f = Inr y \<longleftrightarrow> (\<exists>z. x = Inr z \<and> f z = Inr y)"
  by (cases x) auto

end
