(* ===== verification/Rust_Str.thy ===== *)
theory Rust_Str
  imports Revera_Prelude
begin

text \<open>
  Rust strings.  A \<open>String\<close> is its UTF-8 byte sequence, a \<open>char list\<close> of 8-bit characters, so
  \<open>len()\<close> is \<open>length\<close>, slices are \<open>take\<close> and \<open>drop\<close>, and literals are written \<open>''...''\<close>.  This
  theory translates the functions of \<open>str\<close> that the sources call; the ones that look at
  characters rather than bytes (\<open>trim\<close>, \<open>split_whitespace\<close>, \<open>chars\<close>) work on the UTF-8 encoding
  of the Unicode \<open>White_Space\<close> characters and on the length a lead byte announces.
\<close>

section \<open>Prefixes, suffixes and searching\<close>

definition starts_with :: "string \<Rightarrow> string \<Rightarrow> bool" where
  "starts_with s p = (take (length p) s = p)"

definition ends_with :: "string \<Rightarrow> string \<Rightarrow> bool" where
  "ends_with s p = (length p \<le> length s \<and> drop (length s - length p) s = p)"

definition strip_prefix :: "string \<Rightarrow> string \<Rightarrow> string option" where
  "strip_prefix s p = (if starts_with s p then Some (drop (length p) s) else None)"

definition strip_suffix :: "string \<Rightarrow> string \<Rightarrow> string option" where
  "strip_suffix s p = (if ends_with s p then Some (take (length s - length p) s) else None)"

lemma starts_with_append [simp]: "starts_with (p @ s) p"
  by (simp add: starts_with_def)

lemma starts_with_Nil [simp]: "starts_with s []"
  by (simp add: starts_with_def)

lemma starts_with_iff: "starts_with s p \<longleftrightarrow> (\<exists>t. s = p @ t)"
  by (auto simp: starts_with_def) (metis append_take_drop_id)

lemma starts_with_Cons [str_simps]:
  "starts_with (c # s) (d # p) \<longleftrightarrow> c = d \<and> starts_with s p"
  "\<not> starts_with [] (d # p)"
  by (auto simp: starts_with_def)

lemma strip_prefix_append [simp]: "strip_prefix (p @ s) p = Some s"
  by (simp add: strip_prefix_def)

lemma strip_prefix_Some: "strip_prefix s p = Some t \<longleftrightarrow> s = p @ t"
  by (auto simp: strip_prefix_def starts_with_iff)

lemma ends_with_iff: "ends_with s p \<longleftrightarrow> (\<exists>t. s = t @ p)"
  by (auto simp: ends_with_def) (metis append_take_drop_id)

lemma strip_suffix_Some: "strip_suffix s p = Some t \<longleftrightarrow> s = t @ p"
  by (auto simp: strip_suffix_def ends_with_iff)

text \<open>\<open>str::find\<close> with a string pattern: the byte index of the first occurrence.\<close>

fun find_str :: "string \<Rightarrow> string \<Rightarrow> nat option" where
  "find_str [] p = (if p = [] then Some 0 else None)"
| "find_str (c # s) p =
     (if starts_with (c # s) p then Some 0 else map_option Suc (find_str s p))"

definition str_contains :: "string \<Rightarrow> string \<Rightarrow> bool" where
  "str_contains s p = (find_str s p \<noteq> None)"

lemma find_str_Some:
  "find_str s p = Some i \<Longrightarrow> starts_with (drop i s) p \<and> i \<le> length s \<and> (\<forall>j<i. \<not> starts_with (drop j s) p)"
proof (induction s arbitrary: i)
  case (Cons c s)
  show ?case
  proof (cases "starts_with (c # s) p")
    case False
    with Cons.prems obtain k where k: "find_str s p = Some k" "i = Suc k" by auto
    with Cons.IH have IH: "starts_with (drop k s) p" "k \<le> length s"
      "\<forall>j<k. \<not> starts_with (drop j s) p" by blast+
    have "\<not> starts_with (drop j (c # s)) p" if "j < i" for j
      using that False IH(3) k(2) by (cases j) auto
    with IH k show ?thesis by simp
  qed (use Cons.prems in auto)
qed (auto split: if_splits)

lemma find_str_None: "find_str s p = None \<Longrightarrow> \<not> starts_with (drop i s) p \<or> p = []"
proof (induction s arbitrary: i)
  case (Cons c s)
  then show ?case by (cases i) (auto split: if_splits)
qed (auto simp: starts_with_def split: if_splits)

lemma str_contains_iff: "str_contains s p \<longleftrightarrow> (\<exists>a b. s = a @ p @ b)"
proof
  assume "str_contains s p"
  then obtain i where "find_str s p = Some i" by (auto simp: str_contains_def)
  then have "starts_with (drop i s) p" by (simp add: find_str_Some)
  then obtain t where "drop i s = p @ t" by (auto simp: starts_with_iff)
  then have "s = take i s @ p @ t" by (metis append_take_drop_id)
  then show "\<exists>a b. s = a @ p @ b" by blast
next
  assume "\<exists>a b. s = a @ p @ b"
  then obtain a b where s: "s = a @ p @ b" by blast
  show "str_contains s p"
  proof (cases "p = []")
    case True
    then show ?thesis by (cases s) (auto simp: str_contains_def)
  next
    case False
    have "starts_with (drop (length a) s) p" using s by simp
    with False find_str_None show ?thesis unfolding str_contains_def by blast
  qed
qed

text \<open>\<open>str::rfind\<close>, \<open>split_once\<close> and \<open>rsplit_once\<close> on a one-byte separator.\<close>

fun split_once :: "char \<Rightarrow> string \<Rightarrow> (string \<times> string) option" where
  "split_once d [] = None"
| "split_once d (c # s) =
     (if c = d then Some ([], s) else map_option (\<lambda>(a, b). (c # a, b)) (split_once d s))"

definition rsplit_once :: "char \<Rightarrow> string \<Rightarrow> (string \<times> string) option" where
  "rsplit_once d s = map_option (\<lambda>(a, b). (rev b, rev a)) (split_once d (rev s))"

lemma split_once_Some: "split_once d s = Some (a, b) \<Longrightarrow> s = a @ d # b \<and> d \<notin> set a"
  by (induction s arbitrary: a b) (auto split: if_splits)

lemma split_once_None [simp]: "split_once d s = None \<longleftrightarrow> d \<notin> set s"
  by (induction s) auto

lemma split_once_append: "d \<notin> set a \<Longrightarrow> split_once d (a @ d # b) = Some (a, b)"
  by (induction a) auto

lemma rsplit_once_Some:
  assumes "rsplit_once d s = Some (a, b)"
  shows "s = a @ d # b \<and> d \<notin> set b"
proof -
  from assms have "split_once d (rev s) = Some (rev b, rev a)"
    by (auto simp: rsplit_once_def)
  then have "rev s = rev b @ d # rev a \<and> d \<notin> set (rev b)" by (rule split_once_Some)
  then have "rev (rev s) = rev (rev b @ d # rev a) \<and> d \<notin> set b" by simp
  then show ?thesis by simp
qed

text \<open>\<open>str::split\<close> on a one-byte separator; the result is never empty.\<close>

fun split_char :: "char \<Rightarrow> string \<Rightarrow> string list" where
  "split_char d [] = [[]]"
| "split_char d (c # s) =
     (if c = d then [] # split_char d s
      else (case split_char d s of [] \<Rightarrow> [[c]] | w # ws \<Rightarrow> (c # w) # ws))"

lemma split_char_neq_Nil [simp]: "split_char d s \<noteq> []"
  by (induction s) (auto split: list.splits)

fun join :: "string \<Rightarrow> string list \<Rightarrow> string" where
  "join sep [] = []"
| "join sep [x] = x"
| "join sep (x # y # ys) = x @ sep @ join sep (y # ys)"

lemma join_split_char: "join [d] (split_char d s) = s"
proof (induction s)
  case (Cons c s)
  show ?case
  proof (cases "split_char d s")
    case (Cons w ws)
    then show ?thesis using Cons.IH
      by (cases ws) (auto split: list.splits)
  qed simp
qed simp

text \<open>\<open>str::replace\<close>: non-overlapping occurrences from the left (the sources never replace the
  empty string).\<close>

function replace_str :: "string \<Rightarrow> string \<Rightarrow> string \<Rightarrow> string" where
  "replace_str p q [] = []"
| "replace_str p q (c # s) =
     (if p \<noteq> [] \<and> starts_with (c # s) p then q @ replace_str p q (drop (length p) (c # s))
      else c # replace_str p q s)"
  by pat_completeness auto
termination
  by (relation "measure (\<lambda>(p, q, s). length s)") (auto simp: diff_less_Suc length_greater_0_conv[symmetric] simp del: length_greater_0_conv)

text \<open>\<open>str::replace([c1, c2], r)\<close>: every listed byte by the same text.\<close>

definition replace_chars :: "char set \<Rightarrow> string \<Rightarrow> string \<Rightarrow> string" where
  "replace_chars C r s = concat (map (\<lambda>c. if c \<in> C then r else [c]) s)"

section \<open>Lines\<close>

text \<open>\<open>split_inclusive('\n')\<close>, and \<open>str::lines\<close>: a line ends at a newline, and a carriage return
  just before that newline goes with it; a last line without a newline keeps its bytes.\<close>

fun split_inclusive_nl :: "string \<Rightarrow> string list" where
  "split_inclusive_nl [] = []"
| "split_inclusive_nl (c # s) =
     (if c = CHR 0x0A then [c] # split_inclusive_nl s
      else (case split_inclusive_nl s of [] \<Rightarrow> [[c]] | w # ws \<Rightarrow> (c # w) # ws))"

definition chomp_line :: "string \<Rightarrow> string" where
  "chomp_line l =
     (case strip_suffix l [CHR 0x0A] of
        None \<Rightarrow> l
      | Some m \<Rightarrow> (case strip_suffix m [CHR 0x0D] of None \<Rightarrow> m | Some k \<Rightarrow> k))"

definition lines :: "string \<Rightarrow> string list" where
  "lines s = map chomp_line (split_inclusive_nl s)"

lemma concat_split_inclusive_nl: "concat (split_inclusive_nl s) = s"
  by (induction s) (auto split: list.splits)

lemma split_inclusive_nl_line:
  "CHR 0x0A \<notin> set l \<Longrightarrow> split_inclusive_nl (l @ CHR 0x0A # s) = (l @ [CHR 0x0A]) # split_inclusive_nl s"
  by (induction l) auto

lemma strip_suffix_snoc: "strip_suffix (l @ p) p = Some l"
  by (simp add: strip_suffix_Some)

lemma strip_suffix_cr_None: "(l = [] \<or> last l \<noteq> c) \<Longrightarrow> strip_suffix l [c] = None"
  by (auto simp: strip_suffix_def ends_with_iff)

text \<open>A line of the text, when the text is written line by line.\<close>

lemma lines_line:
  assumes "CHR 0x0A \<notin> set l" and "l = [] \<or> last l \<noteq> CHR 0x0D"
  shows "lines (l @ CHR 0x0A # s) = l # lines s"
  using assms
  by (simp add: lines_def split_inclusive_nl_line chomp_line_def strip_suffix_snoc strip_suffix_cr_None)

lemma lines_Nil [simp]: "lines [] = []"
  by (simp add: lines_def)

section \<open>ASCII case, decimal numbers\<close>

definition ascii_lower :: "char \<Rightarrow> char" where
  "ascii_lower c = (let n = of_char c :: nat in if 65 \<le> n \<and> n \<le> 90 then char_of (n + 32) else c)"

definition to_ascii_lowercase :: "string \<Rightarrow> string" where
  "to_ascii_lowercase s = map ascii_lower s"

definition eq_ignore_ascii_case :: "string \<Rightarrow> string \<Rightarrow> bool" where
  "eq_ignore_ascii_case a b = (to_ascii_lowercase a = to_ascii_lowercase b)"

definition is_ascii_digit :: "char \<Rightarrow> bool" where
  "is_ascii_digit c = (let n = of_char c :: nat in 48 \<le> n \<and> n \<le> 57)"

definition is_ascii_alphanumeric :: "char \<Rightarrow> bool" where
  "is_ascii_alphanumeric c =
     (let n = of_char c :: nat in
      (48 \<le> n \<and> n \<le> 57) \<or> (65 \<le> n \<and> n \<le> 90) \<or> (97 \<le> n \<and> n \<le> 122))"

definition is_ascii_hexdigit :: "char \<Rightarrow> bool" where
  "is_ascii_hexdigit c =
     (let n = of_char c :: nat in
      (48 \<le> n \<and> n \<le> 57) \<or> (65 \<le> n \<and> n \<le> 70) \<or> (97 \<le> n \<and> n \<le> 102))"

definition is_ascii_punctuation :: "char \<Rightarrow> bool" where
  "is_ascii_punctuation c =
     (let n = of_char c :: nat in
      (33 \<le> n \<and> n \<le> 47) \<or> (58 \<le> n \<and> n \<le> 64) \<or> (91 \<le> n \<and> n \<le> 96) \<or> (123 \<le> n \<and> n \<le> 126))"

definition digit_char :: "nat \<Rightarrow> char" where
  "digit_char d = char_of (48 + d)"

text \<open>\<open>to_string()\<close> of an unsigned integer.\<close>

fun nat_str :: "nat \<Rightarrow> string" where
  "nat_str n = (if n < 10 then [digit_char n] else nat_str (n div 10) @ [digit_char (n mod 10)])"

declare nat_str.simps [simp del]

fun digits_value :: "nat \<Rightarrow> string \<Rightarrow> nat option" where
  "digits_value acc [] = Some acc"
| "digits_value acc (c # s) =
     (if is_ascii_digit c then digits_value (10 * acc + (of_char c - 48)) s else None)"

text \<open>\<open>str::parse\<close> into an unsigned integer: one optional plus sign, at least one digit, and the
  value below the bound of the type.\<close>

definition parse_nat :: "nat \<Rightarrow> string \<Rightarrow> nat option" where
  "parse_nat bound s =
     (let t = (case strip_prefix s ''+'' of None \<Rightarrow> s | Some r \<Rightarrow> r) in
      if t = [] then None
      else (case digits_value 0 t of None \<Rightarrow> None | Some n \<Rightarrow> if n < bound then Some n else None))"

definition parse_u32 :: "string \<Rightarrow> u32 option" where
  "parse_u32 s = map_option of_nat (parse_nat (2 ^ 32) s)"

definition parse_u64 :: "string \<Rightarrow> nat option" where
  "parse_u64 s = parse_nat (2 ^ 64) s"

definition u32_str :: "u32 \<Rightarrow> string" where
  "u32_str w = nat_str (unat w)"

lemma digit_char_simps:
  assumes "d < 10"
  shows "is_ascii_digit (digit_char d)" and "of_char (digit_char d) - (48::nat) = d"
proof -
  have "of_char (char_of (48 + d) :: char) = (48 + d) mod (256::nat)" by simp
  then have "of_char (digit_char d) = 48 + d" using assms by (simp add: digit_char_def)
  then show "is_ascii_digit (digit_char d)" "of_char (digit_char d) - (48::nat) = d"
    using assms by (simp_all add: is_ascii_digit_def)
qed

lemma digits_value_append:
  "digits_value acc (s @ t) = (case digits_value acc s of None \<Rightarrow> None | Some v \<Rightarrow> digits_value v t)"
  by (induction s arbitrary: acc) auto

lemma digits_value_nat_str: "digits_value 0 (nat_str n) = Some n"
proof (induction n rule: nat_str.induct)
  case (1 n)
  show ?case
  proof (cases "n < 10")
    case True
    then show ?thesis by (subst nat_str.simps) (simp add: digit_char_simps)
  next
    case False
    with 1 have "digits_value 0 (nat_str (n div 10)) = Some (n div 10)" by simp
    with False show ?thesis
      by (subst nat_str.simps) (simp add: digits_value_append digit_char_simps)
  qed
qed

lemma nat_str_digits: "\<forall>c\<in>set (nat_str n). is_ascii_digit c"
proof (induction n rule: nat_str.induct)
  case (1 n)
  show ?case
  proof (cases "n < 10")
    case True
    then show ?thesis by (subst nat_str.simps) (simp add: digit_char_simps)
  next
    case False
    with 1 show ?thesis by (subst nat_str.simps) (auto simp: digit_char_simps)
  qed
qed

lemma nat_str_neq_Nil [simp]: "nat_str n \<noteq> []"
  by (subst nat_str.simps) simp

text \<open>Printing and parsing a \<open>u32\<close> is a round trip.\<close>

lemma parse_nat_nat_str: "n < bound \<Longrightarrow> parse_nat bound (nat_str n) = Some n"
proof -
  assume n: "n < bound"
  have "strip_prefix (nat_str n) ''+'' = None"
  proof (rule ccontr)
    assume "strip_prefix (nat_str n) ''+'' \<noteq> None"
    then obtain t where "nat_str n = ''+'' @ t" by (auto simp: strip_prefix_Some)
    then have "CHR ''+'' \<in> set (nat_str n)" by simp
    then have "is_ascii_digit (CHR ''+'')" using nat_str_digits by blast
    then show False by (simp add: is_ascii_digit_def)
  qed
  with n show ?thesis by (simp add: parse_nat_def digits_value_nat_str)
qed

lemma parse_u32_u32_str [simp]: "parse_u32 (u32_str w) = Some w"
  using unat_u32_less[of w] by (simp add: parse_u32_def u32_str_def parse_nat_nat_str)

end
