(* ===== verification/Text_Util.thy ===== *)
theory Text_Util
  imports Rust_Str
begin

text \<open>
  The character level of Rust strings: character boundaries, the characters of a string as their
  UTF-8 encodings, Unicode white space, and the trimming and splitting functions of \<open>str\<close> that
  look at it.  Case folding and the alphanumeric class of non-ASCII characters are tables of the
  Unicode database, not code; the definitions that need them take them as arguments.
\<close>

section \<open>Characters\<close>

text \<open>A byte starts a character unless it is a continuation byte \<open>10xxxxxx\<close>.\<close>

definition is_cont :: "char \<Rightarrow> bool" where
  "is_cont c = (let n = of_char c :: nat in 128 \<le> n \<and> n < 192)"

definition is_char_boundary :: "string \<Rightarrow> nat \<Rightarrow> bool" where
  "is_char_boundary s i = (i = 0 \<or> i = length s \<or> (i < length s \<and> \<not> is_cont (s ! i)))"

definition char_len :: "char \<Rightarrow> nat" where
  "char_len c =
     (let n = of_char c :: nat in if n < 192 then 1 else if n < 224 then 2 else if n < 240 then 3 else 4)"

lemma char_len_pos [simp]: "0 < char_len c"
  by (simp add: char_len_def Let_def)

text \<open>\<open>str::chars\<close>, each character as its encoding.\<close>

function chars :: "string \<Rightarrow> string list" where
  "chars [] = []"
| "chars (c # s) = (c # take (char_len c - 1) s) # chars (drop (char_len c - 1) s)"
  by pat_completeness auto
termination
  by (relation "measure length") auto

lemma concat_chars: "concat (chars s) = s"
  by (induction s rule: chars.induct) auto

text \<open>\<open>chars().take(n).collect()\<close>.\<close>

definition take_chars :: "nat \<Rightarrow> string \<Rightarrow> string" where
  "take_chars n s = concat (take n (chars s))"

definition char_count :: "string \<Rightarrow> nat" where
  "char_count s = length (chars s)"

section \<open>White space\<close>

text \<open>The UTF-8 encodings of the characters with the property \<open>White_Space\<close>
  (\<open>char::is_whitespace\<close>).\<close>

definition white_space :: "string list" where
  "white_space =
     [[CHR 0x09], [CHR 0x0A], [CHR 0x0B], [CHR 0x0C], [CHR 0x0D], [CHR 0x20],
      [CHR 0xC2, CHR 0x85], [CHR 0xC2, CHR 0xA0], [CHR 0xE1, CHR 0x9A, CHR 0x80],
      [CHR 0xE2, CHR 0x80, CHR 0x80], [CHR 0xE2, CHR 0x80, CHR 0x81], [CHR 0xE2, CHR 0x80, CHR 0x82],
      [CHR 0xE2, CHR 0x80, CHR 0x83], [CHR 0xE2, CHR 0x80, CHR 0x84], [CHR 0xE2, CHR 0x80, CHR 0x85],
      [CHR 0xE2, CHR 0x80, CHR 0x86], [CHR 0xE2, CHR 0x80, CHR 0x87], [CHR 0xE2, CHR 0x80, CHR 0x88],
      [CHR 0xE2, CHR 0x80, CHR 0x89], [CHR 0xE2, CHR 0x80, CHR 0x8A], [CHR 0xE2, CHR 0x80, CHR 0xA8],
      [CHR 0xE2, CHR 0x80, CHR 0xA9], [CHR 0xE2, CHR 0x80, CHR 0xAF], [CHR 0xE2, CHR 0x81, CHR 0x9F],
      [CHR 0xE3, CHR 0x80, CHR 0x80]]"

text \<open>The length of the white space character at the start (at the end) of a string, 0 if there
  is none.\<close>

definition ws_head :: "string \<Rightarrow> nat" where
  "ws_head s = (case List.find (starts_with s) white_space of None \<Rightarrow> 0 | Some w \<Rightarrow> length w)"

definition ws_last :: "string \<Rightarrow> nat" where
  "ws_last s = (case List.find (ends_with s) white_space of None \<Rightarrow> 0 | Some w \<Rightarrow> length w)"

lemma white_space_length: "w \<in> set white_space \<Longrightarrow> 0 < length w"
  by (auto simp: white_space_def)

lemma ws_head_le: "ws_head s \<le> length s"
proof (cases "List.find (starts_with s) white_space")
  case (Some w)
  then have "starts_with s w" by (auto dest: find_Some_iff_set)
  then have "length w \<le> length s" by (auto simp: starts_with_iff)
  with Some show ?thesis by (simp add: ws_head_def)
qed (simp add: ws_head_def)

lemma ws_last_le: "ws_last s \<le> length s"
proof (cases "List.find (ends_with s) white_space")
  case (Some w)
  then have "ends_with s w" by (auto dest: find_Some_iff_set)
  then have "length w \<le> length s" by (auto simp: ends_with_iff)
  with Some show ?thesis by (simp add: ws_last_def)
qed (simp add: ws_last_def)

lemma ws_head_Nil [simp]: "ws_head [] = 0"
  using ws_head_le[of "[]"] by simp

lemma ws_last_Nil [simp]: "ws_last [] = 0"
  using ws_last_le[of "[]"] by simp

function trim_start :: "string \<Rightarrow> string" where
  "trim_start s = (if ws_head s = 0 then s else trim_start (drop (ws_head s) s))"
  by pat_completeness auto
termination
proof (relation "measure length")
  fix s assume "ws_head s \<noteq> 0"
  then have "0 < length s" using ws_head_le[of s] by linarith
  with \<open>ws_head s \<noteq> 0\<close> show "(drop (ws_head s) s, s) \<in> measure length" by auto
qed simp

function trim_end :: "string \<Rightarrow> string" where
  "trim_end s = (if ws_last s = 0 then s else trim_end (take (length s - ws_last s) s))"
  by pat_completeness auto
termination
proof (relation "measure length")
  fix s assume "ws_last s \<noteq> 0"
  then have "0 < length s" using ws_last_le[of s] by linarith
  with \<open>ws_last s \<noteq> 0\<close> show "(take (length s - ws_last s) s, s) \<in> measure length" by auto
qed simp

declare trim_start.simps [simp del] trim_end.simps [simp del]

definition trim :: "string \<Rightarrow> string" where
  "trim s = trim_end (trim_start s)"

text \<open>\<open>split_whitespace\<close>; \<open>cur\<close> is the reversed word being read.\<close>

function split_ws :: "string \<Rightarrow> string \<Rightarrow> string list" where
  "split_ws cur [] = (if cur = [] then [] else [rev cur])"
| "split_ws cur (c # s) =
     (let n = ws_head (c # s) in
      if n = 0 then split_ws (c # cur) s
      else (if cur = [] then [] else [rev cur]) @ split_ws [] (drop n (c # s)))"
  by pat_completeness auto
termination
  by (relation "measure (\<lambda>(cur, s). length s)") auto

definition split_whitespace :: "string \<Rightarrow> string list" where
  "split_whitespace s = split_ws [] s"

text \<open>\<open>s.find(char::is_whitespace)\<close>.\<close>

fun find_ws :: "string \<Rightarrow> nat option" where
  "find_ws [] = None"
| "find_ws (c # s) = (if ws_head (c # s) \<noteq> 0 then Some 0 else map_option Suc (find_ws s))"

text \<open>Printable ASCII is not white space, and a string of it is one word.\<close>

definition ascii_graphic :: "char \<Rightarrow> bool" where
  "ascii_graphic c = (let n = of_char c :: nat in 33 \<le> n \<and> n \<le> 126)"

definition ascii_word :: "string \<Rightarrow> bool" where
  "ascii_word s = list_all ascii_graphic s"

lemma white_space_ends: "w \<in> set white_space \<Longrightarrow> w \<noteq> [] \<and> \<not> ascii_graphic (hd w) \<and> \<not> ascii_graphic (last w)"
  by (auto simp: white_space_def ascii_graphic_def)

lemma ws_head_graphic:
  assumes "ascii_graphic c"
  shows "ws_head (c # s) = 0"
proof -
  have "\<not> starts_with (c # s) w" if "w \<in> set white_space" for w
    using white_space_ends[OF that] assms by (cases w) (auto simp: starts_with_Cons)
  then have "List.find (starts_with (c # s)) white_space = None" by (simp add: find_None_iff)
  then show ?thesis by (simp add: ws_head_def)
qed

lemma ws_last_graphic:
  assumes "ascii_graphic c"
  shows "ws_last (s @ [c]) = 0"
proof -
  have "\<not> ends_with (s @ [c]) w" if "w \<in> set white_space" for w
  proof
    assume "ends_with (s @ [c]) w"
    then obtain t where "s @ [c] = t @ w" by (auto simp: ends_with_iff)
    with white_space_ends[OF that] have "last w = c" by (metis last_appendR last_snoc)
    with white_space_ends[OF that] assms show False by simp
  qed
  then have "List.find (ends_with (s @ [c])) white_space = None" by (simp add: find_None_iff)
  then show ?thesis by (simp add: ws_last_def)
qed

lemma trim_start_graphic: "ascii_graphic c \<Longrightarrow> trim_start (c # s) = c # s"
  by (subst trim_start.simps) (simp add: ws_head_graphic)

lemma trim_start_space [simp]: "trim_start (CHR 0x20 # s) = trim_start s"
proof -
  have "ws_head (CHR 0x20 # s) = 1"
    by (simp add: ws_head_def white_space_def starts_with_def)
  then show ?thesis by (subst trim_start.simps) simp
qed

lemma trim_start_word: "ascii_word s \<Longrightarrow> trim_start s = s"
  by (cases s) (auto simp: ascii_word_def trim_start_graphic trim_start.simps[of "[]"])

lemma trim_end_graphic: "ascii_graphic c \<Longrightarrow> trim_end (s @ [c]) = s @ [c]"
  by (subst trim_end.simps) (simp add: ws_last_graphic)

lemma trim_end_word: "ascii_word s \<Longrightarrow> trim_end s = s"
  by (cases s rule: rev_cases) (auto simp: ascii_word_def trim_end_graphic trim_end.simps[of "[]"])

lemma trim_word: "ascii_word s \<Longrightarrow> trim s = s"
  by (simp add: trim_def trim_start_word trim_end_word)

lemma find_ws_word: "ascii_word s \<Longrightarrow> find_ws s = None"
  by (induction s) (auto simp: ascii_word_def ws_head_graphic)

lemma find_ws_word_append:
  "ascii_word s \<Longrightarrow> find_ws (s @ t) = map_option (\<lambda>i. length s + i) (find_ws t)"
  by (cases "find_ws t"; induction s) (auto simp: ascii_word_def ws_head_graphic)

lemma ws_head_space: "ws_head (CHR 0x20 # s) = 1"
  by (simp add: ws_head_def white_space_def starts_with_def)

lemma split_ws_word: "ascii_word s \<Longrightarrow> split_ws cur (s @ t) = split_ws (rev s @ cur) t"
  by (induction s arbitrary: cur) (auto simp: ascii_word_def ws_head_graphic)

lemma split_ws_space: "split_ws cur (CHR 0x20 # s) = (if cur = [] then [] else [rev cur]) @ split_ws [] s"
  by (simp add: ws_head_space)

lemma ascii_word_append [simp]: "ascii_word (a @ b) \<longleftrightarrow> ascii_word a \<and> ascii_word b"
  by (simp add: ascii_word_def)

lemma ascii_word_Cons [simp]: "ascii_word (c # s) \<longleftrightarrow> ascii_graphic c \<and> ascii_word s"
  by (simp add: ascii_word_def)

lemma ascii_word_Nil [simp]: "ascii_word []"
  by (simp add: ascii_word_def)

lemma ascii_digit_graphic: "is_ascii_digit c \<Longrightarrow> ascii_graphic c"
  by (auto simp: is_ascii_digit_def ascii_graphic_def Let_def)

lemma ascii_word_nat_str [simp]: "ascii_word (nat_str n)"
  using nat_str_digits[of n] ascii_digit_graphic by (auto simp: ascii_word_def list_all_iff)

section \<open>Lossy decoding\<close>

text \<open>\<open>String::from_utf8_lossy\<close>: every maximal ill-formed subsequence becomes one U+FFFD.
  \<open>second_ok\<close> is the range of the second byte that the lead byte allows.\<close>

definition cont_byte :: "char \<Rightarrow> bool" where
  "cont_byte c = is_cont c"

definition in_range :: "nat \<Rightarrow> nat \<Rightarrow> char \<Rightarrow> bool" where
  "in_range lo hi c = (let n = of_char c :: nat in lo \<le> n \<and> n \<le> hi)"

definition second_ok :: "nat \<Rightarrow> char \<Rightarrow> bool" where
  "second_ok lead c =
     (if lead = 0xE0 then in_range 0xA0 0xBF c
      else if lead = 0xED then in_range 0x80 0x9F c
      else if lead = 0xF0 then in_range 0x90 0xBF c
      else if lead = 0xF4 then in_range 0x80 0x8F c
      else in_range 0x80 0xBF c)"

definition replacement_char :: string where
  "replacement_char = [CHR 0xEF, CHR 0xBF, CHR 0xBD]"

text \<open>The length of the well-formed character at the start (\<open>Inr\<close>), or of the ill-formed maximal
  subpart there (\<open>Inl\<close>).\<close>

definition utf8_head :: "char \<Rightarrow> string \<Rightarrow> nat + nat" where
  "utf8_head c s =
     (let n = of_char c :: nat;
          ok2 = (case s of [] \<Rightarrow> False | d # _ \<Rightarrow> second_ok n d);
          ok3 = (case drop 1 s of [] \<Rightarrow> False | d # _ \<Rightarrow> cont_byte d);
          ok4 = (case drop 2 s of [] \<Rightarrow> False | d # _ \<Rightarrow> cont_byte d) in
      if n < 0x80 then Inr 1
      else if 0xC2 \<le> n \<and> n \<le> 0xDF then (if ok2 then Inr 2 else Inl 1)
      else if 0xE0 \<le> n \<and> n \<le> 0xEF then
        (if \<not> ok2 then Inl 1 else if \<not> ok3 then Inl 2 else Inr 3)
      else if 0xF0 \<le> n \<and> n \<le> 0xF4 then
        (if \<not> ok2 then Inl 1 else if \<not> ok3 then Inl 2 else if \<not> ok4 then Inl 3 else Inr 4)
      else Inl 1)"

function from_utf8_lossy :: "string \<Rightarrow> string" where
  "from_utf8_lossy [] = []"
| "from_utf8_lossy (c # s) =
     (case utf8_head c s of
        Inr n \<Rightarrow> take n (c # s) @ from_utf8_lossy (drop (n - 1) s)
      | Inl n \<Rightarrow> replacement_char @ from_utf8_lossy (drop (n - 1) s))"
  by pat_completeness auto
termination
  by (relation "measure length") auto

lemma from_utf8_lossy_ascii:
  "\<forall>c\<in>set s. (of_char c :: nat) < 0x80 \<Longrightarrow> from_utf8_lossy s = s"
  by (induction s) (auto simp: utf8_head_def Let_def)


text \<open>
  \<open>src/src/text.rs\<close>: truncation of a string to a byte limit that never cuts a character.  The
  \<open>while\<close> loop that backs off to a character boundary is \<open>char_floor\<close>.
\<close>

fun char_floor :: "string \<Rightarrow> nat \<Rightarrow> nat" where
  "char_floor s 0 = 0"
| "char_floor s (Suc e) = (if \<not> is_char_boundary s (Suc e) then char_floor s e else Suc e)"

definition truncate_bytes :: "string \<Rightarrow> nat \<Rightarrow> string" where
  "truncate_bytes s limit =
     (if length s \<le> limit then s
      else take (char_floor s limit) s
             @ ''...[truncated, '' @ nat_str (length s) @ '' bytes total]'')"

definition excerpt_bytes :: "string \<Rightarrow> nat \<Rightarrow> string" where
  "excerpt_bytes s limit = (if length s \<le> limit then s else take (char_floor s limit) s)"

lemma char_floor_le: "char_floor s e \<le> e"
  by (induction e) auto

lemma char_floor_boundary: "is_char_boundary s (char_floor s e)"
  by (induction e) (auto simp: is_char_boundary_def)

lemma char_floor_greatest: "is_char_boundary s i \<Longrightarrow> i \<le> e \<Longrightarrow> i \<le> char_floor s e"
proof (induction e)
  case (Suc e)
  then show ?case by (cases "i = Suc e") auto
qed simp

lemma length_excerpt_bytes: "length (excerpt_bytes s limit) \<le> limit"
  using char_floor_le[of s limit] by (simp add: excerpt_bytes_def)

lemma excerpt_bytes_take: "excerpt_bytes s limit = take (length (excerpt_bytes s limit)) s"
  by (auto simp: excerpt_bytes_def min_def)

text \<open>The excerpt is the longest prefix within the limit that ends on a character boundary.\<close>

theorem excerpt_bytes_longest:
  "prefix (excerpt_bytes s limit) s
     \<and> length (excerpt_bytes s limit) \<le> limit
     \<and> is_char_boundary s (length (excerpt_bytes s limit))
     \<and> (\<nexists>i. length (excerpt_bytes s limit) < i \<and> i \<le> limit \<and> i \<le> length s \<and> is_char_boundary s i)"
proof (cases "length s \<le> limit")
  case True
  then show ?thesis by (auto simp: excerpt_bytes_def is_char_boundary_def)
next
  case False
  then have len: "length (excerpt_bytes s limit) = char_floor s limit"
    using char_floor_le[of s limit] by (simp add: excerpt_bytes_def)
  have "prefix (excerpt_bytes s limit) s"
    using excerpt_bytes_take take_is_prefix by metis
  moreover have "i \<le> char_floor s limit" if "i \<le> limit" "is_char_boundary s i" for i
    using that by (simp add: char_floor_greatest)
  ultimately show ?thesis
    using len length_excerpt_bytes[of s limit] char_floor_boundary[of s limit] by fastforce
qed

end
