(* ===== verification/Diff.thy ===== *)
theory Diff
  imports Text_Util
begin

text \<open>
  \<open>src/src/diff.rs\<close>: the unified-diff data model, the parser \<open>parse_unified\<close>, the lookups that
  anchor a finding in the diff, and the selection of file diffs under a byte budget.  The mutable
  locals of \<open>parse_unified\<close> (\<open>set\<close>, \<open>cur\<close>, \<open>hunk\<close>, \<open>old_no\<close>, \<open>new_no\<close>) are the record
  \<open>parse_st\<close>, one iteration of its loop is \<open>parse_line\<close>.  Line numbers are \<open>u32\<close> words, as the
  release build computes them.
\<close>

section \<open>Data\<close>

datatype diff_line_kind = Add | Del | Ctx

record diff_line =
  dl_kind :: diff_line_kind
  dl_old_no :: "u32 option"
  dl_new_no :: "u32 option"
  dl_text :: string

record hunk =
  old_start :: u32
  old_len :: u32
  new_start :: u32
  new_len :: u32
  hk_lines :: "diff_line list"

datatype file_status = Added | Modified | Deleted | Renamed

record file_diff =
  old_path :: string
  new_path :: string
  fd_status :: file_status
  hunks :: "hunk list"

type_synonym diff_set = "file_diff list"

section \<open>Lookups\<close>

definition diff_file :: "diff_set \<Rightarrow> string \<Rightarrow> file_diff option" where
  "diff_file d path = List.find (\<lambda>f. new_path f = path \<or> old_path f = path) d"

definition head_no :: "diff_line \<Rightarrow> u32 option" where
  "head_no l = (if dl_kind l = Add \<or> dl_kind l = Ctx then dl_new_no l else None)"

definition head_side_lines :: "diff_set \<Rightarrow> string \<Rightarrow> u32 set" where
  "head_side_lines d path =
     (case diff_file d path of
        None \<Rightarrow> {}
      | Some f \<Rightarrow> set (List.map_filter head_no (concat (map hk_lines (hunks f)))))"

definition num_or_0 :: "u32 option \<Rightarrow> u32" where
  "num_or_0 n = (case n of None \<Rightarrow> 0 | Some k \<Rightarrow> k)"

text \<open>\<open>{:>12}\<close> pads on the left to twelve characters; the padded text is ASCII.\<close>

definition pad_left :: "nat \<Rightarrow> string \<Rightarrow> string" where
  "pad_left w s = replicate (w - length s) (CHR '' '') @ s"

definition render_hunk_line :: "diff_line \<Rightarrow> string" where
  "render_hunk_line l =
     (let (pfx, nums) =
        (case dl_kind l of
           Add \<Rightarrow> (''+'', ''    ->'' @ u32_str (num_or_0 (dl_new_no l)))
         | Del \<Rightarrow> (''-'', u32_str (num_or_0 (dl_old_no l)) @ ''->    '')
         | Ctx \<Rightarrow> ('' '', u32_str (num_or_0 (dl_old_no l)) @ '':'' @ u32_str (num_or_0 (dl_new_no l))))
      in pfx @ '' '' @ pad_left 12 nums @ '' '' @ dl_text l @ [CHR 0x0A])"

definition ranges_str :: "hunk \<Rightarrow> string" where
  "ranges_str h =
     ''@@ -'' @ u32_str (old_start h) @ '','' @ u32_str (old_len h)
      @ '' +'' @ u32_str (new_start h) @ '','' @ u32_str (new_len h) @ '' @@''"

definition render_hunk :: "file_diff \<Rightarrow> hunk \<Rightarrow> string" where
  "render_hunk f h =
     ranges_str h @ '' '' @ new_path f @ [CHR 0x0A] @ concat (map render_hunk_line (hk_lines h))"

definition hunk_has_line :: "u32 \<Rightarrow> hunk \<Rightarrow> bool" where
  "hunk_has_line line h = list_ex (\<lambda>l. dl_new_no l = Some line \<and> dl_kind l \<noteq> Del) (hk_lines h)"

definition hunk_containing :: "diff_set \<Rightarrow> string \<Rightarrow> u32 \<Rightarrow> string option" where
  "hunk_containing d path line =
     (case diff_file d path of
        None \<Rightarrow> None
      | Some f \<Rightarrow> map_option (render_hunk f) (List.find (hunk_has_line line) (hunks f)))"

definition head_end :: "hunk \<Rightarrow> u32" where
  "head_end h = u32_sat_add (new_start h) (u32_sat_sub (new_len h) 1)"

definition head_distance :: "u32 \<Rightarrow> hunk \<Rightarrow> u32" where
  "head_distance line h =
     max (u32_sat_sub (new_start h) line) (u32_sat_sub line (head_end h))"

definition head_range :: "hunk \<Rightarrow> string" where
  "head_range h =
     (if new_len h = 0 then ''+'' @ u32_str (new_start h) @ '',0 (empty)''
      else ''+'' @ u32_str (new_start h) @ ''..''
             @ u32_str (u32_sat_add (new_start h) (new_len h - 1)))"

definition ellipsis :: string where
  "ellipsis = [CHR 0xE2, CHR 0x80, CHR 0xA6]"

definition diff_context :: "diff_set \<Rightarrow> string \<Rightarrow> u32 \<Rightarrow> string + string" where
  "diff_context d path line =
     (case hunk_containing d path line of
        Some c \<Rightarrow> Inr c
      | None \<Rightarrow>
          (case diff_file d path of
             None \<Rightarrow> Inl (path @ '' is not changed in this pull request; use read_file'')
           | Some f \<Rightarrow>
               (case min_by_key (head_distance line) (hunks f) of
                  Some h \<Rightarrow>
                    if head_distance line h \<le> 40
                    then Inr (''Requested line '' @ path @ '':'' @ u32_str line
                           @ '' is outside the diff; showing head-side range '' @ head_range h @ ''.''
                           @ [CHR 0x0A] @ render_hunk f h)
                    else Inl (''no hunk within 40 lines of '' @ path @ '':'' @ u32_str line
                           @ ''; head-side hunk ranges: ''
                           @ join '', '' (map head_range (take 20 (hunks f)))
                           @ (if length (hunks f) > 20 then '', '' @ ellipsis else []))
                | None \<Rightarrow> Inl (''no hunk within 40 lines of '' @ path @ '':'' @ u32_str line
                           @ ''; head-side hunk ranges: none''))))"

section \<open>Rendering\<close>

definition line_sign :: "diff_line_kind \<Rightarrow> char" where
  "line_sign k = (case k of Add \<Rightarrow> CHR ''+'' | Del \<Rightarrow> CHR ''-'' | Ctx \<Rightarrow> CHR '' '')"

definition render_line :: "diff_line \<Rightarrow> string" where
  "render_line l = line_sign (dl_kind l) # dl_text l @ [CHR 0x0A]"

definition file_header :: "file_diff \<Rightarrow> string" where
  "file_header f = ''diff --git a/'' @ old_path f @ '' b/'' @ new_path f @ [CHR 0x0A]"

definition render_hunk_body :: "hunk \<Rightarrow> string" where
  "render_hunk_body h = ranges_str h @ [CHR 0x0A] @ concat (map render_line (hk_lines h))"

definition render_file :: "file_diff \<Rightarrow> string" where
  "render_file f = file_header f @ concat (map render_hunk_body (hunks f))"

definition render :: "diff_set \<Rightarrow> string" where
  "render d = concat (map render_file d)"

definition omitted_note :: "file_diff \<Rightarrow> string" where
  "omitted_note f =
     file_header f
      @ ''[file diff omitted: exceeds max_diff_bytes; hunks still available through diff_context]''
      @ [CHR 0x0A]"

definition file_excerpt :: "diff_set \<Rightarrow> string \<Rightarrow> string" where
  "file_excerpt d path =
     concat (map render_file (filter (\<lambda>f. new_path f = path \<or> old_path f = path) d))"

section \<open>Budget priority of a path\<close>

definition low_signal_names :: "string list" where
  "low_signal_names =
     [''package-lock.json'', ''npm-shrinkwrap.json'', ''pnpm-lock.yaml'', ''yarn.lock'',
      ''go.sum'']"

definition vendored_dirs :: "string list" where
  "vendored_dirs =
     [''vendor'', ''vendors'', ''vendored'', ''third_party'', ''third-party'', ''node_modules'',
      ''generated'', ''__generated__'', ''gen'', ''dist'']"

definition build_extensions :: "string list" where
  "build_extensions =
     [''toml'', ''yaml'', ''yml'', ''json'', ''jsonc'', ''json5'', ''ini'', ''cfg'', ''conf'',
      ''config'', ''xml'', ''gradle'', ''cmake'']"

definition build_names :: "string list" where
  "build_names =
     [''makefile'', ''gnumakefile'', ''cmakelists.txt'', ''build.rs'', ''build'', ''build.bazel'',
      ''workspace'', ''workspace.bazel'', ''dockerfile'', ''containerfile'', ''justfile'',
      ''gemfile'', ''rakefile'', ''setup.py'', ''.gitignore'', ''.gitattributes'',
      ''.dockerignore'', ''.editorconfig'', ''.tool-versions'']"

definition source_extensions :: "string list" where
  "source_extensions =
     [''rs'', ''c'', ''h'', ''cc'', ''cpp'', ''cxx'', ''hpp'', ''hxx'', ''cs'', ''fs'', ''fsx'',
      ''go'', ''java'', ''kt'', ''kts'', ''scala'', ''swift'', ''m'', ''mm'', ''py'', ''pyi'',
      ''rb'', ''php'', ''pl'', ''pm'', ''lua'', ''js'', ''jsx'', ''ts'', ''tsx'', ''mjs'', ''cjs'',
      ''mts'', ''cts'', ''vue'', ''svelte'', ''html'', ''htm'', ''css'', ''scss'', ''sass'',
      ''less'', ''sh'', ''bash'', ''zsh'', ''fish'', ''ps1'', ''r'', ''jl'', ''ex'', ''exs'',
      ''erl'', ''hrl'', ''hs'', ''lhs'', ''clj'', ''cljs'', ''cljc'', ''dart'', ''sql'',
      ''graphql'', ''gql'', ''proto'', ''zig'', ''ml'', ''mli'', ''nim'']"

definition prose_extensions :: "string list" where
  "prose_extensions = [''md'', ''markdown'', ''mdx'', ''rst'', ''txt'', ''adoc'', ''asciidoc'']"

definition prose_names :: "string list" where
  "prose_names =
     [''readme'', ''license'', ''copying'', ''changelog'', ''contributing'', ''authors'',
      ''notice'']"

definition doc_dirs :: "string list" where
  "doc_dirs =
     [''doc'', ''docs'', ''documentation'', ''skill'', ''skills'', ''rule'', ''rules'',
      ''.agents'', ''.claude'', ''.opencode'', ''.cursor'']"

definition test_dirs :: "string list" where
  "test_dirs =
     [''test'', ''tests'', ''__tests__'', ''spec'', ''specs'', ''fixtures'', ''testdata'']"

text \<open>\<open>parts\<close>, \<open>name\<close> and \<open>extension\<close> of \<open>file_priority\<close>.\<close>

definition path_parts :: "string \<Rightarrow> string list" where
  "path_parts path = split_char (CHR ''/'') path"

definition path_extension :: "string \<Rightarrow> string" where
  "path_extension name =
     (case rsplit_once (CHR ''.'') name of None \<Rightarrow> [] | Some (_, ext) \<Rightarrow> ext)"

definition is_low_signal :: "string list \<Rightarrow> string \<Rightarrow> string \<Rightarrow> bool" where
  "is_low_signal parts name extension =
     (extension \<in> {''lock'', ''lockb''} \<or> name \<in> set low_signal_names
      \<or> list_ex (\<lambda>p. p \<in> set vendored_dirs) parts
      \<or> str_contains name ''.min.'' \<or> str_contains name ''.generated.''
      \<or> str_contains name ''.g.'' \<or> str_contains name ''.pb.''
      \<or> ends_with name ''_pb2.py'' \<or> ends_with name ''_pb2_grpc.py'')"

definition is_build_config :: "string list \<Rightarrow> string \<Rightarrow> string \<Rightarrow> bool" where
  "is_build_config parts name extension =
     (extension \<in> set build_extensions \<or> ''.github'' \<in> set parts \<or> name \<in> set build_names
      \<or> starts_with name ''dockerfile.'')"

definition is_source :: "string \<Rightarrow> bool" where
  "is_source extension = (extension \<in> set source_extensions)"

definition is_prose :: "string list \<Rightarrow> string \<Rightarrow> string \<Rightarrow> bool" where
  "is_prose parts name extension =
     ((extension \<in> set prose_extensions \<and> name \<noteq> ''cmakelists.txt'')
      \<or> name \<in> set prose_names
      \<or> (\<not> is_source extension \<and> \<not> is_build_config parts name extension
          \<and> list_ex (\<lambda>p. p \<in> set doc_dirs) parts))"

definition is_test :: "string list \<Rightarrow> string \<Rightarrow> bool" where
  "is_test parts name =
     (list_ex (\<lambda>p. p \<in> set test_dirs) parts \<or> starts_with name ''test_''
      \<or> str_contains name ''.test.'' \<or> str_contains name ''.spec.''
      \<or> (case rsplit_once (CHR ''.'') name of
           None \<Rightarrow> False
         | Some (stem, _) \<Rightarrow> ends_with stem ''_test'' \<or> ends_with stem ''_tests''))"

definition file_priority :: "string \<Rightarrow> nat" where
  "file_priority path0 =
     (let path = to_ascii_lowercase path0;
          parts = path_parts path;
          name = last parts;
          extension = path_extension name in
      if is_low_signal parts name extension then 4
      else if is_prose parts name extension then 3
      else if is_test parts name then 1
      else if is_build_config parts name extension then 2
      else 0)"

section \<open>Selection under the byte budget\<close>

text \<open>One iteration of the loop of \<open>selected_files\<close>: the state is \<open>(selected, used)\<close>.\<close>

definition select_one :: "diff_set \<Rightarrow> nat \<Rightarrow> nat \<Rightarrow> bool list \<times> nat \<Rightarrow> bool list \<times> nat" where
  "select_one d max_bytes i st =
     (let (selected, used) = st; f = d ! i; bytes = length (render_file f) in
      if used + bytes \<le> max_bytes then (selected[i := True], used + bytes)
      else (selected, used + length (omitted_note f)))"

definition select_order :: "diff_set \<Rightarrow> nat list" where
  "select_order d = sort_key (\<lambda>i. file_priority (new_path (d ! i))) [0..<length d]"

definition selected_files :: "diff_set \<Rightarrow> nat \<Rightarrow> bool list" where
  "selected_files d max_bytes =
     fst (fold (select_one d max_bytes) (select_order d) (replicate (length d) False, 0))"

definition omitted_files :: "diff_set \<Rightarrow> nat \<Rightarrow> string list" where
  "omitted_files d max_bytes =
     map (\<lambda>(f, _). new_path f) (filter (\<lambda>(_, sel). \<not> sel) (zip d (selected_files d max_bytes)))"

definition render_truncated :: "diff_set \<Rightarrow> nat \<Rightarrow> string" where
  "render_truncated d max_bytes =
     concat (map (\<lambda>(f, sel). if sel then render_file f else omitted_note f)
                 (zip d (selected_files d max_bytes)))"

section \<open>Parsing\<close>

definition split_range :: "string \<Rightarrow> u32 \<times> u32" where
  "split_range s =
     (case split_once (CHR '','') s of
        Some (a, b) \<Rightarrow> (num_or_0 (parse_u32 a), num_or_0 (parse_u32 b))
      | None \<Rightarrow> (num_or_0 (parse_u32 s), 1))"

text \<open>\<open>trim_start_matches("@@")\<close> and \<open>trim_start_matches("-")\<close>.\<close>

fun trim_at_signs :: "string \<Rightarrow> string" where
  "trim_at_signs (CHR ''@'' # CHR ''@'' # s) = trim_at_signs s"
| "trim_at_signs s = s"

definition trim_start_char :: "char \<Rightarrow> string \<Rightarrow> string" where
  "trim_start_char c s = dropWhile (\<lambda>x. x = c) s"

definition parse_hunk_header :: "string \<Rightarrow> (u32 \<times> u32 \<times> u32 \<times> u32) option" where
  "parse_hunk_header line =
     (case split_whitespace (trim_at_signs line) of
        o1 # n1 # _ \<Rightarrow>
          (case (strip_prefix o1 ''-'', strip_prefix n1 ''+'') of
             (Some ol, Some nw) \<Rightarrow>
               (let (os, oln) = split_range ol; (ns, nln) = split_range nw in Some (os, oln, ns, nln))
           | _ \<Rightarrow> None)
      | _ \<Rightarrow> None)"

definition strip_ab_prefix :: "string \<Rightarrow> string" where
  "strip_ab_prefix path =
     (case strip_prefix path ''a/'' of
        Some p \<Rightarrow> p
      | None \<Rightarrow> (case strip_prefix path ''b/'' of Some p \<Rightarrow> p | None \<Rightarrow> path))"

definition is_octal :: "char \<Rightarrow> bool" where
  "is_octal c = (let n = of_char c :: nat in 48 \<le> n \<and> n \<le> 55)"

definition octal_value :: "string \<Rightarrow> nat" where
  "octal_value ds = foldl (\<lambda>v c. v * 8 + (of_char c - 48)) 0 ds"

text \<open>The loop of \<open>unquote\<close> over the bytes between the quotes.\<close>

function unescape :: "string \<Rightarrow> string" where
  "unescape [] = []"
| "unescape [c] = [c]"
| "unescape (c # d # s) =
     (if c \<noteq> CHR 0x5C then c # unescape (d # s)
      else if d = CHR ''t'' then CHR 0x09 # unescape s
      else if d = CHR ''n'' then CHR 0x0A # unescape s
      else if d = CHR ''r'' then CHR 0x0D # unescape s
      else if is_octal d then
        (let ds = takeWhile is_octal (take 2 s) in
         char_of (octal_value (d # ds)) # unescape (drop (length ds) s))
      else d # unescape s)"
  by pat_completeness auto
termination
  by (relation "measure length") (auto simp: Let_def)

definition unquote :: "string \<Rightarrow> string option" where
  "unquote s0 =
     (case strip_prefix (trim s0) [CHR 0x22] of
        None \<Rightarrow> None
      | Some r \<Rightarrow>
          (case strip_suffix r [CHR 0x22] of
             None \<Rightarrow> None
           | Some inner \<Rightarrow> Some (from_utf8_lossy (unescape inner))))"

definition unwrap_or :: "'a option \<Rightarrow> 'a \<Rightarrow> 'a" where
  "unwrap_or x d = (case x of None \<Rightarrow> d | Some v \<Rightarrow> v)"

text \<open>The scan of \<open>path_token\<close> for the closing quote.\<close>

fun close_quote :: "string \<Rightarrow> nat option" where
  "close_quote [] = None"
| "close_quote (c # s) =
     (if c = CHR 0x5C then (case s of [] \<Rightarrow> None | _ # t \<Rightarrow> map_option (\<lambda>i. i + 2) (close_quote t))
      else if c = CHR 0x22 then Some 0
      else map_option Suc (close_quote s))"

definition path_token :: "string \<Rightarrow> string \<times> string" where
  "path_token s0 =
     (let s = trim_start s0 in
      if starts_with s [CHR 0x22] then
        (case close_quote (drop 1 s) of
           Some k \<Rightarrow>
             (let i = Suc k; tok = take (Suc i) s in (unwrap_or (unquote tok) tok, drop (Suc i) s))
         | None \<Rightarrow> (unwrap_or (unquote s) s, []))
      else
        (case find_ws s of
           Some i \<Rightarrow> (take i s, drop i s)
         | None \<Rightarrow> (s, [])))"

definition normalize_diff_path :: "string \<Rightarrow> string" where
  "normalize_diff_path path =
     (let p = trim path;
          p = (if starts_with p [CHR 0x22] then unwrap_or (unquote p) p else p) in
      strip_ab_prefix p)"

record parse_st =
  ps_files :: diff_set
  ps_cur :: "file_diff option"
  ps_hunk :: "hunk option"
  ps_old_no :: u32
  ps_new_no :: u32

definition parse_init :: parse_st where
  "parse_init = \<lparr>ps_files = [], ps_cur = None, ps_hunk = None, ps_old_no = 0, ps_new_no = 0\<rparr>"

definition push_hunk :: "hunk option \<Rightarrow> file_diff \<Rightarrow> file_diff" where
  "push_hunk h f = (case h of None \<Rightarrow> f | Some k \<Rightarrow> f\<lparr>hunks := hunks f @ [k]\<rparr>)"

text \<open>\<open>if let Some(f) = cur.take()\<close>: close the open hunk and file.\<close>

definition flush_file :: "parse_st \<Rightarrow> parse_st" where
  "flush_file st =
     (case ps_cur st of
        None \<Rightarrow> st
      | Some f \<Rightarrow> st\<lparr>ps_files := ps_files st @ [push_hunk (ps_hunk st) f],
                   ps_cur := None, ps_hunk := None\<rparr>)"

definition start_file :: "string \<Rightarrow> file_diff" where
  "start_file rest =
     (let (a_raw, rest') = path_token rest; (b_raw, _) = path_token rest' in
      \<lparr>old_path = strip_ab_prefix a_raw, new_path = strip_ab_prefix b_raw,
       fd_status = Modified, hunks = []\<rparr>)"

text \<open>A line of the file's extended header that names a path or a status.\<close>

definition header_line :: "file_diff \<Rightarrow> string \<Rightarrow> file_diff option" where
  "header_line f line =
     (case strip_prefix line ''rename from '' of
        Some p \<Rightarrow> Some (f\<lparr>old_path := normalize_diff_path p\<rparr>)
      | None \<Rightarrow>
     (case strip_prefix line ''rename to '' of
        Some p \<Rightarrow> Some (f\<lparr>new_path := normalize_diff_path p, fd_status := Renamed\<rparr>)
      | None \<Rightarrow>
      if starts_with line ''new file mode'' then Some (f\<lparr>fd_status := Added\<rparr>)
      else if starts_with line ''deleted file mode'' then Some (f\<lparr>fd_status := Deleted\<rparr>)
      else if starts_with line ''--- '' then
        (let p = trim (trim_start_char (CHR ''-'') line) in
         if p \<noteq> ''/dev/null'' then Some (f\<lparr>old_path := normalize_diff_path p\<rparr>)
         else Some (f\<lparr>fd_status := Added\<rparr>))
      else if starts_with line ''+++ '' then
        (let p = trim (trim_start_char (CHR ''+'') line) in
         if p \<noteq> ''/dev/null'' then Some (f\<lparr>new_path := normalize_diff_path p\<rparr>)
         else Some (f\<lparr>fd_status := Deleted\<rparr>))
      else None))"

text \<open>The kind and the text of a content line.\<close>

definition content_line :: "string \<Rightarrow> diff_line_kind \<times> string" where
  "content_line line =
     (case line of
        CHR ''+'' # t \<Rightarrow> (Add, t)
      | CHR ''-'' # t \<Rightarrow> (Del, t)
      | _ \<Rightarrow> (Ctx, unwrap_or (strip_prefix line '' '') line))"

definition push_line :: "parse_st \<Rightarrow> hunk \<Rightarrow> string \<Rightarrow> parse_st" where
  "push_line st h line =
     (let (kind, text) = content_line line; on = ps_old_no st; nn = ps_new_no st in
      case kind of
        Add \<Rightarrow> st\<lparr>ps_new_no := nn + 1, ps_hunk := Some (h\<lparr>hk_lines := hk_lines h @
                 [\<lparr>dl_kind = Add, dl_old_no = None, dl_new_no = Some nn, dl_text = text\<rparr>]\<rparr>)\<rparr>
      | Del \<Rightarrow> st\<lparr>ps_old_no := on + 1, ps_hunk := Some (h\<lparr>hk_lines := hk_lines h @
                 [\<lparr>dl_kind = Del, dl_old_no = Some on, dl_new_no = None, dl_text = text\<rparr>]\<rparr>)\<rparr>
      | Ctx \<Rightarrow> st\<lparr>ps_old_no := on + 1, ps_new_no := nn + 1, ps_hunk := Some (h\<lparr>hk_lines := hk_lines h @
                 [\<lparr>dl_kind = Ctx, dl_old_no = Some on, dl_new_no = Some nn, dl_text = text\<rparr>]\<rparr>)\<rparr>)"

definition start_hunk :: "parse_st \<Rightarrow> file_diff \<Rightarrow> u32 \<times> u32 \<times> u32 \<times> u32 \<Rightarrow> parse_st" where
  "start_hunk st f r =
     (let (os, ol, ns, nl) = r in
      st\<lparr>ps_cur := Some (push_hunk (ps_hunk st) f), ps_old_no := os, ps_new_no := ns,
         ps_hunk := Some \<lparr>old_start = os, old_len = ol, new_start = ns, new_len = nl, hk_lines = []\<rparr>\<rparr>)"

definition parse_line :: "string \<Rightarrow> parse_st \<Rightarrow> parse_st" where
  "parse_line line st =
     (case strip_prefix line ''diff --git '' of
        Some rest \<Rightarrow> (flush_file st)\<lparr>ps_cur := Some (start_file rest)\<rparr>
      | None \<Rightarrow>
     (case ps_cur st of
        None \<Rightarrow> st
      | Some f \<Rightarrow>
     (case header_line f line of
        Some f' \<Rightarrow> st\<lparr>ps_cur := Some f'\<rparr>
      | None \<Rightarrow>
      if starts_with line ''@@'' then
        (case parse_hunk_header line of None \<Rightarrow> st | Some r \<Rightarrow> start_hunk st f r)
      else
        (case ps_hunk st of
           None \<Rightarrow> st
         | Some h \<Rightarrow> if starts_with line [CHR 0x5C] then st else push_line st h line))))"

definition parse_unified :: "string \<Rightarrow> diff_set" where
  "parse_unified text = ps_files (flush_file (fold parse_line (lines text) parse_init))"

end
