(* ===== verification/Json.thy ===== *)
theory Json
  imports Rust_Str
begin

text \<open>
  The JSON values of \<open>serde_json\<close> as the sources use them: a tree, with the total indexing operator
  (\<open>v["k"]\<close> is \<open>null\<close> when there is no such key) and the typed accessors.  An object is an association
  list with distinct keys.  A number is an unsigned or a negative integer, or a float, whose value
  the modelled code never looks at.  Parsing and printing of JSON text is library code and stays a
  parameter of the definitions that need it.
\<close>

datatype json =
    JNull
  | JBool bool
  | JNat nat
  | JNeg nat
  | JFloat string
  | JStr string
  | JArr "json list"
  | JObj "(string \<times> json) list"

definition jget :: "json \<Rightarrow> string \<Rightarrow> json option" where
  "jget v k = (case v of JObj kvs \<Rightarrow> map_of kvs k | _ \<Rightarrow> None)"

definition jidx :: "json \<Rightarrow> string \<Rightarrow> json" where
  "jidx v k = (case jget v k of Some w \<Rightarrow> w | None \<Rightarrow> JNull)"

definition as_str :: "json \<Rightarrow> string option" where
  "as_str v = (case v of JStr s \<Rightarrow> Some s | _ \<Rightarrow> None)"

definition as_array :: "json \<Rightarrow> json list option" where
  "as_array v = (case v of JArr a \<Rightarrow> Some a | _ \<Rightarrow> None)"

definition as_u64 :: "json \<Rightarrow> nat option" where
  "as_u64 v = (case v of JNat n \<Rightarrow> Some n | _ \<Rightarrow> None)"

definition as_bool :: "json \<Rightarrow> bool option" where
  "as_bool v = (case v of JBool b \<Rightarrow> Some b | _ \<Rightarrow> None)"

definition is_object :: "json \<Rightarrow> bool" where
  "is_object v = (case v of JObj _ \<Rightarrow> True | _ \<Rightarrow> False)"

definition str_or :: "string \<Rightarrow> json \<Rightarrow> string" where
  "str_or d v = (case as_str v of Some s \<Rightarrow> s | None \<Rightarrow> d)"

lemmas json_defs = jget_def jidx_def as_str_def as_array_def as_u64_def as_bool_def is_object_def str_or_def


text \<open>
  What \<open>#[derive(Deserialize)]\<close> generates, over \<open>serde_json\<close> values: a decoder returns \<open>None\<close> where
  \<open>from_value\<close> fails.  A struct is read from an object by name, unknown keys ignored, or from an
  array by position; a field with \<open>#[serde(default)]\<close> may be absent; an enumeration without data is
  read from its name, or from an object whose only key is the name and whose value is \<open>null\<close>.
\<close>

definition de_u32 :: "json \<Rightarrow> u32 option" where
  "de_u32 v = (case v of JNat n \<Rightarrow> if n < 2 ^ 32 then Some (of_nat n) else None | _ \<Rightarrow> None)"

definition de_option :: "(json \<Rightarrow> 'a option) \<Rightarrow> json \<Rightarrow> 'a option option" where
  "de_option d v = (if v = JNull then Some None else map_option Some (d v))"

fun de_list :: "(json \<Rightarrow> 'a option) \<Rightarrow> json list \<Rightarrow> 'a list option" where
  "de_list d [] = Some []"
| "de_list d (v # vs) =
     (case (d v, de_list d vs) of (Some x, Some xs) \<Rightarrow> Some (x # xs) | _ \<Rightarrow> None)"

definition de_vec :: "(json \<Rightarrow> 'a option) \<Rightarrow> json \<Rightarrow> 'a list option" where
  "de_vec d v = (case v of JArr a \<Rightarrow> de_list d a | _ \<Rightarrow> None)"

definition de_variant :: "(string \<Rightarrow> 'a option) \<Rightarrow> json \<Rightarrow> 'a option" where
  "de_variant named v =
     (case v of JStr s \<Rightarrow> named s | JObj [(k, JNull)] \<Rightarrow> named k | _ \<Rightarrow> None)"

text \<open>A struct of \<open>n\<close> fields; the field at position \<open>i\<close> with the name \<open>k\<close>.\<close>

definition struct_shape :: "nat \<Rightarrow> json \<Rightarrow> bool" where
  "struct_shape n v = (case v of JObj _ \<Rightarrow> True | JArr a \<Rightarrow> length a \<le> n | _ \<Rightarrow> False)"

definition field_of :: "nat \<Rightarrow> string \<Rightarrow> json \<Rightarrow> json option" where
  "field_of i k v =
     (case v of
        JObj kvs \<Rightarrow> map_of kvs k
      | JArr a \<Rightarrow> if i < length a then Some (a ! i) else None
      | _ \<Rightarrow> None)"

definition required :: "(json \<Rightarrow> 'a option) \<Rightarrow> nat \<Rightarrow> string \<Rightarrow> json \<Rightarrow> 'a option" where
  "required d i k v = (case field_of i k v of None \<Rightarrow> None | Some w \<Rightarrow> d w)"

definition defaulted :: "'a \<Rightarrow> (json \<Rightarrow> 'a option) \<Rightarrow> nat \<Rightarrow> string \<Rightarrow> json \<Rightarrow> 'a option" where
  "defaulted z d i k v = (case field_of i k v of None \<Rightarrow> Some z | Some w \<Rightarrow> d w)"

text \<open>\<open>serde_json::Map\<close>: insertion and removal.\<close>

definition obj_insert :: "string \<Rightarrow> json \<Rightarrow> (string \<times> json) list \<Rightarrow> (string \<times> json) list" where
  "obj_insert k v kvs =
     (if k \<in> fst ` set kvs then map (\<lambda>(j, w). (j, if j = k then v else w)) kvs else kvs @ [(k, v)])"

definition obj_remove :: "string \<Rightarrow> (string \<times> json) list \<Rightarrow> (string \<times> json) list" where
  "obj_remove k kvs = filter (\<lambda>(j, w). j \<noteq> k) kvs"

lemmas serde_defs = de_u32_def de_option_def de_vec_def de_variant_def struct_shape_def field_of_def
  required_def defaulted_def

lemma map_of_map_value:
  "map_of (map (\<lambda>(j, w). (j, if j = k then v else w)) kvs) i
     = (if i = k then map_option (\<lambda>_. v) (map_of kvs i) else map_of kvs i)"
  by (induction kvs) auto

lemma map_of_obj_insert: "map_of (obj_insert k v kvs) i = (if i = k then Some v else map_of kvs i)"
proof (cases "k \<in> fst ` set kvs")
  case True
  then obtain w where "map_of kvs k = Some w" by (cases "map_of kvs k") (auto simp: map_of_eq_None_iff)
  with True show ?thesis by (simp add: obj_insert_def map_of_map_value)
next
  case False
  then have "map_of kvs k = None" by (simp add: map_of_eq_None_iff)
  with False show ?thesis by (auto simp: obj_insert_def map_add_def split: option.splits)
qed

lemma map_of_obj_remove: "map_of (obj_remove k kvs) i = (if i = k then None else map_of kvs i)"
  by (induction kvs) (auto simp: obj_remove_def)

lemma de_list_length: "de_list d vs = Some xs \<Longrightarrow> length xs = length vs"
  by (induction vs arbitrary: xs) (auto split: option.splits)

end
