(* ===== verification/Findings.thy ===== *)
theory Findings
  imports Diff Json
begin

text \<open>
  \<open>src/src/findings.rs\<close>: severities, findings and their identity, the counts of accepted findings,
  the fail-closed check of an exact suggestion and the merge of candidates (\<open>collapse\<close>).

  Parameters: \<open>H\<close> is the lower-case hexadecimal SHA-256 digest of a byte string (crates \<open>sha2\<close> and
  \<open>hex\<close>), \<open>red\<close> is \<open>redact::text\<close>, \<open>sens\<close> says whether a path matches \<open>config::SENSITIVE_GLOBS\<close>
  (crate \<open>globset\<close>), and a value of \<open>unicode\<close> holds the two Unicode tables behind
  \<open>str::to_lowercase\<close> and \<open>char::is_alphanumeric\<close>.
\<close>

section \<open>Data\<close>

datatype severity = Low | Medium | High

fun sev_rank :: "severity \<Rightarrow> nat" where
  "sev_rank Low = 0"
| "sev_rank Medium = 1"
| "sev_rank High = 2"

lemma sev_rank_inj: "sev_rank a = sev_rank b \<longleftrightarrow> a = b"
  by (cases a; cases b) auto

instantiation severity :: linorder
begin

definition less_eq_severity :: "severity \<Rightarrow> severity \<Rightarrow> bool" where
  "a \<le> b = (sev_rank a \<le> sev_rank b)"

definition less_severity :: "severity \<Rightarrow> severity \<Rightarrow> bool" where
  "a < b = (sev_rank a < sev_rank b)"

instance
  by standard (auto simp: less_eq_severity_def less_severity_def sev_rank_inj)

end

fun severity_str :: "severity \<Rightarrow> string" where
  "severity_str High = ''high''"
| "severity_str Medium = ''medium''"
| "severity_str Low = ''low''"

datatype validation_status = Accepted | Rejected | Uncertain

record evidence =
  ev_path :: string
  ev_start_line :: u32
  ev_end_line :: u32
  ev_note :: string

record suggestion =
  sg_start_line :: u32
  sg_end_line :: u32
  sg_original :: string
  sg_replacement :: string

record finding =
  f_defect_key :: string
  f_category :: string
  f_duplicate_of :: "string option"
  f_severity :: severity
  f_file :: string
  f_start_line :: u32
  f_end_line :: "u32 option"
  f_title :: string
  f_claim :: string
  f_trigger :: string
  f_impact :: string
  f_introduced_by_change :: bool
  f_supporting_evidence :: "evidence list"
  f_counterevidence_checked :: "string list"
  f_validation_status :: "validation_status option"
  f_suggested_fix :: "string option"
  f_validated_fix :: "string option"
  f_suggestion :: "suggestion option"
  f_source :: string
  f_rationale :: "string option"
  f_sources :: "string list"

definition is_carried :: "finding \<Rightarrow> bool" where
  "is_carried f = (f_source f = ''carried'' \<and> f_validation_status f = None)"

definition finding_id :: "(string \<Rightarrow> string) \<Rightarrow> string \<Rightarrow> string \<Rightarrow> string" where
  "finding_id H file key = take 12 (H (file @ [CHR 0x00] @ key))"

definition fid :: "(string \<Rightarrow> string) \<Rightarrow> finding \<Rightarrow> string" where
  "fid H f = finding_id H (f_file f) (f_defect_key f)"

definition f_last_line :: "finding \<Rightarrow> u32" where
  "f_last_line f = unwrap_or (f_end_line f) (f_start_line f)"

section \<open>Counts\<close>

record severity_counts =
  ac_total :: nat
  ac_high :: nat
  ac_medium :: nat
  ac_low :: nat

definition count_one :: "string \<Rightarrow> severity_counts \<Rightarrow> severity_counts" where
  "count_one severity c0 =
     (let c = c0\<lparr>ac_total := ac_total c0 + 1\<rparr> in
      if severity = ''high'' then c\<lparr>ac_high := ac_high c + 1\<rparr>
      else if severity = ''medium'' then c\<lparr>ac_medium := ac_medium c + 1\<rparr>
      else if severity = ''low'' then c\<lparr>ac_low := ac_low c + 1\<rparr>
      else c)"

definition count_severities :: "string list \<Rightarrow> severity_counts" where
  "count_severities ss = fold count_one ss \<lparr>ac_total = 0, ac_high = 0, ac_medium = 0, ac_low = 0\<rparr>"

definition accepted_counts :: "finding list \<Rightarrow> severity_counts" where
  "accepted_counts fs =
     count_severities (map (\<lambda>f. severity_str (f_severity f))
       (filter (\<lambda>f. f_duplicate_of f = None)
         (filter (\<lambda>f. f_validation_status f = Some Accepted) fs)))"

definition accepted_values :: "json \<Rightarrow> json list" where
  "accepted_values report =
     filter (\<lambda>f. jidx f ''duplicate_of'' = JNull)
       (filter (\<lambda>f. as_str (jidx f ''validation_status'') = Some ''accepted'')
         (unwrap_or (as_array (jidx report ''findings'')) []))"

definition accepted_counts_json :: "json \<Rightarrow> severity_counts" where
  "accepted_counts_json report =
     count_severities (map (\<lambda>f. str_or [] (jidx f ''severity'')) (accepted_values report))"

section \<open>Exact suggestions\<close>

definition unsafe_text :: "(string \<Rightarrow> string) \<Rightarrow> string \<Rightarrow> bool" where
  "unsafe_text red v =
     (CHR 0x00 \<in> set v \<or> CHR 0x0D \<in> set v \<or> str_contains v ''<!--'' \<or> red v \<noteq> v)"

definition added_in_hunk :: "u32 \<Rightarrow> u32 \<Rightarrow> hunk \<Rightarrow> bool" where
  "added_in_hunk a b h =
     list_all (\<lambda>n. list_ex (\<lambda>l. dl_new_no l = Some (of_nat n) \<and> dl_kind l = Add) (hk_lines h))
       [unat a..<Suc (unat b)]"

definition checked_suggestion ::
  "(string \<Rightarrow> string) \<Rightarrow> (string \<Rightarrow> bool) \<Rightarrow> finding \<Rightarrow> suggestion \<Rightarrow> diff_set \<Rightarrow> string \<Rightarrow> suggestion option"
where
  "checked_suggestion red sens f s d head =
     (if f_validation_status f \<noteq> Some Accepted
         \<or> sg_start_line s = 0
         \<or> sg_end_line s < sg_start_line s
         \<or> 10 \<le> sg_end_line s - sg_start_line s
         \<or> sg_start_line s \<noteq> f_start_line f
         \<or> sg_end_line s \<noteq> f_last_line f
         \<or> sg_replacement s = []
         \<or> 2000 < length (sg_replacement s)
         \<or> 20 < length (lines (sg_replacement s))
         \<or> list_ex (unsafe_text red) [sg_original s, sg_replacement s]
         \<or> sens (f_file f)
      then None
      else
        (case diff_file d (f_file f) of
           None \<Rightarrow> None
         | Some file \<Rightarrow>
             if new_path file \<noteq> f_file f
                \<or> \<not> list_ex (added_in_hunk (sg_start_line s) (sg_end_line s)) (hunks file)
             then None
             else
               (let ls = split_inclusive_nl head; a = unat (sg_start_line s) - 1; b = unat (sg_end_line s) in
                if length ls < b then None
                else if concat (take (b - a) (drop a ls)) = sg_original s then Some s else None)))"

section \<open>Merging candidates\<close>

record unicode =
  uc_lower :: "string \<Rightarrow> string"
  uc_alnum :: "string \<Rightarrow> bool"

text \<open>Splitting a sequence of characters at those that satisfy \<open>p\<close>.\<close>

fun split_by :: "(string \<Rightarrow> bool) \<Rightarrow> string list \<Rightarrow> string list" where
  "split_by p [] = [[]]"
| "split_by p (c # cs) =
     (if p c then [] # split_by p cs
      else (case split_by p cs of [] \<Rightarrow> [c] | w # ws \<Rightarrow> (c @ w) # ws))"

definition normalize_title :: "unicode \<Rightarrow> string \<Rightarrow> string list" where
  "normalize_title U t =
     filter (\<lambda>w. w \<noteq> []) (split_by (\<lambda>c. \<not> uc_alnum U c) (chars (uc_lower U t)))"

definition lines_overlap :: "finding \<Rightarrow> finding \<Rightarrow> bool" where
  "lines_overlap a b = (f_start_line a \<le> f_last_line b \<and> f_start_line b \<le> f_last_line a)"

text \<open>The comparison \<open>shared / denom >= 0.6\<close> of doubles, as integers: for word counts below \<open>2 ^ 50\<close>
  rounding cannot move the quotient across 3/5.\<close>

definition titles_similar :: "unicode \<Rightarrow> string \<Rightarrow> string \<Rightarrow> bool" where
  "titles_similar U a b =
     (let ta = normalize_title U a; tb = normalize_title U b in
      if ta = [] \<or> tb = [] then False
      else (let shared = length (filter (\<lambda>w. w \<in> set tb) ta); denom = max (length ta) (length tb) in
            3 * denom \<le> 5 * shared))"

definition with_own_source :: "finding \<Rightarrow> finding" where
  "with_own_source c =
     c\<lparr>f_sources := (if f_source c \<noteq> [] \<and> f_source c \<notin> set (f_sources c)
                     then f_sources c @ [f_source c] else f_sources c)\<rparr>"

definition same_defect :: "unicode \<Rightarrow> finding \<Rightarrow> finding \<Rightarrow> bool" where
  "same_defect U c o1 =
     (f_file o1 = f_file c
      \<and> (f_defect_key o1 = f_defect_key c
          \<or> (lines_overlap o1 c \<and> titles_similar U (f_title o1) (f_title c))))"

definition same_evidence :: "evidence \<Rightarrow> evidence \<Rightarrow> bool" where
  "same_evidence x e =
     (ev_path x = ev_path e \<and> ev_start_line x = ev_start_line e \<and> ev_note x = ev_note e)"

definition merge_into :: "finding \<Rightarrow> finding \<Rightarrow> finding" where
  "merge_into c o1 =
     o1\<lparr>f_category := (if f_category o1 = [] \<and> f_category c \<noteq> [] then f_category c else f_category o1),
        f_severity := (if f_severity o1 < f_severity c then f_severity c else f_severity o1),
        f_supporting_evidence :=
          push_all_new_by same_evidence (f_supporting_evidence o1) (f_supporting_evidence c),
        f_sources := push_all_new (f_sources o1) (f_sources c),
        f_claim := (if length (f_claim o1) < length (f_claim c) then f_claim c else f_claim o1),
        f_suggested_fix :=
          (if f_suggested_fix c \<noteq> None \<and> f_suggested_fix o1 = None then f_suggested_fix c
           else f_suggested_fix o1)\<rparr>"

definition collapse_step :: "unicode \<Rightarrow> finding list \<Rightarrow> finding \<Rightarrow> finding list" where
  "collapse_step U out c0 =
     (let c = with_own_source c0 in
      case position (same_defect U c) out of
        Some i \<Rightarrow> out[i := merge_into c (out ! i)]
      | None \<Rightarrow> out @ [c])"

definition collapse :: "unicode \<Rightarrow> finding list \<Rightarrow> finding list" where
  "collapse U candidates = foldl (collapse_step U) [] candidates"

section \<open>Counting is exact\<close>

lemma fold_count_total:
  "ac_total (fold count_one ss c) = ac_total c + length ss"
  by (induction ss arbitrary: c) (auto simp: count_one_def Let_def)

lemma fold_count_parts:
  "set ss \<subseteq> {''high'', ''medium'', ''low''} \<Longrightarrow>
   ac_total c = ac_high c + ac_medium c + ac_low c \<Longrightarrow>
   ac_total (fold count_one ss c)
     = ac_high (fold count_one ss c) + ac_medium (fold count_one ss c) + ac_low (fold count_one ss c)"
  by (induction ss arbitrary: c) (auto simp: count_one_def Let_def)

lemma severity_str_in: "severity_str s \<in> {''high'', ''medium'', ''low''}"
  by (cases s) auto

definition publishable_count :: "finding list \<Rightarrow> nat" where
  "publishable_count fs =
     length (filter (\<lambda>f. f_validation_status f = Some Accepted \<and> f_duplicate_of f = None) fs)"

text \<open>The counts of a report add up and count exactly the accepted findings that are no
  duplicates.\<close>

theorem accepted_counts_exact:
  "ac_total (accepted_counts fs) = publishable_count fs
     \<and> ac_total (accepted_counts fs)
         = ac_high (accepted_counts fs) + ac_medium (accepted_counts fs) + ac_low (accepted_counts fs)"
proof -
  let ?ss = "map (\<lambda>f. severity_str (f_severity f))
       (filter (\<lambda>f. f_duplicate_of f = None) (filter (\<lambda>f. f_validation_status f = Some Accepted) fs))"
  let ?c = "\<lparr>ac_total = 0, ac_high = 0, ac_medium = 0, ac_low = 0\<rparr>"
  have unf: "accepted_counts fs = fold count_one ?ss ?c"
    by (simp only: accepted_counts_def count_severities_def)
  have "length ?ss = publishable_count fs" by (simp add: publishable_count_def conj_commute)
  then have "ac_total (fold count_one ?ss ?c) = publishable_count fs" by (simp only: fold_count_total) simp
  moreover have sub: "set ?ss \<subseteq> {''high'', ''medium'', ''low''}"
    unfolding set_map using severity_str_in by blast
  note fold_count_parts[OF sub, of ?c]
  ultimately show ?thesis unfolding unf by simp
qed

section \<open>The suggestion check fails closed\<close>

definition exact_replacement :: "suggestion \<Rightarrow> diff_set \<Rightarrow> string \<Rightarrow> string \<Rightarrow> bool" where
  "exact_replacement s d path head =
     (let a = unat (sg_start_line s); b = unat (sg_end_line s); ls = split_inclusive_nl head in
      1 \<le> a \<and> a \<le> b \<and> b < a + 10 \<and> b \<le> length ls
      \<and> concat (take (Suc b - a) (drop (a - 1) ls)) = sg_original s
      \<and> (\<exists>f\<in>set d. new_path f = path
            \<and> (\<exists>h\<in>set (hunks f). added_in_hunk (sg_start_line s) (sg_end_line s) h)))"

lemma unat_sub_less_10:
  "a \<le> b \<Longrightarrow> \<not> 10 \<le> (b - a :: u32) \<Longrightarrow> unat b < unat a + 10"
  by (simp add: word_le_nat_alt unat_sub)

text \<open>C10: a suggestion passes only for an accepted finding, unchanged, when it replaces at most ten
  added lines of one hunk, the finding's own range, whose bytes in the reviewed file it quotes, in a
  file that is not sensitive and without text that redaction would change.\<close>

theorem checked_suggestion_safe:
  assumes "checked_suggestion red sens f s d head = Some r"
  shows "r = s \<and> f_validation_status f = Some Accepted
     \<and> sg_start_line s = f_start_line f \<and> sg_end_line s = f_last_line f
     \<and> exact_replacement s d (f_file f) head
     \<and> red (sg_original s) = sg_original s \<and> red (sg_replacement s) = sg_replacement s
     \<and> \<not> sens (f_file f)"
proof -
  note c = assms[unfolded checked_suggestion_def]
  obtain fd where found: "diff_file d (f_file f) = Some fd"
    using c by (auto split: if_splits option.splits)
  have range: "sg_start_line s \<noteq> 0" "sg_start_line s \<le> sg_end_line s"
    "\<not> 10 \<le> sg_end_line s - sg_start_line s"
    using c by (auto split: if_splits)
  have "new_path fd = f_file f"
    and ex: "\<exists>h\<in>set (hunks fd). added_in_hunk (sg_start_line s) (sg_end_line s) h"
    using c found by (auto simp: list_ex_iff split: if_splits)
  moreover have "fd \<in> set d" using found by (auto simp: diff_file_def dest: find_Some_iff_set)
  ultimately have in_d: "\<exists>g\<in>set d. new_path g = f_file f
      \<and> (\<exists>h\<in>set (hunks g). added_in_hunk (sg_start_line s) (sg_end_line s) h)" by blast
  have a: "1 \<le> unat (sg_start_line s)" using range(1) by (simp add: unat_gt_0 Suc_leI)
  have ab: "unat (sg_start_line s) \<le> unat (sg_end_line s)" using range(2) by (simp add: word_le_nat_alt)
  have quoted: "unat (sg_end_line s) \<le> length (split_inclusive_nl head)"
    "concat (take (unat (sg_end_line s) - (unat (sg_start_line s) - 1))
       (drop (unat (sg_start_line s) - 1) (split_inclusive_nl head))) = sg_original s" "r = s"
    using c found by (auto simp: Let_def split: if_splits)
  have "Suc (unat (sg_end_line s)) - unat (sg_start_line s)
      = unat (sg_end_line s) - (unat (sg_start_line s) - 1)" using a ab by simp
  then have "exact_replacement s d (f_file f) head"
    using a ab quoted in_d unat_sub_less_10[OF range(2,3)] by (simp add: exact_replacement_def)
  then show ?thesis using c quoted(3) by (auto simp: unsafe_text_def split: if_splits)
qed

definition sample_finding :: finding where
  "sample_finding =
     \<lparr>f_defect_key = ''k'', f_category = [], f_duplicate_of = None, f_severity = High,
      f_file = ''b.rs'', f_start_line = 10, f_end_line = None, f_title = ''t'', f_claim = ''c'',
      f_trigger = [], f_impact = [], f_introduced_by_change = True, f_supporting_evidence = [],
      f_counterevidence_checked = [], f_validation_status = Some Accepted, f_suggested_fix = None,
      f_validated_fix = None, f_suggestion = None, f_source = ''s'', f_rationale = None,
      f_sources = []\<rparr>"

definition one_line_diff :: diff_set where
  "one_line_diff =
     [\<lparr>old_path = ''b.rs'', new_path = ''b.rs'', fd_status = Modified,
       hunks = [\<lparr>old_start = 1, old_len = 0, new_start = 1, new_len = 1, hk_lines =
         [\<lparr>dl_kind = Add, dl_old_no = None, dl_new_no = Some 1, dl_text = ''z''\<rparr>]\<rparr>]\<rparr>]"

definition sample_suggestion :: suggestion where
  "sample_suggestion =
     \<lparr>sg_start_line = 1, sg_end_line = 1, sg_original = ''z'', sg_replacement = ''y''\<rparr>"

lemma sample_suggestion_checked:
  "checked_suggestion (\<lambda>s. s) (\<lambda>_. False) (sample_finding\<lparr>f_start_line := 1\<rparr>) sample_suggestion
     one_line_diff ''z'' = Some sample_suggestion"
  by (simp add: checked_suggestion_def sample_suggestion_def sample_finding_def one_line_diff_def
      f_last_line_def unwrap_or_def unsafe_text_def str_contains_def str_simps added_in_hunk_def
      diff_file_def lines_def upt_rec)

theorem checked_suggestion_safe_witness:
  "exact_replacement sample_suggestion one_line_diff ''b.rs'' ''z''"
  using checked_suggestion_safe[OF sample_suggestion_checked] by (simp add: sample_finding_def)

section \<open>Merging loses no candidate\<close>

text \<open>\<open>o1\<close> stands for the candidate \<open>c\<close>: same file, at least its severity, all its sources and, up
  to the equality the code uses, all its evidence, and a claim at least as long.\<close>

definition covers_evidence :: "evidence list \<Rightarrow> evidence list \<Rightarrow> bool" where
  "covers_evidence xs es = (\<forall>e\<in>set es. \<exists>x\<in>set xs. same_evidence x e)"

definition represents :: "finding \<Rightarrow> finding \<Rightarrow> bool" where
  "represents o1 c =
     (f_file o1 = f_file c \<and> f_severity c \<le> f_severity o1
      \<and> set (f_sources c) \<subseteq> set (f_sources o1)
      \<and> (f_source c \<noteq> [] \<longrightarrow> f_source c \<in> set (f_sources o1))
      \<and> covers_evidence (f_supporting_evidence o1) (f_supporting_evidence c)
      \<and> length (f_claim c) \<le> length (f_claim o1))"

lemma same_evidence_refl [simp]: "same_evidence e e"
  by (simp add: same_evidence_def)

lemma covers_evidence_refl: "covers_evidence es es"
  using same_evidence_refl unfolding covers_evidence_def by blast

lemma covers_evidence_trans: "covers_evidence xs ys \<Longrightarrow> covers_evidence ys zs \<Longrightarrow> covers_evidence xs zs"
  unfolding covers_evidence_def same_evidence_def by metis

lemma covers_evidence_push_old:
  "covers_evidence (push_all_new_by same_evidence xs ys) xs"
proof -
  obtain zs where "push_all_new_by same_evidence xs ys = xs @ zs"
    using push_all_new_by_prefix[of same_evidence xs ys] by blast
  then show ?thesis unfolding covers_evidence_def by (metis UnCI same_evidence_refl set_append)
qed

lemma covers_evidence_push_new:
  "covers_evidence (push_all_new_by same_evidence xs ys) ys"
  unfolding covers_evidence_def using push_all_new_by_covers[of same_evidence] by simp

lemmas covers_push =
  covers_evidence_trans[OF covers_evidence_push_old] covers_evidence_trans[OF covers_evidence_push_new]

lemma with_own_source_simps [simp]:
  "f_file (with_own_source c) = f_file c" "f_severity (with_own_source c) = f_severity c"
  "f_defect_key (with_own_source c) = f_defect_key c" "f_claim (with_own_source c) = f_claim c"
  "f_supporting_evidence (with_own_source c) = f_supporting_evidence c"
  by (simp_all add: with_own_source_def)

lemma with_own_source_represents: "represents (with_own_source c) c"
  by (auto simp: represents_def covers_evidence_refl) (auto simp: with_own_source_def)

lemma merge_into_keys [simp]:
  "f_file (merge_into c o1) = f_file o1" "f_defect_key (merge_into c o1) = f_defect_key o1"
  "f_supporting_evidence (merge_into c o1)
     = push_all_new_by same_evidence (f_supporting_evidence o1) (f_supporting_evidence c)"
  "set (f_sources (merge_into c o1)) = set (f_sources o1) \<union> set (f_sources c)"
  by (simp_all add: merge_into_def)

lemma merge_into_max:
  "f_severity o1 \<le> f_severity (merge_into c o1)" "f_severity c \<le> f_severity (merge_into c o1)"
  "length (f_claim o1) \<le> length (f_claim (merge_into c o1))"
  "length (f_claim c) \<le> length (f_claim (merge_into c o1))"
  by (auto simp: merge_into_def)

lemma merge_into_old: "represents o1 d \<Longrightarrow> represents (merge_into c o1) d"
  using merge_into_max[where ?o1.0 = o1 and c = c]
  by (auto simp: represents_def intro: order_trans covers_push)

lemma merge_into_new:
  "represents c d \<Longrightarrow> f_file o1 = f_file c \<Longrightarrow> represents (merge_into c o1) d"
  using merge_into_max[where ?o1.0 = o1 and c = c]
  by (auto simp: represents_def intro: order_trans covers_push)

lemma collapse_step_keeps:
  assumes "o1 \<in> set out" and "represents o1 d"
  shows "\<exists>o2\<in>set (collapse_step U out c). represents o2 d"
proof (cases "position (same_defect U (with_own_source c)) out")
  case None
  with assms show ?thesis by (auto simp: collapse_step_def)
next
  case (Some i)
  then have i: "i < length out" by (rule position_lt)
  obtain j where j: "j < length out" "out ! j = o1" using assms(1) by (auto simp: in_set_conv_nth)
  let ?out' = "out[i := merge_into (with_own_source c) (out ! i)]"
  have "represents (?out' ! j) d"
    using assms(2) i j by (cases "i = j") (auto intro: merge_into_old)
  moreover have "?out' ! j \<in> set ?out'" using j by simp
  ultimately show ?thesis using Some by (auto simp: collapse_step_def)
qed

lemma collapse_step_adds: "\<exists>o2\<in>set (collapse_step U out c). represents o2 c"
proof (cases "position (same_defect U (with_own_source c)) out")
  case None
  then show ?thesis using with_own_source_represents by (auto simp: collapse_step_def)
next
  case (Some i)
  then have i: "i < length out" "same_defect U (with_own_source c) (out ! i)"
    by (auto dest: position_Some)
  then have "represents (merge_into (with_own_source c) (out ! i)) c"
    using with_own_source_represents[of c] by (intro merge_into_new) (auto simp: same_defect_def)
  moreover have "merge_into (with_own_source c) (out ! i)
      \<in> set (out[i := merge_into (with_own_source c) (out ! i)])"
    using i(1) by (simp add: set_update_memI)
  ultimately show ?thesis using Some by (auto simp: collapse_step_def)
qed

lemma foldl_collapse_keeps:
  "o1 \<in> set out \<Longrightarrow> represents o1 d \<Longrightarrow> \<exists>o2\<in>set (foldl (collapse_step U) out cs). represents o2 d"
proof (induction cs arbitrary: out o1)
  case (Cons c cs)
  then obtain o2 where "o2 \<in> set (collapse_step U out c)" "represents o2 d"
    using collapse_step_keeps by blast
  with Cons.IH show ?case by simp
qed auto

lemma foldl_collapse_adds:
  "c \<in> set cs \<Longrightarrow> \<exists>o2\<in>set (foldl (collapse_step U) out cs). represents o2 c"
proof (induction cs arbitrary: out)
  case (Cons a cs)
  show ?case
  proof (cases "c \<in> set cs")
    case False
    with Cons.prems have "c = a" by simp
    obtain o1 where "o1 \<in> set (collapse_step U out a)" "represents o1 a"
      using collapse_step_adds by blast
    with \<open>c = a\<close> foldl_collapse_keeps show ?thesis by fastforce
  qed (use Cons in simp)
qed simp

text \<open>C38: merging drops no candidate: each one is represented in the result with at least its
  severity and with all its sources and evidence.\<close>

theorem collapse_represents_all:
  "list_all (\<lambda>c. list_ex (\<lambda>o1. represents o1 c) (collapse U cs)) cs"
  using foldl_collapse_adds by (fastforce simp: collapse_def list_all_iff list_ex_iff)

definition defect :: "finding \<Rightarrow> string \<times> string" where
  "defect f = (f_file f, f_defect_key f)"

lemma collapse_step_distinct:
  assumes "distinct (map defect out)"
  shows "distinct (map defect (collapse_step U out c))"
proof (cases "position (same_defect U (with_own_source c)) out")
  case None
  then have "defect (with_own_source c) \<notin> set (map defect out)"
    by (auto simp: position_None same_defect_def defect_def)
  with None assms show ?thesis by (simp add: collapse_step_def)
next
  case (Some i)
  then have i: "i < length out" by (rule position_lt)
  have "defect (merge_into (with_own_source c) (out ! i)) = map defect out ! i"
    using i by (simp add: defect_def)
  then have "map defect (out[i := merge_into (with_own_source c) (out ! i)]) = map defect out"
    by (simp add: map_update)
  with Some assms show ?thesis by (simp add: collapse_step_def)
qed

lemma foldl_collapse_distinct:
  "distinct (map defect out) \<Longrightarrow> distinct (map defect (foldl (collapse_step U) out cs))"
  by (induction cs arbitrary: out) (auto intro: collapse_step_distinct)

text \<open>After merging no two findings share their file and defect key, the two parts of the
  finding identity.\<close>

theorem collapse_distinct_defects: "distinct (map defect (collapse U cs))"
  by (simp add: collapse_def foldl_collapse_distinct)

end
