(* ===== verification/Interfaces.thy ===== *)
theory Interfaces
  imports Revera_Prelude
begin

text \<open>
  The interfaces through which components of the program rely on each other, as locales: a store of
  entries under keys (the persisted review state, the maps of the server's queue and event log), and
  a budget whose use never passes its limit (the request ledger, the pool of active jobs).  The
  theories of the components that provide them interpret the locales on the program's own
  definitions; the lemmas proved here are then facts about those definitions.
\<close>

section \<open>A store of entries under keys\<close>

text \<open>\<open>get\<close> looks an entry up, \<open>put x\<close> writes the item \<open>x\<close> under its key, \<open>upd x\<close> says what the
  entry becomes, \<open>good\<close> is the invariant of the store.\<close>

locale keyed_store =
  fixes get :: "'s \<Rightarrow> 'k \<Rightarrow> 'v option"
    and put :: "'x \<Rightarrow> 's \<Rightarrow> 's"
    and key :: "'x \<Rightarrow> 'k"
    and upd :: "'x \<Rightarrow> 'v option \<Rightarrow> 'v option"
    and good :: "'s \<Rightarrow> bool"
  assumes put_good: "good s \<Longrightarrow> good (put x s)"
    and get_put_other: "good s \<Longrightarrow> k \<noteq> key x \<Longrightarrow> get (put x s) k = get s k"
    and get_put_same: "good s \<Longrightarrow> get (put x s) (key x) = upd x (get s (key x))"
begin

lemma fold_put_good: "good s \<Longrightarrow> good (fold put xs s)"
  by (induction xs arbitrary: s) (auto simp: put_good)

lemma fold_put_other: "good s \<Longrightarrow> k \<notin> key ` set xs \<Longrightarrow> get (fold put xs s) k = get s k"
  by (induction xs arbitrary: s) (auto simp: put_good get_put_other)

lemma fold_put_same:
  "good s \<Longrightarrow> distinct (map key xs) \<Longrightarrow> x \<in> set xs \<Longrightarrow>
   get (fold put xs s) (key x) = upd x (get s (key x))"
proof (induction xs arbitrary: s)
  case (Cons y ys)
  show ?case
  proof (cases "x = y")
    case True
    with Cons.prems have "key x \<notin> key ` set ys" by auto
    with True Cons.prems show ?thesis by (simp add: fold_put_other put_good get_put_same)
  next
    case False
    with Cons.prems have x: "x \<in> set ys" by simp
    moreover have "key x \<noteq> key y" using x Cons.prems(2) by (metis distinct.simps(2) image_eqI image_set list.simps(9))
    ultimately show ?thesis using Cons by (simp add: put_good get_put_other)
  qed
qed simp

end

text \<open>A store whose entries can also be removed.\<close>

locale keyed_map = keyed_store get put key upd good
  for get :: "'s \<Rightarrow> 'k \<Rightarrow> 'v option" and put :: "'x \<Rightarrow> 's \<Rightarrow> 's" and key :: "'x \<Rightarrow> 'k"
    and upd :: "'x \<Rightarrow> 'v option \<Rightarrow> 'v option" and good :: "'s \<Rightarrow> bool" +
  fixes del :: "'k \<Rightarrow> 's \<Rightarrow> 's"
  assumes del_good: "good s \<Longrightarrow> good (del k s)"
    and get_del: "good s \<Longrightarrow> get (del k s) j = (if j = k then None else get s j)"
begin

lemma get_put: "good s \<Longrightarrow> get (put x s) j = (if j = key x then upd x (get s j) else get s j)"
  using get_put_other get_put_same by simp

lemma get_put_del: "good s \<Longrightarrow> get (put x (del (key x) s)) (key x) = upd x None"
  by (simp add: get_put_same del_good get_del)

lemma get_del_put: "good s \<Longrightarrow> get (del (key x) (put x s)) j = (if j = key x then None else get s j)"
  by (simp add: put_good get_del get_put_other)

lemma fold_del_good: "good s \<Longrightarrow> good (fold del ks s)"
  by (induction ks arbitrary: s) (auto simp: del_good)

lemma get_fold_del: "good s \<Longrightarrow> get (fold del ks s) j = (if j \<in> set ks then None else get s j)"
  by (induction ks arbitrary: s) (auto simp: del_good get_del)

end

section \<open>A budget\<close>

text \<open>\<open>spent s\<close> is what was used up, \<open>held s\<close> counts the outstanding promises, \<open>limit\<close> is the bound.
  \<open>acquire s\<close> promises one unit or refuses, \<open>settle e s\<close> turns a promise into spending, \<open>cancel s\<close>
  gives it back; settling and cancelling are only done by a holder.  The laws are asked for only
  within the limit, where machine counters do not wrap.\<close>

locale budget =
  fixes spent :: "'s \<Rightarrow> nat" and held :: "'s \<Rightarrow> nat" and limit :: nat
    and acquire :: "'s \<Rightarrow> 's option" and settle :: "'e \<Rightarrow> 's \<Rightarrow> 's" and cancel :: "'s \<Rightarrow> 's"
  assumes acquire_Some: "spent s + held s \<le> limit \<Longrightarrow> acquire s = Some t \<Longrightarrow>
      spent s + held s < limit \<and> spent t = spent s \<and> held t = Suc (held s)"
    and acquire_None: "spent s + held s \<le> limit \<Longrightarrow> acquire s = None \<Longrightarrow> limit \<le> spent s + held s"
    and settle_eff: "0 < held s \<Longrightarrow> spent (settle e s) = Suc (spent s) \<and> held (settle e s) = held s - 1"
    and cancel_eff: "0 < held s \<Longrightarrow> spent (cancel s) = spent s \<and> held (cancel s) = held s - 1"
begin

text \<open>One step of some holder, in any interleaving.\<close>

inductive bstep :: "'s \<Rightarrow> 's \<Rightarrow> bool" where
  b_acquire: "acquire s = Some t \<Longrightarrow> bstep s t"
| b_settle: "0 < held s \<Longrightarrow> bstep s (settle e s)"
| b_cancel: "0 < held s \<Longrightarrow> bstep s (cancel s)"

lemma bstep_within:
  assumes "bstep s t" and "spent s + held s \<le> limit"
  shows "spent t + held t \<le> limit \<and> spent s \<le> spent t"
  using assms(1)
proof (cases rule: bstep.cases)
  case b_acquire
  then show ?thesis using acquire_Some[OF assms(2)] by fastforce
next
  case (b_settle e)
  then show ?thesis using settle_eff[of s e] assms(2) by auto
next
  case b_cancel
  then show ?thesis using cancel_eff[of s] assms(2) by auto
qed

lemma bsteps_within:
  "bstep\<^sup>*\<^sup>* s t \<Longrightarrow> spent s + held s \<le> limit \<Longrightarrow> spent t + held t \<le> limit \<and> spent s \<le> spent t"
proof (induction rule: rtranclp_induct)
  case (step t u)
  then show ?case using bstep_within[OF step.hyps(2)] by linarith
qed simp

lemma acquire_iff:
  assumes "spent s + held s \<le> limit"
  shows "acquire s = None \<longleftrightarrow> spent s + held s = limit"
proof (cases "acquire s")
  case None
  then show ?thesis using acquire_None[OF assms] assms by simp
next
  case (Some t)
  then show ?thesis using acquire_Some[OF assms] by fastforce
qed

end


text \<open>
  The sliding-window rate limits of the server, as an interface.  A limiter keeps a log of the times
  at which it granted something; a request at time \<open>now\<close> is refused when the log already holds
  \<open>limit\<close> times of the last \<open>window\<close> seconds.  The lemma proved from the laws is about the history of
  grants, not about the log: entries that the limiter forgot count as well.
\<close>

definition recent_from :: "int \<Rightarrow> int \<Rightarrow> int list \<Rightarrow> int list" where
  "recent_from window now ts = filter (\<lambda>t. now - window < t) ts"

text \<open>The grants within the window that ends at \<open>now\<close>.\<close>

definition in_window :: "int \<Rightarrow> int \<Rightarrow> int list \<Rightarrow> nat" where
  "in_window window now ts = length (filter (\<lambda>t. now - window < t \<and> t \<le> now) ts)"

locale rate_limiter =
  fixes window :: int and limit :: nat
    and log :: "'s \<Rightarrow> int list"
    and request :: "'r \<Rightarrow> int \<Rightarrow> 's \<Rightarrow> bool \<times> 's"
    and counted :: "'r \<Rightarrow> bool"
  assumes granted_log: "counted r \<Longrightarrow> request r now s = (True, s') \<Longrightarrow>
      log s' = recent_from window now (log s) @ [now] \<and> length (recent_from window now (log s)) < limit"
    and other_log: "request r now s = (g, s') \<Longrightarrow> \<not> (counted r \<and> g) \<Longrightarrow>
      log s' = log s \<or> log s' = recent_from window now (log s)"
begin

text \<open>A history of requests; \<open>past\<close> are the counted grants so far, newest last.\<close>

fun serve :: "('r \<times> int) list \<Rightarrow> int list \<Rightarrow> 's \<Rightarrow> int list \<times> 's" where
  "serve [] past s = (past, s)"
| "serve ((r, now) # rs) past s =
     (case request r now s of
        (g, s') \<Rightarrow> serve rs (if counted r \<and> g then past @ [now] else past) s')"

text \<open>The log holds every grant that a window ending now or later can still see, and no window that
  ended so far saw more than the limit.\<close>

definition fits :: "int \<Rightarrow> int list \<Rightarrow> 's \<Rightarrow> bool" where
  "fits now past s =
     (list_all (\<lambda>t. t \<le> now) past \<and>
      recent_from window now past = recent_from window now (log s) \<and>
      (\<forall>T. in_window window T past \<le> limit))"

lemma recent_recent:
  "now \<le> later \<Longrightarrow> recent_from window later (recent_from window now ts) = recent_from window later ts"
  by (induction ts) (auto simp: recent_from_def)

lemma recent_mono:
  "now \<le> later \<Longrightarrow> recent_from window now a = recent_from window now b \<Longrightarrow>
   recent_from window later a = recent_from window later b"
  by (metis recent_recent)

lemma in_window_append:
  "in_window window T (ts @ [t]) = in_window window T ts + (if T - window < t \<and> t \<le> T then 1 else 0)"
  by (simp add: in_window_def)

lemma in_window_le_recent:
  "now \<le> T \<Longrightarrow> in_window window T ts \<le> length (recent_from window now ts)"
  by (induction ts) (auto simp: in_window_def recent_from_def)

lemma fits_step:
  assumes "fits before past s" and "before \<le> now" and "request r now s = (g, s')"
  shows "fits now (if counted r \<and> g then past @ [now] else past) s'"
proof (cases "counted r \<and> g")
  case True
  then have g: "log s' = recent_from window now (log s) @ [now]"
    "length (recent_from window now (log s)) < limit"
    using granted_log assms(3) by auto
  have same: "recent_from window now past = recent_from window now (log s)"
    using assms(1,2) recent_mono unfolding fits_def by blast
  have "in_window window T (past @ [now]) \<le> limit" for T
  proof (cases "T - window < now \<and> now \<le> T")
    case True
    then have "in_window window T past < limit"
      using in_window_le_recent[of now T past] same g(2) by simp
    then show ?thesis by (simp add: in_window_append)
  next
    case False
    then have "in_window window T (past @ [now]) = in_window window T past"
      by (auto simp: in_window_append)
    then show ?thesis using assms(1) by (simp add: fits_def)
  qed
  moreover have "recent_from window now (past @ [now]) = recent_from window now (log s')"
    using same g(1) recent_recent[of now now "log s"] by (simp add: recent_from_def)
  moreover have "list_all (\<lambda>t. t \<le> now) (past @ [now])"
    using assms(1,2) by (auto simp: fits_def list_all_iff)
  ultimately show ?thesis using True by (simp add: fits_def)
next
  case False
  then have "log s' = log s \<or> log s' = recent_from window now (log s)"
    using other_log assms(3) by blast
  moreover have "recent_from window now past = recent_from window now (log s)"
    using assms(1,2) recent_mono unfolding fits_def by blast
  moreover have "list_all (\<lambda>t. t \<le> now) past"
    using assms(1,2) by (auto simp: fits_def list_all_iff)
  ultimately show ?thesis using False assms(1) recent_recent[of now now "log s"]
    by (auto simp: fits_def)
qed

text \<open>With a clock that never goes back, no window ever holds more grants than the limit.\<close>

lemma serve_fits:
  assumes "fits before past s" and "sorted (before # map snd rs)" and "serve rs past s = (grants, s')"
  shows "in_window window T grants \<le> limit"
  using assms
proof (induction rs arbitrary: before past s)
  case Nil
  then show ?case by (auto simp: fits_def)
next
  case (Cons a rs)
  obtain r now where a: "a = (r, now)" by (cases a)
  obtain g s1 where req: "request r now s = (g, s1)" by (cases "request r now s")
  have "before \<le> now" using Cons.prems(2) a by simp
  from Cons.IH[OF fits_step[OF Cons.prems(1) this req]] Cons.prems(2,3) show ?case
    by (simp add: a req)
qed

lemma serve_limit:
  assumes "log s = []" and "sorted (map snd rs)" and "serve rs [] s = (grants, s')"
  shows "in_window window T grants \<le> limit"
proof (cases rs)
  case Nil
  then show ?thesis using assms(3) by (simp add: in_window_def)
next
  case (Cons a rs')
  have "fits (snd a) [] s"
    using assms(1) by (simp add: fits_def recent_from_def in_window_def)
  moreover have "sorted (snd a # map snd rs)" using assms(2) Cons by simp
  ultimately show ?thesis using serve_fits assms(3) by blast
qed

end

end
