(* ===== verification/Review_State.thy ===== *)
theory Review_State
  imports Findings Interfaces
begin

text \<open>
  \<open>src/src/state.rs\<close>: the review state kept between runs, its projection to what may leave the
  machine, the upsert of findings, pruning, and reuse of a completed review.  Loading and saving the
  file are not modelled.  \<open>H\<close> is the hexadecimal SHA-256 digest.  \<open>run_status\<close> is the enumeration of
  \<open>src/src/report.rs\<close>.
\<close>

section \<open>Data\<close>

definition STATE_VERSION :: u32 where "STATE_VERSION = 3"
definition MAX_STATE_FINDINGS :: nat where "MAX_STATE_FINDINGS = 200"
definition MAX_TEXT :: nat where "MAX_TEXT = 400"
definition MAX_EVIDENCE :: nat where "MAX_EVIDENCE = 6"

datatype run_status = Complete | Partial | Failed

datatype finding_state = StOpen | StUncertain | StResolved | StRejected

record state_finding =
  sf_id :: string
  sf_category :: string
  sf_status :: finding_state
  sf_file :: string
  sf_start_line :: u32
  sf_end_line :: "u32 option"
  sf_title :: string
  sf_posted :: bool
  sf_defect_key :: string
  sf_severity :: severity
  sf_claim :: string
  sf_trigger :: string
  sf_impact :: string
  sf_evidence :: "string list"

record review_state =
  rs_version :: u32
  rs_reviewed_head :: string
  rs_reviewed_base :: string
  rs_patch_id :: string
  rs_review_key :: string
  rs_last_status :: "run_status option"
  rs_summary_comment_id :: "nat option"
  rs_findings :: "state_finding list"

definition is_closed :: "finding_state \<Rightarrow> bool" where
  "is_closed s = (s = StResolved \<or> s = StRejected)"

lemma is_closed_simps [simp]:
  "\<not> is_closed StOpen" "\<not> is_closed StUncertain" "is_closed StResolved" "is_closed StRejected"
  by (simp_all add: is_closed_def)

section \<open>Findings and their stored form\<close>

definition clip :: "string \<Rightarrow> string" where
  "clip s = truncate_bytes s MAX_TEXT"

definition evidence_ref :: "evidence \<Rightarrow> string" where
  "evidence_ref e =
     (if ev_note e = [] then ev_path e @ '':'' @ u32_str (ev_start_line e)
      else ev_path e @ '':'' @ u32_str (ev_start_line e) @ '' '' @ clip (ev_note e))"

definition from_finding :: "(string \<Rightarrow> string) \<Rightarrow> finding \<Rightarrow> finding_state \<Rightarrow> state_finding" where
  "from_finding H f status =
     \<lparr>sf_id = fid H f, sf_category = f_category f, sf_status = status, sf_file = f_file f,
      sf_start_line = f_start_line f, sf_end_line = f_end_line f, sf_title = f_title f,
      sf_posted = False, sf_defect_key = f_defect_key f, sf_severity = f_severity f,
      sf_claim = clip (f_claim f), sf_trigger = clip (f_trigger f), sf_impact = clip (f_impact f),
      sf_evidence = map evidence_ref (take MAX_EVIDENCE (f_supporting_evidence f))\<rparr>"

text \<open>The search over the \<open>:\<close> of a reference, each candidate checked by \<open>ref_at\<close>.\<close>

definition ref_at :: "string \<Rightarrow> nat \<Rightarrow> (string \<times> string \<times> string) option" where
  "ref_at e index =
     (let tail = drop (Suc index) e;
          digits = length (takeWhile is_ascii_digit tail);
          line = take digits tail; rest = drop digits tail in
      if digits = 0 \<or> (rest \<noteq> [] \<and> \<not> starts_with rest '' '') then None
      else Some (take index e, line, unwrap_or (strip_prefix rest '' '') []))"

definition match_colons :: "string \<Rightarrow> nat list" where
  "match_colons e = filter (\<lambda>i. e ! i = CHR '':'') [0..<length e]"

definition parse_reference :: "string \<Rightarrow> string \<times> string \<times> string" where
  "parse_reference e =
     (case List.map_filter (ref_at e) (match_colons e) of
        r # _ \<Rightarrow> r
      | [] \<Rightarrow>
          (let (loc, note) = unwrap_or (split_once (CHR '' '') e) (e, []);
               (path, line) = unwrap_or (rsplit_once (CHR '':'') loc) (loc, ''0'')
           in (path, line, note)))"

definition reference_evidence :: "string \<Rightarrow> evidence" where
  "reference_evidence e =
     (let (path, line, note) = parse_reference e; start_line = unwrap_or (parse_u32 line) 0 in
      \<lparr>ev_path = path, ev_start_line = start_line, ev_end_line = start_line, ev_note = note\<rparr>)"

definition to_finding :: "state_finding \<Rightarrow> finding" where
  "to_finding s =
     \<lparr>f_defect_key = sf_defect_key s, f_category = sf_category s, f_duplicate_of = None,
      f_severity = sf_severity s, f_file = sf_file s, f_start_line = sf_start_line s,
      f_end_line = sf_end_line s, f_title = sf_title s, f_claim = sf_claim s,
      f_trigger = sf_trigger s, f_impact = sf_impact s, f_introduced_by_change = True,
      f_supporting_evidence = map reference_evidence (sf_evidence s),
      f_counterevidence_checked = [], f_validation_status = None, f_suggested_fix = None,
      f_validated_fix = None, f_suggestion = None, f_source = ''prior'', f_rationale = None,
      f_sources = [''prior'']\<rparr>"

section \<open>Operations of the state\<close>

definition project_finding :: "bool \<Rightarrow> state_finding \<Rightarrow> state_finding option" where
  "project_finding publish_uncertain f =
     (case sf_status f of
        StOpen \<Rightarrow> Some f
      | StUncertain \<Rightarrow> if sf_posted f \<or> publish_uncertain then Some f else None
      | StRejected \<Rightarrow> None
      | StResolved \<Rightarrow>
          if sf_posted f
          then Some (f\<lparr>sf_claim := [], sf_trigger := [], sf_impact := [], sf_evidence := []\<rparr>)
          else None)"

definition public_projection :: "bool \<Rightarrow> review_state \<Rightarrow> review_state" where
  "public_projection publish_uncertain st =
     st\<lparr>rs_findings := List.map_filter (project_finding publish_uncertain) (rs_findings st)\<rparr>"

definition can_reuse :: "review_state \<Rightarrow> string \<Rightarrow> bool" where
  "can_reuse st review_key =
     (rs_version st = STATE_VERSION \<and> rs_review_key st \<noteq> [] \<and> rs_review_key st = review_key
      \<and> rs_last_status st = Some Complete)"

text \<open>One iteration of \<open>prune\<close>'s loop removes the first closed finding, or the first one.\<close>

definition drop_one :: "state_finding list \<Rightarrow> state_finding list" where
  "drop_one fs =
     (case position (\<lambda>f. is_closed (sf_status f)) fs of
        Some i \<Rightarrow> take i fs @ drop (Suc i) fs
      | None \<Rightarrow> tl fs)"

lemma length_drop_one: "fs \<noteq> [] \<Longrightarrow> length (drop_one fs) = length fs - 1"
  by (auto simp: drop_one_def dest: position_lt split: option.splits)

function prune :: "state_finding list \<Rightarrow> state_finding list" where
  "prune fs = (if MAX_STATE_FINDINGS < length fs then prune (drop_one fs) else fs)"
  by pat_completeness auto
termination
proof (relation "measure length")
  fix fs :: "state_finding list"
  assume "MAX_STATE_FINDINGS < length fs"
  then show "(drop_one fs, fs) \<in> measure length"
    using length_drop_one[of fs] by (cases fs) auto
qed simp

declare prune.simps [simp del]

definition record_outcome ::
  "string \<Rightarrow> string \<Rightarrow> string \<Rightarrow> string \<Rightarrow> run_status \<Rightarrow> review_state \<Rightarrow> review_state"
where
  "record_outcome base head patch_id review_key status st =
     st\<lparr>rs_version := STATE_VERSION, rs_reviewed_base := base, rs_reviewed_head := head,
        rs_patch_id := patch_id, rs_review_key := review_key, rs_last_status := Some status,
        rs_findings := prune (rs_findings st)\<rparr>"

definition mark_publication_incomplete :: "review_state \<Rightarrow> review_state" where
  "mark_publication_incomplete st =
     (if rs_last_status st = Some Complete then st\<lparr>rs_last_status := Some Partial\<rparr> else st)"

definition open_findings :: "review_state \<Rightarrow> state_finding list" where
  "open_findings st = filter (\<lambda>f. sf_status f = StOpen \<or> sf_status f = StUncertain) (rs_findings st)"

definition find_id :: "string \<Rightarrow> review_state \<Rightarrow> state_finding option" where
  "find_id i st = List.find (\<lambda>f. sf_id f = i) (rs_findings st)"

definition has_posted :: "review_state \<Rightarrow> string \<Rightarrow> bool" where
  "has_posted st i =
     list_ex (\<lambda>f. sf_id f = i \<and> sf_posted f \<and> (sf_status f = StOpen \<or> sf_status f = StUncertain))
       (rs_findings st)"

definition is_tracked_open :: "review_state \<Rightarrow> string \<Rightarrow> bool" where
  "is_tracked_open st i =
     list_ex (\<lambda>f. sf_id f = i \<and> (sf_status f = StOpen \<or> sf_status f = StUncertain)) (rs_findings st)"

definition mark :: "string \<Rightarrow> finding_state \<Rightarrow> review_state \<Rightarrow> review_state" where
  "mark i status st =
     (case position (\<lambda>f. sf_id f = i) (rs_findings st) of
        None \<Rightarrow> st
      | Some n \<Rightarrow> st\<lparr>rs_findings := (rs_findings st)[n := (rs_findings st ! n)\<lparr>sf_status := status\<rparr>]\<rparr>)"

definition upsert :: "(string \<Rightarrow> string) \<Rightarrow> finding \<Rightarrow> finding_state \<Rightarrow> review_state \<Rightarrow> review_state \<times> bool" where
  "upsert H f status st =
     (if f_duplicate_of f \<noteq> None
      then (st\<lparr>rs_findings := filter (\<lambda>old. sf_id old \<noteq> fid H f) (rs_findings st)\<rparr>, False)
      else
        (case position (\<lambda>x. sf_id x = fid H f) (rs_findings st) of
           Some n \<Rightarrow>
             (let e = rs_findings st ! n;
                  reopened = is_closed (sf_status e) \<and> (status = StOpen \<or> status = StUncertain);
                  posted = sf_posted e \<and> \<not> reopened
              in (st\<lparr>rs_findings := (rs_findings st)[n := (from_finding H f status)\<lparr>sf_posted := posted\<rparr>]\<rparr>,
                  reopened))
         | None \<Rightarrow> (st\<lparr>rs_findings := rs_findings st @ [from_finding H f status]\<rparr>, False)))"

definition mark_posted :: "string list \<Rightarrow> review_state \<Rightarrow> review_state" where
  "mark_posted ids st =
     st\<lparr>rs_findings := map (\<lambda>f. if sf_id f \<in> set ids then f\<lparr>sf_posted := True\<rparr> else f) (rs_findings st)\<rparr>"

fun recheck_transition :: "validation_status \<Rightarrow> finding_state" where
  "recheck_transition Accepted = StOpen"
| "recheck_transition Rejected = StResolved"
| "recheck_transition Uncertain = StUncertain"

definition review_key :: "(string \<Rightarrow> string) \<Rightarrow> string \<Rightarrow> string \<Rightarrow> string \<Rightarrow> string \<Rightarrow> string" where
  "review_key H base_sha head_tree patch_id cfg_text =
     take 24 (H (concat (map (\<lambda>p. p @ [CHR 0x00]) [base_sha, head_tree, patch_id]) @ cfg_text))"

end
