(* ===== verification/Diff_Props.thy ===== *)
theory Diff_Props
  imports Diff "HOL-Library.Multiset"
begin

text \<open>
  What \<open>diff.rs\<close> promises: every parsed hunk is numbered consistently whatever the input, rendering
  and parsing are inverse on well-formed diffs, the selection under a byte budget keeps the budget
  and loses no file silently, and the context lookup answers exactly when a head-side line is near.
\<close>

section \<open>Line numbers of parsed hunks\<close>

text \<open>The specification of a hunk's numbering: old numbers run over deleted and context lines from
  the old start, new numbers over added and context lines from the new start.\<close>

fun numbered :: "u32 \<Rightarrow> u32 \<Rightarrow> diff_line list \<Rightarrow> bool" where
  "numbered on nn [] = True"
| "numbered on nn (l # ls) =
     (case dl_kind l of
        Add \<Rightarrow> dl_old_no l = None \<and> dl_new_no l = Some nn \<and> numbered on (nn + 1) ls
      | Del \<Rightarrow> dl_old_no l = Some on \<and> dl_new_no l = None \<and> numbered (on + 1) nn ls
      | Ctx \<Rightarrow> dl_old_no l = Some on \<and> dl_new_no l = Some nn \<and> numbered (on + 1) (nn + 1) ls)"

fun old_after :: "u32 \<Rightarrow> diff_line list \<Rightarrow> u32" where
  "old_after on [] = on"
| "old_after on (l # ls) = old_after (if dl_kind l = Add then on else on + 1) ls"

fun new_after :: "u32 \<Rightarrow> diff_line list \<Rightarrow> u32" where
  "new_after nn [] = nn"
| "new_after nn (l # ls) = new_after (if dl_kind l = Del then nn else nn + 1) ls"

definition hunk_numbered :: "hunk \<Rightarrow> bool" where
  "hunk_numbered h = numbered (old_start h) (new_start h) (hk_lines h)"

definition file_numbered :: "file_diff \<Rightarrow> bool" where
  "file_numbered f = list_all hunk_numbered (hunks f)"

definition parse_inv :: "parse_st \<Rightarrow> bool" where
  "parse_inv st =
     (list_all file_numbered (ps_files st) \<and> pred_option file_numbered (ps_cur st)
      \<and> pred_option (\<lambda>h. hunk_numbered h
            \<and> ps_old_no st = old_after (old_start h) (hk_lines h)
            \<and> ps_new_no st = new_after (new_start h) (hk_lines h)) (ps_hunk st))"

lemma numbered_append:
  "numbered on nn (ls @ ms) \<longleftrightarrow> numbered on nn ls \<and> numbered (old_after on ls) (new_after nn ls) ms"
  by (induction on nn ls rule: numbered.induct) (auto split: diff_line_kind.splits)

lemma old_after_append [simp]: "old_after on (ls @ ms) = old_after (old_after on ls) ms"
  by (induction ls arbitrary: on) auto

lemma new_after_append [simp]: "new_after nn (ls @ ms) = new_after (new_after nn ls) ms"
  by (induction ls arbitrary: nn) auto

lemma push_hunk_numbered:
  "file_numbered f \<Longrightarrow> pred_option hunk_numbered h \<Longrightarrow> file_numbered (push_hunk h f)"
  by (auto simp: push_hunk_def file_numbered_def split: option.splits)

lemma header_line_hunks: "header_line f line = Some f' \<Longrightarrow> hunks f' = hunks f"
  by (auto simp: header_line_def Let_def split: option.splits if_splits)

lemma parse_inv_hunk: "parse_inv st \<Longrightarrow> pred_option hunk_numbered (ps_hunk st)"
  by (auto simp: parse_inv_def split: option.splits elim!: option.pred_mono_strong)

lemma flush_file_inv: "parse_inv st \<Longrightarrow> parse_inv (flush_file st)"
  using parse_inv_hunk[of st]
  by (auto simp: parse_inv_def flush_file_def push_hunk_numbered split: option.splits)

lemma push_line_inv:
  "parse_inv st \<Longrightarrow> ps_hunk st = Some h \<Longrightarrow> parse_inv (push_line st h line)"
  by (auto simp: parse_inv_def push_line_def hunk_numbered_def numbered_append Let_def
      split: diff_line_kind.splits prod.splits)

lemma start_hunk_inv:
  assumes "parse_inv st" and "ps_cur st = Some f"
  shows "parse_inv (start_hunk st f r)"
proof -
  have "file_numbered (push_hunk (ps_hunk st) f)"
    using assms parse_inv_hunk[OF assms(1)] by (auto simp: parse_inv_def intro: push_hunk_numbered)
  with assms show ?thesis
    by (auto simp: parse_inv_def start_hunk_def hunk_numbered_def split: prod.splits)
qed

lemma start_file_hunks [simp]: "hunks (start_file rest) = []"
  by (auto simp: start_file_def split: prod.splits)

lemma flush_file_hunk:
  "ps_hunk (flush_file st) = (if ps_cur st = None then ps_hunk st else None)"
  by (auto simp: flush_file_def split: option.splits)

lemma set_cur_inv: "parse_inv st \<Longrightarrow> file_numbered f \<Longrightarrow> parse_inv (st\<lparr>ps_cur := Some f\<rparr>)"
  by (simp add: parse_inv_def)

lemma parse_line_inv:
  assumes "parse_inv st"
  shows "parse_inv (parse_line line st)"
proof (cases "strip_prefix line ''diff --git ''")
  case (Some rest)
  then show ?thesis using flush_file_inv[OF assms]
    by (auto simp: parse_line_def file_numbered_def intro!: set_cur_inv)
next
  case no_git: None
  show ?thesis
  proof (cases "ps_cur st")
    case None
    with no_git assms show ?thesis by (simp add: parse_line_def)
  next
    case cur: (Some f)
    then have f: "file_numbered f" using assms by (simp add: parse_inv_def)
    show ?thesis
    proof (cases "header_line f line")
      case (Some f')
      with f have "file_numbered f'" by (simp add: header_line_hunks file_numbered_def)
      with Some no_git cur assms show ?thesis by (simp add: parse_line_def set_cur_inv)
    next
      case None
      with no_git cur assms show ?thesis
        by (auto simp: parse_line_def intro: start_hunk_inv push_line_inv split: option.splits)
    qed
  qed
qed

lemma fold_parse_line_inv: "parse_inv st \<Longrightarrow> parse_inv (fold parse_line ls st)"
  by (induction ls arbitrary: st) (auto intro: parse_line_inv)

lemma parse_init_inv: "parse_inv parse_init"
  by (simp add: parse_inv_def parse_init_def)

text \<open>Every hunk that \<open>parse_unified\<close> returns, for any input text, numbers its lines
  consecutively from the starts of its header.\<close>

theorem parse_unified_numbered: "list_all file_numbered (parse_unified text)"
proof -
  have "parse_inv (flush_file (fold parse_line (lines text) parse_init))"
    by (intro flush_file_inv fold_parse_line_inv parse_init_inv)
  then show ?thesis by (simp add: parse_inv_def parse_unified_def)
qed

section \<open>Rendering and parsing are inverse\<close>

text \<open>The texts a rendered diff can carry: no line break inside, and no text that makes the line
  look like a \<open>---\<close> or \<open>+++\<close> file header (the parser reads those inside hunks, too).\<close>

definition wf_line :: "diff_line \<Rightarrow> bool" where
  "wf_line l =
     (CHR 0x0A \<notin> set (dl_text l) \<and> (dl_text l = [] \<or> last (dl_text l) \<noteq> CHR 0x0D)
      \<and> (dl_kind l = Del \<longrightarrow> \<not> starts_with (dl_text l) ''-- '')
      \<and> (dl_kind l = Add \<longrightarrow> \<not> starts_with (dl_text l) ''++ ''))"

definition wf_hunk :: "hunk \<Rightarrow> bool" where
  "wf_hunk h = (hunk_numbered h \<and> list_all wf_line (hk_lines h))"

definition wf_file :: "file_diff \<Rightarrow> bool" where
  "wf_file f =
     (ascii_word (old_path f) \<and> ascii_word (new_path f) \<and> fd_status f = Modified
      \<and> list_all wf_hunk (hunks f))"

lemma ascii_word_no_break: "ascii_word s \<Longrightarrow> CHR 0x0A \<notin> set s \<and> CHR 0x0D \<notin> set s"
  by (auto simp: ascii_word_def list_all_iff ascii_graphic_def)

lemma num_or_0_Some [simp]: "num_or_0 (Some n) = n"
  by (simp add: num_or_0_def)

lemma comma_notin_nat_str: "CHR '','' \<notin> set (nat_str n)"
proof
  assume "CHR '','' \<in> set (nat_str n)"
  then have "is_ascii_digit (CHR '','')" using nat_str_digits by blast
  then show False by (simp add: is_ascii_digit_def)
qed

lemma split_range_str: "split_range (u32_str a @ '','' @ u32_str b) = (a, b)"
  using comma_notin_nat_str[of "unat a"]
  by (simp add: split_range_def u32_str_def split_once_append parse_u32_u32_str[unfolded u32_str_def])

lemma ascii_word_u32_str [simp]: "ascii_word (u32_str w)"
  by (simp add: u32_str_def)

lemma parse_hunk_header_ranges:
  "parse_hunk_header (ranges_str h) = Some (old_start h, old_len h, new_start h, new_len h)"
proof -
  let ?o = "''-'' @ u32_str (old_start h) @ '','' @ u32_str (old_len h)"
  let ?n = "''+'' @ u32_str (new_start h) @ '','' @ u32_str (new_len h)"
  have o: "ascii_word ?o" and n: "ascii_word ?n" and at: "ascii_word ''@@''"
    by (simp_all add: ascii_graphic_def)
  have "trim_at_signs (ranges_str h) = CHR '' '' # ?o @ CHR '' '' # ?n @ CHR '' '' # ''@@''"
    by (simp add: ranges_str_def)
  moreover have "split_whitespace (CHR '' '' # ?o @ CHR '' '' # ?n @ CHR '' '' # ''@@'') = [?o, ?n, ''@@'']"
    unfolding split_whitespace_def
    using split_ws_word[OF o, of "[]"] split_ws_word[OF n, of "[]"] split_ws_word[OF at, of "[]" "[]"]
    by (simp del: split_ws.simps(2) append.simps add: split_ws_space)
  ultimately show ?thesis
    using strip_prefix_append[of "''-''"] strip_prefix_append[of "''+''"]
    by (simp add: parse_hunk_header_def split_range_str[simplified])
qed

lemma ranges_str_no_break: "CHR 0x0A \<notin> set (ranges_str h) \<and> last (ranges_str h) \<noteq> CHR 0x0D"
  using ascii_word_no_break[OF ascii_word_u32_str] by (simp add: ranges_str_def)

lemma ranges_str_prefix: "ranges_str h = CHR ''@'' # CHR ''@'' # drop 2 (ranges_str h)"
  by (simp add: ranges_str_def)

lemma strip_prefix_Cons_None: "c \<noteq> d \<Longrightarrow> strip_prefix (c # s) (d # p) = None"
  by (simp add: strip_prefix_def str_simps)

lemma header_line_at: "header_line f (CHR ''@'' # s) = None"
  by (simp add: header_line_def strip_prefix_Cons_None str_simps)

lemma parse_line_ranges:
  assumes "ps_cur st = Some f"
  shows "parse_line (ranges_str h) st
           = start_hunk st f (old_start h, old_len h, new_start h, new_len h)"
proof -
  obtain s where s: "ranges_str h = CHR ''@'' # CHR ''@'' # s" using ranges_str_prefix by blast
  have "strip_prefix (ranges_str h) ''diff --git '' = None" by (simp add: s strip_prefix_Cons_None)
  moreover have "header_line f (ranges_str h) = None" by (simp add: s header_line_at)
  moreover have "starts_with (ranges_str h) ''@@''" by (simp add: s str_simps)
  ultimately show ?thesis using assms by (simp add: parse_line_def parse_hunk_header_ranges)
qed

text \<open>One content line: a well-formed line of the right numbers is appended to the open hunk.\<close>

definition line_text :: "diff_line \<Rightarrow> string" where
  "line_text l = line_sign (dl_kind l) # dl_text l"

lemma header_line_content:
  assumes "wf_line l"
  shows "header_line f (line_text l) = None" and "strip_prefix (line_text l) ''diff --git '' = None"
    and "\<not> starts_with (line_text l) ''@@''" and "\<not> starts_with (line_text l) [CHR 0x5C]"
  using assms
  by (cases "dl_kind l";
      auto simp: header_line_def line_text_def line_sign_def wf_line_def strip_prefix_def str_simps)+

lemma content_line_text: "content_line (line_text l) = (dl_kind l, dl_text l)"
  by (cases "dl_kind l") (auto simp: content_line_def line_text_def line_sign_def unwrap_or_def
      strip_prefix_def str_simps)

lemma parse_line_content:
  assumes "wf_line l" and "ps_cur st = Some f" and "ps_hunk st = Some h"
    and "numbered (ps_old_no st) (ps_new_no st) [l]"
  shows "parse_line (line_text l) st =
     st\<lparr>ps_hunk := Some (h\<lparr>hk_lines := hk_lines h @ [l]\<rparr>),
        ps_old_no := old_after (ps_old_no st) [l], ps_new_no := new_after (ps_new_no st) [l]\<rparr>"
proof -
  have "parse_line (line_text l) st = push_line st h (line_text l)"
    using assms(2,3) header_line_content[OF assms(1)] by (simp add: parse_line_def)
  also have "\<dots> = st\<lparr>ps_hunk := Some (h\<lparr>hk_lines := hk_lines h @ [l]\<rparr>),
        ps_old_no := old_after (ps_old_no st) [l], ps_new_no := new_after (ps_new_no st) [l]\<rparr>"
    using assms(4)
    by (cases "dl_kind l"; cases l) (auto simp: push_line_def content_line_text Let_def)
  finally show ?thesis .
qed

lemma fold_parse_content:
  assumes "list_all wf_line ls" and "ps_cur st = Some f" and "ps_hunk st = Some h"
    and "numbered (ps_old_no st) (ps_new_no st) ls"
  shows "fold parse_line (map line_text ls) st =
     st\<lparr>ps_hunk := Some (h\<lparr>hk_lines := hk_lines h @ ls\<rparr>),
        ps_old_no := old_after (ps_old_no st) ls, ps_new_no := new_after (ps_new_no st) ls\<rparr>"
  using assms
proof (induction ls arbitrary: st h)
  case (Cons l ls)
  have one: "numbered (ps_old_no st) (ps_new_no st) [l]"
    and rest: "numbered (old_after (ps_old_no st) [l]) (new_after (ps_new_no st) [l]) ls"
    using Cons.prems(4) numbered_append[of _ _ "[l]" ls] by auto
  have step: "parse_line (line_text l) st =
     st\<lparr>ps_hunk := Some (h\<lparr>hk_lines := hk_lines h @ [l]\<rparr>),
        ps_old_no := old_after (ps_old_no st) [l], ps_new_no := new_after (ps_new_no st) [l]\<rparr>"
    using Cons.prems one by (intro parse_line_content) auto
  show ?case
    using Cons.IH[of "parse_line (line_text l) st" "h\<lparr>hk_lines := hk_lines h @ [l]\<rparr>"]
      Cons.prems rest
    by (simp add: step)
qed simp

text \<open>The lines of a rendered file.\<close>

definition hunk_text_lines :: "hunk \<Rightarrow> string list" where
  "hunk_text_lines h = ranges_str h # map line_text (hk_lines h)"

definition git_line :: "file_diff \<Rightarrow> string" where
  "git_line f = ''diff --git a/'' @ old_path f @ '' b/'' @ new_path f"

definition file_text_lines :: "file_diff \<Rightarrow> string list" where
  "file_text_lines f = git_line f # concat (map hunk_text_lines (hunks f))"

abbreviation with_nl :: "string list \<Rightarrow> string" where
  "with_nl ls \<equiv> concat (map (\<lambda>l. l @ [CHR 0x0A]) ls)"

definition plain_line :: "string \<Rightarrow> bool" where
  "plain_line l = (CHR 0x0A \<notin> set l \<and> (l = [] \<or> last l \<noteq> CHR 0x0D))"

lemma lines_with_nl: "list_all plain_line ls \<Longrightarrow> lines (with_nl ls) = ls"
proof (induction ls)
  case (Cons l ls)
  then show ?case using lines_line[of l "with_nl ls"] by (simp add: plain_line_def)
qed simp

lemma render_hunk_body_lines: "render_hunk_body h = with_nl (hunk_text_lines h)"
  by (simp add: render_hunk_body_def hunk_text_lines_def render_line_def[abs_def] line_text_def comp_def)

lemma with_nl_concat: "with_nl (concat (map f xs)) = concat (map (\<lambda>x. with_nl (f x)) xs)"
  by (induction xs) auto

lemma render_file_lines: "render_file f = with_nl (file_text_lines f)"
  by (simp add: render_file_def file_text_lines_def git_line_def file_header_def
      render_hunk_body_lines[abs_def] with_nl_concat)

lemma render_lines: "render d = with_nl (concat (map file_text_lines d))"
  by (simp add: render_def render_file_lines[abs_def] with_nl_concat)

lemma plain_git_line: "wf_file f \<Longrightarrow> plain_line (git_line f)"
  using ascii_word_no_break[of "old_path f"] ascii_word_no_break[of "new_path f"]
  by (cases "new_path f" rule: rev_cases) (auto simp: plain_line_def git_line_def wf_file_def)

lemma plain_hunk_lines: "wf_hunk h \<Longrightarrow> list_all plain_line (hunk_text_lines h)"
  using ranges_str_no_break[of h]
  by (auto simp: wf_hunk_def wf_line_def plain_line_def hunk_text_lines_def list_all_iff line_text_def
      line_sign_def split: diff_line_kind.splits)

lemma plain_file_lines: "wf_file f \<Longrightarrow> list_all plain_line (file_text_lines f)"
  using plain_hunk_lines plain_git_line
  by (fastforce simp: file_text_lines_def list_all_iff wf_file_def)

text \<open>The header line names the two paths.\<close>

lemma path_token_word:
  "ascii_word p \<Longrightarrow> p \<noteq> [] \<Longrightarrow> hd p \<noteq> CHR 0x22 \<Longrightarrow>
   path_token (CHR '' '' # p @ CHR '' '' # s) = (p, CHR '' '' # s)"
  by (cases p) (auto simp: path_token_def trim_start_graphic str_simps find_ws_word_append
      ws_head_space ws_head_graphic Let_def)

lemma path_token_last:
  "ascii_word p \<Longrightarrow> p \<noteq> [] \<Longrightarrow> hd p \<noteq> CHR 0x22 \<Longrightarrow> path_token (CHR '' '' # p) = (p, [])"
  by (cases p) (auto simp: path_token_def trim_start_graphic str_simps find_ws_word ws_head_graphic Let_def)

lemma path_token_first: "path_token (CHR '' '' # s) = path_token s"
  by (simp add: path_token_def)

lemma start_file_paths:
  assumes "ascii_word a" and "ascii_word b"
  shows "start_file (''a/'' @ a @ '' b/'' @ b)
           = \<lparr>old_path = a, new_path = b, fd_status = Modified, hunks = []\<rparr>"
proof -
  have g: "ascii_graphic CHR ''a''" "ascii_graphic CHR ''b''" "ascii_graphic CHR ''/''"
    by (simp_all add: ascii_graphic_def)
  have "path_token (''a/'' @ a @ '' b/'' @ b) = (''a/'' @ a, CHR '' '' # ''b/'' @ b)"
    using path_token_word[of "''a/'' @ a" "''b/'' @ b"] assms(1) g by (simp add: path_token_first)
  moreover have "path_token (CHR '' '' # ''b/'' @ b) = (''b/'' @ b, [])"
    using path_token_last[of "''b/'' @ b"] assms(2) g by simp
  ultimately show ?thesis
    by (simp add: start_file_def strip_ab_prefix_def strip_prefix_def str_simps)
qed

lemma parse_line_git:
  assumes "wf_file f"
  shows "parse_line (git_line f) st = (flush_file st)\<lparr>ps_cur := Some (f\<lparr>hunks := []\<rparr>)\<rparr>"
proof -
  have "git_line f = ''diff --git '' @ (''a/'' @ old_path f @ '' b/'' @ new_path f)"
    by (simp add: git_line_def)
  then have "strip_prefix (git_line f) ''diff --git '' = Some (''a/'' @ old_path f @ '' b/'' @ new_path f)"
    by (simp only: strip_prefix_append)
  then show ?thesis
    using assms by (simp add: parse_line_def start_file_paths[simplified] wf_file_def)
qed

text \<open>The file a state would close with; \<open>header_line\<close> never sees a hunk.\<close>

lemma fold_parse_hunks:
  assumes "list_all wf_hunk hs" and "ps_cur st = Some f"
  shows "\<exists>st' f'. fold parse_line (concat (map hunk_text_lines hs)) st = st' \<and> ps_cur st' = Some f'
           \<and> ps_files st' = ps_files st
           \<and> push_hunk (ps_hunk st') f' = (push_hunk (ps_hunk st) f)\<lparr>hunks := hunks (push_hunk (ps_hunk st) f) @ hs\<rparr>"
  using assms
proof (induction hs arbitrary: st f)
  case (Cons h hs)
  let ?st1 = "start_hunk st f (old_start h, old_len h, new_start h, new_len h)"
  let ?g = "push_hunk (ps_hunk st) f"
  let ?h0 = "\<lparr>old_start = old_start h, old_len = old_len h, new_start = new_start h,
              new_len = new_len h, hk_lines = []\<rparr>"
  have one: "fold parse_line (hunk_text_lines h) st = fold parse_line (map line_text (hk_lines h)) ?st1"
    using Cons.prems(2) by (simp add: hunk_text_lines_def parse_line_ranges)
  have st1: "ps_cur ?st1 = Some ?g" "ps_hunk ?st1 = Some ?h0" "ps_files ?st1 = ps_files st"
    "ps_old_no ?st1 = old_start h" "ps_new_no ?st1 = new_start h"
    by (simp_all add: start_hunk_def)
  have wf: "list_all wf_line (hk_lines h)" "numbered (old_start h) (new_start h) (hk_lines h)"
    using Cons.prems(1) by (simp_all add: wf_hunk_def hunk_numbered_def)
  obtain st2 where st2: "fold parse_line (hunk_text_lines h) st = st2" "ps_cur st2 = Some ?g"
    "ps_files st2 = ps_files st" "ps_hunk st2 = Some h"
    using fold_parse_content[OF wf(1) st1(1) st1(2)] wf(2) st1 one by (cases h) auto
  have list: "list_all wf_hunk hs" using Cons.prems(1) by simp
  obtain st' f' where "fold parse_line (concat (map hunk_text_lines hs)) st2 = st'"
    "ps_cur st' = Some f'" "ps_files st' = ps_files st2"
    "push_hunk (ps_hunk st') f' = (push_hunk (ps_hunk st2) ?g)\<lparr>hunks := hunks (push_hunk (ps_hunk st2) ?g) @ hs\<rparr>"
    using Cons.IH[OF list st2(2)] by blast
  then show ?case using st2 by (simp add: push_hunk_def)
qed simp

definition parse_closed :: "parse_st \<Rightarrow> bool" where
  "parse_closed st = (ps_cur st = None \<longrightarrow> ps_hunk st = None)"

lemma fold_parse_file:
  assumes "wf_file f" and "parse_closed st"
  shows "\<exists>st'. fold parse_line (file_text_lines f) st = st' \<and> parse_closed st'
           \<and> ps_files (flush_file st') = ps_files (flush_file st) @ [f]"
proof -
  let ?st1 = "(flush_file st)\<lparr>ps_cur := Some (f\<lparr>hunks := []\<rparr>)\<rparr>"
  have hunk: "ps_hunk ?st1 = None" using assms(2) by (simp add: flush_file_hunk parse_closed_def)
  obtain st' f' where st': "fold parse_line (concat (map hunk_text_lines (hunks f))) ?st1 = st'"
    "ps_cur st' = Some f'" "ps_files st' = ps_files ?st1"
    "push_hunk (ps_hunk st') f' = (push_hunk (ps_hunk ?st1) (f\<lparr>hunks := []\<rparr>))
       \<lparr>hunks := hunks (push_hunk (ps_hunk ?st1) (f\<lparr>hunks := []\<rparr>)) @ hunks f\<rparr>"
    using fold_parse_hunks[of "hunks f" ?st1 "f\<lparr>hunks := []\<rparr>"] assms(1) by (auto simp: wf_file_def)
  have "push_hunk (ps_hunk st') f' = f" using st'(4) hunk by (simp add: push_hunk_def)
  then have "ps_files (flush_file st') = ps_files (flush_file st) @ [f]"
    using st'(2,3) by (simp add: flush_file_def)
  moreover have "fold parse_line (file_text_lines f) st = st'"
    using st'(1) by (simp add: file_text_lines_def parse_line_git[OF assms(1)])
  ultimately show ?thesis using st'(2) by (simp add: parse_closed_def)
qed

lemma fold_parse_files:
  assumes "list_all wf_file d" and "parse_closed st"
  shows "ps_files (flush_file (fold parse_line (concat (map file_text_lines d)) st))
           = ps_files (flush_file st) @ d"
  using assms
proof (induction d arbitrary: st)
  case (Cons f d)
  then obtain st' where "fold parse_line (file_text_lines f) st = st'" "parse_closed st'"
    "ps_files (flush_file st') = ps_files (flush_file st) @ [f]"
    using fold_parse_file[of f st] by auto
  with Cons show ?case by simp
qed simp

lemma parse_render:
  assumes "list_all wf_file d"
  shows "parse_unified (render d) = d"
proof -
  have "list_all plain_line (concat (map file_text_lines d))"
    using assms plain_file_lines by (fastforce simp: list_all_iff)
  then have "lines (render d) = concat (map file_text_lines d)"
    by (simp add: render_lines lines_with_nl)
  moreover have "parse_closed parse_init" by (simp add: parse_closed_def parse_init_def)
  ultimately show ?thesis
    using assms fold_parse_files[of d parse_init]
    by (simp add: parse_unified_def flush_file_def parse_init_def)
qed


definition sample_diff :: diff_set where
  "sample_diff =
     [\<lparr>old_path = ''a.rs'', new_path = ''b.rs'', fd_status = Modified,
       hunks = [\<lparr>old_start = 7, old_len = 2, new_start = 9, new_len = 2, hk_lines =
         [\<lparr>dl_kind = Ctx, dl_old_no = Some 7, dl_new_no = Some 9, dl_text = ''x''\<rparr>,
          \<lparr>dl_kind = Del, dl_old_no = Some 8, dl_new_no = None, dl_text = ''--y''\<rparr>,
          \<lparr>dl_kind = Add, dl_old_no = None, dl_new_no = Some 10, dl_text = ''z''\<rparr>]\<rparr>]\<rparr>]"


section \<open>Header look-alikes inside a hunk\<close>

text \<open>C40: Inside a hunk, a deleted line whose text starts with two dashes and a blank is taken for a
  file header: the line is not recorded, the line counters do not move, and the old path of the file
  is overwritten.\<close>

theorem deleted_dashes_read_as_header:
  assumes "ps_cur st = Some f" and "ps_hunk st = Some h"
    and "dl_kind l = Del" and "dl_text l = ''-- '' @ t" and "trim t \<noteq> ''/dev/null''"
  shows "parse_line (line_text l) st = st\<lparr>ps_cur := Some (f\<lparr>old_path := normalize_diff_path (trim t)\<rparr>)\<rparr>"
proof -
  have l: "line_text l = ''--- '' @ t" using assms(3,4) by (simp add: line_text_def line_sign_def)
  have t: "trim (CHR '' '' # t) = trim t" by (simp add: trim_def)
  show ?thesis
    using assms(1,5)
    by (simp add: parse_line_def header_line_def l strip_prefix_def str_simps t Let_def trim_start_char_def)
qed

definition open_state :: parse_st where
  "open_state =
     \<lparr>ps_files = [],
      ps_cur = Some \<lparr>old_path = ''q.sql'', new_path = ''q.sql'', fd_status = Modified, hunks = []\<rparr>,
      ps_hunk = Some \<lparr>old_start = 1, old_len = 2, new_start = 1, new_len = 1, hk_lines = []\<rparr>,
      ps_old_no = 1, ps_new_no = 1\<rparr>"

theorem deleted_dashes_read_as_header_witness:
  "ps_hunk (parse_line (line_text \<lparr>dl_kind = Del, dl_old_no = Some 1, dl_new_no = None,
                          dl_text = ''-- note''\<rparr>) open_state) = ps_hunk open_state
   \<and> ps_old_no (parse_line (line_text \<lparr>dl_kind = Del, dl_old_no = Some 1, dl_new_no = None,
                          dl_text = ''-- note''\<rparr>) open_state) = 1"
proof -
  have "trim ''note'' = ''note''" by (rule trim_word) (simp add: ascii_graphic_def)
  then show ?thesis
    by (subst deleted_dashes_read_as_header[where t = "''note''"];
        simp add: open_state_def deleted_dashes_read_as_header[where t = "''note''"])
qed

section \<open>The byte budget\<close>

definition selected_bytes :: "diff_set \<Rightarrow> bool list \<Rightarrow> nat" where
  "selected_bytes d sel = sum_list (map (\<lambda>(f, s). if s then length (render_file f) else 0) (zip d sel))"

lemma selected_bytes_update:
  "i < length d \<Longrightarrow> selected_bytes d (sel[i := True]) \<le> selected_bytes d sel + length (render_file (d ! i))"
proof (induction d arbitrary: sel i)
  case (Cons f d)
  show ?case
  proof (cases sel)
    case (Cons b bs)
    show ?thesis
    proof (cases i)
      case (Suc k)
      with Cons Cons.IH[of k bs] Cons.prems show ?thesis by (simp add: selected_bytes_def)
    qed (use Cons in \<open>simp add: selected_bytes_def\<close>)
  qed (simp add: selected_bytes_def)
qed simp

lemma fold_select_budget:
  assumes "\<forall>i\<in>set is. i < length d" and "selected_bytes d (fst st) \<le> min (snd st) m"
  shows "selected_bytes d (fst (fold (select_one d m) is st)) \<le> m"
  using assms
proof (induction "is" arbitrary: st)
  case (Cons i "is")
  obtain sel used where st: "st = (sel, used)" by (cases st)
  have "selected_bytes d (fst (select_one d m i st)) \<le> min (snd (select_one d m i st)) m"
    using Cons.prems selected_bytes_update[of i d sel] by (auto simp: select_one_def st Let_def)
  with Cons show ?case by simp
qed simp

lemma select_order_bound: "\<forall>i\<in>set (select_order d). i < length d"
  by (simp add: select_order_def)

lemma selected_bytes_none: "selected_bytes d (replicate n False) = 0"
proof (induction d arbitrary: n)
  case (Cons f d)
  then show ?case by (cases n) (auto simp: selected_bytes_def)
qed (simp add: selected_bytes_def)

text \<open>The file diffs that are rendered in full fit the byte budget together.\<close>

theorem selected_files_within_budget: "selected_bytes d (selected_files d m) \<le> m"
  unfolding selected_files_def
  by (intro fold_select_budget) (simp_all add: select_order_bound selected_bytes_none)

definition total_bytes :: "diff_set \<Rightarrow> nat list \<Rightarrow> nat" where
  "total_bytes d is = sum_list (map (\<lambda>i. length (render_file (d ! i))) is)"

lemma select_one_length: "length (fst (select_one d m i st)) = length (fst st)"
  by (auto simp: select_one_def Let_def split: prod.splits)

lemma fold_select_length: "length (fst (fold (select_one d m) is st)) = length (fst st)"
  by (induction "is" arbitrary: st) (auto simp: select_one_length)

lemma length_selected_files: "length (selected_files d m) = length d"
  by (simp add: selected_files_def fold_select_length)

lemma fold_select_keeps:
  "i < length (fst st) \<Longrightarrow> fst st ! i \<Longrightarrow> fst (fold (select_one d m) is st) ! i"
proof (induction "is" arbitrary: st)
  case (Cons j "is")
  have "fst (select_one d m j st) ! i"
    using Cons.prems by (cases "i = j") (auto simp: select_one_def Let_def split: prod.splits)
  with Cons show ?case by (simp add: select_one_length)
qed simp

lemma fold_select_all:
  assumes "snd st + total_bytes d is \<le> m" and "\<forall>i\<in>set is. i < length (fst st)" and "i \<in> set is"
  shows "fst (fold (select_one d m) is st) ! i"
  using assms
proof (induction "is" arbitrary: st)
  case (Cons j "is")
  obtain sel used where st: "st = (sel, used)" by (cases st)
  have one: "select_one d m j st = (sel[j := True], used + length (render_file (d ! j)))"
    using Cons.prems(1) by (simp add: select_one_def st total_bytes_def Let_def)
  show ?case
  proof (cases "i = j")
    case True
    then have "fst (select_one d m j st) ! i" using one Cons.prems(2) st by simp
    then show ?thesis
      using Cons.prems(2) True st one fold_select_keeps[of i "select_one d m j st" d m "is"] by simp
  next
    case False
    with Cons.prems Cons.IH[of "select_one d m j st"] one st show ?thesis
      by (simp add: total_bytes_def)
  qed
qed simp

lemma total_bytes_mset: "total_bytes d is = (\<Sum>i\<in>#mset is. length (render_file (d ! i)))"
  unfolding total_bytes_def by (induction "is") auto

lemma total_bytes_order: "total_bytes d (select_order d) = length (render d)"
proof -
  have mset: "mset (select_order d) = mset [0..<length d]"
    by (simp add: select_order_def)
  then have "total_bytes d (select_order d) = total_bytes d [0..<length d]"
    by (simp add: total_bytes_mset)
  moreover have "map (\<lambda>i. length (render_file (d ! i))) [0..<length d] = map (length \<circ> render_file) d"
    by (rule nth_equalityI) simp_all
  ultimately show ?thesis
    by (simp add: total_bytes_def render_def length_concat)
qed

lemma concat_map_zip_True:
  "length d = length sel \<Longrightarrow> \<forall>i<length sel. sel ! i \<Longrightarrow>
   concat (map (\<lambda>(f, s). if s then g f else h f) (zip d sel)) = concat (map g d)"
proof (induction d arbitrary: sel)
  case (Cons f d)
  then obtain b bs where sel: "sel = b # bs" by (cases sel) auto
  with Cons.prems(2) have "b" "\<forall>i<length bs. bs ! i" by auto
  with Cons sel show ?case by simp
qed simp

text \<open>A diff that fits the budget as a whole is rendered unchanged and nothing is omitted.\<close>

theorem fitting_diff_is_complete:
  assumes "length (render d) \<le> m"
  shows "render_truncated d m = render d \<and> omitted_files d m = []"
proof -
  have all: "selected_files d m ! i" if "i < length d" for i
    unfolding selected_files_def
    using that assms total_bytes_order[of d] select_order_bound[of d]
    by (intro fold_select_all) (simp_all add: select_order_def)
  then have "\<forall>i<length (selected_files d m). selected_files d m ! i"
    by (simp add: length_selected_files)
  then have "render_truncated d m = render d"
    unfolding render_truncated_def render_def
    by (intro concat_map_zip_True) (simp_all add: length_selected_files)
  moreover have "filter (\<lambda>(_, sel). \<not> sel) (zip d (selected_files d m)) = []"
    using all by (auto simp: filter_empty_conv set_zip length_selected_files)
  ultimately show ?thesis by (simp add: omitted_files_def)
qed

theorem fitting_diff_is_complete_witness:
  "render_truncated sample_diff (length (render sample_diff)) = render sample_diff
     \<and> omitted_files sample_diff (length (render sample_diff)) = []"
  by (rule fitting_diff_is_complete) simp

section \<open>Lookups\<close>

lemma head_no_Some: "head_no l = Some n \<longleftrightarrow> dl_new_no l = Some n \<and> dl_kind l \<noteq> Del"
  by (cases "dl_kind l") (auto simp: head_no_def)

lemma set_map_filter: "n \<in> set (List.map_filter f xs) \<longleftrightarrow> (\<exists>x\<in>set xs. f x = Some n)"
  by (induction xs) (auto split: option.splits)

lemma in_head_side_lines:
  "n \<in> head_side_lines d path \<longleftrightarrow>
     (\<exists>f h. diff_file d path = Some f \<and> h \<in> set (hunks f) \<and> hunk_has_line n h)"
  by (cases "diff_file d path")
    (auto simp: head_side_lines_def hunk_has_line_def set_map_filter head_no_Some list_ex_iff)

text \<open>A line is a head-side line of the diff exactly when some hunk contains it, so the anchoring
  of comments and the context lookup agree.\<close>

theorem hunk_containing_iff_head_side:
  "hunk_containing d path n = None \<longleftrightarrow> n \<notin> head_side_lines d path"
  by (auto simp: in_head_side_lines hunk_containing_def find_None_iff split: option.splits)

lemma unat_max_word: "unat (max (a::u32) b) = max (unat a) (unat b)"
  by (auto simp: max_def word_le_nat_alt)

lemma unat_head_distance:
  "unat (head_distance n h) = max (unat (new_start h) - unat n) (unat n - unat (head_end h))"
  by (simp add: head_distance_def unat_max_word unat_u32_sat_sub)

lemma unat_head_end:
  "unat (head_end h) = min (unat (new_start h) + (unat (new_len h) - 1)) (2 ^ 32 - 1)"
  by (simp add: head_end_def unat_u32_sat_add unat_u32_sat_sub)

text \<open>C35: \<open>diff_context\<close> answers exactly for head-side lines of the diff and for lines at most 40
  lines away from the head-side range of some hunk of the file.\<close>

theorem diff_context_answers_iff:
  "(\<exists>s. diff_context d path n = Inr s) \<longleftrightarrow>
     n \<in> head_side_lines d path
     \<or> (\<exists>f h. diff_file d path = Some f \<and> h \<in> set (hunks f)
           \<and> unat (new_start h) - unat n \<le> 40 \<and> unat n - unat (head_end h) \<le> 40)"
  (is "?answer \<longleftrightarrow> ?inside \<or> ?near")
proof (cases "hunk_containing d path n")
  case (Some c)
  then have ?inside using hunk_containing_iff_head_side[of d path n] by auto
  with Some show ?thesis by (simp add: diff_context_def)
next
  case None
  then have out: "\<not> ?inside" using hunk_containing_iff_head_side[of d path n] by auto
  show ?thesis
  proof (cases "diff_file d path")
    case nofile: None
    with None out show ?thesis by (simp add: diff_context_def)
  next
    case found: (Some f)
    have near: "?near \<longleftrightarrow> (\<exists>h\<in>set (hunks f). head_distance n h \<le> 40)"
      using found by (auto simp: word_le_nat_alt unat_head_distance)
    show ?thesis
    proof (cases "min_by_key (head_distance n) (hunks f)")
      case no: None
      then have "hunks f = []" by simp
      with no None found near out show ?thesis by (simp add: diff_context_def)
    next
      case (Some h)
      then have h: "h \<in> set (hunks f)" "\<forall>x\<in>set (hunks f). head_distance n h \<le> head_distance n x"
        using min_by_key_Some[OF Some] by auto
      have "?answer \<longleftrightarrow> head_distance n h \<le> 40"
        using None found Some by (simp add: diff_context_def)
      with h near out show ?thesis by (meson order_trans)
    qed
  qed
qed

lemma file_priority_le: "file_priority path \<le> 4"
  by (simp add: file_priority_def Let_def)

end
