(* ===== verification/Review_State_Props.thy ===== *)
theory Review_State_Props
  imports Review_State Diff_Props
begin

text \<open>
  Properties of the review state: upserts act on one key of a store with unique ids (the
  \<open>keyed_store\<close> interface), pruning keeps the newest open findings, the public projection leaks
  nothing it should not, and only a completed, published review is reused.
\<close>

section \<open>The state as a store\<close>

definition unique_ids :: "review_state \<Rightarrow> bool" where
  "unique_ids st = distinct (map sf_id (rs_findings st))"

definition upsert_put :: "(string \<Rightarrow> string) \<Rightarrow> finding \<times> finding_state \<Rightarrow> review_state \<Rightarrow> review_state" where
  "upsert_put H x st = fst (upsert H (fst x) (snd x) st)"

definition upsert_key :: "(string \<Rightarrow> string) \<Rightarrow> finding \<times> finding_state \<Rightarrow> string" where
  "upsert_key H x = fid H (fst x)"

text \<open>What an upsert makes of the stored entry, if any: a duplicate is removed; otherwise the entry
  is rebuilt from the finding, and stays posted only while it was posted and is not reopened.\<close>

definition upsert_entry ::
  "(string \<Rightarrow> string) \<Rightarrow> finding \<times> finding_state \<Rightarrow> state_finding option \<Rightarrow> state_finding option"
where
  "upsert_entry H x old =
     (if f_duplicate_of (fst x) \<noteq> None then None
      else Some ((from_finding H (fst x) (snd x))\<lparr>sf_posted :=
        (case old of None \<Rightarrow> False
         | Some e \<Rightarrow> sf_posted e \<and> \<not> (is_closed (sf_status e) \<and> \<not> is_closed (snd x)))\<rparr>))"

lemma not_closed: "\<not> is_closed s \<longleftrightarrow> s = StOpen \<or> s = StUncertain"
  by (cases s) auto

lemma find_append_other: "\<not> P y \<Longrightarrow> List.find P (xs @ [y]) = List.find P xs"
  by (induction xs) auto

lemma find_append_new: "\<forall>x\<in>set xs. \<not> P x \<Longrightarrow> P y \<Longrightarrow> List.find P (xs @ [y]) = Some y"
  by (induction xs) auto

lemma find_update_other:
  "n < length xs \<Longrightarrow> \<not> P (xs ! n) \<Longrightarrow> \<not> P y \<Longrightarrow> List.find P (xs[n := y]) = List.find P xs"
  by (induction xs arbitrary: n) (auto split: nat.splits)

lemma find_update_same:
  "position P xs = Some n \<Longrightarrow> P y \<Longrightarrow> List.find P (xs[n := y]) = Some y"
  by (induction xs arbitrary: n) (auto split: if_splits)

lemma position_find: "position P xs = Some n \<Longrightarrow> List.find P xs = Some (xs ! n)"
  by (induction xs arbitrary: n) (auto split: if_splits)

lemma position_find_None: "position P xs = None \<Longrightarrow> List.find P xs = None"
  by (induction xs) (auto split: if_splits)

lemma find_filter_other:
  "(\<And>x. P x \<Longrightarrow> Q x) \<Longrightarrow> List.find P (filter Q xs) = List.find P xs"
  by (induction xs) auto

lemma find_filter_gone: "(\<And>x. P x \<Longrightarrow> \<not> Q x) \<Longrightarrow> List.find P (filter Q xs) = None"
  by (induction xs) auto

lemma sf_id_from_finding [simp]: "sf_id (from_finding H f s) = fid H f"
  by (simp add: from_finding_def)

lemma upsert_put_unique: "unique_ids st \<Longrightarrow> unique_ids (upsert_put H x st)"
proof -
  assume u: "unique_ids st"
  let ?P = "\<lambda>x'. sf_id x' = fid H (fst x)"
  show ?thesis
  proof (cases "f_duplicate_of (fst x) = None")
    case False
    then show ?thesis using u by (simp add: upsert_put_def upsert_def unique_ids_def distinct_map_filter)
  next
    case True
    show ?thesis
    proof (cases "position ?P (rs_findings st)")
      case None
      then have "\<forall>x'\<in>set (rs_findings st). sf_id x' \<noteq> fid H (fst x)" by (simp add: position_None)
      with None True u show ?thesis
        by (auto simp: upsert_put_def upsert_def unique_ids_def)
    next
      case (Some n)
      then have n: "n < length (rs_findings st)" "sf_id (rs_findings st ! n) = fid H (fst x)"
        by (auto dest: position_Some)
      have "map sf_id ((rs_findings st)[n := e]) = map sf_id (rs_findings st)"
        if "sf_id e = fid H (fst x)" for e
        using n that by (metis length_map list_update_id map_update nth_map)
      with True Some u show ?thesis by (simp add: upsert_put_def upsert_def unique_ids_def Let_def)
    qed
  qed
qed

lemma upsert_put_other:
  assumes "k \<noteq> upsert_key H x"
  shows "find_id k (upsert_put H x st) = find_id k st"
proof (cases "f_duplicate_of (fst x) = None")
  case False
  then show ?thesis using assms
    by (simp add: upsert_put_def upsert_def find_id_def find_filter_other upsert_key_def)
next
  case True
  show ?thesis
  proof (cases "position (\<lambda>x'. sf_id x' = fid H (fst x)) (rs_findings st)")
    case None
    with True assms show ?thesis
      by (simp add: upsert_put_def upsert_def find_id_def upsert_key_def find_append_other)
  next
    case (Some n)
    then have "n < length (rs_findings st)" "sf_id (rs_findings st ! n) = fid H (fst x)"
      by (auto dest: position_Some)
    with True assms Some show ?thesis
      by (simp add: upsert_put_def upsert_def find_id_def upsert_key_def Let_def find_update_other)
  qed
qed

lemma upsert_put_same:
  "find_id (upsert_key H x) (upsert_put H x st) = upsert_entry H x (find_id (upsert_key H x) st)"
proof (cases "f_duplicate_of (fst x) = None")
  case False
  then show ?thesis
    by (simp add: upsert_put_def upsert_def find_id_def find_filter_gone upsert_key_def upsert_entry_def)
next
  case True
  show ?thesis
  proof (cases "position (\<lambda>x'. sf_id x' = fid H (fst x)) (rs_findings st)")
    case None
    then have "\<forall>x'\<in>set (rs_findings st). sf_id x' \<noteq> fid H (fst x)" by (simp add: position_None)
    moreover have "(from_finding H (fst x) (snd x))\<lparr>sf_posted := False\<rparr> = from_finding H (fst x) (snd x)"
      by (simp add: from_finding_def)
    ultimately show ?thesis using True None position_find_None[OF None]
      by (simp add: upsert_put_def upsert_def find_id_def upsert_key_def upsert_entry_def find_append_new)
  next
    case (Some n)
    with True show ?thesis
      by (simp add: upsert_put_def upsert_def find_id_def upsert_key_def upsert_entry_def Let_def
          find_update_same position_find not_closed)
  qed
qed

interpretation rstate: keyed_store
  "\<lambda>st k. find_id k st" "upsert_put H" "upsert_key H" "upsert_entry H" unique_ids for H
  by unfold_locales (simp_all add: upsert_put_unique upsert_put_other upsert_put_same)

text \<open>Recording the results of a run, one upsert per finding with its own identity, leaves for
  each finding exactly the entry its single upsert would make of the entry stored before, whatever
  the order, and keeps ids unique.\<close>

theorem upsert_batch:
  assumes "unique_ids st" and "distinct (map (upsert_key H) xs)" and "x \<in> set xs"
  shows "find_id (upsert_key H x) (fold (upsert_put H) xs st)
           = upsert_entry H x (find_id (upsert_key H x) st)
       \<and> unique_ids (fold (upsert_put H) xs st)"
  using assms by (simp add: rstate.fold_put_same rstate.fold_put_good)

definition empty_state :: review_state where
  "empty_state =
     \<lparr>rs_version = STATE_VERSION, rs_reviewed_head = [], rs_reviewed_base = [], rs_patch_id = [],
      rs_review_key = [], rs_last_status = None, rs_summary_comment_id = None, rs_findings = []\<rparr>"

theorem upsert_batch_witness:
  "find_id (fid (\<lambda>s. s) sample_finding) (fold (upsert_put (\<lambda>s. s)) [(sample_finding, StOpen)] empty_state)
     = Some (from_finding (\<lambda>s. s) sample_finding StOpen)"
  using upsert_batch[of empty_state "\<lambda>s. s" "[(sample_finding, StOpen)]" "(sample_finding, StOpen)"]
  by (simp add: unique_ids_def empty_state_def upsert_key_def upsert_entry_def find_id_def
      sample_finding_def from_finding_def)

text \<open>When an upsert reports a reopened finding, that finding is tracked as open again and counts
  as not yet posted, so it is published again.\<close>

theorem reopened_is_unposted:
  assumes "unique_ids st" and "snd (upsert H f s st)"
  shows "is_tracked_open (fst (upsert H f s st)) (fid H f)
       \<and> \<not> has_posted (fst (upsert H f s st)) (fid H f)"
proof -
  let ?P = "\<lambda>x. sf_id x = fid H f"
  have nd: "f_duplicate_of f = None" using assms(2) by (auto simp: upsert_def split: if_splits)
  then obtain n where pos: "position ?P (rs_findings st) = Some n"
    using assms(2) by (auto simp: upsert_def split: option.splits)
  let ?e = "(from_finding H f s)\<lparr>sf_posted := False\<rparr>"
  have closed: "is_closed (sf_status (rs_findings st ! n))" and opened: "s = StOpen \<or> s = StUncertain"
    using assms(2) nd pos by (auto simp: upsert_def Let_def)
  then have res: "rs_findings (fst (upsert H f s st)) = (rs_findings st)[n := ?e]"
    using nd pos by (auto simp: upsert_def Let_def)
  have n: "n < length (rs_findings st)" using pos by (rule position_lt)
  have "unique_ids (upsert_put H (f, s) st)" using assms(1) by (rule upsert_put_unique)
  then have u: "distinct (map sf_id ((rs_findings st)[n := ?e]))"
    by (simp add: unique_ids_def upsert_put_def res)
  have "g = ?e" if "g \<in> set ((rs_findings st)[n := ?e])" "sf_id g = fid H f" for g
  proof -
    have "?e \<in> set ((rs_findings st)[n := ?e])" using n by (rule set_update_memI)
    moreover have "sf_id g = sf_id ?e" using that(2) by simp
    ultimately show ?thesis using u that(1) by (meson distinct_map inj_on_def)
  qed
  moreover have "?e \<in> set ((rs_findings st)[n := ?e])" using n by (rule set_update_memI)
  ultimately show ?thesis using opened
    by (force simp: is_tracked_open_def has_posted_def res list_ex_iff from_finding_def)
qed

definition resolved_state :: review_state where
  "resolved_state = empty_state\<lparr>rs_findings :=
     [(from_finding (\<lambda>s. s) sample_finding StResolved)\<lparr>sf_posted := True\<rparr>]\<rparr>"

theorem reopened_is_unposted_witness:
  "\<not> has_posted (fst (upsert (\<lambda>s. s) sample_finding StOpen resolved_state)) (fid (\<lambda>s. s) sample_finding)"
  using reopened_is_unposted[of resolved_state "\<lambda>s. s" sample_finding StOpen]
  by (simp add: unique_ids_def resolved_state_def empty_state_def upsert_def from_finding_def
      sample_finding_def)

section \<open>Pruning\<close>

definition still_open :: "state_finding list \<Rightarrow> state_finding list" where
  "still_open fs = filter (\<lambda>f. \<not> is_closed (sf_status f)) fs"

lemma position_split:
  "position P xs = Some i \<Longrightarrow> xs = take i xs @ xs ! i # drop (Suc i) xs \<and> P (xs ! i)"
  using position_Some[of P xs i] id_take_nth_drop by blast

lemma still_open_drop_one:
  "still_open (drop_one fs) =
     (if list_ex (\<lambda>f. is_closed (sf_status f)) fs then still_open fs else tl (still_open fs))"
proof (cases "position (\<lambda>f. is_closed (sf_status f)) fs")
  case None
  then have all: "\<forall>f\<in>set fs. \<not> is_closed (sf_status f)" by (simp add: position_None)
  then have "still_open fs = fs" "still_open (tl fs) = tl fs"
    by (cases fs; auto simp: still_open_def filter_id_conv)+
  with None all show ?thesis by (auto simp: drop_one_def list_ex_iff)
next
  case (Some i)
  have split: "fs = take i fs @ fs ! i # drop (Suc i) fs" and c: "is_closed (sf_status (fs ! i))"
    using position_split[OF Some] by auto
  have "still_open fs = still_open (take i fs @ fs ! i # drop (Suc i) fs)" using split by simp
  also have "\<dots> = still_open (drop_one fs)" using c Some by (simp add: still_open_def drop_one_def)
  finally have "still_open fs = still_open (drop_one fs)" .
  moreover have "list_ex (\<lambda>f. is_closed (sf_status f)) fs"
    using c Some position_lt nth_mem by (fastforce simp: list_ex_iff)
  ultimately show ?thesis by simp
qed

lemma subseq_drop_one: "subseq (drop_one fs) fs"
proof (cases "position (\<lambda>f. is_closed (sf_status f)) fs")
  case (Some i)
  have "subseq (take i fs @ drop (Suc i) fs) (take i fs @ fs ! i # drop (Suc i) fs)"
    by (rule list_emb_append_mono) auto
  with Some position_split[OF Some] show ?thesis by (simp add: drop_one_def)
qed (cases fs; auto simp: drop_one_def simp del: position.simps)

lemma length_prune: "length (prune fs) = min MAX_STATE_FINDINGS (length fs)"
proof (induction fs rule: prune.induct)
  case (1 fs)
  show ?case
  proof (cases "MAX_STATE_FINDINGS < length fs")
    case True
    then have "fs \<noteq> []" by auto
    with True 1 show ?thesis by (simp add: prune.simps[of fs] length_drop_one)
  qed (simp add: prune.simps[of fs])
qed

lemma subseq_prune: "subseq (prune fs) fs"
proof (induction fs rule: prune.induct)
  case (1 fs)
  then show ?case using subseq_drop_one[of fs]
    by (cases "MAX_STATE_FINDINGS < length fs")
      (auto simp: prune.simps[of fs] intro: subseq_order.order_trans)
qed

lemma still_open_prune:
  "still_open (prune fs) = drop (length (still_open fs) - MAX_STATE_FINDINGS) (still_open fs)"
proof (induction fs rule: prune.induct)
  case (1 fs)
  show ?case
  proof (cases "MAX_STATE_FINDINGS < length fs")
    case False
    then have "length (still_open fs) \<le> MAX_STATE_FINDINGS"
      using length_filter_le[of _ fs] unfolding still_open_def by (meson le_trans not_less)
    with False show ?thesis by (simp add: prune.simps[of fs])
  next
    case True
    note IH = 1[OF True]
    show ?thesis
    proof (cases "list_ex (\<lambda>f. is_closed (sf_status f)) fs")
      case ex: True
      with True IH show ?thesis by (simp add: prune.simps[of fs] still_open_drop_one)
    next
      case False
      then have "still_open fs = fs" by (auto simp: still_open_def filter_id_conv list_ex_iff)
      with False True IH show ?thesis
        by (simp add: prune.simps[of fs] still_open_drop_one drop_Suc[symmetric] Suc_diff_Suc
            flip: drop_Suc)
    qed
  qed
qed

text \<open>Recording an outcome bounds the state to 200 findings without reordering it, removes no
  more than that needs, and loses an open finding only when more than 200 are open: then the newest
  200 stay.\<close>

theorem record_outcome_prunes:
  "let fs = rs_findings st; fs' = rs_findings (record_outcome base head p k s st) in
     length fs' = min 200 (length fs) \<and> subseq fs' fs
     \<and> still_open fs' = drop (length (still_open fs) - 200) (still_open fs)"
  using length_prune[of "rs_findings st"] subseq_prune[of "rs_findings st"]
    still_open_prune[of "rs_findings st"]
  by (simp add: record_outcome_def MAX_STATE_FINDINGS_def)

section \<open>What leaves the machine\<close>

definition public_form :: "bool \<Rightarrow> state_finding \<Rightarrow> state_finding \<Rightarrow> bool" where
  "public_form publish_uncertain f g =
     (case sf_status f of
        StOpen \<Rightarrow> g = f
      | StUncertain \<Rightarrow> g = f \<and> (sf_posted f \<or> publish_uncertain)
      | StResolved \<Rightarrow> sf_posted f \<and> sf_id g = sf_id f \<and> sf_status g = StResolved
          \<and> sf_claim g = [] \<and> sf_trigger g = [] \<and> sf_impact g = [] \<and> sf_evidence g = []
      | StRejected \<Rightarrow> False)"

lemma project_finding_form: "project_finding u f = Some g \<Longrightarrow> public_form u f g"
  by (auto simp: project_finding_def public_form_def split: finding_state.splits if_splits)

lemma project_finding_again: "project_finding u f = Some g \<Longrightarrow> project_finding u g = Some g"
  by (auto simp: project_finding_def split: finding_state.splits if_splits)

lemma map_filter_again:
  "(\<And>x y. g x = Some y \<Longrightarrow> g y = Some y) \<Longrightarrow> List.map_filter g (List.map_filter g xs) = List.map_filter g xs"
  by (induction xs) (auto split: option.splits)

text \<open>The public projection contains no rejected finding, no uncertain one that was neither
  posted nor is to be published, and of a resolved one, only when it was posted, its identity and
  location without claim, trigger, impact or evidence; every open finding stays in it unchanged, and
  projecting twice is projecting once.\<close>

theorem public_projection_private:
  "list_all (\<lambda>g. list_ex (\<lambda>f. public_form u f g) (rs_findings st)) (rs_findings (public_projection u st))
   \<and> filter (\<lambda>f. sf_status f = StOpen) (rs_findings (public_projection u st))
       = filter (\<lambda>f. sf_status f = StOpen) (rs_findings st)
   \<and> public_projection u (public_projection u st) = public_projection u st"
proof -
  have "filter (\<lambda>f. sf_status f = StOpen) (List.map_filter (project_finding u) fs)
      = filter (\<lambda>f. sf_status f = StOpen) fs" for fs
    by (induction fs) (auto simp: project_finding_def split: finding_state.splits)
  moreover have "List.map_filter (project_finding u) (List.map_filter (project_finding u) fs)
      = List.map_filter (project_finding u) fs" for fs
    by (rule map_filter_again) (rule project_finding_again)
  moreover have "list_all (\<lambda>g. list_ex (\<lambda>f. public_form u f g) fs)
      (List.map_filter (project_finding u) fs)" for fs
    unfolding list_all_iff list_ex_iff using project_finding_form by (metis set_map_filter)
  ultimately show ?thesis by (simp add: public_projection_def)
qed

section \<open>Reuse\<close>

text \<open>A review is reused only for the very identity it was recorded under, and only when it was
  complete; a run whose publication did not finish is never reused.\<close>

theorem reuse_only_complete:
  "(can_reuse (record_outcome base head p k s st) k' \<longleftrightarrow> k' = k \<and> k \<noteq> [] \<and> s = Complete)
   \<and> \<not> can_reuse (mark_publication_incomplete (record_outcome base head p k s st)) k'"
  by (auto simp: can_reuse_def record_outcome_def mark_publication_incomplete_def)

section \<open>Rebuilding a finding\<close>

lemma take_while_digits: 
  "takeWhile is_ascii_digit (u32_str n) = u32_str n"
  "takeWhile is_ascii_digit (u32_str n @ CHR '' '' # s) = u32_str n"
proof -
  have d: "\<forall>c\<in>set (u32_str n). is_ascii_digit c" by (simp add: u32_str_def nat_str_digits)
  then show "takeWhile is_ascii_digit (u32_str n) = u32_str n" by (simp add: takeWhile_eq_all_conv)
  show "takeWhile is_ascii_digit (u32_str n @ CHR '' '' # s) = u32_str n"
    using d by (simp add: takeWhile_append2 is_ascii_digit_def)
qed

lemma match_colons_first:
  assumes "CHR '':'' \<notin> set p"
  shows "\<exists>is. match_colons (p @ CHR '':'' # t) = length p # is"
proof -
  let ?e = "p @ CHR '':'' # t"
  have "[0..<length ?e] = [0..<length p] @ length p # [Suc (length p)..<length ?e]"
    by (metis add_Suc_right length_Cons length_append less_add_Suc1 less_imp_le_nat upt_add_eq_append
        upt_conv_Cons le_add1 zero_le add_0)
  moreover have "filter (\<lambda>i. ?e ! i = CHR '':'') [0..<length p] = []"
    using assms nth_mem by (fastforce simp: filter_empty_conv nth_append)
  ultimately show ?thesis by (simp add: match_colons_def)
qed

lemma u32_str_neq_Nil [simp]: "u32_str n \<noteq> []"
  by (simp add: u32_str_def)

lemma parse_reference_ref:
  assumes "CHR '':'' \<notin> set p"
  shows "parse_reference (p @ '':'' @ u32_str n) = (p, u32_str n, [])"
    and "parse_reference (p @ '':'' @ u32_str n @ '' '' @ s) = (p, u32_str n, s)"
proof -
  obtain is1 where m1: "match_colons (p @ CHR '':'' # u32_str n) = length p # is1"
    using match_colons_first[OF assms] by blast
  have "ref_at (p @ CHR '':'' # u32_str n) (length p) = Some (p, u32_str n, [])"
    by (simp add: ref_at_def take_while_digits unwrap_or_def strip_prefix_def str_simps)
  then show "parse_reference (p @ '':'' @ u32_str n) = (p, u32_str n, [])"
    using m1 by (simp add: parse_reference_def)
  obtain is2 where m2: "match_colons (p @ CHR '':'' # u32_str n @ CHR '' '' # s) = length p # is2"
    using match_colons_first[OF assms] by blast
  have "ref_at (p @ CHR '':'' # u32_str n @ CHR '' '' # s) (length p) = Some (p, u32_str n, s)"
    by (simp add: ref_at_def take_while_digits unwrap_or_def strip_prefix_def str_simps)
  then show "parse_reference (p @ '':'' @ u32_str n @ '' '' @ s) = (p, u32_str n, s)"
    using m2 by (simp add: parse_reference_def)
qed

definition kept_evidence :: "evidence \<Rightarrow> evidence" where
  "kept_evidence e =
     e\<lparr>ev_end_line := ev_start_line e, ev_note := (if ev_note e = [] then [] else clip (ev_note e))\<rparr>"

lemma reference_evidence_ref:
  "CHR '':'' \<notin> set (ev_path e) \<Longrightarrow> reference_evidence (evidence_ref e) = kept_evidence e"
  using parse_reference_ref[of "ev_path e"]
  by (cases e) (simp add: reference_evidence_def evidence_ref_def kept_evidence_def unwrap_or_def)

text \<open>A finding rebuilt from the state for a recheck keeps its identity, severity and location,
  and of each of its first six evidence entries the path, the first line and the clipped note (for
  paths without a colon, which the compact reference uses as its separator).\<close>

theorem stored_finding_roundtrip:
  assumes "list_all (\<lambda>e. CHR '':'' \<notin> set (ev_path e)) (f_supporting_evidence f)"
  shows "let g = to_finding (from_finding H f s) in
     fid H g = fid H f \<and> f_severity g = f_severity f
     \<and> f_start_line g = f_start_line f \<and> f_end_line g = f_end_line f
     \<and> f_supporting_evidence g = map kept_evidence (take 6 (f_supporting_evidence f))"
proof -
  have "map (reference_evidence \<circ> evidence_ref) (take 6 (f_supporting_evidence f))
      = map kept_evidence (take 6 (f_supporting_evidence f))"
    using assms by (intro map_cong refl)
      (auto simp: list_all_iff reference_evidence_ref dest: in_set_takeD)
  then show ?thesis
    by (simp add: to_finding_def from_finding_def fid_def MAX_EVIDENCE_def)
qed

definition sample_evidence :: evidence where
  "sample_evidence = \<lparr>ev_path = ''a.rs'', ev_start_line = 7, ev_end_line = 9, ev_note = ''n''\<rparr>"

theorem stored_finding_roundtrip_witness:
  "f_supporting_evidence (to_finding (from_finding (\<lambda>s. s)
      (sample_finding\<lparr>f_supporting_evidence := [sample_evidence]\<rparr>) StOpen))
     = [sample_evidence\<lparr>ev_end_line := 7\<rparr>]"
  using stored_finding_roundtrip[of "sample_finding\<lparr>f_supporting_evidence := [sample_evidence]\<rparr>"
      "\<lambda>s. s" StOpen]
  by (simp add: Let_def sample_evidence_def kept_evidence_def clip_def truncate_bytes_def MAX_TEXT_def)

end
