(* ===== verification/Anchor.thy ===== *)
theory Anchor
  imports Findings Diff_Props
begin

text \<open>
  \<open>src/src/pipeline/anchor.rs\<close>: where an accepted finding is reported.  \<open>anchor_one\<close> is the body of
  the first loop, \<open>quiet_one\<close> of the second, \<open>inline_order\<close> the sorted list of indices eligible for
  an inline comment, and \<open>demote\<close> turns those past the cap into summary entries.
\<close>

section \<open>Data and operations\<close>

datatype placement = Inline | Summary

record anchored =
  an_finding :: finding
  an_placement :: placement
  an_quiet :: bool

definition on_head_side :: "diff_set \<Rightarrow> string \<Rightarrow> u32 \<Rightarrow> bool" where
  "on_head_side d path n =
     (case diff_file d path of None \<Rightarrow> False | Some _ \<Rightarrow> n \<in> head_side_lines d path)"

definition checked_end_line :: "diff_set \<Rightarrow> finding \<Rightarrow> u32 option" where
  "checked_end_line d f =
     (case f_end_line f of
        None \<Rightarrow> None
      | Some e \<Rightarrow> if f_start_line f \<le> e \<and> on_head_side d (f_file f) e then Some e else None)"

definition anchor_one :: "diff_set \<Rightarrow> finding \<Rightarrow> anchored" where
  "anchor_one d f0 =
     (let f = f0\<lparr>f_end_line := checked_end_line d f0\<rparr> in
      \<lparr>an_finding = f,
       an_placement = (if on_head_side d (f_file f) (f_start_line f) then Inline else Summary),
       an_quiet = False\<rparr>)"

definition quiet_one :: "severity \<Rightarrow> anchored \<Rightarrow> anchored" where
  "quiet_one inline_min a =
     (if f_severity (an_finding a) < inline_min
      then a\<lparr>an_placement := Summary, an_quiet := True\<rparr> else a)"

definition inline_key :: "finding \<Rightarrow> nat \<times> string \<times> nat" where
  "inline_key f = (2 - sev_rank (f_severity f), f_file f, unat (f_start_line f))"

definition inline_order :: "anchored list \<Rightarrow> nat list" where
  "inline_order items =
     sort_key (\<lambda>i. inline_key (an_finding (items ! i)))
       (filter (\<lambda>i. an_placement (items ! i) = Inline) [0..<length items])"

definition demote :: "anchored list \<Rightarrow> nat \<Rightarrow> anchored list" where
  "demote items i = items[i := (items ! i)\<lparr>an_placement := Summary\<rparr>]"

definition anchor :: "diff_set \<Rightarrow> finding list \<Rightarrow> nat \<Rightarrow> severity \<Rightarrow> anchored list" where
  "anchor d findings max_findings inline_min =
     (let items = map (quiet_one inline_min) (map (anchor_one d) findings) in
      foldl demote items (drop max_findings (inline_order items)))"

definition is_publishable :: "finding \<Rightarrow> bool" where
  "is_publishable f = (f_validation_status f = Some Accepted \<and> f_duplicate_of f = None)"

section \<open>Lemmas\<close>

lemma length_foldl_demote [simp]: "length (foldl demote items is) = length items"
  by (induction "is" arbitrary: items) (auto simp: demote_def)

lemma foldl_demote_nth:
  "j < length items \<Longrightarrow> foldl demote items is ! j
     = (if j \<in> set is then (items ! j)\<lparr>an_placement := Summary\<rparr> else items ! j)"
proof (induction "is" arbitrary: items)
  case (Cons i "is")
  have "j < length (demote items i)" using Cons.prems by (simp add: demote_def)
  note IH = Cons.IH[OF this]
  moreover have "demote items i ! j
      = (if j = i then (items ! j)\<lparr>an_placement := Summary\<rparr> else items ! j)"
    using Cons.prems by (simp add: demote_def nth_list_update)
  ultimately show ?case by (cases "j = i") simp_all
qed simp

definition anchor_base :: "diff_set \<Rightarrow> severity \<Rightarrow> finding \<Rightarrow> anchored" where
  "anchor_base d inline_min f = quiet_one inline_min (anchor_one d f)"

lemma anchor_nth:
  assumes "j < length fs"
  shows "anchor d fs m lo ! j =
    (if j \<in> set (drop m (inline_order (map (anchor_base d lo) fs)))
     then (anchor_base d lo (fs ! j))\<lparr>an_placement := Summary\<rparr> else anchor_base d lo (fs ! j))"
proof -
  have "map (quiet_one lo) (map (anchor_one d) fs) = map (anchor_base d lo) fs"
    by (simp add: anchor_base_def)
  then have "anchor d fs m lo = foldl demote (map (anchor_base d lo) fs)
      (drop m (inline_order (map (anchor_base d lo) fs)))"
    unfolding anchor_def Let_def by (simp only:)
  then show ?thesis using assms by (simp add: foldl_demote_nth)
qed

lemma length_anchor [simp]: "length (anchor d fs m lo) = length fs"
  by (simp add: anchor_def Let_def)

lemma anchor_base_finding [simp]:
  "an_finding (anchor_base d lo f) = f\<lparr>f_end_line := checked_end_line d f\<rparr>"
  by (simp add: anchor_base_def quiet_one_def anchor_one_def Let_def)

lemma anchor_base_placement:
  "an_placement (anchor_base d lo f) = Inline \<longleftrightarrow>
     on_head_side d (f_file f) (f_start_line f) \<and> lo \<le> f_severity f"
  by (auto simp: anchor_base_def quiet_one_def anchor_one_def Let_def not_less)

lemma anchor_base_quiet: "an_quiet (anchor_base d lo f) \<longleftrightarrow> f_severity f < lo"
  by (auto simp: anchor_base_def quiet_one_def anchor_one_def Let_def)

lemma inline_order_set:
  "set (inline_order items) = {i. i < length items \<and> an_placement (items ! i) = Inline}"
  by (auto simp: inline_order_def)

lemma inline_order_distinct: "distinct (inline_order items)"
  by (simp add: inline_order_def)

lemma inline_indices_anchor:
  "{j. j < length fs \<and> an_placement (anchor d fs m lo ! j) = Inline}
     = set (take m (inline_order (map (anchor_base d lo) fs)))"
proof -
  let ?o = "inline_order (map (anchor_base d lo) fs)"
  have part: "set ?o = set (take m ?o) \<union> set (drop m ?o)"
    by (metis append_take_drop_id set_append)
  have disj: "set (take m ?o) \<inter> set (drop m ?o) = {}"
    using inline_order_distinct by (metis append_take_drop_id distinct_append)
  have all: "set ?o = {j. j < length fs \<and> an_placement (anchor_base d lo (fs ! j)) = Inline}"
    by (auto simp: inline_order_set)
  show ?thesis
  proof (intro set_eqI iffI)
    fix j assume "j \<in> {j. j < length fs \<and> an_placement (anchor d fs m lo ! j) = Inline}"
    then have "j < length fs" "an_placement (anchor_base d lo (fs ! j)) = Inline" "j \<notin> set (drop m ?o)"
      by (auto simp: anchor_nth split: if_splits)
    then show "j \<in> set (take m ?o)" using all part by blast
  next
    fix j assume j: "j \<in> set (take m ?o)"
    then have "j < length fs" "an_placement (anchor_base d lo (fs ! j)) = Inline"
      using all part by blast+
    moreover have "j \<notin> set (drop m ?o)" using j disj by blast
    ultimately show "j \<in> {j. j < length fs \<and> an_placement (anchor d fs m lo ! j) = Inline}"
      by (simp add: anchor_nth)
  qed
qed

section \<open>Properties\<close>

definition inline_count :: "anchored list \<Rightarrow> nat" where
  "inline_count items = length (filter (\<lambda>a. an_placement a = Inline) items)"

lemma length_filter_card:
  "length (filter P xs) = card {j. j < length xs \<and> P (xs ! j)}"
  by (simp add: length_filter_conv_card)

text \<open>Anchoring gives every finding exactly one entry, in order, and never more inline comments
  than the configured cap; the cap is used up whenever enough findings qualify.\<close>

theorem anchor_inline_cap:
  "inline_count (anchor d fs m lo) =
     min m (length (filter (\<lambda>f. on_head_side d (f_file f) (f_start_line f) \<and> lo \<le> f_severity f) fs))
   \<and> length (anchor d fs m lo) = length fs"
proof -
  let ?o = "inline_order (map (anchor_base d lo) fs)"
  have "inline_count (anchor d fs m lo) = card (set (take m ?o))"
    using inline_indices_anchor[of fs d m lo] by (simp add: inline_count_def length_filter_card)
  also have "\<dots> = min m (length ?o)"
    using inline_order_distinct distinct_card[of "take m ?o"] by (simp add: min.commute)
  also have "length ?o = card {j. j < length fs \<and> an_placement (anchor_base d lo (fs ! j)) = Inline}"
  proof -
    have "set ?o = {j. j < length fs \<and> an_placement (anchor_base d lo (fs ! j)) = Inline}"
      by (auto simp: inline_order_set)
    with distinct_card[OF inline_order_distinct, of "map (anchor_base d lo) fs"] show ?thesis by simp
  qed
  also have "\<dots> = length (filter (\<lambda>f. on_head_side d (f_file f) (f_start_line f) \<and> lo \<le> f_severity f) fs)"
    by (simp add: length_filter_card anchor_base_placement)
  finally show ?thesis by simp
qed

definition well_anchored :: "diff_set \<Rightarrow> severity \<Rightarrow> finding \<Rightarrow> anchored \<Rightarrow> bool" where
  "well_anchored d lo f a =
     (an_finding a = f\<lparr>f_end_line := f_end_line (an_finding a)\<rparr>
      \<and> (case f_end_line (an_finding a) of
           None \<Rightarrow> True
         | Some e \<Rightarrow> f_end_line f = Some e \<and> f_start_line f \<le> e \<and> on_head_side d (f_file f) e)
      \<and> (an_placement a = Inline \<longrightarrow>
           on_head_side d (f_file f) (f_start_line f) \<and> lo \<le> f_severity f \<and> \<not> an_quiet a)
      \<and> (an_quiet a \<longleftrightarrow> f_severity f < lo))"

lemma anchor_base_well: "well_anchored d lo f (anchor_base d lo f)"
  "well_anchored d lo f ((anchor_base d lo f)\<lparr>an_placement := Summary\<rparr>)"
  using anchor_base_placement[of d lo f]
  by (auto simp: well_anchored_def anchor_base_quiet checked_end_line_def split: option.splits)

text \<open>An inline comment stands on a head-side line of the diff and reaches the inline severity,
  its range ends on a head-side line not before its start, and apart from an invalid end line no
  finding is changed.\<close>

theorem anchor_well_placed: "list_all2 (well_anchored d lo) fs (anchor d fs m lo)"
proof (rule list_all2_all_nthI)
  fix j assume "j < length fs"
  then show "well_anchored d lo (fs ! j) (anchor d fs m lo ! j)"
    using anchor_base_well[of d lo "fs ! j"] by (simp only: anchor_nth simp_thms split: if_split)
qed simp

text \<open>The inline findings are the first of the order by severity, file and line.\<close>

lemma sorted_inline_order:
  "sorted (map (\<lambda>i. inline_key (an_finding (items ! i))) (inline_order items))"
  by (simp add: inline_order_def)

lemma sorted_take_drop:
  "sorted (map k xs) \<Longrightarrow> i \<in> set (take m xs) \<Longrightarrow> j \<in> set (drop m xs) \<Longrightarrow> k i \<le> k j"
proof -
  assume "sorted (map k xs)" and ij: "i \<in> set (take m xs)" "j \<in> set (drop m xs)"
  then have "sorted (map k (take m xs) @ map k (drop m xs))"
    by (metis append_take_drop_id map_append)
  with ij show ?thesis by (auto simp: sorted_append)
qed

lemma inline_key_less_severity:
  "inline_key f \<le> inline_key g \<Longrightarrow> f_severity g \<le> f_severity f"
  by (cases "f_severity f"; cases "f_severity g") (auto simp: inline_key_def less_eq_severity_def)

text \<open>When the cap cuts, it keeps the most severe: a finding moved to the summary although it
  qualified for an inline comment is never more severe than one that kept its inline place.\<close>

theorem anchor_keeps_most_severe:
  assumes "i < length fs" and "an_placement (anchor d fs m lo ! i) = Inline"
    and "j < length fs" and "an_placement (anchor d fs m lo ! j) = Summary"
    and "on_head_side d (f_file (fs ! j)) (f_start_line (fs ! j))" and "lo \<le> f_severity (fs ! j)"
  shows "f_severity (fs ! j) \<le> f_severity (fs ! i)"
proof -
  let ?items = "map (anchor_base d lo) fs"
  let ?o = "inline_order ?items"
  have i: "i \<in> set (take m ?o)" using assms(1,2) inline_indices_anchor[of fs d m lo] by blast
  have "j \<in> set ?o" using assms(3,5,6) by (simp add: inline_order_set anchor_base_placement)
  moreover have "j \<notin> set (take m ?o)"
  proof
    assume "j \<in> set (take m ?o)"
    then have "an_placement (anchor d fs m lo ! j) = Inline"
      using inline_indices_anchor[of fs d m lo] by blast
    with assms(4) show False by simp
  qed
  ultimately have j: "j \<in> set (drop m ?o)"
    by (metis Un_iff append_take_drop_id set_append)
  have "inline_key (an_finding (?items ! i)) \<le> inline_key (an_finding (?items ! j))"
    by (rule sorted_take_drop[OF sorted_inline_order i j])
  from inline_key_less_severity[OF this] show ?thesis using assms(1,3) by simp
qed

definition sample_pair :: "finding list" where
  "sample_pair = [sample_finding\<lparr>f_start_line := 1, f_severity := Medium\<rparr>,
                  sample_finding\<lparr>f_start_line := 1\<rparr>]"

lemma sample_pair_anchored:
  "map an_placement (anchor one_line_diff sample_pair 1 Low) = [Summary, Inline]"
  "on_head_side one_line_diff ''b.rs'' 1"
  by code_simp+

theorem anchor_keeps_most_severe_witness:
  "f_severity (sample_pair ! 0) \<le> f_severity (sample_pair ! 1)"
proof (rule anchor_keeps_most_severe[where d = one_line_diff and m = 1 and lo = Low])
  have "map an_placement (anchor one_line_diff sample_pair 1 Low) ! 1 = Inline"
    "map an_placement (anchor one_line_diff sample_pair 1 Low) ! 0 = Summary"
    by (simp_all only: sample_pair_anchored(1)) simp_all
  then show "an_placement (anchor one_line_diff sample_pair 1 Low ! 1) = Inline"
    "an_placement (anchor one_line_diff sample_pair 1 Low ! 0) = Summary"
    by (simp_all add: sample_pair_def)
  show "on_head_side one_line_diff (f_file (sample_pair ! 0)) (f_start_line (sample_pair ! 0))"
    using sample_pair_anchored(2) by (simp add: sample_pair_def sample_finding_def)
qed (simp_all add: sample_pair_def sample_finding_def less_eq_severity_def)

end
