(* ===== verification/Report_Text.thy ===== *)
theory Report_Text
  imports Anchor Review_State
begin

text \<open>
  \<open>src/src/report.rs\<close>, first part: findings carried over from earlier runs, and the functions that
  make text safe to publish (\<open>public_text\<close>, \<open>public_line\<close>, \<open>public_code_span\<close>, \<open>finding_body\<close>).
  The \<open>while\<close> loop of \<open>public_text\<close> is \<open>public_loop\<close>, its body \<open>fence_step\<close> (the check at a line
  start) followed by \<open>text_step\<close>.  \<open>red\<close> is \<open>redact::text\<close>, \<open>H\<close> the hexadecimal SHA-256 digest.
\<close>

abbreviation nl :: string where "nl \<equiv> [CHR 0x0A]"
abbreviation backtick :: char where "backtick \<equiv> CHR 0x60"
abbreviation backslash :: char where "backslash \<equiv> CHR 0x5C"

definition zwsp :: string where "zwsp = [CHR 0xE2, CHR 0x80, CHR 0x8B]"
definition em_dash :: string where "em_dash = [CHR 0xE2, CHR 0x80, CHR 0x94]"

section \<open>Carried findings\<close>

record carried_finding =
  cf_id :: string
  cf_category :: string
  cf_defect_key :: string
  cf_severity :: severity
  cf_title :: string
  cf_file :: string
  cf_start_line :: u32
  cf_end_line :: "u32 option"
  cf_claim :: string
  cf_trigger :: string
  cf_impact :: string
  cf_evidence :: "string list"

definition from_state :: "state_finding \<Rightarrow> carried_finding" where
  "from_state f =
     \<lparr>cf_id = sf_id f, cf_category = sf_category f, cf_defect_key = sf_defect_key f,
      cf_severity = sf_severity f, cf_title = sf_title f, cf_file = sf_file f,
      cf_start_line = sf_start_line f, cf_end_line = sf_end_line f, cf_claim = sf_claim f,
      cf_trigger = sf_trigger f, cf_impact = sf_impact f, cf_evidence = sf_evidence f\<rparr>"

definition carried_to_finding :: "carried_finding \<Rightarrow> finding" where
  "carried_to_finding c =
     (let state =
        \<lparr>sf_id = cf_id c, sf_category = cf_category c, sf_status = StOpen, sf_file = cf_file c,
         sf_start_line = cf_start_line c, sf_end_line = cf_end_line c, sf_title = cf_title c,
         sf_posted = True, sf_defect_key = cf_defect_key c, sf_severity = cf_severity c,
         sf_claim = cf_claim c, sf_trigger = cf_trigger c, sf_impact = cf_impact c,
         sf_evidence = cf_evidence c\<rparr>
      in (to_finding state)\<lparr>f_source := ''carried''\<rparr>)"

definition carried_findings ::
  "(string \<Rightarrow> string) \<Rightarrow> review_state \<Rightarrow> finding list \<Rightarrow> carried_finding list"
where
  "carried_findings H st fs =
     (let ids = map (fid H) fs in
      map from_state
        (filter (\<lambda>f. sf_status f = StOpen \<and> sf_posted f \<and> sf_id f \<notin> set ids) (rs_findings st)))"

definition actionable_findings :: "finding list \<Rightarrow> carried_finding list \<Rightarrow> finding list" where
  "actionable_findings findings carried =
     filter (\<lambda>f. f_duplicate_of f = None) (filter (\<lambda>f. f_validation_status f = Some Accepted) findings)
       @ map carried_to_finding carried"

definition surfaced_ids :: "(string \<Rightarrow> string) \<Rightarrow> finding list \<Rightarrow> string list" where
  "surfaced_ids H findings = map (fid H) (filter is_publishable findings)"

section \<open>Public text\<close>

definition defang :: "string \<Rightarrow> string" where
  "defang t = replace_str ''<!--'' (''<!'' @ zwsp @ ''--'') t"

definition fence_step :: "bool \<Rightarrow> string \<Rightarrow> string \<times> string" where
  "fence_step line_start rest =
     (let indent = length (takeWhile (\<lambda>c. c = CHR 0x20) rest); after = drop indent rest in
      if line_start \<and> indent \<le> 3
         \<and> (starts_with after [backtick, backtick, backtick] \<or> starts_with after ''~~~'')
      then (take indent rest @ [backslash] @ take 1 after, drop 1 after)
      else ([], rest))"

text \<open>The search for a closing run of \<open>run\<close> backticks: \<open>off\<close> is the loop's \<open>end\<close>, \<open>s\<close> the rest of
  the line from there.\<close>

function find_close :: "nat \<Rightarrow> nat \<Rightarrow> string \<Rightarrow> nat option" where
  "find_close run off s =
     (let pre = takeWhile (\<lambda>c. c \<noteq> backtick) s; s1 = dropWhile (\<lambda>c. c \<noteq> backtick) s in
      if s1 = [] then None
      else (let n = length (takeWhile (\<lambda>c. c = backtick) s1); e = off + length pre + n in
            if n = run then Some e else find_close run e (drop n s1)))"
  by pat_completeness auto
termination
proof (relation "measure (\<lambda>(run, off, s). length s)")
  fix run off :: nat and s pre s1 n x
  assume eqs: "s1 = dropWhile (\<lambda>c. c \<noteq> backtick) s" "s1 \<noteq> []"
    "n = length (takeWhile (\<lambda>c. c = backtick) s1)"
  then have "hd s1 = backtick" using hd_dropWhile[of "\<lambda>c. c \<noteq> backtick" s] by auto
  then have "0 < n" using eqs(2,3) by (cases s1) auto
  moreover have "length s1 \<le> length s" unfolding eqs(1) by (rule length_dropWhile_le)
  moreover have "0 < length s1" using eqs(2) by simp
  ultimately show "((run, x, drop n s1), run, off, s) \<in> measure (\<lambda>(run, off, s). length s)"
    by (simp del: length_greater_0_conv)
qed simp

declare find_close.simps [simp del]

definition code_step :: "string \<Rightarrow> string \<times> string \<times> bool" where
  "code_step rest =
     (let run = length (takeWhile (\<lambda>c. c = backtick) rest);
          line = takeWhile (\<lambda>c. c \<noteq> CHR 0x0A) rest
      in case find_close run run (drop run line) of
           Some e \<Rightarrow> (take e rest, drop e rest, False)
         | None \<Rightarrow> (take run rest, drop run rest, False))"

definition is_url_start :: "string \<Rightarrow> bool" where
  "is_url_start rest =
     list_ex (\<lambda>p. length p \<le> length rest \<and> eq_ignore_ascii_case (take (length p) rest) p)
       [''https://'', ''http://'', ''ftp://'', ''www.'']"

fun escape_step :: "char \<Rightarrow> string" where
  "escape_step c =
     (if c = CHR ''@'' then ''@'' @ zwsp
      else if c = CHR ''<'' then ''&lt;''
      else [backslash, c])"

definition char_step :: "string \<Rightarrow> string" where
  "char_step c =
     (if c = ''@'' then ''@'' @ zwsp
      else if c = ''<'' then ''&lt;''
      else if c = ''['' \<or> c = '']'' then backslash # c
      else c)"

fun text_step :: "string \<Rightarrow> string \<times> string \<times> bool" where
  "text_step [] = ([], [], False)"
| "text_step (b # bs) =
     (if b = backslash \<and> bs \<noteq> [] \<and> is_ascii_punctuation (hd bs)
      then (escape_step (hd bs), tl bs, False)
      else if b = backtick then code_step (b # bs)
      else
        (let n = char_len b; c = take n (b # bs); r = drop n (b # bs) in
         if is_url_start (b # bs) then (c @ zwsp, r, False)
         else (char_step c, r, c = nl)))"

lemma fence_step_length: "length (snd (fence_step ls rest)) \<le> length rest"
  by (auto simp: fence_step_def Let_def)

lemma find_close_ge: "find_close run off s = Some e \<Longrightarrow> off + run \<le> e"
proof (induction run off s rule: find_close.induct)
  case (1 run off s)
  show ?case using 1(2) 1(1)[OF refl refl _ refl refl]
    by (subst (asm) find_close.simps) (auto simp: Let_def split: if_splits)
qed

lemma code_step_decreases:
  "length (fst (snd (code_step (backtick # bs)))) < length (backtick # bs)"
  by (auto simp: code_step_def Let_def split: option.splits dest: find_close_ge)

lemma text_step_decreases:
  "rest \<noteq> [] \<Longrightarrow> length (fst (snd (text_step rest))) < length rest"
proof (cases rest)
  case (Cons b bs)
  then show ?thesis using code_step_decreases[of bs] char_len_pos[of b]
    by (auto simp: Let_def)
qed simp

function public_loop :: "bool \<Rightarrow> string \<Rightarrow> string" where
  "public_loop line_start rest =
     (if rest = [] then []
      else (let (o0, r0) = fence_step line_start rest; (o1, r1, ls) = text_step r0 in
            o0 @ o1 @ public_loop ls r1))"
  by pat_completeness auto
termination
proof (relation "measure (\<lambda>(ls, s). length s)")
  fix line_start rest x o0 r0 y o1 z r1 ls
  assume "rest \<noteq> []" and x: "x = fence_step line_start rest" "(o0, r0) = x"
    and y: "y = text_step r0" "(o1, z) = y" "(r1, ls) = z"
  have "length r0 \<le> length rest" using fence_step_length[of line_start rest] x by (metis snd_conv)
  moreover have "r1 = fst (snd (text_step r0))" using y by (metis fst_conv snd_conv)
  moreover have "length (fst (snd (text_step r0))) < length rest"
  proof (cases "r0 = []")
    case True
    then show ?thesis using \<open>rest \<noteq> []\<close> by simp
  next
    case False
    then show ?thesis using text_step_decreases[of r0] \<open>length r0 \<le> length rest\<close> by simp
  qed
  ultimately show "((ls, r1), line_start, rest) \<in> measure (\<lambda>(ls, s). length s)" by simp
qed simp

declare public_loop.simps [simp del]

definition public_text :: "(string \<Rightarrow> string) \<Rightarrow> string \<Rightarrow> string" where
  "public_text red t = public_loop True (defang (red t))"

definition public_line :: "(string \<Rightarrow> string) \<Rightarrow> string \<Rightarrow> string" where
  "public_line red t = public_text red (replace_chars {CHR 0x0D, CHR 0x0A} '' '' t)"

text \<open>\<open>backtick_run\<close> is the longest piece between bytes that are no backtick.\<close>

fun backtick_pieces :: "string \<Rightarrow> string list" where
  "backtick_pieces [] = [[]]"
| "backtick_pieces (c # s) =
     (if c \<noteq> backtick then [] # backtick_pieces s
      else (case backtick_pieces s of [] \<Rightarrow> [[c]] | w # ws \<Rightarrow> (c # w) # ws))"

definition backtick_run :: "string \<Rightarrow> nat" where
  "backtick_run s = foldl max 0 (map length (backtick_pieces s))"

definition public_code_span :: "(string \<Rightarrow> string) \<Rightarrow> string \<Rightarrow> string" where
  "public_code_span red t0 =
     (let t = defang (replace_chars {CHR 0x0D, CHR 0x0A} '' '' (red t0));
          fence = replicate (backtick_run t + 1) backtick;
          padding = (if starts_with t [backtick] \<or> ends_with t [backtick]
                        \<or> (starts_with t '' '' \<and> ends_with t '' '' \<and> trim t \<noteq> [])
                     then '' '' else [])
      in fence @ padding @ t @ padding @ fence)"

definition finding_body :: "(string \<Rightarrow> string) \<Rightarrow> (string \<Rightarrow> string) \<Rightarrow> finding \<Rightarrow> string" where
  "finding_body red H f =
     (let b0 = ''**['' @ severity_str (f_severity f) @ ''] '' @ public_line red (f_title f) @ ''**''
                 @ nl @ nl @ public_text red (f_claim f) @ nl;
          b1 = (if f_trigger f \<noteq> []
                then b0 @ nl @ ''Trigger: '' @ public_text red (f_trigger f) @ nl else b0);
          b2 = (if f_impact f \<noteq> []
                then b1 @ ''Impact: '' @ public_text red (f_impact f) @ nl else b1);
          b3 = (if f_supporting_evidence f \<noteq> []
                then b2 @ ''Evidence: ''
                       @ join '', '' (map (\<lambda>e. public_code_span red (ev_path e) @ '':''
                                               @ u32_str (ev_start_line e)) (f_supporting_evidence f))
                       @ nl else b2);
          b4 = (case f_validated_fix f of
                  None \<Rightarrow> b3
                | Some fix0 \<Rightarrow>
                    (let fixed = defang (red fix0);
                         fence = replicate (max 3 (backtick_run fixed + 1)) backtick
                     in b3 @ nl @ ''Validator's suggested remedy '' @ em_dash @ '' not a tested patch:''
                          @ nl @ fence @ nl @ fixed @ nl @ fence @ nl));
          b5 = (case f_suggestion f of
                  None \<Rightarrow> b4
                | Some s \<Rightarrow>
                    if f_validation_status f = Some Accepted \<and> sg_start_line s = f_start_line f
                       \<and> sg_end_line s = f_last_line f
                    then (let fence = replicate (max 3 (backtick_run (sg_replacement s) + 1)) backtick
                          in b4 @ nl @ fence @ ''suggestion'' @ nl
                               @ unwrap_or (strip_suffix (sg_replacement s) nl) (sg_replacement s)
                               @ nl @ fence @ nl)
                    else b4)
      in b5 @ nl @ ''<!-- revera-id:'' @ fid H f @ '' -->'')"

end
