(* ===== verification/Report_Text_Props.thy ===== *)
theory Report_Text_Props
  imports Report_Text Review_State_Props
begin

text \<open>
  The text functions never publish the start of an HTML comment that is not their own: publication
  state is recovered from such markers, so untrusted text must not be able to forge one.
\<close>

section \<open>Texts without a comment marker\<close>

definition marker :: string where "marker = ''<!--''"

definition no_marker :: "string \<Rightarrow> bool" where "no_marker s = (\<not> str_contains s marker)"

definition harmless :: "string \<Rightarrow> bool" where
  "harmless s = list_all (\<lambda>c. c \<noteq> CHR ''<'' \<and> c \<noteq> CHR ''!'' \<and> c \<noteq> CHR ''-'') s"

definition marker_suffix :: "string \<Rightarrow> bool" where
  "marker_suffix w = (w \<in> {''<!--'', ''!--'', ''--'', ''-'', []})"

text \<open>\<open>tame x y\<close>: what \<open>x\<close> could complete to a marker, \<open>y\<close> could complete, too.\<close>

definition tame :: "string \<Rightarrow> string \<Rightarrow> bool" where
  "tame x y = (\<forall>w. marker_suffix w \<longrightarrow> starts_with x w \<longrightarrow> starts_with y w)"

lemma no_marker_Nil [simp]: "no_marker []"
  by (simp add: no_marker_def str_contains_def marker_def)

lemma no_marker_Cons: "no_marker (c # s) \<longleftrightarrow> \<not> starts_with (c # s) marker \<and> no_marker s"
  by (simp add: no_marker_def str_contains_def)

lemma no_marker_Cons_other: "c \<noteq> CHR ''<'' \<Longrightarrow> no_marker (c # s) \<longleftrightarrow> no_marker s"
  by (simp add: no_marker_Cons marker_def str_simps)

lemma no_marker_append_other: "CHR ''<'' \<notin> set a \<Longrightarrow> no_marker (a @ s) \<longleftrightarrow> no_marker s"
  by (induction a) (auto simp: no_marker_Cons_other)

lemma no_marker_suffix: "no_marker (a @ s) \<Longrightarrow> no_marker s"
  by (induction a) (auto simp: no_marker_Cons)

lemma no_marker_drop: "no_marker s \<Longrightarrow> no_marker (drop k s)"
  by (metis append_take_drop_id no_marker_suffix)

lemma marker_suffix_Cons: "marker_suffix (c # w) \<Longrightarrow> marker_suffix w"
  by (auto simp: marker_suffix_def)

lemma tame_Cons: "tame x y \<Longrightarrow> tame (c # x) (c # y)"
  unfolding tame_def
proof (intro allI impI)
  fix w assume t: "\<forall>w. marker_suffix w \<longrightarrow> starts_with x w \<longrightarrow> starts_with y w"
    and w: "marker_suffix w" "starts_with (c # x) w"
  then show "starts_with (c # y) w"
    by (cases w) (auto simp: str_simps dest: marker_suffix_Cons)
qed

lemma tame_append: "tame x y \<Longrightarrow> tame (a @ x) (a @ y)"
  by (induction a) (auto intro: tame_Cons)

lemma tame_refl [simp]: "tame x x"
  by (simp add: tame_def)

lemma tame_harmless: "harmless a \<Longrightarrow> a \<noteq> [] \<Longrightarrow> tame (a @ x) y"
  by (cases a) (auto simp: tame_def marker_suffix_def harmless_def str_simps)

lemma tame_Nil: "tame [] y"
  by (auto simp: tame_def marker_suffix_def str_simps)

lemma no_marker_tame_append:
  "tame x y \<Longrightarrow> no_marker (a @ y) \<Longrightarrow> no_marker x \<Longrightarrow> no_marker (a @ x)"
proof (induction a)
  case (Cons c a)
  have "marker_suffix marker" by (simp add: marker_suffix_def marker_def)
  then have "\<not> starts_with (c # a @ x) marker"
    using tame_append[OF Cons.prems(1), of "c # a"] Cons.prems(2)
    by (auto simp: tame_def no_marker_Cons)
  with Cons show ?case by (simp add: no_marker_Cons)
qed simp

lemma harmless_no_lt: "harmless a \<Longrightarrow> CHR ''<'' \<notin> set a"
  by (auto simp: harmless_def list_all_iff)

text \<open>Joining two marker-free texts is safe when the second starts with a harmless character.\<close>

lemma no_marker_join:
  "no_marker a \<Longrightarrow> no_marker b \<Longrightarrow> b \<noteq> [] \<Longrightarrow> harmless [hd b] \<Longrightarrow> no_marker (a @ b)"
proof -
  assume a: "no_marker a" and b: "no_marker b" "b \<noteq> []" "harmless [hd b]"
  have "tame ([hd b] @ tl b) []" by (rule tame_harmless) (use b in simp_all)
  then have "tame b []" using b(2) by simp
  then show ?thesis using no_marker_tame_append[of b "[]" a] a b(1) by simp
qed

section \<open>Defanging\<close>

lemma defang_simps:
  "defang [] = []"
  "defang (c # s) =
     (if starts_with (c # s) marker then ''<!'' @ zwsp @ ''--'' @ defang (drop 3 s)
      else c # defang s)"
  by (simp_all add: defang_def marker_def numeral_3_eq_3)

lemma tame_defang: "tame (defang s) s"
proof (induction s)
  case (Cons c s)
  show ?case
  proof (cases "starts_with (c # s) marker")
    case True
    then have "starts_with (c # s) ''<!--''" by (simp add: marker_def)
    then show ?thesis using True
      by (auto simp: defang_simps tame_def marker_suffix_def zwsp_def str_simps)
  next
    case False
    then show ?thesis using Cons by (simp add: defang_simps tame_Cons)
  qed
qed (simp add: defang_simps)

lemma defang_no_marker: "no_marker (defang s)"
proof (induction s rule: length_induct)
  case (1 s)
  show ?case
  proof (cases s)
    case (Cons c s')
    show ?thesis
    proof (cases "starts_with s marker")
      case True
      have "no_marker (defang (drop 3 s'))" using 1 Cons by simp
      then show ?thesis using True Cons
        by (simp add: defang_simps no_marker_Cons marker_def zwsp_def str_simps)
    next
      case False
      have "marker_suffix marker" by (simp add: marker_suffix_def marker_def)
      then have "\<not> starts_with (defang s) marker" using False tame_defang[of s] by (auto simp: tame_def)
      moreover have "no_marker (defang s')" using 1 Cons by simp
      ultimately show ?thesis using False Cons by (simp add: defang_simps no_marker_Cons)
    qed
  qed (simp add: defang_simps)
qed

section \<open>The loop of \<open>public_text\<close>\<close>

text \<open>What a step emits is either the consumed text itself or harmless.\<close>

definition faithful_step :: "string \<Rightarrow> string \<Rightarrow> string \<Rightarrow> bool" where
  "faithful_step r emitted r1 =
     (r = emitted @ r1 \<or> (emitted \<noteq> [] \<and> harmless emitted \<and> (\<exists>k. r1 = drop k r)))"

lemma fence_step_faithful: "fence_step ls r = (o0, r0) \<Longrightarrow> faithful_step r o0 r0"
proof -
  assume step: "fence_step ls r = (o0, r0)"
  let ?indent = "length (takeWhile (\<lambda>c. c = CHR 0x20) r)" and ?after = "drop (length (takeWhile (\<lambda>c. c = CHR 0x20) r)) r"
  show ?thesis
  proof (cases "ls \<and> ?indent \<le> 3 \<and> (starts_with ?after [backtick, backtick, backtick] \<or> starts_with ?after ''~~~'')")
    case False
    then show ?thesis using step by (auto simp: fence_step_def Let_def faithful_step_def)
  next
    case True
    then have o0: "o0 = take ?indent r @ [backslash] @ take 1 ?after" "r0 = drop 1 ?after"
      using step by (simp_all add: fence_step_def Let_def)
    have "take ?indent r = takeWhile (\<lambda>c. c = CHR 0x20) r" by (metis takeWhile_eq_take)
    then have "harmless (take ?indent r)"
      by (simp add: harmless_def list_all_iff) (auto dest: set_takeWhileD)
    moreover have "harmless (take 1 ?after)"
      using True by (cases ?after) (auto simp: harmless_def str_simps)
    ultimately have "harmless o0" unfolding o0 by (simp add: harmless_def)
    then show ?thesis using o0 by (auto simp: faithful_step_def)
  qed
qed

lemma code_step_faithful: "code_step r = (o1, r1, ls) \<Longrightarrow> r = o1 @ r1"
  by (auto simp: code_step_def Let_def split: option.splits)

lemma url_start_harmless:
  assumes "is_url_start (b # bs)"
  shows "char_len b = 1 \<and> harmless [b]"
proof -
  have "ascii_lower b \<in> {CHR ''h'', CHR ''f'', CHR ''w''}"
    using assms by (auto simp: is_url_start_def eq_ignore_ascii_case_def to_ascii_lowercase_def
        ascii_lower_def)
  then have "b \<in> {CHR ''h'', CHR ''f'', CHR ''w''} \<or> (65 \<le> (of_char b :: nat) \<and> (of_char b :: nat) \<le> 90)"
    by (auto simp: ascii_lower_def Let_def split: if_splits)
  then show ?thesis by (auto simp: char_len_def harmless_def)
qed

lemma text_step_faithful:
  assumes "r \<noteq> []" and "text_step r = (o1, r1, ls)"
  shows "faithful_step r o1 r1"
proof -
  obtain b bs where r: "r = b # bs" using assms(1) by (cases r) auto
  consider (esc) "b = backslash" "bs \<noteq> []" "is_ascii_punctuation (hd bs)"
    | (code) "b = backtick"
    | (url) "b \<noteq> backtick" "is_url_start r" "\<not> (b = backslash \<and> bs \<noteq> [] \<and> is_ascii_punctuation (hd bs))"
    | (plain) "b \<noteq> backtick" "\<not> is_url_start r" "\<not> (b = backslash \<and> bs \<noteq> [] \<and> is_ascii_punctuation (hd bs))"
    by blast
  then show ?thesis
  proof cases
    case esc
    then obtain c cs where bs: "bs = c # cs" by (cases bs) auto
    then have eq: "o1 = escape_step c" "r1 = cs" using assms(2) r esc by auto
    have "r1 = drop 2 r" using r bs eq by simp
    moreover have "r = o1 @ r1 \<or> (o1 \<noteq> [] \<and> harmless o1)"
      using r bs eq esc(1) by (simp add: harmless_def zwsp_def)
    ultimately show ?thesis unfolding faithful_step_def by blast
  next
    case code
    then have "code_step r = (o1, r1, ls)" using assms(2) r by simp
    then show ?thesis by (simp add: faithful_step_def code_step_faithful)
  next
    case url
    then have h: "char_len b = 1" "harmless [b]" using url_start_harmless r by blast+
    then have "o1 = b # zwsp" "r1 = bs" using assms(2) r url by (auto simp: Let_def)
    moreover have "harmless (b # zwsp)" using h by (simp add: harmless_def zwsp_def)
    moreover have "bs = drop 1 r" using r by simp
    ultimately show ?thesis unfolding faithful_step_def by blast
  next
    case plain
    let ?c = "take (char_len b) r"
    have eq: "o1 = char_step ?c" "r1 = drop (char_len b) r" using assms(2) r plain by (auto simp: Let_def)
    have "char_step ?c = ?c \<or> (char_step ?c \<noteq> [] \<and> harmless (char_step ?c))"
      by (auto simp: char_step_def harmless_def zwsp_def)
    then show ?thesis using eq by (auto simp: faithful_step_def)
  qed
qed

lemma faithful_tame:
  "faithful_step r out r1 \<Longrightarrow> tame x r1 \<Longrightarrow> tame (out @ x) r"
  by (auto simp: faithful_step_def intro: tame_append tame_harmless)

lemma faithful_no_marker:
  "faithful_step r out r1 \<Longrightarrow> tame x r1 \<Longrightarrow> no_marker r \<Longrightarrow> no_marker x \<Longrightarrow> no_marker (out @ x)"
  by (auto simp: faithful_step_def no_marker_append_other harmless_no_lt intro: no_marker_tame_append)

lemma faithful_rest: "faithful_step r out r1 \<Longrightarrow> no_marker r \<Longrightarrow> no_marker r1"
  by (auto simp: faithful_step_def dest: no_marker_suffix no_marker_drop)

lemma public_loop_tame: "tame (public_loop ls r) r"
proof (induction ls r rule: public_loop.induct)
  case (1 ls r)
  show ?case
  proof (cases "r = []")
    case False
    obtain o0 r0 where f: "fence_step ls r = (o0, r0)" by fastforce
    obtain o1 r1 ls1 where t: "text_step r0 = (o1, r1, ls1)" by (cases "text_step r0") auto
    have IH: "tame (public_loop ls1 r1) r1" using 1[OF False f[symmetric] refl t[symmetric] refl] by simp
    have "tame (o1 @ public_loop ls1 r1) r0"
    proof (cases "r0 = []")
      case True
      then show ?thesis using t IH by auto
    next
      case False
      then show ?thesis using faithful_tame[OF text_step_faithful[OF _ t] IH] by blast
    qed
    then have "tame (o0 @ o1 @ public_loop ls1 r1) r"
      by (rule faithful_tame[OF fence_step_faithful[OF f]])
    then show ?thesis using False f t by (subst public_loop.simps) simp
  qed (simp add: public_loop.simps)
qed

lemma public_loop_no_marker: "no_marker r \<Longrightarrow> no_marker (public_loop ls r)"
proof (induction ls r rule: public_loop.induct)
  case (1 ls r)
  show ?case
  proof (cases "r = []")
    case False
    obtain o0 r0 where f: "fence_step ls r = (o0, r0)" by fastforce
    obtain o1 r1 ls1 where t: "text_step r0 = (o1, r1, ls1)" by (cases "text_step r0") auto
    note ff = fence_step_faithful[OF f]
    have r0: "no_marker r0" by (rule faithful_rest[OF ff 1(2)])
    have "no_marker (o1 @ public_loop ls1 r1) \<and> tame (o1 @ public_loop ls1 r1) r0"
    proof (cases "r0 = []")
      case True
      then show ?thesis using t by (auto simp: public_loop.simps)
    next
      case ne: False
      note tf = text_step_faithful[OF ne t]
      have "no_marker (public_loop ls1 r1)"
        using 1(1)[OF False f[symmetric] refl t[symmetric] refl] faithful_rest[OF tf r0] by simp
      then show ?thesis
        using faithful_no_marker[OF tf public_loop_tame r0] faithful_tame[OF tf public_loop_tame] by blast
    qed
    then have "no_marker (o0 @ o1 @ public_loop ls1 r1)"
      using faithful_no_marker[OF ff _ 1(2)] by blast
    then show ?thesis using False f t by (subst public_loop.simps) simp
  qed (simp add: public_loop.simps)
qed

lemma public_text_no_marker [simp]: "no_marker (public_text red t)"
  by (simp add: public_text_def public_loop_no_marker defang_no_marker)

lemma public_line_no_marker [simp]: "no_marker (public_line red t)"
  by (simp add: public_line_def public_text_no_marker)

lemma public_code_span_no_marker [simp]: "no_marker (public_code_span red t)"
proof -
  have safe: "no_marker (a @ b)" if "no_marker a" "no_marker b" "b \<noteq> []" "hd b \<in> {backtick, CHR 0x20}" for a b
    using that by (intro no_marker_join) (auto simp: harmless_def)
  have fence: "no_marker (replicate k backtick)" for k
    using no_marker_append_other[of "replicate k backtick" "[]"] by simp
  have pad: "no_marker (p @ replicate (Suc k) backtick)" "p @ replicate (Suc k) backtick \<noteq> []"
    "hd (p @ replicate (Suc k) backtick) \<in> {backtick, CHR 0x20}" if "p = [] \<or> p = '' ''" for p k
    using that fence[of "Suc k"] by (auto simp: no_marker_Cons_other)
  have span: "no_marker (replicate k backtick @ p @ defang x @ p @ replicate (Suc j) backtick)"
    if "p = [] \<or> p = '' ''" for k j p x
  proof -
    have "no_marker (defang x @ p @ replicate (Suc j) backtick)"
      using safe[OF defang_no_marker pad[OF that]] .
    moreover have "CHR ''<'' \<notin> set (replicate k backtick @ p)" using that by auto
    ultimately show ?thesis using no_marker_append_other by (metis append.assoc)
  qed
  show ?thesis unfolding public_code_span_def Let_def
    using span[of "[]"] span[of "'' ''"] by (simp del: replicate.simps)
qed

text \<open>C35: whatever the input and the redaction, published prose, lines and code spans contain no
  start of an HTML comment.\<close>

theorem public_text_forges_no_marker:
  "\<not> str_contains (public_text red t) ''<!--'' \<and> \<not> str_contains (public_line red t) ''<!--''
   \<and> \<not> str_contains (public_code_span red t) ''<!--''"
  using public_text_no_marker[of red t] public_line_no_marker[of red t]
    public_code_span_no_marker[of red t]
  by (simp add: no_marker_def marker_def)

section \<open>Comment bodies\<close>

lemma no_marker_append_Cons:
  "no_marker a \<Longrightarrow> harmless [c] \<Longrightarrow> no_marker b \<Longrightarrow> no_marker (a @ c # b)"
  using no_marker_join[of a "c # b"] by (simp add: no_marker_Cons_other harmless_def)

lemma harmless_Cons: "harmless [c] \<longleftrightarrow> c \<noteq> CHR ''<'' \<and> c \<noteq> CHR ''!'' \<and> c \<noteq> CHR ''-''"
  by (simp add: harmless_def)

lemma no_marker_prefix: "no_marker (a @ s) \<Longrightarrow> no_marker a"
proof (induction a)
  case (Cons c a)
  have "starts_with (c # a) marker \<Longrightarrow> starts_with (c # a @ s) marker"
    by (auto simp: starts_with_iff) (metis append.assoc append_Cons)
  with Cons show ?case by (auto simp: no_marker_Cons)
qed simp

lemma no_marker_replicate [simp]: "no_marker (replicate k backtick)"
  using no_marker_append_other[of "replicate k backtick" "[]"] by simp

lemma no_marker_digits [simp]: "no_marker (u32_str n)"
proof -
  have "CHR ''<'' \<notin> set (u32_str n)"
    using nat_str_digits by (fastforce simp: u32_str_def is_ascii_digit_def)
  then show ?thesis using no_marker_append_other[of "u32_str n" "[]"] by simp
qed

lemma no_marker_severity [simp]: "no_marker (severity_str s)"
  by (cases s) (simp_all add: no_marker_Cons_other)

lemma no_marker_joined: "list_all no_marker xs \<Longrightarrow> no_marker (join '', '' xs)"
  by (induction "'', ''::string" xs rule: join.induct)
    (auto simp: no_marker_Cons_other intro!: no_marker_append_Cons simp: harmless_Cons)

lemmas no_marker_rules =
  no_marker_append_Cons no_marker_joined defang_no_marker

lemmas no_marker_eval = no_marker_Cons_other harmless_Cons em_dash_def

text \<open>The body of a comment ends with the marker of its finding's identity and contains no
  other start of an HTML comment, provided the suggested replacement contains none (which
  \<open>checked_suggestion\<close> ensures).\<close>

theorem finding_body_single_marker:
  assumes "pred_option (\<lambda>s. \<not> str_contains (sg_replacement s) ''<!--'') (f_suggestion f)"
  shows "\<exists>pre. finding_body red H f = pre @ ''<!-- revera-id:'' @ fid H f @ '' -->''
            \<and> \<not> str_contains pre ''<!--''"
proof -
  define b0 where "b0 = ''**['' @ severity_str (f_severity f) @ ''] '' @ public_line red (f_title f)
    @ ''**'' @ nl @ nl @ public_text red (f_claim f) @ nl"
  define b1 where "b1 = (if f_trigger f \<noteq> []
    then b0 @ nl @ ''Trigger: '' @ public_text red (f_trigger f) @ nl else b0)"
  define b2 where "b2 = (if f_impact f \<noteq> []
    then b1 @ ''Impact: '' @ public_text red (f_impact f) @ nl else b1)"
  define b3 where "b3 = (if f_supporting_evidence f \<noteq> []
    then b2 @ ''Evidence: ''
      @ join '', '' (map (\<lambda>e. public_code_span red (ev_path e) @ '':'' @ u32_str (ev_start_line e))
          (f_supporting_evidence f)) @ nl else b2)"
  define b4 where "b4 = (case f_validated_fix f of None \<Rightarrow> b3
    | Some fix0 \<Rightarrow> (let fixed = defang (red fix0);
          fence = replicate (max 3 (backtick_run fixed + 1)) backtick
        in b3 @ nl @ ''Validator's suggested remedy '' @ em_dash @ '' not a tested patch:''
             @ nl @ fence @ nl @ fixed @ nl @ fence @ nl))"
  define b5 where "b5 = (case f_suggestion f of None \<Rightarrow> b4
    | Some s \<Rightarrow> if f_validation_status f = Some Accepted \<and> sg_start_line s = f_start_line f
          \<and> sg_end_line s = f_last_line f
        then (let fence = replicate (max 3 (backtick_run (sg_replacement s) + 1)) backtick
          in b4 @ nl @ fence @ ''suggestion'' @ nl
               @ unwrap_or (strip_suffix (sg_replacement s) nl) (sg_replacement s) @ nl @ fence @ nl)
        else b4)"
  have n0: "no_marker b0" unfolding b0_def
    by (auto simp: no_marker_eval intro!: no_marker_rules)
  have n1: "no_marker b1" unfolding b1_def
    using n0 by (auto simp: no_marker_eval intro!: no_marker_rules)
  have n2: "no_marker b2" unfolding b2_def
    using n1 by (auto simp: no_marker_eval intro!: no_marker_rules)
  have n3: "no_marker b3" unfolding b3_def
    using n2 by (auto simp: no_marker_eval list_all_iff intro!: no_marker_rules)
  have n4: "no_marker b4" unfolding b4_def Let_def
    using n3 by (auto simp: no_marker_eval simp del: replicate.simps split: option.splits intro!: no_marker_rules)
  have "no_marker (unwrap_or (strip_suffix (sg_replacement s) nl) (sg_replacement s))"
    if "f_suggestion f = Some s" for s
  proof -
    have r: "no_marker (sg_replacement s)" using assms that by (simp add: no_marker_def marker_def)
    show ?thesis
    proof (cases "strip_suffix (sg_replacement s) nl")
      case (Some t)
      then have "sg_replacement s = t @ nl" by (simp add: strip_suffix_Some)
      then show ?thesis using r Some no_marker_prefix[of t nl] by (simp add: unwrap_or_def)
    qed (simp add: unwrap_or_def r)
  qed
  then have "no_marker b5" unfolding b5_def Let_def
    using n4 by (auto simp: no_marker_eval simp del: replicate.simps split: option.splits intro!: no_marker_rules)
  then have "no_marker (b5 @ nl)" by (auto simp: no_marker_eval intro!: no_marker_rules)
  moreover have "finding_body red H f = (b5 @ nl) @ ''<!-- revera-id:'' @ fid H f @ '' -->''"
    unfolding finding_body_def Let_def b5_def b4_def b3_def b2_def b1_def b0_def by simp
  ultimately show ?thesis unfolding no_marker_def marker_def by blast
qed

theorem finding_body_single_marker_witness:
  "\<exists>pre. finding_body (\<lambda>s. s) (\<lambda>s. s) sample_finding
      = pre @ ''<!-- revera-id:'' @ fid (\<lambda>s. s) sample_finding @ '' -->'' \<and> \<not> str_contains pre ''<!--''"
  using finding_body_single_marker[of sample_finding "\<lambda>s. s" "\<lambda>s. s"] by (simp add: sample_finding_def)

end
