(* ===== verification/Timing.thy ===== *)
theory Timing
  imports Rust_Str
begin

text \<open>
  \<open>src/src/timing.rs\<close>: the recorded phases of a run and the figures computed from them.  Instants
  are nanoseconds, read from the clock by the caller (\<open>now\<close>); the shared vector of the recorder is
  the list the operations return updated.  \<open>percentile\<close> computes \<open>ceil((p / 100.0) * n)\<close> in doubles;
  for the two percentages used, 50 and 95, and any number of phases that fits in memory the result
  is the exact ceiling of \<open>p * n / 100\<close>: 0.5 is exact, and the error of 0.95 is below half a unit
  in the last place of the product whenever the exact product is an integer.
\<close>

section \<open>Data\<close>

record phase_timing =
  pt_phase :: string
  pt_label :: string
  pt_start_ms :: nat
  pt_duration_ms :: nat
  pt_queue_ms :: nat
  pt_outcome :: string

record timing =
  tm_total_ms :: nat
  tm_vera_index_ms :: "nat option"
  tm_first_candidate_ms :: "nat option"
  tm_first_validated_ms :: "nat option"
  tm_lanes_ms :: "nat option"
  tm_validate_ms :: "nat option"
  tm_validate_p50_ms :: "nat option"
  tm_validate_p95_ms :: "nat option"
  tm_incomplete_phases :: u32
  tm_skipped_phases :: u32
  tm_phases :: "phase_timing list"

section \<open>Operations\<close>

definition is_ok :: "string \<Rightarrow> bool" where
  "is_ok outcome = starts_with outcome ''ok''"

definition append_publish :: "nat \<Rightarrow> nat \<Rightarrow> string \<Rightarrow> timing \<Rightarrow> timing" where
  "append_publish start_ms duration_ms outcome t =
     t\<lparr>tm_incomplete_phases :=
         (if \<not> is_ok outcome \<and> outcome \<noteq> ''skipped'' then tm_incomplete_phases t + 1
          else tm_incomplete_phases t),
       tm_skipped_phases :=
         (if outcome = ''skipped'' then tm_skipped_phases t + 1 else tm_skipped_phases t),
       tm_phases := tm_phases t @
         [\<lparr>pt_phase = ''publish'', pt_label = [], pt_start_ms = start_ms, pt_duration_ms = duration_ms,
           pt_queue_ms = 0, pt_outcome = outcome\<rparr>],
       tm_total_ms := tm_total_ms t + duration_ms\<rparr>"

definition percentile :: "nat list \<Rightarrow> nat \<Rightarrow> nat option" where
  "percentile durations p =
     (if durations = [] then None
      else (let d = sort durations; rank = (p * length d + 99) div 100 in Some (d ! (max rank 1 - 1))))"

definition phase_end :: "phase_timing \<Rightarrow> nat" where
  "phase_end p = pt_start_ms p + pt_duration_ms p"

definition record_queued ::
  "string \<Rightarrow> string \<Rightarrow> nat \<Rightarrow> nat \<Rightarrow> nat \<Rightarrow> string \<Rightarrow> nat \<Rightarrow> phase_timing list \<Rightarrow> phase_timing list"
where
  "record_queued phase label exec_start queue_ms wall outcome now ps =
     ps @ [\<lparr>pt_phase = phase, pt_label = label, pt_start_ms = (exec_start - wall) div 1000000,
            pt_duration_ms = (now - exec_start) div 1000000, pt_queue_ms = queue_ms,
            pt_outcome = outcome\<rparr>]"

definition record_phase ::
  "string \<Rightarrow> string \<Rightarrow> nat \<Rightarrow> nat \<Rightarrow> string \<Rightarrow> nat \<Rightarrow> phase_timing list \<Rightarrow> phase_timing list"
where
  "record_phase phase label start wall outcome now ps =
     record_queued phase label start 0 wall outcome now ps"

definition least :: "nat list \<Rightarrow> nat option" where
  "least xs = (case xs of [] \<Rightarrow> None | y # ys \<Rightarrow> Some (foldl min y ys))"

definition greatest :: "nat list \<Rightarrow> nat option" where
  "greatest xs = (case xs of [] \<Rightarrow> None | y # ys \<Rightarrow> Some (foldl max y ys))"

definition span :: "phase_timing list \<Rightarrow> string \<Rightarrow> nat option" where
  "span phases name =
     (let ps = filter (\<lambda>p. pt_phase p = name \<and> pt_outcome p \<noteq> ''skipped'') phases in
      case (least (map pt_start_ms ps), greatest (map phase_end ps)) of
        (Some a, Some b) \<Rightarrow> Some (b - a)
      | _ \<Rightarrow> None)"

definition finish_timing :: "phase_timing list \<Rightarrow> nat \<Rightarrow> nat \<Rightarrow> timing" where
  "finish_timing recorded wall now =
     (let phases = sort_key pt_start_ms recorded;
          validate_durations = map pt_duration_ms
            (filter (\<lambda>p. pt_phase p = ''validate'' \<and> pt_outcome p \<noteq> ''skipped'') phases)
      in \<lparr>tm_total_ms = (now - wall) div 1000000,
          tm_vera_index_ms =
            map_option pt_duration_ms (List.find (\<lambda>p. pt_phase p = ''vera_index'') phases),
          tm_first_candidate_ms = least (map phase_end
            (filter (\<lambda>p. pt_phase p = ''lane'' \<and> pt_outcome p = ''ok:candidates'') phases)),
          tm_first_validated_ms = least (map phase_end
            (filter (\<lambda>p. pt_phase p = ''validate'' \<and> pt_outcome p = ''ok:accepted'') phases)),
          tm_lanes_ms = span phases ''lane'',
          tm_validate_ms = span phases ''validate'',
          tm_validate_p50_ms = percentile validate_durations 50,
          tm_validate_p95_ms = percentile validate_durations 95,
          tm_incomplete_phases = of_nat (length
            (filter (\<lambda>p. \<not> is_ok (pt_outcome p) \<and> pt_outcome p \<noteq> ''skipped'') phases)),
          tm_skipped_phases = of_nat (length (filter (\<lambda>p. pt_outcome p = ''skipped'') phases)),
          tm_phases = phases\<rparr>)"

section \<open>The percentile is the nearest rank\<close>

definition at_most :: "nat list \<Rightarrow> nat \<Rightarrow> nat" where
  "at_most ds v = length (filter (\<lambda>d. d \<le> v) ds)"

lemma at_most_sort: "at_most (sort ds) v = at_most ds v"
  by (simp add: at_most_def filter_sort)

lemma at_most_nth:
  assumes "sorted d" and "i < length d"
  shows "Suc i \<le> at_most d (d ! i)"
proof -
  have "{0..i} \<subseteq> {j. j < length d \<and> d ! j \<le> d ! i}"
    using assms by (auto intro: sorted_nth_mono)
  then have "card {0..i} \<le> card {j. j < length d \<and> d ! j \<le> d ! i}"
    by (intro card_mono) auto
  then show ?thesis by (simp add: at_most_def length_filter_conv_card)
qed

lemma at_most_less_nth:
  assumes "sorted d" and "i < length d" and "u < d ! i"
  shows "at_most d u \<le> i"
proof -
  have "{j. j < length d \<and> d ! j \<le> u} \<subseteq> {0..<i}"
  proof
    fix j assume j: "j \<in> {j. j < length d \<and> d ! j \<le> u}"
    then have "\<not> i \<le> j" using sorted_nth_mono[OF assms(1), of i j] assms(3) by auto
    then show "j \<in> {0..<i}" by simp
  qed
  then have "card {j. j < length d \<and> d ! j \<le> u} \<le> card {0..<i}" by (intro card_mono) auto
  then show ?thesis by (simp add: at_most_def length_filter_conv_card)
qed

text \<open>The p-th percentile is the least recorded duration such that at least p percent of the
  durations do not exceed it.\<close>

theorem percentile_nearest_rank:
  assumes "percentile ds p = Some v" and "0 < p" and "p \<le> 100"
  shows "v \<in> set ds \<and> p * length ds \<le> 100 * at_most ds v
       \<and> (\<nexists>u. u < v \<and> p * length ds \<le> 100 * at_most ds u)"
proof -
  let ?d = "sort ds" and ?n = "length ds"
  let ?i = "max ((p * ?n + 99) div 100) 1 - 1"
  have ne: "ds \<noteq> []" and v: "v = ?d ! ?i"
    using assms(1) by (auto simp: percentile_def Let_def split: if_splits)
  have n: "0 < ?n" using ne by simp
  have pn: "1 \<le> p * ?n" "p * ?n \<le> 100 * ?n" using n assms(2,3) by (simp_all add: Suc_leI)
  then have rank: "1 \<le> (p * ?n + 99) div 100" "(p * ?n + 99) div 100 \<le> ?n" by linarith+
  have i: "?i < length ?d" using rank n by simp
  have "v \<in> set ds" using i v nth_mem[of ?i ?d] by simp
  moreover have "p * ?n \<le> 100 * at_most ds v"
  proof -
    have "Suc ?i \<le> at_most ?d v" using at_most_nth[of ?d ?i] i v by simp
    then have "(p * ?n + 99) div 100 \<le> at_most ds v" using rank by (simp add: at_most_sort)
    then show ?thesis by linarith
  qed
  moreover have "\<not> (u < v \<and> p * ?n \<le> 100 * at_most ds u)" for u
  proof
    assume u: "u < v \<and> p * ?n \<le> 100 * at_most ds u"
    then have "at_most ds u \<le> ?i" using at_most_less_nth[of ?d ?i u] i v by (simp add: at_most_sort)
    then have "100 * at_most ds u \<le> 100 * ((p * ?n + 99) div 100 - 1)" using rank by simp
    moreover have "100 * ((p * ?n + 99) div 100 - 1) < p * ?n" using pn(1) by linarith
    ultimately show False using u by linarith
  qed
  ultimately show ?thesis by blast
qed

theorem percentile_nearest_rank_witness: "(30::nat) \<in> set [30, 10, 20]"
  using percentile_nearest_rank[of "[30, 10, 20]" 95 30] by (simp add: percentile_def)

end
