(* ===== verification/Report.thy ===== *)
theory Report
  imports Report_Text_Props Handoff Timing
begin

text \<open>
  \<open>src/src/report.rs\<close>, second part: the summary comment, the hand-off section appended by the command
  line, the downgrade of a summary whose publication did not finish, and the timing line.

  Parameters: \<open>red\<close> is \<open>redact::text\<close>, \<open>H\<close> the hexadecimal SHA-256 digest, \<open>secs\<close> is \<open>fmt_secs\<close> (a
  number of milliseconds printed as seconds by the formatting of doubles), \<open>parse_url\<close> is
  \<open>Url::parse\<close> of the crate \<open>url\<close>.
\<close>

definition middle_dot :: string where "middle_dot = [CHR 0xC2, CHR 0xB7]"

section \<open>Timing line\<close>

definition opt_seg :: "(nat \<Rightarrow> string) \<Rightarrow> string \<Rightarrow> nat option \<Rightarrow> string list" where
  "opt_seg secs label v = (case v of None \<Rightarrow> [] | Some ms \<Rightarrow> [label @ secs ms])"

definition timing_line :: "(nat \<Rightarrow> string) \<Rightarrow> timing \<Rightarrow> string" where
  "timing_line secs t =
     (let inner = opt_seg secs ''p50 '' (tm_validate_p50_ms t) @ opt_seg secs ''p95 '' (tm_validate_p95_ms t)
            @ opt_seg secs ''first candidate at '' (tm_first_candidate_ms t)
            @ opt_seg secs ''first validated at '' (tm_first_validated_ms t);
          seg = [''total '' @ secs (tm_total_ms t)]
            @ opt_seg secs ''index '' (tm_vera_index_ms t) @ opt_seg secs ''lanes '' (tm_lanes_ms t)
            @ (case tm_validate_ms t of
                 Some v \<Rightarrow>
                   if inner = [] then [''validation '' @ secs v]
                   else [''validation '' @ secs v @ '' ('' @ join '', '' inner @ '')'']
               | None \<Rightarrow> opt_seg secs ''first candidate at '' (tm_first_candidate_ms t))
            @ (if 0 < tm_incomplete_phases t
               then [u32_str (tm_incomplete_phases t) @ '' phase(s) incomplete''] else [])
            @ (if 0 < tm_skipped_phases t
               then [u32_str (tm_skipped_phases t) @ '' phase(s) skipped''] else [])
      in nl @ ''_Timing: '' @ join ('' '' @ middle_dot @ '' '') seg @ ''_'' @ nl)"

definition rfind_char :: "char \<Rightarrow> string \<Rightarrow> nat option" where
  "rfind_char c s = map_option (\<lambda>(a, b). length a) (rsplit_once c s)"

definition refresh_timing_line :: "(nat \<Rightarrow> string) \<Rightarrow> string \<Rightarrow> timing \<Rightarrow> string" where
  "refresh_timing_line secs summary t =
     (case find_str summary ''_Timing:'' of
        None \<Rightarrow> summary
      | Some beg \<Rightarrow>
          (let line_start = (case rfind_char (CHR 0x0A) (take beg summary) of None \<Rightarrow> 0 | Some i \<Rightarrow> i + 1) in
           case find_str (drop beg summary) (''_'' @ nl) of
             None \<Rightarrow> summary
           | Some rel_end \<Rightarrow>
               take line_start summary @ dropWhile (\<lambda>c. c = CHR 0x0A) (timing_line secs t)
                 @ drop (beg + rel_end + 2) summary))"

section \<open>Summary\<close>

record summary_input =
  sm_findings :: "finding list"
  sm_outside_diff :: "finding list"
  sm_lower_severity :: "finding list"
  sm_coverage :: string
  sm_coverage_gaps :: "string list"
  sm_status :: "run_status option"
  sm_reason :: "string option"
  sm_strategy :: string
  sm_routes :: "string list"
  sm_publish_uncertain :: bool
  sm_note :: "string option"
  sm_timing :: "timing option"
  sm_reused :: bool
  sm_carried_open :: nat
  sm_retrieval_unavailable :: "string option"
  sm_resolved :: "string list"
  sm_reopened :: "string list"
  sm_unvalidated :: nat

definition plural :: "nat \<Rightarrow> string \<Rightarrow> string" where
  "plural n one = (if n = 1 then ''1 '' @ one else nat_str n @ '' '' @ one @ ''s'')"

fun status_word :: "run_status \<Rightarrow> string" where
  "status_word Complete = ''complete''"
| "status_word Partial = ''partial''"
| "status_word Failed = ''failed''"

definition headline_count :: "summary_input \<Rightarrow> string" where
  "headline_count inp =
     (let counts = accepted_counts (sm_findings inp);
          unconfirmed = length (filter (\<lambda>f. f_validation_status f = Some Uncertain) (sm_findings inp));
          count0 =
            (if ac_total counts = 0 then ''no accepted findings''
             else plural (ac_total counts) ''accepted finding'' @ '' (''
                    @ join '', '' ((if 0 < ac_high counts then [nat_str (ac_high counts) @ '' high''] else [])
                        @ (if 0 < ac_medium counts then [nat_str (ac_medium counts) @ '' medium''] else [])
                        @ (if 0 < ac_low counts then [nat_str (ac_low counts) @ '' low''] else []))
                    @ '')'')
      in if sm_reused inp
         then count0 @ ''; reused completed review of identical content; ''
                @ plural (sm_carried_open inp) ''open finding'' @ '' carried forward''
         else count0
                @ (if 0 < unconfirmed then '', '' @ nat_str unconfirmed @ '' unconfirmed'' else [])
                @ (if 0 < sm_carried_open inp
                   then '', '' @ nat_str (sm_carried_open inp) @ '' still open from earlier runs'' else []))"

definition bullet :: "(string \<Rightarrow> string) \<Rightarrow> string \<Rightarrow> finding \<Rightarrow> string" where
  "bullet red lead f =
     ''- '' @ lead @ ''**['' @ severity_str (f_severity f) @ '']** '' @ public_code_span red (f_file f)
       @ '':'' @ u32_str (f_start_line f) @ '' '' @ em_dash @ '' '' @ public_line red (f_title f) @ nl"

definition status_lines :: "(string \<Rightarrow> string) \<Rightarrow> summary_input \<Rightarrow> run_status \<Rightarrow> string" where
  "status_lines red inp status =
     ''**Status: '' @ status_word status @ ''** '' @ em_dash @ '' '' @ headline_count inp @ nl
     @ (if status \<noteq> Complete
        then nl @ ''> Review incomplete''
               @ (case sm_reason inp of
                    None \<Rightarrow> []
                  | Some r \<Rightarrow> if r = [] then [] else '': '' @ public_line red r)
               @ ''. Absence of findings is not evidence the change is clean; rerun or inspect the parts listed as not checked.'' @ nl
        else [])"

definition warning_lines :: "summary_input \<Rightarrow> string" where
  "warning_lines inp =
     (if 0 < sm_unvalidated inp
      then nl @ ''> Validation disabled (evaluation-only): '' @ plural (sm_unvalidated inp) ''candidate''
             @ '' not validated and not publishable.'' @ nl
      else [])
     @ (case sm_retrieval_unavailable inp of
          None \<Rightarrow> []
        | Some r \<Rightarrow> nl @ ''> Semantic retrieval unavailable ('' @ r
               @ ''); repository-wide lookups used lexical search only.'' @ nl)
     @ nl"

definition inline_bullets :: "(string \<Rightarrow> string) \<Rightarrow> (string \<Rightarrow> string) \<Rightarrow> summary_input \<Rightarrow> string" where
  "inline_bullets red H inp =
     (let accepted = filter is_publishable (sm_findings inp);
          outside_ids = map (fid H) (sm_outside_diff inp @ sm_lower_severity inp)
      in concat (map (bullet red []) (filter (\<lambda>f. fid H f \<notin> set outside_ids) accepted))
         @ (if sm_publish_uncertain inp
            then concat (map (bullet red ''_(unconfirmed)_ '')
                   (filter (\<lambda>f. f_validation_status f = Some Uncertain) (sm_findings inp)))
            else []))"

definition titled :: "string \<Rightarrow> string list \<Rightarrow> string" where
  "titled title items = (if items \<noteq> [] then nl @ ''### '' @ title @ nl @ nl @ concat items else [])"

definition list_sections :: "(string \<Rightarrow> string) \<Rightarrow> summary_input \<Rightarrow> string" where
  "list_sections red inp =
     titled ''Findings outside the diff'' (map (bullet red []) (sm_outside_diff inp))
     @ titled ''Lower-severity findings (not posted inline)'' (map (bullet red []) (sm_lower_severity inp))
     @ titled ''Reopened (previously resolved, reintroduced)''
         (map (\<lambda>t. ''- '' @ public_line red t @ nl) (sm_reopened inp))
     @ titled ''Resolved since last review''
         (map (\<lambda>t. ''- '' @ public_line red t @ nl) (sm_resolved inp))"

definition closing_lines :: "(string \<Rightarrow> string) \<Rightarrow> (nat \<Rightarrow> string) \<Rightarrow> summary_input \<Rightarrow> string" where
  "closing_lines red secs inp =
     (let routes = join '', '' (remdups_adj (sort (sm_routes inp)))
      in (if \<not> sm_reused inp
          then nl @ ''Checked: '' @ public_text red (sm_coverage inp) @ nl
                 @ concat (map (\<lambda>g. ''- not checked: '' @ public_line red g @ nl) (sm_coverage_gaps inp))
          else [])
         @ (case sm_note inp of None \<Rightarrow> [] | Some n \<Rightarrow> nl @ ''_'' @ public_text red n @ ''_'' @ nl)
         @ (case sm_timing inp of None \<Rightarrow> [] | Some t \<Rightarrow> nl @ timing_line secs t)
         @ (if routes = []
            then nl @ ''<sub>revera '' @ middle_dot @ '' strategy '' @ sm_strategy inp @ ''</sub>'' @ nl
            else nl @ ''<sub>revera '' @ middle_dot @ '' strategy '' @ sm_strategy inp @ '' ''
                   @ middle_dot @ '' models: '' @ routes @ ''</sub>'' @ nl))"

definition summary_markdown ::
  "(string \<Rightarrow> string) \<Rightarrow> (string \<Rightarrow> string) \<Rightarrow> (nat \<Rightarrow> string) \<Rightarrow> summary_input \<Rightarrow> string"
where
  "summary_markdown red H secs inp =
     ''## Revera review'' @ nl @ nl
       @ status_lines red inp (unwrap_or (sm_status inp) Complete)
       @ warning_lines inp
       @ inline_bullets red H inp
       @ list_sections red inp
       @ closing_lines red secs inp"

section \<open>Decorations\<close>

record parsed_url =
  u_scheme :: string
  u_username :: string
  u_password :: "string option"
  u_string :: string

definition dashboard_link :: "(string \<Rightarrow> parsed_url option) \<Rightarrow> string \<Rightarrow> string option" where
  "dashboard_link parse_url url =
     (case parse_url url of
        None \<Rightarrow> None
      | Some p \<Rightarrow>
          if \<not> (u_scheme p = ''http'' \<or> u_scheme p = ''https'') \<or> u_username p \<noteq> [] \<or> u_password p \<noteq> None
          then None
          else Some (replace_str '')'' ''%29'' (replace_str ''('' ''%28''
                 (replace_chars {CHR ''<'', CHR ''>''} [] (u_string p)))))"

definition details_open :: string where
  "details_open = nl @ ''<details><summary>Fix with your coding agent</summary>''"

definition append_handoff ::
  "(string \<Rightarrow> string) \<Rightarrow> (string \<Rightarrow> string) \<Rightarrow> (string \<Rightarrow> parsed_url option) \<Rightarrow> run_status \<Rightarrow> finding list
   \<Rightarrow> carried_finding list \<Rightarrow> handoff_context \<Rightarrow> string option \<Rightarrow> string \<Rightarrow> string \<Rightarrow> string"
where
  "append_handoff red H parse_url status findings carried context fix_url bot_login s0 =
     (if status \<noteq> Complete \<or> (ac_total (accepted_counts findings) = 0 \<and> carried = []) then s0
      else
        (let instructions = build_handoff red H context (actionable_findings findings carried) None;
             s1 = s0 @ details_open @ nl @ nl;
             s2 = (case Option.bind (cx_review_url context) (dashboard_link parse_url) of
                     None \<Rightarrow> s1
                   | Some link \<Rightarrow> s1 @ ''[Open this review and download instructions](<'' @ link @ ''>).'' @ nl @ nl);
             s3 = (if char_count instructions \<le> 3000
                   then (let ins = defang instructions; fence = replicate (max 3 (backtick_run ins + 1)) backtick
                         in s2 @ fence @ ''text'' @ nl @ ins @ nl @ fence @ nl @ nl)
                   else s2);
             s4 = s3 @ ''</details>'' @ nl
         in case Option.bind fix_url (dashboard_link parse_url) of
              None \<Rightarrow> s4
            | Some link \<Rightarrow>
                (let slug = unwrap_or (strip_suffix bot_login ''[bot]'') bot_login in
                 s4 @ nl @ ''**Want Revera to fix these?** [Fix with Revera](<'' @ link @ ''>)''
                   @ (if slug \<noteq> [] \<and> list_all (\<lambda>c. is_ascii_alphanumeric c \<or> c = CHR ''-'') slug
                      then '' '' @ middle_dot @ '' or comment '' @ [backtick] @ ''@'' @ slug @ '' fix'' @ [backtick]
                      else [])
                   @ ''.'' @ nl)))"

definition mark_incomplete_summary :: "string \<Rightarrow> string" where
  "mark_incomplete_summary s0 =
     (let s1 = (case find_str s0 details_open of None \<Rightarrow> s0 | Some start \<Rightarrow> take start s0);
          s2 = replace_str ''**Status: complete**'' ''**Status: partial**'' s1
      in s2 @ nl @ ''> Review incomplete: publication did not finish. Absence of findings is not evidence the change is clean.'' @ nl)"

end
