(* ===== verification/Report_Props.thy ===== *)
theory Report_Props
  imports Report
begin

text \<open>
  Properties of the summary comment: an incomplete run never reads like a clean pass, every
  publishable finding is listed, the downgrade reaches the headline, and what the refresh of the
  timing line replaces.
\<close>

lemma str_containsI: "s = a @ p @ b \<Longrightarrow> str_contains s p"
  using str_contains_iff by blast

lemma str_contains_append1: "str_contains s p \<Longrightarrow> str_contains (s @ t) p"
  unfolding str_contains_iff by (metis append.assoc)

lemma str_contains_append2: "str_contains t p \<Longrightarrow> str_contains (s @ t) p"
  unfolding str_contains_iff by (metis append.assoc)

lemma str_contains_self: "str_contains p p"
  by (rule str_containsI[of _ "[]" _ "[]"]) simp

lemma str_contains_concat: "x \<in> set xs \<Longrightarrow> str_contains (concat xs) x"
  by (induction xs) (auto intro: str_contains_append1 str_contains_append2 str_contains_self)

lemma str_contains_concat_map: "x \<in> set xs \<Longrightarrow> str_contains (concat (map g xs)) (g x)"
  by (rule str_contains_concat) simp

section \<open>Status first\<close>

definition headline :: "run_status \<Rightarrow> string" where
  "headline st = ''## Revera review'' @ nl @ nl @ ''**Status: '' @ status_word st @ ''**''"

definition incomplete_note :: string where
  "incomplete_note = nl @ ''> Review incomplete''"

lemma summary_headline:
  "\<exists>t. summary_markdown red H secs inp = headline (unwrap_or (sm_status inp) Complete) @ t"
  by (simp add: summary_markdown_def headline_def status_lines_def)

lemma status_lines_incomplete:
  "st \<noteq> Complete \<Longrightarrow> str_contains (status_lines red inp st) incomplete_note"
  by (rule str_containsI[of _ "''**Status: '' @ status_word st @ ''** '' @ em_dash @ '' '' @ headline_count inp @ nl"])
    (simp add: status_lines_def incomplete_note_def)

text \<open>The summary of a run that is not complete opens with its status and says that the review
  is incomplete, whatever was found.\<close>

theorem incomplete_never_reads_clean:
  assumes "sm_status inp = Some st" and "st \<noteq> Complete"
  shows "starts_with (summary_markdown red H secs inp) (headline st)
       \<and> str_contains (summary_markdown red H secs inp) incomplete_note"
proof -
  have st: "unwrap_or (sm_status inp) Complete = st" using assms(1) by (simp add: unwrap_or_def)
  obtain t where "summary_markdown red H secs inp = headline st @ t"
    using summary_headline[of red H secs inp] st by auto
  moreover have "str_contains (summary_markdown red H secs inp) incomplete_note"
    unfolding summary_markdown_def st
    by (intro str_contains_append2[of _ incomplete_note "''## Revera review''"]
        str_contains_append2[of _ incomplete_note nl] str_contains_append1[OF status_lines_incomplete[OF assms(2)]])
  ultimately show ?thesis by simp
qed

definition empty_summary :: summary_input where
  "empty_summary =
     \<lparr>sm_findings = [], sm_outside_diff = [], sm_lower_severity = [], sm_coverage = [],
      sm_coverage_gaps = [], sm_status = Some Partial, sm_reason = None, sm_strategy = ''standard'',
      sm_routes = [], sm_publish_uncertain = False, sm_note = None, sm_timing = None,
      sm_reused = False, sm_carried_open = 0, sm_retrieval_unavailable = None, sm_resolved = [],
      sm_reopened = [], sm_unvalidated = 0\<rparr>"

theorem incomplete_never_reads_clean_witness:
  "str_contains (summary_markdown (\<lambda>s. s) (\<lambda>s. s) nat_str empty_summary) incomplete_note"
  using incomplete_never_reads_clean[of empty_summary Partial "\<lambda>s. s" "\<lambda>s. s" nat_str]
  by (simp add: empty_summary_def)

section \<open>Every publishable finding is listed\<close>

definition listed :: "(string \<Rightarrow> string) \<Rightarrow> (string \<Rightarrow> string) \<Rightarrow> string \<Rightarrow> finding list \<Rightarrow> finding \<Rightarrow> bool" where
  "listed red H doc others f =
     (str_contains doc (bullet red [] f)
      \<or> list_ex (\<lambda>g. fid H g = fid H f \<and> str_contains doc (bullet red [] g)) others)"

text \<open>The summary lists every accepted finding that is no duplicate, directly or by the entry
  of the same identity in the sections for findings without an inline comment.\<close>

theorem summary_lists_publishable:
  "list_all (listed red H (summary_markdown red H secs inp) (sm_outside_diff inp @ sm_lower_severity inp))
     (filter is_publishable (sm_findings inp))"
proof -
  let ?doc = "summary_markdown red H secs inp"
  let ?others = "sm_outside_diff inp @ sm_lower_severity inp"
  have in_lists: "str_contains ?doc (bullet red [] g)" if "g \<in> set ?others" for g
  proof -
    have "str_contains (titled t (map (bullet red []) fs)) (bullet red [] g)" if "g \<in> set fs" for t fs
    proof -
      have "titled t (map (bullet red []) fs)
          = (nl @ ''### '' @ t @ nl @ nl) @ concat (map (bullet red []) fs)"
        using that by (auto simp: titled_def)
      then show ?thesis by (simp only: str_contains_append2[OF str_contains_concat_map[OF that]])
    qed
    then have "str_contains (list_sections red inp) (bullet red [] g)"
      unfolding list_sections_def using \<open>g \<in> set ?others\<close>
      by (auto intro: str_contains_append1 str_contains_append2)
    then show ?thesis unfolding summary_markdown_def
      by (blast intro: str_contains_append1 str_contains_append2)
  qed
  have "listed red H ?doc ?others f" if f: "f \<in> set (sm_findings inp)" "is_publishable f" for f
  proof (cases "fid H f \<in> set (map (fid H) ?others)")
    case True
    then obtain g where "g \<in> set ?others" "fid H g = fid H f" by (metis imageE image_set)
    then show ?thesis using in_lists unfolding listed_def list_ex_iff by blast
  next
    case False
    have "str_contains (inline_bullets red H inp) (bullet red [] f)"
      unfolding inline_bullets_def Let_def using f False
      by (intro str_contains_append1 str_contains_concat_map) simp
    then have "str_contains ?doc (bullet red [] f)" unfolding summary_markdown_def
      by (blast intro: str_contains_append1 str_contains_append2)
    then show ?thesis by (simp add: listed_def)
  qed
  then show ?thesis by (simp add: list_all_iff)
qed

section \<open>The timing line\<close>

text \<open>Refreshing replaces the text from the line of the first \<open>_Timing:\<close> up to the next line
  that ends in an underscore.  When that first occurrence stands in a finding's title, everything
  from there to the real timing line is lost.\<close>

theorem refresh_replaces_from_first_marker:
  assumes "summary = pre @ nl @ x @ ''_Timing:'' @ mid @ ''_'' @ nl @ post"
    and "CHR 0x0A \<notin> set x"
    and "find_str summary ''_Timing:'' = Some (length pre + 1 + length x)"
    and "find_str (''_Timing:'' @ mid @ ''_'' @ nl @ post) (''_'' @ nl) = Some (8 + length mid)"
  shows "refresh_timing_line secs summary t
       = pre @ nl @ dropWhile (\<lambda>c. c = CHR 0x0A) (timing_line secs t) @ post"
proof -
  let ?beg = "length pre + 1 + length x"
  have tk: "take ?beg summary = pre @ nl @ x" unfolding assms(1) by simp
  have dr: "drop ?beg summary = ''_Timing:'' @ mid @ ''_'' @ nl @ post" unfolding assms(1) by simp
  have "split_once (CHR 0x0A) (rev (pre @ nl @ x)) = Some (rev x, rev pre)"
    using split_once_append[of "CHR 0x0A" "rev x" "rev pre"] assms(2) by simp
  then have rf: "rfind_char (CHR 0x0A) (take ?beg summary) = Some (length pre)"
    unfolding tk by (simp add: rfind_char_def rsplit_once_def)
  have "take (length pre + 1) summary = pre @ nl" unfolding assms(1) by simp
  moreover have "drop (?beg + (8 + length mid) + 2) summary = post"
  proof -
    have "summary = (pre @ nl @ x @ ''_Timing:'' @ mid @ ''_'' @ nl) @ post" unfolding assms(1) by simp
    moreover have "length (pre @ nl @ x @ ''_Timing:'' @ mid @ ''_'' @ nl) = ?beg + (8 + length mid) + 2" by simp
    ultimately show ?thesis by (metis append_eq_conv_conj)
  qed
  ultimately show ?thesis
    unfolding refresh_timing_line_def assms(3) option.case Let_def rf dr assms(4) by simp
qed

definition misleading_summary :: string where
  "misleading_summary =
     nl @ ''- see _Timing:'' @ nl @ ''- lost'' @ nl @ ''_Timing: total 1s'' @ ''_'' @ nl @ ''end''"

theorem refresh_replaces_from_first_marker_witness:
  "refresh_timing_line nat_str misleading_summary (finish_timing [] 0 0)
     = nl @ dropWhile (\<lambda>c. c = CHR 0x0A) (timing_line nat_str (finish_timing [] 0 0)) @ ''end''"
  using refresh_replaces_from_first_marker[of misleading_summary "[]" "''- see ''"
      "nl @ ''- lost'' @ nl @ ''_Timing: total 1s''" "''end''" nat_str "finish_timing [] 0 0"]
  by (simp add: misleading_summary_def str_simps)

section \<open>Downgrading a summary\<close>

text \<open>When publication did not finish, the headline of a complete review is changed to partial
  and the summary ends by saying so.\<close>

theorem mark_incomplete_reaches_headline:
  "starts_with (mark_incomplete_summary (headline Complete @ t)) (headline Partial)
   \<and> ends_with (mark_incomplete_summary (headline Complete @ t))
       (incomplete_note @ '': publication did not finish. Absence of findings is not evidence the change is clean.'' @ nl)"
proof -
  obtain u where cut: "(case find_str (headline Complete @ t) details_open of
      None \<Rightarrow> headline Complete @ t | Some start \<Rightarrow> take start (headline Complete @ t)) = headline Complete @ u"
  proof (cases "find_str t details_open")
    case None
    then have "find_str (headline Complete @ t) details_open = None"
      by (simp add: headline_def details_open_def str_simps)
    then show thesis using that[of t] by simp
  next
    case (Some k)
    then have "find_str (headline Complete @ t) details_open = Some (length (headline Complete) + k)"
      by (simp add: headline_def details_open_def str_simps)
    then show thesis using that[of "take k t"] by simp
  qed
  have "replace_str ''**Status: complete**'' ''**Status: partial**'' (headline Complete @ u)
      = headline Partial @ replace_str ''**Status: complete**'' ''**Status: partial**'' u"
    by (simp add: headline_def str_simps)
  then have res: "mark_incomplete_summary (headline Complete @ t) = headline Partial
      @ replace_str ''**Status: complete**'' ''**Status: partial**'' u @ incomplete_note
      @ '': publication did not finish. Absence of findings is not evidence the change is clean.'' @ nl"
    unfolding mark_incomplete_summary_def Let_def cut by (simp add: incomplete_note_def)
  have "ends_with (a @ b @ c) c" for a b c :: string
    unfolding ends_with_iff by (intro exI[of _ "a @ b"]) simp
  then show ?thesis unfolding res by (simp only: starts_with_append simp_thms)
qed

end
