(* ===== verification/Dedup.thy ===== *)
theory Dedup
  imports Report_Text
begin

text \<open>
  \<open>src/src/pipeline/dedup.rs\<close>, function \<open>apply\<close>: the removal-only application of the groups a model
  submitted for deduplication.  \<open>read_groups\<close> is the derived deserialisation of \<open>Groups\<close> (an object
  with the single known key, or the one-element sequence serde also accepts), \<open>check_group\<close> and
  \<open>check_groups\<close> the validation of all groups before any change, \<open>apply_group\<close> one iteration of the
  second loop.  The model request around it (\<open>run\<close>) is not modelled.
\<close>

section \<open>Validation of the groups\<close>

datatype item = New nat | Posted nat

fun collect_strings :: "json list \<Rightarrow> string list option" where
  "collect_strings [] = Some []"
| "collect_strings (v # vs) =
     (case (as_str v, collect_strings vs) of (Some s, Some ss) \<Rightarrow> Some (s # ss) | _ \<Rightarrow> None)"

fun collect_groups :: "json list \<Rightarrow> string list list option" where
  "collect_groups [] = Some []"
| "collect_groups (v # vs) =
     (case as_array v of
        None \<Rightarrow> None
      | Some a \<Rightarrow>
          (case (collect_strings a, collect_groups vs) of (Some g, Some gs) \<Rightarrow> Some (g # gs) | _ \<Rightarrow> None))"

definition read_groups :: "json \<Rightarrow> string list list option" where
  "read_groups args =
     (case args of
        JObj [(k, JArr a)] \<Rightarrow> if k = ''groups'' then collect_groups a else None
      | JArr [JArr a] \<Rightarrow> collect_groups a
      | _ \<Rightarrow> None)"

definition new_ref :: "nat \<Rightarrow> string" where "new_ref i = ''new:'' @ nat_str i"
definition posted_ref :: "nat \<Rightarrow> string" where "posted_ref i = ''posted:'' @ nat_str i"

definition refs :: "finding list \<Rightarrow> carried_finding list \<Rightarrow> (string \<times> item) list" where
  "refs findings carried =
     map (\<lambda>(i, f). (new_ref i, New i)) (filter (\<lambda>(i, f). is_publishable f) (enum findings))
       @ map (\<lambda>i. (posted_ref i, Posted i)) [0..<length carried]"

datatype dedup_error = Malformed_groups | Too_few_refs | Repeated_ref | Unknown_ref

fun check_members ::
  "(string \<times> item) list \<Rightarrow> string list \<Rightarrow> string list \<Rightarrow> dedup_error + (string list \<times> item list)"
where
  "check_members rs seen [] = Inr (seen, [])"
| "check_members rs seen (r # rest) =
     (if r \<in> set seen then Inl Repeated_ref
      else (case map_of rs r of
              None \<Rightarrow> Inl Unknown_ref
            | Some m \<Rightarrow>
                (case check_members rs (r # seen) rest of
                   Inl e \<Rightarrow> Inl e
                 | Inr (seen', ms) \<Rightarrow> Inr (seen', m # ms))))"

fun check_groups ::
  "(string \<times> item) list \<Rightarrow> string list \<Rightarrow> string list list \<Rightarrow> dedup_error + item list list"
where
  "check_groups rs seen [] = Inr []"
| "check_groups rs seen (g # groups) =
     (if length g < 2 then Inl Too_few_refs
      else (case check_members rs seen g of
              Inl e \<Rightarrow> Inl e
            | Inr (seen', members) \<Rightarrow>
                (case check_groups rs seen' groups of
                   Inl e \<Rightarrow> Inl e
                 | Inr checked \<Rightarrow> Inr (members # checked))))"

section \<open>Application\<close>

definition posted_of :: "item list \<Rightarrow> nat list" where
  "posted_of g = List.map_filter (\<lambda>m. case m of Posted i \<Rightarrow> Some i | New _ \<Rightarrow> None) g"

definition new_of :: "item list \<Rightarrow> nat list" where
  "new_of g = List.map_filter (\<lambda>m. case m of New i \<Rightarrow> Some i | Posted _ \<Rightarrow> None) g"

definition min_index :: "nat list \<Rightarrow> nat option" where
  "min_index is = (if is = [] then None else Some (foldl min (hd is) (tl is)))"

definition more_severe :: "finding list \<Rightarrow> nat \<Rightarrow> nat \<Rightarrow> nat" where
  "more_severe findings a b =
     (if f_severity (findings ! a) < f_severity (findings ! b) then b else a)"

definition own_evidence :: "finding \<Rightarrow> evidence" where
  "own_evidence f =
     \<lparr>ev_path = f_file f, ev_start_line = f_start_line f, ev_end_line = f_last_line f, ev_note = f_title f\<rparr>"

definition same_place :: "evidence \<Rightarrow> evidence \<Rightarrow> bool" where
  "same_place old e =
     (ev_path old = ev_path e \<and> ev_start_line old = ev_start_line e \<and> ev_end_line old = ev_end_line e)"

definition absorb :: "finding \<Rightarrow> finding \<Rightarrow> finding" where
  "absorb keep f =
     keep\<lparr>f_supporting_evidence :=
       push_all_new_by same_place (f_supporting_evidence keep) (f_supporting_evidence f @ [own_evidence f])\<rparr>"

definition drop_finding ::
  "nat option \<Rightarrow> string \<Rightarrow> nat \<Rightarrow> finding list \<times> nat \<Rightarrow> finding list \<times> nat"
where
  "drop_finding winner ident i st =
     (let (fs, count) = st;
          fs1 = (case winner of None \<Rightarrow> fs | Some keep \<Rightarrow> fs[keep := absorb (fs ! keep) (fs ! i)])
      in (fs1[i := (fs1 ! i)\<lparr>f_duplicate_of := Some ident\<rparr>], count + 1))"

definition apply_group ::
  "(string \<Rightarrow> string) \<Rightarrow> carried_finding list \<Rightarrow> item list \<Rightarrow> finding list \<times> nat \<Rightarrow> finding list \<times> nat"
where
  "apply_group H carried g st =
     (let fs = fst st;
          posted = min_index (posted_of g);
          new = sort (new_of g);
          winner = (if posted \<noteq> None then None else reduce (more_severe fs) new)
      in case (case posted of
                 Some i \<Rightarrow> Some (cf_id (carried ! i))
               | None \<Rightarrow> map_option (\<lambda>i. fid H (fs ! i)) winner) of
           None \<Rightarrow> st
         | Some ident \<Rightarrow> fold (drop_finding winner ident) (filter (\<lambda>i. Some i \<noteq> winner) new) st)"

definition apply_dedup ::
  "(string \<Rightarrow> string) \<Rightarrow> finding list \<Rightarrow> carried_finding list \<Rightarrow> json \<Rightarrow>
   finding list \<times> (dedup_error + nat)"
where
  "apply_dedup H findings carried args =
     (case read_groups args of
        None \<Rightarrow> (findings, Inl Malformed_groups)
      | Some groups \<Rightarrow>
          (case check_groups (refs findings carried) [] groups of
             Inl e \<Rightarrow> (findings, Inl e)
           | Inr checked \<Rightarrow>
               (let (fs, count) = fold (apply_group H carried) checked (findings, 0)
                in (fs, Inr count))))"

end
