(* ===== verification/Dedup_Props.thy ===== *)
theory Dedup_Props
  imports Dedup Diff_Props
begin

text \<open>
  \<open>apply_dedup\<close> is atomic and removal-only: an error leaves the findings alone, and a success marks
  publishable findings as duplicates of something that is still reported, changing nothing else but
  the evidence of the finding that stays.
\<close>

section \<open>Validated groups\<close>

lemma new_ref_inj: "new_ref i = new_ref j \<longleftrightarrow> i = j"
  using digits_value_nat_str by (auto simp: new_ref_def) (metis option.inject)

lemma posted_ref_inj: "posted_ref i = posted_ref j \<longleftrightarrow> i = j"
  using digits_value_nat_str by (auto simp: posted_ref_def) (metis option.inject)

lemma new_ref_posted_ref: "new_ref i \<noteq> posted_ref j"
  by (simp add: new_ref_def posted_ref_def)

lemma refs_New: "map_of (refs fs carried) r = Some (New i) \<Longrightarrow> i < length fs \<and> is_publishable (fs ! i) \<and> r = new_ref i"
  by (drule map_of_SomeD) (auto simp: refs_def in_set_enum)

lemma refs_Posted: "map_of (refs fs carried) r = Some (Posted i) \<Longrightarrow> i < length carried \<and> r = posted_ref i"
  by (drule map_of_SomeD) (auto simp: refs_def)

lemma new_of_simps [simp]:
  "new_of [] = []" "new_of (New i # g) = i # new_of g" "new_of (Posted j # g) = new_of g"
  by (simp_all add: new_of_def)

lemma posted_of_simps [simp]:
  "posted_of [] = []" "posted_of (New i # g) = posted_of g" "posted_of (Posted j # g) = j # posted_of g"
  by (simp_all add: posted_of_def)

lemma check_members_ok:
  "check_members (refs fs carried) seen g = Inr (seen', ms) \<Longrightarrow>
     set seen \<subseteq> set seen' \<and> new_ref ` set (new_of ms) \<subseteq> set seen' - set seen
     \<and> distinct (new_of ms) \<and> (\<forall>i\<in>set (new_of ms). i < length fs \<and> is_publishable (fs ! i))
     \<and> (\<forall>j\<in>set (posted_of ms). j < length carried)"
proof (induction g arbitrary: seen seen' ms)
  case (Cons r rest)
  obtain m ms' where m: "r \<notin> set seen" "map_of (refs fs carried) r = Some m" "ms = m # ms'"
    and rest: "check_members (refs fs carried) (r # seen) rest = Inr (seen', ms')"
    using Cons.prems by (auto split: if_splits option.splits sum.splits)
  note IH = Cons.IH[OF rest]
  show ?case
  proof (cases m)
    case (New i)
    with m refs_New have i: "i < length fs" "is_publishable (fs ! i)" "r = new_ref i" by blast+
    then have "i \<notin> set (new_of ms')" using IH by auto
    with IH i m New show ?thesis by auto
  next
    case (Posted j)
    with m refs_Posted have "j < length carried" by blast
    with IH m Posted show ?thesis by auto
  qed
qed auto

lemma check_groups_ok:
  "check_groups (refs fs carried) seen gs = Inr checked \<Longrightarrow>
     distinct (concat (map new_of checked)) \<and> new_ref ` set (concat (map new_of checked)) \<inter> set seen = {}
     \<and> (\<forall>i\<in>set (concat (map new_of checked)). i < length fs \<and> is_publishable (fs ! i))
     \<and> (\<forall>g\<in>set checked. \<forall>j\<in>set (posted_of g). j < length carried)"
proof (induction gs arbitrary: seen checked)
  case (Cons g gs)
  obtain seen' ms checked' where ms: "check_members (refs fs carried) seen g = Inr (seen', ms)"
    and rest: "check_groups (refs fs carried) seen' gs = Inr checked'" and eq: "checked = ms # checked'"
    using Cons.prems by (auto split: if_splits sum.splits)
  note M = check_members_ok[OF ms] and IH = Cons.IH[OF rest]
  have "set (new_of ms) \<inter> set (concat (map new_of checked')) = {}"
    using M IH by blast
  moreover have "new_ref ` set (concat (map new_of checked)) \<inter> set seen = {}"
  proof -
    have "set (concat (map new_of checked)) = set (new_of ms) \<union> set (concat (map new_of checked'))"
      unfolding eq by simp
    moreover have "new_ref ` set (new_of ms) \<inter> set seen = {}" using M by blast
    moreover have "new_ref ` set (concat (map new_of checked')) \<inter> set seen = {}" using M IH by blast
    ultimately show ?thesis by (simp only: image_Un Int_Un_distrib2 Un_empty)
  qed
  ultimately show ?case using M IH unfolding eq by auto
qed simp

section \<open>Dropping findings\<close>

definition same_core :: "finding \<Rightarrow> finding \<Rightarrow> bool" where
  "same_core a b =
     (b = a\<lparr>f_duplicate_of := f_duplicate_of b, f_supporting_evidence := f_supporting_evidence b\<rparr>
      \<and> prefix (f_supporting_evidence a) (f_supporting_evidence b))"

lemma same_core_refl [simp]: "same_core a a"
  by (simp add: same_core_def)

lemma same_core_trans: "same_core a b \<Longrightarrow> same_core b c \<Longrightarrow> same_core a c"
  by (cases a; cases b; cases c) (auto simp: same_core_def intro: prefix_order.trans)

lemma same_core_fid: "same_core a b \<Longrightarrow> fid H b = fid H a"
  by (cases a; cases b) (auto simp: same_core_def fid_def)

lemma same_core_status: "same_core a b \<Longrightarrow> f_validation_status b = f_validation_status a"
  by (cases a; cases b) (auto simp: same_core_def)

lemma same_core_absorb: "same_core a (absorb a f)" "f_duplicate_of (absorb a f) = f_duplicate_of a"
  using push_all_new_by_prefix[of same_place "f_supporting_evidence a"
      "f_supporting_evidence f @ [own_evidence f]"]
  by (auto simp: same_core_def absorb_def)

lemma same_core_drop: "same_core a b \<Longrightarrow> same_core a (b\<lparr>f_duplicate_of := x\<rparr>)"
  by (cases a; cases b) (auto simp: same_core_def)

definition dropped_to :: "string \<Rightarrow> nat set \<Rightarrow> finding list \<Rightarrow> finding list \<Rightarrow> bool" where
  "dropped_to ident D fs gs =
     (length gs = length fs
      \<and> (\<forall>j<length fs. same_core (fs ! j) (gs ! j)
          \<and> f_duplicate_of (gs ! j) = (if j \<in> D then Some ident else f_duplicate_of (fs ! j))))"

lemma dropped_to_trans:
  "dropped_to ident D fs gs \<Longrightarrow> dropped_to ident E gs hs \<Longrightarrow> dropped_to ident (D \<union> E) fs hs"
  by (auto simp: dropped_to_def intro: same_core_trans)

lemma drop_finding_step:
  assumes "i < length fs" and "\<And>w. winner = Some w \<Longrightarrow> w < length fs"
  shows "dropped_to ident {i} fs (fst (drop_finding winner ident i (fs, c)))"
proof (cases winner)
  case None
  then show ?thesis using assms(1)
    by (auto simp: drop_finding_def dropped_to_def nth_list_update same_core_drop)
next
  case (Some w)
  let ?gs = "fs[w := absorb (fs ! w) (fs ! i)]"
  have "dropped_to ident {} fs ?gs"
    using assms(2)[OF Some] same_core_absorb by (auto simp: dropped_to_def nth_list_update)
  moreover have "dropped_to ident {i} ?gs (?gs[i := (?gs ! i)\<lparr>f_duplicate_of := Some ident\<rparr>])"
    using assms(1) same_core_drop[OF same_core_refl]
    by (simp add: dropped_to_def nth_list_update)
  ultimately have "dropped_to ident ({} \<union> {i}) fs (?gs[i := (?gs ! i)\<lparr>f_duplicate_of := Some ident\<rparr>])"
    by (rule dropped_to_trans)
  then show ?thesis using Some by (simp add: drop_finding_def Let_def)
qed

lemma fold_drop_finding:
  assumes "\<forall>i\<in>set is. i < length fs" and "\<And>w. winner = Some w \<Longrightarrow> w < length fs"
  shows "dropped_to ident (set is) fs (fst (fold (drop_finding winner ident) is (fs, c)))
       \<and> snd (fold (drop_finding winner ident) is (fs, c)) = c + length is"
  using assms
proof (induction "is" arbitrary: fs c)
  case (Cons i "is")
  obtain fs1 where step: "drop_finding winner ident i (fs, c) = (fs1, Suc c)"
    by (simp add: drop_finding_def Let_def)
  then have d: "dropped_to ident {i} fs fs1" using drop_finding_step[of i fs winner ident c] Cons.prems by simp
  then have "length fs1 = length fs" by (simp add: dropped_to_def)
  then have "dropped_to ident (set is) fs1 (fst (fold (drop_finding winner ident) is (fs1, Suc c)))
      \<and> snd (fold (drop_finding winner ident) is (fs1, Suc c)) = Suc c + length is"
    using Cons by simp
  then show ?case using step dropped_to_trans[OF d] by fastforce
qed (simp add: dropped_to_def)

section \<open>One group\<close>

lemma foldl_min_in: "foldl min a xs \<in> insert a (set xs)" for a :: nat
proof (induction xs arbitrary: a)
  case (Cons x xs)
  have "min a x \<in> {a, x}" by (simp add: min_def)
  then show ?case using Cons.IH[of "min a x"] by auto
qed simp

lemma min_index_Some: "min_index is = Some i \<Longrightarrow> i \<in> set is"
  using foldl_min_in[of "hd is" "tl is"] by (cases "is") (auto simp: min_index_def)

lemma foldl_more_severe_in: "foldl (more_severe fs) a xs \<in> insert a (set xs)"
proof (induction xs arbitrary: a)
  case (Cons x xs)
  have "more_severe fs a x \<in> {a, x}" by (simp add: more_severe_def)
  then show ?case using Cons.IH[of "more_severe fs a x"] by auto
qed simp

lemma winner_in: "reduce (more_severe fs) is = Some w \<Longrightarrow> w \<in> set is"
  using foldl_more_severe_in[of fs "hd is" "tl is"] by (cases "is") auto

text \<open>A group is applied by dropping a set of its new findings to one identity: of a carried finding,
  or of the group's winner, which is not dropped.\<close>

lemma apply_group_effect:
  assumes new: "\<forall>i\<in>set (new_of g). i < length fs" "distinct (new_of g)"
    and posted: "\<forall>j\<in>set (posted_of g). j < length carried"
    and res: "apply_group H carried g (fs, c) = (fs1, c1)"
  shows "\<exists>D ident. D \<subseteq> set (new_of g) \<and> dropped_to ident D fs fs1 \<and> c1 = c + card D
      \<and> (D \<noteq> {} \<longrightarrow> ident \<in> cf_id ` set carried
           \<or> (\<exists>k\<in>set (new_of g) - D. ident = fid H (fs ! k)))"
proof -
  let ?new = "sort (new_of g)"
  let ?posted = "min_index (posted_of g)"
  let ?winner = "if ?posted \<noteq> None then None else reduce (more_severe fs) ?new"
  let ?drop = "filter (\<lambda>i. Some i \<noteq> ?winner) ?new"
  let ?ident = "case ?posted of Some i \<Rightarrow> Some (cf_id (carried ! i))
    | None \<Rightarrow> map_option (\<lambda>i. fid H (fs ! i)) ?winner"
  have w: "w \<in> set (new_of g)" if "?winner = Some w" for w
    using that winner_in[of fs ?new w] by (auto split: if_splits)
  show ?thesis
  proof (cases ?ident)
    case None
    then have "apply_group H carried g (fs, c) = (fs, c)"
      unfolding apply_group_def Let_def fst_conv by (simp only: option.case)
    then have "fs1 = fs \<and> c1 = c" using res by simp
    then show ?thesis by (intro exI[of _ "{}"]) (simp add: dropped_to_def)
  next
    case (Some ident)
    then have "apply_group H carried g (fs, c) = fold (drop_finding ?winner ident) ?drop (fs, c)"
      unfolding apply_group_def Let_def fst_conv by (simp only: option.case)
    then have f: "fold (drop_finding ?winner ident) ?drop (fs, c) = (fs1, c1)" using res by simp
    have bounds: "\<forall>i\<in>set ?drop. i < length fs" "\<And>w. ?winner = Some w \<Longrightarrow> w < length fs"
      using new w by auto
    have d: "dropped_to ident (set ?drop) fs fs1" "c1 = c + length ?drop"
      using fold_drop_finding[where ident = ident and c = c and winner = ?winner and fs = fs, OF bounds]
      unfolding f by (simp_all only: fst_conv snd_conv)
    have "length ?drop = card (set ?drop)" 
    proof -
      have "distinct ?drop" using new(2) by (intro distinct_filter) simp
      then show ?thesis by (rule distinct_card[symmetric])
    qed
    moreover have "ident \<in> cf_id ` set carried \<or> (\<exists>k\<in>set (new_of g) - set ?drop. ident = fid H (fs ! k))"
    proof (cases ?posted)
      case None
      then obtain k where k: "?winner = Some k" "ident = fid H (fs ! k)" using Some by auto
      then have "k \<in> set (new_of g) - set ?drop" using w[OF k(1)] by simp
      with k show ?thesis by blast
    next
      case p: (Some j)
      then have "j < length carried" using posted min_index_Some by blast
      then show ?thesis using p Some by auto
    qed
    moreover have "set ?drop \<subseteq> set (new_of g)" by auto
    ultimately show ?thesis using d
      by (intro exI[of _ "set ?drop"] exI[of _ ident]) (simp only:, blast)
  qed
qed

section \<open>All groups\<close>

definition kept_identity :: "(string \<Rightarrow> string) \<Rightarrow> carried_finding list \<Rightarrow> nat set \<Rightarrow> finding list \<Rightarrow> string \<Rightarrow> bool" where
  "kept_identity H carried todo gs x =
     (x \<in> cf_id ` set carried
      \<or> (\<exists>k<length gs. k \<notin> todo \<and> is_publishable (gs ! k) \<and> fid H (gs ! k) = x))"

definition dedup_inv ::
  "(string \<Rightarrow> string) \<Rightarrow> carried_finding list \<Rightarrow> finding list \<Rightarrow> nat set \<Rightarrow> finding list \<Rightarrow> nat \<Rightarrow> bool"
where
  "dedup_inv H carried fs todo gs c =
     (length gs = length fs
      \<and> (\<forall>j<length fs. same_core (fs ! j) (gs ! j))
      \<and> (\<forall>j<length fs. f_duplicate_of (gs ! j) \<noteq> f_duplicate_of (fs ! j) \<longrightarrow>
            is_publishable (fs ! j) \<and> j \<notin> todo
            \<and> (\<exists>x. f_duplicate_of (gs ! j) = Some x \<and> kept_identity H carried todo gs x))
      \<and> c = card {j. j < length fs \<and> f_duplicate_of (gs ! j) \<noteq> f_duplicate_of (fs ! j)})"

lemma dedup_inv_step:
  assumes inv: "dedup_inv H carried fs (set (new_of g) \<union> todo) gs c"
    and new: "\<forall>i\<in>set (new_of g). i < length fs \<and> is_publishable (fs ! i)" "distinct (new_of g)"
    and disj: "set (new_of g) \<inter> todo = {}"
    and posted: "\<forall>j\<in>set (posted_of g). j < length carried"
    and res: "apply_group H carried g (gs, c) = (gs1, c1)"
  shows "dedup_inv H carried fs todo gs1 c1"
proof -
  have len: "length gs = length fs" and core: "\<forall>j<length fs. same_core (fs ! j) (gs ! j)"
    and old: "\<forall>j<length fs. f_duplicate_of (gs ! j) \<noteq> f_duplicate_of (fs ! j) \<longrightarrow>
            is_publishable (fs ! j) \<and> j \<notin> set (new_of g) \<union> todo
            \<and> (\<exists>x. f_duplicate_of (gs ! j) = Some x \<and> kept_identity H carried (set (new_of g) \<union> todo) gs x)"
    and c: "c = card {j. j < length fs \<and> f_duplicate_of (gs ! j) \<noteq> f_duplicate_of (fs ! j)}"
    using inv by (auto simp: dedup_inv_def)
  have newgs: "\<forall>i\<in>set (new_of g). i < length gs" using new len by simp
  obtain D ident where D: "D \<subseteq> set (new_of g)" and drop: "dropped_to ident D gs gs1"
    and c1: "c1 = c + card D"
    and ident: "D \<noteq> {} \<longrightarrow> ident \<in> cf_id ` set carried \<or> (\<exists>k\<in>set (new_of g) - D. ident = fid H (gs ! k))"
    using apply_group_effect[OF newgs new(2) posted res] by blast
  have len1: "length gs1 = length fs" using drop len by (simp add: dropped_to_def)
  have core1: "\<forall>j<length fs. same_core (fs ! j) (gs1 ! j)"
    using drop len core by (auto simp: dropped_to_def intro: same_core_trans)
  have dup1: "f_duplicate_of (gs1 ! j) = (if j \<in> D then Some ident else f_duplicate_of (gs ! j))"
    if "j < length fs" for j using drop len that by (simp add: dropped_to_def)
  have fresh: "f_duplicate_of (gs ! j) = f_duplicate_of (fs ! j)" "f_duplicate_of (fs ! j) = None"
    if "j \<in> set (new_of g)" for j using old new that by (auto simp: is_publishable_def)
  have pub: "is_publishable (gs1 ! j)"
    if "j < length fs" "j \<notin> D" "f_duplicate_of (gs ! j) = None" "f_validation_status (gs ! j) = Some Accepted" for j
  proof -
    have "f_validation_status (gs1 ! j) = f_validation_status (gs ! j)"
      using core core1 that(1) same_core_status by metis
    then show ?thesis using dup1[OF that(1)] that by (simp add: is_publishable_def)
  qed
  have fid1: "fid H (gs1 ! j) = fid H (gs ! j)" if "j < length fs" for j
    using core core1 that same_core_fid by metis
  have keep_old: "kept_identity H carried todo gs1 x"
    if "kept_identity H carried (set (new_of g) \<union> todo) gs x" for x
    using that unfolding kept_identity_def
  proof (elim disjE exE conjE)
    fix k assume k: "k < length gs" "k \<notin> set (new_of g) \<union> todo" "is_publishable (gs ! k)" "fid H (gs ! k) = x"
    then have "is_publishable (gs1 ! k)" using pub[of k] D len by (auto simp: is_publishable_def)
    then show "x \<in> cf_id ` set carried \<or> (\<exists>k<length gs1. k \<notin> todo \<and> is_publishable (gs1 ! k) \<and> fid H (gs1 ! k) = x)"
      using k len len1 fid1[of k] by auto
  qed simp
  have keep_new: "kept_identity H carried todo gs1 ident" if "D \<noteq> {}"
  proof -
    consider "ident \<in> cf_id ` set carried" | k where "k \<in> set (new_of g) - D" "ident = fid H (gs ! k)"
      using ident \<open>D \<noteq> {}\<close> by blast
    then show ?thesis
    proof cases
      case (2 k)
      then have k: "k < length fs" "k \<notin> todo" using new disj by auto
      have "f_validation_status (gs ! k) = Some Accepted"
        using core k(1) new 2(1) same_core_status by (fastforce simp: is_publishable_def)
      then have "is_publishable (gs1 ! k)" using pub[of k] fresh[of k] 2(1) k(1) by auto
      then show ?thesis using k fid1[OF k(1)] 2(2) len1 by (auto simp: kept_identity_def)
    qed (simp add: kept_identity_def)
  qed
  have dup_rule: "is_publishable (fs ! j) \<and> j \<notin> todo
      \<and> (\<exists>x. f_duplicate_of (gs1 ! j) = Some x \<and> kept_identity H carried todo gs1 x)"
    if "j < length fs" "f_duplicate_of (gs1 ! j) \<noteq> f_duplicate_of (fs ! j)" for j
  proof (cases "j \<in> D")
    case True
    then show ?thesis using dup1[OF that(1)] keep_new new D disj by auto
  next
    case False
    then show ?thesis using dup1[OF that(1)] old that keep_old by auto
  qed
  let ?A = "{j. j < length fs \<and> f_duplicate_of (gs ! j) \<noteq> f_duplicate_of (fs ! j)}"
  have "{j. j < length fs \<and> f_duplicate_of (gs1 ! j) \<noteq> f_duplicate_of (fs ! j)} = ?A \<union> D"
    using dup1 fresh D new by (auto split: if_splits)
  moreover have "?A \<inter> D = {}" using fresh D by auto
  moreover have "finite D" using D finite_subset by blast
  ultimately have "c1 = card {j. j < length fs \<and> f_duplicate_of (gs1 ! j) \<noteq> f_duplicate_of (fs ! j)}"
    using c c1 by (simp add: card_Un_disjoint)
  then show ?thesis using len1 core1 dup_rule by (auto simp: dedup_inv_def)
qed

lemma dedup_inv_fold:
  assumes "dedup_inv H carried fs (set (concat (map new_of checked))) gs c"
    and "distinct (concat (map new_of checked))"
    and "\<forall>i\<in>set (concat (map new_of checked)). i < length fs \<and> is_publishable (fs ! i)"
    and "\<forall>g\<in>set checked. \<forall>j\<in>set (posted_of g). j < length carried"
  shows "dedup_inv H carried fs {} (fst (fold (apply_group H carried) checked (gs, c)))
           (snd (fold (apply_group H carried) checked (gs, c)))"
  using assms
proof (induction checked arbitrary: gs c)
  case (Cons g checked)
  obtain gs1 c1 where step: "apply_group H carried g (gs, c) = (gs1, c1)" by fastforce
  have "dedup_inv H carried fs (set (concat (map new_of checked))) gs1 c1"
    by (rule dedup_inv_step[OF _ _ _ _ _ step]) (use Cons.prems in auto)
  then show ?case using Cons step by simp
qed simp

text \<open>What a run of deduplication guarantees of its result.\<close>

definition removal_only ::
  "(string \<Rightarrow> string) \<Rightarrow> carried_finding list \<Rightarrow> finding list \<Rightarrow> finding list \<times> (dedup_error + nat) \<Rightarrow> bool"
where
  "removal_only H carried fs res =
     (case snd res of
        Inl e \<Rightarrow> fst res = fs
      | Inr n \<Rightarrow> dedup_inv H carried fs {} (fst res) n)"

lemma apply_dedup_removal: "removal_only H carried fs (apply_dedup H fs carried args)"
proof -
  consider (err) e where "apply_dedup H fs carried args = (fs, Inl e)"
    | (ok) gs checked where "check_groups (refs fs carried) [] gs = Inr checked"
        "apply_dedup H fs carried args =
           (fst (fold (apply_group H carried) checked (fs, 0)),
            Inr (snd (fold (apply_group H carried) checked (fs, 0))))"
  proof (cases "read_groups args")
    case None
    then show thesis using err by (simp add: apply_dedup_def)
  next
    case (Some groups)
    show thesis
    proof (cases "check_groups (refs fs carried) [] groups")
      case (Inl e)
      then show thesis using err Some by (simp add: apply_dedup_def)
    next
      case (Inr checked)
      then show thesis using ok[OF Inr] Some by (simp add: apply_dedup_def split_beta Let_def)
    qed
  qed
  then show ?thesis
  proof cases
    case ok
    note C = check_groups_ok[OF ok(1)]
    have "dedup_inv H carried fs (set (concat (map new_of checked))) fs 0"
      by (simp add: dedup_inv_def)
    then have "dedup_inv H carried fs {} (fst (fold (apply_group H carried) checked (fs, 0)))
        (snd (fold (apply_group H carried) checked (fs, 0)))"
      by (rule dedup_inv_fold) (use C in auto)
    then show ?thesis unfolding removal_only_def ok(2) by simp
  qed (simp add: removal_only_def)
qed

text \<open>C27: deduplication is atomic and removal-only: on an error no finding changes; otherwise the
  count is the number of findings newly marked as duplicates, each of them was publishable and now
  refers to a carried finding or to a finding that is still publishable, and apart from that mark
  only the evidence of findings grows.\<close>

theorem dedup_removal_only: "removal_only H carried fs (apply_dedup H fs carried args)"
  by (rule apply_dedup_removal)

end
