(* ===== verification/Provider.thy ===== *)
theory Provider
  imports Json Interfaces Text_Util
begin

text \<open>
  \<open>src/src/provider/mod.rs\<close>: messages, errors and the run ledger shared by all clients of a run.
  The mutex around the ledger makes each operation one atomic step; the request budget is the
  \<open>budget\<close> interface, whose steps are the operations of all tasks in any interleaving.  The effort
  levels are those of \<open>src/src/config.rs\<close>.
\<close>

section \<open>Messages\<close>

datatype role = System | User | Assistant | Tool

record tool_call =
  tc_id :: string
  tc_name :: string
  tc_arguments :: json

record chat_message =
  cm_role :: role
  cm_content :: "string option"
  cm_tool_calls :: "tool_call list"
  cm_tool_call_id :: "string option"
  cm_name :: "string option"
  cm_provider_state :: "json option"

definition system_message :: "string \<Rightarrow> chat_message" where
  "system_message s =
     \<lparr>cm_role = System, cm_content = Some s, cm_tool_calls = [], cm_tool_call_id = None, cm_name = None,
      cm_provider_state = None\<rparr>"

definition user_message :: "string \<Rightarrow> chat_message" where
  "user_message s =
     \<lparr>cm_role = User, cm_content = Some s, cm_tool_calls = [], cm_tool_call_id = None, cm_name = None,
      cm_provider_state = None\<rparr>"

definition tool_message :: "string \<Rightarrow> string \<Rightarrow> string \<Rightarrow> chat_message" where
  "tool_message i name content =
     \<lparr>cm_role = Tool, cm_content = Some content, cm_tool_calls = [], cm_tool_call_id = Some i,
      cm_name = Some name, cm_provider_state = None\<rparr>"

record tool_spec =
  ts_name :: string
  ts_description :: string
  ts_parameters :: json

record usage =
  us_prompt_tokens :: nat
  us_completion_tokens :: nat
  us_cached_prompt_tokens :: nat
  us_cache_write_tokens :: nat
  us_reasoning_tokens :: nat

record completion =
  co_message :: chat_message
  co_usage :: usage
  co_model :: string
  co_latency_ms :: nat

datatype reasoning_effort = ENone | EMinimal | ELow | EMedium | EHigh | EXhigh | EMax

fun effort_rank :: "reasoning_effort \<Rightarrow> nat" where
  "effort_rank ENone = 0"
| "effort_rank EMinimal = 1"
| "effort_rank ELow = 2"
| "effort_rank EMedium = 3"
| "effort_rank EHigh = 4"
| "effort_rank EXhigh = 5"
| "effort_rank EMax = 6"

lemma effort_rank_inj: "effort_rank a = effort_rank b \<longleftrightarrow> a = b"
  by (cases a; cases b) auto

instantiation reasoning_effort :: linorder
begin

definition less_eq_reasoning_effort :: "reasoning_effort \<Rightarrow> reasoning_effort \<Rightarrow> bool" where
  "a \<le> b = (effort_rank a \<le> effort_rank b)"

definition less_reasoning_effort :: "reasoning_effort \<Rightarrow> reasoning_effort \<Rightarrow> bool" where
  "a < b = (effort_rank a < effort_rank b)"

instance
  by standard (auto simp: less_eq_reasoning_effort_def less_reasoning_effort_def effort_rank_inj)

end

fun effort_budget :: "reasoning_effort \<Rightarrow> nat" where
  "effort_budget ENone = 0"
| "effort_budget EMinimal = 1024"
| "effort_budget ELow = 2048"
| "effort_budget EMedium = 8192"
| "effort_budget EHigh = 16384"
| "effort_budget EXhigh = 32768"
| "effort_budget EMax = 65536"

section \<open>Errors\<close>

datatype fallback_reason =
    RateLimitOrServer
  | Authentication
  | NotFound
  | Timeout
  | Transport
  | MalformedResponse
  | MissingKeyReason

datatype provider_error =
    Http string
  | RetryExhausted string
  | BudgetExhausted
  | ScriptExpectationFailed string
  | Other string
  | MissingKey string
  | Failure fallback_reason string

fun error_fallback_reason :: "provider_error \<Rightarrow> fallback_reason option" where
  "error_fallback_reason (RetryExhausted _) = Some RateLimitOrServer"
| "error_fallback_reason (MissingKey _) = Some MissingKeyReason"
| "error_fallback_reason (Failure reason _) = Some reason"
| "error_fallback_reason _ = None"

fun reason_str :: "fallback_reason \<Rightarrow> string" where
  "reason_str RateLimitOrServer = ''rate_limit_or_server''"
| "reason_str Authentication = ''authentication''"
| "reason_str NotFound = ''not_found''"
| "reason_str Timeout = ''timeout''"
| "reason_str Transport = ''transport''"
| "reason_str MalformedResponse = ''malformed_response''"
| "reason_str MissingKeyReason = ''missing_key''"

fun error_str :: "provider_error \<Rightarrow> string" where
  "error_str (Http s) = ''model request failed: '' @ s"
| "error_str (RetryExhausted s) = ''rate limited / server error after retries: '' @ s"
| "error_str BudgetExhausted = ''request budget exhausted (run_max_requests)''"
| "error_str (ScriptExpectationFailed s) = ''scripted expectation failed: '' @ s"
| "error_str (Other s) = ''provider error: '' @ s"
| "error_str (MissingKey s) = ''api_key_env '' @ s @ '' is not set (or empty)''"
| "error_str (Failure reason message) = ''model request failed ('' @ reason_str reason @ ''): '' @ message"

section \<open>The ledger\<close>

record fallback_event =
  fe_role :: string
  fe_from_model :: string
  fe_to_model :: string
  fe_reason :: fallback_reason

record unavailable_route =
  ur_role :: string
  ur_model :: string
  ur_reason :: fallback_reason

record ledger_entry =
  le_role :: string
  le_route :: string
  le_model :: string
  le_requested_reasoning :: string
  le_effective_reasoning :: string
  le_prompt_tokens :: nat
  le_completion_tokens :: nat
  le_cached_prompt_tokens :: nat
  le_cache_write_tokens :: nat
  le_latency_ms :: nat
  le_retries :: u32
  le_error :: "string option"
  le_reasoning_tokens :: nat

record run_ledger =
  lg_entries :: "ledger_entry list"
  lg_reserved :: u32
  lg_fallback_events :: "fallback_event list"
  lg_unavailable_routes :: "unavailable_route list"
  lg_fallback_positions :: "string \<Rightarrow> nat option"

definition new_ledger :: run_ledger where
  "new_ledger =
     \<lparr>lg_entries = [], lg_reserved = 0, lg_fallback_events = [], lg_unavailable_routes = [],
      lg_fallback_positions = (\<lambda>_. None)\<rparr>"

definition record_entry :: "ledger_entry \<Rightarrow> run_ledger \<Rightarrow> run_ledger" where
  "record_entry e g =
     g\<lparr>lg_reserved := u32_sat_sub (lg_reserved g) 1, lg_entries := lg_entries g @ [e]\<rparr>"

definition request_count :: "run_ledger \<Rightarrow> u32" where
  "request_count g = of_nat (length (lg_entries g))"

definition try_reserve :: "u32 \<Rightarrow> run_ledger \<Rightarrow> bool \<times> run_ledger" where
  "try_reserve max_requests g =
     (let used = of_nat (length (lg_entries g)) + lg_reserved g in
      if max_requests \<le> used then (False, g)
      else (True, g\<lparr>lg_reserved := lg_reserved g + 1\<rparr>))"

definition release :: "run_ledger \<Rightarrow> run_ledger" where
  "release g = g\<lparr>lg_reserved := u32_sat_sub (lg_reserved g) 1\<rparr>"

definition totals :: "run_ledger \<Rightarrow> nat \<times> nat \<times> nat \<times> nat" where
  "totals g =
     (length (lg_entries g), sum_list (map le_prompt_tokens (lg_entries g)),
      sum_list (map le_completion_tokens (lg_entries g)), sum_list (map le_reasoning_tokens (lg_entries g)))"

section \<open>The request budget\<close>

definition ledger_spent :: "run_ledger \<Rightarrow> nat" where "ledger_spent g = length (lg_entries g)"
definition ledger_held :: "run_ledger \<Rightarrow> nat" where "ledger_held g = unat (lg_reserved g)"

definition reserve_opt :: "u32 \<Rightarrow> run_ledger \<Rightarrow> run_ledger option" where
  "reserve_opt m g = (case try_reserve m g of (ok, g') \<Rightarrow> if ok then Some g' else None)"

lemma used_no_wrap:
  assumes "ledger_spent g + ledger_held g \<le> unat (m :: u32)"
  shows "unat (of_nat (length (lg_entries g)) + lg_reserved g) = ledger_spent g + ledger_held g"
proof -
  have "ledger_spent g + ledger_held g < 2 ^ 32" using assms unat_u32_less[of m] by linarith
  then show ?thesis by (simp add: ledger_spent_def ledger_held_def unat_word_ariths unat_of_nat)
qed

lemma unat_dec: "0 < unat (r :: u32) \<Longrightarrow> unat (u32_sat_sub r 1) = unat r - 1"
  by (simp add: unat_u32_sat_sub)

lemma reserve_opt_Some:
  assumes "ledger_spent g + ledger_held g \<le> unat m" and "reserve_opt m g = Some g'"
  shows "ledger_spent g + ledger_held g < unat m \<and> ledger_spent g' = ledger_spent g
       \<and> ledger_held g' = Suc (ledger_held g)"
proof -
  have lt: "\<not> m \<le> of_nat (length (lg_entries g)) + lg_reserved g"
    and g': "g' = g\<lparr>lg_reserved := lg_reserved g + 1\<rparr>"
    using assms(2) by (auto simp: reserve_opt_def try_reserve_def Let_def split: if_splits)
  then have less: "ledger_spent g + ledger_held g < unat m"
    using used_no_wrap[OF assms(1)] by (simp add: word_le_nat_alt not_le)
  then have "unat (lg_reserved g + 1) = Suc (unat (lg_reserved g))"
    using unat_u32_less[of m] by (simp add: ledger_held_def unat_word_ariths)
  with less g' show ?thesis by (simp add: ledger_spent_def ledger_held_def)
qed

lemma reserve_opt_None:
  assumes "ledger_spent g + ledger_held g \<le> unat m" and "reserve_opt m g = None"
  shows "unat m \<le> ledger_spent g + ledger_held g"
  using assms used_no_wrap[OF assms(1)]
  by (auto simp: reserve_opt_def try_reserve_def Let_def word_le_nat_alt split: if_splits)

interpretation ledger: budget ledger_spent ledger_held "unat m" "reserve_opt m" record_entry release
  for m :: u32
proof
  fix s :: run_ledger and e :: ledger_entry
  assume "0 < ledger_held s"
  then show "ledger_spent (record_entry e s) = Suc (ledger_spent s) \<and> ledger_held (record_entry e s) = ledger_held s - 1"
    "ledger_spent (release s) = ledger_spent s \<and> ledger_held (release s) = ledger_held s - 1"
    by (simp_all add: ledger_spent_def ledger_held_def record_entry_def release_def unat_dec)
qed (use reserve_opt_Some reserve_opt_None in blast)+



end
