(* ===== verification/Fallback.thy ===== *)
theory Fallback
  imports Provider
begin

text \<open>
  \<open>src/src/provider/fallback.rs\<close>: a role's ordered list of model routes with a sticky position.  A
  route's client is a function that may change the ledger (its own requests, and whatever other
  tasks do to the ledger while it waits).  The shared atomic position of a route list is its entry
  in the ledger's map.  \<open>red\<close> is \<open>redact::text\<close>.
\<close>

section \<open>Data\<close>

record model_client =
  mc_route_label :: string
  mc_complete :: "chat_message list \<Rightarrow> tool_spec list \<Rightarrow> reasoning_effort option \<Rightarrow> run_ledger
                    \<Rightarrow> (provider_error + completion) \<times> run_ledger"

record fallback_client =
  fc_routes :: "(string \<times> model_client option) list"
  fc_role :: string
  fc_max_requests :: u32
  fc_key :: string

section \<open>Operations\<close>

definition note_unavailable ::
  "(string \<Rightarrow> string) \<Rightarrow> string \<Rightarrow> string \<times> model_client option \<Rightarrow> run_ledger \<Rightarrow> run_ledger"
where
  "note_unavailable red role route g =
     (if snd route = None
         \<and> \<not> list_ex (\<lambda>r. ur_role r = role \<and> ur_model r = fst route) (lg_unavailable_routes g)
      then g\<lparr>lg_unavailable_routes := lg_unavailable_routes g @
               [\<lparr>ur_role = red role, ur_model = red (fst route), ur_reason = MissingKeyReason\<rparr>]\<rparr>
      else g)"

definition route_key :: "string \<Rightarrow> (string \<times> model_client option) list \<Rightarrow> string" where
  "route_key role routes =
     role @ concat (map (\<lambda>(model, client).
       [CHR 0x00] @ model @ [CHR 0x00] @ (case client of None \<Rightarrow> [] | Some c \<Rightarrow> mc_route_label c)) routes)"

definition position_of :: "fallback_client \<Rightarrow> run_ledger \<Rightarrow> nat" where
  "position_of fc g = (case lg_fallback_positions g (fc_key fc) of None \<Rightarrow> 0 | Some p \<Rightarrow> p)"

definition new_client ::
  "(string \<Rightarrow> string) \<Rightarrow> (string \<times> model_client option) list \<Rightarrow> string \<Rightarrow> u32 \<Rightarrow> run_ledger
   \<Rightarrow> fallback_client \<times> run_ledger"
where
  "new_client red routes role max_requests g0 =
     (let g1 = fold (note_unavailable red role) routes g0;
          key = route_key role routes;
          g2 = (if lg_fallback_positions g1 key = None
                then g1\<lparr>lg_fallback_positions := (lg_fallback_positions g1)(key \<mapsto> 0)\<rparr> else g1)
      in (\<lparr>fc_routes = routes, fc_role = role, fc_max_requests = max_requests, fc_key = key\<rparr>, g2))"

definition has_budget :: "fallback_client \<Rightarrow> run_ledger \<Rightarrow> bool" where
  "has_budget fc g = (of_nat (length (lg_entries g)) + lg_reserved g < fc_max_requests fc)"

definition route_label :: "fallback_client \<Rightarrow> run_ledger \<Rightarrow> string option" where
  "route_label fc g =
     (let p = position_of fc g in
      if p < length (fc_routes fc)
      then Some (case snd (fc_routes fc ! p) of Some c \<Rightarrow> mc_route_label c | None \<Rightarrow> ''unavailable'')
      else None)"

text \<open>The opaque state of another route is not replayed.\<close>

definition own_state :: "nat \<Rightarrow> json \<Rightarrow> json option" where
  "own_state index state =
     (if as_u64 (jidx state ''revera_route'') = Some index then Some (jidx state ''state'') else None)"

definition replay_message :: "nat \<Rightarrow> chat_message \<Rightarrow> chat_message" where
  "replay_message index m = m\<lparr>cm_provider_state := Option.bind (cm_provider_state m) (own_state index)\<rparr>"

definition tag_state :: "nat \<Rightarrow> json \<Rightarrow> json" where
  "tag_state index state = JObj [(''revera_route'', JNat index), (''state'', state)]"

definition tag_completion :: "nat \<Rightarrow> completion \<Rightarrow> completion" where
  "tag_completion index c =
     c\<lparr>co_message := (co_message c)\<lparr>cm_provider_state :=
         map_option (tag_state index) (cm_provider_state (co_message c))\<rparr>\<rparr>"

definition push_event ::
  "(string \<Rightarrow> string) \<Rightarrow> fallback_client \<Rightarrow> string \<Rightarrow> (string \<times> fallback_reason) option
   \<Rightarrow> provider_error + completion \<Rightarrow> run_ledger \<Rightarrow> run_ledger"
where
  "push_event red fc model failed result g =
     (case failed of
        None \<Rightarrow> g
      | Some (from_model, reason) \<Rightarrow>
          if result = Inl BudgetExhausted then g
          else g\<lparr>lg_fallback_events := lg_fallback_events g @
                   [\<lparr>fe_role = red (fc_role fc), fe_from_model = red from_model,
                     fe_to_model = red model, fe_reason = reason\<rparr>]\<rparr>)"

definition bump_position :: "fallback_client \<Rightarrow> nat \<Rightarrow> run_ledger \<Rightarrow> run_ledger" where
  "bump_position fc index g =
     g\<lparr>lg_fallback_positions := (lg_fallback_positions g)(fc_key fc \<mapsto> max (position_of fc g) index)\<rparr>"

text \<open>The loop over the routes from the sticky position on.\<close>

fun try_routes ::
  "(string \<Rightarrow> string) \<Rightarrow> fallback_client \<Rightarrow> chat_message list \<Rightarrow> tool_spec list \<Rightarrow> reasoning_effort option
   \<Rightarrow> (nat \<times> string \<times> model_client option) list \<Rightarrow> (string \<times> fallback_reason) option
   \<Rightarrow> provider_error \<Rightarrow> run_ledger \<Rightarrow> (provider_error + completion) \<times> run_ledger"
where
  "try_routes red fc messages tools cap [] failed last_error g = (Inl last_error, g)"
| "try_routes red fc messages tools cap ((index, model, None) # rest) failed last_error g =
     try_routes red fc messages tools cap rest
       (if failed = None then Some (model, MissingKeyReason) else failed) last_error g"
| "try_routes red fc messages tools cap ((index, model, Some client) # rest) failed last_error g =
     (if \<not> has_budget fc g then (Inl BudgetExhausted, g)
      else
        (case mc_complete client (map (replay_message index) messages) tools cap g of
           (result, g1) \<Rightarrow>
             (let g2 = push_event red fc model failed result g1 in
              case result of
                Inr c \<Rightarrow> (Inr (tag_completion index c), bump_position fc index g2)
              | Inl error \<Rightarrow>
                  (case error_fallback_reason error of
                     None \<Rightarrow> (Inl error, g2)
                   | Some reason \<Rightarrow>
                       try_routes red fc messages tools cap rest (Some (model, reason)) error g2))))"

definition complete_routes ::
  "(string \<Rightarrow> string) \<Rightarrow> fallback_client \<Rightarrow> chat_message list \<Rightarrow> tool_spec list \<Rightarrow> reasoning_effort option
   \<Rightarrow> run_ledger \<Rightarrow> (provider_error + completion) \<times> run_ledger"
where
  "complete_routes red fc messages tools cap g =
     try_routes red fc messages tools cap (drop (position_of fc g) (enum (fc_routes fc))) None
       (MissingKey ''no available route'') g"

section \<open>Provider state stays with its route\<close>

text \<open>The opaque state a route attached to its answer is replayed unchanged to that route and
  never to another one.\<close>

theorem provider_state_stays_with_route:
  "cm_provider_state (replay_message j (co_message (tag_completion i c)))
     = (if i = j then cm_provider_state (co_message c) else None)"
  by (cases "cm_provider_state (co_message c)")
    (auto simp: replay_message_def tag_completion_def own_state_def tag_state_def json_defs)

section \<open>The position is sticky\<close>

text \<open>Clients, and the tasks that run while they wait, never move a position back.\<close>

definition forward :: "run_ledger \<Rightarrow> run_ledger \<Rightarrow> bool" where
  "forward g h = (\<forall>k p. lg_fallback_positions g k = Some p \<longrightarrow> (\<exists>q\<ge>p. lg_fallback_positions h k = Some q))"

definition clients_forward :: "fallback_client \<Rightarrow> bool" where
  "clients_forward fc =
     (\<forall>m c. (m, Some c) \<in> set (fc_routes fc) \<longrightarrow>
        (\<forall>ms ts cap g. forward g (snd (mc_complete c ms ts cap g))))"

lemma forward_refl [simp]: "forward g g"
  by (auto simp: forward_def)

lemma forward_trans: "forward g h \<Longrightarrow> forward h k \<Longrightarrow> forward g k"
  unfolding forward_def by (meson order_trans)

lemma forward_push_event: "forward g (push_event red fc m failed r g)"
  by (auto simp: forward_def push_event_def split: option.splits)

lemma forward_bump: "forward g (bump_position fc i g)"
  by (auto simp: forward_def bump_position_def position_of_def split: option.splits)

lemma position_bump: "i \<le> position_of fc (bump_position fc i g)"
  by (simp add: bump_position_def position_of_def)

lemma forward_position: "forward g h \<Longrightarrow> position_of fc g \<le> position_of fc h"
proof (cases "lg_fallback_positions g (fc_key fc)")
  case (Some p)
  assume "forward g h"
  with Some obtain q where "p \<le> q" "lg_fallback_positions h (fc_key fc) = Some q"
    unfolding forward_def by blast
  with Some show ?thesis by (simp add: position_of_def)
qed (simp add: position_of_def)

text \<open>What the loop returns: an answer of some route of the list, with the position at least there, or
  an error.\<close>

lemma try_routes_result:
  assumes "\<forall>(i, m, co)\<in>set rs. \<forall>c. co = Some c \<longrightarrow> (\<forall>ms ts cap g. forward g (snd (mc_complete c ms ts cap g)))"
    and "try_routes red fc messages tools cap rs failed last_err g = (result, h)"
  shows "forward g h \<and> (\<forall>c. result = Inr c \<longrightarrow> (\<exists>i m cl. (i, m, Some cl) \<in> set rs \<and> i \<le> position_of fc h))"
  using assms
proof (induction rs arbitrary: failed last_err g)
  case (Cons r rs)
  obtain i m co where r: "r = (i, m, co)" by (cases r) auto
  show ?case
  proof (cases co)
    case None
    have "forward g h \<and> (\<forall>c. result = Inr c \<longrightarrow> (\<exists>i m cl. (i, m, Some cl) \<in> set rs \<and> i \<le> position_of fc h))"
      by (rule Cons.IH[OF _ Cons.prems(2)[unfolded r None try_routes.simps]]) (use Cons.prems(1) in simp)
    then show ?thesis by auto
  next
    case (Some cl)
    obtain res g1 where call: "mc_complete cl (map (replay_message i) messages) tools cap g = (res, g1)"
      by fastforce
    have "\<forall>ms ts cap g. forward g (snd (mc_complete cl ms ts cap g))" using Cons.prems(1) r Some by simp
    then have "forward g g1" using call by (metis snd_conv)
    then have g2: "forward g (push_event red fc m failed res g1)"
      using forward_push_event forward_trans by blast
    show ?thesis
    proof (cases "has_budget fc g")
      case False
      then show ?thesis using Cons.prems(2) r Some by auto
    next
      case budget: True
      show ?thesis
      proof (cases res)
        case (Inr c)
        then have "h = bump_position fc i (push_event red fc m failed res g1)"
          using Cons.prems(2) r Some call budget by (auto simp: Let_def)
        then have "forward g h" "i \<le> position_of fc h"
          using forward_trans[OF g2 forward_bump] position_bump by simp_all
        then show ?thesis using r Some by auto
      next
        case (Inl e)
        show ?thesis
        proof (cases "error_fallback_reason e")
          case None
          then show ?thesis using Cons.prems(2) r Some call budget Inl g2 by (auto simp: Let_def)
        next
          case reason: (Some why)
          then have rec: "try_routes red fc messages tools cap rs (Some (m, why)) e (push_event red fc m failed res g1) = (result, h)"
            using Cons.prems(2) r Some call budget Inl by (simp add: Let_def)
          have "\<forall>(i, m, co)\<in>set rs. \<forall>c. co = Some c \<longrightarrow> (\<forall>ms ts cap g. forward g (snd (mc_complete c ms ts cap g)))"
            using Cons.prems(1) by simp
          from Cons.IH[OF this rec] have "forward (push_event red fc m failed res g1) h"
            and "\<forall>c. result = Inr c \<longrightarrow> (\<exists>i m cl. (i, m, Some cl) \<in> set rs \<and> i \<le> position_of fc h)"
            by blast+
          then show ?thesis using forward_trans[OF g2] by auto
        qed
      qed
    qed
  qed
qed auto

text \<open>Completing a request never moves the sticky position back, and an answer comes from an
  available route at or after the position the call started from; the position then has reached that
  route, so routes that failed before it are not tried again.\<close>

theorem fallback_position_sticky:
  assumes "clients_forward fc" and "complete_routes red fc messages tools cap g = (result, h)"
  shows "position_of fc g \<le> position_of fc h
       \<and> (case result of
            Inl _ \<Rightarrow> True
          | Inr _ \<Rightarrow> (\<exists>i\<ge>position_of fc g. i < length (fc_routes fc) \<and> snd (fc_routes fc ! i) \<noteq> None
                \<and> i \<le> position_of fc h))"
proof -
  let ?rs = "drop (position_of fc g) (enum (fc_routes fc))"
  have mem: "position_of fc g \<le> i \<and> i < length (fc_routes fc) \<and> fc_routes fc ! i = (m, co)"
    if "(i, m, co) \<in> set ?rs" for i m co
  proof -
    obtain k where k: "k < length ?rs" "?rs ! k = (i, m, co)" using \<open>(i, m, co) \<in> set ?rs\<close> by (metis in_set_conv_nth)
    then have "enum (fc_routes fc) ! (position_of fc g + k) = (i, m, co)" by simp
    moreover have "position_of fc g + k < length (fc_routes fc)" using k(1) by simp
    ultimately show ?thesis by (auto simp: enum_def)
  qed
  have "\<forall>(i, m, co)\<in>set ?rs. \<forall>c. co = Some c \<longrightarrow> (\<forall>ms ts cap g. forward g (snd (mc_complete c ms ts cap g)))"
  proof (clarify)
    fix i m c ms ts cap g' assume "(i, m, Some c) \<in> set ?rs"
    then have "(m, Some c) \<in> set (fc_routes fc)" using mem nth_mem by metis
    then show "forward g' (snd (mc_complete c ms ts cap g'))" using assms(1) by (auto simp: clients_forward_def)
  qed
  from try_routes_result[OF this assms(2)[unfolded complete_routes_def]]
  have f: "forward g h" and ans: "\<forall>c. result = Inr c \<longrightarrow> (\<exists>i m cl. (i, m, Some cl) \<in> set ?rs \<and> i \<le> position_of fc h)"
    by blast+
  show ?thesis
  proof (cases result)
    case (Inr c)
    then obtain i m cl where "(i, m, Some cl) \<in> set ?rs" "i \<le> position_of fc h" using ans by blast
    then show ?thesis using Inr mem forward_position[OF f] by fastforce
  qed (simp add: forward_position[OF f])
qed

definition echo_client :: model_client where
  "echo_client =
     \<lparr>mc_route_label = ''echo'',
      mc_complete = (\<lambda>ms ts cap g. (Inr \<lparr>co_message = user_message ''ok'',
        co_usage = \<lparr>us_prompt_tokens = 0, us_completion_tokens = 0, us_cached_prompt_tokens = 0,
                    us_cache_write_tokens = 0, us_reasoning_tokens = 0\<rparr>,
        co_model = ''m'', co_latency_ms = 0\<rparr>, g))\<rparr>"

definition two_routes :: fallback_client where
  "two_routes =
     \<lparr>fc_routes = [(''a'', None), (''b'', Some echo_client)], fc_role = ''r'', fc_max_requests = 5,
      fc_key = ''k''\<rparr>"

theorem fallback_position_sticky_witness:
  "1 \<le> position_of two_routes
         (snd (complete_routes (\<lambda>s. s) two_routes [] [] None new_ledger))"
proof -
  have fwd: "clients_forward two_routes"
    by (auto simp: clients_forward_def two_routes_def echo_client_def)
  obtain res h where run: "complete_routes (\<lambda>s. s) two_routes [] [] None new_ledger = (res, h)" by fastforce
  then have "\<exists>c. res = Inr c"
    by (auto simp: complete_routes_def two_routes_def echo_client_def position_of_def new_ledger_def
        enum_def has_budget_def upt_rec push_event_def bump_position_def)
  then show ?thesis using fallback_position_sticky[OF fwd run] run
    by (auto simp: two_routes_def less_Suc_eq)
qed

end
