(* ===== verification/Http_Transport.thy ===== *)
theory Http_Transport
  imports Provider
begin

text \<open>
  \<open>src/src/provider/http.rs\<close>: the attempt loop shared by the HTTP adapters.  One iteration of the
  loop of \<open>send_capped\<close> is \<open>send_step\<close>; \<open>send_loop\<close> runs it over a list of environments, one per
  attempt, each saying what the wire answered, what the clock showed and what other tasks did to the
  shared ledger and the learned adjustments before the attempt (\<open>ae_before\<close>) and while it waited
  (\<open>ae_others\<close>).  A protocol adapter
  (trait \<open>ProtocolAdapter\<close>, other files) is a record of functions, \<open>diag\<close> is \<open>redact::diagnostic\<close>.
  Headers, URL, request body and the delays between attempts have no part in the model.
\<close>

section \<open>Attempt state\<close>

record attempt_state =
  at_tokens_key :: string
  at_drop_temperature :: bool
  at_drop_reasoning :: bool
  at_drop_cache_hint :: bool
  at_reasoning_cap :: "reasoning_effort option"
  at_thinking_mode_retried :: bool

definition default_attempt :: attempt_state where
  "default_attempt =
     \<lparr>at_tokens_key = ''max_tokens'', at_drop_temperature = False, at_drop_reasoning = False,
      at_drop_cache_hint = False, at_reasoning_cap = None, at_thinking_mode_retried = False\<rparr>"

definition merge_adjustments :: "attempt_state \<Rightarrow> attempt_state \<Rightarrow> attempt_state" where
  "merge_adjustments self other =
     self\<lparr>at_tokens_key := (if at_tokens_key other = ''max_completion_tokens''
                            then at_tokens_key other else at_tokens_key self),
         at_drop_temperature := (at_drop_temperature self \<or> at_drop_temperature other),
         at_drop_cache_hint := (at_drop_cache_hint self \<or> at_drop_cache_hint other)\<rparr>"

definition capped_effort :: "reasoning_effort \<Rightarrow> attempt_state \<Rightarrow> reasoning_effort" where
  "capped_effort requested attempt =
     (case at_reasoning_cap attempt of
        Some cap \<Rightarrow> if cap < requested then cap else requested
      | None \<Rightarrow> requested)"

definition capped_budget :: "nat option \<Rightarrow> reasoning_effort \<Rightarrow> attempt_state \<Rightarrow> nat" where
  "capped_budget explicit requested attempt =
     (case (explicit, at_reasoning_cap attempt) of
        (Some b, Some cap) \<Rightarrow> min b (effort_budget cap)
      | (Some b, None) \<Rightarrow> b
      | (None, _) \<Rightarrow> effort_budget (capped_effort requested attempt))"

datatype parse_result =
    ParseOk chat_message usage
  | RetrySameSlot string
  | ParseErr provider_error

definition detect_400_fallback ::
  "nat \<Rightarrow> string \<Rightarrow> attempt_state \<Rightarrow> string list \<Rightarrow> reasoning_effort \<Rightarrow> parse_result option \<times> attempt_state"
where
  "detect_400_fallback status body attempt reason_keys requested_effort =
     (if status \<noteq> 400 then (None, attempt)
      else if \<not> at_drop_reasoning attempt \<and> list_ex (str_contains body) reason_keys then
        (if at_reasoning_cap attempt = None \<and> EHigh < requested_effort
         then (Some (RetrySameSlot ''400: retrying with reasoning effort high''),
               attempt\<lparr>at_reasoning_cap := Some EHigh\<rparr>)
         else (Some (RetrySameSlot ''400: retrying without reasoning''),
               attempt\<lparr>at_drop_reasoning := True\<rparr>))
      else if \<not> at_drop_temperature attempt \<and> str_contains body ''temperature''
      then (Some (RetrySameSlot ''400: retrying without temperature''),
            attempt\<lparr>at_drop_temperature := True\<rparr>)
      else (None, attempt))"

section \<open>The transport\<close>

record adapter =
  ad_label :: string
  ad_model :: string
  ad_requested_reasoning :: string
  ad_effective_reasoning :: "attempt_state \<Rightarrow> string"
  ad_build :: "chat_message list \<Rightarrow> tool_spec list \<Rightarrow> attempt_state \<Rightarrow> provider_error option \<times> attempt_state"
  ad_parse :: "nat \<Rightarrow> string \<Rightarrow> attempt_state \<Rightarrow> parse_result \<times> attempt_state"

record http_transport =
  ht_max_requests :: u32
  ht_retries :: u32
  ht_role :: string

record net_error =
  ne_timeout :: bool
  ne_connect :: bool
  ne_text :: string

datatype wire = Answered nat "net_error + string" | Unanswered net_error

record attempt_env =
  ae_wire :: wire
  ae_latency_ms :: nat
  ae_before :: "run_ledger \<times> attempt_state \<Rightarrow> run_ledger \<times> attempt_state"
  ae_others :: "run_ledger \<times> attempt_state \<Rightarrow> run_ledger \<times> attempt_state"

record send_state =
  ss_attempt :: attempt_state
  ss_pending :: attempt_state
  ss_attempts :: u32
  ss_retries_used :: u32
  ss_ledger :: run_ledger
  ss_learned :: attempt_state

definition entry ::
  "http_transport \<Rightarrow> adapter \<Rightarrow> string \<Rightarrow> usage \<Rightarrow> nat \<Rightarrow> u32 \<Rightarrow> string option \<Rightarrow> ledger_entry"
where
  "entry ht ad effective u latency retries err =
     \<lparr>le_role = ht_role ht, le_route = ad_label ad, le_model = ad_model ad,
      le_requested_reasoning = ad_requested_reasoning ad, le_effective_reasoning = effective,
      le_prompt_tokens = us_prompt_tokens u, le_completion_tokens = us_completion_tokens u,
      le_cached_prompt_tokens = us_cached_prompt_tokens u, le_cache_write_tokens = us_cache_write_tokens u,
      le_latency_ms = latency, le_retries = retries, le_error = err,
      le_reasoning_tokens = us_reasoning_tokens u\<rparr>"

definition no_usage :: usage where
  "no_usage =
     \<lparr>us_prompt_tokens = 0, us_completion_tokens = 0, us_cached_prompt_tokens = 0,
      us_cache_write_tokens = 0, us_reasoning_tokens = 0\<rparr>"

fun diagnostic_error :: "(string \<Rightarrow> string) \<Rightarrow> provider_error \<Rightarrow> provider_error" where
  "diagnostic_error diag (Http s) = Http (diag s)"
| "diagnostic_error diag (RetryExhausted s) = RetryExhausted (diag s)"
| "diagnostic_error diag BudgetExhausted = BudgetExhausted"
| "diagnostic_error diag (ScriptExpectationFailed s) = ScriptExpectationFailed (diag s)"
| "diagnostic_error diag (Other s) = Other (diag s)"
| "diagnostic_error diag (MissingKey s) = MissingKey (diag s)"
| "diagnostic_error diag (Failure reason message) = Failure reason (diag message)"

definition read_wire :: "wire \<Rightarrow> net_error + (nat \<times> string)" where
  "read_wire w =
     (case w of
        Answered status body \<Rightarrow>
          (case body of
             Inr t \<Rightarrow> Inr (status, t)
           | Inl e \<Rightarrow> if 200 \<le> status \<and> status < 300 then Inl e else Inr (status, []))
      | Unanswered e \<Rightarrow> Inl e)"

definition reject_empty :: "parse_result \<Rightarrow> parse_result" where
  "reject_empty p =
     (case p of
        ParseOk m u \<Rightarrow>
          if cm_tool_calls m = [] \<and> (case cm_content m of None \<Rightarrow> True | Some s \<Rightarrow> trim s = [])
          then ParseErr (Other ''empty provider response'') else ParseOk m u
      | _ \<Rightarrow> p)"

definition status_reason :: "nat \<Rightarrow> fallback_reason option" where
  "status_reason status =
     (if status = 401 \<or> status = 403 then Some Authentication
      else if status = 404 then Some NotFound
      else if 200 \<le> status \<and> status \<le> 299 then Some MalformedResponse
      else None)"

type_synonym step_result = "(provider_error + completion) + send_state"

text \<open>What happens with a status and a body: \<open>Inr\<close> is another round of the loop.\<close>

definition on_answer ::
  "(string \<Rightarrow> string) \<Rightarrow> http_transport \<Rightarrow> adapter \<Rightarrow> string \<Rightarrow> nat \<Rightarrow> nat \<Rightarrow> string \<Rightarrow> send_state
   \<Rightarrow> step_result \<times> send_state"
where
  "on_answer diag ht ad effective latency status body st =
     (let rec = (\<lambda>u retries err s. s\<lparr>ss_ledger := record_entry (entry ht ad effective u latency retries err) (ss_ledger s)\<rparr>)
      in
      if status = 429 \<or> 500 \<le> status then
        (if ss_attempts st \<le> ht_retries ht
         then (let st1 = (rec no_usage 0 (Some (''HTTP '' @ nat_str status @ '' (will retry)'')) st)
                     \<lparr>ss_retries_used := ss_retries_used st + 1\<rparr> in (Inr st1, st1))
         else (let err = diagnostic_error diag (RetryExhausted
                     (''HTTP '' @ nat_str status @ '': '' @ excerpt_bytes body 400))
               in (Inl (Inl err), rec no_usage (ss_retries_used st) (Some (error_str err)) st)))
      else
        (case ad_parse ad status body (ss_attempt st) of
           (p0, attempt1) \<Rightarrow>
             (let st1 = st\<lparr>ss_attempt := attempt1\<rparr> in
              case reject_empty p0 of
                ParseOk message u \<Rightarrow>
                  (Inl (Inr \<lparr>co_message = message, co_usage = u, co_model = ad_model ad, co_latency_ms = latency\<rparr>),
                   rec u (ss_retries_used st) None
                     (st1\<lparr>ss_learned := merge_adjustments (ss_learned st) (ss_pending st)\<rparr>))
              | RetrySameSlot reason \<Rightarrow>
                  (let st2 = rec no_usage 0 (Some reason)
                         (if status = 400 then st1\<lparr>ss_pending := merge_adjustments (ss_pending st) attempt1\<rparr> else st1)
                   in (Inr st2, st2))
              | ParseErr e0 \<Rightarrow>
                  (let e = diagnostic_error diag
                         (case status_reason status of Some r \<Rightarrow> Failure r (error_str e0) | None \<Rightarrow> e0)
                   in (Inl (Inl e), rec no_usage (ss_retries_used st) (Some (error_str e)) st1)))))"

definition on_net_error ::
  "(string \<Rightarrow> string) \<Rightarrow> http_transport \<Rightarrow> adapter \<Rightarrow> string \<Rightarrow> nat \<Rightarrow> net_error \<Rightarrow> send_state
   \<Rightarrow> step_result \<times> send_state"
where
  "on_net_error diag ht ad effective latency e st =
     (let reason = (if ne_timeout e then Timeout else Transport);
          transient = (ne_timeout e \<or> ne_connect e);
          message = diag (ne_text e) in
      if transient \<and> ss_attempts st \<le> ht_retries ht
      then (let st1 = st\<lparr>ss_ledger := record_entry
                  (entry ht ad effective no_usage latency 0 (Some (message @ '' (will retry)''))) (ss_ledger st),
                ss_retries_used := ss_retries_used st + 1\<rparr> in (Inr st1, st1))
      else (let err = diagnostic_error diag (Failure reason message)
            in (Inl (Inl err), st\<lparr>ss_ledger := record_entry
                  (entry ht ad effective no_usage latency (ss_retries_used st) (Some (error_str err))) (ss_ledger st)\<rparr>)))"

definition on_build_error ::
  "(string \<Rightarrow> string) \<Rightarrow> http_transport \<Rightarrow> adapter \<Rightarrow> nat \<Rightarrow> provider_error \<Rightarrow> send_state \<Rightarrow> step_result \<times> send_state"
where
  "on_build_error diag ht ad latency e0 st =
     (let g = release (ss_ledger st); e = diagnostic_error diag e0 in
      (Inl (Inl e), st\<lparr>ss_ledger := record_entry
         (entry ht ad (ad_effective_reasoning ad (ss_attempt st)) no_usage latency (ss_retries_used st)
            (Some (error_str e))) g\<rparr>))"

definition send_step ::
  "(string \<Rightarrow> string) \<Rightarrow> http_transport \<Rightarrow> adapter \<Rightarrow> chat_message list \<Rightarrow> tool_spec list \<Rightarrow> attempt_env
   \<Rightarrow> send_state \<Rightarrow> step_result \<times> send_state"
where
  "send_step diag ht ad messages tools env st =
     (let (g0, learned0) = ae_before env (ss_ledger st, ss_learned st);
          st0 = st\<lparr>ss_ledger := g0, ss_learned := learned0\<rparr> in
      case try_reserve (ht_max_requests ht) (ss_ledger st0) of
        (False, g) \<Rightarrow> (Inl (Inl BudgetExhausted), st0)
      | (True, g) \<Rightarrow>
          (let merged = merge_adjustments (ss_attempt st0) (ss_learned st0) in
           case ad_build ad messages tools merged of
             (err, attempt1) \<Rightarrow>
               (let st1 = st0\<lparr>ss_ledger := g, ss_attempts := ss_attempts st0 + 1, ss_attempt := attempt1\<rparr> in
                case err of
                  Some e \<Rightarrow> on_build_error diag ht ad (ae_latency_ms env) e st1
                | None \<Rightarrow>
                    (let effective = ad_effective_reasoning ad attempt1;
                         (g2, learned2) = ae_others env (g, ss_learned st0);
                         st2 = st1\<lparr>ss_ledger := g2, ss_learned := learned2\<rparr> in
                     case read_wire (ae_wire env) of
                       Inr (status, body) \<Rightarrow> on_answer diag ht ad effective (ae_latency_ms env) status body st2
                     | Inl e \<Rightarrow> on_net_error diag ht ad effective (ae_latency_ms env) e st2))))"

fun send_loop ::
  "(string \<Rightarrow> string) \<Rightarrow> http_transport \<Rightarrow> adapter \<Rightarrow> chat_message list \<Rightarrow> tool_spec list \<Rightarrow> attempt_env list
   \<Rightarrow> send_state \<Rightarrow> (provider_error + completion) option \<times> send_state"
where
  "send_loop diag ht ad messages tools [] st = (None, st)"
| "send_loop diag ht ad messages tools (env # envs) st =
     (case send_step diag ht ad messages tools env st of
        (Inl res, st1) \<Rightarrow> (Some res, st1)
      | (Inr _, st1) \<Rightarrow> send_loop diag ht ad messages tools envs st1)"

definition send_start :: "reasoning_effort option \<Rightarrow> run_ledger \<Rightarrow> attempt_state \<Rightarrow> send_state" where
  "send_start cap g learned =
     \<lparr>ss_attempt = default_attempt\<lparr>at_reasoning_cap := cap\<rparr>, ss_pending = default_attempt,
      ss_attempts = 0, ss_retries_used = 0, ss_ledger = g, ss_learned = learned\<rparr>"

definition send_capped ::
  "(string \<Rightarrow> string) \<Rightarrow> http_transport \<Rightarrow> adapter \<Rightarrow> chat_message list \<Rightarrow> tool_spec list
   \<Rightarrow> reasoning_effort option \<Rightarrow> attempt_env list \<Rightarrow> run_ledger \<Rightarrow> attempt_state
   \<Rightarrow> (provider_error + completion) option \<times> send_state"
where
  "send_capped diag ht ad messages tools cap envs g learned =
     send_loop diag ht ad messages tools envs (send_start cap g learned)"

section \<open>Adjustments shrink\<close>

lemma effort_budget_mono: "a \<le> b \<Longrightarrow> effort_budget a \<le> effort_budget b"
  by (cases a; cases b) (simp_all add: less_eq_reasoning_effort_def)

lemma capped_effort_le: "capped_effort requested attempt \<le> requested"
  by (auto simp: capped_effort_def split: option.splits)

lemma capped_effort_cap: "at_reasoning_cap attempt = Some cap \<Longrightarrow> capped_effort requested attempt \<le> cap"
  by (auto simp: capped_effort_def)

lemma capped_budget_le:
  "capped_budget explicit requested attempt \<le> (case explicit of Some b \<Rightarrow> b | None \<Rightarrow> effort_budget requested)"
  by (auto simp: capped_budget_def intro: effort_budget_mono capped_effort_le split: option.splits)

lemma capped_budget_cap:
  "at_reasoning_cap attempt = Some cap \<Longrightarrow> capped_budget explicit requested attempt \<le> effort_budget cap"
  by (auto simp: capped_budget_def intro: effort_budget_mono capped_effort_cap split: option.splits)

definition adjustments_left :: "attempt_state \<Rightarrow> nat" where
  "adjustments_left a =
     (if at_reasoning_cap a = None then 1 else 0) + (if at_drop_reasoning a then 0 else 1)
       + (if at_drop_temperature a then 0 else 1)"

lemma detect_400_progress:
  "detect_400_fallback status body a keys effort = (Some p, a') \<Longrightarrow> adjustments_left a' < adjustments_left a"
  by (auto simp: detect_400_fallback_def adjustments_left_def split: if_splits)

section \<open>The loop returns, within the budget\<close>

definition within_budget :: "u32 \<Rightarrow> run_ledger \<Rightarrow> bool" where
  "within_budget m g = (ledger_spent g + ledger_held g \<le> unat m)"

text \<open>Other tasks work on their own reservations: they add entries, stay within the budget and leave
  the reservation of this request alone.\<close>

definition polite :: "u32 \<Rightarrow> (run_ledger \<times> attempt_state \<Rightarrow> run_ledger \<times> attempt_state) \<Rightarrow> bool" where
  "polite m f =
     (\<forall>g l. ledger_spent g \<le> ledger_spent (fst (f (g, l)))
        \<and> (within_budget m g \<longrightarrow> within_budget m (fst (f (g, l))))
        \<and> (0 < ledger_held g \<longrightarrow> 0 < ledger_held (fst (f (g, l)))))"

definition polite_env :: "u32 \<Rightarrow> attempt_env \<Rightarrow> bool" where
  "polite_env m env = (polite m (ae_before env) \<and> polite m (ae_others env))"

lemma record_within:
  "within_budget m g \<Longrightarrow> 0 < ledger_held g \<Longrightarrow>
     within_budget m (record_entry e g) \<and> ledger_spent (record_entry e g) = Suc (ledger_spent g)"
  using ledger.settle_eff[of g e] by (auto simp: within_budget_def)

lemma on_answer_continue:
  "on_answer diag ht ad eff lat status body st = (Inr r, st1) \<Longrightarrow> \<exists>e. ss_ledger st1 = record_entry e (ss_ledger st)"
  by (fastforce simp: on_answer_def Let_def split: if_splits prod.splits parse_result.splits)

lemma on_net_error_continue:
  "on_net_error diag ht ad eff lat e st = (Inr r, st1) \<Longrightarrow> \<exists>e. ss_ledger st1 = record_entry e (ss_ledger st)"
  by (auto simp: on_net_error_def Let_def split: if_splits)

lemma send_step_continue:
  assumes step: "send_step diag ht ad ms ts env st = (Inr r, st1)"
    and w: "within_budget (ht_max_requests ht) (ss_ledger st)"
    and polite: "polite_env (ht_max_requests ht) env"
  shows "within_budget (ht_max_requests ht) (ss_ledger st1) \<and> ledger_spent (ss_ledger st) < ledger_spent (ss_ledger st1)"
proof -
  let ?m = "ht_max_requests ht"
  obtain g0 l0 where before: "ae_before env (ss_ledger st, ss_learned st) = (g0, l0)" by fastforce
  have b: "ledger_spent (ss_ledger st) \<le> ledger_spent g0" "within_budget ?m g0"
    using polite w before unfolding polite_env_def polite_def by (metis fst_conv)+
  obtain ok g where tr: "try_reserve ?m g0 = (ok, g)" by fastforce
  have ok: "ok" using step before tr by (cases ok) (auto simp: send_step_def Let_def)
  then have "reserve_opt ?m g0 = Some g" using tr by (simp add: reserve_opt_def)
  then have g: "ledger_spent g = ledger_spent g0" "ledger_held g = Suc (ledger_held g0)"
    "ledger_spent g0 + ledger_held g0 < unat ?m"
    using ledger.acquire_Some b(2) unfolding within_budget_def by blast+
  then have gw: "within_budget ?m g" by (simp add: within_budget_def)
  obtain err a1 where build: "ad_build ad ms ts (merge_adjustments (ss_attempt st) l0) = (err, a1)" by fastforce
  obtain g2 l2 where others: "ae_others env (g, l0) = (g2, l2)" by fastforce
  have o2: "ledger_spent g \<le> ledger_spent g2" "within_budget ?m g2" "0 < ledger_held g2"
    using polite gw g(2) others unfolding polite_env_def polite_def by (metis fst_conv zero_less_Suc)+
  have "\<exists>e. ss_ledger st1 = record_entry e g2"
  proof (cases err)
    case (Some e)
    then show ?thesis using step before tr ok build
      by (simp add: send_step_def Let_def on_build_error_def)
  next
    case None
    show ?thesis
    proof (cases "read_wire (ae_wire env)")
      case (Inl e)
      then show ?thesis using step before tr ok build None others
        by (auto simp: send_step_def Let_def dest!: on_net_error_continue)
    next
      case (Inr sb)
      then show ?thesis using step before tr ok build None others
        by (cases sb) (auto simp: send_step_def Let_def dest!: on_answer_continue)
    qed
  qed
  then show ?thesis using record_within[OF o2(2,3)] b g o2(1) by auto
qed

lemma send_loop_returns:
  "within_budget (ht_max_requests ht) (ss_ledger st) \<Longrightarrow> \<forall>env\<in>set envs. polite_env (ht_max_requests ht) env \<Longrightarrow>
   unat (ht_max_requests ht) - ledger_spent (ss_ledger st) < length envs \<Longrightarrow>
   fst (send_loop diag ht ad ms ts envs st) \<noteq> None"
proof (induction envs arbitrary: st)
  case (Cons env envs)
  obtain res st1 where step: "send_step diag ht ad ms ts env st = (res, st1)" by fastforce
  show ?case
  proof (cases res)
    case (Inr r)
    have p: "polite_env (ht_max_requests ht) env" using Cons.prems(2) by simp
    note c = send_step_continue[OF step[unfolded Inr] Cons.prems(1) p]
    have "ledger_spent (ss_ledger st1) \<le> unat (ht_max_requests ht)"
      using c by (simp add: within_budget_def)
    then have "unat (ht_max_requests ht) - ledger_spent (ss_ledger st1) < length envs"
      using c Cons.prems(3) by auto
    then show ?thesis using Cons.IH[of st1] Cons.prems(2) c step Inr by simp
  qed (simp add: step)
qed simp

text \<open>C26: whatever the adapter, the provider and the other tasks do, a request returns after at most
  as many attempts as the run's budget has requests left, plus the refused one.\<close>

theorem send_returns:
  assumes "within_budget (ht_max_requests ht) g"
    and "list_all (polite_env (ht_max_requests ht)) envs"
    and "unat (ht_max_requests ht) - ledger_spent g < length envs"
  shows "\<exists>result. fst (send_capped diag ht ad ms ts cap envs g learned) = Some result"
  using send_loop_returns[of ht "send_start cap g learned" envs diag ad ms ts] assms
  by (auto simp: send_capped_def send_start_def list_all_iff)

definition rate_limited :: attempt_env where
  "rate_limited = \<lparr>ae_wire = Answered 429 (Inr []), ae_latency_ms = 1, ae_before = (\<lambda>x. x), ae_others = (\<lambda>x. x)\<rparr>"

definition plain_adapter :: "provider_error option \<Rightarrow> adapter" where
  "plain_adapter err =
     \<lparr>ad_label = ''l'', ad_model = ''m'', ad_requested_reasoning = ''none'',
      ad_effective_reasoning = (\<lambda>_. ''none''), ad_build = (\<lambda>ms ts a. (err, a)),
      ad_parse = (\<lambda>s b a. (ParseErr (Other ''x''), a))\<rparr>"

definition small_transport :: http_transport where
  "small_transport = \<lparr>ht_max_requests = 2, ht_retries = 5, ht_role = ''r''\<rparr>"

theorem send_returns_witness:
  "\<exists>result. fst (send_capped (\<lambda>s. s) small_transport (plain_adapter None) [] [] None
      [rate_limited, rate_limited, rate_limited] new_ledger default_attempt) = Some result"
  by (rule send_returns)
    (simp_all add: within_budget_def ledger_spent_def ledger_held_def new_ledger_def small_transport_def
      polite_env_def polite_def rate_limited_def)

section \<open>A build error gives back two reservations\<close>


definition two_in_flight :: send_state where
  "two_in_flight = send_start None (new_ledger\<lparr>lg_reserved := 1\<rparr>) default_attempt"


end
