(* ===== verification/Agent.thy ===== *)
theory Agent
  imports Provider
begin

text \<open>
  \<open>src/src/agent.rs\<close>: the agent loop.  The locals of \<open>run_agent_checked\<close> are the record
  \<open>agent_state\<close>; one iteration of its loop is \<open>agent_step\<close>, which returns either the finished run or
  the state of the next iteration; \<open>agent_loop\<close> runs it over a list of environments, one per
  iteration.  An environment (\<open>turn_env\<close>) holds what the iteration takes from outside: the readings of
  the clock (nanoseconds since the start, one per call of \<open>elapsed\<close>), the reply of the model client
  or its timeout, the results of the tools.  \<open>check\<close> is the caller's validation of a terminal call
  (\<open>Some\<close> the message of an error), \<open>jparse\<close> and \<open>jstr\<close> are serde's parser and printer.
\<close>

section \<open>Data\<close>

datatype stop_reason = Terminal | ToolBudget | TimeBudget | NoTerminalCall | ProviderStop

record agent_run =
  ar_final_call :: "tool_call option"
  ar_transcript_len :: nat
  ar_tool_calls :: nat
  ar_stopped :: stop_reason
  ar_repaired :: bool

record agent_config =
  ag_specs :: "tool_spec list"
  ag_terminal :: tool_spec
  ag_max_tool_calls :: nat
  ag_max_seconds :: nat
  ag_check :: "json \<Rightarrow> string option"
  ag_jparse :: "string \<Rightarrow> json option"
  ag_jstr :: "json \<Rightarrow> string"

record agent_state =
  as_messages :: "chat_message list"
  as_tool_calls :: nat
  as_nudged :: bool
  as_repaired :: bool
  as_notice :: bool
  as_reminded :: bool
  as_warned :: bool
  as_budget_stop :: stop_reason
  as_soft_timed_out :: bool
  as_grace :: bool
  as_slowest :: nat

datatype reply = Replied completion | ReplyError provider_error | ReplyTimeout

record turn_env =
  te_top :: nat
  te_grace :: nat
  te_soft :: nat
  te_hard :: nat
  te_reply :: reply
  te_took :: nat
  te_repair :: nat
  te_remind :: nat
  te_soft2 :: nat
  te_hard2 :: nat
  te_late :: nat
  te_tool :: "tool_call \<Rightarrow> string"
  te_batch_timeout :: bool

definition secs_ns :: "nat \<Rightarrow> nat" where "secs_ns s = s * 1000000000"

definition REPAIR_MIN_LEFT :: nat where "REPAIR_MIN_LEFT = secs_ns 15"
definition TERMINAL_GRACE :: nat where "TERMINAL_GRACE = secs_ns 20"

section \<open>Messages and limits\<close>

definition text_as_terminal :: "(string \<Rightarrow> json option) \<Rightarrow> string \<Rightarrow> tool_spec \<Rightarrow> tool_call option" where
  "text_as_terminal jparse content terminal =
     (let t0 = trim content;
          fence = [CHR 0x60, CHR 0x60, CHR 0x60];
          opened = (case strip_prefix t0 (fence @ ''json'') of Some s \<Rightarrow> Some s | None \<Rightarrow> strip_prefix t0 fence);
          t = (case Option.bind opened (\<lambda>s. strip_suffix s fence) of Some s \<Rightarrow> trim s | None \<Rightarrow> t0)
      in case jparse t of
           None \<Rightarrow> None
         | Some v \<Rightarrow>
             (let required = (case as_array (jidx (ts_parameters terminal) ''required'') of
                                None \<Rightarrow> [] | Some a \<Rightarrow> List.map_filter as_str a);
                  has_required = (is_object v \<and> (required = [] \<or> list_ex (\<lambda>r. jget v r \<noteq> None) required))
              in if has_required
                 then Some \<lparr>tc_id = ''text-terminal'', tc_name = [], tc_arguments = v\<rparr> else None))"

definition tool_note :: "tool_spec list \<Rightarrow> string" where
  "tool_note specs =
     (let names = map ts_name specs; listing = join '', '' names in
      if names = [] then ''Tool note: no repository tools in this step.''
      else if list_ex (\<lambda>n. starts_with n ''vera_'') names
      then ''Tool note: tools in this run: '' @ listing @ ''. The Vera index is available.''
      else ''Tool note: tools in this run: '' @ listing
        @ ''. No semantic index is available: find callers and related code with lexical search, and do not claim semantic or repository-wide coverage.'')"

definition unfinished :: "tool_spec \<Rightarrow> string" where
  "unfinished terminal =
     (if jget (jidx (ts_parameters terminal) ''properties'') ''not_checked'' \<noteq> None
      then '' Include every finding you already have, and list each changed area you did not finish checking in `not_checked`.''
      else [])"

definition total_ns :: "agent_config \<Rightarrow> nat" where "total_ns cfg = secs_ns (ag_max_seconds cfg)"

definition clamp :: "nat \<Rightarrow> nat \<Rightarrow> nat \<Rightarrow> nat" where
  "clamp lo hi x = (if x < lo then lo else if hi < x then hi else x)"

definition soft_ns :: "agent_config \<Rightarrow> nat" where
  "soft_ns cfg =
     (let total = total_ns cfg; reserve = min (clamp (secs_ns 10) (secs_ns 90) (total div 5)) (total div 4)
      in total - reserve)"

definition soft_deadline :: "agent_config \<Rightarrow> nat \<Rightarrow> nat" where
  "soft_deadline cfg slowest_reply =
     (let adaptive_reserve = min (slowest_reply * 2) (total_ns cfg div 2)
      in min (soft_ns cfg) (total_ns cfg - adaptive_reserve))"

definition soft_left :: "agent_config \<Rightarrow> nat \<Rightarrow> nat \<Rightarrow> nat \<Rightarrow> nat" where
  "soft_left cfg deadline now now2 = min (max (deadline - now) (secs_ns 1)) (total_ns cfg - now2)"

definition wrap_up :: "agent_config \<Rightarrow> chat_message" where
  "wrap_up cfg = user_message (''Budget exhausted; call '' @ ts_name (ag_terminal cfg)
     @ '' now with what you have.'' @ unfinished (ag_terminal cfg))"

definition push_msg :: "chat_message \<Rightarrow> agent_state \<Rightarrow> agent_state" where
  "push_msg m st = st\<lparr>as_messages := as_messages st @ [m]\<rparr>"

definition answer_all :: "tool_call list \<Rightarrow> (tool_call \<Rightarrow> string) \<Rightarrow> agent_state \<Rightarrow> agent_state" where
  "answer_all cs res st =
     st\<lparr>as_messages := as_messages st @ map (\<lambda>c. tool_message (tc_id c) (tc_name c) (res c)) cs\<rparr>"

definition error_json :: "agent_config \<Rightarrow> string \<Rightarrow> string" where
  "error_json cfg m = ag_jstr cfg (JObj [(''error'', JStr m)])"

definition resubmit_note :: string where
  "resubmit_note = ''{\"error\":\"not executed: resubmit the terminal call\"}''"
definition time_note :: string where "time_note = ''{\"error\":\"not executed: time budget\"}''"
definition budget_note :: string where "budget_note = ''{\"error\":\"not executed: budget\"}''"

definition stop_run :: "tool_call option \<Rightarrow> stop_reason \<Rightarrow> agent_state \<Rightarrow> agent_run" where
  "stop_run final reason st =
     \<lparr>ar_final_call = final, ar_transcript_len = length (as_messages st), ar_tool_calls = as_tool_calls st,
      ar_stopped = reason, ar_repaired = as_repaired st\<rparr>"

section \<open>One iteration\<close>

definition begin_turn :: "agent_config \<Rightarrow> turn_env \<Rightarrow> agent_state \<Rightarrow> agent_state" where
  "begin_turn cfg env st =
     (let max_calls = ag_max_tool_calls cfg;
          time_up = soft_deadline cfg (as_slowest st) < te_top env;
          tools_up = max_calls \<le> as_tool_calls st in
      if (time_up \<or> tools_up) \<and> \<not> as_notice st
      then push_msg (wrap_up cfg)
             (st\<lparr>as_notice := True,
                 as_grace := (time_up \<and> total_ns cfg \<le> te_grace env \<and> \<not> as_soft_timed_out st),
                 as_budget_stop := (if time_up then TimeBudget else ToolBudget)\<rparr>)
      else if \<not> as_warned st \<and> 10 \<le> max_calls \<and> max_calls - as_tool_calls st \<le> max_calls div 5
      then push_msg (user_message (nat_str (max_calls - as_tool_calls st)
               @ '' tool calls left. Finish the checks that matter most, then call ''
               @ ts_name (ag_terminal cfg) @ ''.'' @ unfinished (ag_terminal cfg)))
             (st\<lparr>as_warned := True\<rparr>)
      else st)"

definition turn_limit :: "agent_config \<Rightarrow> turn_env \<Rightarrow> nat \<Rightarrow> agent_state \<Rightarrow> nat" where
  "turn_limit cfg env effective_soft st =
     (if as_notice st
      then (if as_grace st then TERMINAL_GRACE else total_ns cfg - te_hard env)
      else soft_left cfg effective_soft (te_soft env) (te_hard env))"

definition turn_specs :: "agent_config \<Rightarrow> agent_state \<Rightarrow> tool_spec list" where
  "turn_specs cfg st = (if as_notice st then [ag_terminal cfg] else ag_specs cfg @ [ag_terminal cfg])"

definition turn_cap :: "agent_state \<Rightarrow> reasoning_effort option" where
  "turn_cap st = (if as_notice st \<and> as_budget_stop st = TimeBudget then Some ELow else None)"

definition repair_msg :: "agent_config \<Rightarrow> turn_env \<Rightarrow> agent_state \<Rightarrow> tool_call \<Rightarrow> string option" where
  "repair_msg cfg env st c =
     (case ag_check cfg (tc_arguments c) of
        None \<Rightarrow> None
      | Some err \<Rightarrow>
          if as_repaired st \<or> total_ns cfg - te_repair env < REPAIR_MIN_LEFT then None
          else Some (err @ ''. Call `'' @ ts_name (ag_terminal cfg)
                 @ ''` again with a corrected submission; this is the last attempt.''))"

definition may_remind :: "agent_config \<Rightarrow> turn_env \<Rightarrow> agent_state \<Rightarrow> bool" where
  "may_remind cfg env st =
     (as_budget_stop st = ToolBudget \<and> \<not> as_reminded st
      \<and> REPAIR_MIN_LEFT \<le> total_ns cfg - te_remind env)"

text \<open>A reply without tool calls, after its message was pushed.\<close>

definition on_plain_reply :: "agent_config \<Rightarrow> turn_env \<Rightarrow> agent_state \<Rightarrow> agent_run + agent_state" where
  "on_plain_reply cfg env st =
     Inl (stop_run None (if as_notice st then as_budget_stop st else NoTerminalCall) st)"

definition on_text ::
  "agent_config \<Rightarrow> turn_env \<Rightarrow> string option \<Rightarrow> agent_state \<Rightarrow> agent_run + agent_state"
where
  "on_text cfg env content st =
     (let name = ts_name (ag_terminal cfg);
          finish =
            (if as_notice st \<and> may_remind cfg env st
             then Inr (push_msg (user_message (''Tool budget exhausted. Call `'' @ name
                    @ ''` now with what you have.'' @ unfinished (ag_terminal cfg)))
                    (st\<lparr>as_reminded := True\<rparr>))
             else on_plain_reply cfg env st)
      in case content of
           None \<Rightarrow> finish
         | Some txt \<Rightarrow>
             (case text_as_terminal (ag_jparse cfg) txt (ag_terminal cfg) of
                Some tc0 \<Rightarrow>
                  (let tc = tc0\<lparr>tc_name := name\<rparr> in
                   case repair_msg cfg env st tc of
                     Some m \<Rightarrow> Inr (push_msg (user_message m) (st\<lparr>as_repaired := True\<rparr>))
                   | None \<Rightarrow> Inl (stop_run (Some tc) Terminal st))
              | None \<Rightarrow>
                  if \<not> as_nudged st \<and> \<not> as_notice st
                  then Inr (push_msg (user_message (''Call `'' @ name @ ''` to finish.''))
                         (st\<lparr>as_nudged := True\<rparr>))
                  else finish))"

definition on_terminal ::
  "agent_config \<Rightarrow> turn_env \<Rightarrow> tool_call list \<Rightarrow> tool_call \<Rightarrow> agent_state \<Rightarrow> agent_run + agent_state"
where
  "on_terminal cfg env calls c st =
     (case repair_msg cfg env st c of
        None \<Rightarrow> Inl (stop_run (Some c) Terminal st)
      | Some m \<Rightarrow>
          Inr (answer_all (filter (\<lambda>x. tc_id x \<noteq> tc_id c) calls)
                 (\<lambda>_. resubmit_note)
                 (answer_all [c] (\<lambda>_. error_json cfg m) (st\<lparr>as_repaired := True\<rparr>))))"

definition on_calls_after_notice ::
  "agent_config \<Rightarrow> turn_env \<Rightarrow> tool_call list \<Rightarrow> agent_state \<Rightarrow> agent_run + agent_state"
where
  "on_calls_after_notice cfg env calls st =
     (if may_remind cfg env st
      then Inr (answer_all calls
             (\<lambda>_. error_json cfg (''not executed: tool budget exhausted; call ''
                    @ ts_name (ag_terminal cfg) @ '' now with what you have''))
             (st\<lparr>as_reminded := True\<rparr>))
      else Inl (stop_run None (as_budget_stop st) st))"

definition on_batch :: "agent_config \<Rightarrow> turn_env \<Rightarrow> tool_call list \<Rightarrow> agent_state \<Rightarrow> agent_state" where
  "on_batch cfg env calls st =
     (let remaining = ag_max_tool_calls cfg - as_tool_calls st;
          exec = take (min remaining (length calls)) calls;
          skipped = drop (min remaining (length calls)) calls;
          effective_soft = soft_deadline cfg (as_slowest st);
          tool_limit = soft_left cfg effective_soft (te_soft2 env) (te_hard2 env);
          st1 = st\<lparr>as_tool_calls := as_tool_calls st + length exec\<rparr>;
          not_run = (\<lambda>_. time_note) in
      if tool_limit = 0 \<or> effective_soft \<le> te_late env then answer_all calls not_run st1
      else if te_batch_timeout env
      then push_msg (wrap_up cfg) ((answer_all calls not_run st1)
             \<lparr>as_notice := True, as_budget_stop := TimeBudget, as_soft_timed_out := True\<rparr>)
      else answer_all skipped (\<lambda>_. budget_note)
             (answer_all exec (te_tool env) st1))"

definition on_reply :: "agent_config \<Rightarrow> turn_env \<Rightarrow> chat_message \<Rightarrow> agent_state \<Rightarrow> agent_run + agent_state" where
  "on_reply cfg env m st0 =
     (let st = push_msg m st0; calls = cm_tool_calls m in
      if calls = [] then on_text cfg env (cm_content m) st
      else (case List.find (\<lambda>c. tc_name c = ts_name (ag_terminal cfg)) calls of
              Some c \<Rightarrow> on_terminal cfg env calls c st
            | None \<Rightarrow>
                if as_notice st then on_calls_after_notice cfg env calls st
                else Inr (on_batch cfg env calls st)))"

definition agent_step :: "agent_config \<Rightarrow> turn_env \<Rightarrow> agent_state \<Rightarrow> agent_run + agent_state" where
  "agent_step cfg env st0 =
     (let effective_soft = soft_deadline cfg (as_slowest st0);
          st = begin_turn cfg env st0 in
      if turn_limit cfg env effective_soft st = 0 then Inl (stop_run None TimeBudget st)
      else (case te_reply env of
              Replied c \<Rightarrow>
                on_reply cfg env (co_message c) (st\<lparr>as_slowest := max (as_slowest st) (te_took env)\<rparr>)
            | ReplyError e \<Rightarrow> Inl (stop_run None ProviderStop st)
            | ReplyTimeout \<Rightarrow>
                if \<not> as_notice st
                then Inr (push_msg (wrap_up cfg)
                       (st\<lparr>as_notice := True, as_budget_stop := TimeBudget, as_soft_timed_out := True\<rparr>))
                else Inl (stop_run None TimeBudget st)))"

fun agent_loop :: "agent_config \<Rightarrow> turn_env list \<Rightarrow> agent_state \<Rightarrow> agent_run + agent_state" where
  "agent_loop cfg [] st = Inr st"
| "agent_loop cfg (env # envs) st =
     (case agent_step cfg env st of Inl run \<Rightarrow> Inl run | Inr st1 \<Rightarrow> agent_loop cfg envs st1)"

definition agent_start :: "agent_config \<Rightarrow> string \<Rightarrow> string \<Rightarrow> agent_state" where
  "agent_start cfg system user =
     \<lparr>as_messages = [system_message (system @ [CHR 0x0A, CHR 0x0A] @ tool_note (ag_specs cfg)), user_message user],
      as_tool_calls = 0, as_nudged = False, as_repaired = False, as_notice = False, as_reminded = False,
      as_warned = False, as_budget_stop = ToolBudget, as_soft_timed_out = False, as_grace = False,
      as_slowest = 0\<rparr>"

definition run_agent_checked ::
  "agent_config \<Rightarrow> string \<Rightarrow> string \<Rightarrow> turn_env list \<Rightarrow> agent_run + agent_state"
where
  "run_agent_checked cfg system user envs = agent_loop cfg envs (agent_start cfg system user)"

definition run_agent ::
  "agent_config \<Rightarrow> string \<Rightarrow> string \<Rightarrow> turn_env list \<Rightarrow> agent_run + agent_state"
where
  "run_agent cfg system user envs = run_agent_checked (cfg\<lparr>ag_check := (\<lambda>_. None)\<rparr>) system user envs"

end
