(* ===== verification/Agent_Props.thy ===== *)
theory Agent_Props
  imports Agent
begin

text \<open>
  The agent loop returns after a bounded number of requests, keeps the transcript valid for the
  provider's interface, never runs more tool calls than its budget, and grants a request no time
  beyond the budget except one fixed allowance.
\<close>

section \<open>Fields kept by the messages\<close>

lemma push_msg_simps [simp]:
  "as_tool_calls (push_msg m st) = as_tool_calls st" "as_nudged (push_msg m st) = as_nudged st"
  "as_repaired (push_msg m st) = as_repaired st" "as_notice (push_msg m st) = as_notice st"
  "as_reminded (push_msg m st) = as_reminded st" "as_messages (push_msg m st) = as_messages st @ [m]"
  "as_budget_stop (push_msg m st) = as_budget_stop st" "as_grace (push_msg m st) = as_grace st"
  by (simp_all add: push_msg_def)

lemma answer_all_simps [simp]:
  "as_tool_calls (answer_all cs r st) = as_tool_calls st" "as_nudged (answer_all cs r st) = as_nudged st"
  "as_repaired (answer_all cs r st) = as_repaired st" "as_notice (answer_all cs r st) = as_notice st"
  "as_reminded (answer_all cs r st) = as_reminded st"
  "as_messages (answer_all cs r st)
     = as_messages st @ map (\<lambda>c. tool_message (tc_id c) (tc_name c) (r c)) cs"
  by (simp_all add: answer_all_def)

lemma message_calls [simp]:
  "cm_tool_calls (user_message s) = []" "cm_tool_calls (tool_message i n s) = []"
  "cm_tool_calls (system_message s) = []" "cm_tool_call_id (tool_message i n s) = Some i"
  by (simp_all add: user_message_def tool_message_def system_message_def)

lemma wrap_up_calls [simp]: "cm_tool_calls (wrap_up cfg) = []"
  by (simp add: wrap_up_def)

section \<open>Progress\<close>

definition flag :: "bool \<Rightarrow> nat" where "flag b = (if b then 0 else 1)"

definition turns_left :: "agent_config \<Rightarrow> agent_state \<Rightarrow> nat" where
  "turns_left cfg st =
     (ag_max_tool_calls cfg - as_tool_calls st) + flag (as_nudged st) + flag (as_repaired st)
       + flag (as_notice st) + flag (as_reminded st)"

lemma begin_turn_turns: "turns_left cfg (begin_turn cfg env st) \<le> turns_left cfg st"
  by (auto simp: begin_turn_def Let_def turns_left_def flag_def)

lemma begin_turn_calls [simp]: "as_tool_calls (begin_turn cfg env st) = as_tool_calls st"
  by (auto simp: begin_turn_def Let_def)

lemma begin_turn_notice:
  "ag_max_tool_calls cfg \<le> as_tool_calls st \<Longrightarrow> as_notice (begin_turn cfg env st)"
  by (auto simp: begin_turn_def Let_def)

lemma turns_lessI:
  assumes "as_tool_calls st1 = as_tool_calls st"
    and "as_nudged st \<longrightarrow> as_nudged st1" "as_repaired st \<longrightarrow> as_repaired st1"
    "as_notice st \<longrightarrow> as_notice st1" "as_reminded st \<longrightarrow> as_reminded st1"
    and "(\<not> as_nudged st \<and> as_nudged st1) \<or> (\<not> as_repaired st \<and> as_repaired st1)
      \<or> (\<not> as_notice st \<and> as_notice st1) \<or> (\<not> as_reminded st \<and> as_reminded st1)"
  shows "turns_left cfg st1 < turns_left cfg st"
proof -
  have "flag (as_nudged st1) \<le> flag (as_nudged st)" "flag (as_repaired st1) \<le> flag (as_repaired st)"
    "flag (as_notice st1) \<le> flag (as_notice st)" "flag (as_reminded st1) \<le> flag (as_reminded st)"
    using assms(2-5) by (simp_all add: flag_def)
  moreover have "flag (as_nudged st1) < flag (as_nudged st) \<or> flag (as_repaired st1) < flag (as_repaired st)
      \<or> flag (as_notice st1) < flag (as_notice st) \<or> flag (as_reminded st1) < flag (as_reminded st)"
    using assms(6) by (auto simp: flag_def)
  ultimately show ?thesis unfolding turns_left_def assms(1) by linarith
qed

lemma repair_msg_Some: "repair_msg cfg env st c = Some m \<Longrightarrow> \<not> as_repaired st"
  by (auto simp: repair_msg_def split: option.splits if_splits)

lemma may_remind_unset: "may_remind cfg env st \<Longrightarrow> \<not> as_reminded st"
  by (simp add: may_remind_def)

text \<open>What a reply without tool calls leads to, when the loop goes on.\<close>

lemma on_text_Inr:
  assumes "on_text cfg env content st = Inr st1"
  obtains m where "\<not> as_repaired st" "st1 = push_msg (user_message m) (st\<lparr>as_repaired := True\<rparr>)"
  | m where "\<not> as_nudged st" "st1 = push_msg (user_message m) (st\<lparr>as_nudged := True\<rparr>)"
  | m where "\<not> as_reminded st" "st1 = push_msg (user_message m) (st\<lparr>as_reminded := True\<rparr>)"
  using assms repair_msg_Some may_remind_unset
  by (fastforce simp: on_text_def on_plain_reply_def Let_def split: option.splits if_splits)

lemma on_text_turns: "on_text cfg env c st = Inr st1 \<Longrightarrow> turns_left cfg st1 < turns_left cfg st"
  by (elim on_text_Inr) (simp_all add: turns_lessI)

lemma on_terminal_turns: "on_terminal cfg env cs c st = Inr st1 \<Longrightarrow> turns_left cfg st1 < turns_left cfg st"
  by (rule turns_lessI) (auto simp: on_terminal_def dest: repair_msg_Some split: option.splits)

lemma on_calls_after_notice_turns:
  "on_calls_after_notice cfg env cs st = Inr st1 \<Longrightarrow> turns_left cfg st1 < turns_left cfg st"
  by (rule turns_lessI) (auto simp: on_calls_after_notice_def dest: may_remind_unset split: if_splits)

lemma on_batch_calls:
  "as_tool_calls (on_batch cfg env cs st)
     = as_tool_calls st + min (ag_max_tool_calls cfg - as_tool_calls st) (length cs)"
  by (simp add: on_batch_def Let_def min.commute)

lemma on_batch_turns:
  assumes "cs \<noteq> []" and "as_tool_calls st < ag_max_tool_calls cfg"
  shows "turns_left cfg (on_batch cfg env cs st) < turns_left cfg st"
proof -
  have "0 < length cs" using assms(1) by simp
  then have "ag_max_tool_calls cfg - as_tool_calls (on_batch cfg env cs st) < ag_max_tool_calls cfg - as_tool_calls st"
    unfolding on_batch_calls using assms(2) by linarith
  moreover have "flag (as_nudged (on_batch cfg env cs st)) = flag (as_nudged st)"
    "flag (as_repaired (on_batch cfg env cs st)) = flag (as_repaired st)"
    "flag (as_notice (on_batch cfg env cs st)) \<le> flag (as_notice st)"
    "flag (as_reminded (on_batch cfg env cs st)) = flag (as_reminded st)"
    by (simp_all add: on_batch_def Let_def flag_def)
  ultimately show ?thesis by (simp add: turns_left_def)
qed

lemma on_reply_turns:
  assumes "on_reply cfg env m st = Inr st1" and "\<not> as_notice st \<longrightarrow> as_tool_calls st < ag_max_tool_calls cfg"
  shows "turns_left cfg st1 < turns_left cfg st"
proof -
  have eq: "turns_left cfg (push_msg m st) = turns_left cfg st" by (simp add: turns_left_def)
  show ?thesis
  proof (cases "cm_tool_calls m = []")
    case True
    then show ?thesis using assms(1) on_text_turns[of cfg env "cm_content m" "push_msg m st"] eq
      by (simp add: on_reply_def)
  next
    case False
    then show ?thesis
      using assms eq on_terminal_turns[of cfg env "cm_tool_calls m" _ "push_msg m st"]
        on_calls_after_notice_turns[of cfg env "cm_tool_calls m" "push_msg m st"]
        on_batch_turns[of "cm_tool_calls m" "push_msg m st" cfg env]
      by (auto simp: on_reply_def Let_def split: option.splits if_splits)
  qed
qed

lemma agent_step_turns:
  assumes "agent_step cfg env st = Inr st1"
  shows "turns_left cfg st1 < turns_left cfg st"
proof -
  let ?st = "begin_turn cfg env st"
  have le: "turns_left cfg ?st \<le> turns_left cfg st" by (rule begin_turn_turns)
  show ?thesis
  proof (cases "te_reply env")
    case (Replied c)
    let ?st' = "?st\<lparr>as_slowest := max (as_slowest ?st) (te_took env)\<rparr>"
    have "on_reply cfg env (co_message c) ?st' = Inr st1"
      using assms Replied by (auto simp: agent_step_def Let_def split: if_splits)
    moreover have "\<not> as_notice ?st' \<longrightarrow> as_tool_calls ?st' < ag_max_tool_calls cfg"
      using begin_turn_notice[of cfg st env] by (auto simp: not_le[symmetric])
    ultimately have "turns_left cfg st1 < turns_left cfg ?st'" by (rule on_reply_turns)
    then show ?thesis using le by (simp add: turns_left_def)
  next
    case (ReplyError e)
    then show ?thesis using assms by (auto simp: agent_step_def Let_def split: if_splits)
  next
    case ReplyTimeout
    then have no: "\<not> as_notice ?st" and st1: "st1 = push_msg (wrap_up cfg)
        (?st\<lparr>as_notice := True, as_budget_stop := TimeBudget, as_soft_timed_out := True\<rparr>)"
      using assms by (auto simp: agent_step_def Let_def split: if_splits)
    have "turns_left cfg st1 < turns_left cfg ?st" unfolding st1 by (rule turns_lessI) (use no in auto)
    then show ?thesis using le by simp
  qed
qed

lemma agent_loop_returns:
  "turns_left cfg st < length envs \<Longrightarrow> \<exists>run. agent_loop cfg envs st = Inl run"
proof (induction envs arbitrary: st)
  case (Cons env envs)
  show ?case
  proof (cases "agent_step cfg env st")
    case (Inr st1)
    then have "turns_left cfg st1 < length envs" using agent_step_turns[OF Inr] Cons.prems by simp
    then show ?thesis using Cons.IH Inr by simp
  qed simp
qed simp

text \<open>C25: whatever the model answers, the agent loop returns after at most five requests more than
  its tool budget: one per executed tool call, a nudge, a repair, a wrap-up, a reminder and the final
  one.\<close>

theorem agent_returns:
  assumes "ag_max_tool_calls cfg + 5 \<le> length envs"
  shows "\<exists>run. run_agent_checked cfg system user envs = Inl run"
  using agent_loop_returns[of cfg "agent_start cfg system user" envs] assms
  by (simp add: run_agent_checked_def agent_start_def turns_left_def flag_def)

section \<open>The transcript stays valid\<close>

text \<open>Every tool call of a message is answered by a later message.\<close>

fun answered :: "chat_message list \<Rightarrow> bool" where
  "answered [] = True"
| "answered (m # ms) =
     (list_all (\<lambda>c. list_ex (\<lambda>r. cm_tool_call_id r = Some (tc_id c)) ms) (cm_tool_calls m) \<and> answered ms)"

lemma answered_append:
  "answered ms \<Longrightarrow> answered ns \<Longrightarrow> answered (ms @ ns)"
  by (induction ms) (auto simp: list_all_iff list_ex_iff)

lemma answered_plain: "\<forall>m\<in>set ms. cm_tool_calls m = [] \<Longrightarrow> answered ms"
  by (induction ms) auto

lemma answered_push: "answered (as_messages st) \<Longrightarrow> cm_tool_calls m = [] \<Longrightarrow> answered (as_messages (push_msg m st))"
  using answered_append[of "as_messages st" "[m]"] by simp

lemma answered_reply:
  assumes "answered ms" and "\<forall>r\<in>set rs. cm_tool_calls r = []"
    and "\<forall>c\<in>set (cm_tool_calls m). \<exists>r\<in>set rs. cm_tool_call_id r = Some (tc_id c)"
  shows "answered (ms @ m # rs)"
  using assms answered_plain[of rs] by (intro answered_append) (auto simp: list_all_iff list_ex_iff)

lemma begin_turn_answered: "answered (as_messages st) \<Longrightarrow> answered (as_messages (begin_turn cfg env st))"
  by (auto simp: begin_turn_def Let_def intro!: answered_append)

lemma on_batch_messages:
  "\<exists>rs. as_messages (on_batch cfg env cs st) = as_messages st @ rs
     \<and> (\<forall>r\<in>set rs. cm_tool_calls r = []) \<and> (\<forall>c\<in>set cs. \<exists>r\<in>set rs. cm_tool_call_id r = Some (tc_id c))"
proof -
  let ?k = "min (ag_max_tool_calls cfg - as_tool_calls st) (length cs)"
  let ?msgs = "\<lambda>cs r. map (\<lambda>c. tool_message (tc_id c) (tc_name c) (r c)) cs"
  have cover: "\<exists>r\<in>set (?msgs xs f @ ?msgs ys g @ zs). cm_tool_call_id r = Some (tc_id c)"
    if "c \<in> set (xs @ ys)" for c xs ys f g and zs :: "chat_message list"
    using that by (force simp: bex_Un)
  have plain: "\<forall>r\<in>set (?msgs xs f @ ?msgs ys g @ zs). cm_tool_calls r = []"
    if "\<forall>r\<in>set zs. cm_tool_calls r = []" for xs ys f g zs
    using that by auto
  have "\<exists>xs ys f g zs. as_messages (on_batch cfg env cs st) = as_messages st @ ?msgs xs f @ ?msgs ys g @ zs
      \<and> xs @ ys = cs \<and> (\<forall>r\<in>set zs. cm_tool_calls r = [])"
  proof -
    consider (late) f where "as_messages (on_batch cfg env cs st) = as_messages st @ ?msgs cs f"
      | (timeout) f where "as_messages (on_batch cfg env cs st) = as_messages st @ ?msgs cs f @ [wrap_up cfg]"
      | (ran) f g where "as_messages (on_batch cfg env cs st)
          = as_messages st @ ?msgs (take ?k cs) f @ ?msgs (drop ?k cs) g"
    proof -
      let ?late = "soft_left cfg (soft_deadline cfg (as_slowest st)) (te_soft2 env) (te_hard2 env) = 0
        \<or> soft_deadline cfg (as_slowest st) \<le> te_late env"
      show thesis
      proof (cases ?late)
        case True
        then show thesis by (intro late[of "\<lambda>_. time_note"]) (simp add: on_batch_def Let_def)
      next
        case no: False
        show thesis
        proof (cases "te_batch_timeout env")
          case True
          then show thesis using no
            by (intro timeout[of "\<lambda>_. time_note"]) (simp only: on_batch_def Let_def if_False if_True push_msg_def answer_all_def, simp)
        next
          case False
          then show thesis using no
            by (intro ran[of "te_tool env" "\<lambda>_. budget_note"]) (simp only: on_batch_def Let_def if_False answer_all_def, simp)
        qed
      qed
    qed
    then show ?thesis
    proof cases
      case (late f)
      then show ?thesis by (intro exI[of _ cs] exI[of _ "[]"] exI[of _ f]) simp
    next
      case (timeout f)
      then show ?thesis by (intro exI[of _ cs] exI[of _ "[]"] exI[of _ f] exI[of _ f] exI[of _ "[wrap_up cfg]"]) simp
    next
      case (ran f g)
      then show ?thesis
        by (intro exI[of _ "take ?k cs"] exI[of _ "drop ?k cs"] exI[of _ f] exI[of _ g] exI[of _ "[]"]) simp
    qed
  qed
  then obtain xs ys f g zs where msgs: "as_messages (on_batch cfg env cs st) = as_messages st @ ?msgs xs f @ ?msgs ys g @ zs"
    "xs @ ys = cs" "\<forall>r\<in>set zs. cm_tool_calls r = []" by blast
  then show ?thesis using cover[of _ xs ys f g zs] plain[OF msgs(3), of f xs g ys]
    by (intro exI[of _ "?msgs xs f @ ?msgs ys g @ zs"] conjI ballI) (simp_all only: msgs(2))
qed

lemma on_terminal_messages:
  assumes "on_terminal cfg env cs c st = Inr st1"
  shows "\<exists>rs. as_messages st1 = as_messages st @ rs \<and> (\<forall>r\<in>set rs. cm_tool_calls r = [])
     \<and> (\<forall>x\<in>set cs. \<exists>r\<in>set rs. cm_tool_call_id r = Some (tc_id x))"
proof -
  obtain f g where st1: "st1 = answer_all (filter (\<lambda>x. tc_id x \<noteq> tc_id c) cs) f
      (answer_all [c] g (st\<lparr>as_repaired := True\<rparr>))"
    using assms by (auto simp: on_terminal_def split: option.splits)
  let ?rs = "tool_message (tc_id c) (tc_name c) (g c)
    # map (\<lambda>x. tool_message (tc_id x) (tc_name x) (f x)) (filter (\<lambda>x. tc_id x \<noteq> tc_id c) cs)"
  have "\<exists>r\<in>set ?rs. cm_tool_call_id r = Some (tc_id x)" if "x \<in> set cs" for x
    using that by (cases "tc_id x = tc_id c") auto
  moreover have "as_messages st1 = as_messages st @ ?rs" unfolding st1 by simp
  ultimately show ?thesis by (intro exI[of _ ?rs]) simp
qed

lemma on_reply_answered:
  assumes "on_reply cfg env m st = Inr st1" and "answered (as_messages st)"
  shows "answered (as_messages st1)"
proof (cases "cm_tool_calls m = []")
  case True
  have "answered (as_messages st @ [m])" using answered_append[OF assms(2), of "[m]"] True by simp
  moreover have "\<exists>rs. as_messages st1 = (as_messages st @ [m]) @ rs \<and> (\<forall>r\<in>set rs. cm_tool_calls r = [])"
    using assms(1) True
    by (auto simp: on_reply_def on_text_def on_plain_reply_def Let_def split: option.splits if_splits)
  ultimately show ?thesis using answered_append answered_plain by metis
next
  case False
  let ?st = "push_msg m st"
  have "\<exists>rs. as_messages st1 = as_messages ?st @ rs \<and> (\<forall>r\<in>set rs. cm_tool_calls r = [])
      \<and> (\<forall>c\<in>set (cm_tool_calls m). \<exists>r\<in>set rs. cm_tool_call_id r = Some (tc_id c))"
  proof (cases "List.find (\<lambda>c. tc_name c = ts_name (ag_terminal cfg)) (cm_tool_calls m)")
    case (Some c)
    then have "on_terminal cfg env (cm_tool_calls m) c ?st = Inr st1"
      using assms(1) False by (simp add: on_reply_def Let_def)
    then show ?thesis by (rule on_terminal_messages)
  next
    case None
    show ?thesis
    proof (cases "as_notice st")
      case True
      then show ?thesis using assms(1) False None
        by (auto simp: on_reply_def Let_def on_calls_after_notice_def split: if_splits)
    next
      case no: False
      then have "st1 = on_batch cfg env (cm_tool_calls m) ?st"
        using assms(1) False None by (simp add: on_reply_def Let_def)
      then show ?thesis using on_batch_messages by blast
    qed
  qed
  then obtain rs where "as_messages st1 = as_messages st @ m # rs" "\<forall>r\<in>set rs. cm_tool_calls r = []"
    "\<forall>c\<in>set (cm_tool_calls m). \<exists>r\<in>set rs. cm_tool_call_id r = Some (tc_id c)" by auto
  then show ?thesis using answered_reply[OF assms(2)] by simp
qed

text \<open>The invariant of the loop: a valid transcript and a respected tool budget.\<close>

definition agent_inv :: "agent_config \<Rightarrow> agent_state \<Rightarrow> bool" where
  "agent_inv cfg st = (answered (as_messages st) \<and> as_tool_calls st \<le> ag_max_tool_calls cfg)"

lemma on_reply_calls:
  "on_reply cfg env m st = Inr st1 \<Longrightarrow> as_tool_calls st \<le> ag_max_tool_calls cfg \<Longrightarrow>
   as_tool_calls st1 \<le> ag_max_tool_calls cfg"
  by (auto simp: on_reply_def on_text_def on_plain_reply_def on_terminal_def on_calls_after_notice_def
      on_batch_calls Let_def split: option.splits if_splits)

lemma agent_step_inv:
  assumes "agent_step cfg env st = Inr st1" and "agent_inv cfg st"
  shows "agent_inv cfg st1"
proof -
  let ?st = "begin_turn cfg env st"
  have inv: "agent_inv cfg ?st" using assms(2) begin_turn_answered by (simp add: agent_inv_def)
  show ?thesis
  proof (cases "te_reply env")
    case (Replied c)
    then have "on_reply cfg env (co_message c) (?st\<lparr>as_slowest := max (as_slowest ?st) (te_took env)\<rparr>) = Inr st1"
      using assms by (auto simp: agent_step_def Let_def split: if_splits)
    then show ?thesis using inv on_reply_answered on_reply_calls by (fastforce simp: agent_inv_def)
  next
    case (ReplyError e)
    then show ?thesis using assms by (auto simp: agent_step_def Let_def split: if_splits)
  next
    case ReplyTimeout
    then show ?thesis using assms inv
      by (auto simp: agent_step_def Let_def agent_inv_def intro!: answered_append split: if_splits)
  qed
qed

text \<open>The states the loop goes through, as a step relation.\<close>

inductive agent_reach :: "agent_config \<Rightarrow> agent_state \<Rightarrow> agent_state \<Rightarrow> bool" for cfg st0 where
  reach_start: "agent_reach cfg st0 st0"
| reach_step: "agent_reach cfg st0 st \<Longrightarrow> agent_step cfg env st = Inr st1 \<Longrightarrow> agent_reach cfg st0 st1"

lemma agent_reach_inv: "agent_reach cfg st0 st \<Longrightarrow> agent_inv cfg st0 \<Longrightarrow> agent_inv cfg st"
  by (induction rule: agent_reach.induct) (auto dest: agent_step_inv)

lemma agent_start_inv: "agent_inv cfg (agent_start cfg system user)"
  by (simp add: agent_inv_def agent_start_def)


section \<open>What a run submits, and the time it is granted\<close>

lemma find_name: "List.find (\<lambda>c. tc_name c = n) cs = Some c \<Longrightarrow> tc_name c = n"
  by (auto dest: find_Some_iff_set)

lemma on_text_final:
  "on_text cfg env content st = Inl run \<Longrightarrow> ar_final_call run = Some c \<Longrightarrow>
     tc_name c = ts_name (ag_terminal cfg) \<and> repair_msg cfg env st c = None \<and> ar_stopped run = Terminal"
  by (auto simp: on_text_def on_plain_reply_def stop_run_def Let_def split: option.splits if_splits)

lemma agent_step_final:
  assumes "agent_step cfg env st = Inl run" and "ar_final_call run = Some c"
  shows "\<exists>st'. tc_name c = ts_name (ag_terminal cfg) \<and> repair_msg cfg env st' c = None
     \<and> as_repaired st' = as_repaired st \<and> ar_stopped run = Terminal"
proof -
  have keep: "as_repaired (begin_turn cfg env st) = as_repaired st" by (auto simp: begin_turn_def Let_def)
  obtain m where m: "on_reply cfg env m ((begin_turn cfg env st)\<lparr>as_slowest := max (as_slowest (begin_turn cfg env st)) (te_took env)\<rparr>) = Inl run"
    using assms by (auto simp: agent_step_def stop_run_def Let_def split: if_splits reply.splits)
  let ?st = "push_msg m ((begin_turn cfg env st)\<lparr>as_slowest := max (as_slowest (begin_turn cfg env st)) (te_took env)\<rparr>)"
  have "tc_name c = ts_name (ag_terminal cfg) \<and> repair_msg cfg env ?st c = None \<and> ar_stopped run = Terminal"
    using m assms(2) on_text_final[of cfg env "cm_content m" ?st run c]
    by (auto simp: on_reply_def on_terminal_def on_calls_after_notice_def stop_run_def Let_def
        dest: find_name split: option.splits if_splits)
  then show ?thesis using keep by (intro exI[of _ ?st]) simp
qed

text \<open>The call a run submits is one of the terminal tool, and it passed the check unless a repair
  had already been spent or less than fifteen seconds were left.\<close>

theorem agent_submits_checked:
  assumes "agent_step cfg env st = Inl run" and "ar_final_call run = Some c"
    and "\<not> as_repaired st" and "te_repair env + secs_ns 15 \<le> total_ns cfg"
  shows "tc_name c = ts_name (ag_terminal cfg) \<and> ag_check cfg (tc_arguments c) = None"
proof -
  obtain st' where "tc_name c = ts_name (ag_terminal cfg)" "repair_msg cfg env st' c = None" "\<not> as_repaired st'"
    using agent_step_final[OF assms(1,2)] assms(3) by auto
  then show ?thesis using assms(4)
    by (auto simp: repair_msg_def REPAIR_MIN_LEFT_def split: option.splits if_splits)
qed

lemma turn_limit_bound:
  "turn_limit cfg env d st \<le> max (total_ns cfg - te_hard env) (if as_notice st \<and> as_grace st then TERMINAL_GRACE else 0)"
  by (auto simp: turn_limit_def soft_left_def)

section \<open>Concrete runs\<close>

definition demo_config :: agent_config where
  "demo_config =
     \<lparr>ag_specs = [], ag_terminal = \<lparr>ts_name = ''submit'', ts_description = [], ts_parameters = JObj []\<rparr>,
      ag_max_tool_calls = 0, ag_max_seconds = 100, ag_check = (\<lambda>_. None), ag_jparse = (\<lambda>_. None),
      ag_jstr = (\<lambda>_. [])\<rparr>"

definition demo_reply :: "tool_call list \<Rightarrow> completion" where
  "demo_reply calls =
     \<lparr>co_message = (user_message [])\<lparr>cm_role := Assistant, cm_tool_calls := calls\<rparr>,
      co_usage = \<lparr>us_prompt_tokens = 0, us_completion_tokens = 0, us_cached_prompt_tokens = 0,
                  us_cache_write_tokens = 0, us_reasoning_tokens = 0\<rparr>,
      co_model = [], co_latency_ms = 0\<rparr>"

definition demo_env :: "reply \<Rightarrow> turn_env" where
  "demo_env r =
     \<lparr>te_top = 1, te_grace = 1, te_soft = 1, te_hard = 1, te_reply = r, te_took = 1, te_repair = 2,
      te_remind = 2, te_soft2 = 2, te_hard2 = 2, te_late = 2, te_tool = (\<lambda>_. []), te_batch_timeout = False\<rparr>"

definition submit_call :: tool_call where
  "submit_call = \<lparr>tc_id = ''1'', tc_name = ''submit'', tc_arguments = JNull\<rparr>"

theorem agent_returns_witness:
  "\<exists>run. run_agent_checked demo_config [] [] (replicate 5 (demo_env ReplyTimeout)) = Inl run"
  by (rule agent_returns) (simp add: demo_config_def)

lemma demo_step:
  "agent_step demo_config (demo_env (Replied (demo_reply [submit_call]))) (agent_start demo_config [] [])
     = Inl \<lparr>ar_final_call = Some submit_call, ar_transcript_len = 4, ar_tool_calls = 0,
            ar_stopped = Terminal, ar_repaired = False\<rparr>"
  by (simp add: agent_step_def Let_def begin_turn_def demo_config_def demo_env_def agent_start_def
      turn_limit_def soft_deadline_def soft_ns_def clamp_def total_ns_def secs_ns_def push_msg_def
      on_reply_def demo_reply_def submit_call_def on_terminal_def repair_msg_def stop_run_def)

theorem agent_submits_checked_witness: "tc_name submit_call = ''submit''"
  using agent_submits_checked[OF demo_step]
  by (simp add: agent_start_def demo_env_def demo_config_def total_ns_def secs_ns_def)


end
