(* ===== verification/Fix_Settings.thy ===== *)
theory Fix_Settings
  imports Rust_Str
begin

text \<open>
  The operator's policy for automated repairs (\<open>src/src/server/fixes.rs\<close>: \<open>Trigger\<close>, \<open>Delivery\<close>,
  \<open>Requesters\<close>, \<open>Limits\<close>, \<open>Policy\<close>, \<open>Override\<close>): its bounds (\<open>validate\<close>) and how a repository's
  override is folded into it (\<open>effective\<close>).  The limits are plain numbers that are only compared, so
  they are \<open>nat\<close> whatever their width in the source.
\<close>

datatype fix_trigger = Manual | AfterReview
datatype fix_delivery = Patch | DraftPr | SameBranch
datatype requesters = Maintainers | Writers

record limits =
  lim_attempts :: nat
  lim_tool_calls :: nat
  lim_seconds :: nat
  lim_model_requests :: nat
  lim_max_files :: nat
  lim_max_patch_kb :: nat
  lim_concurrent :: nat
  lim_per_user_hour :: nat
  lim_per_repo_day :: nat

definition limits_default :: limits where
  "limits_default = \<lparr>lim_attempts = 2, lim_tool_calls = 40, lim_seconds = 300,
     lim_model_requests = 50, lim_max_files = 20, lim_max_patch_kb = 200, lim_concurrent = 1,
     lim_per_user_hour = 3, lim_per_repo_day = 20\<rparr>"

record fix_policy =
  fp_offer :: bool
  fp_execution :: bool
  fp_trigger :: fix_trigger
  fp_confirm :: bool
  fp_trusted_skip_confirm :: bool
  fp_delivery :: fix_delivery
  fp_allow_same_branch :: bool
  fp_require_approval :: bool
  fp_requesters :: requesters
  fp_author_preview :: bool
  fp_allow_workflow_changes :: bool
  fp_external :: bool
  fp_rereview :: bool
  fp_branch_prefix :: string
  fp_test_command :: "string list"
  fp_test_timeout_seconds :: nat
  fp_limits :: limits

definition fix_policy_default :: fix_policy where
  "fix_policy_default = \<lparr>fp_offer = True, fp_execution = False, fp_trigger = Manual,
     fp_confirm = True, fp_trusted_skip_confirm = False, fp_delivery = Patch,
     fp_allow_same_branch = False, fp_require_approval = True, fp_requesters = Maintainers,
     fp_author_preview = False, fp_allow_workflow_changes = False, fp_external = False,
     fp_rereview = True, fp_branch_prefix = ''revera/fix-'', fp_test_command = [],
     fp_test_timeout_seconds = 300, fp_limits = limits_default\<rparr>"

record fix_override =
  fo_execution :: "bool option"
  fo_trigger :: "fix_trigger option"
  fo_delivery :: "fix_delivery option"

definition within :: "nat \<Rightarrow> nat \<Rightarrow> nat \<Rightarrow> bool" where
  "within lo hi n = (lo \<le> n \<and> n \<le> hi)"

definition branch_byte :: "char \<Rightarrow> bool" where
  "branch_byte c = (is_ascii_alphanumeric c \<or> c \<in> set ''/-_'')"

text \<open>\<open>Policy::validate\<close>: the three refusals, in order.\<close>

datatype policy_error = BadLimits | BadBranchPrefix | BadTestCommand

definition limits_ok :: "fix_policy \<Rightarrow> bool" where
  "limits_ok p =
     (let l = fp_limits p in
      within 1 10 (lim_attempts l) \<and> within 1 1000 (lim_tool_calls l) \<and>
      within 1 3600 (lim_seconds l) \<and> within 2 1000 (lim_model_requests l) \<and>
      within 1 100 (lim_max_files l) \<and> within 1 512 (lim_max_patch_kb l) \<and>
      within 1 16 (lim_concurrent l) \<and> within 1 1000 (lim_per_user_hour l) \<and>
      within 1 10000 (lim_per_repo_day l) \<and> within 1 3600 (fp_test_timeout_seconds p))"

definition bad_branch_prefix :: "string \<Rightarrow> bool" where
  "bad_branch_prefix b =
     (b = [] \<or> 100 < length b \<or> \<not> list_all branch_byte b \<or> starts_with b ''/'' \<or> str_contains b ''//'')"

definition bad_test_command :: "string list \<Rightarrow> bool" where
  "bad_test_command c =
     (100 < length c \<or> list_ex (\<lambda>s. CHR 0x00 \<in> set s \<or> 4000 < length s) c)"

definition policy_validate :: "fix_policy \<Rightarrow> policy_error + unit" where
  "policy_validate p =
     (if \<not> limits_ok p then Inl BadLimits
      else if bad_branch_prefix (fp_branch_prefix p) then Inl BadBranchPrefix
      else if bad_test_command (fp_test_command p) then Inl BadTestCommand
      else Inr ())"

definition apply_override :: "fix_policy \<Rightarrow> fix_override \<Rightarrow> fix_policy" where
  "apply_override p q =
     (let p = p\<lparr>fp_execution := (case fo_execution q of Some e \<Rightarrow> e | None \<Rightarrow> fp_execution p),
                fp_trigger := (case fo_trigger q of Some t \<Rightarrow> t | None \<Rightarrow> fp_trigger p),
                fp_delivery := (case fo_delivery q of Some d \<Rightarrow> d | None \<Rightarrow> fp_delivery p)\<rparr> in
      if fo_delivery q \<noteq> None \<and> fo_delivery q \<noteq> Some SameBranch
      then p\<lparr>fp_allow_same_branch := False\<rparr> else p)"

definition effective :: "fix_policy \<Rightarrow> fix_override option \<Rightarrow> fix_policy" where
  "effective p0 ov =
     (let p = (case ov of Some q \<Rightarrow> apply_override p0 q | None \<Rightarrow> p0);
          p = (if fp_delivery p = SameBranch \<and> \<not> fp_allow_same_branch p
               then p\<lparr>fp_delivery := Patch\<rparr> else p) in
      if fp_delivery p = SameBranch then p\<lparr>fp_require_approval := True\<rparr> else p)"

section \<open>What an override can and cannot do\<close>

lemma effective_same_branch:
  "fp_delivery (effective p ov) = SameBranch \<Longrightarrow>
   fp_allow_same_branch p \<and> fp_allow_same_branch (effective p ov) \<and> fp_require_approval (effective p ov)"
  by (auto simp: effective_def apply_override_def Let_def split: option.splits if_splits)

lemma effective_keeps [keeps]:
  "fp_limits (effective p ov) = fp_limits p"
  "fp_branch_prefix (effective p ov) = fp_branch_prefix p"
  "fp_test_command (effective p ov) = fp_test_command p"
  "fp_test_timeout_seconds (effective p ov) = fp_test_timeout_seconds p"
  "fp_requesters (effective p ov) = fp_requesters p"
  "fp_allow_workflow_changes (effective p ov) = fp_allow_workflow_changes p"
  "fp_external (effective p ov) = fp_external p"
  "fp_confirm (effective p ov) = fp_confirm p"
  "fp_trusted_skip_confirm (effective p ov) = fp_trusted_skip_confirm p"
  "fp_rereview (effective p ov) = fp_rereview p"
  "fp_author_preview (effective p ov) = fp_author_preview p"
  "fp_offer (effective p ov) = fp_offer p"
  by (auto simp: effective_def apply_override_def Let_def split: option.splits)

lemma effective_approval_mono:
  "fp_require_approval p \<Longrightarrow> fp_require_approval (effective p ov)"
  by (auto simp: effective_def apply_override_def Let_def split: option.splits)

lemma effective_fields:
  "fp_execution (effective p ov) =
     (case Option.bind ov fo_execution of Some e \<Rightarrow> e | None \<Rightarrow> fp_execution p)"
  "fp_trigger (effective p ov) =
     (case Option.bind ov fo_trigger of Some t \<Rightarrow> t | None \<Rightarrow> fp_trigger p)"
  "fp_allow_same_branch (effective p ov) =
     (fp_allow_same_branch p \<and> Option.bind ov fo_delivery \<notin> {Some Patch, Some DraftPr})"
  "fp_delivery (effective p ov) =
     (let d = (case Option.bind ov fo_delivery of Some d \<Rightarrow> d | None \<Rightarrow> fp_delivery p) in
      if d = SameBranch \<and> \<not> fp_allow_same_branch (effective p ov) then Patch else d)"
  "fp_require_approval (effective p ov) =
     (fp_require_approval p \<or> fp_delivery (effective p ov) = SameBranch)"
  by (auto simp: effective_def apply_override_def Let_def split: option.splits)
     (metis fix_delivery.exhaust)

text \<open>Resolving an override twice is resolving it once.\<close>

lemma effective_idem: "effective (effective p ov) ov = effective p ov"
proof -
  let ?p = "effective p ov"
  have a: "fp_allow_same_branch (effective ?p ov) = fp_allow_same_branch ?p"
    unfolding effective_fields(3) by blast
  have d: "fp_delivery (effective ?p ov) = fp_delivery ?p"
    unfolding effective_fields(4)[of ?p] a effective_fields(4)[of p]
    by (cases "Option.bind ov fo_delivery") (auto simp only: Let_def option.case split: if_split)
  have r: "fp_require_approval (effective ?p ov) = fp_require_approval ?p"
    unfolding effective_fields(5)[of ?p] d unfolding effective_fields(5)[of p] by blast
  have e: "fp_execution (effective ?p ov) = fp_execution ?p"
    unfolding effective_fields(1) by (simp split: option.split)
  have t: "fp_trigger (effective ?p ov) = fp_trigger ?p"
    unfolding effective_fields(2) by (simp split: option.split)
  have unit_eq': "x = y" for x y :: unit by simp
  show ?thesis
    by (rule fix_policy.equality) (simp_all only: a d r e t effective_keeps, rule unit_eq')
qed

lemma effective_valid: "policy_validate (effective p ov) = policy_validate p"
  by (simp only: policy_validate_def limits_ok_def effective_keeps Let_def)

lemma limits_default_ok: "policy_validate fix_policy_default = Inr ()"
  by code_simp

end
