(* ===== verification/Ordered_Map.thy ===== *)
theory Ordered_Map
  imports Interfaces
begin

text \<open>
  \<open>BTreeMap\<close> of the Rust standard library, as the association list of its entries in key order:
  \<open>insert\<close> replaces the value of a present key, \<open>remove\<close> deletes the entry, \<open>get\<close> is \<open>map_of\<close>,
  \<open>retain\<close> is \<open>filter\<close>, and iteration is the list itself.  A map is well formed when its keys
  strictly increase.  The theory interprets the interface \<open>keyed_map\<close> on these functions.
\<close>

type_synonym ('k, 'v) btree = "('k \<times> 'v) list"

definition bt_keys :: "('k, 'v) btree \<Rightarrow> 'k list" where
  "bt_keys m = map fst m"

definition bt_values :: "('k, 'v) btree \<Rightarrow> 'v list" where
  "bt_values m = map snd m"

definition bt_sorted :: "('k::linorder, 'v) btree \<Rightarrow> bool" where
  "bt_sorted m = sorted_wrt (<) (bt_keys m)"

fun bt_insert :: "'k::linorder \<times> 'v \<Rightarrow> ('k, 'v) btree \<Rightarrow> ('k, 'v) btree" where
  "bt_insert e [] = [e]"
| "bt_insert e (f # m) =
     (if fst f < fst e then f # bt_insert e m
      else if fst f = fst e then e # m
      else e # f # m)"

definition bt_remove :: "'k \<Rightarrow> ('k, 'v) btree \<Rightarrow> ('k, 'v) btree" where
  "bt_remove k m = filter (\<lambda>e. fst e \<noteq> k) m"

definition bt_retain :: "('k \<Rightarrow> 'v \<Rightarrow> bool) \<Rightarrow> ('k, 'v) btree \<Rightarrow> ('k, 'v) btree" where
  "bt_retain p m = filter (\<lambda>(k, v). p k v) m"

definition bt_contains :: "('k, 'v) btree \<Rightarrow> 'k \<Rightarrow> bool" where
  "bt_contains m k = (map_of m k \<noteq> None)"

text \<open>\<open>get_mut\<close> with an update in place.\<close>

definition bt_modify :: "'k \<Rightarrow> ('v \<Rightarrow> 'v) \<Rightarrow> ('k, 'v) btree \<Rightarrow> ('k, 'v) btree" where
  "bt_modify k f m = map (\<lambda>(j, v). (j, if j = k then f v else v)) m"

named_theorems bt_simps \<open>lookups and key sets after an operation\<close>

lemma bt_sorted_Nil [simp]: "bt_sorted []"
  by (simp add: bt_sorted_def bt_keys_def)

lemma bt_sorted_Cons [simp]:
  "bt_sorted (e # m) \<longleftrightarrow> (\<forall>k\<in>fst ` set m. fst e < k) \<and> bt_sorted m"
  by (auto simp: bt_sorted_def bt_keys_def)

lemma bt_sorted_distinct: "bt_sorted m \<Longrightarrow> distinct (map fst m)"
  by (induction m) auto

lemma bt_get_in: "bt_sorted m \<Longrightarrow> map_of m k = Some v \<longleftrightarrow> (k, v) \<in> set m"
  by (simp add: bt_sorted_distinct)

lemma set_bt_insert:
  "bt_sorted m \<Longrightarrow> set (bt_insert e m) = insert e {f \<in> set m. fst f \<noteq> fst e}"
  by (induction m) (force split: if_splits)+

lemma set_bt_insert_subset: "set (bt_insert e m) \<subseteq> insert e (set m)"
  by (induction m) auto

lemma keys_bt_insert: "fst ` set (bt_insert e m) = insert (fst e) (fst ` set m)"
  by (induction m) auto

lemma bt_sorted_insert: "bt_sorted m \<Longrightarrow> bt_sorted (bt_insert e m)"
  by (induction m) (auto simp: keys_bt_insert)

lemma bt_get_insert:
  "bt_sorted m \<Longrightarrow> map_of (bt_insert e m) k = (if k = fst e then Some (snd e) else map_of m k)"
  by (induction m) (auto split: if_splits)

lemma bt_sorted_filter: "bt_sorted m \<Longrightarrow> bt_sorted (filter p m)"
  by (induction m) auto

lemma bt_sorted_remove: "bt_sorted m \<Longrightarrow> bt_sorted (bt_remove k m)"
  by (simp add: bt_remove_def bt_sorted_filter)

lemma bt_sorted_retain: "bt_sorted m \<Longrightarrow> bt_sorted (bt_retain p m)"
  by (simp add: bt_retain_def bt_sorted_filter)

lemma bt_get_remove [bt_simps]: "map_of (bt_remove k m) j = (if j = k then None else map_of m j)"
  by (induction m) (auto simp: bt_remove_def)

lemma bt_get_filter:
  "bt_sorted m \<Longrightarrow> map_of (filter p m) k =
     (case map_of m k of None \<Rightarrow> None | Some v \<Rightarrow> if p (k, v) then Some v else None)"
proof (induction m)
  case (Cons e m)
  obtain k1 v1 where e: "e = (k1, v1)" by (cases e)
  have "map_of m k1 = None" using Cons.prems e by (auto simp: map_of_eq_None_iff)
  with Cons e show ?case by (auto split: option.splits)
qed simp

lemma bt_get_retain:
  "bt_sorted m \<Longrightarrow> map_of (bt_retain p m) k =
     (case map_of m k of None \<Rightarrow> None | Some v \<Rightarrow> if p k v then Some v else None)"
  by (simp add: bt_retain_def bt_get_filter split: option.splits)

lemma keys_bt_modify [simp]: "bt_keys (bt_modify k f m) = bt_keys m"
  by (induction m) (auto simp: bt_modify_def bt_keys_def)

lemma bt_sorted_modify [simp]: "bt_sorted (bt_modify k f m) = bt_sorted m"
  by (simp add: bt_sorted_def)

lemma bt_get_modify [bt_simps]:
  "map_of (bt_modify k f m) j = (if j = k then map_option f (map_of m j) else map_of m j)"
  by (induction m) (auto simp: bt_modify_def)

lemma set_bt_modify:
  "e \<in> set (bt_modify k f m) \<longleftrightarrow> (\<exists>v. (fst e, v) \<in> set m \<and> snd e = (if fst e = k then f v else v))"
  by (cases e) (force simp: bt_modify_def)

lemma bt_contains_iff: "bt_contains m k \<longleftrightarrow> k \<in> fst ` set m"
  by (simp add: bt_contains_def map_of_eq_None_iff)

text \<open>Entries that are stored under a key computed from the value.\<close>

definition keyed_by :: "('v \<Rightarrow> 'k) \<Rightarrow> ('k, 'v) btree \<Rightarrow> bool" where
  "keyed_by f m = list_all (\<lambda>(k, v). f v = k) m"

lemma keyed_by_Nil [simp]: "keyed_by f []"
  by (simp add: keyed_by_def)

lemma keyed_byD: "keyed_by f m \<Longrightarrow> (k, v) \<in> set m \<Longrightarrow> f v = k"
  by (auto simp: keyed_by_def list_all_iff)

lemma keyed_by_get: "keyed_by f m \<Longrightarrow> map_of m k = Some v \<Longrightarrow> f v = k"
  by (meson keyed_byD map_of_SomeD)

lemma keyed_by_insert [keeps]: "keyed_by f m \<Longrightarrow> f v = k \<Longrightarrow> keyed_by f (bt_insert (k, v) m)"
  using set_bt_insert_subset[of "(k, v)" m] by (fastforce simp: keyed_by_def list_all_iff)

lemma keyed_by_filter [keeps]: "keyed_by f m \<Longrightarrow> keyed_by f (filter p m)"
  by (auto simp: keyed_by_def list_all_iff)

lemma keyed_by_remove [keeps]: "keyed_by f m \<Longrightarrow> keyed_by f (bt_remove k m)"
  by (simp add: bt_remove_def keyed_by_filter)

lemma keyed_by_retain [keeps]: "keyed_by f m \<Longrightarrow> keyed_by f (bt_retain p m)"
  by (simp add: bt_retain_def keyed_by_filter)

lemma keyed_by_map:
  "keyed_by f m \<Longrightarrow> (\<And>k v. f (g k v) = f v) \<Longrightarrow> keyed_by f (map (\<lambda>(k, v). (k, g k v)) m)"
  by (auto simp: keyed_by_def list_all_iff)

lemma keyed_by_modify: "keyed_by f m \<Longrightarrow> (\<And>v. f (g v) = f v) \<Longrightarrow> keyed_by f (bt_modify k g m)"
  unfolding bt_modify_def by (rule keyed_by_map) auto

lemma bt_sorted_map: "bt_sorted (map (\<lambda>(k, v). (k, g k v)) m) = bt_sorted m"
  by (simp add: bt_sorted_def bt_keys_def comp_def split_def)

text \<open>\<open>keys().find(p)\<close> on an ordered map answers the least key that satisfies \<open>p\<close>.\<close>

lemma bt_find_least:
  assumes "bt_sorted m" and "List.find p (bt_keys m) = Some k"
  shows "k \<in> set (bt_keys m) \<and> p k \<and> (\<forall>j\<in>set (bt_keys m). p j \<longrightarrow> k \<le> j)"
  using assms by (induction m) (auto simp: bt_keys_def less_imp_le split: if_splits)

interpretation btree: keyed_map map_of bt_insert fst "\<lambda>e _. Some (snd e)" bt_sorted bt_remove
  by unfold_locales (auto simp: bt_sorted_insert bt_get_insert bt_sorted_remove bt_simps)

end
