(* ===== verification/Preferences.thy ===== *)
theory Preferences
  imports Revera_Prelude Fix_Settings Ordered_Map Text_Util Json
begin

text \<open>
  The operator's policy for public repositories that are reviewed from outside
  (\<open>src/src/server/external.rs\<close>: \<open>Policy\<close>, its defaults and bounds).
\<close>

record external_policy =
  xp_tracking_enabled :: bool
  xp_poll_minutes :: nat
  xp_max_tracked :: nat
  xp_max_repo_size_kb :: nat
  xp_reviews_per_hour :: nat
  xp_concurrency :: nat
  xp_retention_days :: nat
  xp_max_checkouts :: nat

definition external_policy_default :: external_policy where
  "external_policy_default = \<lparr>xp_tracking_enabled = False, xp_poll_minutes = 60,
     xp_max_tracked = 25, xp_max_repo_size_kb = 1024 * 1024, xp_reviews_per_hour = 20,
     xp_concurrency = 1, xp_retention_days = 7, xp_max_checkouts = 50\<rparr>"

definition external_policy_valid :: "external_policy \<Rightarrow> bool" where
  "external_policy_valid p =
     ((15 \<le> xp_poll_minutes p \<and> xp_poll_minutes p \<le> 1440) \<and>
      (1 \<le> xp_max_tracked p \<and> xp_max_tracked p \<le> 25) \<and>
      (1 \<le> xp_reviews_per_hour p \<and> xp_reviews_per_hour p \<le> 100) \<and>
      (1 \<le> xp_concurrency p \<and> xp_concurrency p \<le> 4) \<and>
      (1 \<le> xp_max_repo_size_kb p \<and> xp_max_repo_size_kb p \<le> 1024 * 1024) \<and>
      (1 \<le> xp_retention_days p \<and> xp_retention_days p \<le> 90) \<and>
      (1 \<le> xp_max_checkouts p \<and> xp_max_checkouts p \<le> 100))"

lemma external_policy_default_valid: "external_policy_valid external_policy_default"
  by (simp add: external_policy_valid_def external_policy_default_def)


text \<open>
  The operator's preferences (\<open>src/src/server/dashboard.rs\<close>): when a repository is reviewed
  (\<open>Trigger\<close>, \<open>Mode\<close>, \<open>reviewable\<close>), the reading of older settings files, and which account owners
  may use the installation (\<open>owner_allowed\<close>, \<open>approve_owner\<close>, \<open>revoke_owner\<close>).  Maps keyed by
  strings are ordered maps; \<open>revoked_owner_ids\<close> is a set of account identifiers.
\<close>

section \<open>Data\<close>

datatype trigger = Trigger_Mention | Trigger_Auto | Trigger_Off
datatype mode = Mode_Quick | Mode_Standard | Mode_Deep
datatype guidance_mode = Guidance_Off | Guidance_Review | Guidance_Agents | Guidance_Skills

fun mode_profile :: "mode \<Rightarrow> string option" where
  "mode_profile Mode_Quick = Some ''quick''"
| "mode_profile Mode_Standard = None"
| "mode_profile Mode_Deep = Some ''deep''"

record repo_preference =
  rp_trigger :: "trigger option"
  rp_mode :: "mode option"
  rp_fixes :: "fix_override option"
  rp_guidance :: "guidance_mode option"
  rp_notes :: "string option"

record repo_preference_file =
  rpf_trigger :: "trigger option"
  rpf_mode :: "mode option"
  rpf_enabled :: "bool option"
  rpf_fixes :: "fix_override option"
  rpf_guidance :: "guidance_mode option"
  rpf_notes :: "string option"

definition repo_preference_from :: "repo_preference_file \<Rightarrow> repo_preference" where
  "repo_preference_from f =
     \<lparr>rp_trigger = (case rpf_trigger f of
                     Some t \<Rightarrow> Some t
                   | None \<Rightarrow> if rpf_enabled f = Some False then Some Trigger_Off else None),
      rp_mode = rpf_mode f, rp_fixes = rpf_fixes f, rp_guidance = rpf_guidance f,
      rp_notes = (case rpf_notes f of
                    None \<Rightarrow> None | Some s \<Rightarrow> if trim s = [] then None else Some (trim s))\<rparr>"

record preferences =
  admins :: "string list"
  allowed_owners :: "string list"
  owner_accounts :: "(string, nat) btree"
  revoked_owners :: "string list"
  revoked_owner_ids :: "nat set"
  default_trigger :: trigger
  default_mode :: mode
  repos :: "(string, repo_preference) btree"
  review_drafts :: bool
  index_on_push :: bool
  skip_authors :: "string list"
  external_settings :: external_policy
  fix_settings :: fix_policy

record preferences_file =
  pf_admins :: "string list"
  pf_allowed_owners :: "string list"
  pf_owner_accounts :: "(string, nat) btree"
  pf_revoked_owners :: "string list"
  pf_revoked_owner_ids :: "nat set"
  pf_default_trigger :: "trigger option"
  pf_default_mode :: mode
  pf_default_enabled :: "bool option"
  pf_repos :: "(string, repo_preference) btree"
  pf_review_drafts :: bool
  pf_index_on_push :: bool
  pf_skip_authors :: "string list option"
  pf_external :: external_policy
  pf_fixes :: fix_policy

definition preferences_default :: preferences where
  "preferences_default =
     \<lparr>admins = [], allowed_owners = [], owner_accounts = [], revoked_owners = [],
      revoked_owner_ids = {}, default_trigger = Trigger_Mention, default_mode = Mode_Standard,
      repos = [], review_drafts = False, index_on_push = False,
      skip_authors = [''dependabot[bot]'', ''renovate[bot]''],
      external_settings = external_policy_default, fix_settings = fix_policy_default\<rparr>"

definition preferences_from :: "preferences_file \<Rightarrow> preferences" where
  "preferences_from f =
     \<lparr>admins = pf_admins f, allowed_owners = pf_allowed_owners f,
      owner_accounts = pf_owner_accounts f, revoked_owners = pf_revoked_owners f,
      revoked_owner_ids = pf_revoked_owner_ids f,
      default_trigger = (case pf_default_trigger f of
                           Some t \<Rightarrow> t
                         | None \<Rightarrow> if pf_default_enabled f = Some False then Trigger_Off else Trigger_Mention),
      default_mode = pf_default_mode f, repos = pf_repos f, review_drafts = pf_review_drafts f,
      index_on_push = pf_index_on_push f,
      skip_authors = (case pf_skip_authors f of
                        Some a \<Rightarrow> a | None \<Rightarrow> skip_authors preferences_default),
      external_settings = pf_external f, fix_settings = pf_fixes f\<rparr>"

section \<open>Reviews\<close>

definition pref_trigger :: "preferences \<Rightarrow> string \<Rightarrow> trigger" where
  "pref_trigger p repo =
     (case Option.bind (map_of (repos p) repo) rp_trigger of Some t \<Rightarrow> t | None \<Rightarrow> default_trigger p)"

definition pref_mode :: "preferences \<Rightarrow> string \<Rightarrow> mode" where
  "pref_mode p repo =
     (case Option.bind (map_of (repos p) repo) rp_mode of Some m \<Rightarrow> m | None \<Rightarrow> default_mode p)"

definition reviewable :: "preferences \<Rightarrow> json \<Rightarrow> bool" where
  "reviewable p pr =
     ((review_drafts p \<or> as_bool (jidx pr ''draft'') \<noteq> Some True) \<and>
      \<not> list_ex (\<lambda>a. case as_str (jidx (jidx pr ''user'') ''login'') of
                       None \<Rightarrow> False | Some l \<Rightarrow> eq_ignore_ascii_case l a) (skip_authors p) \<and>
      as_str (jidx pr ''state'') \<noteq> Some ''closed'')"

definition is_admin :: "preferences \<Rightarrow> string \<Rightarrow> bool" where
  "is_admin p login = list_ex (\<lambda>a. eq_ignore_ascii_case a login) (admins p)"

text \<open>The repair policy that holds for a repository (\<open>fixes.rs\<close>, \<open>policy\<close>).\<close>

definition repo_fix_policy :: "preferences \<Rightarrow> string \<Rightarrow> fix_policy" where
  "repo_fix_policy p repo =
     effective (fix_settings p) (Option.bind (map_of (repos p) repo) rp_fixes)"

section \<open>Owners\<close>

definition pinned_account :: "preferences \<Rightarrow> string \<Rightarrow> (string \<times> nat) option" where
  "pinned_account p login = List.find (\<lambda>(v, _). eq_ignore_ascii_case v login) (owner_accounts p)"

definition owner_revoked :: "preferences \<Rightarrow> string \<Rightarrow> nat option \<Rightarrow> bool" where
  "owner_revoked p login acct =
     (list_ex (\<lambda>v. eq_ignore_ascii_case v login) (revoked_owners p) \<or>
      (case (case acct of Some i \<Rightarrow> Some i | None \<Rightarrow> map_option snd (pinned_account p login)) of
         None \<Rightarrow> False | Some i \<Rightarrow> i \<in> revoked_owner_ids p))"

definition owner_impostor :: "preferences \<Rightarrow> string \<Rightarrow> nat option \<Rightarrow> bool" where
  "owner_impostor p login acct =
     (case (acct, pinned_account p login) of (Some i, Some (_, pin)) \<Rightarrow> i \<noteq> pin | _ \<Rightarrow> False)"

definition owner_allowed :: "preferences \<Rightarrow> string \<Rightarrow> nat option \<Rightarrow> bool \<Rightarrow> bool" where
  "owner_allowed p login acct implicit =
     (if owner_revoked p login acct then False
      else if owner_impostor p login acct then False
      else implicit \<or>
        list_ex (\<lambda>a. eq_ignore_ascii_case a login \<or>
            (case acct of None \<Rightarrow> False
             | Some i \<Rightarrow> map_of (owner_accounts p) (to_ascii_lowercase a) = Some i)) (allowed_owners p))"

definition approve_owner :: "string \<Rightarrow> nat option \<Rightarrow> preferences \<Rightarrow> preferences" where
  "approve_owner login0 acct p =
     (let login = to_ascii_lowercase login0;
          p = p\<lparr>revoked_owners := filter (\<lambda>v. \<not> eq_ignore_ascii_case v login) (revoked_owners p)\<rparr>;
          p = (case acct of
                 Some i \<Rightarrow>
                   if i = 0 then p
                   else p\<lparr>revoked_owner_ids := revoked_owner_ids p - {i},
                          allowed_owners := filter (\<lambda>a.
                            map_of (owner_accounts p) (to_ascii_lowercase a) \<noteq> Some i \<or>
                            eq_ignore_ascii_case a login) (allowed_owners p),
                          owner_accounts := bt_insert (login, i) (owner_accounts p)\<rparr>
               | None \<Rightarrow> p) in
      if list_ex (\<lambda>v. eq_ignore_ascii_case v login) (allowed_owners p) then p
      else p\<lparr>allowed_owners := allowed_owners p @ [login]\<rparr>)"

definition revoke_owner :: "string \<Rightarrow> nat option \<Rightarrow> preferences \<Rightarrow> preferences" where
  "revoke_owner login acct p =
     (let p = p\<lparr>allowed_owners := filter (\<lambda>v. \<not> eq_ignore_ascii_case v login \<and>
                  \<not> (case acct of None \<Rightarrow> False
                     | Some i \<Rightarrow> map_of (owner_accounts p) (to_ascii_lowercase v) = Some i))
                (allowed_owners p)\<rparr>;
          p = (if list_ex (\<lambda>v. eq_ignore_ascii_case v login) (revoked_owners p) then p
               else p\<lparr>revoked_owners := revoked_owners p @ [to_ascii_lowercase login]\<rparr>) in
      case acct of None \<Rightarrow> p | Some i \<Rightarrow> p\<lparr>revoked_owner_ids := insert i (revoked_owner_ids p)\<rparr>)"

section \<open>Lemmas\<close>

lemma ascii_lower_idem [simp]: "ascii_lower (ascii_lower c) = ascii_lower c"
proof (cases "65 \<le> (of_char c :: nat) \<and> (of_char c :: nat) \<le> 90")
  case True
  then have low: "ascii_lower c = char_of (of_char c + 32 :: nat)" by (simp add: ascii_lower_def)
  have "(of_char (char_of (of_char c + 32 :: nat) :: char) :: nat) = of_char c + 32"
    using True by simp
  then show ?thesis using low True by (simp add: ascii_lower_def)
next
  case False
  then have "ascii_lower c = c" by (auto simp: ascii_lower_def Let_def)
  then show ?thesis by simp
qed

lemma to_ascii_lowercase_idem [simp]:
  "to_ascii_lowercase (to_ascii_lowercase s) = to_ascii_lowercase s"
  by (simp add: to_ascii_lowercase_def)

lemma eq_ignore_lowercase [simp]:
  "eq_ignore_ascii_case (to_ascii_lowercase a) b = eq_ignore_ascii_case a b"
  "eq_ignore_ascii_case a (to_ascii_lowercase b) = eq_ignore_ascii_case a b"
  by (simp_all add: eq_ignore_ascii_case_def)

lemma eq_ignore_refl [simp]: "eq_ignore_ascii_case a a"
  by (simp add: eq_ignore_ascii_case_def)

lemma eq_ignore_sym: "eq_ignore_ascii_case a b = eq_ignore_ascii_case b a"
  by (auto simp: eq_ignore_ascii_case_def)

lemma eq_ignore_trans:
  "eq_ignore_ascii_case a b \<Longrightarrow> eq_ignore_ascii_case b c \<Longrightarrow> eq_ignore_ascii_case a c"
  by (simp add: eq_ignore_ascii_case_def)

text \<open>A revocation names a login and perhaps an account; neither is let in again under any spelling,
  and not through the implicit list of owners either.\<close>

lemma revoke_owner_login:
  "eq_ignore_ascii_case l login \<Longrightarrow> owner_revoked (revoke_owner login acct p) l i"
  by (auto simp: owner_revoked_def revoke_owner_def Let_def list_ex_iff split: option.splits
      intro: eq_ignore_trans dest: eq_ignore_sym[THEN iffD1])

lemma revoke_owner_account:
  "owner_revoked (revoke_owner login (Some i) p) l (Some i)"
  by (auto simp: owner_revoked_def revoke_owner_def Let_def)

lemma owner_revoked_denied: "owner_revoked p l i \<Longrightarrow> \<not> owner_allowed p l i imp"
  by (simp add: owner_allowed_def)

end
