(* ===== verification/Events.thy ===== *)
theory Events
  imports Preferences
begin

text \<open>
  Webhook deliveries and the jobs they ask for (\<open>src/src/server/events.rs\<close>): repositories and
  their parsing, sources, job keys, job content, and \<open>map_with_preferences\<close>, which turns a
  delivery into an event.  Library code is a parameter: \<open>rfc3339\<close> reads an RFC 3339 time as Unix
  seconds (\<open>chrono\<close>), and \<open>uid\<close> is the fresh identifier a new job gets (\<open>uuid\<close>).
\<close>

section \<open>Repositories and keys\<close>

datatype source = Installed | External
datatype publication = Github | Private

text \<open>The derived order of the enum: \<open>Installed\<close> before \<open>External\<close>.\<close>

instantiation source :: linorder
begin

definition less_eq_source :: "source \<Rightarrow> source \<Rightarrow> bool" where
  "less_eq_source a b = (a = Installed \<or> b = External)"

definition less_source :: "source \<Rightarrow> source \<Rightarrow> bool" where
  "less_source a b = (a = Installed \<and> b = External)"

instance
  by standard (auto simp: less_eq_source_def less_source_def, (metis source.exhaust)+)

end

type_synonym key = "nat \<times> nat \<times> source"

abbreviation key_repo :: "key \<Rightarrow> nat" where "key_repo k \<equiv> fst k"
abbreviation key_number :: "key \<Rightarrow> nat" where "key_number k \<equiv> fst (snd k)"
abbreviation key_source :: "key \<Rightarrow> source" where "key_source k \<equiv> snd (snd k)"

record repo =
  repo_id :: nat
  installation :: "nat option"
  full_name :: string
  default_branch :: string
  pushed_at :: string

definition int_text :: "json \<Rightarrow> string" where
  "int_text v = (case v of JNat n \<Rightarrow> nat_str n | JNeg n \<Rightarrow> CHR ''-'' # nat_str n | JFloat s \<Rightarrow> s | _ \<Rightarrow> [])"

text \<open>A timestamp before 1970 is negative.\<close>

definition timestamp_text :: "int \<Rightarrow> string" where
  "timestamp_text t = (if t < 0 then CHR ''-'' # nat_str (nat (- t)) else nat_str (nat t))"

definition parse_pushed_at :: "(string \<Rightarrow> int option) \<Rightarrow> json \<Rightarrow> string" where
  "parse_pushed_at rfc3339 v =
     (case v of
        JStr s \<Rightarrow> (case rfc3339 s of Some t \<Rightarrow> timestamp_text t | None \<Rightarrow> s)
      | JNat n \<Rightarrow> int_text v
      | JNeg n \<Rightarrow> int_text v
      | JFloat s \<Rightarrow> int_text v
      | _ \<Rightarrow> [])"

definition repo_name_byte :: "char \<Rightarrow> bool" where
  "repo_name_byte c = (is_ascii_alphanumeric c \<or> c \<in> set ''-_.'')"

definition bad_name_part :: "string \<Rightarrow> bool" where
  "bad_name_part part =
     (part = [] \<or> part = ''.'' \<or> part = ''..'' \<or> \<not> list_all repo_name_byte part)"

definition repo_parse :: "(string \<Rightarrow> int option) \<Rightarrow> json \<Rightarrow> nat option \<Rightarrow> string + repo" where
  "repo_parse rfc3339 v inst =
     (case as_str (jidx v ''full_name'') of
        None \<Rightarrow> Inl ''repository missing full_name''
      | Some name \<Rightarrow>
          (let parts = split_char (CHR ''/'') name in
           if length parts \<noteq> 2 \<or> list_ex bad_name_part parts
           then Inl ''invalid repository full_name''
           else (case as_u64 (jidx v ''id'') of
                   None \<Rightarrow> Inl ''repository missing id''
                 | Some i \<Rightarrow>
                     Inr \<lparr>repo_id = i, installation = inst, full_name = name,
                          default_branch = str_or ''main'' (jidx v ''default_branch''),
                          pushed_at = parse_pushed_at rfc3339 (jidx v ''pushed_at'')\<rparr>)))"

definition installation_id :: "repo \<Rightarrow> string + nat" where
  "installation_id r =
     (case installation r of
        Some i \<Rightarrow> Inr i | None \<Rightarrow> Inl ''external targets have no installation'')"

definition repo_source :: "repo \<Rightarrow> source" where
  "repo_source r = (if installation r \<noteq> None then Installed else External)"

section \<open>Jobs\<close>

datatype kind = Review nat json bool | Index | Remove

record job =
  job_id :: string
  job_trigger :: string
  job_mode :: mode
  job_repo :: repo
  job_kind :: kind

definition new_job :: "string \<Rightarrow> repo \<Rightarrow> kind \<Rightarrow> string \<Rightarrow> job" where
  "new_job uid r k trig =
     \<lparr>job_id = uid, job_trigger = trig, job_mode = Mode_Standard, job_repo = r, job_kind = k\<rparr>"

definition job_key :: "job \<Rightarrow> key" where
  "job_key j =
     (repo_id (job_repo j), case job_kind j of Review number _ _ \<Rightarrow> number | _ \<Rightarrow> 0,
      repo_source (job_repo j))"

fun publication_of :: "source \<Rightarrow> publication" where
  "publication_of Installed = Github"
| "publication_of External = Private"

definition job_publication :: "job \<Rightarrow> publication" where
  "job_publication j = publication_of (repo_source (job_repo j))"

definition job_head :: "job \<Rightarrow> string" where
  "job_head j = (case job_kind j of Review _ pr _ \<Rightarrow> str_or [] (jidx (jidx pr ''head'') ''sha'') | _ \<Rightarrow> [])"

definition job_base_ref :: "job \<Rightarrow> string" where
  "job_base_ref j = (case job_kind j of Review _ pr _ \<Rightarrow> str_or [] (jidx (jidx pr ''base'') ''ref'') | _ \<Rightarrow> [])"

definition same_content :: "job \<Rightarrow> job \<Rightarrow> bool" where
  "same_content a b = (job_head a = job_head b \<and> job_base_ref a = job_base_ref b)"

definition job_event :: "job \<Rightarrow> json" where
  "job_event j =
     (case job_kind j of
        Review number pr _ \<Rightarrow>
          JObj [(''repository'', JObj [(''full_name'', JStr (full_name (job_repo j)))]),
                (''number'', JNat number), (''pull_request'', pr)]
      | _ \<Rightarrow> JNull)"

definition is_review :: "job \<Rightarrow> bool" where
  "is_review j = (case job_kind j of Review _ _ _ \<Rightarrow> True | _ \<Rightarrow> False)"

definition forced :: "kind \<Rightarrow> bool" where
  "forced k = (case k of Review _ _ f \<Rightarrow> f | _ \<Rightarrow> False)"

section \<open>Commands in comments (the request a mention becomes)\<close>

datatype fix_command = Fix_Request "string list option" | Fix_Status | Fix_Cancel
datatype command = Cmd_Review "mode option" | Cmd_Fix fix_command | Cmd_Help

record request =
  rq_repo :: repo
  rq_number :: nat
  rq_comment :: nat
  rq_command :: command
  rq_actor :: string

section \<open>Events\<close>

datatype event =
    Ev_Job job
  | Ev_Retarget job
  | Ev_Close nat nat
  | Ev_Rerequest repo nat
  | Ev_Mention request
  | Ev_RemoveInstallation nat
  | Ev_RemoveRepos "repo list"
  | Ev_Ignore

fun collect_results :: "('e + 'a) list \<Rightarrow> 'e + 'a list" where
  "collect_results [] = Inr []"
| "collect_results (Inl e # _) = Inl e"
| "collect_results (Inr x # xs) = (case collect_results xs of Inl e \<Rightarrow> Inl e | Inr ys \<Rightarrow> Inr (x # ys))"

definition removed_repos :: "(string \<Rightarrow> int option) \<Rightarrow> json \<Rightarrow> nat \<Rightarrow> string + event" where
  "removed_repos rfc3339 v inst =
     (case as_array (jidx v ''repositories_removed'') of
        None \<Rightarrow> Inl ''event missing removed repositories''
      | Some a \<Rightarrow> map_sum id Ev_RemoveRepos
          (collect_results (map (\<lambda>r. repo_parse rfc3339 r (Some inst)) a)))"

definition retarget_event :: "string \<Rightarrow> json \<Rightarrow> preferences \<Rightarrow> repo \<Rightarrow> string + event" where
  "retarget_event uid v prefs r =
     (case as_u64 (jidx v ''number'') of
        None \<Rightarrow> Inl ''event missing PR number''
      | Some number \<Rightarrow>
          Inr (Ev_Retarget ((new_job uid r (Review number (jidx v ''pull_request'') False) ''auto'')
                 \<lparr>job_mode := pref_mode prefs (full_name r)\<rparr>)))"

definition pull_request_event :: "string \<Rightarrow> json \<Rightarrow> preferences \<Rightarrow> repo \<Rightarrow> string + event" where
  "pull_request_event uid v prefs r =
     (let action = str_or [] (jidx v ''action''); trig = pref_trigger prefs (full_name r);
          pr = jidx v ''pull_request'' in
      case as_u64 (jidx v ''number'') of
        None \<Rightarrow> Inl ''event missing PR number''
      | Some number \<Rightarrow>
          if action \<in> {''opened'', ''reopened'', ''synchronize'', ''ready_for_review''} \<and>
             trig = Trigger_Auto \<and> reviewable prefs pr
          then Inr (Ev_Job \<lparr>job_id = uid, job_trigger = ''auto'',
                 job_mode = pref_mode prefs (full_name r), job_repo = r,
                 job_kind = Review number pr False\<rparr>)
          else if action \<in> {''opened'', ''reopened'', ''ready_for_review''} \<and>
             trig = Trigger_Mention \<and> reviewable prefs pr \<and>
             as_str (jidx (jidx pr ''base'') ''ref'') = Some (default_branch r)
          then Inr (Ev_Job (new_job uid r Index ''pull_request''))
          else Inr Ev_Ignore)"

definition push_event :: "string \<Rightarrow> json \<Rightarrow> preferences \<Rightarrow> repo \<Rightarrow> string + event" where
  "push_event uid v prefs r =
     (if index_on_push prefs \<and>
         as_str (jidx v ''ref'') = Some (''refs/heads/'' @ default_branch r) \<and>
         as_bool (jidx v ''deleted'') \<noteq> Some True
      then Inr (Ev_Job \<lparr>job_id = uid, job_trigger = ''webhook'', job_mode = Mode_Standard,
             job_repo = r, job_kind = Index\<rparr>)
      else Inr Ev_Ignore)"

definition check_run_event :: "json \<Rightarrow> nat \<Rightarrow> repo \<Rightarrow> string + event" where
  "check_run_event v app_id r =
     (let check = jidx v ''check_run'' in
      if str_or [] (jidx v ''action'') = ''rerequested'' \<and>
         as_str (jidx check ''name'') = Some ''Revera'' \<and>
         as_u64 (jidx (jidx check ''app'') ''id'') = Some app_id
      then (case Option.bind (as_str (jidx check ''external_id'')) parse_u64 of
              Some n \<Rightarrow> if n > 0 then Inr (Ev_Rerequest r n) else Inl ''check missing PR external_id''
            | None \<Rightarrow> Inl ''check missing PR external_id'')
      else Inr Ev_Ignore)"

definition repo_event :: "string \<Rightarrow> string \<Rightarrow> json \<Rightarrow> nat \<Rightarrow> preferences \<Rightarrow> repo \<Rightarrow> string + event" where
  "repo_event uid event v app_id prefs r =
     (let action = str_or [] (jidx v ''action'') in
      if event = ''pull_request'' \<and> action = ''closed''
      then (case as_u64 (jidx v ''number'') of
              None \<Rightarrow> Inl ''missing PR number'' | Some n \<Rightarrow> Inr (Ev_Close (repo_id r) n))
      else if event = ''pull_request'' \<and> action = ''edited'' \<and> jget (jidx v ''changes'') ''base'' \<noteq> None
      then retarget_event uid v prefs r
      else if pref_trigger prefs (full_name r) = Trigger_Off then Inr Ev_Ignore
      else if event = ''pull_request'' then pull_request_event uid v prefs r
      else if event = ''push'' then push_event uid v prefs r
      else check_run_event v app_id r)"

definition map_with_preferences ::
  "(string \<Rightarrow> int option) \<Rightarrow> string \<Rightarrow> string \<Rightarrow> json \<Rightarrow> nat \<Rightarrow> preferences \<Rightarrow> string + event" where
  "map_with_preferences rfc3339 uid event v app_id prefs =
     (case as_u64 (jidx (jidx v ''installation'') ''id'') of
        None \<Rightarrow> Inl ''event missing installation''
      | Some inst \<Rightarrow>
          (let action = str_or [] (jidx v ''action'') in
           if event = ''installation'' \<and> action = ''deleted'' then Inr (Ev_RemoveInstallation inst)
           else if event = ''installation_repositories'' \<and> action = ''removed''
           then removed_repos rfc3339 v inst
           else if event \<notin> {''pull_request'', ''push'', ''check_run''} then Inr Ev_Ignore
           else (case repo_parse rfc3339 (jidx v ''repository'') (Some inst) of
                   Inl e \<Rightarrow> Inl e
                 | Inr r \<Rightarrow> repo_event uid event v app_id prefs r)))"

end
