(* ===== verification/Fix_Record.thy ===== *)
theory Fix_Record
  imports Fix_Settings Events Handoff
begin

text \<open>
  The durable record of a repair request (\<open>src/src/server/fixes.rs\<close>: \<open>Audit\<close>, \<open>Record\<close>,
  \<open>ContextData\<close>, \<open>Entry\<close>): the bounded audit trail and the transition of states.  States are the
  strings the source stores.  The clock is an argument: \<open>at\<close> is the current time as text; \<open>red\<close> is
  \<open>redact::text\<close>.  A counter of a repeated event saturates at \<open>u64::MAX\<close>.
\<close>

record audit =
  au_at :: string
  au_actor :: string
  au_action :: string
  au_detail :: string
  au_count :: nat
  au_last_at :: "string option"

definition is_one :: "nat \<Rightarrow> bool" where "is_one n = (n = 1)"

record fix_record =
  fr_id :: string
  fr_created_at :: string
  fr_updated_at :: string
  fr_state :: string
  fr_reason :: "string option"
  fr_source :: string
  fr_requested_by :: string
  fr_consent :: "string option"
  fr_repo :: string
  fr_repo_source :: source
  fr_pr :: nat
  fr_pr_url :: string
  fr_pr_title :: string
  fr_review_job :: string
  fr_base_sha :: string
  fr_head_sha :: string
  fr_findings :: "json list"
  fr_attempt :: nat
  fr_max_attempts :: nat
  fr_progress :: "string option"
  fr_generation :: "json option"
  fr_verification :: "json option"
  fr_tests :: "json option"
  fr_patch :: "json option"
  fr_usage :: "json option"
  fr_delivery :: "json option"
  fr_verify_review :: "json option"
  fr_events :: "audit list"

record context_data =
  cd_repo :: repo
  cd_findings :: "finding list"
  cd_policy :: fix_policy
  cd_key :: string
  cd_preview_only :: bool
  cd_confirmed_by :: "string option"
  cd_note :: string

record fix_entry =
  fe_record :: fix_record
  fe_context :: context_data

section \<open>The audit trail\<close>

text \<open>\<open>iter().rposition(p)\<close>: the index of the last element that satisfies \<open>p\<close>.\<close>

definition rposition :: "('a \<Rightarrow> bool) \<Rightarrow> 'a list \<Rightarrow> nat option" where
  "rposition p xs = map_option (\<lambda>i. length xs - Suc i) (position p (rev xs))"

definition has_act :: "string \<Rightarrow> audit \<Rightarrow> bool" where
  "has_act a e = (au_action e = a)"

definition protected :: "audit list \<Rightarrow> nat option list" where
  "protected es =
     [position (has_act ''requested'') es, rposition (has_act ''approved'') es,
      rposition (has_act ''published'') es]"

definition remove_at :: "nat \<Rightarrow> 'a list \<Rightarrow> 'a list" where
  "remove_at i xs = take i xs @ drop (Suc i) xs"

definition MAX_EVENTS :: nat where "MAX_EVENTS = 200"

text \<open>The oldest unprotected event; three are protected and there are more than 200, so there is one.\<close>

definition oldest :: "audit list \<Rightarrow> nat option" where
  "oldest es = List.find (\<lambda>i. Some i \<notin> set (protected es)) [0..<length es]"

function bound_list :: "audit list \<Rightarrow> audit list" where
  "bound_list es =
     (if length es \<le> MAX_EVENTS then es
      else (case oldest es of
              None \<Rightarrow> es
            | Some i \<Rightarrow> bound_list (remove_at i es)))"
  by pat_completeness auto
termination
proof (relation "measure length")
  fix es i
  assume "oldest es = Some i"
  then have "i < length es" by (auto simp: oldest_def dest: find_Some_iff_set)
  then show "(remove_at i es, es) \<in> measure length" by (simp add: remove_at_def)
qed simp

declare bound_list.simps [simp del]

definition bound_events :: "fix_record \<Rightarrow> fix_record" where
  "bound_events r = r\<lparr>fr_events := bound_list (fr_events r)\<rparr>"

definition same_event :: "string \<Rightarrow> string \<Rightarrow> string \<Rightarrow> audit \<Rightarrow> bool" where
  "same_event actor action detail e =
     (au_actor e = actor \<and> au_action e = action \<and> au_detail e = detail)"

definition bump :: "string \<Rightarrow> audit \<Rightarrow> audit" where
  "bump at e = e\<lparr>au_count := min (Suc (au_count e)) (2 ^ 64 - 1), au_last_at := Some at\<rparr>"

definition audit ::
  "(string \<Rightarrow> string) \<Rightarrow> string \<Rightarrow> string \<Rightarrow> string \<Rightarrow> string \<Rightarrow> fix_record \<Rightarrow> fix_record" where
  "audit red at actor action detail0 r0 =
     (let r = r0\<lparr>fr_updated_at := at\<rparr>;
          detail = handoff_text red detail0 4000 in
      case rposition (same_event actor action detail) (fr_events r) of
        Some i \<Rightarrow> r\<lparr>fr_events := (fr_events r)[i := bump at (fr_events r ! i)]\<rparr>
      | None \<Rightarrow>
          bound_events (r\<lparr>fr_events := fr_events r @
            [\<lparr>au_at = at, au_actor = actor, au_action = action, au_detail = detail, au_count = 1,
              au_last_at = None\<rparr>]\<rparr>))"

section \<open>States\<close>

definition progress_states :: "string set" where
  "progress_states = {''generating'', ''validating'', ''publishing'', ''verifying''}"

definition transition ::
  "(string \<Rightarrow> string) \<Rightarrow> string \<Rightarrow> string \<Rightarrow> string option \<Rightarrow> string \<Rightarrow> string \<Rightarrow> fix_record \<Rightarrow> fix_record" where
  "transition red at st reason actor action r =
     audit red at actor action (case reason of Some d \<Rightarrow> d | None \<Rightarrow> st)
       (r\<lparr>fr_state := st,
          fr_reason := map_option (\<lambda>s. handoff_text red s 4000) reason,
          fr_progress := (if st \<in> progress_states then Some st else None)\<rparr>)"

definition active_states :: "string set" where
  "active_states = {''awaiting_confirmation'', ''queued'', ''generating'', ''validating'', ''ready'',
     ''publishing'', ''published'', ''verifying'', ''verified''}"

definition active :: "fix_record \<Rightarrow> bool" where
  "active r = (fr_state r \<in> active_states)"

definition regenerable_states :: "string set" where
  "regenerable_states = {''ready'', ''failed'', ''validation_failed'', ''unsupported'', ''cancelled''}"

definition regenerable :: "fix_record \<Rightarrow> bool" where
  "regenerable r = (fr_attempt r < fr_max_attempts r \<and> fr_state r \<in> regenerable_states)"

text \<open>Every state the program writes.\<close>

definition known_states :: "string set" where
  "known_states = active_states \<union>
     {''failed'', ''validation_failed'', ''unsupported'', ''cancelled'', ''discarded'', ''stale'',
      ''publish_failed''}"

section \<open>What the bound keeps\<close>

lemma rposition_Some:
  assumes "rposition p xs = Some i"
  shows "i < length xs \<and> p (xs ! i)"
proof -
  from assms obtain j where j: "position p (rev xs) = Some j" and i: "i = length xs - Suc j"
    by (auto simp: rposition_def)
  from position_Some[OF j] have "j < length xs" "p (rev xs ! j)" by auto
  then show ?thesis using i by (simp add: rev_nth)
qed

lemma rposition_None: "rposition p xs = None \<longleftrightarrow> (\<forall>x\<in>set xs. \<not> p x)"
  by (simp add: rposition_def position_None)

lemma set_remove_at: "i < length xs \<Longrightarrow> set (remove_at i xs) \<supseteq> {xs ! j | j. j < length xs \<and> j \<noteq> i}"
proof safe
  fix j assume i: "i < length xs" and j: "j < length xs" "j \<noteq> i"
  show "xs ! j \<in> set (remove_at i xs)"
  proof (cases "j < i")
    case True
    then have "xs ! j = take i xs ! j" "j < length (take i xs)" using i by simp_all
    then show ?thesis unfolding remove_at_def by (metis in_set_conv_nth UnCI set_append)
  next
    case False
    then have "xs ! j = drop (Suc i) xs ! (j - Suc i)" "j - Suc i < length (drop (Suc i) xs)"
      using j by simp_all
    then show ?thesis unfolding remove_at_def by (metis in_set_conv_nth UnCI set_append)
  qed
qed

lemma subseq_remove_at: "subseq (remove_at i xs) xs"
proof (induction xs arbitrary: i)
  case (Cons x xs)
  then show ?case by (cases i) (auto simp: remove_at_def intro: list_emb_Cons)
qed (simp add: remove_at_def)

lemma oldest_unprotected: "oldest es = Some i \<Longrightarrow> i < length es \<and> Some i \<notin> set (protected es)"
  by (auto simp: oldest_def dest: find_Some_iff_set)

lemma oldest_exists: "MAX_EVENTS < length es \<Longrightarrow> oldest es \<noteq> None"
proof
  assume long: "MAX_EVENTS < length es" and "oldest es = None"
  then have "Some ` {0..<length es} \<subseteq> set (protected es)"
    by (auto simp: oldest_def find_None_iff)
  then have "card (Some ` {0..<length es}) \<le> card (set (protected es))" by (intro card_mono) simp_all
  also have "card (set (protected es)) \<le> length (protected es)" by (rule card_length)
  also have "length (protected es) = 3" by (simp add: protected_def)
  finally have "length es \<le> 3" by (simp add: card_image)
  with long show False by (simp add: MAX_EVENTS_def)
qed

text \<open>An action that the bound protects keeps an event; the result is a part of the trail, in order.\<close>

definition keeps_actions :: "audit list \<Rightarrow> audit list \<Rightarrow> bool" where
  "keeps_actions es es' =
     (subseq es' es \<and>
      (\<forall>a\<in>{''requested'', ''approved'', ''published''}. list_ex (has_act a) es \<longrightarrow> list_ex (has_act a) es'))"

lemma keeps_actions_refl: "keeps_actions es es"
  by (simp add: keeps_actions_def)

lemma keeps_actions_trans: "keeps_actions a b \<Longrightarrow> keeps_actions b c \<Longrightarrow> keeps_actions a c"
  by (auto simp: keeps_actions_def intro: subseq_order.order_trans)

lemma remove_unprotected:
  assumes "oldest es = Some i"
  shows "keeps_actions es (remove_at i es)"
proof -
  note i = oldest_unprotected[OF assms]
  have kept: "list_ex (has_act a) (remove_at i es)"
    if "j \<noteq> i" "j < length es" "has_act a (es ! j)" for a j
    using set_remove_at[of i es] i that by (auto simp: list_ex_iff)
  have "list_ex (has_act a) (remove_at i es)"
    if a: "a \<in> {''requested'', ''approved'', ''published''}" and ex: "list_ex (has_act a) es" for a
  proof -
    obtain j where "j < length es" "has_act a (es ! j)" "Some j \<in> set (protected es)"
    proof (cases "a = ''requested''")
      case True
      with ex have "position (has_act a) es \<noteq> None" by (auto simp: position_None list_ex_iff)
      then obtain j where "position (has_act a) es = Some j" by auto
      with True position_Some[OF this] show ?thesis by (intro that[of j]) (auto simp: protected_def)
    next
      case False
      from ex have "rposition (has_act a) es \<noteq> None" by (auto simp: rposition_None list_ex_iff)
      then obtain j where "rposition (has_act a) es = Some j" by auto
      with False a rposition_Some[OF this] show ?thesis by (intro that[of j]) (auto simp: protected_def)
    qed
    then show ?thesis using kept i by metis
  qed
  then show ?thesis using subseq_remove_at[of i es] unfolding keeps_actions_def by blast
qed

lemma bound_list_keeps: "keeps_actions es (bound_list es)"
proof (induction es rule: bound_list.induct)
  case (1 es)
  show ?case
  proof (cases "length es \<le> MAX_EVENTS \<or> oldest es = None")
    case False
    then obtain i where i: "oldest es = Some i" by auto
    with False have "bound_list es = bound_list (remove_at i es)"
      by (simp add: bound_list.simps[of es])
    then show ?thesis using 1 False i keeps_actions_trans remove_unprotected by fastforce
  qed (auto simp: bound_list.simps[of es] keeps_actions_refl)
qed

lemma bound_list_length: "length (bound_list es) \<le> MAX_EVENTS"
proof (induction es rule: bound_list.induct)
  case (1 es)
  show ?case
  proof (cases "length es \<le> MAX_EVENTS")
    case False
    with oldest_exists[of es] obtain i where "oldest es = Some i" by auto
    with 1 False show ?thesis by (simp add: bound_list.simps[of es])
  qed (simp add: bound_list.simps[of es])
qed

text \<open>Fields that an audit entry leaves alone.\<close>

lemma audit_fields [simp]:
  "fr_state (audit red at actor action d r) = fr_state r"
  "fr_reason (audit red at actor action d r) = fr_reason r"
  "fr_consent (audit red at actor action d r) = fr_consent r"
  "fr_repo_source (audit red at actor action d r) = fr_repo_source r"
  "fr_id (audit red at actor action d r) = fr_id r"
  "fr_attempt (audit red at actor action d r) = fr_attempt r"
  "fr_max_attempts (audit red at actor action d r) = fr_max_attempts r"
  "fr_progress (audit red at actor action d r) = fr_progress r"
  "fr_repo (audit red at actor action d r) = fr_repo r"
  "fr_pr (audit red at actor action d r) = fr_pr r"
  "fr_head_sha (audit red at actor action d r) = fr_head_sha r"
  "fr_tests (audit red at actor action d r) = fr_tests r"
  "fr_verification (audit red at actor action d r) = fr_verification r"
  "fr_delivery (audit red at actor action d r) = fr_delivery r"
  "fr_verify_review (audit red at actor action d r) = fr_verify_review r"
  "fr_created_at (audit red at actor action d r) = fr_created_at r"
  by (simp_all add: audit_def bound_events_def Let_def split: option.split)

lemma transition_fields [simp]:
  "fr_state (transition red at st reason actor action r) = st"
  "fr_consent (transition red at st reason actor action r) = fr_consent r"
  "fr_repo_source (transition red at st reason actor action r) = fr_repo_source r"
  "fr_id (transition red at st reason actor action r) = fr_id r"
  "fr_attempt (transition red at st reason actor action r) = fr_attempt r"
  "fr_max_attempts (transition red at st reason actor action r) = fr_max_attempts r"
  "fr_repo (transition red at st reason actor action r) = fr_repo r"
  "fr_pr (transition red at st reason actor action r) = fr_pr r"
  "fr_head_sha (transition red at st reason actor action r) = fr_head_sha r"
  "fr_tests (transition red at st reason actor action r) = fr_tests r"
  "fr_verification (transition red at st reason actor action r) = fr_verification r"
  "fr_delivery (transition red at st reason actor action r) = fr_delivery r"
  "fr_verify_review (transition red at st reason actor action r) = fr_verify_review r"
  by (simp_all add: transition_def)

definition logged :: "string \<Rightarrow> fix_record \<Rightarrow> bool" where
  "logged a r = list_ex (has_act a) (fr_events r)"

lemma bump_act [simp]: "has_act a (bump at e) = has_act a e"
  by (simp add: has_act_def bump_def)

lemma list_ex_update:
  "i < length es \<Longrightarrow> has_act a e = has_act a (es ! i) \<Longrightarrow> list_ex (has_act a) (es[i := e]) = list_ex (has_act a) es"
proof -
  assume i: "i < length es" and e: "has_act a e = has_act a (es ! i)"
  have "list_ex (has_act a) (es[i := e]) \<longleftrightarrow> (\<exists>j<length es. has_act a (es[i := e] ! j))"
    by (simp add: list_ex_length)
  also have "\<dots> \<longleftrightarrow> (\<exists>j<length es. has_act a (es ! j))"
    using i e by (auto simp: nth_list_update split: if_splits)
  finally show ?thesis by (simp add: list_ex_length)
qed

lemma audit_keeps_logged:
  assumes "a \<in> {''requested'', ''approved'', ''published''}" and "logged a r"
  shows "logged a (audit red at actor action d r)"
proof (cases "rposition (same_event actor action (handoff_text red d 4000)) (fr_events r)")
  case (Some i)
  then show ?thesis using rposition_Some[OF Some] assms(2)
    by (simp add: logged_def audit_def Let_def list_ex_update)
next
  case None
  let ?new = "\<lparr>au_at = at, au_actor = actor, au_action = action, au_detail = handoff_text red d 4000,
    au_count = 1, au_last_at = None\<rparr>"
  have "list_ex (has_act a) (fr_events r @ [?new])" using assms(2) by (simp add: logged_def)
  then have "list_ex (has_act a) (bound_list (fr_events r @ [?new]))"
    using bound_list_keeps[of "fr_events r @ [?new]"] assms(1) unfolding keeps_actions_def by blast
  then show ?thesis using None by (simp add: logged_def audit_def Let_def bound_events_def)
qed

lemma audit_logs:
  assumes "a \<in> {''requested'', ''approved'', ''published''}"
  shows "logged a (audit red at actor a d r)"
proof (cases "rposition (same_event actor a (handoff_text red d 4000)) (fr_events r)")
  case (Some i)
  have "has_act a (fr_events r ! i)" using rposition_Some[OF Some] by (simp add: same_event_def has_act_def)
  then have "logged a r" using rposition_Some[OF Some] by (auto simp: logged_def list_ex_length)
  then show ?thesis by (rule audit_keeps_logged[OF assms])
next
  case None
  let ?new = "\<lparr>au_at = at, au_actor = actor, au_action = a, au_detail = handoff_text red d 4000,
    au_count = 1, au_last_at = None\<rparr>"
  have "list_ex (has_act a) (fr_events r @ [?new])" by (simp add: has_act_def)
  then have "list_ex (has_act a) (bound_list (fr_events r @ [?new]))"
    using bound_list_keeps[of "fr_events r @ [?new]"] assms unfolding keeps_actions_def by blast
  then show ?thesis using None by (simp add: logged_def audit_def Let_def bound_events_def)
qed

lemma transition_keeps_logged:
  "a \<in> {''requested'', ''approved'', ''published''} \<Longrightarrow> logged a r \<Longrightarrow>
   logged a (transition red at st reason actor action r)"
  unfolding transition_def by (rule audit_keeps_logged) (simp_all add: logged_def)

lemma audit_bounded:
  "length (fr_events r) \<le> MAX_EVENTS \<Longrightarrow> length (fr_events (audit red at actor action d r)) \<le> MAX_EVENTS"
  by (simp add: audit_def Let_def bound_events_def bound_list_length split: option.split)

end
