(* ===== verification/Queue.thy ===== *)
theory Queue
  imports Events
begin

text \<open>
  The job queue of the server (\<open>src/src/server/queue.rs\<close>) and the part of the server that drives it
  (\<open>retarget\<close> of \<open>events.rs\<close>, the dispatcher of \<open>mod.rs\<close>).  \<open>pending\<close> and \<open>running\<close> are ordered maps
  under the job's key.  A running job's watch channel is its current value and whether its receiver
  still exists (a \<open>send\<close> without receiver is an error and leaves the value).

  An admission's token is an \<open>Arc\<close>; the queue holds it as a \<open>Weak\<close>.  A token is the number of its
  allocation; the argument \<open>live\<close> tells whether a token still has a strong reference, \<open>fresh\<close> is the
  allocation that \<open>Arc::new\<close> makes.  \<open>Weak::new()\<close>, which no token upgrades from, is \<open>None\<close>.
\<close>

section \<open>State\<close>

record running_job =
  run_job :: job
  run_cancel :: bool
  run_receiver :: bool

record review_admission =
  adm_key :: key
  adm_token :: nat
  adm_observed_at :: nat

record queue =
  pending :: "(key, job) btree"
  running :: "(key, running_job) btree"
  admissions :: "(key, nat option) btree"
  observation_sequence :: nat
  observations :: "(key, nat) btree"

definition queue_default :: queue where
  "queue_default = \<lparr>pending = [], running = [], admissions = [], observation_sequence = 0,
     observations = []\<rparr>"

text \<open>The key of the repository's listing, under which a whole-repository lookup is admitted.\<close>

definition listing_key :: "key \<Rightarrow> key" where
  "listing_key k = (key_repo k, 0, key_source k)"

definition send_cancel :: "running_job \<Rightarrow> running_job" where
  "send_cancel r = (if run_receiver r then r\<lparr>run_cancel := True\<rparr> else r)"

section \<open>Admissions\<close>

definition weak_live :: "(nat \<Rightarrow> bool) \<Rightarrow> nat option \<Rightarrow> bool" where
  "weak_live live w = (case w of None \<Rightarrow> False | Some t \<Rightarrow> live t)"

definition prune_admissions :: "(nat \<Rightarrow> bool) \<Rightarrow> queue \<Rightarrow> queue" where
  "prune_admissions live q =
     (let adms = bt_retain (\<lambda>_. weak_live live) (admissions q) in
      q\<lparr>admissions := adms,
        observations := bt_retain (\<lambda>k _. bt_contains adms (listing_key k)) (observations q)\<rparr>)"

definition review_admission ::
  "(nat \<Rightarrow> bool) \<Rightarrow> nat \<Rightarrow> key \<Rightarrow> queue \<Rightarrow> review_admission \<times> queue" where
  "review_admission live fresh k q0 =
     (let q = prune_admissions live q0;
          entry = (case map_of (admissions q) k of Some w \<Rightarrow> w | None \<Rightarrow> None);
          current = (case entry of Some t \<Rightarrow> if live t then t else fresh | None \<Rightarrow> fresh) in
      (\<lparr>adm_key = k, adm_token = current, adm_observed_at = observation_sequence q\<rparr>,
       q\<lparr>admissions := bt_insert (k, Some current) (admissions q)\<rparr>))"

definition admits :: "key \<Rightarrow> review_admission \<Rightarrow> queue \<Rightarrow> bool" where
  "admits k a q =
     ((adm_key a = k \<or> adm_key a = listing_key k) \<and>
      (case map_of (admissions q) (adm_key a) of
         None \<Rightarrow> False | Some w \<Rightarrow> w = Some (adm_token a)) \<and>
      (key_number (adm_key a) \<noteq> 0 \<or>
       (case map_of (observations q) k of None \<Rightarrow> True | Some at \<Rightarrow> at \<le> adm_observed_at a)))"

definition observe_pull :: "(nat \<Rightarrow> bool) \<Rightarrow> key \<Rightarrow> queue \<Rightarrow> queue" where
  "observe_pull live k q =
     (if (case map_of (admissions q) (listing_key k) of None \<Rightarrow> False | Some w \<Rightarrow> weak_live live w)
      then q\<lparr>observation_sequence := observation_sequence q + 1,
             observations := bt_insert (k, observation_sequence q + 1) (observations q)\<rparr>
      else q)"

section \<open>Jobs\<close>

definition cancel_running :: "key \<Rightarrow> queue \<Rightarrow> queue" where
  "cancel_running k q = q\<lparr>running := bt_modify k send_cancel (running q)\<rparr>"

definition put_pending :: "job \<Rightarrow> queue \<Rightarrow> queue" where
  "put_pending j q = q\<lparr>pending := bt_insert (job_key j, j) (pending q)\<rparr>"

definition enqueue :: "job \<Rightarrow> queue \<Rightarrow> queue" where
  "enqueue j q =
     (case map_of (running q) (job_key j) of
        None \<Rightarrow> put_pending j q
      | Some r \<Rightarrow>
          if job_kind j = Index then put_pending j q
          else if same_content (run_job r) j \<and> forced (job_kind j) then put_pending j q
          else if same_content (run_job r) j \<and> \<not> run_cancel r \<and>
                  \<not> (forced (job_kind j) \<or> job_kind j = Remove)
          then q
          else put_pending j (cancel_running (job_key j) q))"

definition close :: "(nat \<Rightarrow> bool) \<Rightarrow> key \<Rightarrow> queue \<Rightarrow> queue" where
  "close live k q0 =
     (let q = observe_pull live k q0;
          q = q\<lparr>admissions := bt_remove k (admissions q), pending := bt_remove k (pending q)\<rparr> in
      cancel_running k q)"

definition of_repo :: "nat \<Rightarrow> source \<Rightarrow> key \<Rightarrow> bool" where
  "of_repo i s k = (key_repo k = i \<and> key_source k = s)"

definition cancel_repo :: "nat \<Rightarrow> source \<Rightarrow> (key, running_job) btree \<Rightarrow> (key, running_job) btree" where
  "cancel_repo i s = map (\<lambda>(k, r). (k, if of_repo i s k then send_cancel r else r))"

definition remove_repo :: "string \<Rightarrow> repo \<Rightarrow> queue \<Rightarrow> job list \<times> queue" where
  "remove_repo uid r q0 =
     (let i = repo_id r; s = repo_source r;
          adms = bt_retain (\<lambda>k _. \<not> of_repo i s k) (admissions q0);
          cancelled = filter (\<lambda>j. repo_id (job_repo j) = i \<and> repo_source (job_repo j) = s)
                        (bt_values (pending q0) @ map run_job (bt_values (running q0)));
          q = q0\<lparr>admissions := adms,
                 pending := bt_retain (\<lambda>k _. \<not> of_repo i s k) (pending q0),
                 running := cancel_repo i s (running q0)\<rparr> in
      (cancelled,
       enqueue \<lparr>job_id = uid, job_trigger = ''webhook'', job_mode = Mode_Standard, job_repo = r,
                job_kind = Remove\<rparr> q))"

definition queue_contains :: "key \<Rightarrow> queue \<Rightarrow> bool" where
  "queue_contains k q = (bt_contains (pending q) k \<or> bt_contains (running q) k)"

definition active_id :: "string \<Rightarrow> queue \<Rightarrow> bool" where
  "active_id i q =
     (list_ex (\<lambda>j. job_id j = i) (bt_values (pending q)) \<or>
      list_ex (\<lambda>r. job_id (run_job r) = i) (bt_values (running q)))"

definition slot :: "key \<Rightarrow> nat \<times> source" where
  "slot k = (key_repo k, key_source k)"

definition busy_slots :: "queue \<Rightarrow> (nat \<times> source) set" where
  "busy_slots q = slot ` set (bt_keys (running q))"

definition external_running :: "queue \<Rightarrow> nat" where
  "external_running q = length (filter (\<lambda>k. key_source k = External) (bt_keys (running q)))"

definition startable :: "nat \<Rightarrow> queue \<Rightarrow> key \<Rightarrow> bool" where
  "startable external_limit q k =
     (slot k \<notin> busy_slots q \<and>
      (key_source k \<noteq> External \<or> external_running q < external_limit))"

definition take_with_external_limit :: "nat \<Rightarrow> queue \<Rightarrow> (job \<times> queue) option" where
  "take_with_external_limit external_limit q =
     (case List.find (startable external_limit q) (bt_keys (pending q)) of
        None \<Rightarrow> None
      | Some k \<Rightarrow>
          (case map_of (pending q) k of
             None \<Rightarrow> None
           | Some j \<Rightarrow>
               Some (j, q\<lparr>pending := bt_remove k (pending q),
                          running := bt_insert (k, \<lparr>run_job = j, run_cancel = False, run_receiver = True\<rparr>)
                                       (running q)\<rparr>)))"

section \<open>The dispatcher (\<open>mod.rs\<close>)\<close>

text \<open>The inner loop: while a permit is free and the queue offers a job, start it.  \<open>started\<close> collects
  the jobs handed to workers; the limit is read before every start.  The environment gives, for each
  round, the external limit then in force; \<open>permits\<close> is the number of free permits.\<close>

fun dispatch_loop :: "nat list \<Rightarrow> nat \<Rightarrow> queue \<Rightarrow> job list \<times> nat \<times> queue" where
  "dispatch_loop [] permits q = ([], permits, q)"
| "dispatch_loop (l # ls) permits q =
     (if permits = 0 then ([], 0, q)
      else (case take_with_external_limit l q of
              None \<Rightarrow> ([], permits, q)
            | Some (j, q') \<Rightarrow>
                (case dispatch_loop ls (permits - 1) q' of (js, p, q'') \<Rightarrow> (j # js, p, q''))))"

text \<open>The worker's end: the entry goes only when it still is this job's.\<close>

definition finish_job :: "job \<Rightarrow> queue \<Rightarrow> queue" where
  "finish_job j q =
     (case map_of (running q) (job_key j) of
        None \<Rightarrow> q
      | Some r \<Rightarrow> if job_id (run_job r) = job_id j
                  then q\<lparr>running := bt_remove (job_key j) (running q)\<rparr> else q)"

text \<open>\<open>cancel_jobs\<close> at shutdown: the pending jobs are taken, the running ones told to stop.\<close>

definition cancel_jobs :: "queue \<Rightarrow> job list \<times> queue" where
  "cancel_jobs q =
     (bt_values (pending q) @ map run_job (bt_values (running q)),
      q\<lparr>pending := [], running := map (\<lambda>(k, r). (k, send_cancel r)) (running q)\<rparr>)"

section \<open>A changed base branch (\<open>events.rs\<close>, \<open>retarget\<close>)\<close>

definition explicit_trigger :: "string \<Rightarrow> bool" where
  "explicit_trigger t = (t \<in> {''manual'', ''mention'', ''rerun''})"

definition opt_list :: "'a option \<Rightarrow> 'a list" where
  "opt_list x = (case x of None \<Rightarrow> [] | Some y \<Rightarrow> [y])"

definition retarget_requested :: "job \<Rightarrow> queue \<Rightarrow> job option" where
  "retarget_requested j q =
     List.find (\<lambda>p. job_base_ref p \<noteq> job_base_ref j \<and> explicit_trigger (job_trigger p))
       (opt_list (map_of (pending q) (job_key j)) @
        map run_job (filter (\<lambda>r. \<not> run_cancel r) (opt_list (map_of (running q) (job_key j)))))"

definition retarget_cancelled :: "job \<Rightarrow> queue \<Rightarrow> job list" where
  "retarget_cancelled j q =
     filter (\<lambda>p. job_base_ref p \<noteq> job_base_ref j)
       (opt_list (map_of (pending q) (job_key j)) @
        map run_job (opt_list (map_of (running q) (job_key j))))"

definition retarget_queue :: "job \<Rightarrow> queue \<Rightarrow> queue" where
  "retarget_queue j q0 =
     (let k = job_key j;
          q = (case map_of (pending q0) k of
                 Some p \<Rightarrow> if job_base_ref p \<noteq> job_base_ref j
                           then q0\<lparr>pending := bt_remove k (pending q0)\<rparr> else q0
               | None \<Rightarrow> q0) in
      case map_of (running q) k of
        Some r \<Rightarrow> if job_base_ref (run_job r) \<noteq> job_base_ref j then cancel_running k q else q
      | None \<Rightarrow> q)"

definition set_force :: "kind \<Rightarrow> kind \<Rightarrow> kind" where
  "set_force prev k =
     (case (prev, k) of (Review _ _ f, Review n pr _) \<Rightarrow> Review n pr f | _ \<Rightarrow> k)"

text \<open>The job that is enqueued after the cancellation, if any.\<close>

definition retarget_job :: "trigger \<Rightarrow> job option \<Rightarrow> job \<Rightarrow> job option" where
  "retarget_job trig requested j =
     (case trig of
        Trigger_Off \<Rightarrow> None
      | _ \<Rightarrow>
          (if trig = Trigger_Mention \<and> requested = None then None
           else (let j = (case (trig, requested) of
                            (Trigger_Mention, Some p) \<Rightarrow> j\<lparr>job_trigger := ''mention'', job_mode := job_mode p\<rparr>
                          | _ \<Rightarrow> j) in
                 Some (case requested of
                         Some p \<Rightarrow>
                           if explicit_trigger (job_trigger p)
                           then j\<lparr>job_trigger := job_trigger p, job_mode := job_mode p,
                                  job_kind := set_force (job_kind p) (job_kind j)\<rparr>
                           else j
                       | None \<Rightarrow> j))))"

definition retarget ::
  "(nat \<Rightarrow> bool) \<Rightarrow> nat \<Rightarrow> preferences \<Rightarrow> job \<Rightarrow> queue \<Rightarrow>
   job list \<times> (job \<times> review_admission) option \<times> review_admission \<times> queue" where
  "retarget live fresh prefs j q =
     (let trig = pref_trigger prefs (full_name (job_repo j));
          requested = retarget_requested j q;
          cancelled = retarget_cancelled j q;
          (a, q') = review_admission live fresh (job_key j) (retarget_queue j q) in
      (cancelled, map_option (\<lambda>n. (n, a)) (retarget_job trig requested j), a, q'))"

section \<open>Admitting a job (\<open>mod.rs\<close>, \<open>enqueue_checked\<close>)\<close>

text \<open>What the other parts of the server answer while a job is admitted: the connected account still
  grants the repository, the owner is allowed, the server is stopping, the pull request is the
  cached one, the head was already reviewed, the server has a configuration, the job's summary was
  written.\<close>

record enqueue_env =
  en_prefs :: preferences
  en_installed_ok :: bool
  en_owner_ok :: bool
  en_stopping :: bool
  en_pull_current :: bool
  en_reviewed :: bool
  en_unconfigured :: bool
  en_no_config :: bool
  en_saved :: bool

definition auto_triggers :: "string set" where
  "auto_triggers = {''webhook'', ''reconcile'', ''auto''}"

text \<open>The checks on the preferences; an automatic review is renamed and gets the repository's mode.\<close>

definition enqueue_gate :: "preferences \<Rightarrow> job \<Rightarrow> job option" where
  "enqueue_gate prefs j =
     (let trig = pref_trigger prefs (full_name (job_repo j)) in
      if repo_source (job_repo j) = Installed \<and> job_kind j \<noteq> Remove \<and> trig = Trigger_Off then None
      else (case job_kind j of
              Review _ pr _ \<Rightarrow>
                if job_trigger j \<in> auto_triggers
                then (if trig \<noteq> Trigger_Auto \<or> \<not> reviewable prefs pr then None
                      else Some (j\<lparr>job_trigger := ''auto'', job_mode := pref_mode prefs (full_name (job_repo j))\<rparr>))
                else Some j
            | _ \<Rightarrow> Some j))"

definition enqueue_refused :: "enqueue_env \<Rightarrow> review_admission option \<Rightarrow> bool \<Rightarrow> job \<Rightarrow> queue \<Rightarrow> bool" where
  "enqueue_refused e a reconcile j q =
     (repo_source (job_repo j) = Installed \<and> job_kind j \<noteq> Remove \<and>
        (\<not> en_installed_ok e \<or> \<not> en_owner_ok e) \<or>
      en_stopping e \<or>
      (case a of None \<Rightarrow> False | Some t \<Rightarrow> \<not> admits (job_key j) t q) \<or>
      reconcile \<and>
        (queue_contains (job_key j) q \<or>
         is_review j \<and> (\<not> en_pull_current e \<or> en_reviewed e \<and> \<not> en_unconfigured e)))"

text \<open>The queue after the job was admitted, and whether it waits in it.\<close>

definition enqueue_accept :: "enqueue_env \<Rightarrow> job \<Rightarrow> queue \<Rightarrow> bool \<times> queue" where
  "enqueue_accept e j q0 =
     (let q = enqueue j q0;
          accepted = (case map_of (pending q) (job_key j) of None \<Rightarrow> False | Some p \<Rightarrow> job_id p = job_id j) in
      if accepted \<and> job_kind j \<noteq> Remove
      then (let skipped = en_no_config e;
                q = (if skipped \<or> \<not> en_saved e
                     then q\<lparr>pending := bt_remove (job_key j) (pending q)\<rparr> else q) in
            (en_saved e \<and> \<not> skipped, q))
      else (accepted, q))"

definition enqueue_checked ::
  "enqueue_env \<Rightarrow> job \<Rightarrow> review_admission option \<Rightarrow> bool \<Rightarrow> queue \<Rightarrow> bool \<times> queue" where
  "enqueue_checked e j0 a reconcile q =
     (case enqueue_gate (en_prefs e) j0 of
        None \<Rightarrow> (False, q)
      | Some j \<Rightarrow>
          if enqueue_refused e a reconcile j q then (False, q)
          else enqueue_accept e j q)"

end
