(* ===== verification/Jobs.thy ===== *)
theory Jobs
  imports Queue
begin

text \<open>
  The dashboard's job list (\<open>src/src/server/dashboard.rs\<close>: \<open>JobSummary\<close>, \<open>change_job\<close> and its
  callers, pruning, the retry delay of index jobs, the first administrator).  Times are text as the
  source stores them; \<open>rfc\<close> reads one as milliseconds (\<open>chrono\<close>), \<open>at\<close> is the current time as text.
\<close>

section \<open>Summaries\<close>

record finding_counts =
  fn_total :: nat
  fn_high :: nat
  fn_medium :: nat
  fn_low :: nat
  fn_carried :: nat

definition no_findings :: finding_counts where
  "no_findings = \<lparr>fn_total = 0, fn_high = 0, fn_medium = 0, fn_low = 0, fn_carried = 0\<rparr>"

record check_recovery =
  cr_id :: nat
  cr_repo :: repo
  cr_pending :: bool

record job_summary =
  js_source :: source
  js_publication :: publication
  js_repo_id :: "nat option"
  js_base_sha :: "string option"
  js_base_ref :: "string option"
  js_check :: "check_recovery option"
  js_id :: string
  js_kind :: string
  js_repo :: string
  js_pr :: "nat option"
  js_title :: "string option"
  js_author :: "string option"
  js_head_sha :: "string option"
  js_trigger :: string
  js_mode :: mode
  js_status :: string
  js_reason :: "string option"
  js_findings :: finding_counts
  js_queued_at :: string
  js_started_at :: "string option"
  js_finished_at :: "string option"
  js_duration_ms :: "nat option"
  js_tokens :: "json option"
  js_check_run_url :: "string option"
  js_pr_url :: "string option"

definition pr_field :: "job \<Rightarrow> (json \<Rightarrow> json) \<Rightarrow> string option" where
  "pr_field j f = (case job_kind j of Review _ pr _ \<Rightarrow> as_str (f pr) | _ \<Rightarrow> None)"

definition queued_summary :: "string \<Rightarrow> job \<Rightarrow> job_summary" where
  "queued_summary at j =
     (let number = (case job_kind j of Review n _ _ \<Rightarrow> Some n | _ \<Rightarrow> None) in
      \<lparr>js_source = repo_source (job_repo j), js_publication = job_publication j,
       js_repo_id = Some (repo_id (job_repo j)),
       js_base_sha = pr_field j (\<lambda>p. jidx (jidx p ''base'') ''sha''),
       js_base_ref = pr_field j (\<lambda>p. jidx (jidx p ''base'') ''ref''),
       js_check = None, js_id = job_id j,
       js_kind = (if number \<noteq> None then ''review'' else ''index''),
       js_repo = full_name (job_repo j), js_pr = number,
       js_title = pr_field j (\<lambda>p. jidx p ''title''),
       js_author = pr_field j (\<lambda>p. jidx (jidx p ''user'') ''login''),
       js_head_sha = pr_field j (\<lambda>p. jidx (jidx p ''head'') ''sha''),
       js_trigger = job_trigger j, js_mode = job_mode j, js_status = ''queued'', js_reason = None,
       js_findings = no_findings, js_queued_at = at, js_started_at = None, js_finished_at = None,
       js_duration_ms = None, js_tokens = None, js_check_run_url = None,
       js_pr_url = pr_field j (\<lambda>p. jidx p ''html_url'')\<rparr>)"

definition terminal :: "job_summary \<Rightarrow> bool" where
  "terminal s = (js_status s \<noteq> ''queued'' \<and> js_status s \<noteq> ''running'')"

definition set_state ::
  "(string \<Rightarrow> int option) \<Rightarrow> string \<Rightarrow> int \<Rightarrow> string \<Rightarrow> string option \<Rightarrow> job_summary \<Rightarrow> job_summary" where
  "set_state rfc at now_ms st reason s0 =
     (let s = s0\<lparr>js_status := st, js_reason := reason\<rparr>;
          s = (if st = ''running'' then s\<lparr>js_started_at := Some at\<rparr> else s) in
      if terminal s
      then s\<lparr>js_finished_at := Some at,
             js_duration_ms := map_option (\<lambda>start. nat (max 0 (now_ms - start)))
               (Option.bind (js_started_at s) rfc)\<rparr>
      else s)"

section \<open>Changes\<close>

type_synonym jobs = "(string, job_summary) btree"

definition keep_check :: "job_summary option \<Rightarrow> job_summary \<Rightarrow> job_summary" where
  "keep_check prev s =
     (if js_check s = None then s\<lparr>js_check := Option.bind prev js_check\<rparr> else s)"

definition keep_cancelled :: "job_summary option \<Rightarrow> job_summary \<Rightarrow> job_summary" where
  "keep_cancelled prev s =
     (case prev of
        None \<Rightarrow> s
      | Some p \<Rightarrow>
          if js_status p = ''cancelled''
          then s\<lparr>js_status := js_status p, js_reason := js_reason p, js_started_at := js_started_at p,
                 js_finished_at := js_finished_at p, js_duration_ms := js_duration_ms p\<rparr>
          else s)"

text \<open>\<open>written\<close> tells whether the summary reached the disk; \<open>change\<close> may fail.\<close>

definition change_job ::
  "bool \<Rightarrow> (job_summary option \<Rightarrow> string + job_summary) \<Rightarrow> string \<Rightarrow> jobs \<Rightarrow> (string + job_summary) \<times> jobs" where
  "change_job written change i jobs =
     (case change (map_of jobs i) of
        Inl e \<Rightarrow> (Inl e, jobs)
      | Inr s0 \<Rightarrow>
          (let prev = map_of jobs (js_id s0); s = keep_cancelled prev (keep_check prev s0) in
           if written then (Inr s, bt_insert (js_id s, s) jobs)
           else (Inl ''write failed'', jobs)))"

definition update_job :: "bool \<Rightarrow> job_summary \<Rightarrow> jobs \<Rightarrow> (string + job_summary) \<times> jobs" where
  "update_job written s = change_job written (\<lambda>_. Inr s) (js_id s)"

definition patch_job ::
  "bool \<Rightarrow> string \<Rightarrow> (job_summary \<Rightarrow> job_summary) \<Rightarrow> jobs \<Rightarrow> (string + job_summary) \<times> jobs" where
  "patch_job written i f =
     change_job written (\<lambda>prev. case prev of None \<Rightarrow> Inl ''job summary missing'' | Some s \<Rightarrow> Inr (f s)) i"

definition clear_check :: "bool \<Rightarrow> string \<Rightarrow> nat \<Rightarrow> jobs \<Rightarrow> (string + job_summary) \<times> jobs" where
  "clear_check written i check_id =
     patch_job written i (\<lambda>s. case js_check s of
         Some c \<Rightarrow> if cr_id c = check_id then s\<lparr>js_check := Some (c\<lparr>cr_pending := False\<rparr>)\<rparr> else s
       | None \<Rightarrow> s)"

definition transition_job ::
  "(string \<Rightarrow> int option) \<Rightarrow> string \<Rightarrow> int \<Rightarrow> bool \<Rightarrow> job \<Rightarrow> string \<Rightarrow> string option \<Rightarrow> jobs \<Rightarrow>
   (string + job_summary option) \<times> jobs" where
  "transition_job rfc at now_ms written j st reason jobs =
     (if job_kind j = Remove then (Inr None, jobs)
      else (case change_job written
              (\<lambda>prev. Inr (set_state rfc at now_ms st reason
                 (case prev of Some s \<Rightarrow> s | None \<Rightarrow> queued_summary at j))) (job_id j) jobs of
              (r, jobs') \<Rightarrow> (map_sum id Some r, jobs')))"

text \<open>Loading at start-up: an unfinished job was interrupted.\<close>

definition recover_summary :: "(string \<Rightarrow> int option) \<Rightarrow> string \<Rightarrow> int \<Rightarrow> job_summary \<Rightarrow> job_summary" where
  "recover_summary rfc at now_ms s =
     (if terminal s then s
      else set_state rfc at now_ms ''cancelled'' (Some ''server restarted'') s)"

section \<open>Pruning\<close>

definition newest_first :: "job_summary list \<Rightarrow> job_summary list" where
  "newest_first js = rev (sort_key (\<lambda>s. (js_queued_at s, js_id s)) js)"

definition KEPT_JOBS :: nat where "KEPT_JOBS = 500"

definition check_pending :: "job_summary \<Rightarrow> bool" where
  "check_pending s = (case js_check s of Some c \<Rightarrow> cr_pending c | None \<Rightarrow> False)"

definition queue_ids :: "queue \<Rightarrow> string list" where
  "queue_ids q = map job_id (bt_values (pending q)) @ map (\<lambda>r. job_id (run_job r)) (bt_values (running q))"

definition prunable :: "queue \<Rightarrow> job_summary \<Rightarrow> bool" where
  "prunable q s = (terminal s \<and> js_id s \<notin> set (queue_ids q) \<and> \<not> check_pending s)"

definition prune_jobs :: "queue \<Rightarrow> jobs \<Rightarrow> jobs" where
  "prune_jobs q jobs =
     fold (\<lambda>s. bt_remove (js_id s))
       (filter (prunable q) (drop KEPT_JOBS (newest_first (bt_values jobs)))) jobs"

section \<open>Retries of index jobs\<close>

fun index_failures :: "job_summary list \<Rightarrow> nat \<times> job_summary option" where
  "index_failures [] = (0, None)"
| "index_failures (s # ss) =
     (if js_status s = ''complete'' then (0, None)
      else if js_status s = ''failed'' \<or> js_status s = ''partial''
      then (Suc (fst (index_failures ss)), Some s)
      else index_failures ss)"

definition retry_minutes :: "nat \<Rightarrow> nat" where
  "retry_minutes failures = ((\<lambda>delay. min (delay * 2) (24 * 60)) ^^ (failures - 1)) 10"

definition index_retry_at :: "(string \<Rightarrow> int option) \<Rightarrow> string \<Rightarrow> jobs \<Rightarrow> int option" where
  "index_retry_at rfc repo jobs =
     (let (failures, latest) = index_failures
            (newest_first (filter (\<lambda>s. js_repo s = repo \<and> js_kind s = ''index'') (bt_values jobs))) in
      case latest of
        None \<Rightarrow> None
      | Some s \<Rightarrow>
          map_option (\<lambda>finished. finished + int (retry_minutes failures) * 60000)
            (Option.bind (js_finished_at s) rfc))"

section \<open>Reviews skipped without a configuration\<close>

definition newer :: "job_summary \<Rightarrow> job_summary \<Rightarrow> bool" where
  "newer a b = ((js_queued_at b, js_id b) < (js_queued_at a, js_id a))"

definition latest_step :: "job_summary \<Rightarrow> (nat, job_summary) btree \<Rightarrow> (nat, job_summary) btree" where
  "latest_step s m =
     (case js_pr s of
        None \<Rightarrow> m
      | Some n \<Rightarrow>
          (case map_of m n of
             None \<Rightarrow> bt_insert (n, s) m
           | Some p \<Rightarrow> if newer s p then bt_insert (n, s) m else m))"

definition unconfigured_reviews :: "string \<Rightarrow> string \<Rightarrow> jobs \<Rightarrow> nat set" where
  "unconfigured_reviews unconfigured repo jobs =
     (let latest = fold latest_step (filter (\<lambda>s. js_repo s = repo) (bt_values jobs)) [] in
      fst ` set (filter (\<lambda>(n, s). js_status s = ''skipped'' \<and> js_reason s = Some unconfigured) latest))"

section \<open>The first administrator\<close>

record bootstrap =
  bs_used :: bool
  bs_prefs :: preferences

text \<open>The writes of the marker file and of the preferences may fail, in this order.\<close>

definition authorize_login ::
  "bool \<Rightarrow> bool \<Rightarrow> string \<Rightarrow> bool \<Rightarrow> bootstrap \<Rightarrow> (string + unit) \<times> bootstrap" where
  "authorize_login marker_ok prefs_ok login boot b =
     (if is_admin (bs_prefs b) login then (Inr (), b)
      else if bs_used b \<or> admins (bs_prefs b) \<noteq> [] \<or> \<not> boot
      then (Inl ''administrator access required'', b)
      else if \<not> marker_ok then (Inl ''write failed'', b)
      else (let b = b\<lparr>bs_used := True\<rparr> in
            if \<not> prefs_ok then (Inl ''write failed'', b)
            else (Inr (), b\<lparr>bs_prefs := (bs_prefs b)\<lparr>admins := admins (bs_prefs b) @ [login]\<rparr>\<rparr>)))"

section \<open>Credential names in a configuration\<close>

fun credential_references :: "json \<Rightarrow> string set" where
  "credential_references (JObj kvs) =
     (\<Union>(k, v) \<in> set kvs. (if k = ''api_key_env'' then (case v of JStr n \<Rightarrow> {n} | _ \<Rightarrow> {}) else {}) \<union>
        credential_references v)"
| "credential_references (JArr vs) = (\<Union>v \<in> set vs. credential_references v)"
| "credential_references JNull = {}"
| "credential_references (JBool _) = {}"
| "credential_references (JNat _) = {}"
| "credential_references (JNeg _) = {}"
| "credential_references (JFloat _) = {}"
| "credential_references (JStr _) = {}"

section \<open>Lemmas\<close>

definition cancelled_in :: "jobs \<Rightarrow> string \<Rightarrow> string option \<Rightarrow> bool" where
  "cancelled_in jobs i reason =
     (case map_of jobs i of None \<Rightarrow> False | Some s \<Rightarrow> js_status s = ''cancelled'' \<and> js_reason s = reason)"

lemma keep_check_fields [simp]:
  "js_id (keep_check p s) = js_id s" "js_status (keep_check p s) = js_status s"
  "js_reason (keep_check p s) = js_reason s"
  by (simp_all add: keep_check_def)

lemma keep_cancelled_id [simp]: "js_id (keep_cancelled p s) = js_id s"
  by (simp add: keep_cancelled_def split: option.split)

lemma change_job_sorted: "bt_sorted jobs \<Longrightarrow> bt_sorted (snd (change_job w f i jobs))"
  by (simp add: change_job_def Let_def bt_sorted_insert split: sum.split)

text \<open>A cancelled job stays cancelled, with its reason, whatever is changed afterwards.\<close>

lemma change_job_cancelled:
  assumes "bt_sorted jobs" and "cancelled_in jobs i reason"
  shows "cancelled_in (snd (change_job w f j jobs)) i reason"
proof (cases "f (map_of jobs j)")
  case (Inr s0)
  let ?p = "map_of jobs (js_id s0)"
  let ?s = "keep_cancelled ?p (keep_check ?p s0)"
  have "snd (change_job w f j jobs) = (if w then bt_insert (js_id s0, ?s) jobs else jobs)"
    using Inr by (simp add: change_job_def Let_def)
  then show ?thesis using assms
    by (auto simp: cancelled_in_def bt_get_insert keep_cancelled_def split: option.splits if_splits)
qed (use assms in \<open>simp add: change_job_def\<close>)

text \<open>Any sequence of changes by the runner, the queue and the recovery of checks.\<close>

datatype job_change = Job_Change bool "job_summary option \<Rightarrow> string + job_summary" string

fun change_jobs :: "job_change list \<Rightarrow> jobs \<Rightarrow> jobs" where
  "change_jobs [] jobs = jobs"
| "change_jobs (Job_Change w f i # cs) jobs = change_jobs cs (snd (change_job w f i jobs))"

lemma change_jobs_cancelled:
  "bt_sorted jobs \<Longrightarrow> cancelled_in jobs i reason \<Longrightarrow> cancelled_in (change_jobs cs jobs) i reason"
  by (induction cs jobs rule: change_jobs.induct) (simp_all add: change_job_sorted change_job_cancelled)

lemma fold_remove_get:
  "map_of (fold (\<lambda>s. bt_remove (js_id s)) ss m) i = (if i \<in> js_id ` set ss then None else map_of m i)"
  by (induction ss arbitrary: m) (auto simp: bt_simps)

lemma prune_jobs_get:
  "map_of (prune_jobs q jobs) i =
     (if i \<in> js_id ` set (filter (prunable q) (drop KEPT_JOBS (newest_first (bt_values jobs))))
      then None else map_of jobs i)"
  by (simp add: prune_jobs_def fold_remove_get)

lemma retry_minutes_closed: "0 < failures \<Longrightarrow> retry_minutes failures = min (10 * 2 ^ (failures - 1)) 1440"
proof -
  have "((\<lambda>delay. min (delay * 2) 1440) ^^ n) 10 = min (10 * 2 ^ n) (1440::nat)" for n
    by (induction n) (auto simp: min_def)
  then show ?thesis by (simp add: retry_minutes_def)
qed

text \<open>No more than one administrator ever comes from the bootstrap.\<close>

lemma authorize_login_admins:
  "admins (bs_prefs (snd (authorize_login m p l boot b))) \<noteq> admins (bs_prefs b) \<Longrightarrow>
   boot \<and> \<not> bs_used b \<and> admins (bs_prefs b) = [] \<and>
   admins (bs_prefs (snd (authorize_login m p l boot b))) = [l] \<and>
   bs_used (snd (authorize_login m p l boot b))"
  by (auto simp: authorize_login_def Let_def split: if_splits)

lemma authorize_login_used: "bs_used b \<Longrightarrow> bs_used (snd (authorize_login m p l boot b))"
  by (simp add: authorize_login_def Let_def)

lemma authorize_login_ok:
  "fst (authorize_login m p l boot b) = Inr () \<Longrightarrow>
   is_admin (bs_prefs (snd (authorize_login m p l boot b))) l"
  by (auto simp: authorize_login_def Let_def is_admin_def split: if_splits)

end
