(* ===== verification/Fix_Policy.thy ===== *)
theory Fix_Policy
  imports Text_Util Ordered_Map
begin

text \<open>
  The patch that a repair produces and the controller's check of it (\<open>src/src/fix/policy.rs\<close> and the
  pure part of \<open>src/src/fix/workspace.rs\<close>: tree records, the comparison of the pinned tree with the
  workspace).  File modes and sizes are \<open>nat\<close>.  \<open>sens\<close> and \<open>ci\<close> are the compiled glob sets
  (\<open>globset\<close>), \<open>red\<close> is \<open>redact::text\<close>.
\<close>

section \<open>Patches\<close>

datatype change_status = Added | Modified | Deleted

record file_change =
  fc_path :: string
  fc_status :: change_status
  fc_old_mode :: "nat option"
  fc_new_mode :: "nat option"
  fc_binary :: bool
  fc_additions :: nat
  fc_deletions :: nat
  fc_size :: nat
  fc_new_content :: "string option"
  fc_old_content :: "string option"

record patch =
  pt_files :: "file_change list"
  pt_unified :: string

definition MAX_FILE_BYTES :: nat where "MAX_FILE_BYTES = 1024 * 1024"

record patch_policy =
  pp_allow_workflow_changes :: bool
  pp_max_patch_bytes :: nat
  pp_max_files :: nat
  pp_max_deleted_files :: nat

definition patch_policy_default :: patch_policy where
  "patch_policy_default = \<lparr>pp_allow_workflow_changes = False, pp_max_patch_bytes = 200000,
     pp_max_files = 20, pp_max_deleted_files = 3\<rparr>"

record issue =
  is_path :: "string option"
  is_rule :: string

record patch_report =
  pr_errors :: "issue list"
  pr_warnings :: "issue list"

definition patch_allowed :: "patch_report \<Rightarrow> bool" where
  "patch_allowed r = (pr_errors r = [])"

section \<open>Paths\<close>

definition bad_component :: "string \<Rightarrow> bool" where
  "bad_component c = (c = [] \<or> c = ''.'' \<or> c = ''..'' \<or> eq_ignore_ascii_case c ''.git'')"

definition forbidden_path_bytes :: "char list" where
  "forbidden_path_bytes = [CHR 0x5C, CHR 0x00, CHR 0x0D, CHR 0x0A, CHR '':'']"

definition valid_path :: "string \<Rightarrow> bool" where
  "valid_path p =
     (p \<noteq> [] \<and> \<not> list_ex (\<lambda>c. c \<in> set forbidden_path_bytes) p \<and>
      \<not> list_ex bad_component (split_char (CHR ''/'') p))"

section \<open>The check\<close>

definition MODE_SYMLINK :: nat where "MODE_SYMLINK = 40960"     \<comment> \<open>\<open>0o120000\<close>\<close>
definition MODE_GITLINK :: nat where "MODE_GITLINK = 57344"     \<comment> \<open>\<open>0o160000\<close>\<close>
definition MODE_EXECUTABLE :: nat where "MODE_EXECUTABLE = 33261" \<comment> \<open>\<open>0o100755\<close>\<close>
definition MODE_REGULAR :: nat where "MODE_REGULAR = 33188"     \<comment> \<open>\<open>0o100644\<close>\<close>

definition opt_holds :: "('a \<Rightarrow> bool) \<Rightarrow> 'a option \<Rightarrow> bool" where
  "opt_holds p x = (case x of None \<Rightarrow> False | Some y \<Rightarrow> p y)"

definition has_mode :: "nat \<Rightarrow> file_change \<Rightarrow> bool" where
  "has_mode m f = (fc_old_mode f = Some m \<or> fc_new_mode f = Some m)"

definition patch_rules :: "patch_policy \<Rightarrow> patch \<Rightarrow> (string \<times> bool) list" where
  "patch_rules pol pt =
     [(''patch_size'', pp_max_patch_bytes pol < length (pt_unified pt)),
      (''file_count'', pp_max_files pol < length (pt_files pt)),
      (''deleted_file_count'',
        pp_max_deleted_files pol < length (filter (\<lambda>f. fc_status f = Deleted) (pt_files pt)))]"

definition file_rules ::
  "(string \<Rightarrow> bool) \<Rightarrow> (string \<Rightarrow> bool) \<Rightarrow> (string \<Rightarrow> string) \<Rightarrow> patch_policy \<Rightarrow> file_change \<Rightarrow> (string \<times> bool) list" where
  "file_rules sens ci red pol f =
     [(''path'', \<not> valid_path (fc_path f)),
      (''gitmodules'', list_ex (\<lambda>c. eq_ignore_ascii_case c ''.gitmodules'') (split_char (CHR ''/'') (fc_path f))),
      (''sensitive'', sens (fc_path f)),
      (''workflow'', ci (fc_path f) \<and> \<not> pp_allow_workflow_changes pol),
      (''symlink'', has_mode MODE_SYMLINK f),
      (''gitlink'', has_mode MODE_GITLINK f),
      (''executable'', fc_new_mode f = Some MODE_EXECUTABLE \<and> fc_old_mode f \<noteq> Some MODE_EXECUTABLE),
      (''binary'', fc_binary f),
      (''file_size'', MAX_FILE_BYTES < fc_size f \<or>
        opt_holds (\<lambda>s. MAX_FILE_BYTES < length s) (fc_old_content f) \<or>
        opt_holds (\<lambda>s. MAX_FILE_BYTES < length s) (fc_new_content f)),
      (''nul'', opt_holds (\<lambda>s. CHR 0x00 \<in> set s) (fc_new_content f)),
      (''credential_material'', opt_holds (\<lambda>s. red s \<noteq> s) (fc_old_content f) \<or>
        opt_holds (\<lambda>s. red s \<noteq> s) (fc_new_content f))]"

definition crlf :: string where "crlf = [CHR 0x0D, CHR 0x0A]"

definition conflict_line :: "string \<Rightarrow> bool" where
  "conflict_line l = (starts_with l ''<<<<<<<'' \<or> starts_with l ''======='' \<or> starts_with l ''>>>>>>>'')"

definition warning_rules :: "file_change \<Rightarrow> (string \<times> bool) list" where
  "warning_rules f =
     (case fc_new_content f of
        None \<Rightarrow> []
      | Some new \<Rightarrow>
          [(''conflict_markers'', list_ex conflict_line (lines new)),
           (''crlf_change'',
             opt_holds (\<lambda>old. str_contains old crlf \<noteq> str_contains new crlf) (fc_old_content f)),
           (''trailing_whitespace_only'',
             opt_holds (\<lambda>old. old \<noteq> new \<and> map trim_end (lines old) = map trim_end (lines new))
               (fc_old_content f))])"

definition fired :: "string option \<Rightarrow> (string \<times> bool) list \<Rightarrow> issue list" where
  "fired p rules = map (\<lambda>(r, _). \<lparr>is_path = p, is_rule = r\<rparr>) (filter snd rules)"

definition check ::
  "(string \<Rightarrow> bool) \<Rightarrow> (string \<Rightarrow> bool) \<Rightarrow> (string \<Rightarrow> string) \<Rightarrow> patch \<Rightarrow> patch_policy \<Rightarrow> patch_report" where
  "check sens ci red pt pol =
     \<lparr>pr_errors = fired None (patch_rules pol pt) @
        concat (map (\<lambda>f. fired (Some (fc_path f)) (file_rules sens ci red pol f)) (pt_files pt)),
      pr_warnings = concat (map (\<lambda>f. fired (Some (fc_path f)) (warning_rules f)) (pt_files pt))\<rparr>"

section \<open>Trees\<close>

record tree_entry =
  te_mode :: nat
  te_oid :: string

fun octal_acc :: "nat \<Rightarrow> string \<Rightarrow> nat option" where
  "octal_acc acc [] = Some acc"
| "octal_acc acc (c # s) =
     (let n = of_char c :: nat in
      if 48 \<le> n \<and> n \<le> 55 then octal_acc (8 * acc + (n - 48)) s else None)"

text \<open>\<open>u32::from_str_radix(s, 8)\<close>: an optional plus sign, at least one digit, below \<open>2 ^ 32\<close>.\<close>

definition parse_octal :: "string \<Rightarrow> nat option" where
  "parse_octal s =
     (let t = (case strip_prefix s ''+'' of None \<Rightarrow> s | Some r \<Rightarrow> r) in
      if t = [] then None
      else (case octal_acc 0 t of None \<Rightarrow> None | Some n \<Rightarrow> if n < 2 ^ 32 then Some n else None))"

definition is_oid :: "string \<Rightarrow> bool" where
  "is_oid s = ((length s = 40 \<or> length s = 64) \<and> list_all is_ascii_hexdigit s)"

datatype tree_error =
    BadUtf8Path | BadTreeRecord | UnsafePath | BadTreeEntry | BadMode | TooManyFiles

text \<open>One record of \<open>ls-tree -rz\<close>: mode, type and object, a tab, the path.  \<open>utf8\<close> is the validity of
  the bytes as UTF-8.\<close>

definition tree_record :: "(string \<Rightarrow> bool) \<Rightarrow> string \<Rightarrow> tree_error + string \<times> tree_entry" where
  "tree_record utf8 l =
     (if \<not> utf8 l then Inl BadUtf8Path
      else (case split_once (CHR 0x09) l of
              None \<Rightarrow> Inl BadTreeRecord
            | Some (head, path) \<Rightarrow>
                if \<not> valid_path path then Inl UnsafePath
                else (let parts = split_char (CHR '' '') head in
                      if length parts \<noteq> 3 \<or> \<not> is_oid (parts ! 2) then Inl BadTreeEntry
                      else (case parse_octal (parts ! 0) of
                              None \<Rightarrow> Inl BadMode
                            | Some m \<Rightarrow> Inr (path, \<lparr>te_mode = m, te_oid = parts ! 2\<rparr>)))))"

fun tree_records ::
  "(string \<Rightarrow> bool) \<Rightarrow> string list \<Rightarrow> (string, tree_entry) btree \<Rightarrow> tree_error + (string, tree_entry) btree" where
  "tree_records utf8 [] m = (if length m \<le> 100000 then Inr m else Inl TooManyFiles)"
| "tree_records utf8 (l # ls) m =
     (case tree_record utf8 l of
        Inl e \<Rightarrow> Inl e
      | Inr e \<Rightarrow> tree_records utf8 ls (bt_insert e m))"

definition entries :: "(string \<Rightarrow> bool) \<Rightarrow> string \<Rightarrow> tree_error + (string, tree_entry) btree" where
  "entries utf8 raw = tree_records utf8 (filter (\<lambda>l. l \<noteq> []) (split_char (CHR 0x00) raw)) []"

section \<open>The difference of two trees\<close>

text \<open>\<open>old\<close> is the pinned tree, \<open>new\<close> the scanned workspace with \<open>contents\<close>; \<open>blob\<close> reads an object,
  \<open>stat\<close> are the counts of \<open>git diff --numstat\<close>, \<open>utf8\<close> is the validity of bytes as UTF-8.\<close>

definition utf8_text :: "(string \<Rightarrow> bool) \<Rightarrow> string \<Rightarrow> string option" where
  "utf8_text utf8 b = (if utf8 b then Some b else None)"

definition raw_binary :: "(string \<Rightarrow> bool) \<Rightarrow> string \<Rightarrow> bool" where
  "raw_binary utf8 b = (CHR 0x00 \<in> set b \<or> \<not> utf8 b)"

definition old_bytes :: "(string \<Rightarrow> string) \<Rightarrow> tree_entry option \<Rightarrow> string option" where
  "old_bytes blob e =
     (case e of Some x \<Rightarrow> if te_mode x \<noteq> MODE_GITLINK then Some (blob (te_oid x)) else None | None \<Rightarrow> None)"

definition change_of ::
  "(string \<Rightarrow> bool) \<Rightarrow> (string \<Rightarrow> string) \<Rightarrow> (string \<Rightarrow> (nat \<times> nat \<times> bool) option) \<Rightarrow>
   (string, tree_entry) btree \<Rightarrow> (string, tree_entry) btree \<Rightarrow> (string, string) btree \<Rightarrow> string \<Rightarrow>
   file_change option" where
  "change_of utf8 blob stat old new contents p =
     (let before = map_of old p; after = map_of new p in
      if before = after then None
      else (let ob = old_bytes blob before; nb = map_of contents p;
                (adds, dels, bin) = (case stat p of Some c \<Rightarrow> c | None \<Rightarrow> (0, 0, False)) in
            Some \<lparr>fc_path = p,
              fc_status = (if before = None then Added else if after = None then Deleted else Modified),
              fc_old_mode = map_option te_mode before, fc_new_mode = map_option te_mode after,
              fc_binary = (bin \<or> opt_holds (raw_binary utf8) ob \<or> opt_holds (raw_binary utf8) nb),
              fc_additions = adds, fc_deletions = dels,
              fc_size = (case nb of None \<Rightarrow> 0 | Some b \<Rightarrow> length b),
              fc_new_content = Option.bind nb (utf8_text utf8),
              fc_old_content = Option.bind ob (utf8_text utf8)\<rparr>))"

text \<open>The paths of both trees in order, without repetition (a \<open>BTreeSet\<close>).\<close>

definition union_paths :: "(string, tree_entry) btree \<Rightarrow> (string, tree_entry) btree \<Rightarrow> string list" where
  "union_paths old new =
     bt_keys (fold (\<lambda>p. bt_insert (p, ())) (bt_keys old @ bt_keys new) [])"

definition diff_files ::
  "(string \<Rightarrow> bool) \<Rightarrow> (string \<Rightarrow> string) \<Rightarrow> (string \<Rightarrow> (nat \<times> nat \<times> bool) option) \<Rightarrow>
   (string, tree_entry) btree \<Rightarrow> (string, tree_entry) btree \<Rightarrow> (string, string) btree \<Rightarrow> file_change list" where
  "diff_files utf8 blob stat old new contents =
     List.map_filter (change_of utf8 blob stat old new contents) (union_paths old new)"

text \<open>An empty directory in place of a submodule counts as that submodule.\<close>

definition keep_gitlinks ::
  "(string \<Rightarrow> bool) \<Rightarrow> (string, tree_entry) btree \<Rightarrow> (string, tree_entry) btree \<Rightarrow> (string, tree_entry) btree" where
  "keep_gitlinks empty_dir old new =
     fold (\<lambda>(p, e) m. if te_mode e = MODE_GITLINK \<and> empty_dir p then bt_insert (p, e) m else m) old new"

section \<open>What an allowed patch is\<close>

text \<open>The lexical meaning of a path below a root: empty and \<open>.\<close> components stay, \<open>..\<close> goes up.\<close>

fun resolve :: "string list \<Rightarrow> string list \<Rightarrow> string list" where
  "resolve base [] = base"
| "resolve base (c # cs) =
     (if c = [] \<or> c = ''.'' then resolve base cs
      else if c = ''..'' then resolve (butlast base) cs
      else resolve (base @ [c]) cs)"

definition inside_tree :: "string \<Rightarrow> bool" where
  "inside_tree p =
     (\<exists>c cs. split_char (CHR ''/'') p = c # cs \<and> \<not> list_ex (\<lambda>d. eq_ignore_ascii_case d ''.git'') (c # cs) \<and>
       (\<forall>base. resolve base (c # cs) = base @ c # cs))"

lemma resolve_valid: "\<not> list_ex bad_component cs \<Longrightarrow> resolve base cs = base @ cs"
  by (induction cs arbitrary: base) (auto simp: bad_component_def)

lemma valid_path_inside: "valid_path p \<Longrightarrow> inside_tree p"
proof -
  assume p: "valid_path p"
  obtain c cs where s: "split_char (CHR ''/'') p = c # cs"
    by (cases "split_char (CHR ''/'') p") auto
  from p have "\<not> list_ex bad_component (c # cs)" unfolding valid_path_def s by blast
  then show ?thesis using s resolve_valid[of "c # cs"]
    by (auto simp: inside_tree_def bad_component_def list_ex_iff)
qed

definition small_text :: "string option \<Rightarrow> bool" where
  "small_text s = (case s of None \<Rightarrow> True | Some t \<Rightarrow> length t \<le> MAX_FILE_BYTES)"

definition no_secret :: "(string \<Rightarrow> string) \<Rightarrow> string option \<Rightarrow> bool" where
  "no_secret red s = (case s of None \<Rightarrow> True | Some t \<Rightarrow> red t = t)"

text \<open>A change that may be published: an ordinary text file inside the tree, not sensitive, no change
  of the build's own configuration, small, without credentials, and not newly executable.\<close>

definition safe_change ::
  "(string \<Rightarrow> bool) \<Rightarrow> (string \<Rightarrow> bool) \<Rightarrow> (string \<Rightarrow> string) \<Rightarrow> patch_policy \<Rightarrow> file_change \<Rightarrow> bool" where
  "safe_change sens ci red pol f =
     (valid_path (fc_path f) \<and>
      \<not> list_ex (\<lambda>c. eq_ignore_ascii_case c ''.gitmodules'') (split_char (CHR ''/'') (fc_path f)) \<and>
      \<not> sens (fc_path f) \<and> (ci (fc_path f) \<longrightarrow> pp_allow_workflow_changes pol) \<and>
      \<not> has_mode MODE_SYMLINK f \<and> \<not> has_mode MODE_GITLINK f \<and>
      (fc_new_mode f = Some MODE_EXECUTABLE \<longrightarrow> fc_old_mode f = Some MODE_EXECUTABLE) \<and>
      \<not> fc_binary f \<and> fc_size f \<le> MAX_FILE_BYTES \<and>
      small_text (fc_old_content f) \<and> small_text (fc_new_content f) \<and>
      opt_holds (\<lambda>s. CHR 0x00 \<in> set s) (fc_new_content f) = False \<and>
      no_secret red (fc_old_content f) \<and> no_secret red (fc_new_content f))"

lemma fired_Nil: "fired p rules = [] \<longleftrightarrow> list_all (\<lambda>r. \<not> snd r) rules"
  by (auto simp: fired_def filter_empty_conv list_all_iff)

lemma file_rules_clean:
  "list_all (\<lambda>r. \<not> snd r) (file_rules sens ci red pol f) \<longleftrightarrow> safe_change sens ci red pol f"
  unfolding file_rules_def safe_change_def
  by (simp add: small_text_def no_secret_def opt_holds_def not_less split: option.split)

lemma check_allowed:
  "patch_allowed (check sens ci red pt pol) \<longleftrightarrow>
   length (pt_unified pt) \<le> pp_max_patch_bytes pol \<and> length (pt_files pt) \<le> pp_max_files pol \<and>
   length (filter (\<lambda>f. fc_status f = Deleted) (pt_files pt)) \<le> pp_max_deleted_files pol \<and>
   list_all (safe_change sens ci red pol) (pt_files pt)"
  by (simp add: patch_allowed_def check_def fired_Nil file_rules_clean)
    (simp add: patch_rules_def not_less list_all_iff)

section \<open>What a difference contains\<close>

lemma fold_insert_keys:
  "bt_sorted m \<Longrightarrow> bt_sorted (fold (\<lambda>p. bt_insert (p, ())) ps m) \<and>
   set (bt_keys (fold (\<lambda>p. bt_insert (p, ())) ps m)) = set ps \<union> set (bt_keys m)"
proof (induction ps arbitrary: m)
  case (Cons p ps)
  have "set (bt_keys (bt_insert (p, ()) m)) = insert p (set (bt_keys m))"
    by (simp add: bt_keys_def keys_bt_insert)
  with Cons.IH[OF bt_sorted_insert[OF Cons.prems, of "(p, ())"]] show ?case by auto
qed simp

lemma union_paths_props:
  "sorted_wrt (<) (union_paths old new)" "set (union_paths old new) = set (bt_keys old) \<union> set (bt_keys new)"
  using fold_insert_keys[of "[]" "bt_keys old @ bt_keys new"]
  by (auto simp: union_paths_def bt_sorted_def bt_keys_def)

lemma change_of_path: "change_of utf8 blob stat old new contents p = Some f \<Longrightarrow> fc_path f = p"
  by (auto simp: change_of_def Let_def split: if_splits prod.splits option.splits)

lemma map_filter_paths:
  "(\<And>p f. g p = Some f \<Longrightarrow> fc_path f = p) \<Longrightarrow>
   map fc_path (List.map_filter g ps) = filter (\<lambda>p. g p \<noteq> None) ps"
  by (induction ps) (auto split: option.split)

lemma change_of_None: "change_of utf8 blob stat old new contents p = None \<longleftrightarrow> map_of old p = map_of new p"
  by (simp add: change_of_def Let_def split: prod.split)

lemma in_map_filter: "x \<in> set (List.map_filter g ps) \<longleftrightarrow> (\<exists>p\<in>set ps. g p = Some x)"
  by (induction ps) (auto split: option.split)

lemma diff_files_paths:
  "map fc_path (diff_files utf8 blob stat old new contents) =
   filter (\<lambda>p. map_of old p \<noteq> map_of new p) (union_paths old new)"
  unfolding diff_files_def by (subst map_filter_paths) (auto dest: change_of_path simp: change_of_None)

lemma diff_files_modes:
  assumes "f \<in> set (diff_files utf8 blob stat old new contents)"
  shows "fc_old_mode f = map_option te_mode (map_of old (fc_path f)) \<and>
    fc_new_mode f = map_option te_mode (map_of new (fc_path f)) \<and>
    fc_status f = (if map_of old (fc_path f) = None then Added
                   else if map_of new (fc_path f) = None then Deleted else Modified)"
proof -
  from assms obtain p where p: "change_of utf8 blob stat old new contents p = Some f"
    by (auto simp: diff_files_def in_map_filter)
  note path = change_of_path[OF p]
  obtain adds dels bin where c: "(case stat p of Some c \<Rightarrow> c | None \<Rightarrow> (0, 0, False)) = (adds, dels, bin)"
    by (metis prod_cases3)
  show ?thesis using p unfolding path change_of_def Let_def c by (auto split: if_splits)
qed

end
