(* ===== verification/Fix_Store.thy ===== *)
theory Fix_Store
  imports Fix_Record Jobs Fix_Policy Interfaces "HOL-Library.AList"
begin

text \<open>
  The controller of repairs (\<open>src/src/server/fixes.rs\<close>): the store of requests and its operations up to
  generation and delivery.  What other parts answer (the review and its report, GitHub, the disk, the
  clock) is an argument of the operation that asks.  \<open>H\<close> is the hex digest (\<open>sha2\<close>), \<open>red\<close> is
  \<open>redact::text\<close>, \<open>diag\<close> is \<open>redact::diagnostic\<close>.  The summary sent to the event stream has no
  counterpart.
\<close>

section \<open>Data\<close>

record fix_admission =
  ad_at :: int
  ad_actor :: string
  ad_repo :: string

record fix_store =
  fs_entries :: "(string, fix_entry) btree"
  fs_running :: "(string, bool) btree"
  fs_admissions :: "fix_admission list"
  fs_denials :: "fix_admission list"
  fs_attempts :: "fix_admission list"

definition fix_store_default :: fix_store where
  "fix_store_default = \<lparr>fs_entries = [], fs_running = [], fs_admissions = [], fs_denials = [],
     fs_attempts = []\<rparr>"

datatype http_status = Conflict | Forbidden | Too_Many_Requests | Unprocessable
datatype failure = Failure http_status string

definition conflict :: "string \<Rightarrow> failure" where "conflict s = Failure Conflict s"
definition forbidden :: "string \<Rightarrow> failure" where "forbidden s = Failure Forbidden s"
definition other_failure :: "(string \<Rightarrow> string) \<Rightarrow> string \<Rightarrow> failure" where
  "other_failure diag e = Failure Unprocessable (diag e)"

section \<open>Saving and changing\<close>

definition put_entry :: "fix_entry \<Rightarrow> fix_store \<Rightarrow> fix_store" where
  "put_entry e s = s\<lparr>fs_entries := bt_insert (fr_id (fe_record e), e) (fs_entries s)\<rparr>"

text \<open>\<open>written\<close> tells whether the entry reached the disk; otherwise the store is unchanged.\<close>

definition save :: "bool \<Rightarrow> fix_entry \<Rightarrow> fix_store \<Rightarrow> (string + fix_record) \<times> fix_store" where
  "save written e s =
     (if written then (Inr (fe_record e), put_entry e s) else (Inl ''write failed'', s))"

definition final_states :: "string set" where "final_states = {''cancelled'', ''discarded''}"

definition change ::
  "bool \<Rightarrow> string \<Rightarrow> (fix_entry \<Rightarrow> fix_entry) \<Rightarrow> fix_store \<Rightarrow> (string + fix_record) \<times> fix_store" where
  "change written i f s =
     (case map_of (fs_entries s) i of
        None \<Rightarrow> (Inl ''fix not found'', s)
      | Some e \<Rightarrow> save written (if fr_state (fe_record e) \<in> final_states then e else f e) s)"

definition upd_record :: "(fix_record \<Rightarrow> fix_record) \<Rightarrow> fix_entry \<Rightarrow> fix_entry" where
  "upd_record f e = e\<lparr>fe_record := f (fe_record e)\<rparr>"

section \<open>Restart and pruning\<close>

text \<open>\<open>v[k] = x\<close> on an object.\<close>

definition json_set :: "string \<Rightarrow> json \<Rightarrow> json \<Rightarrow> json" where
  "json_set k x v = (case v of JObj kvs \<Rightarrow> JObj (AList.update k x kvs) | _ \<Rightarrow> v)"

text \<open>What loading does to the record of an interrupted run.\<close>

definition recover_record :: "(string \<Rightarrow> string) \<Rightarrow> string \<Rightarrow> fix_record \<Rightarrow> fix_record" where
  "recover_record red at r0 =
     (let r = bound_events r0 in
      if fr_state r = ''generating'' \<or> fr_state r = ''validating''
      then transition red at ''failed'' (Some ''interrupted by restart'') ''revera'' ''failed'' r
      else if fr_state r = ''publishing''
      then transition red at ''publish_failed'' (Some ''interrupted; check GitHub before retrying'')
             ''revera'' ''failed'' r
      else if fr_state r = ''verifying''
      then (let r = transition red at ''published'' (Some ''follow-up review incomplete'')
                      ''revera'' ''failed'' r in
            r\<lparr>fr_verify_review := map_option (json_set ''note'' (JStr ''follow-up review incomplete'')) (fr_verify_review r)\<rparr>)
      else r)"

definition KEPT_FIXES :: nat where "KEPT_FIXES = 200"

definition busy_states :: "string set" where
  "busy_states = {''queued'', ''generating'', ''validating'', ''publishing'', ''verifying''}"

definition prune_candidates :: "fix_store \<Rightarrow> string list" where
  "prune_candidates s =
     map snd (drop KEPT_FIXES
       (rev (sort (map (\<lambda>e. (fr_created_at (fe_record e), fr_id (fe_record e))) (bt_values (fs_entries s))))))"

definition prune_one :: "string \<Rightarrow> fix_store \<Rightarrow> fix_store" where
  "prune_one i s =
     (case map_of (fs_entries s) i of
        None \<Rightarrow> s
      | Some e \<Rightarrow>
          if fr_state (fe_record e) \<in> busy_states \<or> bt_contains (fs_running s) i then s
          else s\<lparr>fs_entries := bt_remove i (fs_entries s)\<rparr>)"

definition prune_fixes :: "fix_store \<Rightarrow> fix_store" where
  "prune_fixes s = fold prune_one (prune_candidates s) s"

text \<open>Loading the store at a start: every record recovered, old admissions dropped, then pruned.\<close>

definition load_fixes :: "(string \<Rightarrow> string) \<Rightarrow> int \<Rightarrow> string \<Rightarrow> fix_store \<Rightarrow> fix_store" where
  "load_fixes red now at s =
     prune_fixes
       \<lparr>fs_entries = map (\<lambda>(i, e). (i, e\<lparr>fe_record := recover_record red at (fe_record e)\<rparr>)) (fs_entries s),
        fs_running = [],
        fs_admissions = filter (\<lambda>a. now - 86400 < ad_at a) (fs_admissions s),
        fs_denials = fs_denials s, fs_attempts = fs_attempts s\<rparr>"

section \<open>Selecting findings\<close>

definition select_prefix :: "string \<Rightarrow> bool" where
  "select_prefix p = (6 \<le> length p \<and> length p \<le> 12 \<and> list_all is_ascii_hexdigit p)"

definition prefix_matches :: "(string \<Rightarrow> string) \<Rightarrow> finding list \<Rightarrow> string \<Rightarrow> finding list" where
  "prefix_matches H fs p = filter (\<lambda>f. starts_with (fid H f) (to_ascii_lowercase p)) fs"

fun select_ids ::
  "(string \<Rightarrow> string) \<Rightarrow> finding list \<Rightarrow> string list \<Rightarrow> (string, finding) btree \<Rightarrow> string + (string, finding) btree" where
  "select_ids H fs [] m = Inr m"
| "select_ids H fs (p # ps) m =
     (if \<not> select_prefix p
      then Inl ''finding must be a unique hexadecimal ID prefix of at least 6 characters''
      else (case prefix_matches H fs p of
              [f] \<Rightarrow> select_ids H fs ps (bt_insert (fid H f, f) m)
            | _ \<Rightarrow> Inl ''finding ID is unknown or ambiguous''))"

definition select :: "(string \<Rightarrow> string) \<Rightarrow> finding list \<Rightarrow> string list option \<Rightarrow> string + finding list" where
  "select H fs ids =
     (case ids of
        None \<Rightarrow>
          if 100 < length fs
          then Inl ''This review has more than 100 actionable findings; select up to 100 to fix.''
          else Inr fs
      | Some ps \<Rightarrow>
          if ps = [] \<or> 100 < length ps then Inl ''select at least one finding (maximum 100)''
          else map_sum id bt_values (select_ids H fs ps []))"

section \<open>The pull request and the requester\<close>

definition fresh :: "json \<Rightarrow> string \<Rightarrow> string + unit" where
  "fresh pr head =
     (if jidx pr ''state'' \<noteq> JStr ''open'' \<or> jidx pr ''merged'' = JBool True then Inl ''PR closed''
      else if as_str (jidx (jidx pr ''head'') ''sha'') \<noteq> Some head
      then Inl ''PR changed since the review; request a new review''
      else Inr ())"

definition authorized :: "json \<Rightarrow> fix_policy \<Rightarrow> bool" where
  "authorized permission p =
     (jidx permission ''permission'' = JStr ''admin'' \<or>
      as_str (jidx permission ''role_name'') \<in> {Some ''admin'', Some ''maintain''} \<or>
      (fp_requesters p = Writers \<and> jidx permission ''permission'' = JStr ''write''))"

text \<open>GitHub's answer to the permission lookup; a missing collaborator is \<open>null\<close>.\<close>

datatype permission_reply = Permission json | Not_Found | Lookup_Error string

definition login_byte :: "char \<Rightarrow> bool" where
  "login_byte c = (is_ascii_alphanumeric c \<or> c = CHR ''-'')"

definition authorize ::
  "preferences \<Rightarrow> string \<Rightarrow> string \<Rightarrow> json \<Rightarrow> fix_policy \<Rightarrow> permission_reply \<Rightarrow> string + bool" where
  "authorize prefs origin actor pr p reply =
     (if origin = ''auto'' then Inr False
      else if origin = ''dashboard''
      then (if is_admin prefs actor then Inr False else Inl ''administrator access required'')
      else if actor = [] \<or> actor = ''ghost'' \<or> \<not> list_all login_byte actor
      then Inl ''not authorized to request fixes''
      else (case (case reply of Permission v \<Rightarrow> Inr v | Not_Found \<Rightarrow> Inr JNull | Lookup_Error e \<Rightarrow> Inl e) of
              Inl e \<Rightarrow> Inl e
            | Inr permission \<Rightarrow>
                if authorized permission p then Inr False
                else if fp_author_preview p \<and>
                  (case as_str (jidx (jidx pr ''user'') ''login'') of
                     None \<Rightarrow> False | Some l \<Rightarrow> eq_ignore_ascii_case l actor)
                then Inr True
                else Inl ''not authorized to request fixes''))"

section \<open>Rate limits\<close>

definition since :: "int \<Rightarrow> fix_admission list \<Rightarrow> fix_admission list" where
  "since t as = filter (\<lambda>a. t < ad_at a) as"

definition by_actor :: "string \<Rightarrow> fix_admission \<Rightarrow> bool" where
  "by_actor actor a = eq_ignore_ascii_case (ad_actor a) actor"

definition by_repo :: "string \<Rightarrow> fix_admission \<Rightarrow> bool" where
  "by_repo repo a = eq_ignore_ascii_case (ad_repo a) repo"

definition admit_attempt ::
  "bool \<Rightarrow> int \<Rightarrow> string \<Rightarrow> string \<Rightarrow> fix_policy \<Rightarrow> fix_store \<Rightarrow> (failure + unit) \<times> fix_store" where
  "admit_attempt written now actor repo p s =
     (let attempts = since (now - 3600) (fs_attempts s) in
      if lim_per_user_hour (fp_limits p) \<le> length (filter (by_actor actor) attempts)
      then (Inl (Failure Too_Many_Requests ''fix command attempt rate limit reached; try later''), s)
      else if \<not> written then (Inl (Failure Unprocessable ''write failed''), s)
      else (Inr (), s\<lparr>fs_attempts := attempts @ [\<lparr>ad_at = now, ad_actor = actor, ad_repo = repo\<rparr>]\<rparr>))"

definition record_denial ::
  "bool \<Rightarrow> int \<Rightarrow> string \<Rightarrow> string \<Rightarrow> fix_store \<Rightarrow> (failure + unit) \<times> fix_store" where
  "record_denial written now actor repo s =
     (let denials = since (now - 3600) (fs_denials s) in
      if list_ex (by_actor actor) denials
      then (Inl (Failure Too_Many_Requests ''denied command reply limit reached''), s)
      else if \<not> written then (Inl (Failure Unprocessable ''write failed''), s)
      else (Inr (), s\<lparr>fs_denials := denials @ [\<lparr>ad_at = now, ad_actor = actor, ad_repo = repo\<rparr>]\<rparr>))"

definition over_limit :: "int \<Rightarrow> string \<Rightarrow> string \<Rightarrow> fix_policy \<Rightarrow> fix_store \<Rightarrow> bool" where
  "over_limit now actor repo p s =
     (lim_per_user_hour (fp_limits p) \<le> length (filter (by_actor actor) (since (now - 3600) (fs_admissions s))) \<or>
      lim_per_repo_day (fp_limits p) \<le> length (filter (by_repo repo) (since (now - 86400) (fs_admissions s))))"

section \<open>A request\<close>

text \<open>What the request finds: the review and its findings, the live repository and pull request, the
  permission reply; the clock, the identifiers and the writes.\<close>

record request_env =
  rv_prefs :: preferences
  rv_review :: "failure + job_summary \<times> finding list"
  rv_live :: "string + repo \<times> json"
  rv_permission :: permission_reply
  rv_now :: int
  rv_at :: string
  rv_uid :: string
  rv_attempts_ok :: bool
  rv_admissions_ok :: bool
  rv_saved :: bool

text \<open>The arrow U+2192 in UTF-8.\<close>

definition arrow :: string where "arrow = [CHR 0xE2, CHR 0x86, CHR 0x92]"

definition finding_json :: "(string \<Rightarrow> string) \<Rightarrow> (string \<Rightarrow> string) \<Rightarrow> finding \<Rightarrow> json" where
  "finding_json H red f =
     JObj [(''id'', JStr (fid H f)), (''severity'', JStr (severity_str (f_severity f))),
       (''title'', JStr (handoff_text red (f_title f) 500)),
       (''file'', JStr (handoff_text red (f_file f) 1000)),
       (''start_line'', JNat (unat (f_start_line f))), (''end_line'', JNat (unat (f_last_line f)))]"

text \<open>Consent: given for once, or standing while execution is enabled; a standing consent starts the
  run only when nothing asks for a confirmation.\<close>

definition request_consent :: "bool \<Rightarrow> bool \<Rightarrow> fix_policy \<Rightarrow> string option" where
  "request_consent denied once p =
     (if denied then None
      else if once then Some ''once''
      else if fp_execution p then Some ''persistent'' else None)"

definition request_queued :: "string option \<Rightarrow> bool \<Rightarrow> string \<Rightarrow> bool \<Rightarrow> fix_policy \<Rightarrow> bool" where
  "request_queued consent once origin preview p =
     (consent \<noteq> None \<and>
      (once \<or> origin = ''auto'' \<or> \<not> fp_confirm p \<or>
       (fp_execution p \<and> fp_trusted_skip_confirm p \<and> \<not> preview \<and> origin \<in> {''mention'', ''check''})))"

definition oid_or :: "string \<Rightarrow> string option \<Rightarrow> string + string" where
  "oid_or e s = (case s of Some x \<Rightarrow> if is_oid x then Inr x else Inl e | None \<Rightarrow> Inl e)"

definition new_record ::
  "(string \<Rightarrow> string) \<Rightarrow> (string \<Rightarrow> string) \<Rightarrow> request_env \<Rightarrow> string \<Rightarrow> string \<Rightarrow> string option \<Rightarrow> bool \<Rightarrow>
   job_summary \<Rightarrow> nat \<Rightarrow> json \<Rightarrow> finding list \<Rightarrow> fix_policy \<Rightarrow> string \<Rightarrow> string \<Rightarrow> fix_record" where
  "new_record H red v origin actor consent queued j n pr selected p base head =
     \<lparr>fr_id = rv_uid v, fr_created_at = rv_at v, fr_updated_at = rv_at v,
      fr_state = (if queued then ''queued'' else ''awaiting_confirmation''), fr_reason = None,
      fr_source = origin, fr_requested_by = actor, fr_consent = consent, fr_repo = js_repo j,
      fr_repo_source = js_source j, fr_pr = n,
      fr_pr_url = ''https://github.com/'' @ js_repo j @ ''/pull/'' @ nat_str n,
      fr_pr_title = handoff_text red (str_or [] (jidx pr ''title'')) 500, fr_review_job = js_id j,
      fr_base_sha = base, fr_head_sha = head, fr_findings = map (finding_json H red) selected,
      fr_attempt = 0, fr_max_attempts = lim_attempts (fp_limits p), fr_progress = None,
      fr_generation = None, fr_verification = None, fr_tests = None, fr_patch = None,
      fr_usage = None, fr_delivery = None, fr_verify_review = None, fr_events = []\<rparr>"

definition request_audit ::
  "(string \<Rightarrow> string) \<Rightarrow> string \<Rightarrow> string \<Rightarrow> string \<Rightarrow> string option \<Rightarrow> bool \<Rightarrow> fix_record \<Rightarrow> fix_record" where
  "request_audit red at origin actor denied once r0 =
     (let r = audit red at actor ''requested'' origin r0;
          r = (case denied of
                 Some reason \<Rightarrow> transition red at ''failed'' (Some reason) actor ''permission_denied'' r
               | None \<Rightarrow> audit red at actor ''authorized'' ''requester permission checked'' r) in
      if once \<and> denied = None then audit red at actor ''consent_once'' ''this request only'' r else r)"

text \<open>An active request for the same findings is returned instead of a second one.\<close>

definition existing_request :: "string \<Rightarrow> bool \<Rightarrow> fix_store \<Rightarrow> fix_entry option" where
  "existing_request k preview s =
     List.find (\<lambda>e. cd_key (fe_context e) = k \<and> cd_preview_only (fe_context e) = preview \<and>
       active (fe_record e)) (bt_values (fs_entries s))"

definition join_existing ::
  "(string \<Rightarrow> string) \<Rightarrow> request_env \<Rightarrow> string \<Rightarrow> string \<Rightarrow> string option \<Rightarrow> fix_entry \<Rightarrow> fix_store \<Rightarrow>
   (failure + fix_record) \<times> fix_store" where
  "join_existing red v origin actor denied e s =
     (let r = audit red (rv_at v) actor ''requested'' origin (fe_record e);
          r = audit red (rv_at v) actor
                (if denied \<noteq> None then ''permission_denied'' else ''authorized'')
                (case denied of Some d \<Rightarrow> d | None \<Rightarrow> ''requester permission checked; existing request'') r in
      case save (rv_saved v) (e\<lparr>fe_record := r\<rparr>) s of
        (Inl err, s') \<Rightarrow> (Inl (Failure Unprocessable err), s')
      | (Inr rec, s') \<Rightarrow> (case denied of Some d \<Rightarrow> (Inl (forbidden d), s') | None \<Rightarrow> (Inr rec, s')))"

definition push_admission :: "int \<Rightarrow> string \<Rightarrow> string \<Rightarrow> fix_store \<Rightarrow> fix_store" where
  "push_admission now actor repo s =
     s\<lparr>fs_admissions := since (now - 86400) (fs_admissions s) @
         [\<lparr>ad_at = now, ad_actor = actor, ad_repo = repo\<rparr>]\<rparr>"

definition create_request ::
  "(string \<Rightarrow> string) \<Rightarrow> (string \<Rightarrow> string) \<Rightarrow> request_env \<Rightarrow> string \<Rightarrow> string \<Rightarrow> bool \<Rightarrow> string option \<Rightarrow> bool \<Rightarrow>
   job_summary \<Rightarrow> nat \<Rightarrow> repo \<Rightarrow> json \<Rightarrow> finding list \<Rightarrow> fix_policy \<Rightarrow> string \<Rightarrow> fix_store \<Rightarrow>
   (failure + fix_record) \<times> fix_store" where
  "create_request H red v origin actor once denied preview j n repo pr selected p k s =
     (case oid_or ''review missing base SHA'' (js_base_sha j) of
        Inl e \<Rightarrow> (Inl (Failure Unprocessable e), s)
      | Inr base \<Rightarrow>
     (case oid_or ''review missing head SHA'' (js_head_sha j) of
        Inl e \<Rightarrow> (Inl (Failure Unprocessable e), s)
      | Inr head \<Rightarrow>
          (let consent = request_consent (denied \<noteq> None) once p;
               queued = request_queued consent once origin preview p;
               r = request_audit red (rv_at v) origin actor denied once
                     (new_record H red v origin actor consent queued j n pr selected p base head);
               e = \<lparr>fe_record = r,
                    fe_context = \<lparr>cd_repo = repo, cd_findings = selected, cd_policy = p, cd_key = k,
                      cd_preview_only = preview,
                      cd_confirmed_by = (if origin = ''dashboard'' then Some actor else None),
                      cd_note = []\<rparr>\<rparr> in
           if denied = None \<and> \<not> rv_admissions_ok v then (Inl (Failure Unprocessable ''write failed''), s)
           else (let s1 = (if denied = None then push_admission (rv_now v) actor (js_repo j) s else s) in
                 case save (rv_saved v) e s1 of
                   (Inl err, s2) \<Rightarrow> (Inl (Failure Unprocessable err), s2)
                 | (Inr rec, s2) \<Rightarrow>
                     (case denied of
                        Some d \<Rightarrow> (Inl (forbidden d), prune_fixes s2)
                      | None \<Rightarrow> (Inr rec, prune_fixes s2))))))"

definition admit_request ::
  "(string \<Rightarrow> string) \<Rightarrow> (string \<Rightarrow> string) \<Rightarrow> request_env \<Rightarrow> string \<Rightarrow> string \<Rightarrow> bool \<Rightarrow> string option \<Rightarrow> bool \<Rightarrow>
   job_summary \<Rightarrow> nat \<Rightarrow> repo \<Rightarrow> json \<Rightarrow> finding list \<Rightarrow> fix_policy \<Rightarrow> string \<Rightarrow> fix_store \<Rightarrow>
   (failure + fix_record) \<times> fix_store" where
  "admit_request H red v origin actor once denied preview j n repo pr selected p k s0 =
     (case (if denied \<noteq> None then record_denial (rv_attempts_ok v) (rv_now v) actor (js_repo j) s0
            else admit_attempt (rv_attempts_ok v) (rv_now v) actor (js_repo j) p s0) of
        (Inl f, s) \<Rightarrow> (Inl f, s)
      | (Inr _, s) \<Rightarrow>
          (case existing_request k preview s of
             Some e \<Rightarrow> join_existing red v origin actor denied e s
           | None \<Rightarrow>
               if denied = None \<and> over_limit (rv_now v) actor (js_repo j) p s
               then (Inl (conflict ''fix request rate limit reached; try later''), s)
               else create_request H red v origin actor once denied preview j n repo pr selected p k s))"

text \<open>The whole request.  \<open>K\<close> is the digest of the request's identity (SHA-256 of its JSON text).\<close>

definition fix_request ::
  "(string \<Rightarrow> string) \<Rightarrow> (job_summary \<Rightarrow> string list \<Rightarrow> string) \<Rightarrow> (string \<Rightarrow> string) \<Rightarrow> (string \<Rightarrow> string) \<Rightarrow>
   request_env \<Rightarrow> string \<Rightarrow> string \<Rightarrow> string list option \<Rightarrow> bool \<Rightarrow> fix_store \<Rightarrow> (failure + fix_record) \<times> fix_store" where
  "fix_request H K red diag v origin actor ids once s =
     (case rv_review v of
        Inl f \<Rightarrow> (Inl f, s)
      | Inr (j, findings) \<Rightarrow>
     (case select H findings ids of
        Inl e \<Rightarrow> (Inl (other_failure diag e), s)
      | Inr selected \<Rightarrow>
          (let p = repo_fix_policy (rv_prefs v) (js_repo j) in
           if js_source j = External \<and> \<not> fp_external p
           then (Inl (forbidden (''Enable external fix previews in Settings '' @ arrow @ '' Fixes first'')), s)
           else
     (case (rv_live v, js_pr j) of
        (Inl e, _) \<Rightarrow> (Inl (other_failure diag e), s)
      | (Inr _, None) \<Rightarrow> (Inl (other_failure diag ''missing PR''), s)
      | (Inr (repo, pr), Some n) \<Rightarrow>
     (case fresh pr (case js_head_sha j of Some h \<Rightarrow> h | None \<Rightarrow> []) of
        Inl e \<Rightarrow> (Inl (other_failure diag e), s)
      | Inr _ \<Rightarrow>
          (let auth = authorize (rv_prefs v) origin actor pr p (rv_permission v);
               denied = (case auth of Inl e \<Rightarrow> Some (diag e) | Inr _ \<Rightarrow> None);
               preview = (case auth of Inl _ \<Rightarrow> False | Inr b \<Rightarrow> b);
               k = K j (sort (remdups (map (fid H) selected))) in
           admit_request H red v origin actor once denied preview j n repo pr selected p k s))))))"

end
