(* ===== verification/Fix_Control.thy ===== *)
theory Fix_Control
  imports Fix_Store
begin

text \<open>
  The controller's operations on existing requests (\<open>src/src/server/fixes.rs\<close>): confirmation,
  regeneration, cancellation, invalidation, shutdown, the scheduler, publication with its delivery
  gate, and the follow-up review.
\<close>

section \<open>Decisions of the administrator\<close>

definition no_fix :: failure where "no_fix = Failure Unprocessable ''fix not found''"

definition save_or_fail :: "bool \<Rightarrow> fix_entry \<Rightarrow> fix_store \<Rightarrow> (failure + fix_record) \<times> fix_store" where
  "save_or_fail written e s =
     (case save written e s of (Inl err, s') \<Rightarrow> (Inl (Failure Unprocessable err), s') | (Inr r, s') \<Rightarrow> (Inr r, s'))"

definition confirm ::
  "(string \<Rightarrow> string) \<Rightarrow> bool \<Rightarrow> string \<Rightarrow> preferences \<Rightarrow> string \<Rightarrow> bool \<Rightarrow> string \<Rightarrow> fix_store \<Rightarrow>
   (failure + fix_record) \<times> fix_store" where
  "confirm red written at prefs actor once i s =
     (case map_of (fs_entries s) i of
        None \<Rightarrow> (Inl no_fix, s)
      | Some e \<Rightarrow>
          (let p = repo_fix_policy prefs (fr_repo (fe_record e)) in
           if fr_state (fe_record e) \<noteq> ''awaiting_confirmation''
           then (Inl (conflict ''fix is not awaiting confirmation''), s)
           else if \<not> once \<and> \<not> fp_execution p
           then (Inl (conflict ''one-time consent required while execution is disabled''), s)
           else (let r = (fe_record e)\<lparr>fr_consent := Some (if once then ''once'' else ''persistent'')\<rparr>;
                     r = audit red at actor (if once then ''consent_once'' else ''confirmed'')
                           ''generation approved'' r;
                     r = transition red at ''queued'' None actor ''confirmed'' r in
                 save_or_fail written
                   \<lparr>fe_record = r, fe_context = (fe_context e)\<lparr>cd_confirmed_by := Some actor\<rparr>\<rparr> s)))"

definition regenerate ::
  "(string \<Rightarrow> string) \<Rightarrow> bool \<Rightarrow> string \<Rightarrow> string \<Rightarrow> string \<Rightarrow> string \<Rightarrow> fix_store \<Rightarrow>
   (failure + fix_record) \<times> fix_store" where
  "regenerate red written at actor note i s =
     (if 2000 < char_count note then (Inl (Failure Unprocessable ''guidance exceeds 2000 characters''), s)
      else (case map_of (fs_entries s) i of
              None \<Rightarrow> (Inl no_fix, s)
            | Some e \<Rightarrow>
                if \<not> regenerable (fe_record e) \<or> bt_contains (fs_running s) i
                then (Inl (conflict ''attempt limit reached or state cannot regenerate''), s)
                else save_or_fail written
                  \<lparr>fe_record = transition red at ''queued'' None actor ''confirmed'' (fe_record e),
                   fe_context = (fe_context e)\<lparr>cd_note := handoff_text red note 8000,
                     cd_confirmed_by := Some actor\<rparr>\<rparr> s))"

definition published_states :: "string set" where
  "published_states = {''publishing'', ''published'', ''verifying'', ''verified''}"

definition signal :: "string \<Rightarrow> fix_store \<Rightarrow> fix_store" where
  "signal i s = s\<lparr>fs_running := bt_modify i (\<lambda>_. True) (fs_running s)\<rparr>"

definition stop ::
  "(string \<Rightarrow> string) \<Rightarrow> bool \<Rightarrow> string \<Rightarrow> string \<Rightarrow> bool \<Rightarrow> string \<Rightarrow> fix_store \<Rightarrow>
   (failure + fix_record) \<times> fix_store" where
  "stop red written at actor discard i s =
     (case map_of (fs_entries s) i of
        None \<Rightarrow> (Inl no_fix, s)
      | Some e \<Rightarrow>
          if fr_state (fe_record e) \<in> published_states
          then (Inl (conflict ''published or publishing fixes cannot be cancelled or discarded''), s)
          else (let st = (if discard then ''discarded'' else ''cancelled'') in
                save_or_fail written (upd_record (transition red at st None actor st) e) (signal i s)))"

text \<open>Several entries changed under one lock; a failed write ends the loop.\<close>

fun change_each ::
  "bool list \<Rightarrow> (fix_record \<Rightarrow> fix_record) \<Rightarrow> string list \<Rightarrow> fix_store \<Rightarrow> fix_store" where
  "change_each ws f [] s = s"
| "change_each ws f (i # is) s =
     (case map_of (fs_entries s) i of
        None \<Rightarrow> s
      | Some e \<Rightarrow>
          (case ws of
             [] \<Rightarrow> s
           | w # ws' \<Rightarrow> if w then change_each ws' f is (put_entry (upd_record f e) s) else s))"

definition entry_ids :: "(fix_entry \<Rightarrow> bool) \<Rightarrow> fix_store \<Rightarrow> string list" where
  "entry_ids p s = map (\<lambda>e. fr_id (fe_record e)) (filter p (bt_values (fs_entries s)))"

definition stoppable_states :: "string set" where
  "stoppable_states = {''awaiting_confirmation'', ''queued'', ''generating'', ''validating'', ''ready''}"

definition invalidated :: "nat \<Rightarrow> source \<Rightarrow> nat option \<Rightarrow> fix_entry \<Rightarrow> bool" where
  "invalidated rid src number e =
     (repo_id (cd_repo (fe_context e)) = rid \<and> fr_repo_source (fe_record e) = src \<and>
      (case number of None \<Rightarrow> True | Some n \<Rightarrow> fr_pr (fe_record e) = n) \<and>
      fr_state (fe_record e) \<in> stoppable_states)"

fun invalidate_each ::
  "(string \<Rightarrow> string) \<Rightarrow> string \<Rightarrow> string \<Rightarrow> bool list \<Rightarrow> string list \<Rightarrow> fix_store \<Rightarrow> fix_store" where
  "invalidate_each red at reason ws [] s = s"
| "invalidate_each red at reason ws (i # is) s =
     (case map_of (fs_entries s) i of
        None \<Rightarrow> s
      | Some e \<Rightarrow>
          (let s1 = signal i s in
           case ws of
             [] \<Rightarrow> s1
           | w # ws' \<Rightarrow>
               if w then invalidate_each red at reason ws' is
                 (put_entry (upd_record (transition red at ''cancelled'' (Some reason) ''revera'' ''cancelled'') e) s1)
               else s1))"

definition invalidate ::
  "(string \<Rightarrow> string) \<Rightarrow> string \<Rightarrow> bool list \<Rightarrow> nat \<Rightarrow> source \<Rightarrow> nat option \<Rightarrow> string \<Rightarrow> fix_store \<Rightarrow> fix_store" where
  "invalidate red at ws rid src number reason s =
     invalidate_each red at reason ws (entry_ids (invalidated rid src number) s) s"

definition shutdown_fixes :: "(string \<Rightarrow> string) \<Rightarrow> string \<Rightarrow> bool list \<Rightarrow> fix_store \<Rightarrow> fix_store" where
  "shutdown_fixes red at ws s0 =
     (let s = s0\<lparr>fs_running := map (\<lambda>(i, _). (i, True)) (fs_running s0)\<rparr> in
      change_each ws (transition red at ''failed'' (Some ''interrupted by restart'') ''revera'' ''failed'')
        (entry_ids (\<lambda>e. fr_state (fe_record e) \<in> {''queued'', ''generating'', ''validating''}) s) s)"

section \<open>The scheduler\<close>

text \<open>\<open>min_by_key(created_at)\<close> over the waiting entries; a worker starts when fewer than \<open>max\<close> run and a
  permit is free.\<close>

definition can_run :: "bool \<Rightarrow> fix_store \<Rightarrow> fix_entry \<Rightarrow> bool" where
  "can_run inventory_ready s e =
     (fr_state (fe_record e) = ''queued'' \<and> \<not> bt_contains (fs_running s) (fr_id (fe_record e)) \<and>
      (fr_repo_source (fe_record e) = External \<or> inventory_ready))"

definition start_fix :: "nat \<Rightarrow> bool \<Rightarrow> bool \<Rightarrow> fix_store \<Rightarrow> (string \<times> fix_store) option" where
  "start_fix max_running inventory_ready permit s =
     (if max_running \<le> length (fs_running s) then None
      else (case min_by_key (\<lambda>e. fr_created_at (fe_record e))
                   (filter (can_run inventory_ready s) (bt_values (fs_entries s))) of
              None \<Rightarrow> None
            | Some e \<Rightarrow>
                if permit
                then (let i = fr_id (fe_record e) in
                      Some (i, s\<lparr>fs_running := bt_insert (i, False) (fs_running s)\<rparr>))
                else None))"

definition end_fix :: "string \<Rightarrow> fix_store \<Rightarrow> fix_store" where
  "end_fix i s = s\<lparr>fs_running := bt_remove i (fs_running s)\<rparr>"

section \<open>Policies\<close>

definition patch_policy :: "fix_policy \<Rightarrow> patch_policy" where
  "patch_policy p =
     \<lparr>pp_allow_workflow_changes = fp_allow_workflow_changes p,
      pp_max_patch_bytes = lim_max_patch_kb (fp_limits p) * 1024,
      pp_max_files = lim_max_files (fp_limits p),
      pp_max_deleted_files = pp_max_deleted_files patch_policy_default\<rparr>"

definition issue_message :: "issue \<Rightarrow> string" where
  "issue_message i = (case is_path i of Some p \<Rightarrow> p @ '': '' | None \<Rightarrow> []) @ is_rule i"

text \<open>The snapshot of the request's policy, tightened by the current one.\<close>

definition tighten :: "fix_policy \<Rightarrow> fix_policy \<Rightarrow> fix_policy" where
  "tighten p current =
     (let l = fp_limits p; c = fp_limits current in
      p\<lparr>fp_allow_workflow_changes := fp_allow_workflow_changes p \<and> fp_allow_workflow_changes current,
        fp_limits := l\<lparr>lim_attempts := min (lim_attempts l) (lim_attempts c),
          lim_model_requests := min (lim_model_requests l) (lim_model_requests c),
          lim_seconds := min (lim_seconds l) (lim_seconds c),
          lim_tool_calls := min (lim_tool_calls l) (lim_tool_calls c),
          lim_max_files := min (lim_max_files l) (lim_max_files c),
          lim_max_patch_kb := min (lim_max_patch_kb l) (lim_max_patch_kb c)\<rparr>\<rparr>)"

section \<open>Delivery\<close>

record capability =
  cp_mode :: fix_delivery
  cp_available :: bool
  cp_reason :: string

definition granted :: "(string, string) btree option \<Rightarrow> string \<Rightarrow> bool" where
  "granted permissions k =
     (case permissions of None \<Rightarrow> False | Some m \<Rightarrow> map_of m k = Some ''write'')"

definition from_fork :: "string \<Rightarrow> json option \<Rightarrow> bool" where
  "from_fork repo pr =
     (case pr of
        None \<Rightarrow> True
      | Some v \<Rightarrow>
          (case as_str (jidx (jidx (jidx v ''head'') ''repo'') ''full_name'') of
             None \<Rightarrow> True | Some n \<Rightarrow> \<not> eq_ignore_ascii_case n repo))"

definition touches_workflows :: "fix_record \<Rightarrow> bool" where
  "touches_workflows r =
     (case Option.bind (fr_patch r) (\<lambda>p. as_array (jidx p ''files'')) of
        None \<Rightarrow> False
      | Some fs \<Rightarrow> list_ex (\<lambda>f. case as_str (jidx f ''path'') of
                     None \<Rightarrow> False | Some p \<Rightarrow> starts_with p ''.github/workflows/'') fs)"

definition capability_reason ::
  "string \<Rightarrow> fix_policy \<Rightarrow> fix_entry \<Rightarrow> json option \<Rightarrow> (string, string) btree option \<Rightarrow> fix_delivery \<Rightarrow> string" where
  "capability_reason settings_url p e pr permissions m =
     (if fr_repo_source (fe_record e) = External then ''Revera is not installed on this repository''
      else if cd_preview_only (fe_context e) then ''PR author requests are private previews only''
      else if \<not> granted permissions ''contents''
      then ''Needs Contents: write '' @ em_dash @ '' update the app's permissions: '' @ settings_url
      else if from_fork (fr_repo (fe_record e)) pr
      then (if m = SameBranch then ''Revera cannot push to contributor forks''
            else ''the PR branch lives in a fork'')
      else if m = SameBranch \<and> \<not> fp_allow_same_branch p
      then ''Same-branch delivery is disabled by server or repository policy''
      else if touches_workflows (fe_record e) \<and>
              (\<not> fp_allow_workflow_changes p \<or> \<not> granted permissions ''workflows'')
      then ''Workflow changes need policy approval and Workflows: write''
      else [])"

definition capabilities ::
  "string \<Rightarrow> fix_policy \<Rightarrow> fix_entry \<Rightarrow> json option \<Rightarrow> (string, string) btree option \<Rightarrow> capability list" where
  "capabilities settings_url p e pr permissions =
     \<lparr>cp_mode = Patch, cp_available = True, cp_reason = []\<rparr> #
     map (\<lambda>m. let reason = capability_reason settings_url p e pr permissions m in
              \<lparr>cp_mode = m, cp_available = (reason = []), cp_reason = reason\<rparr>) [DraftPr, SameBranch]"

definition available :: "fix_delivery \<Rightarrow> capability list \<Rightarrow> bool" where
  "available m caps = list_ex (\<lambda>c. cp_mode c = m \<and> cp_available c) caps"

definition automatic_draft_allowed :: "fix_policy \<Rightarrow> fix_entry \<Rightarrow> bool" where
  "automatic_draft_allowed p e =
     (\<not> fp_require_approval p \<and> fp_delivery p = DraftPr \<and>
      fr_repo_source (fe_record e) = Installed \<and> \<not> cd_preview_only (fe_context e))"

datatype authority = Admin string | AutomaticDraft

definition authority_actor :: "authority \<Rightarrow> string" where
  "authority_actor a = (case a of Admin actor \<Rightarrow> actor | AutomaticDraft \<Rightarrow> ''revera'')"

definition approval_detail :: "authority \<Rightarrow> fix_delivery \<Rightarrow> string" where
  "approval_detail a m =
     (if a = AutomaticDraft then ''draft_pr (approval not required by settings)''
      else if m = SameBranch then ''same_branch'' else ''draft_pr'')"

text \<open>Claiming the ready state under the store's lock.  \<open>Inr (r, False)\<close> returns the record unclaimed.\<close>

definition claim_ready ::
  "(string \<Rightarrow> string) \<Rightarrow> bool \<Rightarrow> string \<Rightarrow> preferences \<Rightarrow> authority \<Rightarrow> fix_delivery \<Rightarrow> string \<Rightarrow> fix_store \<Rightarrow>
   (failure + fix_entry \<times> bool) \<times> fix_store" where
  "claim_ready red written at prefs a m i s =
     (if (case a of Admin actor \<Rightarrow> \<not> is_admin prefs actor | AutomaticDraft \<Rightarrow> False)
      then (Inl (forbidden ''administrator access required''), s)
      else if m = Patch then (Inl (conflict ''patch previews are downloaded, not published''), s)
      else (case map_of (fs_entries s) i of
              None \<Rightarrow> (Inl no_fix, s)
            | Some e \<Rightarrow>
                if fr_repo_source (fe_record e) = External
                then (Inl (forbidden ''Revera cannot publish to a repository where it is not installed''), s)
                else if fr_state (fe_record e) \<noteq> ''ready''
                then (Inl (conflict ''only a ready patch can be approved''), s)
                else if a = AutomaticDraft \<and>
                  (m \<noteq> DraftPr \<or> \<not> automatic_draft_allowed (repo_fix_policy prefs (fr_repo (fe_record e))) e)
                then (Inr (e, False), s)
                else (let r = audit red at (authority_actor a) ''approved'' (approval_detail a m) (fe_record e);
                          e' = e\<lparr>fe_record := transition red at ''publishing'' None (authority_actor a) ''approved'' r\<rparr> in
                      if written then (Inr (e', True), put_entry e' s)
                      else (Inl (Failure Unprocessable ''write failed''), s))))"

text \<open>What the delivery meets: the live repository and pull request (twice), the installation and its
  grants (twice), the policy in force (twice), the stored patch.\<close>

record delivery_env =
  dv_live :: "string + repo \<times> json"
  dv_suspended :: bool
  dv_permissions :: "(string, string) btree"
  dv_prefs :: preferences
  dv_patch :: patch
  dv_commit :: "string + string"
  dv_installation_ok :: bool
  dv_live2 :: "string + repo \<times> json"
  dv_suspended2 :: bool
  dv_permissions2 :: "(string, string) btree"
  dv_prefs2 :: preferences
  dv_settings_url :: string

definition tests_passed :: "fix_record \<Rightarrow> bool" where
  "tests_passed r =
     (Option.bind (fr_tests r) (\<lambda>v. as_str (jidx v ''outcome'')) \<in> {Some ''passed'', Some ''not_configured''})"

definition some_resolved :: "fix_record \<Rightarrow> bool" where
  "some_resolved r =
     (case Option.bind (fr_verification r) (\<lambda>v. as_array (jidx v ''per_finding'')) of
        None \<Rightarrow> False | Some fs \<Rightarrow> list_ex (\<lambda>f. jidx f ''verdict'' = JStr ''resolved'') fs)"

text \<open>All the checks before the one write to the branch, in order; \<open>Inr\<close> carries the branch and commit.\<close>

definition deliver_gate ::
  "(string \<Rightarrow> bool) \<Rightarrow> (string \<Rightarrow> bool) \<Rightarrow> (string \<Rightarrow> string) \<Rightarrow> delivery_env \<Rightarrow> fix_entry \<Rightarrow> fix_delivery \<Rightarrow>
   bool \<Rightarrow> string + string \<times> string" where
  "deliver_gate sens ci red v e m automatic =
     (let r = fe_record e; c = fe_context e; p = repo_fix_policy (dv_prefs v) (fr_repo r) in
      case dv_live v of Inl x \<Rightarrow> Inl x | Inr (repo, pr) \<Rightarrow>
     (case fresh pr (fr_head_sha r) of Inl x \<Rightarrow> Inl x | Inr _ \<Rightarrow>
      if repo_id repo \<noteq> repo_id (cd_repo c) \<or> installation repo \<noteq> installation (cd_repo c)
      then Inl ''installation or repository changed since approval''
      else if dv_suspended v then Inl ''installation is suspended''
      else if \<not> available m (capabilities (dv_settings_url v) p e (Some pr) (Some (dv_permissions v)))
      then Inl (capability_reason (dv_settings_url v) p e (Some pr) (Some (dv_permissions v)) m)
      else if automatic \<and> \<not> automatic_draft_allowed p e
      then Inl ''automatic draft publication no longer permitted by settings''
      else if \<not> patch_allowed (check sens ci red (dv_patch v) (patch_policy p))
      then Inl ''patch no longer satisfies current policy''
      else if \<not> tests_passed r then Inl ''tests did not pass''
      else if \<not> some_resolved r then Inl ''no independently resolved findings''
      else (case dv_commit v of Inl x \<Rightarrow> Inl x | Inr commit \<Rightarrow>
        if \<not> dv_installation_ok v then Inl ''installation is no longer allowed or available''
        else (case dv_live2 v of Inl x \<Rightarrow> Inl x | Inr (_, latest) \<Rightarrow>
         (case fresh latest (fr_head_sha r) of Inl x \<Rightarrow> Inl x | Inr _ \<Rightarrow>
          if dv_suspended2 v \<or>
             \<not> available m (capabilities (dv_settings_url v) (repo_fix_policy (dv_prefs2 v) (fr_repo r)) e
                   (Some latest) (Some (dv_permissions2 v)))
          then Inl ''installation permissions changed before delivery''
          else if automatic \<and> \<not> automatic_draft_allowed (repo_fix_policy (dv_prefs2 v) (fr_repo r)) e
          then Inl ''automatic draft publication no longer permitted by settings''
          else (case as_str (jidx (jidx pr ''head'') ''ref'') of
                  None \<Rightarrow> Inl ''PR branch is missing''
                | Some branch \<Rightarrow>
                    if as_str (jidx (jidx latest ''head'') ''ref'') \<noteq> Some branch
                    then Inl ''PR target branch changed''
                    else if m = Patch then Inl ''patch delivery cannot write''
                    else Inr (branch, commit)))))))"

definition delivery_json :: "fix_delivery \<Rightarrow> string \<Rightarrow> string \<Rightarrow> nat \<Rightarrow> string \<Rightarrow> string \<Rightarrow> json" where
  "delivery_json m branch commit n url err =
     JObj [(''mode'', JStr (case m of Patch \<Rightarrow> ''patch'' | DraftPr \<Rightarrow> ''draft_pr'' | SameBranch \<Rightarrow> ''same_branch'')),
       (''branch'', JStr branch), (''commit'', JStr commit), (''pr'', JNat n), (''url'', JStr url),
       (''error'', JStr err)]"

text \<open>The end of a publication: the delivery is recorded, or the failure.\<close>

definition publish_done ::
  "(string \<Rightarrow> string) \<Rightarrow> bool \<Rightarrow> string \<Rightarrow> authority \<Rightarrow> json \<Rightarrow> string \<Rightarrow> fix_store \<Rightarrow> (string + fix_record) \<times> fix_store" where
  "publish_done red written at a delivery i =
     change written i (upd_record (\<lambda>r0.
       let r = transition red at ''published'' None ''revera'' ''published'' (r0\<lparr>fr_delivery := Some delivery\<rparr>) in
       if a = AutomaticDraft
       then audit red at ''revera'' ''published'' ''auto-published as draft PR (approval not required by settings)'' r
       else r))"

definition publish_failed ::
  "(string \<Rightarrow> string) \<Rightarrow> bool \<Rightarrow> string \<Rightarrow> fix_delivery \<Rightarrow> string \<Rightarrow> string \<Rightarrow> fix_store \<Rightarrow> (string + fix_record) \<times> fix_store" where
  "publish_failed red written at m reason i =
     change written i (upd_record (\<lambda>r0.
       transition red at ''publish_failed'' (Some reason) ''revera'' ''failed''
         (r0\<lparr>fr_delivery := Some (delivery_json m [] [] 0 [] reason)\<rparr>)))"

section \<open>The follow-up review\<close>

definition verify_json :: "string \<Rightarrow> string \<Rightarrow> string list \<Rightarrow> string list \<Rightarrow> nat \<Rightarrow> string \<Rightarrow> json" where
  "verify_json job st resolved open_ids n note =
     JObj [(''job'', JStr job), (''state'', JStr st), (''resolved'', JArr (map JStr resolved)),
       (''still_open'', JArr (map JStr open_ids)), (''new_findings'', JNat n), (''note'', JStr note)]"

definition followup_job :: "string \<Rightarrow> fix_entry \<Rightarrow> mode \<Rightarrow> string + repo \<times> json \<Rightarrow> string + job" where
  "followup_job uid e md live =
     (case fr_delivery (fe_record e) of
        None \<Rightarrow> Inl ''missing delivery''
      | Some d \<Rightarrow>
          (case as_u64 (jidx d ''pr'') of
             None \<Rightarrow> Inl ''missing published PR''
           | Some n \<Rightarrow>
               (case live of
                  Inl x \<Rightarrow> Inl x
                | Inr (repo, pr) \<Rightarrow>
                    if jidx (jidx pr ''head'') ''sha'' \<noteq> jidx d ''commit''
                    then Inl ''published head changed before follow-up review''
                    else Inr ((new_job uid repo (Review n pr True) ''fix'')\<lparr>job_mode := md\<rparr>))))"

definition start_verify ::
  "(string \<Rightarrow> string) \<Rightarrow> bool \<Rightarrow> string \<Rightarrow> string \<Rightarrow> string \<Rightarrow> fix_store \<Rightarrow> (string + fix_record) \<times> fix_store" where
  "start_verify red written at review_id i =
     change written i (upd_record (\<lambda>r0.
       transition red at ''verifying'' None ''revera'' ''published''
         (r0\<lparr>fr_verify_review := Some (verify_json review_id ''queued'' [] [] 0 [])\<rparr>)))"

text \<open>The follow-up review of a publication could not be queued.\<close>

definition followup_failed ::
  "(string \<Rightarrow> string) \<Rightarrow> bool \<Rightarrow> string \<Rightarrow> string \<Rightarrow> string \<Rightarrow> fix_store \<Rightarrow> (string + fix_record) \<times> fix_store" where
  "followup_failed red written at err i =
     change written i (upd_record (\<lambda>r0.
       (transition red at ''published'' (Some ''follow-up review incomplete'') ''revera'' ''failed'' r0)
         \<lparr>fr_verify_review := Some (verify_json [] [] [] [] 0
            (handoff_text red (''follow-up review could not be queued: '' @ err) 1000))\<rparr>))"

definition awaits_review :: "string \<Rightarrow> fix_entry \<Rightarrow> bool" where
  "awaits_review job e =
     (fr_state (fe_record e) = ''verifying'' \<and>
      (case fr_verify_review (fe_record e) of None \<Rightarrow> False | Some v \<Rightarrow> jidx v ''job'' = JStr job))"

text \<open>The follow-up review ended without a result for this fix; \<open>clear\<close> also empties the resolved list.\<close>

definition verify_incomplete ::
  "(string \<Rightarrow> string) \<Rightarrow> bool \<Rightarrow> string \<Rightarrow> bool \<Rightarrow> string \<Rightarrow> string \<Rightarrow> string \<Rightarrow> fix_store \<Rightarrow>
   (string + fix_record) \<times> fix_store" where
  "verify_incomplete red written at clear status note i =
     change written i (upd_record (\<lambda>r0.
       let r = transition red at ''published'' (Some note) ''revera'' ''failed'' r0 in
       r\<lparr>fr_verify_review := map_option
          (\<lambda>v. (if clear then json_set ''resolved'' (JArr []) else id)
             (json_set ''note'' (JStr note) (json_set ''state'' (JStr status) v))) (fr_verify_review r)\<rparr>))"

definition ids_with :: "json \<Rightarrow> string \<Rightarrow> string set \<Rightarrow> string list" where
  "ids_with v field statuses =
     List.map_filter (\<lambda>f. as_str (jidx f ''id''))
       (filter (\<lambda>f. case as_str (jidx f field) of None \<Rightarrow> False | Some s \<Rightarrow> s \<in> statuses)
         (case as_array v of Some a \<Rightarrow> a | None \<Rightarrow> []))"

text \<open>Which of the selected findings the follow-up review shows resolved.  On the same branch only the
  review state counts; on a draft pull request the verifier's verdict, when the finding is absent.\<close>

definition resolved_ids :: "bool \<Rightarrow> string list \<Rightarrow> string list \<Rightarrow> json \<Rightarrow> json option \<Rightarrow> string list" where
  "resolved_ids same selected accepted report verification =
     (let state = jidx (jidx (jidx report ''plan'') ''state'') ''findings'';
          open_ids = (if same then ids_with state ''status'' {''open'', ''uncertain''} else accepted);
          pre = (case verification of None \<Rightarrow> [] | Some v \<Rightarrow> ids_with (jidx v ''per_finding'') ''verdict'' {''resolved''});
          done = ids_with state ''status'' {''resolved''} in
      filter (\<lambda>i. i \<notin> set open_ids \<and> i \<in> set (if same then done else pre)) selected)"

definition completed_followup ::
  "(string \<Rightarrow> string) \<Rightarrow> (string \<Rightarrow> string) \<Rightarrow> bool \<Rightarrow> string \<Rightarrow> string \<Rightarrow> string list \<Rightarrow> json \<Rightarrow> fix_entry \<Rightarrow> fix_store \<Rightarrow>
   (string + fix_record) \<times> fix_store" where
  "completed_followup H red written at job accepted report e =
     (let same = (case fr_delivery (fe_record e) of None \<Rightarrow> False | Some d \<Rightarrow> jidx d ''mode'' = JStr ''same_branch'');
          selected = sort (remdups (map (fid H) (cd_findings (fe_context e))));
          resolved = resolved_ids same selected accepted report (fr_verification (fe_record e));
          still = filter (\<lambda>i. i \<notin> set resolved) selected;
          note = (if same
            then ''Only explicit resolved follow-up state is resolution evidence; absent IDs remain still_open/uncertain, with no resolution inferred''
            else ''Draft PR resolution uses the pre-publish independent verifier when the finding is absent from the follow-up review'') in
      change written (fr_id (fe_record e)) (upd_record (\<lambda>r0.
        transition red at ''verified'' None ''revera'' ''verified''
          (r0\<lparr>fr_verify_review := Some (verify_json job ''complete'' resolved still
                (length (filter (\<lambda>i. i \<notin> set selected) (remdups accepted))) note)\<rparr>))))"

text \<open>A finished review asks for an automatic repair, but a follow-up review never does.\<close>

definition wants_auto_fix :: "string \<Rightarrow> job_summary \<Rightarrow> fix_policy \<Rightarrow> bool" where
  "wants_auto_fix trig s p =
     (trig \<noteq> ''fix'' \<and> js_status s = ''complete'' \<and> 0 < fn_total (js_findings s) \<and>
      fp_execution p \<and> fp_trigger p = AfterReview)"

end
