(* ===== verification/Fix_Generate.thy ===== *)
theory Fix_Generate
  imports Fix_Control
begin

text \<open>
  The worker that produces a patch (\<open>src/src/server/fixes.rs\<close>: \<open>run\<close>, \<open>generate\<close>, \<open>generate_until\<close>,
  \<open>authorize_execution\<close>) as a machine with a program counter: every change of the store is one step,
  so that the operations of other tasks can come between.  Each step gets from its environment what
  the network, the sandbox, the disk and the clock answered.
\<close>

section \<open>The stages of the agent process\<close>

datatype fix_stop =
    Stop_Terminal | Stop_ToolBudget | Stop_TimeBudget | Stop_RequestBudget | Stop_ProviderError
  | Stop_NoTerminalCall | Stop_InvalidTerminal

datatype test_outcome = NotConfigured | Passed | TestFailed | TimedOut | Unavailable

datatype verdict = Resolved | Unresolved | Uncertain

fun outcome_str :: "test_outcome \<Rightarrow> string" where
  "outcome_str NotConfigured = ''not_configured''"
| "outcome_str Passed = ''passed''"
| "outcome_str TestFailed = ''failed''"
| "outcome_str TimedOut = ''timed_out''"
| "outcome_str Unavailable = ''unavailable''"

fun verdict_str :: "verdict \<Rightarrow> string" where
  "verdict_str Resolved = ''resolved''"
| "verdict_str Unresolved = ''unresolved''"
| "verdict_str Uncertain = ''uncertain''"

record verification =
  vf_per_finding :: "(string \<times> verdict \<times> string) list"
  vf_new_problems :: "string list"

record stage_ledger =
  sl_requests :: nat
  sl_prompt_tokens :: nat
  sl_completion_tokens :: nat
  sl_routes :: "string list"

text \<open>A generation answers its stop, whether something was submitted (as JSON), and its ledger.\<close>

record generated =
  gn_stopped :: fix_stop
  gn_submission :: "json option"
  gn_ledger :: stage_ledger

record verified =
  vd_stopped :: fix_stop
  vd_submission :: "verification option"
  vd_ledger :: stage_ledger

definition verification_json :: "verification \<Rightarrow> json" where
  "verification_json v =
     JObj [(''per_finding'', JArr (map (\<lambda>(i, d, why).
              JObj [(''id'', JStr i), (''verdict'', JStr (verdict_str d)), (''rationale'', JStr why)])
            (vf_per_finding v))),
       (''new_problems'', JArr (map JStr (vf_new_problems v)))]"

definition json_nat :: "json \<Rightarrow> nat" where
  "json_nat v = (case as_u64 v of Some n \<Rightarrow> n | None \<Rightarrow> 0)"

definition add_usage :: "stage_ledger \<Rightarrow> json option \<Rightarrow> json" where
  "add_usage l current =
     (let v = (case current of Some v \<Rightarrow> v
               | None \<Rightarrow> JObj [(''requests'', JNat 0), (''prompt_tokens'', JNat 0),
                          (''completion_tokens'', JNat 0), (''routes'', JArr [])]);
          add = (\<lambda>k n v. json_set k (JNat (json_nat (jidx v k) + n)) v);
          v = add ''completion_tokens'' (sl_completion_tokens l)
                (add ''prompt_tokens'' (sl_prompt_tokens l) (add ''requests'' (sl_requests l) v));
          old = (case as_array (jidx v ''routes'') of Some a \<Rightarrow> List.map_filter as_str a | None \<Rightarrow> []) in
      json_set ''routes'' (JArr (map JStr (sort (remdups (old @ sl_routes l))))) v)"

definition usage_requests :: "fix_record \<Rightarrow> nat" where
  "usage_requests r = (case fr_usage r of Some v \<Rightarrow> json_nat (jidx v ''requests'') | None \<Rightarrow> 0)"

section \<open>The judgement of an attempt\<close>

text \<open>A patch is safe to keep when no rule about secrets fired and redaction leaves it unchanged.\<close>

definition patch_safe :: "(string \<Rightarrow> string) \<Rightarrow> patch_report \<Rightarrow> patch \<Rightarrow> bool" where
  "patch_safe red rep pt =
     (\<not> list_ex (\<lambda>i. is_rule i = ''credential_material'' \<or> is_rule i = ''sensitive'') (pr_errors rep) \<and>
      red (pt_unified pt) = pt_unified pt)"

definition attempt_errors ::
  "(string \<Rightarrow> string) \<Rightarrow> patch_report \<Rightarrow> patch \<Rightarrow> string option \<Rightarrow> generated \<Rightarrow> string list" where
  "attempt_errors red rep pt apply_error g =
     map issue_message (pr_errors rep) @
     (if pt_files pt = [] then [''no changes''] else (case apply_error of Some e \<Rightarrow> [e] | None \<Rightarrow> [])) @
     (if patch_safe red rep pt then [] else [''credential-bearing patch rejected; artifacts not retained'']) @
     (if gn_stopped g \<noteq> Stop_Terminal \<or> gn_submission g = None
      then [''fixer did not submit a terminal result''] else [])"

definition keeps_artifact :: "(string \<Rightarrow> string) \<Rightarrow> patch_report \<Rightarrow> patch \<Rightarrow> bool" where
  "keeps_artifact red rep pt = (patch_safe red rep pt \<and> patch_allowed rep \<and> pt_files pt \<noteq> [])"

definition attempt_ready :: "test_outcome \<Rightarrow> verified \<Rightarrow> bool" where
  "attempt_ready tests v =
     (vd_stopped v = Stop_Terminal \<and>
      (case vd_submission v of
         None \<Rightarrow> False
       | Some s \<Rightarrow> vf_new_problems s = [] \<and> list_ex (\<lambda>(_, d, _). d = Resolved) (vf_per_finding s)) \<and>
      (tests = Passed \<or> tests = NotConfigured))"

definition status_str :: "change_status \<Rightarrow> string" where
  "status_str s = (case s of Added \<Rightarrow> ''added'' | Modified \<Rightarrow> ''modified'' | Deleted \<Rightarrow> ''deleted'')"

definition patch_meta :: "patch \<Rightarrow> patch_report \<Rightarrow> string list \<Rightarrow> json" where
  "patch_meta pt rep errors =
     JObj [(''files'', JArr (map (\<lambda>f. JObj [(''path'', JStr (fc_path f)),
              (''status'', JStr (status_str (fc_status f))), (''additions'', JNat (fc_additions f)),
              (''deletions'', JNat (fc_deletions f))]) (pt_files pt))),
       (''bytes'', JNat (length (pt_unified pt))),
       (''warnings'', JArr (map (\<lambda>i. JStr (issue_message i)) (pr_warnings rep))),
       (''errors'', JArr (map JStr errors))]"

text \<open>What the attempt leaves on disk as \<open>patch.json\<close>.\<close>

definition stored_patch :: "(string \<Rightarrow> string) \<Rightarrow> patch_report \<Rightarrow> patch \<Rightarrow> patch option" where
  "stored_patch red rep pt = (if keeps_artifact red rep pt then Some pt else None)"

section \<open>The machine\<close>

text \<open>What a worker carries from one change to the next: the entry it read at the start, the tightened
  policy, the requests it may still make, the feedback for the next attempt.\<close>

record work =
  wk_entry :: fix_entry
  wk_policy :: fix_policy
  wk_remaining :: nat
  wk_feedback :: string

datatype phase =
    Ph_Begin
  | Ph_Check fix_entry fix_policy
  | Ph_Consent fix_entry fix_policy
  | Ph_Loop work nat
  | Ph_Generating work nat
  | Ph_Generate work nat
  | Ph_Diff work nat generated
  | Ph_Tests work nat patch
  | Ph_Verify work nat patch test_outcome
  | Ph_Feedback work nat "string list"
  | Ph_Exhausted
  | Ph_Failed string
  | Ph_Done

record step_env =
  se_prefs :: preferences
  se_at :: string
  se_written :: bool
  se_timeout :: bool
  se_review :: "string + unit"
  se_live :: "string + json"
  se_permission :: permission_reply
  se_sandbox :: "string option option"
  se_setup :: "string + unit"
  se_generated :: "string + generated"
  se_patch :: "string + patch"
  se_apply :: "string option"
  se_tests :: "string + test_outcome \<times> string"
  se_verified :: "string + verified"
  se_describe :: string

text \<open>The administrator who confirmed, if any: from the context, or for older requests from the trail.\<close>

definition confirmed_by :: "fix_entry \<Rightarrow> string option" where
  "confirmed_by e =
     (case cd_confirmed_by (fe_context e) of
        Some a \<Rightarrow> Some a
      | None \<Rightarrow> map_option au_actor
          (List.find (\<lambda>v. (au_action v = ''confirmed'' \<or> au_action v = ''consent_once'') \<and>
             au_detail v = ''generation approved'') (rev (fr_events (fe_record e)))))"

definition execution_identity :: "fix_entry \<Rightarrow> string \<times> string" where
  "execution_identity e =
     (case confirmed_by e of
        Some a \<Rightarrow> (''dashboard'', a)
      | None \<Rightarrow> (fr_source (fe_record e), fr_requested_by (fe_record e)))"

text \<open>The permission is checked again and the outcome written to the trail.\<close>

definition authorize_execution ::
  "(string \<Rightarrow> string) \<Rightarrow> step_env \<Rightarrow> string \<Rightarrow> json \<Rightarrow> fix_store \<Rightarrow> (string + unit) \<times> fix_store" where
  "authorize_execution red v i pr s =
     (case map_of (fs_entries s) i of
        None \<Rightarrow> (Inl ''fix not found'', s)
      | Some e \<Rightarrow>
          (let (origin, actor) = execution_identity e;
               p = repo_fix_policy (se_prefs v) (fr_repo (fe_record e)) in
           case authorize (se_prefs v) origin actor pr p (se_permission v) of
             Inr preview \<Rightarrow>
               (case change (se_written v) i (\<lambda>e.
                   e\<lparr>fe_record := audit red (se_at v) actor ''authorized''
                         ''execution permission rechecked'' (fe_record e),
                     fe_context := (fe_context e)\<lparr>cd_preview_only := cd_preview_only (fe_context e) \<or> preview\<rparr>\<rparr>) s of
                  (Inl x, s') \<Rightarrow> (Inl x, s') | (Inr _, s') \<Rightarrow> (Inr (), s'))
           | Inl err \<Rightarrow>
               (case change (se_written v) i (upd_record
                   (audit red (se_at v) actor ''permission_denied'' ''execution permission revoked'')) s of
                  (Inl x, s') \<Rightarrow> (Inl x, s') | (Inr _, s') \<Rightarrow> (Inl err, s'))))"

text \<open>A change that ends in the given phase, or in a failure when it could not be written.\<close>

definition change_then ::
  "bool \<Rightarrow> string \<Rightarrow> (fix_entry \<Rightarrow> fix_entry) \<Rightarrow> (fix_record \<Rightarrow> phase) \<Rightarrow> fix_store \<Rightarrow> phase \<times> fix_store" where
  "change_then written i f next s =
     (case change written i f s of (Inl x, s') \<Rightarrow> (Ph_Failed x, s') | (Inr r, s') \<Rightarrow> (next r, s'))"

definition to_state ::
  "(string \<Rightarrow> string) \<Rightarrow> step_env \<Rightarrow> string \<Rightarrow> string option \<Rightarrow> string \<Rightarrow> fix_entry \<Rightarrow> fix_entry" where
  "to_state red v st reason action = upd_record (transition red (se_at v) st reason ''revera'' action)"

definition check_step :: "(string \<Rightarrow> string) \<Rightarrow> step_env \<Rightarrow> string \<Rightarrow> fix_entry \<Rightarrow> fix_policy \<Rightarrow> fix_store \<Rightarrow> phase \<times> fix_store" where
  "check_step red v i e current s =
     (case se_review v of Inl x \<Rightarrow> (Ph_Failed x, s) | Inr _ \<Rightarrow>
      (case se_live v of
         Inl x \<Rightarrow>
           if str_contains x ''closed or merged''
           then change_then (se_written v) i (to_state red v ''stale'' (Some ''PR closed'') ''stale'') (\<lambda>_. Ph_Done) s
           else (Ph_Failed x, s)
       | Inr pr \<Rightarrow>
           (case fresh pr (fr_head_sha (fe_record e)) of
              Inl x \<Rightarrow> change_then (se_written v) i (to_state red v ''stale'' (Some x) ''stale'') (\<lambda>_. Ph_Done) s
            | Inr _ \<Rightarrow>
                (case authorize_execution red v i pr s of
                   (Inl x, s') \<Rightarrow> (Ph_Failed x, s')
                 | (Inr _, s') \<Rightarrow> (Ph_Consent e current, s')))))"

definition needs_consent :: "fix_entry \<Rightarrow> fix_policy \<Rightarrow> bool" where
  "needs_consent e current =
     (fr_consent (fe_record e) = None \<or>
      fr_consent (fe_record e) = Some ''persistent'' \<and> \<not> fp_execution current)"

definition remaining_requests :: "fix_policy \<Rightarrow> fix_record \<Rightarrow> nat" where
  "remaining_requests p r = lim_model_requests (fp_limits p) - min (usage_requests r) (2 ^ 32 - 1)"

definition consent_step :: "(string \<Rightarrow> string) \<Rightarrow> step_env \<Rightarrow> string \<Rightarrow> fix_entry \<Rightarrow> fix_policy \<Rightarrow> fix_store \<Rightarrow> phase \<times> fix_store" where
  "consent_step red v i e current s =
     (if needs_consent e current
      then change_then (se_written v) i
             (to_state red v ''awaiting_confirmation'' (Some ''execution disabled; confirm this run'') ''confirmation_required'')
             (\<lambda>_. Ph_Done) s
      else if fr_repo_source (fe_record e) = External \<and> \<not> fp_external current
      then (Ph_Failed ''external fix previews are disabled'', s)
      else (case se_sandbox v of
              Some reason \<Rightarrow>
                change_then (se_written v) i (to_state red v ''unsupported'' reason ''failed'') (\<lambda>_. Ph_Done) s
            | None \<Rightarrow>
                (case se_setup v of
                   Inl x \<Rightarrow> (Ph_Failed x, s)
                 | Inr _ \<Rightarrow>
                     (let p = tighten (cd_policy (fe_context e)) current in
                      (Ph_Loop \<lparr>wk_entry = e, wk_policy = p, wk_remaining = remaining_requests p (fe_record e),
                                wk_feedback = cd_note (fe_context e)\<rparr> (Suc (fr_attempt (fe_record e))), s)))))"

definition loop_step :: "(string \<Rightarrow> string) \<Rightarrow> step_env \<Rightarrow> string \<Rightarrow> work \<Rightarrow> nat \<Rightarrow> fix_store \<Rightarrow> phase \<times> fix_store" where
  "loop_step red v i w n s =
     (if lim_attempts (fp_limits (wk_policy w)) < n \<or> wk_remaining w < 2 then (Ph_Exhausted, s)
      else (case se_live v of
              Inl x \<Rightarrow> (Ph_Failed x, s)
            | Inr pr \<Rightarrow>
                (case fresh pr (fr_head_sha (fe_record (wk_entry w))) of
                   Inl x \<Rightarrow> (Ph_Failed x, s)
                 | Inr _ \<Rightarrow>
                     (case authorize_execution red v i pr s of
                        (Inl x, s') \<Rightarrow> (Ph_Failed x, s')
                      | (Inr _, s') \<Rightarrow> (Ph_Generating w n, s')))))"

definition begin_attempt :: "(string \<Rightarrow> string) \<Rightarrow> step_env \<Rightarrow> work \<Rightarrow> nat \<Rightarrow> fix_entry \<Rightarrow> fix_entry" where
  "begin_attempt red v w n =
     upd_record (\<lambda>r. transition red (se_at v) ''generating'' None ''revera'' ''started''
       (r\<lparr>fr_attempt := n, fr_max_attempts := lim_attempts (fp_limits (wk_policy w)),
          fr_generation := None, fr_verification := None, fr_tests := None, fr_patch := None\<rparr>))"

definition spend :: "stage_ledger \<Rightarrow> work \<Rightarrow> work" where
  "spend l w = w\<lparr>wk_remaining := wk_remaining w - min (sl_requests l) (2 ^ 32 - 1)\<rparr>"

definition stop_str :: "fix_stop \<Rightarrow> string" where
  "stop_str s =
     (case s of Stop_Terminal \<Rightarrow> ''terminal'' | Stop_ToolBudget \<Rightarrow> ''tool_budget''
      | Stop_TimeBudget \<Rightarrow> ''time_budget'' | Stop_RequestBudget \<Rightarrow> ''request_budget''
      | Stop_ProviderError \<Rightarrow> ''provider_error'' | Stop_NoTerminalCall \<Rightarrow> ''no_terminal_call''
      | Stop_InvalidTerminal \<Rightarrow> ''invalid_terminal'')"

definition generation_json :: "generated \<Rightarrow> json" where
  "generation_json g =
     JObj [(''stopped'', JStr (stop_str (gn_stopped g))),
       (''summary'', JStr (case gn_submission g of Some v \<Rightarrow> str_or [] (jidx v ''summary'') | None \<Rightarrow> [])),
       (''per_finding'', case gn_submission g of Some v \<Rightarrow> jidx v ''per_finding'' | None \<Rightarrow> JArr [])]"

definition generate_step :: "(string \<Rightarrow> string) \<Rightarrow> step_env \<Rightarrow> string \<Rightarrow> work \<Rightarrow> nat \<Rightarrow> fix_store \<Rightarrow> phase \<times> fix_store" where
  "generate_step red v i w n s =
     (case se_generated v of
        Inl x \<Rightarrow> (Ph_Failed x, s)
      | Inr g \<Rightarrow>
          change_then (se_written v) i
            (upd_record (\<lambda>r. transition red (se_at v) ''validating'' None ''revera'' ''generated''
               (r\<lparr>fr_generation := Some (generation_json g), fr_usage := Some (add_usage (gn_ledger g) (fr_usage r))\<rparr>)))
            (\<lambda>_. Ph_Diff (spend (gn_ledger g) w) n g) s)"

definition diff_step ::
  "(string \<Rightarrow> bool) \<Rightarrow> (string \<Rightarrow> bool) \<Rightarrow> (string \<Rightarrow> string) \<Rightarrow> step_env \<Rightarrow> string \<Rightarrow> work \<Rightarrow> nat \<Rightarrow> generated \<Rightarrow>
   fix_store \<Rightarrow> phase \<times> fix_store" where
  "diff_step sens ci red v i w n g s =
     (case se_patch v of
        Inl x \<Rightarrow> (Ph_Failed x, s)
      | Inr pt \<Rightarrow>
          (let rep = check sens ci red pt (patch_policy (wk_policy w));
               errors = attempt_errors red rep pt (se_apply v) g in
           change_then (se_written v) i
             (upd_record (\<lambda>r. r\<lparr>fr_patch := Some (patch_meta pt rep errors)\<rparr>))
             (\<lambda>_. if errors = [] then Ph_Tests w n pt
                  else Ph_Feedback (w\<lparr>wk_feedback := join ''; '' errors\<rparr>) n errors) s))"

definition tests_step :: "(string \<Rightarrow> string) \<Rightarrow> step_env \<Rightarrow> string \<Rightarrow> work \<Rightarrow> nat \<Rightarrow> patch \<Rightarrow> fix_store \<Rightarrow> phase \<times> fix_store" where
  "tests_step red v i w n pt s =
     (case se_tests v of
        Inl x \<Rightarrow> (Ph_Failed x, s)
      | Inr (t, out) \<Rightarrow>
          change_then (se_written v) i
            (upd_record (\<lambda>r. audit red (se_at v) ''revera'' ''tests'' ''approved sandbox tests completed''
               (r\<lparr>fr_tests := Some (JObj [(''outcome'', JStr (outcome_str t)),
                    (''output'', JStr (handoff_text red out 65536))])\<rparr>)))
            (\<lambda>_. Ph_Verify w n pt t) s)"

definition verify_step :: "(string \<Rightarrow> string) \<Rightarrow> step_env \<Rightarrow> string \<Rightarrow> work \<Rightarrow> nat \<Rightarrow> test_outcome \<Rightarrow> fix_store \<Rightarrow> phase \<times> fix_store" where
  "verify_step red v i w n t s =
     (if wk_remaining w = 0
      then (Ph_Feedback w n [''model request limit reached before independent verification''], s)
      else (case se_verified v of
              Inl x \<Rightarrow> (Ph_Failed x, s)
            | Inr vd \<Rightarrow>
                (let ready = attempt_ready t vd in
                 change_then (se_written v) i
                   (upd_record (\<lambda>r0.
                      let r = r0\<lparr>fr_verification := map_option verification_json (vd_submission vd),
                                 fr_usage := Some (add_usage (vd_ledger vd) (fr_usage r0))\<rparr>;
                          r = audit red (se_at v) ''revera'' ''validated'' ''fresh independent verifier completed'' r in
                      if ready then transition red (se_at v) ''ready'' None ''revera'' ''ready'' r else r))
                   (\<lambda>_. if ready then Ph_Done
                        else Ph_Feedback ((spend (vd_ledger vd) w)\<lparr>wk_feedback := se_describe v\<rparr>) n []) s)))"

definition feedback_step :: "(string \<Rightarrow> string) \<Rightarrow> step_env \<Rightarrow> string \<Rightarrow> work \<Rightarrow> nat \<Rightarrow> string list \<Rightarrow> fix_store \<Rightarrow> phase \<times> fix_store" where
  "feedback_step red v i w n errors s =
     change_then (se_written v) i
       (upd_record (\<lambda>r. r\<lparr>fr_patch := map_option (json_set ''errors'' (JArr (map JStr errors))) (fr_patch r),
          fr_reason := Some (handoff_text red (wk_feedback w) 4000)\<rparr>))
       (\<lambda>_. Ph_Loop w (Suc n)) s"

definition exhausted_step :: "(string \<Rightarrow> string) \<Rightarrow> step_env \<Rightarrow> string \<Rightarrow> fix_store \<Rightarrow> phase \<times> fix_store" where
  "exhausted_step red v i s =
     (case map_of (fs_entries s) i of
        None \<Rightarrow> (Ph_Failed ''fix not found'', s)
      | Some e \<Rightarrow>
          change_then (se_written v) i
            (to_state red v ''validation_failed''
               (Some (case fr_reason (fe_record e) of Some x \<Rightarrow> x
                      | None \<Rightarrow> ''validation or resource limits prevented a verified fix'')) ''failed'')
            (\<lambda>_. Ph_Done) s)"

definition begin_step :: "step_env \<Rightarrow> string \<Rightarrow> fix_store \<Rightarrow> phase \<times> fix_store" where
  "begin_step v i s =
     (case map_of (fs_entries s) i of
        None \<Rightarrow> (Ph_Failed ''fix not found'', s)
      | Some e \<Rightarrow>
          if fr_state (fe_record e) \<noteq> ''queued'' then (Ph_Done, s)
          else (Ph_Check e (repo_fix_policy (se_prefs v) (fr_repo (fe_record e))), s))"

text \<open>One step of the worker of request \<open>i\<close>.  The deadline can strike before any of them.  The failure of
  a run is recorded if it can be written; \<open>diag\<close> is \<open>redact::diagnostic\<close>.\<close>

fun worker_step ::
  "(string \<Rightarrow> bool) \<Rightarrow> (string \<Rightarrow> bool) \<Rightarrow> (string \<Rightarrow> string) \<Rightarrow> (string \<Rightarrow> string) \<Rightarrow> step_env \<Rightarrow> string \<Rightarrow>
   phase \<Rightarrow> fix_store \<Rightarrow> phase \<times> fix_store" where
  "worker_step sens ci red diag v i Ph_Done s = (Ph_Done, s)"
| "worker_step sens ci red diag v i (Ph_Failed x) s =
     (Ph_Done, snd (change (se_written v) i (to_state red v ''failed'' (Some (diag x)) ''failed'') s))"
| "worker_step sens ci red diag v i ph s =
     (if se_timeout v \<and> ph \<noteq> Ph_Begin then (Ph_Failed ''time limit reached'', s)
      else (case ph of
              Ph_Begin \<Rightarrow> begin_step v i s
            | Ph_Check e c \<Rightarrow> check_step red v i e c s
            | Ph_Consent e c \<Rightarrow> consent_step red v i e c s
            | Ph_Loop w n \<Rightarrow> loop_step red v i w n s
            | Ph_Generating w n \<Rightarrow>
                change_then (se_written v) i (begin_attempt red v w n)
                  (\<lambda>r. if fr_state r = ''generating'' then Ph_Generate w n else Ph_Done) s
            | Ph_Generate w n \<Rightarrow> generate_step red v i w n s
            | Ph_Diff w n g \<Rightarrow> diff_step sens ci red v i w n g s
            | Ph_Tests w n pt \<Rightarrow> tests_step red v i w n pt s
            | Ph_Verify w n pt t \<Rightarrow> verify_step red v i w n t s
            | Ph_Feedback w n errs \<Rightarrow> feedback_step red v i w n errs s
            | Ph_Exhausted \<Rightarrow> exhausted_step red v i s
            | _ \<Rightarrow> (Ph_Done, s)))"

end
