(* ===== verification/Fix_World.thy ===== *)
theory Fix_World
  imports Fix_Generate
begin

text \<open>
  Repairs over time.  A world is the store, the phases of the running workers and the publications in
  flight; the step relation has a rule for every operation of the controller, in any interleaving.
  By rule induction every reachable record has a known state, at most its allowed attempts, a bounded
  trail; it only generates, is ready or is published with a consent, and it is published only for an
  installed repository and with an approval in its trail.
\<close>

section \<open>What every record satisfies\<close>

definition pub_states :: "string set" where
  "pub_states = insert ''publish_failed'' published_states"

definition consent_states :: "string set" where
  "consent_states = {''generating'', ''validating'', ''ready''} \<union> pub_states"

text \<open>What a publication needs: an installed repository, a logged approval and a consent.\<close>

definition cleared :: "fix_record \<Rightarrow> bool" where
  "cleared r = (fr_repo_source r = Installed \<and> logged ''approved'' r \<and> fr_consent r \<noteq> None)"

definition rec_ok :: "fix_record \<Rightarrow> bool" where
  "rec_ok r =
     (fr_state r \<in> known_states \<and> fr_attempt r \<le> fr_max_attempts r \<and>
      length (fr_events r) \<le> MAX_EVENTS \<and>
      (fr_state r \<in> pub_states \<or> fr_delivery r \<noteq> None \<or> fr_verify_review r \<noteq> None \<longrightarrow> cleared r) \<and>
      (fr_state r \<in> consent_states \<longrightarrow> fr_consent r \<noteq> None))"

text \<open>What never gets lost while a record changes.\<close>

definition extends :: "fix_record \<Rightarrow> fix_record \<Rightarrow> bool" where
  "extends r r' =
     (fr_id r' = fr_id r \<and> fr_repo_source r' = fr_repo_source r \<and>
      (fr_consent r \<noteq> None \<longrightarrow> fr_consent r' \<noteq> None) \<and>
      (logged ''approved'' r \<longrightarrow> logged ''approved'' r'))"

definition evolves :: "fix_record \<Rightarrow> fix_record \<Rightarrow> bool" where
  "evolves r r' = (extends r r' \<and> (rec_ok r \<longrightarrow> rec_ok r'))"

lemmas state_sets = known_states_def active_states_def pub_states_def published_states_def
  consent_states_def busy_states_def final_states_def stoppable_states_def regenerable_states_def

lemma evolves_refl [simp]: "evolves r r"
  by (simp add: evolves_def extends_def)

lemma evolves_trans: "evolves a b \<Longrightarrow> evolves b c \<Longrightarrow> evolves a c"
  by (auto simp: evolves_def extends_def)

lemma evolves_audit [simp]: "evolves r (audit red at actor action d r)"
  by (auto simp: evolves_def extends_def rec_ok_def cleared_def audit_keeps_logged audit_bounded)

text \<open>A transition is fine when its target asks for nothing that the record lacks.\<close>

definition may_enter :: "string \<Rightarrow> fix_record \<Rightarrow> bool" where
  "may_enter st r =
     (st \<in> known_states \<and>
      (st \<in> pub_states \<longrightarrow> cleared r) \<and>
      (st \<in> consent_states \<longrightarrow> fr_consent r \<noteq> None))"

lemma transition_bounded:
  "length (fr_events r) \<le> MAX_EVENTS \<Longrightarrow> length (fr_events (transition red at st reason actor action r)) \<le> MAX_EVENTS"
  unfolding transition_def by (rule audit_bounded) simp

lemma evolves_transition:
  "may_enter st r \<Longrightarrow> evolves r (transition red at st reason actor action r)"
  by (auto simp: may_enter_def evolves_def extends_def rec_ok_def cleared_def transition_keeps_logged
      transition_bounded)

text \<open>Fields outside the invariant can change freely.\<close>

definition same_core :: "fix_record \<Rightarrow> fix_record \<Rightarrow> bool" where
  "same_core r r' =
     (fr_id r' = fr_id r \<and> fr_state r' = fr_state r \<and> fr_attempt r' = fr_attempt r \<and>
      fr_max_attempts r' = fr_max_attempts r \<and> fr_events r' = fr_events r \<and>
      fr_repo_source r' = fr_repo_source r \<and> fr_consent r' = fr_consent r \<and>
      (fr_delivery r' = fr_delivery r \<or> cleared r) \<and>
      (fr_verify_review r' \<noteq> None \<longrightarrow> fr_verify_review r \<noteq> None \<or> cleared r))"

lemma evolves_core: "same_core r r' \<Longrightarrow> evolves r r'"
  by (auto simp: same_core_def evolves_def extends_def rec_ok_def cleared_def logged_def)

lemma may_enter_core: "same_core r r' \<Longrightarrow> may_enter st r \<Longrightarrow> may_enter st r'"
  by (auto simp: same_core_def may_enter_def cleared_def logged_def)

lemma evolves_core_transition:
  "same_core r r' \<Longrightarrow> may_enter st r \<Longrightarrow> evolves r (transition red at st reason actor action r')"
  by (meson evolves_core evolves_transition evolves_trans may_enter_core)

lemma may_enter_plain: "st \<in> known_states \<Longrightarrow> st \<notin> consent_states \<Longrightarrow> may_enter st r"
  by (simp add: may_enter_def consent_states_def)

lemma plain_states:
  "may_enter ''queued'' r" "may_enter ''awaiting_confirmation'' r" "may_enter ''failed'' r"
  "may_enter ''validation_failed'' r" "may_enter ''unsupported'' r" "may_enter ''cancelled'' r"
  "may_enter ''discarded'' r" "may_enter ''stale'' r"
  by (simp_all add: may_enter_plain state_sets)

section \<open>Stores\<close>

definition entries_keyed :: "fix_store \<Rightarrow> bool" where
  "entries_keyed s = (bt_sorted (fs_entries s) \<and> keyed_by (\<lambda>e. fr_id (fe_record e)) (fs_entries s))"

definition rec_of :: "fix_store \<Rightarrow> string \<Rightarrow> fix_record option" where
  "rec_of s i = map_option fe_record (map_of (fs_entries s) i)"

text \<open>\<open>s\<close> becomes \<open>s'\<close>: entries may go, and each that stays has evolved; \<open>new\<close> may appear.\<close>

definition store_evolves :: "string set \<Rightarrow> fix_store \<Rightarrow> fix_store \<Rightarrow> bool" where
  "store_evolves new s s' =
     (entries_keyed s \<longrightarrow> entries_keyed s' \<and>
      (\<forall>i r'. rec_of s' i = Some r' \<longrightarrow>
         (\<exists>r. rec_of s i = Some r \<and> evolves r r') \<or> i \<in> new \<and> rec_ok r'))"

lemma store_evolves_refl [simp]: "store_evolves new s s"
  by (auto simp: store_evolves_def)

lemma store_evolves_same:
  "fs_entries s' = fs_entries s \<Longrightarrow> store_evolves new s s'"
  by (auto simp: store_evolves_def entries_keyed_def rec_of_def)

lemma store_evolves_trans:
  assumes "store_evolves new s t" and "store_evolves {} t u"
  shows "store_evolves new s u"
  unfolding store_evolves_def
proof (intro impI conjI allI)
  assume s: "entries_keyed s"
  then have t: "entries_keyed t" using assms(1) by (simp add: store_evolves_def)
  then show "entries_keyed u" using assms(2) by (simp add: store_evolves_def)
  fix i r'
  assume "rec_of u i = Some r'"
  then obtain r1 where r1: "rec_of t i = Some r1" "evolves r1 r'"
    using assms(2) t by (auto simp: store_evolves_def)
  then have "(\<exists>r. rec_of s i = Some r \<and> evolves r r1) \<or> i \<in> new \<and> rec_ok r1"
    using assms(1) s by (auto simp: store_evolves_def)
  then show "(\<exists>r. rec_of s i = Some r \<and> evolves r r') \<or> i \<in> new \<and> rec_ok r'"
    using r1(2) evolves_trans by (auto simp: evolves_def)
qed

lemma entries_keyed_put: "entries_keyed s \<Longrightarrow> entries_keyed (put_entry e s)"
  by (simp add: entries_keyed_def put_entry_def bt_sorted_insert keyed_by_insert)

lemma rec_of_put:
  "entries_keyed s \<Longrightarrow>
   rec_of (put_entry e s) i = (if i = fr_id (fe_record e) then Some (fe_record e) else rec_of s i)"
  by (simp add: entries_keyed_def rec_of_def put_entry_def bt_get_insert)

lemma entry_id: "entries_keyed s \<Longrightarrow> map_of (fs_entries s) i = Some e \<Longrightarrow> fr_id (fe_record e) = i"
  unfolding entries_keyed_def by (meson keyed_by_get)

lemma put_evolves:
  assumes "map_of (fs_entries s) i = Some e" and "evolves (fe_record e) (fe_record e')"
  shows "store_evolves {} s (put_entry e' s)"
  unfolding store_evolves_def
proof (intro impI conjI allI)
  assume s: "entries_keyed s"
  then show "entries_keyed (put_entry e' s)" by (rule entries_keyed_put)
  have i: "fr_id (fe_record e') = i"
    using entry_id[OF s assms(1)] assms(2) by (simp add: evolves_def extends_def)
  have here: "rec_of s i = Some (fe_record e)" using assms(1) by (simp add: rec_of_def)
  fix j r'
  assume r': "rec_of (put_entry e' s) j = Some r'"
  show "(\<exists>r. rec_of s j = Some r \<and> evolves r r') \<or> j \<in> {} \<and> rec_ok r'"
    using r' here assms(2) i rec_of_put[OF s, of e' j] by (cases "j = i") simp_all
qed

lemma change_evolves:
  assumes "\<And>e. map_of (fs_entries s) i = Some e \<Longrightarrow> evolves (fe_record e) (fe_record (f e))"
  shows "store_evolves {} s (snd (change w i f s))"
proof (cases "map_of (fs_entries s) i")
  case (Some e)
  then show ?thesis
    using put_evolves[OF Some, of e] put_evolves[OF Some assms[OF Some]]
    by (simp add: change_def save_def)
qed (simp add: change_def)

lemma change_record_evolves:
  assumes "\<And>r. rec_of s i = Some r \<Longrightarrow> evolves r (f r)"
  shows "store_evolves {} s (snd (change w i (upd_record f) s))"
  using assms by (intro change_evolves) (simp add: rec_of_def upd_record_def)

lemma remove_evolves: "store_evolves {} s (s\<lparr>fs_entries := bt_remove i (fs_entries s)\<rparr>)"
  by (auto simp: store_evolves_def entries_keyed_def rec_of_def bt_sorted_remove keyed_by_remove bt_simps)

lemma prune_evolves: "store_evolves {} s (prune_fixes s)"
proof -
  have "store_evolves {} s (fold prune_one is s)" for "is"
  proof (induction "is" arbitrary: s)
    case (Cons i "is")
    have "store_evolves {} s (prune_one i s)"
      by (simp add: prune_one_def remove_evolves split: option.split)
    then show ?case using Cons.IH store_evolves_trans by simp
  qed simp
  then show ?thesis by (simp add: prune_fixes_def)
qed

section \<open>The operations of the administrator and of other parts\<close>

lemma save_or_fail_evolves:
  assumes "map_of (fs_entries s) i = Some e" and "evolves (fe_record e) (fe_record e')"
  shows "store_evolves {} s (snd (save_or_fail w e' s))"
  using put_evolves[OF assms] by (simp add: save_or_fail_def save_def)

lemma confirm_evolves: "store_evolves {} s (snd (confirm red w at prefs actor once i s))"
proof (cases "map_of (fs_entries s) i")
  case (Some e)
  let ?r = "(fe_record e)\<lparr>fr_consent := Some (if once then ''once'' else ''persistent'')\<rparr>"
  have "evolves (fe_record e) ?r"
    by (auto simp: evolves_def extends_def rec_ok_def cleared_def logged_def)
  then have "evolves (fe_record e) (transition red at ''queued'' None actor ''confirmed''
      (audit red at actor a ''generation approved'' ?r))" for a
    by (rule evolves_trans) (rule evolves_trans[OF evolves_audit evolves_transition[OF plain_states(1)]])
  then show ?thesis
    using save_or_fail_evolves[OF Some] Some by (simp add: confirm_def Let_def)
qed (simp add: confirm_def)

lemma regenerate_evolves: "store_evolves {} s (snd (regenerate red w at actor note i s))"
proof (cases "map_of (fs_entries s) i")
  case (Some e)
  then show ?thesis
    using save_or_fail_evolves[OF Some] evolves_transition[OF plain_states(1)]
    by (simp add: regenerate_def)
qed (simp add: regenerate_def)

lemma signal_entries [simp]: "fs_entries (signal i s) = fs_entries s"
  by (simp add: signal_def)

lemma stop_evolves: "store_evolves {} s (snd (stop red w at actor discard i s))"
proof (cases "map_of (fs_entries s) i")
  case (Some e)
  have "evolves (fe_record e) (fe_record (upd_record (transition red at st None actor st) e))"
    if "st = ''discarded'' \<or> st = ''cancelled''" for st
    using that evolves_transition[OF plain_states(6)] evolves_transition[OF plain_states(7)]
    by (auto simp: upd_record_def)
  then have "store_evolves {} (signal i s) (snd (save_or_fail w (upd_record (transition red at st None actor st) e) (signal i s)))"
    if "st = ''discarded'' \<or> st = ''cancelled''" for st
    using save_or_fail_evolves[of "signal i s" i e] Some that by simp
  then have "store_evolves {} s (snd (save_or_fail w (upd_record (transition red at st None actor st) e) (signal i s)))"
    if "st = ''discarded'' \<or> st = ''cancelled''" for st
    using that store_evolves_trans[OF store_evolves_same[of "signal i s" s]] by simp
  then show ?thesis using Some by (auto simp: stop_def Let_def)
qed (simp add: stop_def)

lemma change_each_evolves:
  assumes "\<And>r. evolves r (f r)"
  shows "store_evolves {} s (change_each ws f is s)"
proof (induction "is" arbitrary: ws s)
  case (Cons i "is")
  show ?case
  proof (cases "map_of (fs_entries s) i")
    case (Some e)
    then have "store_evolves {} s (put_entry (upd_record f e) s)"
      using put_evolves[OF Some, of "upd_record f e"] assms by (simp add: upd_record_def)
    then show ?thesis using Some Cons.IH store_evolves_trans by (auto split: list.split)
  qed simp
qed simp

lemma invalidate_each_evolves: "store_evolves {} s (invalidate_each red at reason ws is s)"
proof (induction red at reason ws "is" s rule: invalidate_each.induct)
  case (2 red at reason ws i "is" s)
  show ?case
  proof (cases "map_of (fs_entries s) i")
    case (Some e)
    have "store_evolves {} (signal i s)
        (put_entry (upd_record (transition red at ''cancelled'' (Some reason) ''revera'' ''cancelled'') e) (signal i s))"
      by (rule put_evolves[of _ i e])
        (simp_all add: Some upd_record_def evolves_transition plain_states)
    then have "store_evolves {} s
        (put_entry (upd_record (transition red at ''cancelled'' (Some reason) ''revera'' ''cancelled'') e) (signal i s))"
      using store_evolves_trans[OF store_evolves_same[of "signal i s" s]] by simp
    moreover have "store_evolves {} s (signal i s)" by (rule store_evolves_same) simp
    ultimately show ?thesis using Some 2 store_evolves_trans by (auto simp: Let_def split: list.split)
  qed simp
qed simp

lemma shutdown_evolves: "store_evolves {} s (shutdown_fixes red at ws s)"
proof -
  let ?s = "s\<lparr>fs_running := map (\<lambda>(i, _). (i, True)) (fs_running s)\<rparr>"
  have "store_evolves {} s ?s" by (rule store_evolves_same) simp
  then show ?thesis
    unfolding shutdown_fixes_def Let_def
    by (rule store_evolves_trans) (intro change_each_evolves evolves_transition plain_states)
qed


text \<open>
  The controller as a whole.  A world is the store, the phases of the running workers, the claimed
  publications in flight, the writes made to GitHub and the identifiers handed out.  Each operation of
  \<open>Fix_Store\<close>, \<open>Fix_Control\<close> and \<open>Fix_Generate\<close> is one step, in any order; a worker's run is many steps,
  and a claimed publication is delivered by a later one.
\<close>

section \<open>Workers\<close>

text \<open>What a worker knows: from the consent check on the record has a consent, and inside an attempt the
  attempt number is within the limit.\<close>

definition consented :: "fix_store \<Rightarrow> string \<Rightarrow> bool" where
  "consented s i = (case rec_of s i of None \<Rightarrow> True | Some r \<Rightarrow> fr_consent r \<noteq> None)"

definition attempt_fits :: "work \<Rightarrow> nat \<Rightarrow> bool" where
  "attempt_fits w n = (n \<le> lim_attempts (fp_limits (wk_policy w)))"

fun phase_ok :: "fix_store \<Rightarrow> string \<Rightarrow> phase \<Rightarrow> bool" where
  "phase_ok s i (Ph_Check e c) = (fr_consent (fe_record e) \<noteq> None \<longrightarrow> consented s i)"
| "phase_ok s i (Ph_Consent e c) = (fr_consent (fe_record e) \<noteq> None \<longrightarrow> consented s i)"
| "phase_ok s i (Ph_Loop w n) = consented s i"
| "phase_ok s i (Ph_Generating w n) = (consented s i \<and> attempt_fits w n)"
| "phase_ok s i (Ph_Generate w n) = (consented s i \<and> attempt_fits w n)"
| "phase_ok s i (Ph_Diff w n g) = (consented s i \<and> attempt_fits w n)"
| "phase_ok s i (Ph_Tests w n pt) = (consented s i \<and> attempt_fits w n)"
| "phase_ok s i (Ph_Verify w n pt t) = (consented s i \<and> attempt_fits w n)"
| "phase_ok s i (Ph_Feedback w n errs) = (consented s i \<and> attempt_fits w n)"
| "phase_ok s i _ = True"

lemma evolves_consent: "evolves r r' \<Longrightarrow> fr_consent r \<noteq> None \<Longrightarrow> fr_consent r' \<noteq> None"
  by (simp add: evolves_def extends_def)

lemma evolves_cleared: "evolves r r' \<Longrightarrow> cleared r \<Longrightarrow> cleared r'"
  by (simp add: evolves_def extends_def cleared_def)

lemma store_evolves_at:
  assumes "store_evolves new s s'" and "entries_keyed s" and "i \<notin> new" and "rec_of s' i = Some r'"
  obtains r where "rec_of s i = Some r" and "evolves r r'"
  using assms unfolding store_evolves_def by blast

lemma consented_evolves:
  assumes "store_evolves new s s'" and "entries_keyed s" and "i \<notin> new" and "consented s i"
  shows "consented s' i"
proof (cases "rec_of s' i")
  case (Some r')
  obtain r where "rec_of s i = Some r" "evolves r r'"
    by (rule store_evolves_at[OF assms(1-3) Some])
  then show ?thesis using assms(4) Some evolves_consent by (auto simp: consented_def)
qed (simp add: consented_def)

lemma phase_ok_evolves:
  assumes "store_evolves new s s'" and "entries_keyed s" and "i \<notin> new" and "phase_ok s i ph"
  shows "phase_ok s' i ph"
  using consented_evolves[OF assms(1-3)] assms(4) by (cases ph) auto

text \<open>Every change of a worker lets its record evolve.\<close>

lemma change_then_evolves:
  assumes "\<And>e. map_of (fs_entries s) i = Some e \<Longrightarrow> evolves (fe_record e) (fe_record (f e))"
  shows "store_evolves {} s (snd (change_then w i f next s))"
proof -
  have "snd (change_then w i f next s) = snd (change w i f s)"
    by (simp add: change_then_def split: prod.split sum.split)
  then show ?thesis using change_evolves[OF assms] by simp
qed

lemma change_then_fst: "(\<exists>x. fst (change_then w i f next s) = Ph_Failed x) \<or> (\<exists>r. fst (change_then w i f next s) = next r)"
  by (auto simp: change_then_def split: prod.splits sum.splits)

lemma to_state_evolves:
  "may_enter st (fe_record e) \<Longrightarrow> evolves (fe_record e) (fe_record (to_state red v st reason action e))"
  by (simp add: to_state_def upd_record_def evolves_transition)

lemma authorize_is_change:
  obtains f where "snd (authorize_execution red v i pr s) = snd (change (se_written v) i f s)"
    and "\<And>e. evolves (fe_record e) (fe_record (f e))"
proof (cases "map_of (fs_entries s) i")
  case None
  then show ?thesis by (intro that[of id]) (simp_all add: authorize_execution_def change_def)
next
  case (Some e)
  obtain origin actor where o: "execution_identity e = (origin, actor)" by fastforce
  define a where "a = authorize (se_prefs v) origin actor pr (repo_fix_policy (se_prefs v) (fr_repo (fe_record e))) (se_permission v)"
  define f where "f = (case a of
      Inr preview \<Rightarrow> (\<lambda>e. e\<lparr>fe_record := audit red (se_at v) actor ''authorized'' ''execution permission rechecked'' (fe_record e),
        fe_context := (fe_context e)\<lparr>cd_preview_only := cd_preview_only (fe_context e) \<or> preview\<rparr>\<rparr>)
    | Inl x \<Rightarrow> upd_record (audit red (se_at v) actor ''permission_denied'' ''execution permission revoked''))"
  have "snd (authorize_execution red v i pr s) = snd (change (se_written v) i f s)"
    by (simp add: authorize_execution_def Some o a_def[symmetric] f_def split: sum.split prod.split)
  moreover have "evolves (fe_record e) (fe_record (f e))" for e
    by (simp add: f_def upd_record_def split: sum.split)
  ultimately show ?thesis by (rule that)
qed

lemma authorize_execution_evolves: "store_evolves {} s (snd (authorize_execution red v i pr s))"
  by (rule authorize_is_change[of red v i pr s]) (simp add: change_evolves)

text \<open>A rule of the machine: the store evolves, and the next phase knows what it must.\<close>

definition step_ok :: "string \<Rightarrow> fix_store \<Rightarrow> phase \<times> fix_store \<Rightarrow> bool" where
  "step_ok i s p = (store_evolves {} s (snd p) \<and> phase_ok (snd p) i (fst p))"

lemma step_okI:
  assumes "entries_keyed s" and "store_evolves {} s (snd p)" and "phase_ok s i (fst p)"
  shows "step_ok i s p"
  using assms phase_ok_evolves[of "{}" s "snd p" i "fst p"] by (simp add: step_ok_def)

lemma step_ok_change_then:
  assumes "entries_keyed s"
    and "\<And>e. map_of (fs_entries s) i = Some e \<Longrightarrow> evolves (fe_record e) (fe_record (f e))"
    and "\<And>r. phase_ok s i (next r)"
  shows "step_ok i s (change_then w i f next s)"
proof (rule step_okI[OF assms(1)])
  show "store_evolves {} s (snd (change_then w i f next s))" by (rule change_then_evolves) (rule assms(2))
  show "phase_ok s i (fst (change_then w i f next s))"
    using change_then_fst[of w i f "next" s] assms(3) by auto
qed

lemma step_ok_stay: "phase_ok s i ph \<Longrightarrow> step_ok i s (ph, s)"
  by (simp add: step_ok_def)

lemma step_ok_authorize:
  assumes "entries_keyed s" and "phase_ok s i ph"
  shows "step_ok i s (case authorize_execution red v i pr s of (Inl x, s') \<Rightarrow> (Ph_Failed x, s') | (Inr _, s') \<Rightarrow> (ph, s'))"
proof (rule step_okI[OF assms(1)])
  show "store_evolves {} s (snd (case authorize_execution red v i pr s of (Inl x, s') \<Rightarrow> (Ph_Failed x, s') | (Inr _, s') \<Rightarrow> (ph, s')))"
    using authorize_execution_evolves[of s red v i pr] by (auto split: prod.splits sum.splits)
  show "phase_ok s i (fst (case authorize_execution red v i pr s of (Inl x, s') \<Rightarrow> (Ph_Failed x, s') | (Inr _, s') \<Rightarrow> (ph, s')))"
    using assms(2) by (simp split: prod.split sum.split)
qed

lemma consent_may_enter:
  assumes "consented s i" and "map_of (fs_entries s) i = Some e"
    and "st = ''generating'' \<or> st = ''validating'' \<or> st = ''ready''"
  shows "may_enter st (fe_record e)"
  using assms by (auto simp: consented_def rec_of_def may_enter_def state_sets)

lemma begin_attempt_evolves:
  assumes "consented s i" and "attempt_fits w n" and "map_of (fs_entries s) i = Some e"
  shows "evolves (fe_record e) (fe_record (begin_attempt red v w n e))"
proof -
  let ?r = "(fe_record e)\<lparr>fr_attempt := n, fr_max_attempts := lim_attempts (fp_limits (wk_policy w)),
    fr_generation := None, fr_verification := None, fr_tests := None, fr_patch := None\<rparr>"
  have "evolves (fe_record e) ?r"
    using assms(2) by (auto simp: attempt_fits_def evolves_def extends_def rec_ok_def cleared_def logged_def)
  moreover have "may_enter ''generating'' ?r"
    using consent_may_enter[OF assms(1,3), of "''generating''"]
    by (simp add: may_enter_def state_sets)
  ultimately show ?thesis
    by (simp add: begin_attempt_def upd_record_def) (rule evolves_trans[OF _ evolves_transition])
qed

lemma change_core_evolves:
  assumes "\<And>r. same_core r (f r)"
  shows "evolves (fe_record e) (fe_record (upd_record f e))"
  using evolves_core[OF assms] by (simp add: upd_record_def)

section \<open>The rules of the machine\<close>

lemma consented_entry:
  "map_of (fs_entries s) i = Some e \<Longrightarrow> fr_consent (fe_record e) \<noteq> None \<Longrightarrow> consented s i"
  by (simp add: consented_def rec_of_def)

lemma begin_step_ok: "entries_keyed s \<Longrightarrow> step_ok i s (begin_step v i s)"
  by (auto simp: begin_step_def step_ok_def consented_entry split: option.split)

lemma check_step_ok:
  assumes "entries_keyed s" and "fr_consent (fe_record e) \<noteq> None \<longrightarrow> consented s i"
  shows "step_ok i s (check_step red v i e c s)"
proof -
  have stale: "step_ok i s (change_then w i (to_state red v ''stale'' reason ''stale'') (\<lambda>_. Ph_Done) s)" for w reason
    using assms(1) by (intro step_ok_change_then) (simp_all add: to_state_evolves plain_states)
  have auth: "step_ok i s (case authorize_execution red v i pr s of (Inl x, s') \<Rightarrow> (Ph_Failed x, s')
      | (Inr _, s') \<Rightarrow> (Ph_Consent e c, s'))" for pr
    using assms by (intro step_ok_authorize) simp_all
  show ?thesis using stale auth by (simp add: check_step_def step_ok_stay split: sum.split)
qed

lemma consent_step_ok:
  assumes "entries_keyed s" and "fr_consent (fe_record e) \<noteq> None \<longrightarrow> consented s i"
  shows "step_ok i s (consent_step red v i e c s)"
proof -
  have stop: "step_ok i s (change_then w i (to_state red v st reason act) (\<lambda>_. Ph_Done) s)"
    if "st = ''awaiting_confirmation'' \<or> st = ''unsupported''" for w st reason act
    using assms(1) that by (intro step_ok_change_then) (auto simp: to_state_evolves plain_states)
  have "\<not> needs_consent e c \<Longrightarrow> consented s i" using assms(2) by (auto simp: needs_consent_def)
  then show ?thesis
    using stop by (auto simp: consent_step_def step_ok_stay Let_def split: sum.split option.split)
qed

lemma loop_step_ok:
  assumes "entries_keyed s" and "consented s i"
  shows "step_ok i s (loop_step red v i w n s)"
proof (cases "lim_attempts (fp_limits (wk_policy w)) < n \<or> wk_remaining w < 2")
  case False
  then have "step_ok i s (case authorize_execution red v i pr s of (Inl x, s') \<Rightarrow> (Ph_Failed x, s')
      | (Inr _, s') \<Rightarrow> (Ph_Generating w n, s'))" for pr
    using assms by (intro step_ok_authorize) (simp_all add: attempt_fits_def)
  then show ?thesis using False by (simp add: loop_step_def step_ok_stay split: sum.split)
qed (auto simp: loop_step_def step_ok_stay)

lemma generating_step_ok:
  assumes "entries_keyed s" and "consented s i" and "attempt_fits w n"
  shows "step_ok i s (change_then wr i (begin_attempt red v w n)
    (\<lambda>r. if fr_state r = ''generating'' then Ph_Generate w n else Ph_Done) s)"
  using assms by (intro step_ok_change_then begin_attempt_evolves) simp_all

lemma attempt_fits_spend [simp]: "attempt_fits (spend l w) n = attempt_fits w n"
  by (simp add: attempt_fits_def spend_def)

lemma attempt_fits_feedback [simp]: "attempt_fits (w\<lparr>wk_feedback := f\<rparr>) n = attempt_fits w n"
  by (simp add: attempt_fits_def)

lemma generate_step_ok:
  assumes "entries_keyed s" and "consented s i" and "attempt_fits w n"
  shows "step_ok i s (generate_step red v i w n s)"
proof -
  have "evolves (fe_record e) (transition red at ''validating'' None ''revera'' ''generated''
      ((fe_record e)\<lparr>fr_generation := g, fr_usage := u\<rparr>))"
    if "map_of (fs_entries s) i = Some e" for e at g u
    using consent_may_enter[OF assms(2) that, of "''validating''"]
    by (intro evolves_core_transition) (simp_all add: same_core_def)
  then show ?thesis
    using assms unfolding generate_step_def
    by (auto intro!: step_ok_change_then simp: upd_record_def step_ok_stay split: sum.split)
qed

lemma diff_step_ok:
  assumes "entries_keyed s" and "consented s i" and "attempt_fits w n"
  shows "step_ok i s (diff_step sens ci red v i w n g s)"
proof (cases "se_patch v")
  case (Inr pt)
  then show ?thesis
    using assms unfolding diff_step_def
    by (auto simp: Let_def intro!: step_ok_change_then change_core_evolves simp: same_core_def)
qed (simp add: diff_step_def step_ok_stay)

lemma tests_step_ok:
  assumes "entries_keyed s" and "consented s i" and "attempt_fits w n"
  shows "step_ok i s (tests_step red v i w n pt s)"
proof -
  have "evolves r (audit red at a b d (r\<lparr>fr_tests := t\<rparr>))" for r at a b d t
    by (rule evolves_trans[OF evolves_core evolves_audit]) (simp add: same_core_def)
  then show ?thesis
    using assms unfolding tests_step_def
    by (auto intro!: step_ok_change_then simp: upd_record_def step_ok_stay split: sum.split)
qed

lemma verify_step_ok:
  assumes "entries_keyed s" and "consented s i" and "attempt_fits w n"
  shows "step_ok i s (verify_step red v i w n t s)"
proof -
  have audited: "evolves r (audit red at a b d (r\<lparr>fr_verification := x, fr_usage := u\<rparr>))" for r at a b d x u
    by (rule evolves_trans[OF evolves_core evolves_audit]) (simp add: same_core_def)
  have "evolves (fe_record e) (transition red at ''ready'' None ''revera'' ''ready''
      (audit red at a b d ((fe_record e)\<lparr>fr_verification := x, fr_usage := u\<rparr>)))"
    if "map_of (fs_entries s) i = Some e" for e at a b d x u
    using consent_may_enter[OF assms(2) that, of "''ready''"]
    by (intro evolves_trans[OF audited evolves_transition]) (simp add: may_enter_def state_sets)
  with audited show ?thesis
    using assms unfolding verify_step_def
    by (auto intro!: step_ok_change_then simp: upd_record_def step_ok_stay Let_def split: sum.split)
qed

lemma feedback_step_ok:
  assumes "entries_keyed s" and "consented s i"
  shows "step_ok i s (feedback_step red v i w n errs s)"
  using assms unfolding feedback_step_def
  by (intro step_ok_change_then change_core_evolves) (simp_all add: same_core_def)

lemma exhausted_step_ok:
  assumes "entries_keyed s"
  shows "step_ok i s (exhausted_step red v i s)"
  using assms unfolding exhausted_step_def
  by (auto intro!: step_ok_change_then simp: to_state_evolves plain_states step_ok_stay split: option.split)

lemma worker_step_ok:
  assumes "entries_keyed s" and "phase_ok s i ph"
  shows "step_ok i s (worker_step sens ci red diag v i ph s)"
proof (cases "ph = Ph_Done \<or> (\<exists>x. ph = Ph_Failed x)")
  case True
  have "store_evolves {} s (snd (change w i (to_state red v ''failed'' reason ''failed'') s))" for w reason
    by (rule change_evolves) (simp add: to_state_evolves plain_states)
  with True show ?thesis by (auto simp: step_ok_def)
next
  case False
  show ?thesis
  proof (cases "se_timeout v \<and> ph \<noteq> Ph_Begin")
    case True
    then show ?thesis using False by (cases ph) (simp_all add: step_ok_stay)
  next
    case calm: False
    then show ?thesis using False assms
      by (cases ph) (auto simp: begin_step_ok check_step_ok consent_step_ok loop_step_ok generating_step_ok
        generate_step_ok diff_step_ok tests_step_ok verify_step_ok feedback_step_ok exhausted_step_ok)
  qed
qed

section \<open>Requests, restarts and publications\<close>

lemma keyed_evolves: "(entries_keyed s \<Longrightarrow> store_evolves new s s') \<Longrightarrow> store_evolves new s s'"
  by (auto simp: store_evolves_def)

lemma put_new:
  assumes "rec_ok (fe_record e)"
  shows "store_evolves {fr_id (fe_record e)} s (put_entry e s)"
  using assms entries_keyed_put rec_of_put unfolding store_evolves_def
  by (metis evolves_refl insertI1 option.inject)

lemma store_evolves_weaken: "store_evolves {} s s' \<Longrightarrow> store_evolves new s s'"
  by (auto simp: store_evolves_def)

lemma evolves_transition_ok:
  assumes "rec_ok r \<Longrightarrow> may_enter st r"
  shows "evolves r (transition red at st reason actor action r)"
proof (cases "rec_ok r")
  case True
  then show ?thesis by (rule evolves_transition[OF assms])
next
  case False
  then show ?thesis by (simp add: evolves_def extends_def transition_keeps_logged)
qed

lemma new_record_ok: "rec_ok (new_record H red v origin actor consent queued j n pr selected p base head)"
  by (simp add: rec_ok_def new_record_def state_sets MAX_EVENTS_def)

lemma request_audit_evolves: "evolves r (request_audit red at origin actor denied once r)"
proof -
  have "evolves r (transition red at ''failed'' reason a b (audit red at c d x r))" for reason a b c d x
    by (rule evolves_trans[OF evolves_audit evolves_transition[OF plain_states(3)]])
  moreover have "evolves r (audit red at a b c (audit red at d e x r))" for a b c d e x
    by (rule evolves_trans[OF evolves_audit evolves_audit])
  moreover have "evolves r (audit red at a b c (audit red at d e x (audit red at y z w r)))" for a b c d e x y z w
    by (rule evolves_trans[OF evolves_trans[OF evolves_audit evolves_audit] evolves_audit])
  ultimately show ?thesis by (simp add: request_audit_def Let_def split: option.split)
qed

lemma request_audit_ok: "rec_ok r \<Longrightarrow> rec_ok (request_audit red at origin actor denied once r)"
  using request_audit_evolves[of r red at origin actor denied once] by (simp add: evolves_def)

lemma request_audit_id: "fr_id (request_audit red at origin actor denied once r) = fr_id r"
  using request_audit_evolves[of r red at origin actor denied once] by (simp add: evolves_def extends_def)

lemma put_request_evolves:
  fixes red at origin actor denied once H v queued consent j n pr selected p base head c s
  defines "s1 \<equiv> put_entry \<lparr>fe_record = request_audit red at origin actor denied once
      (new_record H red v origin actor consent queued j n pr selected p base head), fe_context = c\<rparr> s"
  shows "store_evolves {rv_uid v} s s1" and "store_evolves {rv_uid v} s (prune_fixes s1)"
proof -
  show "store_evolves {rv_uid v} s s1"
    unfolding s1_def using put_new[of "\<lparr>fe_record = request_audit red at origin actor denied once
      (new_record H red v origin actor consent queued j n pr selected p base head), fe_context = c\<rparr>" s]
    by (simp add: request_audit_ok request_audit_id new_record_ok) (simp add: new_record_def)
  then show "store_evolves {rv_uid v} s (prune_fixes s1)"
    by (rule store_evolves_trans) (rule prune_evolves)
qed

lemma store_evolves_from:
  "fs_entries s' = fs_entries s \<Longrightarrow> store_evolves new s' t \<Longrightarrow> store_evolves new s t"
  by (simp add: store_evolves_def entries_keyed_def rec_of_def)

lemma create_request_evolves:
  "store_evolves {rv_uid v} s (snd (create_request H red v origin actor once denied preview j n repo pr selected p k s))"
proof -
  have same: "fs_entries (push_admission a b c s) = fs_entries s" for a b c by (simp add: push_admission_def)
  note put = put_request_evolves store_evolves_from[OF same put_request_evolves(1)]
    store_evolves_from[OF same put_request_evolves(2)]
  show ?thesis
    by (simp add: create_request_def Let_def save_def store_evolves_same same put split: sum.split option.split)
qed

lemma join_existing_evolves:
  assumes "existing_request k preview s = Some e"
  shows "store_evolves {} s (snd (join_existing red v origin actor denied e s))"
proof (rule keyed_evolves)
  assume s: "entries_keyed s"
  have "e \<in> set (bt_values (fs_entries s))"
    using assms by (auto simp: existing_request_def dest: find_Some_iff_set)
  then have e: "map_of (fs_entries s) (fr_id (fe_record e)) = Some e"
    using s by (auto simp: entries_keyed_def bt_values_def bt_get_in dest: keyed_byD)
  have "evolves (fe_record e) (audit red at a b c (audit red at d x y (fe_record e)))" for at a b c d x y
    by (rule evolves_trans[OF evolves_audit evolves_audit])
  then show "store_evolves {} s (snd (join_existing red v origin actor denied e s))"
    using put_evolves[OF e] by (auto simp: join_existing_def Let_def save_def split: option.split)
qed

lemma admit_entries:
  "fs_entries (snd (admit_attempt w now actor repo p s)) = fs_entries s"
  "fs_entries (snd (record_denial w now actor repo s)) = fs_entries s"
  by (simp_all add: admit_attempt_def record_denial_def Let_def)

lemma admit_request_evolves:
  "store_evolves {rv_uid v} s (snd (admit_request H red v origin actor once denied preview j n repo pr selected p k s))"
proof -
  obtain f t where a: "(if denied \<noteq> None then record_denial (rv_attempts_ok v) (rv_now v) actor (js_repo j) s
            else admit_attempt (rv_attempts_ok v) (rv_now v) actor (js_repo j) p s) = (f, t)"
    by (meson surj_pair)
  have same: "fs_entries t = fs_entries s"
    using a admit_entries by (metis snd_conv)
  have main: "store_evolves {rv_uid v} s (snd (case existing_request k preview t of
             Some e \<Rightarrow> join_existing red v origin actor denied e t
           | None \<Rightarrow>
               if denied = None \<and> over_limit (rv_now v) actor (js_repo j) p t
               then (Inl (conflict ''fix request rate limit reached; try later''), t)
               else create_request H red v origin actor once denied preview j n repo pr selected p k t))"
    by (rule store_evolves_from[OF same])
      (simp add: create_request_evolves join_existing_evolves store_evolves_weaken split: option.split)
  show ?thesis
    unfolding admit_request_def a
    using main same by (cases f) (simp_all add: store_evolves_same)
qed

lemma fix_request_evolves: "store_evolves {rv_uid v} s (snd (fix_request H K red diag v origin actor ids once s))"
  by (simp add: fix_request_def Let_def admit_request_evolves split: sum.split prod.split option.split)

lemma evolves_bound_events: "evolves r (bound_events r)"
proof -
  have "logged ''approved'' r \<Longrightarrow> logged ''approved'' (bound_events r)"
    using bound_list_keeps[of "fr_events r"] by (simp add: keeps_actions_def logged_def bound_events_def)
  then show ?thesis
    by (auto simp: evolves_def extends_def rec_ok_def cleared_def bound_events_def bound_list_length)
qed

lemma recover_evolves: "evolves r (recover_record red at r)"
proof -
  let ?b = "bound_events r"
  have failed: "evolves ?b (transition red at ''failed'' a b c ?b)" for a b c
    by (rule evolves_transition) (rule plain_states)
  have pub: "evolves ?b (transition red at st a b c ?b)"
    if "fr_state ?b \<in> pub_states" "st \<in> pub_states" for st a b c
    using that by (intro evolves_transition_ok) (auto simp: rec_ok_def may_enter_def state_sets cleared_def)
  have rev: "evolves r' (r'\<lparr>fr_verify_review := map_option f (fr_verify_review r')\<rparr>)" for r' f
    by (rule evolves_core) (simp add: same_core_def)
  have "evolves ?b (recover_record red at r)"
    using failed pub[of "''publish_failed''"] evolves_trans[OF pub[of "''published''"] rev]
    by (simp add: recover_record_def Let_def state_sets)
  then show ?thesis using evolves_bound_events evolves_trans by blast
qed

lemma load_evolves: "store_evolves {} s (load_fixes red now at s)"
proof -
  let ?f = "\<lambda>(i, e). (i, e\<lparr>fe_record := recover_record red at (fe_record e)\<rparr>)"
  let ?s = "\<lparr>fs_entries = map ?f (fs_entries s), fs_running = [],
        fs_admissions = filter (\<lambda>a. now - 86400 < ad_at a) (fs_admissions s),
        fs_denials = fs_denials s, fs_attempts = fs_attempts s\<rparr>"
  have get: "rec_of ?s i = map_option (recover_record red at) (rec_of s i)" for i
    by (simp add: rec_of_def map_of_map option.map_comp o_def)
  have id: "fr_id (recover_record red at r) = fr_id r" for r
    using recover_evolves[of r red at] by (simp add: evolves_def extends_def)
  have "entries_keyed s \<Longrightarrow> entries_keyed ?s"
    using bt_sorted_map[of "\<lambda>_ e. e\<lparr>fe_record := recover_record red at (fe_record e)\<rparr>" "fs_entries s"]
    by (auto simp: entries_keyed_def keyed_by_def list_all_iff id)
  then have "store_evolves {} s ?s"
    using recover_evolves by (auto simp: store_evolves_def get)
  then show ?thesis unfolding load_fixes_def by (rule store_evolves_trans) (rule prune_evolves)
qed

lemma claim_evolves: "store_evolves {} s (snd (claim_ready red w at prefs a m i s))"
proof (cases "map_of (fs_entries s) i")
  case (Some e)
  have "evolves (fe_record e) (transition red at ''publishing'' None b c (audit red at b ''approved'' d (fe_record e)))"
    if "fr_repo_source (fe_record e) \<noteq> External" "fr_state (fe_record e) = ''ready''" for b c d
  proof (rule evolves_trans[OF evolves_audit])
    let ?r = "audit red at b ''approved'' d (fe_record e)"
    have "rec_ok ?r \<Longrightarrow> may_enter ''publishing'' ?r"
      using that by (cases "fr_repo_source (fe_record e)")
        (auto simp: rec_ok_def may_enter_def state_sets cleared_def audit_logs)
    then show "evolves ?r (transition red at ''publishing'' None b c ?r)" by (rule evolves_transition_ok)
  qed
  then show ?thesis
    using put_evolves[OF Some] Some by (simp add: claim_ready_def Let_def)
qed (simp add: claim_ready_def)

text \<open>Changes of a record that is cleared for publication.\<close>

lemma cleared_transition:
  assumes "cleared r" and "st \<in> pub_states"
    and "same_core r r'" and "same_core (transition red at st a b c r') r2"
  shows "evolves r r2"
proof -
  have "may_enter st r" using assms(1,2) by (auto simp: may_enter_def state_sets cleared_def)
  then have "evolves r (transition red at st a b c r')" by (rule evolves_core_transition[OF assms(3)])
  then show ?thesis using evolves_core[OF assms(4)] evolves_trans by blast
qed

definition cleared_at :: "fix_store \<Rightarrow> string \<Rightarrow> bool" where
  "cleared_at s i = (case rec_of s i of None \<Rightarrow> True | Some r \<Rightarrow> cleared r)"

lemma cleared_at_evolves:
  assumes "store_evolves new s s'" and "entries_keyed s" and "i \<notin> new" and "cleared_at s i"
  shows "cleared_at s' i"
proof (cases "rec_of s' i")
  case (Some r')
  obtain r where "rec_of s i = Some r" "evolves r r'"
    by (rule store_evolves_at[OF assms(1-3) Some])
  then show ?thesis using assms(4) Some evolves_cleared by (auto simp: cleared_at_def)
qed (simp add: cleared_at_def)

lemma publish_evolves:
  assumes "cleared_at s i"
  shows "store_evolves {} s (snd (publish_done red w at a d i s))"
    and "store_evolves {} s (snd (publish_failed red w at m reason i s))"
    and "store_evolves {} s (snd (start_verify red w at job i s))"
    and "store_evolves {} s (snd (followup_failed red w at err i s))"
    and "store_evolves {} s (snd (verify_incomplete red w at cl st note i s))"
proof -
  have c: "cleared r" if "rec_of s i = Some r" for r using assms that by (simp add: cleared_at_def)
  have core: "same_core r r" for r by (simp add: same_core_def)
  show "store_evolves {} s (snd (publish_done red w at a d i s))"
    unfolding publish_done_def
  proof (rule change_record_evolves)
    fix r assume r: "rec_of s i = Some r"
    have p: "evolves r (transition red at ''published'' None ''revera'' ''published'' (r\<lparr>fr_delivery := Some d\<rparr>))"
      by (rule cleared_transition[OF c[OF r] _ _ core]) (simp_all add: state_sets same_core_def c[OF r])
    then show "evolves r (let r = transition red at ''published'' None ''revera'' ''published'' (r\<lparr>fr_delivery := Some d\<rparr>)
       in if a = AutomaticDraft then audit red at ''revera'' ''published''
          ''auto-published as draft PR (approval not required by settings)'' r else r)"
      using evolves_trans[OF p evolves_audit] by (simp add: Let_def)
  qed
  show "store_evolves {} s (snd (publish_failed red w at m reason i s))"
    unfolding publish_failed_def
    by (rule change_record_evolves) (rule cleared_transition[OF c _ _ core],
        simp_all add: state_sets same_core_def c)
  show "store_evolves {} s (snd (start_verify red w at job i s))"
    unfolding start_verify_def
    by (rule change_record_evolves) (rule cleared_transition[OF c _ _ core],
        simp_all add: state_sets same_core_def c)
  have p: "evolves r ((transition red at ''published'' a b x r)\<lparr>fr_verify_review := y\<rparr>)"
    if "rec_of s i = Some r" for r a b x y
    by (rule cleared_transition[OF c[OF that] _ core, of "''published''"])
      (use c[OF that] in \<open>auto simp: state_sets same_core_def cleared_def transition_keeps_logged\<close>)
  show "store_evolves {} s (snd (followup_failed red w at err i s))"
    unfolding followup_failed_def by (rule change_record_evolves) (rule p)
  show "store_evolves {} s (snd (verify_incomplete red w at cl st note i s))"
    unfolding verify_incomplete_def Let_def by (rule change_record_evolves) (rule p)
qed

lemma completed_evolves:
  assumes "cleared_at s (fr_id (fe_record e))"
  shows "store_evolves {} s (snd (completed_followup H red w at job accepted report e s))"
proof -
  have core: "same_core r r" for r by (simp add: same_core_def)
  show ?thesis
    unfolding completed_followup_def Let_def
    using assms by (intro change_record_evolves)
      (rule cleared_transition[OF _ _ _ core], auto simp: state_sets same_core_def cleared_at_def)
qed

end
