(* ===== verification/Fix_Runs.thy ===== *)
theory Fix_Runs
  imports Fix_World
begin

text \<open>
  Runs of the controller: the worlds that any sequence of operations can reach, from an empty store.
  The properties of the repair jobs are about all of them.
\<close>

section \<open>The world and its operations\<close>

record fworld =
  fw_store :: fix_store
  fw_workers :: "string \<Rightarrow> phase option"
  fw_claims :: "string \<Rightarrow> (fix_entry \<times> authority \<times> fix_delivery) option"
  fw_writes :: "(fix_entry \<times> fix_delivery \<times> string \<times> string) list"
  fw_used :: "string set"

definition fworld_init :: fworld where
  "fworld_init = \<lparr>fw_store = fix_store_default, fw_workers = (\<lambda>_. None), fw_claims = (\<lambda>_. None),
     fw_writes = [], fw_used = {}\<rparr>"

text \<open>What the operations share: the digests, redaction and the path rules.\<close>

record fix_env =
  fx_H :: "string \<Rightarrow> string"
  fx_K :: "job_summary \<Rightarrow> string list \<Rightarrow> string"
  fx_red :: "string \<Rightarrow> string"
  fx_diag :: "string \<Rightarrow> string"
  fx_sens :: "string \<Rightarrow> bool"
  fx_ci :: "string \<Rightarrow> bool"

datatype fix_op =
    Op_Request request_env string string "string list option" bool
  | Op_Confirm bool string preferences string bool string
  | Op_Regenerate bool string string string string
  | Op_Stop bool string string bool string
  | Op_Invalidate string "bool list" nat source "nat option" string
  | Op_Shutdown string "bool list"
  | Op_Start nat bool bool
  | Op_Work step_env string
  | Op_End string
  | Op_Claim bool string preferences authority fix_delivery string
  | Op_Deliver bool string delivery_env "string + json" string
  | Op_Verify bool string string mode "string + repo \<times> json" string
  | Op_Verified bool string string "(string list \<times> json) option" string string string
  | Op_Restart int string

definition is_failed :: "phase \<Rightarrow> bool" where
  "is_failed ph = (case ph of Ph_Failed _ \<Rightarrow> True | _ \<Rightarrow> False)"

text \<open>Delivering a claimed publication: the gate, then the one write, then the outcome in the record.\<close>

definition deliver_op ::
  "fix_env \<Rightarrow> bool \<Rightarrow> string \<Rightarrow> delivery_env \<Rightarrow> string + json \<Rightarrow> string \<Rightarrow> fworld \<Rightarrow> fworld" where
  "deliver_op x wr at v io i w =
     (case fw_claims w i of
        None \<Rightarrow> w
      | Some (e, a, m) \<Rightarrow>
          (let failed = (\<lambda>err. snd (publish_failed (fx_red x) wr at m (fx_diag x err) i (fw_store w)));
               w1 = w\<lparr>fw_claims := (fw_claims w)(i := None)\<rparr> in
           case deliver_gate (fx_sens x) (fx_ci x) (fx_red x) v e m (a = AutomaticDraft) of
             Inl err \<Rightarrow> w1\<lparr>fw_store := failed err\<rparr>
           | Inr (branch, commit) \<Rightarrow>
               w1\<lparr>fw_store := (case io of
                     Inl err \<Rightarrow> failed err
                   | Inr d \<Rightarrow> snd (publish_done (fx_red x) wr at a d i (fw_store w))),
                  fw_writes := fw_writes w @ [(e, m, branch, commit)]\<rparr>))"

text \<open>The follow-up review of a recorded publication is queued, or why not is recorded.\<close>

definition verify_op ::
  "fix_env \<Rightarrow> bool \<Rightarrow> string \<Rightarrow> string \<Rightarrow> mode \<Rightarrow> string + repo \<times> json \<Rightarrow> string \<Rightarrow> fix_store \<Rightarrow> fix_store" where
  "verify_op x wr at uid md live i s =
     (case map_of (fs_entries s) i of
        None \<Rightarrow> s
      | Some e \<Rightarrow>
          if fr_delivery (fe_record e) = None then s
          else (case followup_job uid e md live of
                  Inl err \<Rightarrow> snd (followup_failed (fx_red x) wr at err i s)
                | Inr j \<Rightarrow> snd (start_verify (fx_red x) wr at (job_id j) i s)))"

text \<open>A review ended: \<open>ended\<close> is its report when it is complete and of the published commit.\<close>

definition verified_op ::
  "fix_env \<Rightarrow> bool \<Rightarrow> string \<Rightarrow> string \<Rightarrow> (string list \<times> json) option \<Rightarrow> string \<Rightarrow> string \<Rightarrow> string \<Rightarrow>
   fix_store \<Rightarrow> fix_store" where
  "verified_op x wr at job ended status note i s =
     (case map_of (fs_entries s) i of
        None \<Rightarrow> s
      | Some e \<Rightarrow>
          if \<not> awaits_review job e then s
          else (case ended of
                  Some (accepted, report) \<Rightarrow> snd (completed_followup (fx_H x) (fx_red x) wr at job accepted report e s)
                | None \<Rightarrow> snd (verify_incomplete (fx_red x) wr at False status note i s)))"

definition work_op :: "fix_env \<Rightarrow> step_env \<Rightarrow> string \<Rightarrow> fworld \<Rightarrow> fworld" where
  "work_op x v i w =
     (case fw_workers w i of
        None \<Rightarrow> w
      | Some ph \<Rightarrow>
          if map_of (fs_running (fw_store w)) i = Some False \<or> is_failed ph
          then (case worker_step (fx_sens x) (fx_ci x) (fx_red x) (fx_diag x) v i ph (fw_store w) of
                  (ph', s') \<Rightarrow> w\<lparr>fw_workers := (fw_workers w)(i := Some ph'), fw_store := s'\<rparr>)
          else w)"

definition end_op :: "string \<Rightarrow> fworld \<Rightarrow> fworld" where
  "end_op i w =
     (case fw_workers w i of
        None \<Rightarrow> w
      | Some ph \<Rightarrow>
          if ph = Ph_Done \<or> map_of (fs_running (fw_store w)) i = Some True \<and> \<not> is_failed ph
          then w\<lparr>fw_workers := (fw_workers w)(i := None), fw_store := end_fix i (prune_fixes (fw_store w))\<rparr>
          else w)"

definition claim_op :: "fix_env \<Rightarrow> bool \<Rightarrow> string \<Rightarrow> preferences \<Rightarrow> authority \<Rightarrow> fix_delivery \<Rightarrow> string \<Rightarrow> fworld \<Rightarrow> fworld" where
  "claim_op x wr at prefs a m i w =
     (case claim_ready (fx_red x) wr at prefs a m i (fw_store w) of
        (Inr (e, True), s') \<Rightarrow> w\<lparr>fw_claims := (fw_claims w)(i := Some (e, a, m)), fw_store := s'\<rparr>
      | (_, s') \<Rightarrow> w\<lparr>fw_store := s'\<rparr>)"

definition start_op :: "nat \<Rightarrow> bool \<Rightarrow> bool \<Rightarrow> fworld \<Rightarrow> fworld" where
  "start_op mx ready permit w =
     (case start_fix mx ready permit (fw_store w) of
        None \<Rightarrow> w
      | Some (i, s') \<Rightarrow> w\<lparr>fw_workers := (fw_workers w)(i := Some Ph_Begin), fw_store := s'\<rparr>)"

text \<open>A request needs an identifier that was never used (a version 4 UUID).\<close>

fun do_fix :: "fix_env \<Rightarrow> fix_op \<Rightarrow> fworld \<Rightarrow> fworld" where
  "do_fix x (Op_Request v origin actor ids once) w =
     (if rv_uid v \<in> fw_used w then w
      else w\<lparr>fw_store := snd (fix_request (fx_H x) (fx_K x) (fx_red x) (fx_diag x) v origin actor ids once (fw_store w)),
             fw_used := insert (rv_uid v) (fw_used w)\<rparr>)"
| "do_fix x (Op_Confirm wr at prefs actor once i) w =
     w\<lparr>fw_store := snd (confirm (fx_red x) wr at prefs actor once i (fw_store w))\<rparr>"
| "do_fix x (Op_Regenerate wr at actor note i) w =
     w\<lparr>fw_store := snd (regenerate (fx_red x) wr at actor note i (fw_store w))\<rparr>"
| "do_fix x (Op_Stop wr at actor discard i) w =
     w\<lparr>fw_store := snd (stop (fx_red x) wr at actor discard i (fw_store w))\<rparr>"
| "do_fix x (Op_Invalidate at ws rid src n reason) w =
     w\<lparr>fw_store := invalidate (fx_red x) at ws rid src n reason (fw_store w)\<rparr>"
| "do_fix x (Op_Shutdown at ws) w = w\<lparr>fw_store := shutdown_fixes (fx_red x) at ws (fw_store w)\<rparr>"
| "do_fix x (Op_Start mx ready permit) w = start_op mx ready permit w"
| "do_fix x (Op_Work v i) w = work_op x v i w"
| "do_fix x (Op_End i) w = end_op i w"
| "do_fix x (Op_Claim wr at prefs a m i) w = claim_op x wr at prefs a m i w"
| "do_fix x (Op_Deliver wr at v io i) w = deliver_op x wr at v io i w"
| "do_fix x (Op_Verify wr at uid md live i) w = w\<lparr>fw_store := verify_op x wr at uid md live i (fw_store w)\<rparr>"
| "do_fix x (Op_Verified wr at job ended status note i) w =
     w\<lparr>fw_store := verified_op x wr at job ended status note i (fw_store w)\<rparr>"
| "do_fix x (Op_Restart now at) w =
     w\<lparr>fw_store := load_fixes (fx_red x) now at (fw_store w), fw_workers := (\<lambda>_. None), fw_claims := (\<lambda>_. None)\<rparr>"

inductive runs_to :: "fix_env \<Rightarrow> fworld \<Rightarrow> bool" for x where
  runs_init: "runs_to x fworld_init"
| runs_step: "runs_to x w \<Longrightarrow> runs_to x (do_fix x opn w)"

section \<open>The invariant\<close>

definition write_ok :: "fix_entry \<times> fix_delivery \<times> string \<times> string \<Rightarrow> bool" where
  "write_ok p =
     (case p of (e, m, _, _) \<Rightarrow>
        cleared (fe_record e) \<and> tests_passed (fe_record e) \<and> some_resolved (fe_record e) \<and> m \<noteq> Patch)"

definition store_ok :: "fix_store \<Rightarrow> bool" where
  "store_ok s = (entries_keyed s \<and> (\<forall>i r. rec_of s i = Some r \<longrightarrow> rec_ok r))"

definition world_ok :: "fworld \<Rightarrow> bool" where
  "world_ok w =
     (store_ok (fw_store w) \<and>
      (\<forall>i. rec_of (fw_store w) i \<noteq> None \<longrightarrow> i \<in> fw_used w) \<and>
      (\<forall>i ph. fw_workers w i = Some ph \<longrightarrow> i \<in> fw_used w \<and> phase_ok (fw_store w) i ph) \<and>
      (\<forall>i e a m. fw_claims w i = Some (e, a, m) \<longrightarrow>
         i \<in> fw_used w \<and> cleared_at (fw_store w) i \<and> cleared (fe_record e)) \<and>
      list_all write_ok (fw_writes w))"

lemma store_ok_evolves: "store_ok s \<Longrightarrow> store_evolves new s s' \<Longrightarrow> store_ok s'"
  unfolding store_ok_def store_evolves_def evolves_def by blast

lemma world_ok_evolves:
  assumes "world_ok w" and "store_evolves new (fw_store w) s'" and "new \<inter> fw_used w = {}"
  shows "world_ok (w\<lparr>fw_store := s', fw_used := new \<union> fw_used w\<rparr>)"
proof -
  have keyed: "entries_keyed (fw_store w)" using assms(1) by (simp add: world_ok_def store_ok_def)
  have new: "i \<notin> new" if "i \<in> fw_used w" for i using assms(3) that by auto
  have "rec_of s' i \<noteq> None \<Longrightarrow> i \<in> new \<union> fw_used w" for i
    using assms(1,2) keyed unfolding store_evolves_def world_ok_def by (metis Un_iff not_None_eq)
  moreover have "store_ok s'" using assms(1,2) store_ok_evolves by (auto simp: world_ok_def)
  moreover have "phase_ok s' i ph" if "fw_workers w i = Some ph" for i ph
    using that assms(1) phase_ok_evolves[OF assms(2) keyed new] by (auto simp: world_ok_def)
  moreover have "cleared_at s' i" if "fw_claims w i = Some (e, a, m)" for i e a m
    using that assms(1) cleared_at_evolves[OF assms(2) keyed new] by (auto simp: world_ok_def)
  ultimately show ?thesis using assms(1) by (auto simp: world_ok_def)
qed

lemma world_ok_store:
  "world_ok w \<Longrightarrow> store_evolves {} (fw_store w) s' \<Longrightarrow> world_ok (w\<lparr>fw_store := s'\<rparr>)"
  using world_ok_evolves[of w "{}" s'] by simp

text \<open>What it says of one entry and of one claim.\<close>

lemma store_ok_entry:
  assumes "store_ok s" and "map_of (fs_entries s) i = Some e"
  shows "rec_ok (fe_record e) \<and> fr_id (fe_record e) = i"
proof
  have "rec_of s i = Some (fe_record e)" using assms(2) by (simp add: rec_of_def)
  then show "rec_ok (fe_record e)" using assms(1) unfolding store_ok_def by blast
  show "fr_id (fe_record e) = i" using assms entry_id unfolding store_ok_def by blast
qed

lemma world_ok_claimed:
  "world_ok w \<Longrightarrow> fw_claims w i = Some (e, a, m) \<Longrightarrow> cleared_at (fw_store w) i \<and> cleared (fe_record e)"
  unfolding world_ok_def by blast

section \<open>Every operation keeps it\<close>

lemma claim_result:
  assumes "claim_ready red wr at prefs a m i s = (Inr (e, True), s')" and "entries_keyed s"
  shows "rec_of s' i = Some (fe_record e) \<and> fr_state (fe_record e) = ''publishing''"
  using assms entry_id[OF assms(2)]
  by (auto simp: claim_ready_def Let_def rec_of_put split: option.splits if_splits)

lemma deliver_gate_ok:
  assumes "deliver_gate sens ci red v e m automatic = Inr (branch, commit)"
  shows "tests_passed (fe_record e) \<and> some_resolved (fe_record e) \<and> m \<noteq> Patch \<and>
    patch_allowed (check sens ci red (dv_patch v) (patch_policy (repo_fix_policy (dv_prefs v) (fr_repo (fe_record e)))))"
  using assms by (simp add: deliver_gate_def Let_def split: sum.splits prod.splits if_splits option.splits)

lemma claim_op_ok:
  assumes "world_ok w"
  shows "world_ok (claim_op x wr at prefs a m i w)"
proof -
  obtain res s' where c: "claim_ready (fx_red x) wr at prefs a m i (fw_store w) = (res, s')" by fastforce
  have ev: "store_evolves {} (fw_store w) s'"
    using claim_evolves[of "fw_store w" "fx_red x" wr at prefs a m i] c by simp
  have w1: "world_ok (w\<lparr>fw_store := s'\<rparr>)" by (rule world_ok_store[OF assms ev])
  show ?thesis
  proof (cases "\<exists>e. res = Inr (e, True)")
    case True
    then obtain e where res: "res = Inr (e, True)" by auto
    have keyed: "entries_keyed (fw_store w)" using assms by (simp add: world_ok_def store_ok_def)
    have at: "rec_of s' i = Some (fe_record e)" and pub: "fr_state (fe_record e) = ''publishing''"
      using claim_result[OF _ keyed] c res by metis+
    have "rec_ok (fe_record e)" and used: "i \<in> fw_used w"
      using w1 at by (auto simp: world_ok_def store_ok_def)
    then have "cleared (fe_record e)" using pub by (auto simp: rec_ok_def state_sets)
    then show ?thesis
      using w1 at used by (auto simp: claim_op_def c res world_ok_def cleared_at_def)
  next
    case False
    then show ?thesis using w1 by (auto simp: claim_op_def c split: sum.split bool.split)
  qed
qed

lemma world_ok_unclaim: "world_ok w \<Longrightarrow> world_ok (w\<lparr>fw_claims := (fw_claims w)(i := None)\<rparr>)"
  by (auto simp: world_ok_def)

lemma world_ok_write: "world_ok w \<Longrightarrow> write_ok p \<Longrightarrow> world_ok (w\<lparr>fw_writes := fw_writes w @ [p]\<rparr>)"
  by (auto simp: world_ok_def)

lemma deliver_op_ok:
  assumes "world_ok w"
  shows "world_ok (deliver_op x wr at v io i w)"
proof (cases "fw_claims w i")
  case (Some c)
  obtain e a m where c: "c = (e, a, m)" by (cases c)
  have cl: "cleared_at (fw_store w) i" "cleared (fe_record e)"
    using world_ok_claimed[OF assms] Some c by auto
  let ?w = "w\<lparr>fw_claims := (fw_claims w)(i := None)\<rparr>"
  have w1: "world_ok ?w" by (rule world_ok_unclaim[OF assms])
  have failed: "world_ok (?w\<lparr>fw_store := snd (publish_failed (fx_red x) wr at m r i (fw_store w))\<rparr>)" for r
    using publish_evolves(2)[OF cl(1)] by (intro world_ok_store[OF w1]) simp
  have pub: "world_ok (?w\<lparr>fw_store := snd (publish_done (fx_red x) wr at a d i (fw_store w))\<rparr>)" for d
    using publish_evolves(1)[OF cl(1)] by (intro world_ok_store[OF w1]) simp
  show ?thesis
  proof (cases "deliver_gate (fx_sens x) (fx_ci x) (fx_red x) v e m (a = AutomaticDraft)")
    case (Inl err)
    then show ?thesis using Some c failed by (simp add: deliver_op_def Let_def)
  next
    case (Inr bc)
    obtain b k where bc: "bc = (b, k)" by (cases bc)
    have ok: "write_ok (e, m, b, k)"
      using deliver_gate_ok Inr bc cl(2) by (auto simp: write_ok_def)
    show ?thesis
      using Some c Inr bc world_ok_write[OF failed ok] world_ok_write[OF pub ok]
      by (simp add: deliver_op_def Let_def split: sum.split)
  qed
qed (simp add: deliver_op_def assms)

lemma work_op_ok:
  assumes "world_ok w"
  shows "world_ok (work_op x v i w)"
proof (cases "fw_workers w i")
  case (Some ph)
  obtain ph' s' where st: "worker_step (fx_sens x) (fx_ci x) (fx_red x) (fx_diag x) v i ph (fw_store w) = (ph', s')"
    by fastforce
  have "step_ok i (fw_store w) (ph', s')"
    unfolding st[symmetric] using assms Some by (intro worker_step_ok) (auto simp: world_ok_def store_ok_def)
  then have ev: "store_evolves {} (fw_store w) s'" and ph': "phase_ok s' i ph'" by (auto simp: step_ok_def)
  have used: "i \<in> fw_used w" using assms Some by (auto simp: world_ok_def)
  have w1: "world_ok (w\<lparr>fw_store := s'\<rparr>)" by (rule world_ok_store[OF assms ev])
  then have "world_ok (w\<lparr>fw_workers := (fw_workers w)(i := Some ph'), fw_store := s'\<rparr>)"
    using ph' used by (auto simp: world_ok_def)
  then show ?thesis using Some st assms by (simp add: work_op_def)
qed (simp add: work_op_def assms)

lemma end_op_ok:
  assumes "world_ok w"
  shows "world_ok (end_op i w)"
proof -
  have "store_evolves {} (fw_store w) (end_fix i (prune_fixes (fw_store w)))"
    by (rule store_evolves_trans[OF prune_evolves store_evolves_same]) (simp add: end_fix_def)
  then have "world_ok (w\<lparr>fw_store := end_fix i (prune_fixes (fw_store w))\<rparr>)" by (rule world_ok_store[OF assms])
  then have "world_ok (w\<lparr>fw_workers := (fw_workers w)(i := None), fw_store := end_fix i (prune_fixes (fw_store w))\<rparr>)"
    by (auto simp: world_ok_def)
  then show ?thesis using assms by (simp add: end_op_def split: option.split)
qed

lemma start_op_ok:
  assumes "world_ok w"
  shows "world_ok (start_op mx ready permit w)"
proof (cases "start_fix mx ready permit (fw_store w)")
  case (Some p)
  obtain i s' where p: "p = (i, s')" by (cases p)
  obtain e where e: "e \<in> set (bt_values (fs_entries (fw_store w)))" and i: "i = fr_id (fe_record e)"
    and s': "fs_entries s' = fs_entries (fw_store w)"
    using Some p min_by_key_Some
    by (fastforce simp: start_fix_def Let_def split: if_splits option.splits)
  have keyed: "entries_keyed (fw_store w)" using assms by (simp add: world_ok_def store_ok_def)
  obtain k where "(k, e) \<in> set (fs_entries (fw_store w))" using e by (auto simp: bt_values_def)
  then have "map_of (fs_entries (fw_store w)) i = Some e"
    using keyed i by (auto simp: entries_keyed_def bt_get_in dest: keyed_byD)
  then have "rec_of (fw_store w) i = Some (fe_record e)" by (simp add: rec_of_def)
  then have used: "i \<in> fw_used w" using assms by (auto simp: world_ok_def)
  have "world_ok (w\<lparr>fw_store := s'\<rparr>)" by (rule world_ok_store[OF assms store_evolves_same[OF s']])
  then have "world_ok (w\<lparr>fw_workers := (fw_workers w)(i := Some Ph_Begin), fw_store := s'\<rparr>)"
    using used by (auto simp: world_ok_def)
  then show ?thesis by (simp add: start_op_def Some p)
qed (simp add: start_op_def assms)

lemma verify_op_evolves:
  assumes "store_ok s"
  shows "store_evolves {} s (verify_op x wr at uid md live i s)"
proof (cases "map_of (fs_entries s) i")
  case (Some e)
  show ?thesis
  proof (cases "fr_delivery (fe_record e) = None")
    case False
    have "rec_ok (fe_record e)" using store_ok_entry[OF assms Some] by simp
    then have "cleared (fe_record e)" using False by (auto simp: rec_ok_def)
    then have "cleared_at s i" by (simp add: cleared_at_def rec_of_def Some)
    then show ?thesis using Some False publish_evolves(3,4) by (simp add: verify_op_def split: sum.split)
  qed (simp add: verify_op_def Some)
qed (simp add: verify_op_def)

lemma verified_op_evolves:
  assumes "store_ok s"
  shows "store_evolves {} s (verified_op x wr at job ended status note i s)"
proof (cases "map_of (fs_entries s) i")
  case (Some e)
  show ?thesis
  proof (cases "awaits_review job e")
    case True
    have "rec_ok (fe_record e)" and id: "fr_id (fe_record e) = i"
      using store_ok_entry[OF assms Some] by simp_all
    moreover have "fr_state (fe_record e) \<in> pub_states" using True by (simp add: awaits_review_def state_sets)
    ultimately have "cleared_at s i" by (simp add: cleared_at_def rec_of_def Some rec_ok_def)
    then show ?thesis
      using Some True publish_evolves(5) completed_evolves id
      by (simp add: verified_op_def split: option.split prod.split)
  qed (simp add: verified_op_def Some)
qed (simp add: verified_op_def)

lemma do_fix_ok:
  assumes "world_ok w"
  shows "world_ok (do_fix x opn w)"
proof (cases opn)
  case (Op_Request v origin actor ids once)
  then show ?thesis
    using world_ok_evolves[OF assms fix_request_evolves[of v]] assms by simp
next
  case (Op_Restart now at)
  have "world_ok (w\<lparr>fw_store := load_fixes (fx_red x) now at (fw_store w)\<rparr>)"
    by (rule world_ok_store[OF assms load_evolves])
  then show ?thesis by (simp add: Op_Restart world_ok_def)
next
  case (Op_Verify wr at uid md live i)
  then show ?thesis
    using world_ok_store[OF assms verify_op_evolves] assms by (simp add: world_ok_def)
next
  case (Op_Verified wr at job ended status nt i)
  then show ?thesis
    using world_ok_store[OF assms verified_op_evolves] assms by (simp add: world_ok_def)
next
  case (Op_Shutdown at ws)
  then show ?thesis using world_ok_store[OF assms shutdown_evolves] by simp
next
  case (Op_Invalidate at ws rid src n reason)
  then show ?thesis using world_ok_store[OF assms invalidate_each_evolves] by (simp add: invalidate_def)
qed (simp_all add: assms world_ok_store confirm_evolves regenerate_evolves stop_evolves
    start_op_ok work_op_ok end_op_ok claim_op_ok deliver_op_ok)

lemma runs_ok: "runs_to x w \<Longrightarrow> world_ok w"
proof (induction rule: runs_to.induct)
  case runs_init
  show ?case
    by (simp add: world_ok_def store_ok_def fworld_init_def fix_store_default_def entries_keyed_def rec_of_def)
qed (rule do_fix_ok)

end
