(* ===== verification/Fix_Progress.thy ===== *)
theory Fix_Progress
  imports Fix_World
begin

text \<open>
  What one worker can do: it finishes, whatever its environment answers and whatever other tasks do to
  the store between its steps; and it cannot undo a cancellation.
\<close>

section \<open>The worker finishes\<close>

fun phase_fits :: "phase \<Rightarrow> bool" where
  "phase_fits (Ph_Generating w n) = attempt_fits w n"
| "phase_fits (Ph_Generate w n) = attempt_fits w n"
| "phase_fits (Ph_Diff w n g) = attempt_fits w n"
| "phase_fits (Ph_Tests w n pt) = attempt_fits w n"
| "phase_fits (Ph_Verify w n pt t) = attempt_fits w n"
| "phase_fits (Ph_Feedback w n errs) = attempt_fits w n"
| "phase_fits _ = True"

text \<open>Seven steps for an attempt; at most \<open>L\<close> attempts, and three steps before the first.\<close>

definition attempts_left :: "work \<Rightarrow> nat \<Rightarrow> nat" where
  "attempts_left w n = 7 * (Suc (lim_attempts (fp_limits (wk_policy w))) - n)"

fun steps_left :: "nat \<Rightarrow> phase \<Rightarrow> nat" where
  "steps_left L Ph_Begin = 7 * L + 6"
| "steps_left L (Ph_Check e c) = 7 * lim_attempts (fp_limits c) + 5"
| "steps_left L (Ph_Consent e c) = 7 * lim_attempts (fp_limits c) + 4"
| "steps_left L (Ph_Loop w n) = attempts_left w n + 3"
| "steps_left L (Ph_Generating w n) = attempts_left w n + 2"
| "steps_left L (Ph_Generate w n) = attempts_left w n + 1"
| "steps_left L (Ph_Diff w n g) = attempts_left w n"
| "steps_left L (Ph_Tests w n pt) = attempts_left w n - 1"
| "steps_left L (Ph_Verify w n pt t) = attempts_left w n - 2"
| "steps_left L (Ph_Feedback w n errs) = attempts_left w n - 3"
| "steps_left L Ph_Exhausted = 2"
| "steps_left L (Ph_Failed x) = 1"
| "steps_left L Ph_Done = 0"

text \<open>The next phase is a good one when it fits and has fewer steps left.\<close>

definition advances :: "nat \<Rightarrow> phase \<Rightarrow> phase \<Rightarrow> bool" where
  "advances L ph ph' = (phase_fits ph' \<and> steps_left L ph' < steps_left L ph)"

lemma attempts_left_fits: "attempt_fits w n \<Longrightarrow> 7 \<le> attempts_left w n \<and> attempts_left w (Suc n) + 7 = attempts_left w n"
  unfolding attempt_fits_def attempts_left_def by linarith

lemma attempts_left_spend [simp]: "attempts_left (spend l w) n = attempts_left w n"
  by (simp add: attempts_left_def spend_def)

lemma attempts_left_feedback [simp]: "attempts_left (w\<lparr>wk_feedback := f\<rparr>) n = attempts_left w n"
  by (simp add: attempts_left_def)

lemma advances_failed: "1 < steps_left L ph \<Longrightarrow> advances L ph (Ph_Failed x)"
  by (simp add: advances_def)

lemma advances_change_then:
  assumes "1 < steps_left L ph" and "\<And>r. advances L ph (next r)"
  shows "advances L ph (fst (change_then w i f next s))"
  using change_then_fst[of w i f "next" s] assms advances_failed by metis

lemma advances_authorize:
  assumes "1 < steps_left L ph" and "advances L ph ph'"
  shows "advances L ph (fst (case authorize_execution red v i pr s of
    (Inl x, s') \<Rightarrow> (Ph_Failed x, s') | (Inr _, s') \<Rightarrow> (ph', s')))"
  using assms by (simp add: advances_failed split: prod.split sum.split)

lemma repo_policy_attempts:
  "lim_attempts (fp_limits (repo_fix_policy p repo)) = lim_attempts (fp_limits (fix_settings p))"
  by (simp add: repo_fix_policy_def effective_keeps)

lemma worker_advances:
  assumes "phase_fits ph" and "ph \<noteq> Ph_Done" and "lim_attempts (fp_limits (fix_settings (se_prefs v))) \<le> L"
  shows "advances L ph (fst (worker_step sens ci red diag v i ph s))"
proof (cases "se_timeout v \<and> ph \<noteq> Ph_Begin \<and> (\<forall>x. ph \<noteq> Ph_Failed x)")
  case True
  have "1 < steps_left L ph"
    using assms(1,2) True attempts_left_fits by (cases ph) force+
  then show ?thesis using True assms(2) by (cases ph) (simp_all add: advances_def)
next
  case calm: False
  show ?thesis
  proof (cases ph)
    case Ph_Begin
    then show ?thesis using assms(3)
      by (auto simp: begin_step_def advances_def repo_policy_attempts split: option.split)
  next
    case (Ph_Check e c)
    then show ?thesis using calm
      by (auto simp: check_step_def advances_failed intro!: advances_change_then advances_authorize
        split: sum.split) (simp_all add: advances_def)
  next
    case (Ph_Consent e c)
    have "advances L ph (Ph_Loop \<lparr>wk_entry = e, wk_policy = tighten p c, wk_remaining = m, wk_feedback = t\<rparr> (Suc n))" for p m t n
      by (simp add: advances_def attempts_left_def tighten_def Ph_Consent Let_def)
    then show ?thesis using calm Ph_Consent
      by (auto simp: consent_step_def advances_failed Let_def intro!: advances_change_then
        split: sum.split option.split) (simp_all add: advances_def)
  next
    case (Ph_Loop w n)
    show ?thesis
    proof (cases "lim_attempts (fp_limits (wk_policy w)) < n \<or> wk_remaining w < 2")
      case True
      then show ?thesis using calm Ph_Loop by (auto simp: loop_step_def advances_def)
    next
      case False
      then have "advances L ph (Ph_Generating w n)" by (simp add: advances_def attempt_fits_def Ph_Loop)
      then show ?thesis using calm Ph_Loop False
        by (auto simp: loop_step_def advances_failed intro!: advances_authorize split: sum.split)
    qed
  next
    case (Ph_Generating w n)
    then show ?thesis using calm assms(1) by (auto intro!: advances_change_then) (auto simp: advances_def)
  next
    case (Ph_Generate w n)
    then show ?thesis using calm assms(1) attempts_left_fits[of w n]
      by (auto simp: generate_step_def advances_failed intro!: advances_change_then split: sum.split)
        (auto simp: advances_def)
  next
    case (Ph_Diff w n g)
    then show ?thesis using calm assms(1) attempts_left_fits[of w n]
      by (auto simp: diff_step_def advances_failed Let_def intro!: advances_change_then split: sum.split)
        (auto simp: advances_def)
  next
    case (Ph_Tests w n pt)
    then show ?thesis using calm assms(1) attempts_left_fits[of w n]
      by (auto simp: tests_step_def advances_failed intro!: advances_change_then split: sum.split)
        (auto simp: advances_def)
  next
    case (Ph_Verify w n pt t)
    then show ?thesis using calm assms(1) attempts_left_fits[of w n]
      by (auto simp: verify_step_def advances_failed Let_def intro!: advances_change_then split: sum.split)
        (auto simp: advances_def)
  next
    case (Ph_Feedback w n errs)
    then show ?thesis using calm assms(1) attempts_left_fits[of w n]
      by (auto simp: feedback_step_def intro!: advances_change_then) (auto simp: advances_def)
  next
    case Ph_Exhausted
    then show ?thesis using calm
      by (auto simp: exhausted_step_def advances_failed intro!: advances_change_then split: option.split)
        (simp_all add: advances_def)
  qed (use assms(2) in \<open>auto simp: advances_def\<close>)
qed

text \<open>A run: each step meets an environment and a store, whatever became of it since the last step.\<close>

fun run_worker ::
  "(string \<Rightarrow> bool) \<Rightarrow> (string \<Rightarrow> bool) \<Rightarrow> (string \<Rightarrow> string) \<Rightarrow> (string \<Rightarrow> string) \<Rightarrow> string \<Rightarrow>
   phase \<Rightarrow> (step_env \<times> fix_store) list \<Rightarrow> phase" where
  "run_worker sens ci red diag i ph [] = ph"
| "run_worker sens ci red diag i ph ((v, s) # vs) =
     run_worker sens ci red diag i (fst (worker_step sens ci red diag v i ph s)) vs"

definition attempts_within :: "nat \<Rightarrow> (step_env \<times> fix_store) list \<Rightarrow> bool" where
  "attempts_within L vs =
     list_all (\<lambda>(v, _). lim_attempts (fp_limits (fix_settings (se_prefs v))) \<le> L) vs"

lemma run_worker_done: "run_worker sens ci red diag i Ph_Done vs = Ph_Done"
  by (induction vs) auto

lemma run_worker_finishes:
  assumes "phase_fits ph" and "attempts_within L vs" and "steps_left L ph \<le> length vs"
  shows "run_worker sens ci red diag i ph vs = Ph_Done"
  using assms
proof (induction vs arbitrary: ph)
  case Nil
  then have "ph = Ph_Done" using attempts_left_fits by (cases ph) force+
  then show ?case by simp
next
  case (Cons a vs)
  obtain v s where a: "a = (v, s)" by (cases a)
  show ?case
  proof (cases "ph = Ph_Done")
    case False
    have "advances L ph (fst (worker_step sens ci red diag v i ph s))"
      using Cons.prems a by (intro worker_advances[OF Cons.prems(1) False]) (simp add: attempts_within_def)
    then show ?thesis using Cons a by (simp add: advances_def attempts_within_def)
  qed (simp add: run_worker_done)
qed

section \<open>A cancellation is final for the worker\<close>

definition keeps_final :: "string \<Rightarrow> fix_store \<Rightarrow> fix_store \<Rightarrow> bool" where
  "keeps_final i s s' =
     (\<forall>e. map_of (fs_entries s) i = Some e \<and> fr_state (fe_record e) \<in> final_states \<longrightarrow>
          fs_entries s' = fs_entries s)"

lemma bt_insert_same: "bt_sorted m \<Longrightarrow> map_of m k = Some v \<Longrightarrow> bt_insert (k, v) m = m"
proof (induction m)
  case (Cons a m)
  obtain k1 v1 where a: "a = (k1, v1)" by (cases a)
  show ?case
  proof (cases "k = k1")
    case False
    then have k: "map_of m k = Some v" using Cons.prems(2) a by simp
    have "k1 < k" using Cons.prems(1) a map_of_SomeD[OF k] by fastforce
    then show ?thesis using Cons k a by auto
  qed (use Cons a in auto)
qed simp

lemma change_keeps_final:
  assumes "entries_keyed s"
  shows "keeps_final i s (snd (change w i f s))"
proof -
  have "fs_entries (put_entry e s) = fs_entries s" if "map_of (fs_entries s) i = Some e" for e
    using assms entry_id[OF assms that] that by (simp add: put_entry_def entries_keyed_def bt_insert_same)
  then show ?thesis by (auto simp: keeps_final_def change_def save_def)
qed

lemma change_then_keeps_final:
  "entries_keyed s \<Longrightarrow> keeps_final i s (snd (change_then w i f next s))"
  using change_keeps_final[of s i w f] by (auto simp: change_then_def split: prod.splits sum.splits)

lemma keeps_final_refl [simp]: "keeps_final i s s"
  by (simp add: keeps_final_def)

lemma authorize_keeps_final:
  "entries_keyed s \<Longrightarrow> keeps_final i s (snd (authorize_execution red v i pr s))"
  by (rule authorize_is_change[of red v i pr s]) (simp add: change_keeps_final)

lemma authorize_case_keeps_final:
  "entries_keyed s \<Longrightarrow> keeps_final i s (snd (case authorize_execution red v i pr s of
    (Inl x, s') \<Rightarrow> (Ph_Failed x, s') | (Inr _, s') \<Rightarrow> (ph, s')))"
  using authorize_keeps_final[of s i red v pr] by (auto split: prod.splits sum.splits)

lemmas step_defs = begin_step_def check_step_def consent_step_def loop_step_def generate_step_def
  diff_step_def tests_step_def verify_step_def feedback_step_def exhausted_step_def

lemma worker_keeps_final:
  assumes "entries_keyed s"
  shows "keeps_final i s (snd (worker_step sens ci red diag v i ph s))"
proof (cases "se_timeout v \<and> ph \<noteq> Ph_Begin \<and> (\<forall>x. ph \<noteq> Ph_Failed x)")
  case True
  then show ?thesis by (cases ph) simp_all
next
  case False
  note keeps = change_keeps_final[OF assms] change_then_keeps_final[OF assms] authorize_case_keeps_final[OF assms]
  show ?thesis using False
    by (cases ph) (simp_all add: step_defs keeps Let_def split: option.split sum.split)
qed

end
