(* ===== verification/Fix_Guarantees.thy ===== *)
theory Fix_Guarantees
  imports Fix_Runs Fix_Progress
begin

text \<open>
  The properties of the repair jobs, each with a run that meets its hypotheses.  The sample run is a whole
  repair: a request with consent for once, generation, tests, independent verification, approval by
  an administrator and the write to GitHub.
\<close>

section \<open>A sample run\<close>

definition sample_sha :: string where "sample_sha = replicate 40 (CHR ''a'')"

definition sample_env :: fix_env where
  "sample_env = \<lparr>fx_H = (\<lambda>_. []), fx_K = (\<lambda>_ _. ''k''), fx_red = (\<lambda>_. []), fx_diag = (\<lambda>_. []),
     fx_sens = (\<lambda>_. False), fx_ci = (\<lambda>_. False)\<rparr>"

definition sample_prefs :: preferences where
  "sample_prefs = preferences_default\<lparr>admins := [''a'']\<rparr>"

definition sample_pr :: json where
  "sample_pr = JObj [(''state'', JStr ''open''), (''merged'', JBool False),
     (''head'', JObj [(''sha'', JStr sample_sha), (''ref'', JStr ''f''),
        (''repo'', JObj [(''full_name'', JStr ''o/r'')])])]"

definition sample_repo :: repo where
  "sample_repo = \<lparr>repo_id = 1, installation = Some 2, full_name = ''o/r'', default_branch = ''m'', pushed_at = []\<rparr>"

definition sample_job :: job_summary where
  "sample_job = \<lparr>js_source = Installed, js_publication = Github, js_repo_id = Some 1,
     js_base_sha = Some sample_sha, js_base_ref = None, js_check = None, js_id = ''j'',
     js_kind = ''review'', js_repo = ''o/r'', js_pr = Some 7, js_title = None, js_author = None,
     js_head_sha = Some sample_sha, js_trigger = [], js_mode = Mode_Standard, js_status = ''complete'',
     js_reason = None, js_findings = no_findings, js_queued_at = [], js_started_at = None,
     js_finished_at = None, js_duration_ms = None, js_tokens = None, js_check_run_url = None,
     js_pr_url = None\<rparr>"

definition sample_request :: request_env where
  "sample_request = \<lparr>rv_prefs = sample_prefs, rv_review = Inr (sample_job, []),
     rv_live = Inr (sample_repo, sample_pr), rv_permission = Not_Found, rv_now = 0, rv_at = [],
     rv_uid = ''u'', rv_attempts_ok = True, rv_admissions_ok = True, rv_saved = True\<rparr>"

definition sample_patch :: patch where
  "sample_patch = \<lparr>pt_files = [\<lparr>fc_path = ''x'', fc_status = Modified, fc_old_mode = None,
     fc_new_mode = None, fc_binary = False, fc_additions = 1, fc_deletions = 1, fc_size = 1,
     fc_new_content = None, fc_old_content = None\<rparr>], pt_unified = []\<rparr>"

definition sample_ledger :: stage_ledger where
  "sample_ledger = \<lparr>sl_requests = 1, sl_prompt_tokens = 0, sl_completion_tokens = 0, sl_routes = []\<rparr>"

definition sample_step :: step_env where
  "sample_step = \<lparr>se_prefs = sample_prefs, se_at = [], se_written = True, se_timeout = False,
     se_review = Inr (), se_live = Inr sample_pr, se_permission = Not_Found, se_sandbox = None,
     se_setup = Inr (),
     se_generated = Inr \<lparr>gn_stopped = Stop_Terminal, gn_submission = Some JNull, gn_ledger = sample_ledger\<rparr>,
     se_patch = Inr sample_patch, se_apply = None, se_tests = Inr (Passed, []),
     se_verified = Inr \<lparr>vd_stopped = Stop_Terminal,
        vd_submission = Some \<lparr>vf_per_finding = [([], Resolved, [])], vf_new_problems = []\<rparr>,
        vd_ledger = sample_ledger\<rparr>,
     se_describe = []\<rparr>"

definition sample_delivery :: delivery_env where
  "sample_delivery = \<lparr>dv_live = Inr (sample_repo, sample_pr), dv_suspended = False,
     dv_permissions = [(''contents'', ''write'')], dv_prefs = sample_prefs, dv_patch = sample_patch,
     dv_commit = Inr ''c'', dv_installation_ok = True, dv_live2 = Inr (sample_repo, sample_pr),
     dv_suspended2 = False, dv_permissions2 = [(''contents'', ''write'')], dv_prefs2 = sample_prefs,
     dv_settings_url = []\<rparr>"

definition sample_ops :: "fix_op list" where
  "sample_ops = Op_Request sample_request ''dashboard'' ''a'' None True # Op_Start 1 True True #
     map (Op_Work sample_step) [''u'', ''u'', ''u'', ''u'', ''u'', ''u'', ''u'', ''u'', ''u''] @
     [Op_Claim True [] sample_prefs (Admin ''a'') DraftPr ''u'', Op_Deliver True [] sample_delivery (Inr JNull) ''u'']"

definition sample_world :: fworld where "sample_world = fold (do_fix sample_env) sample_ops fworld_init"

lemma runs_to_fold: "runs_to x w \<Longrightarrow> runs_to x (fold (do_fix x) ops w)"
  by (induction ops arbitrary: w) (simp_all add: runs_step)

lemma sample_runs: "runs_to sample_env sample_world"
  unfolding sample_world_def by (intro runs_to_fold runs_init)

lemma sample_sha_oid: "is_oid sample_sha"
  by (simp add: sample_sha_def is_oid_def list_all_iff is_ascii_hexdigit_def)

lemma excerpt_nil: "excerpt_bytes [] n = []"
  by (simp add: excerpt_bytes_def)

definition sample_usage :: "nat \<Rightarrow> json" where
  "sample_usage n = JObj [(''requests'', JNat n), (''prompt_tokens'', JNat 0),
     (''completion_tokens'', JNat 0), (''routes'', JArr [])]"

lemma sample_usage_add:
  "add_usage sample_ledger None = sample_usage 1"
  "add_usage sample_ledger (Some (sample_usage n)) = sample_usage (Suc n)"
  by (simp_all add: add_usage_def sample_ledger_def sample_usage_def json_set_def json_nat_def json_defs)

lemma sample_ledger_requests: "sl_requests sample_ledger = 1"
  by (simp add: sample_ledger_def)

lemmas sample_defs = sample_env_def sample_prefs_def sample_pr_def sample_repo_def sample_job_def
  sample_request_def sample_patch_def sample_step_def sample_delivery_def sample_sha_oid excerpt_nil
  sample_usage_add sample_ledger_requests

text \<open>The definitions that evaluate an operation on a concrete world.\<close>

lemmas fix_eval = fworld_init_def fix_store_default_def fix_request_def select_def Let_def repo_fix_policy_def
  preferences_default_def fix_policy_default_def effective_def fresh_def jidx_def jget_def
  authorize_def is_admin_def eq_ignore_ascii_case_def to_ascii_lowercase_def admit_request_def
  admit_attempt_def since_def by_actor_def existing_request_def bt_values_def over_limit_def
  create_request_def oid_or_def request_consent_def request_queued_def request_audit_def audit_def
  bound_events_def bound_list.simps rposition_def handoff_text_def new_record_def push_admission_def
  save_def put_entry_def prune_fixes_def prune_candidates_def KEPT_FIXES_def limits_default_def
  MAX_EVENTS_def as_str_def same_event_def bump_def opt_holds_def start_op_def start_fix_def
  can_run_def bt_contains_def work_op_def begin_step_def check_step_def authorize_execution_def
  execution_identity_def confirmed_by_def change_def upd_record_def final_states_def consent_step_def
  needs_consent_def tighten_def remaining_requests_def usage_requests_def loop_step_def
  change_then_def begin_attempt_def transition_def progress_states_def generate_step_def
  generation_json_def json_nat_def json_set_def spend_def diff_step_def check_def attempt_errors_def
  patch_safe_def fired_def patch_rules_def file_rules_def warning_rules_def patch_policy_def
  patch_policy_default_def valid_path_def forbidden_path_bytes_def bad_component_def has_mode_def
  MAX_FILE_BYTES_def patch_meta_def status_str_def tests_step_def verify_step_def attempt_ready_def
  verification_json_def claim_op_def claim_ready_def approval_detail_def authority_actor_def
  deliver_op_def deliver_gate_def available_def capabilities_def capability_reason_def granted_def
  from_fork_def touches_workflows_def tests_passed_def some_resolved_def as_array_def as_u64_def
  external_policy_default_def is_failed_def patch_allowed_def stop_str_def str_or_def publish_done_def
  list_ex_iff starts_with_def

lemma sample_published:
  "\<exists>w e r. sample_world = w \<and> fw_writes w = [(e, DraftPr, ''f'', ''c'')] \<and>
     rec_of (fw_store w) ''u'' = Some r \<and> fr_state r = ''published''"
  by (simp add: sample_world_def sample_ops_def sample_defs rec_of_def fix_eval)

section \<open>Records\<close>

lemma runs_record:
  assumes "runs_to x w" and "map_of (fs_entries (fw_store w)) i = Some e"
  shows "rec_ok (fe_record e) \<and> fr_id (fe_record e) = i"
  using runs_ok[OF assms(1)] store_ok_entry[OF _ assms(2)] by (simp add: world_ok_def)

text \<open>C16: Every stored repair is well formed, whatever operations led there: it is stored under its own
  identifier, its state is one of the sixteen states the program knows, it never counts more attempts
  than its limit, and its audit trail has at most 200 events.\<close>

theorem fix_records_sound:
  assumes "runs_to x w" and "map_of (fs_entries (fw_store w)) i = Some e"
  shows "fr_id (fe_record e) = i \<and> fr_state (fe_record e) \<in> known_states \<and>
    fr_attempt (fe_record e) \<le> fr_max_attempts (fe_record e) \<and> length (fr_events (fe_record e)) \<le> MAX_EVENTS"
  using runs_record[OF assms] by (simp add: rec_ok_def)

text \<open>C29: A patch is generated, ready or published only for a request that somebody consented to, once or
  for good.\<close>

theorem generation_only_with_consent:
  assumes "runs_to x w" and "map_of (fs_entries (fw_store w)) i = Some e"
    and "fr_state (fe_record e) \<in> {''generating'', ''validating'', ''ready'', ''publishing'', ''published'',
      ''verifying'', ''verified'', ''publish_failed''}"
  shows "fr_consent (fe_record e) \<noteq> None"
  using runs_record[OF assms(1,2)] assms(3) by (auto simp: rec_ok_def state_sets)

lemma sample_entry:
  obtains e where "map_of (fs_entries (fw_store sample_world)) ''u'' = Some e"
    and "fr_state (fe_record e) = ''published''"
  using sample_published by (auto simp: rec_of_def)

theorem fix_records_sound_witness:
  "\<exists>e. map_of (fs_entries (fw_store sample_world)) ''u'' = Some e \<and>
     fr_attempt (fe_record e) \<le> fr_max_attempts (fe_record e)"
proof -
  obtain e where "map_of (fs_entries (fw_store sample_world)) ''u'' = Some e" by (rule sample_entry)
  then show ?thesis using fix_records_sound[OF sample_runs] by blast
qed

theorem generation_only_with_consent_witness:
  "\<exists>e. map_of (fs_entries (fw_store sample_world)) ''u'' = Some e \<and> fr_consent (fe_record e) \<noteq> None"
proof -
  obtain e where "map_of (fs_entries (fw_store sample_world)) ''u'' = Some e"
    and "fr_state (fe_record e) = ''published''" by (rule sample_entry)
  then show ?thesis using generation_only_with_consent[OF sample_runs] by blast
qed

section \<open>Writes to GitHub\<close>



text \<open>What is checked immediately before the write.\<close>

lemma available_reason:
  "available m (capabilities url p e pr perms) \<longleftrightarrow> m = Patch \<or> capability_reason url p e pr perms m = []"
  by (cases m) (auto simp: available_def capabilities_def Let_def)

lemma capability_reason_none:
  assumes "capability_reason url p e pr perms m = []"
  shows "fr_repo_source (fe_record e) = Installed \<and> \<not> cd_preview_only (fe_context e) \<and>
    granted perms ''contents'' \<and> \<not> from_fork (fr_repo (fe_record e)) pr \<and>
    (m = SameBranch \<longrightarrow> fp_allow_same_branch p) \<and>
    (touches_workflows (fe_record e) \<longrightarrow> fp_allow_workflow_changes p \<and> granted perms ''workflows'')"
  using assms by (cases "fr_repo_source (fe_record e)") (auto simp: capability_reason_def split: if_splits)



text \<open>Simultaneous approvals cannot write twice.  After one approval has claimed a repair, another claim of
  it is refused, whoever makes it and in whatever mode.\<close>

theorem second_approval_refused:
  assumes "claim_ready red w at prefs a m i s = (Inr (e, True), s')" and "entries_keyed s"
  shows "\<exists>f. claim_ready red w2 at2 prefs2 a2 m2 i s' = (Inl f, s')"
proof -
  have "rec_of s' i = Some (fe_record e)" and "fr_state (fe_record e) = ''publishing''"
    using claim_result[OF assms] by auto
  then obtain e' where "map_of (fs_entries s') i = Some e'" "fr_state (fe_record e') = ''publishing''"
    by (auto simp: rec_of_def)
  then show ?thesis by (simp add: claim_ready_def)
qed

definition sample_ready :: fix_entry where
  "sample_ready = \<lparr>fe_record = (new_record (\<lambda>_. []) (\<lambda>_. []) sample_request [] [] None False
      sample_job 7 JNull [] fix_policy_default sample_sha sample_sha)\<lparr>fr_state := ''ready''\<rparr>,
    fe_context = \<lparr>cd_repo = sample_repo, cd_findings = [], cd_policy = fix_policy_default, cd_key = [],
      cd_preview_only = False, cd_confirmed_by = None, cd_note = []\<rparr>\<rparr>"

definition sample_store :: "fix_entry \<Rightarrow> fix_store" where
  "sample_store e = put_entry e fix_store_default"

lemma sample_store_keyed: "entries_keyed (sample_store e)"
  unfolding sample_store_def
  by (rule entries_keyed_put) (simp add: entries_keyed_def fix_store_default_def)

theorem second_approval_refused_witness:
  "\<exists>e s' f. claim_ready (\<lambda>_. []) True [] sample_prefs (Admin ''a'') DraftPr ''u'' (sample_store sample_ready) = (Inr (e, True), s') \<and>
     claim_ready (\<lambda>_. []) True [] sample_prefs (Admin ''a'') SameBranch ''u'' s' = (Inl f, s')"
proof -
  have "\<exists>e s'. claim_ready (\<lambda>_. []) True [] sample_prefs (Admin ''a'') DraftPr ''u'' (sample_store sample_ready) = (Inr (e, True), s')"
    by (simp add: sample_ready_def sample_store_def sample_defs fix_eval)
  then obtain e s' where first: "claim_ready (\<lambda>_. []) True [] sample_prefs (Admin ''a'') DraftPr ''u''
      (sample_store sample_ready) = (Inr (e, True), s')" by (elim exE)
  obtain f where "claim_ready (\<lambda>_. []) True [] sample_prefs (Admin ''a'') SameBranch ''u'' s' = (Inl f, s')"
    using second_approval_refused[OF first sample_store_keyed, where ?w2.0 = True and ?at2.0 = "[]" and ?prefs2.0 = sample_prefs and ?a2.0 = "Admin ''a''" and ?m2.0 = SameBranch]
    by (elim exE)
  with first show ?thesis by (intro exI conjI)
qed

section \<open>Runs\<close>

text \<open>C23: A repair run ends.  If the settings in force at every step allow at most \<open>L\<close> attempts, the worker
  is done after \<open>7 L + 6\<close> steps, for every answer of the network, the sandbox and the models, every
  deadline, and every change that other tasks make to the store between two steps.\<close>

theorem fix_worker_finishes:
  assumes "attempts_within L vs" and "7 * L + 6 \<le> length vs"
  shows "run_worker sens ci red diag i Ph_Begin vs = Ph_Done"
  using assms by (intro run_worker_finishes) simp_all

theorem fix_worker_finishes_witness:
  "run_worker (\<lambda>_. False) (\<lambda>_. False) (\<lambda>_. []) (\<lambda>_. []) ''u'' Ph_Begin (replicate 20 (sample_step, fix_store_default)) = Ph_Done"
  by (rule fix_worker_finishes[of 2])
    (simp_all add: attempts_within_def list_all_iff sample_step_def sample_prefs_def preferences_default_def
      fix_policy_default_def limits_default_def)

text \<open>Once a repair is cancelled or discarded, no step of its worker, not even the one that was running,
  changes any record: the entries of the store stay as they are.\<close>

theorem cancellation_final:
  assumes "entries_keyed s" and "map_of (fs_entries s) i = Some e"
    and "fr_state (fe_record e) = ''cancelled'' \<or> fr_state (fe_record e) = ''discarded''"
  shows "fs_entries (snd (worker_step sens ci red diag v i ph s)) = fs_entries s"
  using worker_keeps_final[OF assms(1), of i sens ci red diag v ph] assms(2,3)
  by (simp add: keeps_final_def final_states_def)

theorem cancellation_final_witness:
  "fs_entries (snd (worker_step (\<lambda>_. False) (\<lambda>_. False) (\<lambda>_. []) (\<lambda>_. []) sample_step ''u'' (Ph_Failed [])
      (sample_store (upd_record (\<lambda>r. r\<lparr>fr_state := ''cancelled''\<rparr>) sample_ready)))) =
   fs_entries (sample_store (upd_record (\<lambda>r. r\<lparr>fr_state := ''cancelled''\<rparr>) sample_ready))"
  by (rule cancellation_final[where e = "upd_record (\<lambda>r. r\<lparr>fr_state := ''cancelled''\<rparr>) sample_ready", OF sample_store_keyed])
    (simp_all add: sample_ready_def sample_store_def sample_defs fix_eval)

section \<open>Rate limits\<close>

text \<open>The attempts of one requester, as a limiter: what is granted is an attempt of a request that was
  admitted to further checks.\<close>

definition actor_attempts :: "string \<Rightarrow> fix_store \<Rightarrow> int list" where
  "actor_attempts actor s = map ad_at (filter (by_actor actor) (fs_attempts s))"

definition attempt_request :: "fix_policy \<Rightarrow> bool \<times> string \<times> string \<Rightarrow> int \<Rightarrow> fix_store \<Rightarrow> bool \<times> fix_store" where
  "attempt_request p r now s =
     (case r of (written, actor, repo) \<Rightarrow>
        (case admit_attempt written now actor repo p s of
           (Inr _, s') \<Rightarrow> (True, s') | (Inl _, s') \<Rightarrow> (False, s')))"

definition attempt_by :: "string \<Rightarrow> bool \<times> string \<times> string \<Rightarrow> bool" where
  "attempt_by actor r = eq_ignore_ascii_case (fst (snd r)) actor"

lemma by_actor_eq: "eq_ignore_ascii_case a b \<Longrightarrow> by_actor a = by_actor b"
  by (auto simp: by_actor_def eq_ignore_ascii_case_def)

lemma actor_attempts_since:
  "map ad_at (filter (by_actor actor) (since (now - 3600) xs)) =
   recent_from 3600 now (map ad_at (filter (by_actor actor) xs))"
  by (induction xs) (auto simp: since_def recent_from_def)

interpretation attempts: rate_limiter 3600 "lim_per_user_hour (fp_limits p)" "actor_attempts actor"
    "attempt_request p" "attempt_by actor" for p actor
proof
  fix r :: "bool \<times> string \<times> string" and now :: int and s s' :: fix_store
  obtain w a repo where r: "r = (w, a, repo)" by (cases r)
  assume mine: "attempt_by actor r" and req: "attempt_request p r now s = (True, s')"
  then have eq: "by_actor a = by_actor actor" and here: "by_actor actor \<lparr>ad_at = now, ad_actor = a, ad_repo = repo\<rparr>"
    by (auto simp: attempt_by_def r by_actor_eq) (simp add: by_actor_def)
  have "s' = s\<lparr>fs_attempts := since (now - 3600) (fs_attempts s) @ [\<lparr>ad_at = now, ad_actor = a, ad_repo = repo\<rparr>]\<rparr>"
    and "length (filter (by_actor a) (since (now - 3600) (fs_attempts s))) < lim_per_user_hour (fp_limits p)"
    using req by (auto simp: attempt_request_def r admit_attempt_def Let_def split: if_splits)
  then show "actor_attempts actor s' = recent_from 3600 now (actor_attempts actor s) @ [now] \<and>
      length (recent_from 3600 now (actor_attempts actor s)) < lim_per_user_hour (fp_limits p)"
    using here eq by (simp add: actor_attempts_def actor_attempts_since[symmetric])
next
  fix r :: "bool \<times> string \<times> string" and now :: int and s s' :: fix_store and g
  obtain w a repo where r: "r = (w, a, repo)" by (cases r)
  assume req: "attempt_request p r now s = (g, s')" and other: "\<not> (attempt_by actor r \<and> g)"
  show "actor_attempts actor s' = actor_attempts actor s \<or>
      actor_attempts actor s' = recent_from 3600 now (actor_attempts actor s)"
  proof (cases g)
    case True
    then have "\<not> by_actor actor \<lparr>ad_at = now, ad_actor = a, ad_repo = repo\<rparr>"
      using other by (simp add: attempt_by_def r by_actor_def)
    moreover have "s' = s\<lparr>fs_attempts := since (now - 3600) (fs_attempts s) @ [\<lparr>ad_at = now, ad_actor = a, ad_repo = repo\<rparr>]\<rparr>"
      using req True by (auto simp: attempt_request_def r admit_attempt_def Let_def split: if_splits)
    ultimately show ?thesis by (simp add: actor_attempts_def actor_attempts_since)
  next
    case False
    then have "s' = s" using req by (auto simp: attempt_request_def r admit_attempt_def Let_def split: if_splits)
    then show ?thesis by simp
  qed
qed

text \<open>A requester can start only a bounded number of repair requests.  In any sequence of requests by
  anyone, with a clock that does not go back, every window of an hour holds at most \<open>per_user_hour\<close>
  admitted attempts of one requester, under any spelling of the name.\<close>

theorem attempts_rate_limited:
  assumes "fs_attempts s = []" and "sorted (map snd requests)"
    and "rate_limiter.serve (attempt_request p) (attempt_by actor) requests [] s = (grants, s')"
  shows "in_window 3600 t grants \<le> lim_per_user_hour (fp_limits p)"
  by (rule attempts.serve_limit[OF _ assms(2,3)]) (simp add: actor_attempts_def assms(1))

theorem attempts_rate_limited_witness:
  "\<exists>grants s'. rate_limiter.serve (attempt_request fix_policy_default) (attempt_by ''a'')
      [((True, ''a'', ''r''), 1), ((True, ''A'', ''r''), 2), ((True, ''a'', ''r''), 3), ((True, ''a'', ''q''), 4)] [] fix_store_default = (grants, s') \<and>
     in_window 3600 4 grants \<le> 3"
proof -
  obtain grants s' where "rate_limiter.serve (attempt_request fix_policy_default) (attempt_by ''a'')
      [((True, ''a'', ''r''), 1), ((True, ''A'', ''r''), 2), ((True, ''a'', ''r''), 3), ((True, ''a'', ''q''), 4)] [] fix_store_default = (grants, s')"
    by fastforce
  then show ?thesis
    using attempts_rate_limited[of fix_store_default "[((True, ''a'', ''r''), 1), ((True, ''A'', ''r''), 2), ((True, ''a'', ''r''), 3), ((True, ''a'', ''q''), 4)]" fix_policy_default "''a''" grants s' 4]
    by (simp add: fix_store_default_def fix_policy_default_def limits_default_def)
qed

end
