(* ===== verification/Queue_Props.thy ===== *)
theory Queue_Props
  imports Queue "HOL-Library.Multiset"
begin

text \<open>
  The queue over time.  A world is the queue, the admissions that callers still hold (their strong
  references) and the next allocation; a step is any operation a task of the server performs on the
  queue under its lock, in any order.  The invariants are proved by rule induction over the reachable
  worlds: entries are kept under their own key, a repository runs one job at a time, the external
  jobs stay within the limit, and an admission made before a pull request closed is void for ever.
\<close>

section \<open>Worlds and steps\<close>

record world =
  w_queue :: queue
  w_held :: "review_admission list"
  w_next :: nat

definition world_init :: world where
  "world_init = \<lparr>w_queue = queue_default, w_held = [], w_next = 0\<rparr>"

definition token_live :: "world \<Rightarrow> nat \<Rightarrow> bool" where
  "token_live w t = list_ex (\<lambda>a. adm_token a = t) (w_held w)"

datatype op =
    Op_Admit key
  | Op_Release review_admission
  | Op_Observe key
  | Op_Enqueue enqueue_env job "review_admission option" bool
  | Op_Close key
  | Op_RemoveRepo string repo
  | Op_Retarget preferences job
  | Op_Take nat
  | Op_ReceiverGone key
  | Op_Finish job
  | Op_CancelJobs

definition hold :: "review_admission \<Rightarrow> queue \<Rightarrow> world \<Rightarrow> world" where
  "hold a q w = w\<lparr>w_queue := q, w_held := a # w_held w, w_next := Suc (w_next w)\<rparr>"

fun do_op :: "op \<Rightarrow> world \<Rightarrow> world" where
  "do_op (Op_Admit k) w =
     (case review_admission (token_live w) (w_next w) k (w_queue w) of (a, q) \<Rightarrow> hold a q w)"
| "do_op (Op_Release a) w = w\<lparr>w_held := remove1 a (w_held w)\<rparr>"
| "do_op (Op_Observe k) w = w\<lparr>w_queue := observe_pull (token_live w) k (w_queue w)\<rparr>"
| "do_op (Op_Enqueue e j a r) w = w\<lparr>w_queue := snd (enqueue_checked e j a r (w_queue w))\<rparr>"
| "do_op (Op_Close k) w = w\<lparr>w_queue := close (token_live w) k (w_queue w)\<rparr>"
| "do_op (Op_RemoveRepo uid r) w = w\<lparr>w_queue := snd (remove_repo uid r (w_queue w))\<rparr>"
| "do_op (Op_Retarget p j) w =
     (case retarget (token_live w) (w_next w) p j (w_queue w) of (_, _, a, q) \<Rightarrow> hold a q w)"
| "do_op (Op_Take l) w =
     (case take_with_external_limit l (w_queue w) of None \<Rightarrow> w | Some (_, q) \<Rightarrow> w\<lparr>w_queue := q\<rparr>)"
| "do_op (Op_ReceiverGone k) w =
     w\<lparr>w_queue := (w_queue w)\<lparr>running := bt_modify k (\<lambda>r. r\<lparr>run_receiver := False\<rparr>) (running (w_queue w))\<rparr>\<rparr>"
| "do_op (Op_Finish j) w = w\<lparr>w_queue := finish_job j (w_queue w)\<rparr>"
| "do_op Op_CancelJobs w = w\<lparr>w_queue := snd (cancel_jobs (w_queue w))\<rparr>"

text \<open>Every start obeys an external limit of at most \<open>L\<close>.\<close>

fun op_within :: "nat \<Rightarrow> op \<Rightarrow> bool" where
  "op_within L (Op_Take l) = (l \<le> L)"
| "op_within L _ = True"

inductive reachable :: "nat \<Rightarrow> world \<Rightarrow> bool" for L where
  reach_init: "reachable L world_init"
| reach_step: "reachable L w \<Longrightarrow> op_within L op \<Longrightarrow> reachable L (do_op op w)"

section \<open>Well-keyed queues\<close>

definition well_keyed :: "queue \<Rightarrow> bool" where
  "well_keyed q =
     (bt_sorted (pending q) \<and> bt_sorted (running q) \<and> bt_sorted (admissions q) \<and>
      bt_sorted (observations q) \<and>
      keyed_by job_key (pending q) \<and> keyed_by (\<lambda>r. job_key (run_job r)) (running q))"

definition exclusive :: "nat \<Rightarrow> queue \<Rightarrow> bool" where
  "exclusive L q = (distinct (map slot (bt_keys (running q))) \<and> external_running q \<le> L)"

text \<open>The queue only ever changes its maps in a few ways; each keeps the invariant.\<close>

lemmas bt_keeps = bt_sorted_insert bt_sorted_remove bt_sorted_retain bt_sorted_filter bt_sorted_map
  keyed_by_insert keyed_by_remove keyed_by_retain keyed_by_filter keyed_by_modify keyed_by_map

lemma run_job_send [simp]: "run_job (send_cancel r) = run_job r"
  by (simp add: send_cancel_def)

lemma well_keyed_put [keeps]: "well_keyed q \<Longrightarrow> well_keyed (put_pending j q)"
  by (simp add: well_keyed_def put_pending_def bt_keeps)

lemma well_keyed_cancel [keeps]: "well_keyed q \<Longrightarrow> well_keyed (cancel_running k q)"
  by (simp add: cancel_running_def well_keyed_def bt_keeps)

lemma well_keyed_unpend [keeps]:
  "well_keyed q \<Longrightarrow> well_keyed (q\<lparr>pending := bt_remove k (pending q)\<rparr>)"
  by (simp add: well_keyed_def bt_keeps)

lemma well_keyed_enqueue [keeps]: "well_keyed q \<Longrightarrow> well_keyed (enqueue j q)"
  by (simp add: enqueue_def keeps split: option.split)

lemma well_keyed_prune [keeps]: "well_keyed q \<Longrightarrow> well_keyed (prune_admissions live q)"
  by (simp add: well_keyed_def prune_admissions_def Let_def bt_keeps)

lemma well_keyed_admission [keeps]:
  "well_keyed q \<Longrightarrow> well_keyed (snd (review_admission live fresh k q))"
  using well_keyed_prune[of q live]
  by (simp add: review_admission_def Let_def well_keyed_def bt_keeps)

lemma well_keyed_observe [keeps]: "well_keyed q \<Longrightarrow> well_keyed (observe_pull live k q)"
  by (simp add: observe_pull_def well_keyed_def bt_keeps)

lemma well_keyed_close [keeps]: "well_keyed q \<Longrightarrow> well_keyed (close live k q)"
  using well_keyed_observe[of q live k]
  by (simp add: close_def Let_def well_keyed_def bt_keeps cancel_running_def)

lemma well_keyed_remove_repo [keeps]: "well_keyed q \<Longrightarrow> well_keyed (snd (remove_repo uid r q))"
proof -
  assume "well_keyed q"
  moreover have "keyed_by (\<lambda>r. job_key (run_job r)) (cancel_repo i s m)"
    if "keyed_by (\<lambda>r. job_key (run_job r)) m" for i s m
    using that unfolding cancel_repo_def by (rule keyed_by_map) simp
  ultimately have "well_keyed (q\<lparr>admissions := adms, pending := bt_retain p (pending q),
      running := cancel_repo i s (running q)\<rparr>)" if "bt_sorted adms" for adms p i s
    using that by (simp add: well_keyed_def bt_keeps cancel_repo_def)
  moreover have "bt_sorted (bt_retain p (admissions q))" for p
    using \<open>well_keyed q\<close> by (simp add: well_keyed_def bt_keeps)
  ultimately show ?thesis
    by (simp add: remove_repo_def Let_def well_keyed_enqueue)
qed

lemma keys_cancel_repo [simp]: "bt_keys (cancel_repo i s m) = bt_keys m"
  by (simp add: cancel_repo_def bt_keys_def comp_def split_def)

lemma well_keyed_retarget_queue [keeps]: "well_keyed q \<Longrightarrow> well_keyed (retarget_queue j q)"
  by (simp add: retarget_queue_def Let_def well_keyed_unpend well_keyed_cancel split: option.split)

lemma snd_retarget:
  "snd (snd (snd (retarget live fresh p j q))) =
   snd (review_admission live fresh (job_key j) (retarget_queue j q))"
  by (simp add: retarget_def Let_def split_def)

lemma well_keyed_retarget [keeps]:
  "well_keyed q \<Longrightarrow> well_keyed (snd (snd (snd (retarget live fresh p j q))))"
  by (simp add: snd_retarget keeps)

lemma well_keyed_finish [keeps]: "well_keyed q \<Longrightarrow> well_keyed (finish_job j q)"
  by (simp add: finish_job_def well_keyed_def bt_keeps split: option.split)

lemma well_keyed_cancel_jobs [keeps]: "well_keyed q \<Longrightarrow> well_keyed (snd (cancel_jobs q))"
  by (simp add: cancel_jobs_def well_keyed_def bt_keeps)

lemma well_keyed_accept: "well_keyed q \<Longrightarrow> well_keyed (snd (enqueue_accept e j q))"
  by (simp add: enqueue_accept_def Let_def keeps)

lemma well_keyed_checked [keeps]: "well_keyed q \<Longrightarrow> well_keyed (snd (enqueue_checked e j a r q))"
  by (simp add: enqueue_checked_def well_keyed_accept split: option.split)

text \<open>A start moves one job that is pending under its key, of an idle repository.\<close>

lemma take_cases:
  assumes "take_with_external_limit l q = Some (j, q')" and "well_keyed q"
  shows "map_of (pending q) (job_key j) = Some j \<and> startable l q (job_key j) \<and>
    (\<forall>k\<in>set (bt_keys (pending q)). startable l q k \<longrightarrow> job_key j \<le> k) \<and>
    q' = q\<lparr>pending := bt_remove (job_key j) (pending q),
           running := bt_insert (job_key j, \<lparr>run_job = j, run_cancel = False, run_receiver = True\<rparr>) (running q)\<rparr>"
proof -
  from assms(1) obtain k where k: "List.find (startable l q) (bt_keys (pending q)) = Some k"
    and j: "map_of (pending q) k = Some j"
    and q': "q' = q\<lparr>pending := bt_remove k (pending q),
      running := bt_insert (k, \<lparr>run_job = j, run_cancel = False, run_receiver = True\<rparr>) (running q)\<rparr>"
    by (auto simp: take_with_external_limit_def split: option.splits)
  have "bt_sorted (pending q)" using assms(2) by (simp add: well_keyed_def)
  from bt_find_least[OF this k] have least: "startable l q k"
    "\<forall>i\<in>set (bt_keys (pending q)). startable l q i \<longrightarrow> k \<le> i" by auto
  have "(k, j) \<in> set (pending q)" using j by (rule map_of_SomeD)
  then have "job_key j = k" using assms(2) by (auto simp: well_keyed_def dest: keyed_byD)
  with least j q' show ?thesis by blast
qed

lemma take_None:
  assumes "take_with_external_limit l q = None"
  shows "\<forall>k\<in>set (bt_keys (pending q)). \<not> startable l q k"
proof (cases "List.find (startable l q) (bt_keys (pending q))")
  case None
  then show ?thesis by (auto simp: find_None_iff)
next
  case (Some k)
  then have "k \<in> set (bt_keys (pending q))" by (auto dest: find_Some_iff_set)
  then have "map_of (pending q) k \<noteq> None" by (simp add: bt_keys_def map_of_eq_None_iff)
  with assms Some show ?thesis by (auto simp: take_with_external_limit_def split: option.splits)
qed

lemma well_keyed_take [keeps]:
  assumes "take_with_external_limit l q = Some (j, q')" and "well_keyed q"
  shows "well_keyed q'"
  using take_cases[OF assms] assms(2) by (simp add: well_keyed_def bt_keeps)

lemma well_keyed_step: "well_keyed (w_queue w) \<Longrightarrow> well_keyed (w_queue (do_op op w))"
proof (cases op)
  case (Op_ReceiverGone k)
  assume "well_keyed (w_queue w)"
  then show ?thesis using Op_ReceiverGone by (simp add: well_keyed_def bt_keeps)
next
  case (Op_Take l)
  assume "well_keyed (w_queue w)"
  then show ?thesis using Op_Take by (auto split: option.split intro: keeps)
qed (auto simp: keeps hold_def split_def)

lemma reachable_well_keyed: "reachable L w \<Longrightarrow> well_keyed (w_queue w)"
proof (induction rule: reachable.induct)
  case reach_init
  show ?case by (simp add: world_init_def queue_default_def well_keyed_def)
qed (rule well_keyed_step)

section \<open>One job per repository\<close>

text \<open>Apart from a start, no operation adds a running job.\<close>

lemma length_filter_conj: "length (filter (\<lambda>x. p x \<and> c x) xs) \<le> length (filter c xs)"
  by (induction xs) auto

lemma running_filter_exclusive:
  "exclusive L q \<Longrightarrow> running q' = filter p (running q) \<Longrightarrow> exclusive L q'"
proof -
  assume e: "exclusive L q" and q': "running q' = filter p (running q)"
  have "distinct (map slot (map fst (filter p (running q))))"
    using e by (simp add: exclusive_def bt_keys_def distinct_map_filter comp_def)
  moreover have "length (filter (\<lambda>k. key_source k = External) (map fst (filter p (running q))))
      \<le> length (filter (\<lambda>k. key_source k = External) (map fst (running q)))"
    by (simp add: filter_map comp_def length_filter_conj)
  ultimately show ?thesis using e q' by (simp add: exclusive_def external_running_def bt_keys_def)
qed

lemma exclusive_keys: "exclusive L q \<Longrightarrow> bt_keys (running q') = bt_keys (running q) \<Longrightarrow> exclusive L q'"
  by (simp add: exclusive_def external_running_def)

lemma keys_enqueue [simp]: "bt_keys (running (enqueue j q)) = bt_keys (running q)"
  by (simp add: enqueue_def put_pending_def cancel_running_def split: option.split)

lemma keys_checked [simp]: "bt_keys (running (snd (enqueue_checked e j a r q))) = bt_keys (running q)"
  by (simp add: enqueue_checked_def enqueue_accept_def Let_def split: option.split)

lemma keys_close [simp]: "bt_keys (running (close live k q)) = bt_keys (running q)"
  by (simp add: close_def cancel_running_def observe_pull_def Let_def)

lemma keys_admission [simp]: "running (snd (review_admission live fresh k q)) = running q"
  by (simp add: review_admission_def prune_admissions_def Let_def)

lemma keys_retarget [simp]:
  "bt_keys (running (snd (snd (snd (retarget live fresh p j q))))) = bt_keys (running q)"
  by (simp add: snd_retarget retarget_queue_def cancel_running_def Let_def split: option.split)

lemma keys_remove_repo [simp]: "bt_keys (running (snd (remove_repo uid r q))) = bt_keys (running q)"
  by (simp add: remove_repo_def Let_def)

lemma keys_cancel_jobs [simp]: "bt_keys (running (snd (cancel_jobs q))) = bt_keys (running q)"
  by (simp add: cancel_jobs_def bt_keys_def comp_def split_def)

lemma keys_insert_mset: "k \<notin> set (bt_keys m) \<Longrightarrow> mset (bt_keys (bt_insert (k, v) m)) = add_mset k (mset (bt_keys m))"
  by (induction m) (auto simp: bt_keys_def)

lemma exclusive_take:
  assumes "take_with_external_limit l q = Some (j, q')" and "well_keyed q" and "exclusive L q" and "l \<le> L"
  shows "exclusive L q'"
proof -
  note t = take_cases[OF assms(1,2)]
  let ?k = "job_key j"
  have start: "slot ?k \<notin> slot ` set (bt_keys (running q))"
    "key_source ?k \<noteq> External \<or> external_running q < l"
    using t by (auto simp: startable_def busy_slots_def)
  then have "?k \<notin> set (bt_keys (running q))" by blast
  then have keys: "mset (bt_keys (running q')) = add_mset ?k (mset (bt_keys (running q)))"
    using t by (simp add: keys_insert_mset)
  have "mset (map slot (bt_keys (running q'))) = add_mset (slot ?k) (mset (map slot (bt_keys (running q))))"
    by (simp add: keys)
  then have "distinct (map slot (bt_keys (running q'))) =
      distinct (slot ?k # map slot (bt_keys (running q)))"
    by (intro mset_eq_imp_distinct_iff) simp
  moreover have "mset (filter (\<lambda>k. key_source k = External) (bt_keys (running q'))) =
      mset (filter (\<lambda>k. key_source k = External) (?k # bt_keys (running q)))"
    by (simp add: keys)
  then have "external_running q' =
      length (filter (\<lambda>k. key_source k = External) (?k # bt_keys (running q)))"
    unfolding external_running_def by (metis size_mset)
  then have "external_running q' = (if key_source ?k = External then Suc (external_running q) else external_running q)"
    by (simp add: external_running_def)
  ultimately show ?thesis using assms(3,4) start by (auto simp: exclusive_def)
qed

lemma exclusive_step:
  assumes "exclusive L (w_queue w)" and "well_keyed (w_queue w)" and "op_within L op"
  shows "exclusive L (w_queue (do_op op w))"
proof (cases op)
  case (Op_Take l)
  then show ?thesis using assms exclusive_take[of l "w_queue w"] by (auto split: option.split)
next
  case (Op_Finish j)
  have "exclusive L (finish_job j (w_queue w))"
    using assms(1) running_filter_exclusive[OF assms(1), of "finish_job j (w_queue w)" "\<lambda>e. fst e \<noteq> job_key j"]
    by (auto simp: finish_job_def bt_remove_def split: option.split)
  then show ?thesis using Op_Finish by simp
qed (use assms(1) in \<open>auto simp: hold_def split_def observe_pull_def intro: exclusive_keys\<close>)

lemma reachable_exclusive: "reachable L w \<Longrightarrow> exclusive L (w_queue w)"
proof (induction rule: reachable.induct)
  case reach_init
  show ?case by (simp add: world_init_def queue_default_def exclusive_def external_running_def bt_keys_def)
next
  case (reach_step w op)
  then show ?case by (intro exclusive_step reachable_well_keyed)
qed

section \<open>Admissions made before a close\<close>

text \<open>\<open>void_for k a q\<close>: the queue holds another token under the admission's key, or the admission is a
  listing that began before the pull request \<open>k\<close> was last observed.\<close>

definition void_for :: "key \<Rightarrow> review_admission \<Rightarrow> queue \<Rightarrow> bool" where
  "void_for k a q =
     (map_of (admissions q) (adm_key a) \<noteq> Some (Some (adm_token a)) \<or>
      key_number (adm_key a) = 0 \<and> adm_key a = listing_key k \<and>
      (\<exists>at. map_of (observations q) k = Some at \<and> adm_observed_at a < at \<and> at \<le> observation_sequence q))"

lemma void_not_admits: "void_for k a q \<Longrightarrow> \<not> admits k a q"
  by (auto simp: void_for_def admits_def split: option.splits)

text \<open>Only the admissions and observations matter, and removing admissions keeps the void.\<close>

lemma void_forI:
  "void_for k a q \<Longrightarrow> observations q' = observations q \<Longrightarrow>
   observation_sequence q' = observation_sequence q \<Longrightarrow>
   (map_of (admissions q') (adm_key a) = Some (Some (adm_token a)) \<Longrightarrow>
    map_of (admissions q) (adm_key a) = Some (Some (adm_token a))) \<Longrightarrow> void_for k a q'"
  by (auto simp: void_for_def)

lemma void_prune:
  assumes "well_keyed q" and "void_for k a q"
  shows "void_for k a (prune_admissions live q)"
proof -
  have adms: "map_of (bt_retain (\<lambda>_. weak_live live) (admissions q)) i =
      (case map_of (admissions q) i of None \<Rightarrow> None | Some w \<Rightarrow> if weak_live live w then Some w else None)" for i
    using assms(1) by (simp add: well_keyed_def bt_get_retain)
  have obs: "map_of (observations (prune_admissions live q)) k =
      (case map_of (observations q) k of None \<Rightarrow> None
       | Some at \<Rightarrow> if bt_contains (bt_retain (\<lambda>_. weak_live live) (admissions q)) (listing_key k)
                    then Some at else None)"
    using assms(1) by (simp add: well_keyed_def prune_admissions_def Let_def bt_get_retain)
  have new: "admissions (prune_admissions live q) = bt_retain (\<lambda>_. weak_live live) (admissions q)"
    "observation_sequence (prune_admissions live q) = observation_sequence q"
    by (simp_all add: prune_admissions_def Let_def)
  show ?thesis
  proof (cases "map_of (admissions (prune_admissions live q)) (adm_key a) = Some (Some (adm_token a))")
    case True
    then have "map_of (admissions q) (adm_key a) = Some (Some (adm_token a))"
      by (auto simp: new adms split: option.splits if_splits)
    with assms(2) True show ?thesis by (auto simp: void_for_def new obs bt_contains_def)
  qed (simp add: void_for_def)
qed

lemma void_review_admission:
  assumes "well_keyed q" and "void_for k a q" and "adm_token a < fresh"
  shows "void_for k a (snd (review_admission live fresh j q))"
proof -
  let ?q = "prune_admissions live q"
  have v: "void_for k a ?q" using void_prune[OF assms(1,2)] .
  have "bt_sorted (admissions ?q)" using well_keyed_prune[OF assms(1)] by (simp add: well_keyed_def)
  note ins = bt_get_insert[OF this]
  define entry where "entry = (case map_of (admissions ?q) j of Some w \<Rightarrow> w | None \<Rightarrow> None)"
  define current where
    "current = (case entry of Some t \<Rightarrow> if live t then t else fresh | None \<Rightarrow> fresh)"
  have new: "snd (review_admission live fresh j q) =
      ?q\<lparr>admissions := bt_insert (j, Some current) (admissions ?q)\<rparr>"
    by (simp add: review_admission_def Let_def current_def entry_def)
  have old: "map_of (admissions ?q) j = Some (Some (adm_token a))" if "current = adm_token a"
    using that assms(3) by (auto simp: current_def entry_def split: option.splits if_splits)
  show ?thesis
    by (rule void_forI[OF v]) (auto simp: new ins old split: if_splits)
qed

lemma void_observe:
  assumes "well_keyed q" and "void_for k a q"
  shows "void_for k a (observe_pull live j q)"
proof -
  have "bt_sorted (observations q)" using assms(1) by (simp add: well_keyed_def)
  note ins = bt_get_insert[OF this]
  show ?thesis using assms(2) by (auto simp: void_for_def observe_pull_def ins)
qed

lemma void_close:
  "well_keyed q \<Longrightarrow> void_for k a q \<Longrightarrow> void_for k a (close live j q)"
  by (rule void_forI[OF void_observe[of q k a live j]])
     (auto simp: close_def cancel_running_def Let_def bt_simps split: if_splits)

lemma same_admissions_enqueue [simp]:
  "admissions (enqueue j q) = admissions q"
  "observations (enqueue j q) = observations q"
  "observation_sequence (enqueue j q) = observation_sequence q"
  by (simp_all add: enqueue_def put_pending_def cancel_running_def split: option.split)

lemma same_admissions_accept [simp]:
  "admissions (snd (enqueue_accept e j q)) = admissions q"
  "observations (snd (enqueue_accept e j q)) = observations q"
  "observation_sequence (snd (enqueue_accept e j q)) = observation_sequence q"
  by (simp_all add: enqueue_accept_def Let_def)

lemma same_admissions [simp]:
  "admissions (snd (enqueue_checked e j c r q)) = admissions q"
  "observations (snd (enqueue_checked e j c r q)) = observations q"
  "observation_sequence (snd (enqueue_checked e j c r q)) = observation_sequence q"
  by (simp_all add: enqueue_checked_def split: option.split)

lemma same_admissions_retarget [simp]:
  "admissions (retarget_queue j q) = admissions q"
  "observations (retarget_queue j q) = observations q"
  "observation_sequence (retarget_queue j q) = observation_sequence q"
  by (simp_all add: retarget_queue_def cancel_running_def Let_def split: option.split)

lemma same_admissions_finish [simp]:
  "admissions (finish_job j q) = admissions q"
  "observations (finish_job j q) = observations q"
  "observation_sequence (finish_job j q) = observation_sequence q"
  by (simp_all add: finish_job_def split: option.split)

lemma remove_repo_admissions:
  "observations (snd (remove_repo uid r q)) = observations q"
  "observation_sequence (snd (remove_repo uid r q)) = observation_sequence q"
  "admissions (snd (remove_repo uid r q)) =
     bt_retain (\<lambda>k _. \<not> of_repo (repo_id r) (repo_source r) k) (admissions q)"
  by (simp_all add: remove_repo_def Let_def enqueue_def put_pending_def cancel_running_def
      split: option.split)

lemma void_remove_repo:
  assumes "well_keyed q" and "void_for k a q"
  shows "void_for k a (snd (remove_repo uid r q))"
proof (rule void_forI[OF assms(2)])
  have "bt_sorted (admissions q)" using assms(1) by (simp add: well_keyed_def)
  then show "map_of (admissions q) (adm_key a) = Some (Some (adm_token a))"
    if "map_of (admissions (snd (remove_repo uid r q))) (adm_key a) = Some (Some (adm_token a))"
    using that by (auto simp: remove_repo_admissions bt_get_retain split: option.splits if_splits)
qed (simp_all add: remove_repo_admissions)

lemma void_take:
  "take_with_external_limit l q = Some (j, q') \<Longrightarrow> void_for k a q \<Longrightarrow> void_for k a q'"
  by (auto simp: take_with_external_limit_def void_for_def split: option.splits)

lemma void_step:
  assumes "well_keyed (w_queue w)" and "void_for k a (w_queue w)" and "adm_token a < w_next w"
  shows "void_for k a (w_queue (do_op op w)) \<and> adm_token a < w_next (do_op op w)"
proof (cases op)
  case (Op_Admit j)
  then show ?thesis using void_review_admission[OF assms] assms(3) by (simp add: split_def hold_def)
next
  case (Op_Retarget p j)
  have "void_for k a (retarget_queue j (w_queue w))" using assms(2) by (simp add: void_for_def)
  from void_review_admission[OF well_keyed_retarget_queue[OF assms(1)] this assms(3)]
  show ?thesis using Op_Retarget assms(3) by (simp add: split_def hold_def snd_retarget)
next
  case (Op_Take l)
  then show ?thesis using assms void_take by (auto split: option.split)
next
  case (Op_Close j)
  then show ?thesis using assms(3) void_close[OF assms(1,2)] by simp
next
  case (Op_Observe j)
  then show ?thesis using assms(3) void_observe[OF assms(1,2)] by simp
next
  case (Op_RemoveRepo uid r)
  then show ?thesis using assms(3) void_remove_repo[OF assms(1,2)] by simp
qed (use assms(2,3) in \<open>simp_all add: void_for_def cancel_jobs_def\<close>)

text \<open>What a caller holds: allocated tokens, and counters not beyond the queue's.\<close>

definition held_ok :: "world \<Rightarrow> bool" where
  "held_ok w = list_all (\<lambda>a. adm_token a < w_next w \<and>
     adm_observed_at a \<le> observation_sequence (w_queue w)) (w_held w)"

lemma held_ok_mono:
  "held_ok w \<Longrightarrow> set (w_held w') \<subseteq> set (w_held w) \<Longrightarrow> w_next w \<le> w_next w' \<Longrightarrow>
   observation_sequence (w_queue w) \<le> observation_sequence (w_queue w') \<Longrightarrow> held_ok w'"
  by (fastforce simp: held_ok_def list_all_iff)

lemma admission_fields:
  "adm_observed_at (fst (review_admission live fresh k q)) = observation_sequence q"
  "observation_sequence (snd (review_admission live fresh k q)) = observation_sequence q"
  "adm_token (fst (review_admission live fresh k q)) = fresh \<or>
   live (adm_token (fst (review_admission live fresh k q)))"
  by (auto simp: review_admission_def prune_admissions_def Let_def split: option.split)

lemma held_ok_hold:
  assumes "held_ok w" and "observation_sequence q = observation_sequence (w_queue w)"
    and "a = fst (review_admission (token_live w) (w_next w) k q)"
    and "q' = snd (review_admission (token_live w) (w_next w) k q)"
  shows "held_ok (hold a q' w)"
proof -
  have "adm_token a < Suc (w_next w)"
    using admission_fields(3)[of "token_live w" "w_next w" k q] assms(1,3)
    by (auto simp: token_live_def held_ok_def list_all_iff list_ex_iff)
  then show ?thesis using assms
    by (auto simp: held_ok_def hold_def list_all_iff admission_fields)
qed

lemma sequence_grows:
  "observation_sequence (w_queue w) \<le> observation_sequence (w_queue (do_op op w))"
proof (cases op)
  case (Op_Admit k)
  then show ?thesis by (simp add: split_def hold_def admission_fields)
next
  case (Op_Retarget p j)
  then show ?thesis by (simp add: split_def hold_def snd_retarget admission_fields)
next
  case (Op_Take l)
  then show ?thesis by (simp add: take_with_external_limit_def split: option.split)
qed (simp_all add: observe_pull_def close_def cancel_running_def Let_def cancel_jobs_def remove_repo_admissions)

lemma held_ok_step: "held_ok w \<Longrightarrow> held_ok (do_op op w)"
proof -
  assume w: "held_ok w"
  have same: "held_ok (do_op op w)" if "set (w_held (do_op op w)) \<subseteq> set (w_held w)" and "w_next w \<le> w_next (do_op op w)"
    using held_ok_mono[OF w that sequence_grows] .
  show ?thesis
  proof (cases op)
    case (Op_Admit k)
    then show ?thesis using held_ok_hold[OF w, of "w_queue w"] by (simp add: split_def)
  next
    case (Op_Retarget p j)
    from held_ok_hold[OF w, of "retarget_queue j (w_queue w)" _ "job_key j"]
    show ?thesis using Op_Retarget by (simp add: retarget_def Let_def split_def)
  next
    case (Op_Take l)
    then show ?thesis by (intro same) (simp_all split: option.split)
  qed (intro same; simp add: set_remove1_subset)+
qed

lemma reachable_held_ok: "reachable L w \<Longrightarrow> held_ok w"
proof (induction rule: reachable.induct)
  case reach_init
  show ?case by (simp add: world_init_def held_ok_def)
qed (rule held_ok_step)

text \<open>The moment of the close.\<close>

lemma close_voids:
  assumes "well_keyed (w_queue w)" and "held_ok w" and "a \<in> set (w_held w)"
    and "adm_key a = k \<or> adm_key a = listing_key k"
  shows "void_for k a (close (token_live w) k (w_queue w))"
proof -
  let ?q = "w_queue w"
  have obs: "bt_sorted (observations ?q)" using assms(1) by (simp add: well_keyed_def)
  have live: "token_live w (adm_token a)" using assms(3) by (auto simp: token_live_def list_ex_iff)
  have old: "adm_observed_at a \<le> observation_sequence ?q"
    using assms(2,3) by (auto simp: held_ok_def list_all_iff)
  show ?thesis
  proof (cases "adm_key a = k")
    case True
    then show ?thesis by (simp add: void_for_def close_def cancel_running_def Let_def bt_simps)
  next
    case False
    then have a: "adm_key a = listing_key k" using assms(4) by simp
    show ?thesis
    proof (cases "map_of (admissions ?q) (listing_key k) = Some (Some (adm_token a))")
      case True
      have o: "observe_pull (token_live w) k ?q =
          ?q\<lparr>observation_sequence := observation_sequence ?q + 1,
             observations := bt_insert (k, observation_sequence ?q + 1) (observations ?q)\<rparr>"
        using True live by (simp add: observe_pull_def weak_live_def)
      show ?thesis using False a old
        by (auto simp: void_for_def close_def cancel_running_def Let_def o bt_get_insert[OF obs]
            listing_key_def)
    next
      case wrong: False
      have "admissions (observe_pull (token_live w) k ?q) = admissions ?q"
        by (simp add: observe_pull_def)
      then show ?thesis using wrong False a
        by (simp add: void_for_def close_def cancel_running_def Let_def bt_simps)
    qed
  qed
qed

text \<open>The worlds that follow a world.\<close>

inductive later :: "world \<Rightarrow> world \<Rightarrow> bool" where
  later_refl: "later w w"
| later_step: "later w v \<Longrightarrow> later w (do_op op v)"

lemma void_later:
  assumes "later w v" and "well_keyed (w_queue w)" and "void_for k a (w_queue w)" and "adm_token a < w_next w"
  shows "void_for k a (w_queue v)"
proof -
  have "well_keyed (w_queue v) \<and> void_for k a (w_queue v) \<and> adm_token a < w_next v"
    using assms
  proof (induction rule: later.induct)
    case (later_step w v op)
    then show ?case using void_step well_keyed_step by blast
  qed simp
  then show ?thesis by simp
qed

lemma close_voids_for_ever:
  assumes "reachable L w" and "a \<in> set (w_held w)" and "adm_key a = k \<or> adm_key a = listing_key k"
    and "later (do_op (Op_Close k) w) v"
  shows "\<not> admits k a (w_queue v)"
proof -
  note wk = reachable_well_keyed[OF assms(1)] and h = reachable_held_ok[OF assms(1)]
  have "adm_token a < w_next w" using h assms(2) by (auto simp: held_ok_def list_all_iff)
  then have "void_for k a (w_queue v)"
    using void_later[OF assms(4), of k a] close_voids[OF wk h assms(2,3)] well_keyed_close[OF wk]
    by simp
  then show ?thesis by (rule void_not_admits)
qed

section \<open>Progress of the dispatcher\<close>

text \<open>A pending job that waits has a reason: its repository runs a job, or it is external and the
  external limit is used up.\<close>

definition waits :: "nat \<Rightarrow> queue \<Rightarrow> key \<Rightarrow> bool" where
  "waits l q k = (slot k \<in> busy_slots q \<or> key_source k = External \<and> l \<le> external_running q)"

lemma not_startable: "\<not> startable l q k \<longleftrightarrow> waits l q k"
  by (auto simp: startable_def waits_def)

lemma length_bt_remove: "map_of m k = Some v \<Longrightarrow> length (bt_remove k m) < length m"
  unfolding bt_remove_def by (rule length_filter_less[of "(k, v)"]) (auto dest: map_of_SomeD)

lemma take_shrinks:
  "take_with_external_limit l q = Some (j, q') \<Longrightarrow> length (pending q') < length (pending q)"
  by (auto simp: take_with_external_limit_def length_bt_remove split: option.splits)

lemma dispatch_progress:
  assumes "length (pending q) \<le> n" and "dispatch_loop (replicate n l) p q = (js, p', q')"
  shows "p' = 0 \<or> list_all (waits l q') (bt_keys (pending q'))"
  using assms
proof (induction n arbitrary: p q js)
  case 0
  then show ?case by (simp add: bt_keys_def)
next
  case (Suc n)
  show ?case
  proof (cases "p = 0 \<or> take_with_external_limit l q = None")
    case True
    then show ?thesis using Suc.prems(2) take_None[of l q]
      by (auto simp: list_all_iff not_startable split: if_splits)
  next
    case False
    then obtain j q1 where t: "take_with_external_limit l q = Some (j, q1)" by auto
    obtain js1 where d: "dispatch_loop (replicate n l) (p - 1) q1 = (js1, p', q')"
      using Suc.prems(2) t False by (auto split: prod.splits)
    have "length (pending q1) \<le> n" using take_shrinks[OF t] Suc.prems(1) by simp
    from Suc.IH[OF this d] show ?thesis .
  qed
qed

lemma dispatch_permits:
  "dispatch_loop ls p q = (js, p', q') \<Longrightarrow> p' + length js = p"
  by (induction ls arbitrary: p q js) (auto split: if_splits option.splits prod.splits)

lemma take_running:
  assumes "take_with_external_limit l q = Some (j, q')" and "well_keyed q"
  shows "map_of (running q') (job_key j) = Some \<lparr>run_job = j, run_cancel = False, run_receiver = True\<rparr>"
    and "map_of (running q) k = Some r \<Longrightarrow> map_of (running q') k = Some r"
proof -
  note t = take_cases[OF assms]
  have "slot (job_key j) \<notin> slot ` set (bt_keys (running q))"
    using t by (auto simp: startable_def busy_slots_def)
  then have new: "job_key j \<notin> set (bt_keys (running q))" by blast
  have "bt_sorted (running q)" using assms(2) by (simp add: well_keyed_def)
  note ins = bt_get_insert[OF this]
  show "map_of (running q') (job_key j) = Some \<lparr>run_job = j, run_cancel = False, run_receiver = True\<rparr>"
    using t by (simp add: ins)
  assume r: "map_of (running q) k = Some r"
  then have "k \<in> set (bt_keys (running q))" by (force simp: bt_keys_def dest: map_of_SomeD)
  then show "map_of (running q') k = Some r" using t r new by (auto simp: ins)
qed

lemma dispatch_started:
  assumes "dispatch_loop ls p q = (js, p', q')" and "well_keyed q"
  shows "well_keyed q' \<and> (\<forall>k r. map_of (running q) k = Some r \<longrightarrow> map_of (running q') k = Some r) \<and>
    (\<forall>j\<in>set js. map_of (running q') (job_key j) = Some \<lparr>run_job = j, run_cancel = False, run_receiver = True\<rparr>)"
  using assms
proof (induction ls arbitrary: p q js)
  case (Cons l ls)
  show ?case
  proof (cases "p = 0 \<or> take_with_external_limit l q = None")
    case False
    then obtain j q1 where t: "take_with_external_limit l q = Some (j, q1)" by auto
    obtain js1 where d: "dispatch_loop ls (p - 1) q1 = (js1, p', q')" and js: "js = j # js1"
      using Cons.prems(1) t False by (auto split: prod.splits)
    have wk: "well_keyed q1" using well_keyed_take[OF t Cons.prems(2)] .
    note IH = Cons.IH[OF d wk] and tr = take_running[OF t Cons.prems(2)]
    have "map_of (running q') (job_key j) = Some \<lparr>run_job = j, run_cancel = False, run_receiver = True\<rparr>"
      using IH tr(1) by blast
    moreover have "\<forall>k r. map_of (running q) k = Some r \<longrightarrow> map_of (running q') k = Some r"
      using IH tr(2) by blast
    ultimately show ?thesis using IH js by simp
  qed (use Cons.prems in \<open>auto split: if_splits\<close>)
qed simp

section \<open>Admitting jobs\<close>

text \<open>An enqueued job waits under its key, or a running job that nobody told to stop does the same work.\<close>

definition covered :: "job \<Rightarrow> queue \<Rightarrow> bool" where
  "covered j q =
     (map_of (pending q) (job_key j) = Some j \<or>
      (case map_of (running q) (job_key j) of
         None \<Rightarrow> False
       | Some r \<Rightarrow> same_content (run_job r) j \<and> \<not> run_cancel r \<and> is_review j \<and> \<not> forced (job_kind j)))"

lemma enqueue_covered: "well_keyed q \<Longrightarrow> covered j (enqueue j q)"
  by (cases "job_kind j")
    (auto simp: enqueue_def covered_def put_pending_def well_keyed_def bt_get_insert is_review_def
      cancel_running_def forced_def split: option.split)

text \<open>A superseded run is told to stop, unless its receiver is already gone.\<close>

lemma enqueue_cancels:
  assumes "map_of (running q) (job_key j) = Some r" and "\<not> same_content (run_job r) j"
    and "job_kind j \<noteq> Index"
  shows "map_of (running (enqueue j q)) (job_key j) = Some (send_cancel r)"
  using assms by (simp add: enqueue_def put_pending_def cancel_running_def bt_simps)

text \<open>What may wait in the queue of a repository under the operator's preferences.\<close>

definition permitted :: "preferences \<Rightarrow> job \<Rightarrow> bool" where
  "permitted p j =
     (let trig = pref_trigger p (full_name (job_repo j)) in
      (repo_source (job_repo j) = Installed \<and> job_kind j \<noteq> Remove \<longrightarrow> trig \<noteq> Trigger_Off) \<and>
      (case job_kind j of
         Review _ pr _ \<Rightarrow> job_trigger j \<in> auto_triggers \<longrightarrow> trig = Trigger_Auto \<and> reviewable p pr
       | _ \<Rightarrow> True))"

lemma gate_permitted: "enqueue_gate p j = Some j' \<Longrightarrow> permitted p j' \<and> job_key j' = job_key j \<and> job_id j' = job_id j"
  by (auto simp: enqueue_gate_def permitted_def job_key_def Let_def split: kind.splits if_splits)

lemma pending_enqueue:
  "pending (enqueue j q) = pending q \<or> pending (enqueue j q) = bt_insert (job_key j, j) (pending q)"
  by (simp add: enqueue_def put_pending_def cancel_running_def split: option.split)

lemma pending_accept:
  "pending (snd (enqueue_accept e j q)) = pending (enqueue j q) \<or>
   pending (snd (enqueue_accept e j q)) = bt_remove (job_key j) (pending (enqueue j q))"
  by (simp add: enqueue_accept_def Let_def)

lemma enqueue_accept_pending:
  assumes "well_keyed q" and "map_of (pending (snd (enqueue_accept e j q))) k = Some x"
  shows "map_of (pending q) k = Some x \<or> x = j"
proof -
  have "bt_sorted (pending q)" using assms(1) by (simp add: well_keyed_def)
  note ins = bt_get_insert[OF this]
  have "map_of (pending (enqueue j q)) k = Some x"
    using pending_accept[of e j q] assms(2) by (auto simp: bt_simps split: if_splits)
  then show ?thesis using pending_enqueue[of j q] by (auto simp: ins split: if_splits)
qed

lemma enqueue_checked_pending:
  assumes "well_keyed q" and "map_of (pending (snd (enqueue_checked e j a r q))) k = Some x"
    and "map_of (pending q) k \<noteq> Some x"
  shows "permitted (en_prefs e) x \<and> job_id x = job_id j \<and> \<not> en_stopping e"
proof (cases "enqueue_gate (en_prefs e) j")
  case None
  then show ?thesis using assms by (simp add: enqueue_checked_def)
next
  case (Some j')
  then have acc: "\<not> enqueue_refused e a r j' q"
    "map_of (pending (snd (enqueue_accept e j' q))) k = Some x"
    using assms by (auto simp: enqueue_checked_def split: if_splits)
  have "x = j'" using enqueue_accept_pending[OF assms(1) acc(2)] assms(3) by simp
  then show ?thesis using gate_permitted[OF Some] acc(1) by (auto simp: enqueue_refused_def)
qed

text \<open>After a retarget nothing waits for the old base, and a run for it was told to stop.\<close>

definition no_stale_base :: "job \<Rightarrow> queue \<Rightarrow> bool" where
  "no_stale_base j q =
     ((case map_of (pending q) (job_key j) of None \<Rightarrow> True | Some p \<Rightarrow> job_base_ref p = job_base_ref j) \<and>
      (case map_of (running q) (job_key j) of
         None \<Rightarrow> True
       | Some r \<Rightarrow> job_base_ref (run_job r) = job_base_ref j \<or> run_cancel r \<or> \<not> run_receiver r))"

lemma retarget_no_stale: "no_stale_base j (snd (snd (snd (retarget live fresh p j q))))"
proof -
  have "pending (snd (review_admission live fresh k q1)) = pending q1" for k q1
    by (simp add: review_admission_def prune_admissions_def Let_def)
  then show ?thesis
    by (auto simp: snd_retarget no_stale_base_def retarget_queue_def Let_def cancel_running_def
        bt_simps send_cancel_def split: option.splits)
qed

section \<open>Webhooks\<close>

lemma repo_parse_installation: "repo_parse rfc v i = Inr r \<Longrightarrow> installation r = i"
  by (auto simp: repo_parse_def Let_def split: option.splits if_splits)

lemma removed_repos_no_job: "removed_repos rfc v i \<noteq> Inr (Ev_Job j)"
  by (cases "as_array (jidx v ''repositories_removed'')";
      cases "collect_results (map (\<lambda>r. repo_parse rfc r (Some i)) (the (as_array (jidx v ''repositories_removed''))))")
    (auto simp: removed_repos_def)

lemma webhook_job:
  assumes "map_with_preferences rfc uid ev v app p = Inr (Ev_Job j)"
  shows "permitted p j \<and> repo_source (job_repo j) = Installed \<and> \<not> forced (job_kind j) \<and>
    job_kind j \<noteq> Remove \<and> (is_review j \<longrightarrow> job_trigger j = ''auto'')"
proof -
  obtain inst r where r: "repo_parse rfc (jidx v ''repository'') (Some inst) = Inr r"
    and e: "repo_event uid ev v app p r = Inr (Ev_Job j)"
    using assms
    by (auto simp: map_with_preferences_def removed_repos_no_job Let_def split: option.splits if_splits sum.splits)
  have src: "repo_source r = Installed"
    using repo_parse_installation[OF r] by (simp add: repo_source_def)
  have trig: "pref_trigger p (full_name r) \<noteq> Trigger_Off"
    and cases: "pull_request_event uid v p r = Inr (Ev_Job j) \<or> push_event uid v p r = Inr (Ev_Job j) \<or>
      check_run_event v app r = Inr (Ev_Job j)"
    using e by (auto simp: repo_event_def retarget_event_def Let_def split: option.splits if_splits)
  from cases show ?thesis
  proof (elim disjE)
    assume "pull_request_event uid v p r = Inr (Ev_Job j)"
    then show ?thesis using src trig
      by (auto simp: pull_request_event_def Let_def permitted_def is_review_def forced_def new_job_def
          split: option.splits if_splits)
  next
    assume "push_event uid v p r = Inr (Ev_Job j)"
    then show ?thesis using src trig
      by (auto simp: push_event_def permitted_def is_review_def forced_def split: if_splits)
  next
    assume "check_run_event v app r = Inr (Ev_Job j)"
    then show ?thesis by (auto simp: check_run_event_def Let_def split: option.splits if_splits)
  qed
qed

section \<open>Properties\<close>

text \<open>A small server: one installed repository, one external one, nothing special about the rest.\<close>

definition demo_repo :: "nat option \<Rightarrow> nat \<Rightarrow> repo" where
  "demo_repo inst i = \<lparr>repo_id = i, installation = inst, full_name = ''o/r'', default_branch = ''main'',
     pushed_at = []\<rparr>"

definition demo_job :: "string \<Rightarrow> nat option \<Rightarrow> nat \<Rightarrow> job" where
  "demo_job uid inst n = new_job uid (demo_repo inst 1) (Review n JNull True) ''manual''"

definition demo_env :: enqueue_env where
  "demo_env = \<lparr>en_prefs = preferences_default, en_installed_ok = True, en_owner_ok = True,
     en_stopping = False, en_pull_current = True, en_reviewed = False, en_unconfigured = False,
     en_no_config = False, en_saved = True\<rparr>"

definition demo_world :: world where
  "demo_world =
     do_op (Op_Take 1) (do_op (Op_Enqueue demo_env (demo_job ''b'' None 7) None False)
       (do_op (Op_Enqueue demo_env (demo_job ''a'' (Some 3) 7) None False) world_init))"

lemma demo_reachable: "reachable 1 demo_world"
  unfolding demo_world_def by (intro reachable.intros) simp_all

lemmas queue_eval = queue_default_def enqueue_checked_def enqueue_gate_def
  enqueue_refused_def enqueue_accept_def enqueue_def put_pending_def take_with_external_limit_def
  startable_def busy_slots_def slot_def external_running_def bt_keys_def bt_remove_def Let_def
  pref_trigger_def job_key_def repo_source_def demo_job_def demo_repo_def new_job_def demo_env_def
  preferences_default_def auto_triggers_def less_source_def

lemma demo_queue:
  "w_queue demo_world =
     \<lparr>pending = [((1, 7, External), demo_job ''b'' None 7)],
      running = [((1, 7, Installed),
        \<lparr>run_job = demo_job ''a'' (Some 3) 7, run_cancel = False, run_receiver = True\<rparr>)],
      admissions = [], observation_sequence = 0, observations = []\<rparr>"
  by (simp add: demo_world_def world_init_def queue_eval)

lemma demo_held: "w_held demo_world = []" "w_next demo_world = 0"
  by (simp_all add: demo_world_def world_init_def queue_eval)



text \<open>In every reachable queue the maps are ordered and every job is filed, pending or running,
  under the key that the job itself computes.\<close>

theorem queue_entries_well_keyed:
  assumes "reachable L w"
  shows "well_keyed (w_queue w)"
  using assms by (rule reachable_well_keyed)

theorem queue_entries_well_keyed_witness:
  "well_keyed (w_queue demo_world) \<and> bt_keys (pending (w_queue demo_world)) = [(1, 7, External)]"
  using queue_entries_well_keyed[OF demo_reachable] by (simp add: demo_queue bt_keys_def)

text \<open>C22: Once a pull request is closed, no admission that was handed out before, for the pull request
  itself or for a listing of its repository, ever admits a job for it again.\<close>

theorem close_voids_admissions:
  assumes "reachable L w" and "a \<in> set (w_held w)" and "adm_key a = k \<or> adm_key a = listing_key k"
    and "later (do_op (Op_Close k) w) v"
  shows "\<not> admits k a (w_queue v)"
  using assms by (rule close_voids_for_ever)

definition demo_admission :: review_admission where
  "demo_admission = \<lparr>adm_key = (1, 0, Installed), adm_token = 0, adm_observed_at = 0\<rparr>"

theorem close_voids_admissions_witness:
  "demo_admission \<in> set (w_held (do_op (Op_Admit (1, 0, Installed)) demo_world)) \<and>
   admits (1, 7, Installed) demo_admission (w_queue (do_op (Op_Admit (1, 0, Installed)) demo_world)) \<and>
   \<not> admits (1, 7, Installed) demo_admission
     (w_queue (do_op (Op_Close (1, 7, Installed)) (do_op (Op_Admit (1, 0, Installed)) demo_world)))"
proof -
  let ?w = "do_op (Op_Admit (1, 0, Installed)) demo_world"
  note eval = demo_queue demo_held demo_admission_def review_admission_def prune_admissions_def
    bt_retain_def hold_def admits_def listing_key_def Let_def
  have held: "demo_admission \<in> set (w_held ?w)" by (simp add: eval)
  moreover have "admits (1, 7, Installed) demo_admission (w_queue ?w)" by (simp add: eval)
  moreover have "reachable 1 ?w" by (intro reach_step demo_reachable) simp
  then have "\<not> admits (1, 7, Installed) demo_admission (w_queue (do_op (Op_Close (1, 7, Installed)) ?w))"
    using held by (rule close_voids_admissions) (simp_all add: demo_admission_def listing_key_def later_refl)
  ultimately show ?thesis by blast
qed

text \<open>C30: When the dispatcher stops starting jobs, it has used all its permits, or every job that
  still waits has a reason: its own repository runs a job, or the external limit is used up.  As many
  rounds as jobs wait are enough, and each started job runs with a fresh cancellation channel.\<close>

theorem dispatcher_leaves_no_idle_job:
  assumes "reachable L w" and "length (pending (w_queue w)) \<le> n"
    and "dispatch_loop (replicate n l) permits (w_queue w) = (js, left, q)"
  shows "(left = 0 \<or> list_all (waits l q) (bt_keys (pending q))) \<and> left + length js = permits \<and>
    list_all (\<lambda>j. map_of (running q) (job_key j) =
      Some \<lparr>run_job = j, run_cancel = False, run_receiver = True\<rparr>) js"
  using dispatch_progress[OF assms(2,3)] dispatch_permits[OF assms(3)]
    dispatch_started[OF assms(3) reachable_well_keyed[OF assms(1)]]
  by (simp add: list_all_iff)

theorem dispatcher_leaves_no_idle_job_witness:
  "(let (js, p, q) = dispatch_loop (replicate 1 1) 2 (w_queue demo_world) in
     list_all (waits 1 q) (bt_keys (pending q)) \<and> js = [demo_job ''b'' None 7])"
proof -
  obtain js p q where d: "dispatch_loop (replicate 1 1) 2 (w_queue demo_world) = (js, p, q)"
    by (metis prod_cases3)
  then have eqs: "js = [demo_job ''b'' None 7]" "p = 1"
    by (auto simp: demo_queue take_with_external_limit_def bt_keys_def startable_def busy_slots_def
        slot_def external_running_def)
  have "length (pending (w_queue demo_world)) \<le> 1" by (simp add: demo_queue)
  from dispatcher_leaves_no_idle_job[OF demo_reachable this d] show ?thesis
    using d eqs by simp
qed

text \<open>An enqueued job is never lost: afterwards it waits under its key, or the running job of that
  key, not told to stop, reviews the same head against the same base and the job was no explicit
  request.\<close>

theorem enqueue_never_loses:
  assumes "reachable L w"
  shows "covered j (enqueue j (w_queue w))"
  using reachable_well_keyed[OF assms] by (rule enqueue_covered)

theorem enqueue_never_loses_witness:
  "covered (demo_job ''c'' (Some 3) 7) (enqueue (demo_job ''c'' (Some 3) 7) (w_queue demo_world))"
  using demo_reachable by (rule enqueue_never_loses)

text \<open>A job that a webhook asks for is permitted by the operator's preferences, belongs to an
  installed repository, is never forced and never a removal, and a review is marked as automatic.\<close>

theorem webhook_jobs_permitted:
  assumes "map_with_preferences rfc uid ev v app p = Inr (Ev_Job j)"
  shows "permitted p j \<and> repo_source (job_repo j) = Installed \<and> \<not> forced (job_kind j) \<and>
    job_kind j \<noteq> Remove \<and> (is_review j \<longrightarrow> job_trigger j = ''auto'')"
  using assms by (rule webhook_job)

definition demo_push :: json where
  "demo_push = JObj [(''installation'', JObj [(''id'', JNat 3)]), (''ref'', JStr ''refs/heads/main''),
     (''repository'', JObj [(''full_name'', JStr ''o/r''), (''id'', JNat 1)])]"

definition demo_push_job :: job where
  "demo_push_job = \<lparr>job_id = ''u'', job_trigger = ''webhook'', job_mode = Mode_Standard,
     job_repo = demo_repo (Some 3) 1, job_kind = Index\<rparr>"

theorem webhook_jobs_permitted_witness:
  "permitted (preferences_default\<lparr>index_on_push := True\<rparr>) demo_push_job"
proof -
  have "map_with_preferences (\<lambda>_. None) ''u'' ''push'' demo_push 9
      (preferences_default\<lparr>index_on_push := True\<rparr>) = Inr (Ev_Job demo_push_job)"
    by (simp add: map_with_preferences_def demo_push_def json_defs Let_def repo_parse_def bad_name_part_def
        repo_name_byte_def is_ascii_alphanumeric_def repo_event_def pref_trigger_def preferences_default_def
        push_event_def demo_push_job_def demo_repo_def parse_pushed_at_def)
  then show ?thesis using webhook_jobs_permitted by blast
qed

text \<open>A job that starts to wait in the queue was permitted by the preferences read for it, and the
  server was not stopping.\<close>

theorem admitted_jobs_permitted:
  assumes "reachable L w" and "map_of (pending (snd (enqueue_checked e j a r (w_queue w)))) k = Some x"
    and "map_of (pending (w_queue w)) k \<noteq> Some x"
  shows "permitted (en_prefs e) x \<and> job_id x = job_id j \<and> \<not> en_stopping e"
  using reachable_well_keyed[OF assms(1)] assms(2,3) by (rule enqueue_checked_pending)

theorem admitted_jobs_permitted_witness:
  "permitted preferences_default (demo_job ''c'' (Some 3) 8)"
proof -
  have "map_of (pending (snd (enqueue_checked demo_env (demo_job ''c'' (Some 3) 8) None False
      (w_queue demo_world)))) (1, 8, Installed) = Some (demo_job ''c'' (Some 3) 8)"
    by (simp add: demo_queue queue_eval)
  moreover have "map_of (pending (w_queue demo_world)) (1, 8, Installed) \<noteq> Some (demo_job ''c'' (Some 3) 8)"
    by (simp add: demo_queue)
  ultimately show ?thesis
    using admitted_jobs_permitted[OF demo_reachable, of demo_env "demo_job ''c'' (Some 3) 8" None False]
    by (simp add: demo_env_def)
qed

text \<open>When the base branch of a pull request changes, afterwards no job for another base waits for
  it, and a running job for another base was told to stop or has already ended.\<close>

theorem retarget_leaves_no_stale_base:
  "no_stale_base j (snd (snd (snd (retarget live fresh prefs j q))))"
  by (rule retarget_no_stale)

end
