(* ===== verification/Mentions.thy ===== *)
theory Mentions
  imports Queue Text_Util
begin

text \<open>
  Commands in pull-request comments (\<open>src/src/server/mentions.rs\<close>): the persisted window of claimed
  comments, the reader of commands that skips quotations and Markdown code, and the check of a
  comment event.  \<open>alnum\<close> is \<open>char::is_alphanumeric\<close>, a table of the Unicode database.
\<close>

section \<open>Claimed comments\<close>

definition RECENT_LIMIT :: nat where "RECENT_LIMIT = 4096"

type_synonym recent = "(nat \<times> nat) list"

definition recent_load :: "recent \<Rightarrow> recent" where
  "recent_load r = drop (length r - RECENT_LIMIT) r"

text \<open>\<open>written\<close> tells whether the new window reached the disk; on an error nothing is claimed.\<close>

definition claim :: "bool \<Rightarrow> nat \<Rightarrow> nat \<Rightarrow> recent \<Rightarrow> (string + bool) \<times> recent" where
  "claim written repo comment r =
     (let k = (repo, comment) in
      if k \<in> set r then (Inr False, r)
      else (let next = (if length r = RECENT_LIMIT then tl r else r) @ [k] in
            if written then (Inr True, next) else (Inl ''write failed'', r)))"

section \<open>Reading a command\<close>

abbreviation tick :: char where "tick \<equiv> CHR 0x60"

definition identifier_char :: "(string \<Rightarrow> bool) \<Rightarrow> string \<Rightarrow> bool" where
  "identifier_char alnum c = (alnum c \<or> c \<in> {''_'', ''-'', ''@''})"

text \<open>A code span opens with a run of backticks and closes with a run of the same length; \<open>inline\<close> is
  the length of the open run, 0 outside.  Each run leaves a blank.\<close>

function strip_code :: "nat \<Rightarrow> string list \<Rightarrow> nat \<times> string" where
  "strip_code inline [] = (inline, [])"
| "strip_code inline (c # cs) =
     (if c = [tick]
      then (let ticks = Suc (length (takeWhile (\<lambda>d. d = [tick]) cs));
                rest = dropWhile (\<lambda>d. d = [tick]) cs;
                inline' = (if inline = 0 then ticks else if inline = ticks then 0 else inline) in
            (case strip_code inline' rest of (i, s) \<Rightarrow> (i, CHR '' '' # s)))
      else (case strip_code inline cs of (i, s) \<Rightarrow> (i, if inline = 0 then c @ s else s)))"
  by pat_completeness auto
termination
  by (relation "measure (\<lambda>(i, cs). length cs)") (auto simp: length_dropWhile_le le_imp_less_Suc)

text \<open>The text after the first mention that is not part of a longer identifier; \<open>before\<close> is the text
  already passed.  The mention starts with an at sign, so it is not empty.\<close>

definition last_char :: "string \<Rightarrow> string option" where
  "last_char s = (if chars s = [] then None else Some (last (chars s)))"

definition first_char :: "string \<Rightarrow> string option" where
  "first_char s = (case chars s of [] \<Rightarrow> None | c # _ \<Rightarrow> Some c)"

definition is_identifier :: "(string \<Rightarrow> bool) \<Rightarrow> string option \<Rightarrow> bool" where
  "is_identifier alnum c = (case c of None \<Rightarrow> False | Some d \<Rightarrow> identifier_char alnum d)"

function after_mention :: "(string \<Rightarrow> bool) \<Rightarrow> string \<Rightarrow> string \<Rightarrow> string \<Rightarrow> string option" where
  "after_mention alnum m before s =
     (case find_str s m of
        None \<Rightarrow> None
      | Some i \<Rightarrow>
          if m = [] then None
          else (let pre = before @ take i s; rest = drop (i + length m) s in
                if is_identifier alnum (last_char pre) \<or> is_identifier alnum (first_char rest)
                then after_mention alnum m (pre @ m) rest
                else Some rest))"
  by pat_completeness auto
termination
proof (relation "measure (\<lambda>(a, m, b, s). length s)", goal_cases)
  case (2 alnum m before s i pre rest)
  have "starts_with (drop i s) m" using find_str_Some[OF 2(1)] by simp
  then obtain t where "drop i s = m @ t" by (auto simp: starts_with_iff)
  then have "length (drop i s) = length m + length t" by simp
  then have "length m \<le> length (drop i s)" by linarith
  with 2(2) have "length (drop (i + length m) s) < length s" by (cases s) auto
  then show ?case using 2 by simp
qed simp

declare after_mention.simps [simp del]

definition trim_word :: "(string \<Rightarrow> bool) \<Rightarrow> string \<Rightarrow> string" where
  "trim_word alnum w =
     concat (rev (dropWhile (\<lambda>c. \<not> alnum c) (rev (dropWhile (\<lambda>c. \<not> alnum c) (chars w)))))"

definition word_mode :: "string option \<Rightarrow> mode option" where
  "word_mode w =
     (if w = Some ''quick'' then Some Mode_Quick
      else if w = Some ''deep'' then Some Mode_Deep
      else if w = Some ''standard'' then Some Mode_Standard
      else None)"

definition nth_word :: "nat \<Rightarrow> string list \<Rightarrow> string option" where
  "nth_word i ws = (if i < length ws then Some (ws ! i) else None)"

definition finding_ref :: "string \<Rightarrow> bool" where
  "finding_ref w = (6 \<le> length w \<and> length w \<le> 12 \<and> list_all is_ascii_hexdigit w)"

definition fix_words :: "string list \<Rightarrow> command" where
  "fix_words ws =
     (let w = nth_word 1 ws in
      if (w = None \<or> w = Some ''all'') \<and> length ws \<le> 2 then Cmd_Fix (Fix_Request None)
      else if w = Some ''status'' \<and> length ws = 2 then Cmd_Fix Fix_Status
      else if w = Some ''cancel'' \<and> length ws = 2 then Cmd_Fix Fix_Cancel
      else if list_all finding_ref (tl ws) then Cmd_Fix (Fix_Request (Some (tl ws)))
      else Cmd_Help)"

definition words_command :: "string list \<Rightarrow> command" where
  "words_command ws =
     (let w = nth_word 0 ws in
      if w = Some ''review'' then Cmd_Review (word_mode (nth_word 1 ws))
      else if w = Some ''quick'' then Cmd_Review (Some Mode_Quick)
      else if w = Some ''deep'' then Cmd_Review (Some Mode_Deep)
      else if w = Some ''fix'' then fix_words ws
      else Cmd_Help)"

definition line_command :: "(string \<Rightarrow> bool) \<Rightarrow> string \<Rightarrow> string \<Rightarrow> command option" where
  "line_command alnum mention plain =
     map_option (\<lambda>rest. words_command (map (trim_word alnum) (take 102 (split_whitespace rest))))
       (after_mention alnum mention [] (to_ascii_lowercase plain))"

definition is_quote :: "string \<Rightarrow> bool" where
  "is_quote line = starts_with (trim_start line) ''>''"

definition marker_of :: "string \<Rightarrow> string" where
  "marker_of t = (case chars t of [] \<Rightarrow> '' '' | c # _ \<Rightarrow> c)"

definition marker_count :: "string \<Rightarrow> nat" where
  "marker_count t = length (takeWhile (\<lambda>c. c = marker_of t) (chars t))"

definition indented :: "string \<Rightarrow> bool" where
  "indented line = (starts_with line [CHR 0x09] \<or> 4 \<le> length line - length (trim_start line))"

definition opens_fence :: "string \<Rightarrow> bool" where
  "opens_fence t = (marker_of t \<in> {[tick], ''~''} \<and> 3 \<le> marker_count t)"

definition closes_fence :: "string \<times> nat \<Rightarrow> string \<Rightarrow> bool" where
  "closes_fence f t =
     (marker_of t = fst f \<and> snd f \<le> marker_count t \<and> trim (drop (marker_count t) t) = [])"

fun command_lines ::
  "(string \<Rightarrow> bool) \<Rightarrow> string \<Rightarrow> (string \<times> nat) option \<Rightarrow> nat \<Rightarrow> string list \<Rightarrow> command option" where
  "command_lines alnum m fence inline [] = None"
| "command_lines alnum m fence inline (line # ls) =
     (let t = trim_start line in
      if is_quote line then command_lines alnum m fence inline ls
      else (case fence of
              Some f \<Rightarrow> command_lines alnum m (if closes_fence f t then None else Some f) inline ls
            | None \<Rightarrow>
                if indented line then command_lines alnum m None inline ls
                else if opens_fence t
                then command_lines alnum m (Some (marker_of t, marker_count t)) inline ls
                else (case strip_code inline (chars t) of
                        (inline', plain) \<Rightarrow>
                          (case line_command alnum m plain of
                             Some c \<Rightarrow> Some c
                           | None \<Rightarrow> command_lines alnum m None inline' ls))))"

definition mention_of :: "string \<Rightarrow> string" where
  "mention_of slug = CHR ''@'' # to_ascii_lowercase slug"

definition command :: "(string \<Rightarrow> bool) \<Rightarrow> string \<Rightarrow> string \<Rightarrow> command option" where
  "command alnum body slug = command_lines alnum (mention_of slug) None 0 (lines body)"

section \<open>A comment event\<close>

definition is_fix :: "command \<Rightarrow> bool" where
  "is_fix c = (case c of Cmd_Fix _ \<Rightarrow> True | _ \<Rightarrow> False)"

definition ignored_author :: "json \<Rightarrow> bool" where
  "ignored_author v =
     (let comment = jidx v ''comment''; login = str_or [] (jidx (jidx comment ''user'') ''login'') in
      jidx v ''action'' \<noteq> JStr ''created'' \<or>
      \<not> is_object (jidx (jidx v ''issue'') ''pull_request'') \<or>
      login = [] \<or>
      (case as_str (jidx (jidx comment ''user'') ''type'') of
         None \<Rightarrow> False | Some t \<Rightarrow> eq_ignore_ascii_case t ''bot'') \<or>
      ends_with (to_ascii_lowercase login) ''[bot]'')"

definition trusted_associations :: "string option set" where
  "trusted_associations = {Some ''OWNER'', Some ''MEMBER'', Some ''COLLABORATOR''}"

definition request_of ::
  "(string \<Rightarrow> int option) \<Rightarrow> preferences \<Rightarrow> json \<Rightarrow> command \<Rightarrow> string + request option" where
  "request_of rfc3339 prefs v c =
     (let comment = jidx v ''comment'' in
      case as_u64 (jidx (jidx v ''installation'') ''id'') of
        None \<Rightarrow> Inl ''missing installation''
      | Some inst \<Rightarrow>
          (case repo_parse rfc3339 (jidx v ''repository'') (Some inst) of
             Inl e \<Rightarrow> Inl e
           | Inr r \<Rightarrow>
               if pref_trigger prefs (full_name r) = Trigger_Off \<and> \<not> is_fix c then Inr None
               else (case as_u64 (jidx (jidx v ''issue'') ''number'') of
                       None \<Rightarrow> Inl ''missing PR number''
                     | Some n \<Rightarrow>
                         if n = 0 then Inl ''missing PR number''
                         else (case as_u64 (jidx comment ''id'') of
                                 None \<Rightarrow> Inl ''missing comment ID''
                               | Some i \<Rightarrow>
                                   Inr (Some \<lparr>rq_repo = r, rq_number = n, rq_comment = i,
                                     rq_command = c,
                                     rq_actor = str_or [] (jidx (jidx comment ''user'') ''login'')\<rparr>)))))"

definition mention_event ::
  "(string \<Rightarrow> int option) \<Rightarrow> (string \<Rightarrow> bool) \<Rightarrow> json \<Rightarrow> string \<Rightarrow> preferences \<Rightarrow> string + request option" where
  "mention_event rfc3339 alnum v slug prefs =
     (if ignored_author v then Inr None
      else (case command alnum (str_or [] (jidx (jidx v ''comment'') ''body'')) slug of
              None \<Rightarrow> Inr None
            | Some c \<Rightarrow>
                if \<not> is_fix c \<and>
                   as_str (jidx (jidx v ''comment'') ''author_association'') \<notin> trusted_associations
                then Inr None
                else request_of rfc3339 prefs v c))"

section \<open>What a request does to the server (\<open>handle\<close>)\<close>

text \<open>The guards before the network is used: the trigger, the owner, the claim; then the admission is
  taken.  \<open>Inr None\<close> is a silent return.\<close>

definition handle_claim ::
  "bool \<Rightarrow> bool \<Rightarrow> preferences \<Rightarrow> request \<Rightarrow> recent \<Rightarrow> (string + mode option) \<times> recent" where
  "handle_claim owner_ok written prefs rq r =
     (if pref_trigger prefs (full_name (rq_repo rq)) = Trigger_Off then (Inr None, r)
      else if \<not> owner_ok then (Inr None, r)
      else (case claim written (repo_id (rq_repo rq)) (rq_comment rq) r of
              (Inl e, r') \<Rightarrow> (Inl e, r')
            | (Inr False, r') \<Rightarrow> (Inr None, r')
            | (Inr True, r') \<Rightarrow> (Inr (Some (pref_mode prefs (full_name (rq_repo rq)))), r')))"

text \<open>The job of a review request, from the pull request as GitHub answered it.\<close>

definition mention_job :: "string \<Rightarrow> request \<Rightarrow> mode option \<Rightarrow> mode \<Rightarrow> json \<Rightarrow> job option" where
  "mention_job uid rq override std pr =
     (if jidx pr ''state'' = JStr ''closed'' then None
      else Some ((new_job uid (rq_repo rq) (Review (rq_number rq) pr True) ''mention'')
             \<lparr>job_mode := (case override of Some m \<Rightarrow> m | None \<Rightarrow> std)\<rparr>))"

section \<open>Claims over time\<close>

definition recent_ok :: "recent \<Rightarrow> bool" where
  "recent_ok r = (distinct r \<and> length r \<le> RECENT_LIMIT)"

lemma recent_load_length: "length (recent_load r) \<le> RECENT_LIMIT"
  by (simp add: recent_load_def)

lemma claim_ok: "recent_ok r \<Longrightarrow> recent_ok (snd (claim w repo c r))"
proof -
  assume r: "recent_ok r"
  show ?thesis
  proof (cases "(repo, c) \<in> set r \<or> \<not> w")
    case False
    have "distinct (tl r)" "set (tl r) \<subseteq> set r"
      using r by (cases r; auto simp: recent_ok_def)+
    then show ?thesis using False r by (auto simp: claim_def recent_ok_def Let_def RECENT_LIMIT_def)
  qed (use r in \<open>auto simp: claim_def Let_def\<close>)
qed

fun claims :: "(bool \<times> nat \<times> nat) list \<Rightarrow> recent \<Rightarrow> recent" where
  "claims [] r = r"
| "claims ((w, repo, c) # cs) r = claims cs (snd (claim w repo c r))"

text \<open>After a claim, the comment's distance from the end of the window is the number of claims that
  were granted since.\<close>

definition within_window :: "nat \<times> nat \<Rightarrow> nat \<Rightarrow> recent \<Rightarrow> bool" where
  "within_window k n r = (k \<in> set (drop (length r - Suc n) r))"

lemma within_window_in: "within_window k n r \<Longrightarrow> k \<in> set r"
  by (auto simp: within_window_def dest: in_set_dropD)

lemma within_window_mono: "within_window k n r \<Longrightarrow> n \<le> m \<Longrightarrow> within_window k m r"
  using set_drop_subset_set_drop[of "length r - Suc m" "length r - Suc n" r] diff_le_mono2[of "Suc n" "Suc m" "length r"]
  unfolding within_window_def by blast

lemma within_window_push:
  assumes "within_window k n r" and "length r \<le> RECENT_LIMIT" and "Suc n < RECENT_LIMIT"
  shows "within_window k (Suc n) ((if length r = RECENT_LIMIT then tl r else r) @ [x])"
proof -
  have "drop (length r - Suc n) r = drop (length (tl r) - Suc n) (tl r)" if "length r = RECENT_LIMIT"
  proof -
    have "Suc (length (tl r) - Suc n) = length r - Suc n" using that assms(3) by simp
    then show ?thesis by (metis drop_Suc)
  qed
  then show ?thesis using assms(1) by (auto simp: within_window_def)
qed

lemma claims_keep:
  assumes "within_window k n r" and "recent_ok r" and "n + length cs < RECENT_LIMIT"
  shows "within_window k (n + length cs) (claims cs r)"
  using assms
proof (induction cs arbitrary: n r)
  case (Cons a cs)
  obtain w repo c where a: "a = (w, repo, c)" by (cases a)
  have len: "length r \<le> RECENT_LIMIT" using Cons.prems(2) by (simp add: recent_ok_def)
  have "within_window k (Suc n) (snd (claim w repo c r))"
    using within_window_push[OF Cons.prems(1) len, of "(repo, c)"] Cons.prems(3)
      within_window_mono[OF Cons.prems(1), of "Suc n"]
    by (auto simp: claim_def Let_def)
  from Cons.IH[OF this claim_ok[OF Cons.prems(2)]] Cons.prems(3) show ?case by (simp add: a)
qed simp

lemma claim_granted:
  "claim w repo c r = (Inr True, r') \<Longrightarrow> within_window (repo, c) 0 r'"
  by (auto simp: claim_def Let_def within_window_def split: if_splits)

lemma claim_again:
  assumes "claim w repo c r = (Inr True, r')" and "recent_ok r" and "length cs < RECENT_LIMIT"
  shows "claim w' repo c (claims cs r') = (Inr False, claims cs r')"
proof -
  have "recent_ok r'" using claim_ok[OF assms(2), of w repo c] assms(1) by simp
  from claims_keep[OF claim_granted[OF assms(1)] this] assms(3)
  have "within_window (repo, c) (length cs) (claims cs r')" by simp
  then show ?thesis using within_window_in by (simp add: claim_def)
qed

section \<open>Quotations and code\<close>

text \<open>A quoted line has no effect on what is read around it.\<close>

lemma command_lines_quotes:
  "command_lines alnum m fence inline ls =
   command_lines alnum m fence inline (filter (\<lambda>l. \<not> is_quote l) ls)"
proof (induction ls arbitrary: fence inline)
  case (Cons l ls)
  then show ?case by (auto simp: Let_def split: option.split prod.split)
qed simp

text \<open>Nothing inside a fenced block is read, and the reader goes on behind it as before it.\<close>

lemma command_lines_fence:
  assumes "\<not> is_quote l" and "\<not> indented l" and "opens_fence (trim_start l)"
    and "f = (marker_of (trim_start l), marker_count (trim_start l))"
    and "list_all (\<lambda>b. is_quote b \<or> \<not> closes_fence f (trim_start b)) body"
    and "\<not> is_quote e" and "closes_fence f (trim_start e)"
  shows "command_lines alnum m None inline (l # body @ e # ls) = command_lines alnum m None inline ls"
proof -
  have "command_lines alnum m (Some f) inline (body @ e # ls) = command_lines alnum m None inline ls"
    using assms(5-7) by (induction body) (auto simp: Let_def)
  then show ?thesis using assms(1-4) by (simp add: Let_def)
qed

lemma command_lines_indented:
  "indented l \<Longrightarrow> command_lines alnum m None inline (l # ls) = command_lines alnum m None inline ls"
  by (simp add: Let_def)

section \<open>Properties\<close>

text \<open>A comment whose claim was granted is refused when it is delivered again, as long as fewer than
  4096 claims were attempted since, whether or not those reached the disk.\<close>

theorem comment_claimed_once:
  assumes "claim w repo c r = (Inr True, r')" and "recent_ok r" and "length cs < RECENT_LIMIT"
  shows "claim w' repo c (claims cs r') = (Inr False, claims cs r')"
  using assms by (rule claim_again)

theorem comment_claimed_once_witness:
  "claim True 1 5 (claims [(True, 1, 6), (False, 2, 5)] [(1, 5)]) =
   (Inr False, claims [(True, 1, 6), (False, 2, 5)] [(1, 5)])"
proof -
  have "claim True 1 5 [] = (Inr True, [(1, 5)])" by (simp add: claim_def RECENT_LIMIT_def)
  then show ?thesis
    by (rule comment_claimed_once) (simp_all add: recent_ok_def RECENT_LIMIT_def)
qed

text \<open>Quoted lines are inert: the command of a comment is the command of the comment without them,
  wherever they stand, also inside fenced blocks and between the halves of a code span.\<close>

theorem quotes_carry_no_command:
  "command alnum body slug =
   command_lines alnum (mention_of slug) None 0 (filter (\<lambda>l. \<not> is_quote l) (lines body))"
  unfolding command_def by (rule command_lines_quotes)

text \<open>A fenced code block carries no command: its lines are skipped up to the line that closes it,
  and the lines behind it are read as if the block were not there.\<close>

theorem fenced_block_skipped:
  assumes "\<not> is_quote l" and "\<not> indented l" and "opens_fence (trim_start l)"
    and "f = (marker_of (trim_start l), marker_count (trim_start l))"
    and "list_all (\<lambda>b. is_quote b \<or> \<not> closes_fence f (trim_start b)) body"
    and "\<not> is_quote e" and "closes_fence f (trim_start e)"
  shows "command_lines alnum m None inline (l # body @ e # ls) = command_lines alnum m None inline ls"
  using assms by (rule command_lines_fence)

lemma trim_start_shown: "ascii_graphic c \<Longrightarrow> trim_start (c # s) = c # s"
  by (subst trim_start.simps) (simp add: ws_head_graphic)

theorem fenced_block_skipped_witness:
  "command_lines alnum ''@revera'' None 0 [''~~~'', ''@revera review'', ''~~~''] = None"
proof -
  have t: "trim_start ''~~~'' = ''~~~''" "trim_start ''@revera review'' = ''@revera review''"
    by (simp_all add: trim_start_shown ascii_graphic_def)
  have tilde: "char_len (CHR ''~'') = 1" "char_len (CHR ''@'') = 1" by (simp_all add: char_len_def)
  have chars: "chars ''~~~'' = [''~'', ''~'', ''~'']"
    "marker_of ''~~~'' = ''~''" "marker_of ''@revera review'' = ''@''"
    by (simp_all add: marker_of_def tilde)
  have count: "marker_count ''~~~'' = 3" by (simp add: marker_count_def chars tilde)
  have "trim [] = []" by (simp add: trim_def trim_start.simps trim_end.simps)
  then have "command_lines alnum ''@revera'' None 0 (''~~~'' # [''@revera review''] @ ''~~~'' # []) =
      command_lines alnum ''@revera'' None 0 []"
    by (intro fenced_block_skipped[where f = "(''~'', 3)"])
      (simp_all add: t chars tilde count is_quote_def indented_def opens_fence_def closes_fence_def starts_with_def)
  then show ?thesis by simp
qed

end
