(* ===== verification/Submissions.thy ===== *)
theory Submissions
  imports Json Report
begin

text \<open>
  What agents submit (\<open>src/src/findings.rs\<close>, \<open>src/src/pipeline/common.rs\<close>): the derived decoders of
  findings and verdicts, the repair of field names a model gets wrong, the derived title of a finding
  without one, and the parsing of a whole submission, which keeps the valid items and says what is
  wrong with the others.

  Parameter: \<open>why\<close> is the message of the error with which \<open>serde_json::from_value\<close> refuses a value.
\<close>

section \<open>Decoders\<close>

definition severity_named :: "string \<Rightarrow> severity option" where
  "severity_named s =
     (if s = ''low'' then Some Low else if s = ''medium'' then Some Medium
      else if s = ''high'' then Some High else None)"

definition de_severity :: "json \<Rightarrow> severity option" where
  "de_severity = de_variant severity_named"

definition status_named :: "string \<Rightarrow> validation_status option" where
  "status_named s =
     (if s = ''accepted'' then Some Accepted else if s = ''rejected'' then Some Rejected
      else if s = ''uncertain'' then Some Uncertain else None)"

definition de_status :: "json \<Rightarrow> validation_status option" where
  "de_status = de_variant status_named"

definition de_evidence :: "json \<Rightarrow> evidence option" where
  "de_evidence v =
     (if \<not> struct_shape 4 v then None
      else (case (required as_str 0 ''path'' v, defaulted 0 de_u32 1 ''start_line'' v,
                  defaulted 0 de_u32 2 ''end_line'' v, defaulted [] as_str 3 ''note'' v) of
              (Some p, Some a, Some b, Some n) \<Rightarrow>
                Some \<lparr>ev_path = p, ev_start_line = a, ev_end_line = b, ev_note = n\<rparr>
            | _ \<Rightarrow> None))"

definition de_suggestion :: "json \<Rightarrow> suggestion option" where
  "de_suggestion v =
     (if \<not> struct_shape 4 v then None
      else (case (required de_u32 0 ''start_line'' v, required de_u32 1 ''end_line'' v,
                  required as_str 2 ''original'' v, required as_str 3 ''replacement'' v) of
              (Some a, Some b, Some x, Some y) \<Rightarrow>
                Some \<lparr>sg_start_line = a, sg_end_line = b, sg_original = x, sg_replacement = y\<rparr>
            | _ \<Rightarrow> None))"

text \<open>The lenient decoders never fail: what they cannot read counts as absent.\<close>

definition lenient_fix :: "json \<Rightarrow> string option" where
  "lenient_fix v = (case as_str v of None \<Rightarrow> None | Some s \<Rightarrow> if trim s = [] then None else Some s)"

definition lenient_suggestion :: "json \<Rightarrow> suggestion option" where
  "lenient_suggestion v = de_suggestion v"

definition strings :: "json \<Rightarrow> string list option" where
  "strings = de_vec as_str"

definition de_finding :: "json \<Rightarrow> finding option" where
  "de_finding v =
     (if \<not> struct_shape 21 v then None
      else (case (required as_str 0 ''defect_key'' v, defaulted [] as_str 1 ''category'' v,
                  defaulted None (de_option as_str) 2 ''duplicate_of'' v,
                  required de_severity 3 ''severity'' v, required as_str 4 ''file'' v,
                  required de_u32 5 ''start_line'' v,
                  defaulted None (de_option de_u32) 6 ''end_line'' v) of
        (Some dk, Some cat, Some dup, Some sev, Some fl, Some a, Some b) \<Rightarrow>
      (case (required as_str 7 ''title'' v, required as_str 8 ''claim'' v,
             defaulted [] as_str 9 ''trigger'' v, defaulted [] as_str 10 ''impact'' v,
             defaulted False as_bool 11 ''introduced_by_change'' v,
             defaulted [] (de_vec de_evidence) 12 ''supporting_evidence'' v,
             defaulted [] strings 13 ''counterevidence_checked'' v) of
        (Some ti, Some cl, Some tr, Some im, Some ic, Some ev, Some ce) \<Rightarrow>
      (case (defaulted None (de_option de_status) 14 ''validation_status'' v,
             defaulted None (de_option as_str) 15 ''suggested_fix'' v,
             defaulted None (\<lambda>w. Some (lenient_fix w)) 16 ''validated_fix'' v,
             defaulted None (\<lambda>w. Some (lenient_suggestion w)) 17 ''suggestion'' v,
             defaulted [] as_str 18 ''source'' v,
             defaulted None (de_option as_str) 19 ''rationale'' v,
             defaulted [] strings 20 ''sources'' v) of
        (Some vs, Some sf, Some vf, Some sg, Some so, Some ra, Some ss) \<Rightarrow>
          Some \<lparr>f_defect_key = dk, f_category = cat, f_duplicate_of = dup, f_severity = sev,
            f_file = fl, f_start_line = a, f_end_line = b, f_title = ti, f_claim = cl,
            f_trigger = tr, f_impact = im, f_introduced_by_change = ic,
            f_supporting_evidence = ev, f_counterevidence_checked = ce,
            f_validation_status = vs, f_suggested_fix = sf, f_validated_fix = vf,
            f_suggestion = sg, f_source = so, f_rationale = ra, f_sources = ss\<rparr>
      | _ \<Rightarrow> None) | _ \<Rightarrow> None) | _ \<Rightarrow> None))"

section \<open>Titles\<close>

definition TITLE_MAX :: nat where "TITLE_MAX = 90"

definition trim_end_of :: "char set \<Rightarrow> string \<Rightarrow> string" where
  "trim_end_of C s = rev (dropWhile (\<lambda>c. c \<in> C) (rev s))"

definition short_title :: "string \<Rightarrow> string" where
  "short_title s0 =
     (let s = join '' '' (split_whitespace s0) in
      if length s \<le> TITLE_MAX then s
      else (let cut = excerpt_bytes s (TITLE_MAX - 3);
                cut' = (case rfind_char (CHR '' '') cut of
                          Some i \<Rightarrow> if TITLE_MAX div 2 \<le> i then take i cut else cut
                        | None \<Rightarrow> cut)
            in trim_end_of {CHR '','', CHR '';'', CHR '':''} cut' @ ''...''))"

text \<open>The closure \<open>text\<close>: the trimmed string under a key, when it is not empty.\<close>

definition text_of :: "(string \<times> json) list \<Rightarrow> string \<Rightarrow> string option" where
  "text_of kvs key =
     (case map_of kvs key of
        Some v \<Rightarrow> (case as_str v of
                     Some s \<Rightarrow> if trim s = [] then None else Some (trim s)
                   | None \<Rightarrow> None)
      | None \<Rightarrow> None)"

definition first_text :: "(string \<times> json) list \<Rightarrow> string list \<Rightarrow> string option" where
  "first_text kvs keys = (case List.map_filter (text_of kvs) keys of [] \<Rightarrow> None | t # _ \<Rightarrow> Some t)"

definition first_sentence :: "string \<Rightarrow> string" where
  "first_sentence claim =
     trim_end_of {CHR ''.''} (trim (case find_str claim ''. '' of None \<Rightarrow> claim | Some i \<Rightarrow> take (i + 2) claim))"

definition fallback_title :: "(string \<times> json) list \<Rightarrow> string option" where
  "fallback_title kvs =
     (let by_key = map_option (\<lambda>k. short_title (replace_chars {CHR ''_''} '' '' k)) (text_of kvs ''defect_key'') in
      case first_text kvs [''summary'', ''headline'', ''name''] of
        Some t \<Rightarrow> Some (short_title t)
      | None \<Rightarrow>
          (case text_of kvs ''claim'' of
             None \<Rightarrow> by_key
           | Some claim \<Rightarrow>
               (let title = short_title (first_sentence claim) in
                if title \<noteq> [] then Some title else by_key)))"

section \<open>Field names a model gets wrong\<close>

definition path_to_file :: "(string \<times> json) list \<Rightarrow> (string \<times> json) list" where
  "path_to_file o0 =
     (if ''file'' \<in> fst ` set o0 then o0
      else (let o1 = obj_remove ''path'' o0 in
            case map_of o0 ''path'' of
              None \<Rightarrow> o1
            | Some p \<Rightarrow>
                (case as_str p of
                   None \<Rightarrow> o1
                 | Some s \<Rightarrow>
                     (case (case rsplit_once (CHR '':'') s of
                              None \<Rightarrow> None
                            | Some (f, l) \<Rightarrow> map_option (\<lambda>n. (f, n)) (parse_u32 l)) of
                        Some (f, line) \<Rightarrow>
                          obj_insert ''file'' (JStr f) (obj_insert ''start_line'' (JNat (unat line)) o1)
                      | None \<Rightarrow> obj_insert ''file'' (JStr s) o1))))"

definition description_to_claim :: "(string \<times> json) list \<Rightarrow> (string \<times> json) list" where
  "description_to_claim kvs =
     (if ''claim'' \<in> fst ` set kvs then kvs
      else (case map_of kvs ''description'' of
              None \<Rightarrow> kvs
            | Some d \<Rightarrow> obj_insert ''claim'' d (obj_remove ''description'' kvs)))"

definition with_title :: "(string \<times> json) list \<Rightarrow> (string \<times> json) list" where
  "with_title kvs =
     (let has_title = (case map_of kvs ''title'' of
                         None \<Rightarrow> False
                       | Some t \<Rightarrow> (case as_str t of None \<Rightarrow> False | Some s \<Rightarrow> trim s \<noteq> [])) in
      if has_title then kvs
      else (case fallback_title kvs of
              None \<Rightarrow> kvs
            | Some t \<Rightarrow> obj_insert ''title'' (JStr t) kvs))"

definition normalize_finding_json :: "json \<Rightarrow> json" where
  "normalize_finding_json v =
     (case v of
        JObj kvs \<Rightarrow> JObj (with_title (description_to_claim (path_to_file kvs)))
      | _ \<Rightarrow> v)"

section \<open>A submission\<close>

record parsed_findings =
  pf_findings :: "finding list"
  pf_dropped :: nat
  pf_problem :: "string option"

definition parse_not_checked :: "json \<Rightarrow> string list" where
  "parse_not_checked args =
     (case as_array (jidx args ''not_checked'') of
        None \<Rightarrow> []
      | Some a \<Rightarrow>
          take 20 (filter (\<lambda>s. s \<noteq> [])
            (map (\<lambda>s. excerpt_bytes (trim s) 300) (List.map_filter as_str a))))"

definition strip_verdict :: "finding \<Rightarrow> finding" where
  "strip_verdict f =
     f\<lparr>f_validation_status := None, f_rationale := None, f_counterevidence_checked := [],
       f_validated_fix := None, f_suggestion := None, f_duplicate_of := None\<rparr>"

text \<open>The loop over the items, with the findings, the number of dropped items and the first three
  error messages.\<close>

definition parse_item ::
  "(json \<Rightarrow> string) \<Rightarrow> json \<Rightarrow> finding list \<times> nat \<times> string list \<Rightarrow> finding list \<times> nat \<times> string list"
where
  "parse_item why v st =
     (let (fs, dropped, errors) = st; w = normalize_finding_json v in
      case de_finding w of
        Some f \<Rightarrow> (fs @ [strip_verdict f], dropped, errors)
      | None \<Rightarrow> (fs, dropped + 1, if length errors < 3 then errors @ [why w] else errors))"

definition parse_findings_checked :: "(json \<Rightarrow> string) \<Rightarrow> json \<Rightarrow> parsed_findings" where
  "parse_findings_checked why args =
     (case as_array (jidx args ''findings'') of
        None \<Rightarrow>
          \<lparr>pf_findings = [], pf_dropped = 0,
           pf_problem = Some (if jget args ''findings'' = None then ''submission has no `findings` array''
                              else ''`findings` is not an array'')\<rparr>
      | Some arr \<Rightarrow>
          (let (fs, dropped, errors) = fold (parse_item why) arr ([], 0, []) in
           \<lparr>pf_findings = fs, pf_dropped = dropped,
            pf_problem =
              (if 0 < dropped
               then Some (nat_str dropped @ '' of '' @ nat_str (length arr)
                      @ '' finding(s) malformed and dropped ('' @ join ''; '' errors @ '')'')
               else None)\<rparr>))"

definition findings_terminal_check :: "(json \<Rightarrow> string) \<Rightarrow> json \<Rightarrow> string option" where
  "findings_terminal_check why args = pf_problem (parse_findings_checked why args)"

definition parse_findings :: "(json \<Rightarrow> string) \<Rightarrow> json \<Rightarrow> finding list" where
  "parse_findings why args = pf_findings (parse_findings_checked why args)"

definition parse_candidate_findings :: "(json \<Rightarrow> string) \<Rightarrow> json \<Rightarrow> finding list" where
  "parse_candidate_findings why v = parse_findings why (JObj [(''findings'', v)])"

section \<open>Verdicts\<close>

record verdict_rec =
  vd_status :: validation_status
  vd_counterevidence :: "string list"
  vd_severity :: "severity option"
  vd_start_line :: "u32 option"
  vd_end_line :: "u32 option"
  vd_rationale :: string
  vd_fix :: "string option"
  vd_suggestion :: "suggestion option"

definition de_verdict :: "json \<Rightarrow> verdict_rec option" where
  "de_verdict v =
     (if \<not> struct_shape 8 v then None
      else (case (required de_status 0 ''validation_status'' v,
                  defaulted [] strings 1 ''counterevidence_checked'' v,
                  defaulted None (de_option de_severity) 2 ''severity'' v,
                  defaulted None (de_option de_u32) 3 ''start_line'' v,
                  defaulted None (de_option de_u32) 4 ''end_line'' v,
                  defaulted [] as_str 5 ''rationale'' v,
                  defaulted None (\<lambda>w. Some (lenient_fix w)) 6 ''fix'' v,
                  defaulted None (\<lambda>w. Some (lenient_suggestion w)) 7 ''suggestion'' v) of
              (Some st, Some ce, Some se, Some a, Some b, Some ra, Some fx, Some sg) \<Rightarrow>
                Some \<lparr>vd_status = st, vd_counterevidence = ce, vd_severity = se, vd_start_line = a,
                  vd_end_line = b, vd_rationale = ra, vd_fix = fx, vd_suggestion = sg\<rparr>
            | _ \<Rightarrow> None))"

section \<open>What a submission becomes\<close>

definition decoded :: "json \<Rightarrow> finding option" where
  "decoded v = map_option strip_verdict (de_finding (normalize_finding_json v))"

lemma parse_item_cases:
  "parse_item why v (fs, d, es) =
     (case decoded v of Some f \<Rightarrow> (fs @ [f], d, es)
      | None \<Rightarrow> (fs, d + 1, if length es < 3 then es @ [why (normalize_finding_json v)] else es))"
  by (simp add: parse_item_def decoded_def split: option.splits)

lemma fold_parse_item:
  "fold (parse_item why) arr (fs, d, es) = (fs', d', es') \<Longrightarrow>
   fs' = fs @ List.map_filter decoded arr
     \<and> d' = d + length (filter (\<lambda>v. decoded v = None) arr)"
proof (induction arr arbitrary: fs d es)
  case (Cons v arr)
  show ?case
  proof (cases "decoded v")
    case None
    define es1 where "es1 = (if length es < 3 then es @ [why (normalize_finding_json v)] else es)"
    have "fold (parse_item why) arr (fs, d + 1, es1) = (fs', d', es')"
      using Cons.prems None by (simp add: parse_item_cases es1_def)
    from Cons.IH[OF this] None show ?thesis by simp
  next
    case (Some f)
    then show ?thesis using Cons.prems Cons.IH[of "fs @ [f]"] by (simp add: parse_item_cases)
  qed
qed simp

lemma parse_findings_checked_array:
  assumes "as_array (jidx args ''findings'') = Some arr"
  shows "pf_findings (parse_findings_checked why args) = List.map_filter decoded arr"
    and "pf_dropped (parse_findings_checked why args) = length (filter (\<lambda>v. decoded v = None) arr)"
    and "pf_problem (parse_findings_checked why args) = None
           \<longleftrightarrow> length (filter (\<lambda>v. decoded v = None) arr) = 0"
proof -
  obtain fs d es where r: "fold (parse_item why) arr ([], 0, []) = (fs, d, es)"
    by (cases "fold (parse_item why) arr ([], 0, [])")
  note e = fold_parse_item[OF r]
  show "pf_findings (parse_findings_checked why args) = List.map_filter decoded arr"
    and "pf_dropped (parse_findings_checked why args) = length (filter (\<lambda>v. decoded v = None) arr)"
    and "pf_problem (parse_findings_checked why args) = None
           \<longleftrightarrow> length (filter (\<lambda>v. decoded v = None) arr) = 0"
    using assms r e by (auto simp: parse_findings_checked_def)
qed

lemma parse_findings_checked_no_array:
  "as_array (jidx args ''findings'') = None \<Longrightarrow>
   pf_findings (parse_findings_checked why args) = [] \<and> pf_dropped (parse_findings_checked why args) = 0
     \<and> pf_problem (parse_findings_checked why args) \<noteq> None"
  by (simp add: parse_findings_checked_def)

lemma map_filter_all: "filter (\<lambda>v. f v = None) xs = [] \<Longrightarrow> map Some (List.map_filter f xs) = map f xs"
  by (induction xs) (auto split: option.splits if_splits)

lemma length_map_filter: "length (List.map_filter f xs) + length (filter (\<lambda>v. f v = None) xs) = length xs"
  by (induction xs) (auto split: option.splits)

text \<open>A submission passes the terminal check exactly when it has an array of findings and every
  item can be read; then all of them are kept, in order, and in any case no item is lost without
  being counted.\<close>

theorem submission_accounted:
  "(findings_terminal_check why args = None
      \<longleftrightarrow> (\<exists>arr. as_array (jidx args ''findings'') = Some arr
             \<and> map Some (parse_findings why args) = map decoded arr))
   \<and> length (parse_findings why args) + pf_dropped (parse_findings_checked why args)
       = (case as_array (jidx args ''findings'') of Some arr \<Rightarrow> length arr | None \<Rightarrow> 0)"
proof (cases "as_array (jidx args ''findings'')")
  case None
  then show ?thesis
    using parse_findings_checked_no_array[OF None] by (simp add: findings_terminal_check_def parse_findings_def)
next
  case (Some arr)
  note p = parse_findings_checked_array[OF Some, of why]
  have "(filter (\<lambda>v. decoded v = None) arr = []) \<longleftrightarrow> map Some (List.map_filter decoded arr) = map decoded arr"
  proof
    assume "map Some (List.map_filter decoded arr) = map decoded arr"
    then have "length (List.map_filter decoded arr) = length arr" by (metis length_map)
    then show "filter (\<lambda>v. decoded v = None) arr = []" using length_map_filter[of decoded arr] by simp
  qed (rule map_filter_all)
  then show ?thesis using Some p length_map_filter[of decoded arr]
    by (simp add: findings_terminal_check_def parse_findings_def)
qed

lemma parsed_decoded: "f \<in> set (parse_findings why args) \<Longrightarrow> \<exists>v. decoded v = Some f"
proof (cases "as_array (jidx args ''findings'')")
  case None
  assume "f \<in> set (parse_findings why args)"
  with parse_findings_checked_no_array[OF None, of why] show ?thesis by (simp add: parse_findings_def)
next
  case (Some arr)
  assume "f \<in> set (parse_findings why args)"
  then show ?thesis
    unfolding parse_findings_def parse_findings_checked_array(1)[OF Some]
    by (auto simp: List.map_filter_def)
qed

text \<open>Whatever an agent submits, no finding it reports carries a verdict, a remedy, a suggestion
  or a duplicate mark: those belong to the validator and the controller.\<close>

theorem findings_carry_no_verdict:
  "list_all (\<lambda>f. f_validation_status f = None \<and> f_rationale f = None \<and> f_counterevidence_checked f = []
       \<and> f_validated_fix f = None \<and> f_suggestion f = None \<and> f_duplicate_of f = None
       \<and> \<not> is_publishable f)
     (parse_findings why args)"
proof -
  have "f = strip_verdict g" if "decoded v = Some f" "de_finding (normalize_finding_json v) = Some g" for v f g
    using that by (simp add: decoded_def)
  then show ?thesis
    by (auto simp: list_all_iff decoded_def strip_verdict_def is_publishable_def dest!: parsed_decoded)
qed

section \<open>Titles are short\<close>

lemma length_trim_end_of: "length (trim_end_of C s) \<le> length s"
  using length_dropWhile_le[of "\<lambda>c. c \<in> C" "rev s"] by (simp add: trim_end_of_def)

text \<open>A derived title has at most ninety bytes.\<close>

theorem short_title_bounded: "length (short_title s) \<le> 90"
proof -
  have "length (trim_end_of C (excerpt_bytes t 87)) \<le> 87" for C t
    using length_trim_end_of[of C "excerpt_bytes t 87"] length_excerpt_bytes[of t 87] by linarith
  moreover have "length (trim_end_of C (take i (excerpt_bytes t 87))) \<le> 87" for C i t
    using length_trim_end_of[of C "take i (excerpt_bytes t 87)"] length_excerpt_bytes[of t 87] by simp
  ultimately show ?thesis
    by (auto simp: short_title_def TITLE_MAX_def Let_def split: option.splits)
qed

end
