(* ===== verification/Ledger_Report.thy ===== *)
theory Ledger_Report
  imports Provider Ordered_Map
begin

text \<open>
  The part of \<open>src/src/report.rs\<close> that reports the ledger: the routes named in the footer of a summary,
  which never name an endpoint, and the usage by route.  \<open>red\<close> is \<open>redact::text\<close>.
\<close>

section \<open>Footer\<close>

definition footer_route_label :: "ledger_entry \<Rightarrow> string" where
  "footer_route_label e =
     (if le_effective_reasoning e \<noteq> le_requested_reasoning e
      then le_role e @ ''='' @ le_model e @ ''@'' @ le_requested_reasoning e @ ''->'' @ le_effective_reasoning e
      else le_role e @ ''='' @ le_model e @ ''@'' @ le_requested_reasoning e)"

definition push_role :: "ledger_entry \<Rightarrow> (string, ledger_entry list) btree \<Rightarrow> (string, ledger_entry list) btree" where
  "push_role e m =
     bt_insert (le_role e, (case map_of m (le_role e) of None \<Rightarrow> [e] | Some es \<Rightarrow> es @ [e])) m"

definition arrow_sep :: string where "arrow_sep = [CHR 0xE2, CHR 0x86, CHR 0x92]"

definition push_model :: "string list \<Rightarrow> string \<Rightarrow> string list" where
  "push_model ms x = (if ms \<noteq> [] \<and> last ms = x then ms else ms @ [x])"

definition role_label :: "run_ledger \<Rightarrow> string \<Rightarrow> ledger_entry list \<Rightarrow> string" where
  "role_label g role entries =
     (let l = last entries in
      case List.find (\<lambda>v. fe_role v = role) (lg_fallback_events g) of
        Some first \<Rightarrow>
          footer_route_label
            (l\<lparr>le_model := join arrow_sep (foldl push_model [fe_from_model first] (map le_model entries))\<rparr>)
      | None \<Rightarrow> footer_route_label l)"

definition footer_routes :: "(string \<Rightarrow> string) \<Rightarrow> run_ledger \<Rightarrow> string list" where
  "footer_routes red g =
     map (\<lambda>(role, entries). red (role_label g role entries))
       (fold push_role (filter (\<lambda>e. le_error e = None) (lg_entries g)) [])"

section \<open>Usage by route\<close>

record route_ledger =
  rl_route :: string
  rl_role :: string
  rl_model :: string
  rl_requested_reasoning :: string
  rl_effective_reasoning :: string
  rl_requests :: nat
  rl_prompt_tokens :: nat
  rl_completion_tokens :: nat
  rl_cached_prompt_tokens :: nat
  rl_cache_write_tokens :: nat
  rl_reasoning_tokens :: nat

record ledger_report_rec =
  lr_requests :: nat
  lr_prompt_tokens :: nat
  lr_completion_tokens :: nat
  lr_cached_prompt_tokens :: nat
  lr_cache_write_tokens :: nat
  lr_reasoning_tokens :: nat
  lr_by_route :: "route_ledger list"
  lr_fallback_events :: "fallback_event list"
  lr_unavailable_routes :: "unavailable_route list"
  lr_wall_ms :: nat

type_synonym usage_key = "string \<times> string \<times> string \<times> string \<times> string"

definition usage_key_of :: "ledger_entry \<Rightarrow> usage_key" where
  "usage_key_of e = (le_role e, le_route e, le_model e, le_requested_reasoning e, le_effective_reasoning e)"

definition empty_route :: "ledger_entry \<Rightarrow> route_ledger" where
  "empty_route e =
     \<lparr>rl_route = le_route e, rl_role = le_role e, rl_model = le_model e,
      rl_requested_reasoning = le_requested_reasoning e,
      rl_effective_reasoning = le_effective_reasoning e, rl_requests = 0, rl_prompt_tokens = 0,
      rl_completion_tokens = 0, rl_cached_prompt_tokens = 0, rl_cache_write_tokens = 0,
      rl_reasoning_tokens = 0\<rparr>"

definition add_entry :: "ledger_entry \<Rightarrow> route_ledger \<Rightarrow> route_ledger" where
  "add_entry e r =
     r\<lparr>rl_requests := rl_requests r + 1,
       rl_prompt_tokens := rl_prompt_tokens r + le_prompt_tokens e,
       rl_completion_tokens := rl_completion_tokens r + le_completion_tokens e,
       rl_cached_prompt_tokens := rl_cached_prompt_tokens r + le_cached_prompt_tokens e,
       rl_cache_write_tokens := rl_cache_write_tokens r + le_cache_write_tokens e,
       rl_reasoning_tokens := rl_reasoning_tokens r + le_reasoning_tokens e\<rparr>"

definition count_entry ::
  "ledger_entry \<Rightarrow> (usage_key, route_ledger) btree \<Rightarrow> (usage_key, route_ledger) btree"
where
  "count_entry e m =
     (let k = usage_key_of e in
      bt_insert (k, add_entry e (case map_of m k of Some r \<Rightarrow> r | None \<Rightarrow> empty_route e)) m)"

definition ledger_report :: "run_ledger \<Rightarrow> nat \<Rightarrow> ledger_report_rec" where
  "ledger_report g wall_ms =
     (let es = lg_entries g in
      \<lparr>lr_requests = length es,
       lr_prompt_tokens = sum_list (map le_prompt_tokens es),
       lr_completion_tokens = sum_list (map le_completion_tokens es),
       lr_cached_prompt_tokens = sum_list (map le_cached_prompt_tokens es),
       lr_cache_write_tokens = sum_list (map le_cache_write_tokens es),
       lr_reasoning_tokens = sum_list (map le_reasoning_tokens es),
       lr_by_route = bt_values (fold count_entry es []),
       lr_fallback_events = lg_fallback_events g,
       lr_unavailable_routes = lg_unavailable_routes g,
       lr_wall_ms = wall_ms\<rparr>)"

section \<open>Every request is counted once\<close>

lemma sum_bt_insert:
  fixes f :: "'v \<Rightarrow> nat"
  assumes "bt_sorted m"
  shows "sum_list (map f (bt_values (bt_insert (k, v) m))) + (case map_of m k of None \<Rightarrow> 0 | Some w \<Rightarrow> f w)
       = sum_list (map f (bt_values m)) + f v"
  using assms
proof (induction m)
  case (Cons e m)
  show ?case
  proof (cases "fst e < k")
    case True
    then show ?thesis using Cons by (cases e) (auto simp: bt_values_def)
  next
    case False
    then show ?thesis
    proof (cases "fst e = k")
      case True
      then show ?thesis by (cases e) (auto simp: bt_values_def)
    next
      case neq: False
      with False Cons.prems have "k \<notin> fst ` set (e # m)" by auto
      then have "map_of (e # m) k = None" by (simp add: map_of_eq_None_iff)
      then show ?thesis using False neq by (cases e) (simp add: bt_values_def)
    qed
  qed
qed (simp add: bt_values_def)

lemma count_entry_sorted: "bt_sorted m \<Longrightarrow> bt_sorted (count_entry e m)"
  using btree.put_good by (simp add: count_entry_def Let_def)

lemma count_entry_sum:
  assumes m: "bt_sorted m"
    and f: "\<And>r. f (add_entry e r) = f r + g e" "f (empty_route e) = 0"
  shows "sum_list (map f (bt_values (count_entry e m))) = sum_list (map f (bt_values m)) + (g e :: nat)"
proof -
  let ?k = "usage_key_of e"
  let ?r = "case map_of m ?k of Some r \<Rightarrow> r | None \<Rightarrow> empty_route e"
  have "f ?r = (case map_of m ?k of None \<Rightarrow> 0 | Some w \<Rightarrow> f w)" using f(2) by (simp split: option.splits)
  then show ?thesis using sum_bt_insert[OF m, of f ?k "add_entry e ?r"] f(1)[of ?r]
    by (simp add: count_entry_def Let_def)
qed

lemma fold_count_sum:
  assumes "\<And>e r. f (add_entry e r) = f r + g e" "\<And>e. f (empty_route e) = (0::nat)"
  shows "bt_sorted m \<Longrightarrow>
    sum_list (map f (bt_values (fold count_entry es m))) = sum_list (map f (bt_values m)) + sum_list (map g es)"
proof (induction es arbitrary: m)
  case (Cons e es)
  then show ?case using count_entry_sum[of m f e g, OF Cons.prems assms] count_entry_sorted[of m e] by simp
qed simp

lemma fold_count_sorted: "bt_sorted m \<Longrightarrow> bt_sorted (fold count_entry es m)"
  by (induction es arbitrary: m) (auto simp: count_entry_sorted)

lemma fold_count_key:
  "bt_sorted m \<Longrightarrow> \<forall>(k, r)\<in>set m. k = (rl_role r, rl_route r, rl_model r, rl_requested_reasoning r, rl_effective_reasoning r) \<Longrightarrow>
   \<forall>(k, r)\<in>set (fold count_entry es m). k = (rl_role r, rl_route r, rl_model r, rl_requested_reasoning r, rl_effective_reasoning r)"
proof (induction es arbitrary: m)
  case (Cons e es)
  have "\<forall>(k, r)\<in>set (count_entry e m). k = (rl_role r, rl_route r, rl_model r, rl_requested_reasoning r, rl_effective_reasoning r)"
    using Cons.prems
    by (auto simp: count_entry_def Let_def set_bt_insert add_entry_def empty_route_def usage_key_of_def
        split: option.splits dest!: map_of_SomeD)
  then show ?case using Cons.IH[of "count_entry e m"] count_entry_sorted[OF Cons.prems(1)] by simp
qed auto

lemma ledger_report_distinct:
  "distinct (map (\<lambda>r. (rl_role r, rl_route r, rl_model r, rl_requested_reasoning r, rl_effective_reasoning r))
     (lr_by_route (ledger_report g w)))"
proof -
  let ?m = "fold count_entry (lg_entries g) []"
  have k: "\<forall>(k, r)\<in>set ?m. k = (rl_role r, rl_route r, rl_model r, rl_requested_reasoning r, rl_effective_reasoning r)"
    using fold_count_key[of "[]" "lg_entries g"] by simp
  have "bt_sorted ?m" using fold_count_sorted[of "[]"] by simp
  then have "distinct (map fst ?m)" by (rule bt_sorted_distinct)
  moreover have "map (\<lambda>r. (rl_role r, rl_route r, rl_model r, rl_requested_reasoning r, rl_effective_reasoning r))
        (map snd ?m) = map fst ?m"
    using k by (auto simp: case_prod_beta)
  moreover have "lr_by_route (ledger_report g w) = map snd ?m"
    by (simp add: ledger_report_def Let_def bt_values_def)
  ultimately show ?thesis by (simp only:)
qed

text \<open>The usage by route splits the ledger: the routes differ, and their requests and tokens add up
  to the totals of the report.\<close>

theorem ledger_report_splits:
  "distinct (map (\<lambda>r. (rl_role r, rl_route r, rl_model r, rl_requested_reasoning r, rl_effective_reasoning r))
       (lr_by_route (ledger_report g w)))
   \<and> lr_requests (ledger_report g w) = sum_list (map rl_requests (lr_by_route (ledger_report g w)))
   \<and> lr_prompt_tokens (ledger_report g w) = sum_list (map rl_prompt_tokens (lr_by_route (ledger_report g w)))
   \<and> lr_completion_tokens (ledger_report g w) = sum_list (map rl_completion_tokens (lr_by_route (ledger_report g w)))
   \<and> lr_cached_prompt_tokens (ledger_report g w) = sum_list (map rl_cached_prompt_tokens (lr_by_route (ledger_report g w)))
   \<and> lr_cache_write_tokens (ledger_report g w) = sum_list (map rl_cache_write_tokens (lr_by_route (ledger_report g w)))
   \<and> lr_reasoning_tokens (ledger_report g w) = sum_list (map rl_reasoning_tokens (lr_by_route (ledger_report g w)))"
proof -
  have s: "sum_list (map f (bt_values (fold count_entry (lg_entries g) []))) = sum_list (map h (lg_entries g))"
    if "\<And>e r. f (add_entry e r) = f r + h e" "\<And>e. f (empty_route e) = (0::nat)" for f h
    using fold_count_sum[OF that, of "[]"] by (simp add: bt_values_def)
  have n: "sum_list (map (\<lambda>_. Suc 0) es) = length es" for es :: "ledger_entry list" by (induction es) auto
  show ?thesis
    using ledger_report_distinct[of g w] s[of rl_requests "\<lambda>_. 1"] s[of rl_prompt_tokens le_prompt_tokens]
      s[of rl_completion_tokens le_completion_tokens] s[of rl_cached_prompt_tokens le_cached_prompt_tokens]
      s[of rl_cache_write_tokens le_cache_write_tokens] s[of rl_reasoning_tokens le_reasoning_tokens]
    by (simp add: ledger_report_def Let_def add_entry_def empty_route_def n)
qed

end
