(* ===== verification/Playbook.thy ===== *)
theory Playbook
  imports Ordered_Map Findings Text_Util
begin

text \<open>
  \<open>src/src/playbook.rs\<close>: the operator's review method and defect checklists.  The files of an override
  directory are values of \<open>overrides\<close> (reading the directory is I/O); the built-in texts are the
  argument \<open>builtin\<close>.  \<open>yaml\<close> is \<open>serde_saphyr::from_str\<close> for the header of a skill (name, description,
  enabled), \<open>H\<close> the hexadecimal SHA-256 digest, \<open>red\<close> is \<open>redact::text\<close>, \<open>U\<close> the Unicode tables.
\<close>

definition REVIEWER_MAX_BYTES :: nat where "REVIEWER_MAX_BYTES = 16 * 1024"
definition SKILL_MAX_BYTES :: nat where "SKILL_MAX_BYTES = 8 * 1024"
definition TOTAL_MAX_BYTES :: nat where "TOTAL_MAX_BYTES = 64 * 1024"
definition MAX_PLAYBOOK_SKILLS :: nat where "MAX_PLAYBOOK_SKILLS = 24"

datatype origin = Builtin | Override | Custom

record skill =
  sk_name :: string
  sk_description :: string
  sk_body :: string
  sk_enabled :: bool
  sk_origin :: origin

record playbook =
  pb_reviewer :: string
  pb_skills :: "skill list"
  pb_digest :: string

record overrides =
  ov_reviewer :: "string option"
  ov_skills :: "(string, string) btree"

section \<open>One skill\<close>

definition is_name_byte :: "char \<Rightarrow> bool" where
  "is_name_byte c = ((CHR ''a'' \<le> c \<and> c \<le> CHR ''z'') \<or> is_ascii_digit c \<or> c = CHR ''-'')"

definition valid_name :: "string \<Rightarrow> bool" where
  "valid_name name =
     (1 \<le> length name \<and> length name \<le> 40 \<and> list_all is_name_byte name \<and> hd name \<noteq> CHR ''-'')"

definition fence_line :: "string \<Rightarrow> bool" where
  "fence_line line = (trim_end line = ''---'')"

text \<open>The header of a skill: the lines between the two fences, and the lines after them.\<close>

fun take_header :: "string list \<Rightarrow> (string \<times> string list) option" where
  "take_header [] = None"
| "take_header (l # ls) =
     (if fence_line l then Some ([], ls)
      else (case take_header ls of None \<Rightarrow> None | Some (h, rest) \<Rightarrow> Some (l @ h, rest)))"

definition parse_skill_text ::
  "(string \<Rightarrow> string + string \<times> string \<times> bool) \<Rightarrow> string \<Rightarrow> string \<Rightarrow> string + skill"
where
  "parse_skill_text yaml name body_text =
     (case split_inclusive_nl body_text of
        [] \<Rightarrow> Inl ''expected opening --- front matter line''
      | first # ls \<Rightarrow>
          if \<not> fence_line first then Inl ''expected opening --- front matter line''
          else (case take_header ls of
            None \<Rightarrow> Inl ''missing closing --- front matter line''
          | Some (header, rest) \<Rightarrow>
              (case yaml header of
                 Inl e \<Rightarrow> Inl (''invalid front matter: '' @ e)
               | Inr (n, desc, enabled) \<Rightarrow>
                   if n \<noteq> name
                   then Inl (''front matter name must equal file stem '' @ [CHR 0x22] @ name @ [CHR 0x22])
                   else if trim desc = [] \<or> CHR 0x0A \<in> set desc \<or> CHR 0x0D \<in> set desc \<or> 300 < char_count desc
                   then Inl (''description must be one line, 1'' @ [CHR 0xE2, CHR 0x80, CHR 0x93] @ ''300 characters'')
                   else Inr \<lparr>sk_name = n, sk_description = desc, sk_body = concat rest,
                             sk_enabled = enabled, sk_origin = Custom\<rparr>)))"

definition validate_skill ::
  "(string \<Rightarrow> string + string \<times> string \<times> bool) \<Rightarrow> string \<Rightarrow> string \<Rightarrow> string + skill"
where
  "validate_skill yaml name body_text =
     (if \<not> valid_name name then Inl (name @ ''.md: name must match ^[a-z0-9][a-z0-9-]{0,39}$'')
      else if SKILL_MAX_BYTES < length body_text
      then Inl (name @ ''.md: skill exceeds '' @ nat_str SKILL_MAX_BYTES @ '' bytes'')
      else (case parse_skill_text yaml name body_text of
              Inl e \<Rightarrow> Inl (name @ ''.md: '' @ e)
            | Inr s \<Rightarrow> Inr s))"

definition validate_reviewer :: "string \<Rightarrow> string + unit" where
  "validate_reviewer body_text =
     (if REVIEWER_MAX_BYTES < length body_text
      then Inl (''reviewer.md exceeds '' @ nat_str REVIEWER_MAX_BYTES @ '' bytes'') else Inr ())"

section \<open>The playbook\<close>

definition enabled_skills :: "playbook \<Rightarrow> skill list" where
  "enabled_skills p = filter sk_enabled (pb_skills p)"

definition total_bytes :: "playbook \<Rightarrow> nat" where
  "total_bytes p =
     length (pb_reviewer p)
       + sum_list (map (\<lambda>s. length (sk_name s) + length (sk_description s) + length (sk_body s)) (enabled_skills p))"

definition digest_text :: "playbook \<Rightarrow> string" where
  "digest_text p =
     pb_reviewer p @ [CHR 0x00]
       @ concat (map (\<lambda>s. concat (map (\<lambda>x. x @ [CHR 0x00]) [sk_name s, sk_description s, sk_body s])
                     @ [if sk_enabled s then CHR 0x01 else CHR 0x00]) (enabled_skills p))"

definition finalize :: "(string \<Rightarrow> string) \<Rightarrow> playbook \<Rightarrow> string + playbook" where
  "finalize H p =
     (case validate_reviewer (pb_reviewer p) of
        Inl e \<Rightarrow> Inl e
      | Inr _ \<Rightarrow>
          if MAX_PLAYBOOK_SKILLS < length (pb_skills p)
          then Inl (''at most '' @ nat_str MAX_PLAYBOOK_SKILLS @ '' skills are allowed'')
          else if TOTAL_MAX_BYTES < total_bytes p
          then Inl (''effective playbook exceeds '' @ nat_str TOTAL_MAX_BYTES @ '' bytes'')
          else Inr (p\<lparr>pb_digest := take 16 (H (digest_text p))\<rparr>))"

text \<open>One override: the skill replaces the one of that name, or is added.\<close>

definition override_skill :: "string \<Rightarrow> skill \<Rightarrow> skill list \<Rightarrow> skill list" where
  "override_skill name s ss =
     (case position (\<lambda>x. sk_name x = name) ss of
        Some i \<Rightarrow> ss[i := s\<lparr>sk_origin := Override\<rparr>]
      | None \<Rightarrow> ss @ [s])"

fun apply_overrides ::
  "(string \<Rightarrow> string + string \<times> string \<times> bool) \<Rightarrow> (string \<times> string) list \<Rightarrow> skill list \<Rightarrow> string + skill list"
where
  "apply_overrides yaml [] ss = Inr ss"
| "apply_overrides yaml ((name, body_text) # fs) ss =
     (case validate_skill yaml name body_text of
        Inl e \<Rightarrow> Inl e
      | Inr s \<Rightarrow> apply_overrides yaml fs (override_skill name s ss))"

definition from_overrides ::
  "(string \<Rightarrow> string) \<Rightarrow> (string \<Rightarrow> string + string \<times> string \<times> bool) \<Rightarrow> playbook \<Rightarrow> overrides \<Rightarrow> string + playbook"
where
  "from_overrides H yaml builtin files =
     (case (case ov_reviewer files of None \<Rightarrow> Inr () | Some t \<Rightarrow> validate_reviewer t) of
        Inl e \<Rightarrow> Inl e
      | Inr _ \<Rightarrow>
          (let p = (case ov_reviewer files of None \<Rightarrow> builtin | Some t \<Rightarrow> builtin\<lparr>pb_reviewer := t\<rparr>) in
           case apply_overrides yaml (ov_skills files) (pb_skills p) of
             Inl e \<Rightarrow> Inl e
           | Inr ss \<Rightarrow> finalize H (p\<lparr>pb_skills := ss\<rparr>)))"

definition find_skill :: "playbook \<Rightarrow> string \<Rightarrow> skill option" where
  "find_skill p name = List.find (\<lambda>s. sk_enabled s \<and> sk_name s = name) (pb_skills p)"

definition skill_names :: "playbook \<Rightarrow> string list" where
  "skill_names p = map sk_name (enabled_skills p)"

definition normalize_category :: "unicode \<Rightarrow> playbook \<Rightarrow> string \<Rightarrow> string" where
  "normalize_category U p category =
     (let name = uc_lower U (trim category) in
      if find_skill p name \<noteq> None then name else ''other'')"

definition classes_block :: "(string \<Rightarrow> string) \<Rightarrow> playbook \<Rightarrow> string" where
  "classes_block red p =
     red (''## Defect classes'' @ [CHR 0x0A, CHR 0x0A]
          @ concat (map (\<lambda>s. ''### '' @ sk_name s @ [CHR 0x0A] @ sk_description s @ [CHR 0x0A, CHR 0x0A]
                             @ sk_body s @ [CHR 0x0A, CHR 0x0A]) (enabled_skills p)))"

definition investigator_block :: "(string \<Rightarrow> string) \<Rightarrow> playbook \<Rightarrow> string" where
  "investigator_block red p =
     red ([CHR 0x0A, CHR 0x0A] @ ''# Reviewer playbook'' @ [CHR 0x0A, CHR 0x0A] @ pb_reviewer p
          @ [CHR 0x0A, CHR 0x0A] @ classes_block red p)"

section \<open>An accepted playbook is within its limits\<close>

definition skill_ok :: "skill \<Rightarrow> bool" where
  "skill_ok s =
     (valid_name (sk_name s) \<and> char_count (sk_description s) \<le> 300
      \<and> CHR 0x0A \<notin> set (sk_description s) \<and> trim (sk_description s) \<noteq> [])"

lemma validate_skill_ok:
  "validate_skill yaml name t = Inr s \<Longrightarrow> skill_ok s \<and> sk_name s = name \<and> sk_origin s = Custom"
  by (auto simp: validate_skill_def parse_skill_text_def skill_ok_def not_less
      split: if_splits list.splits option.splits sum.splits prod.splits)

lemma override_skill_names:
  "sk_name s = name \<Longrightarrow> map sk_name (override_skill name s ss)
     = (if name \<in> sk_name ` set ss then map sk_name ss else map sk_name ss @ [name])"
proof -
  assume s: "sk_name s = name"
  show ?thesis
  proof (cases "position (\<lambda>x. sk_name x = name) ss")
    case None
    then have "name \<notin> sk_name ` set ss" by (auto simp: position_None)
    with None s show ?thesis by (simp add: override_skill_def)
  next
    case (Some i)
    then have i: "i < length ss" "sk_name (ss ! i) = name" using position_Some by fastforce+
    then have "name \<in> sk_name ` set ss" by force
    moreover have "map sk_name (ss[i := s\<lparr>sk_origin := Override\<rparr>]) = map sk_name ss"
      using i s by (simp add: map_update list_update_same_conv)
    ultimately show ?thesis using Some by (simp add: override_skill_def)
  qed
qed

lemma override_skill_ok:
  "skill_ok s \<Longrightarrow> list_all skill_ok ss \<Longrightarrow> list_all skill_ok (override_skill name s ss)"
  by (auto simp: override_skill_def list_all_iff skill_ok_def split: option.splits
      dest!: set_update_subset_insert[THEN subsetD])

lemma apply_overrides_ok:
  "apply_overrides yaml fs ss = Inr ss' \<Longrightarrow> list_all skill_ok ss \<Longrightarrow> distinct (map sk_name ss) \<Longrightarrow>
   list_all skill_ok ss' \<and> distinct (map sk_name ss')"
proof (induction fs arbitrary: ss)
  case (Cons f fs)
  obtain name t where f: "f = (name, t)" by (cases f)
  with Cons.prems obtain s where s: "validate_skill yaml name t = Inr s"
    "apply_overrides yaml fs (override_skill name s ss) = Inr ss'"
    by (auto split: sum.splits)
  note v = validate_skill_ok[OF s(1)]
  have "distinct (map sk_name (override_skill name s ss))"
    using override_skill_names[of s name ss] v Cons.prems(3) by auto
  with Cons.IH[OF s(2)] override_skill_ok v Cons.prems(2) show ?case by blast
qed simp

lemma finalize_ok:
  "finalize H p = Inr q \<Longrightarrow> q = p\<lparr>pb_digest := take 16 (H (digest_text p))\<rparr>
     \<and> total_bytes p \<le> TOTAL_MAX_BYTES \<and> length (pb_skills p) \<le> MAX_PLAYBOOK_SKILLS
     \<and> length (pb_reviewer p) \<le> REVIEWER_MAX_BYTES"
  by (auto simp: finalize_def validate_reviewer_def split: if_splits sum.splits)

text \<open>A playbook made from operator files has at most 24 skills with different, valid names and
  one-line descriptions, and what it puts into prompts stays below 64 KiB.\<close>

theorem playbook_within_limits:
  assumes "from_overrides H yaml builtin files = Inr p"
    and "list_all skill_ok (pb_skills builtin)" "distinct (map sk_name (pb_skills builtin))"
  shows "length (pb_skills p) \<le> 24 \<and> total_bytes p \<le> 65536 \<and> length (pb_reviewer p) \<le> 16384
    \<and> distinct (map sk_name (pb_skills p)) \<and> list_all skill_ok (pb_skills p)"
proof -
  define b where "b = (case ov_reviewer files of None \<Rightarrow> builtin | Some t \<Rightarrow> builtin\<lparr>pb_reviewer := t\<rparr>)"
  have bs: "pb_skills b = pb_skills builtin" by (simp add: b_def split: option.splits)
  obtain ss where ss: "apply_overrides yaml (ov_skills files) (pb_skills b) = Inr ss"
    and f: "finalize H (b\<lparr>pb_skills := ss\<rparr>) = Inr p"
    using assms(1) by (auto simp: from_overrides_def b_def Let_def split: sum.splits option.splits)
  have "list_all skill_ok ss \<and> distinct (map sk_name ss)"
    using apply_overrides_ok[OF ss] assms(2,3) bs by simp
  moreover have p: "pb_skills p = ss" "total_bytes p = total_bytes (b\<lparr>pb_skills := ss\<rparr>)"
    "pb_reviewer p = pb_reviewer b"
    using finalize_ok[OF f] by (auto simp: total_bytes_def enabled_skills_def)
  moreover have "total_bytes (b\<lparr>pb_skills := ss\<rparr>) \<le> TOTAL_MAX_BYTES" "length ss \<le> MAX_PLAYBOOK_SKILLS"
    "length (pb_reviewer b) \<le> REVIEWER_MAX_BYTES"
    using finalize_ok[OF f] by auto
  ultimately show ?thesis
    by (simp add: TOTAL_MAX_BYTES_def MAX_PLAYBOOK_SKILLS_def REVIEWER_MAX_BYTES_def)
qed

definition empty_playbook :: playbook where
  "empty_playbook = \<lparr>pb_reviewer = [], pb_skills = [], pb_digest = []\<rparr>"

lemma playbook_within_limits_witness:
  "\<exists>p. from_overrides (\<lambda>_. []) (\<lambda>_. Inl []) empty_playbook \<lparr>ov_reviewer = Some ''look'', ov_skills = []\<rparr> = Inr p
     \<and> pb_reviewer p = ''look'' \<and> total_bytes p \<le> 65536"
proof -
  let ?f = "from_overrides (\<lambda>_. []) (\<lambda>_. Inl []) empty_playbook \<lparr>ov_reviewer = Some ''look'', ov_skills = []\<rparr>"
  have "?f = Inr \<lparr>pb_reviewer = ''look'', pb_skills = [], pb_digest = []\<rparr>"
    by (simp add: from_overrides_def empty_playbook_def validate_reviewer_def finalize_def
        REVIEWER_MAX_BYTES_def MAX_PLAYBOOK_SKILLS_def TOTAL_MAX_BYTES_def total_bytes_def enabled_skills_def)
  from playbook_within_limits[OF this] this show ?thesis by (simp add: empty_playbook_def)
qed

text \<open>A category is always the name of an enabled skill, or \<open>other\<close>.\<close>

theorem category_known: "normalize_category U p c = ''other'' \<or> normalize_category U p c \<in> set (skill_names p)"
proof (cases "find_skill p (uc_lower U (trim c))")
  case (Some s)
  then have "s \<in> set (pb_skills p)" "sk_enabled s" "sk_name s = uc_lower U (trim c)"
    using find_Some_iff_set[of _ "pb_skills p" s] by (auto simp: find_skill_def)
  then have "uc_lower U (trim c) \<in> set (skill_names p)" by (force simp: skill_names_def enabled_skills_def)
  with Some show ?thesis by (simp add: normalize_category_def)
qed (simp add: normalize_category_def)

end
