(* ===== verification/Pipeline.thy ===== *)
theory Pipeline
  imports Validation Ledger_Report Playbook Dedup
begin

text \<open>
  \<open>src/src/pipeline/common.rs\<close> with \<open>run\<close> of \<open>src/src/pipeline/dedup.rs\<close>: what every review strategy
  shares.  \<open>prepare\<close> decides whether there is anything to review and rechecks the prior findings,
  \<open>finish\<close> turns the candidates of the investigation into the report, the publication plan and the
  new state.

  Arguments that stand for the world outside: \<open>prepare_env\<close> holds the answers of git, of the index
  and of the files, \<open>finish_env\<close> those of the validators, of the deduplication request and of the
  clock.  The web client, the index and the toolbox only serve the agents, whose runs are arguments
  already; of them the telemetry remains.
\<close>

section \<open>Data\<close>

record review_config =
  rc_validate :: bool
  rc_min_severity :: severity
  rc_inline_min_severity :: severity
  rc_max_findings :: nat
  rc_publish_uncertain :: bool
  rc_max_diff_bytes :: nat
  rc_run_max_seconds :: nat
  rc_run_max_requests :: u32
  rc_agent_max_tool_calls :: nat
  rc_agent_max_seconds :: nat
  rc_vera_enabled :: bool
  rc_guidance_on :: bool
  rc_focuses :: "string list"
  rc_playbook :: playbook

record review_request =
  rq_title :: "string option"
  rq_body :: string
  rq_force :: bool
  rq_repository_public :: bool

record run_stats =
  rt_candidates :: nat
  rt_duplicates :: nat
  rt_accepted :: nat
  rt_rejected :: nat
  rt_uncertain :: nat
  rt_resolved :: nat
  rt_reopened :: nat
  rt_reused :: bool
  rt_retrieval :: string
  rt_files_read :: nat
  rt_tools :: json
  rt_malformed_findings :: nat
  rt_repaired :: bool
  rt_unvalidated :: nat
  rt_validation :: string
  rt_below_threshold :: nat
  rt_guidance :: "(json \<times> string list) option"

definition no_stats :: run_stats where
  "no_stats =
     \<lparr>rt_candidates = 0, rt_duplicates = 0, rt_accepted = 0, rt_rejected = 0, rt_uncertain = 0,
      rt_resolved = 0, rt_reopened = 0, rt_reused = False, rt_retrieval = [], rt_files_read = 0,
      rt_tools = JArr [], rt_malformed_findings = 0, rt_repaired = False, rt_unvalidated = 0,
      rt_validation = [], rt_below_threshold = 0, rt_guidance = None\<rparr>"

record inline_comment =
  ic_file :: string
  ic_line :: u32
  ic_end_line :: "u32 option"
  ic_body :: string

record publication_plan =
  pp_inline :: "inline_comment list"
  pp_summary :: string
  pp_state :: review_state
  pp_publish_uncertain :: bool

record publication =
  pu_mode :: string
  pu_review_id :: "nat option"
  pu_summary_comment_id :: "nat option"
  pu_skipped_reason :: "string option"

definition dry_run :: publication where
  "dry_run = \<lparr>pu_mode = ''dry-run'', pu_review_id = None, pu_summary_comment_id = None, pu_skipped_reason = None\<rparr>"

record run_report =
  rr_status :: run_status
  rr_reason :: "string option"
  rr_base :: string
  rr_head :: string
  rr_strategy :: string
  rr_findings :: "finding list"
  rr_carried :: "carried_finding list"
  rr_plan :: publication_plan
  rr_ledger :: ledger_report_rec
  rr_publication :: publication
  rr_coverage_gaps :: "string list"
  rr_timing :: timing
  rr_stats :: run_stats

record prepared =
  pr_base_sha :: string
  pr_head_sha :: string
  pr_strategy :: string
  pr_diff :: diff_set
  pr_patch_id :: string
  pr_review_key :: string
  pr_ledger :: run_ledger
  pr_state :: review_state
  pr_rechecks :: "finding list"
  pr_resolved_titles :: "string list"
  pr_partial_reasons :: "string list"
  pr_retrieval_unavailable :: "string option"
  pr_stats :: run_stats
  pr_guidance_block :: string
  pr_coverage :: string
  pr_coverage_gaps :: "string list"
  pr_report_note :: "string option"
  pr_deadline :: nat
  pr_reserve :: nat
  pr_wall :: nat
  pr_phases :: "phase_timing list"
  pr_stated_intent :: string

datatype prepare_out = Ready prepared | Short_circuit run_report review_state

section \<open>Budgets\<close>

definition investigation_deadline :: "prepared \<Rightarrow> nat" where
  "investigation_deadline p =
     (if pr_reserve p \<le> pr_deadline p then pr_deadline p - pr_reserve p else pr_deadline p)"

definition clamp_budget :: "nat \<Rightarrow> nat \<Rightarrow> nat \<Rightarrow> nat \<Rightarrow> nat \<times> nat" where
  "clamp_budget max_tool_calls max_seconds deadline now =
     (max_tool_calls, min max_seconds ((deadline - now) div 1000000000))"

definition lane_budget :: "prepared \<Rightarrow> nat \<Rightarrow> nat \<Rightarrow> nat \<Rightarrow> nat \<times> nat" where
  "lane_budget p max_tool_calls max_seconds now =
     clamp_budget max_tool_calls max_seconds (investigation_deadline p) now"

definition validation_reserve :: "nat \<Rightarrow> bool \<Rightarrow> nat" where
  "validation_reserve run_max_seconds validate =
     (if \<not> validate then 0 else secs_ns (min (run_max_seconds div 4) 120))"

section \<open>Text of the prompts\<close>

definition MAX_TRACKED_LISTED :: nat where "MAX_TRACKED_LISTED = 30"

definition line_range :: "state_finding \<Rightarrow> string" where
  "line_range f =
     (case sf_end_line f of
        Some e \<Rightarrow> if sf_start_line f < e then u32_str (sf_start_line f) @ ''-'' @ u32_str e
                  else u32_str (sf_start_line f)
      | None \<Rightarrow> u32_str (sf_start_line f))"

definition tracked_line :: "(string \<Rightarrow> string) \<Rightarrow> state_finding \<Rightarrow> string" where
  "tracked_line red f =
     ''- '' @ sf_file f @ '':'' @ line_range f @ '' `'' @ sf_defect_key f @ ''` ''
       @ red (take_chars 160 (sf_title f)) @ nl"

definition tracked_block :: "(string \<Rightarrow> string) \<Rightarrow> review_state \<Rightarrow> bool \<Rightarrow> string" where
  "tracked_block red st validate =
     (if \<not> validate \<or> open_findings st = [] then []
      else nl @ nl @ ''Already reported on this pull request and rechecked separately; do not submit these again, even reworded:'' @ nl
             @ concat (map (tracked_line red) (take MAX_TRACKED_LISTED (open_findings st))))"

fun status_debug :: "file_status \<Rightarrow> string" where
  "status_debug Added = ''Added''"
| "status_debug Modified = ''Modified''"
| "status_debug Deleted = ''Deleted''"
| "status_debug Renamed = ''Renamed''"

definition investigator_user :: "review_request \<Rightarrow> diff_set \<Rightarrow> nat \<Rightarrow> string" where
  "investigator_user req d max_diff_bytes =
     ''PR title: '' @ unwrap_or (rq_title req) ''(untitled)'' @ nl @ nl @ ''PR body:'' @ nl @ rq_body req
       @ nl @ nl @ ''Changed files:'' @ nl
       @ join nl (map (\<lambda>f. status_debug (fd_status f) @ '' '' @ new_path f) d)
       @ nl @ nl @ ''Diff:'' @ nl @ render_truncated d max_diff_bytes"

section \<open>One finding per identity\<close>

definition same_note :: "evidence \<Rightarrow> evidence \<Rightarrow> bool" where
  "same_note e x =
     (ev_path e = ev_path x \<and> ev_start_line e = ev_start_line x \<and> ev_end_line e = ev_end_line x
      \<and> ev_note e = ev_note x)"

text \<open>The finding that is kept at a position, when \<open>f\<close> with the same identity comes later.\<close>

definition keep_one :: "finding \<Rightarrow> finding \<Rightarrow> finding" where
  "keep_one kept0 f0 =
     (let (kept, f) = (if \<not> is_publishable kept0 \<and> is_publishable f0 then (f0, kept0) else (kept0, f0)) in
      kept\<lparr>f_category := (if f_category kept = [] then f_category f else f_category kept),
           f_supporting_evidence :=
             push_all_new_by same_note (f_supporting_evidence kept) (f_supporting_evidence f),
           f_sources := push_all_new (f_sources kept) (f_sources f)\<rparr>)"

definition canonicalize_step :: "(string \<Rightarrow> string) \<Rightarrow> finding list \<Rightarrow> finding \<Rightarrow> finding list" where
  "canonicalize_step H out f =
     (case position (\<lambda>g. fid H g = fid H f) out of
        Some i \<Rightarrow> out[i := keep_one (out ! i) f]
      | None \<Rightarrow> out @ [f])"

definition canonicalize_findings :: "(string \<Rightarrow> string) \<Rightarrow> finding list \<Rightarrow> finding list" where
  "canonicalize_findings H fs = foldl (canonicalize_step H) [] fs"

section \<open>Reuse\<close>

definition blocks_reuse :: "review_state \<Rightarrow> severity \<Rightarrow> bool" where
  "blocks_reuse st inline_min =
     list_ex (\<lambda>f. sf_status f = StOpen \<and> \<not> sf_posted f \<and> inline_min \<le> sf_severity f) (rs_findings st)"

definition summary_only_open :: "review_state \<Rightarrow> severity \<Rightarrow> finding list" where
  "summary_only_open st inline_min =
     map (\<lambda>f. (carried_to_finding (from_state f))\<lparr>f_validation_status := Some Accepted\<rparr>)
       (filter (\<lambda>f. sf_status f = StOpen \<and> \<not> sf_posted f \<and> sf_severity f < inline_min) (rs_findings st))"

definition recheck_candidates :: "review_state \<Rightarrow> finding list" where
  "recheck_candidates st = map to_finding (open_findings st)"

section \<open>Optional deduplication\<close>

record dedup_env =
  de_requests :: u32
  de_now :: nat
  de_calls :: "tool_call list option"

definition dedup_item :: "string \<Rightarrow> bool \<Rightarrow> string \<Rightarrow> u32 \<Rightarrow> u32 option \<Rightarrow> string \<Rightarrow> string \<Rightarrow> string \<Rightarrow> json" where
  "dedup_item ref posted path a b category title claim =
     JObj ([(''ref'', JStr ref)] @ (if posted then [(''posted'', JBool True)] else [])
       @ [(''file'', JStr path), (''start_line'', JNat (unat a)),
          (''end_line'', case b of None \<Rightarrow> JNull | Some n \<Rightarrow> JNat (unat n)),
          (''category'', JStr category), (''title'', JStr title),
          (''claim'', JStr (take_chars 400 claim))])"

definition dedup_items :: "finding list \<Rightarrow> carried_finding list \<Rightarrow> json list" where
  "dedup_items fs carried =
     map (\<lambda>(i, f). dedup_item (new_ref i) False (f_file f) (f_start_line f) (f_end_line f) (f_category f)
                     (f_title f) (f_claim f))
       (filter (\<lambda>(i, f). is_publishable f) (enum fs))
     @ map (\<lambda>(i, c). dedup_item (posted_ref i) True (cf_file c) (cf_start_line c) (cf_end_line c)
                       (cf_category c) (cf_title c) (cf_claim c))
       (enum carried)"

text \<open>\<open>de_calls\<close> is \<open>None\<close> when the client or the request failed or the time ran out.\<close>

definition dedup_run ::
  "(string \<Rightarrow> string) \<Rightarrow> u32 \<Rightarrow> nat \<Rightarrow> review_state \<Rightarrow> dedup_env \<Rightarrow> finding list \<Rightarrow> finding list \<times> nat"
where
  "dedup_run H max_requests deadline st env fs =
     (let carried = carried_findings H st fs;
          items = dedup_items fs carried;
          new_count = length (filter (\<lambda>v. jidx v ''posted'' \<noteq> JBool True) items);
          remaining = min (deadline - de_now env - secs_ns 10) (secs_ns 60) in
      if new_count = 0 \<or> length items < 2 \<or> max_requests \<le> de_requests env then (fs, 0)
      else if remaining = 0 then (fs, 0)
      else (case de_calls env of
              None \<Rightarrow> (fs, 0)
            | Some calls \<Rightarrow>
                (case calls of
                   [c] \<Rightarrow>
                     if tc_name c \<noteq> ''submit_groups'' then (fs, 0)
                     else (case apply_dedup H fs carried (tc_arguments c) of
                             (fs', Inl e) \<Rightarrow> (fs', 0)
                           | (fs', Inr n) \<Rightarrow> (fs', n))
                 | _ \<Rightarrow> (fs, 0))))"

end
