(* ===== verification/Review_Run.thy ===== *)
theory Review_Run
  imports Pipeline
begin

text \<open>
  \<open>prepare\<close> and \<open>finish\<close> of \<open>src/src/pipeline/common.rs\<close>.  The common arguments are gathered in
  \<open>review_fns\<close>: the SHA-256 digest, redaction, the sensitive globs, the Unicode tables, the formatting
  of seconds, the message of a decoding error and the printer of a finding.  Where the source reads
  the clock twice in a row (for the wall time of the ledger and the end of the timing), the model
  reads it once.
\<close>

record review_fns =
  fn_H :: "string \<Rightarrow> string"
  fn_red :: "string \<Rightarrow> string"
  fn_sens :: "string \<Rightarrow> bool"
  fn_U :: unicode
  fn_secs :: "nat \<Rightarrow> string"
  fn_why :: "json \<Rightarrow> string"
  fn_pretty :: "finding \<Rightarrow> string"

text \<open>What a group of validators saw: the times before each spawn, the time at which the skipped ones
  were marked, and the finished tasks in the order of their completion.\<close>

record validation_env =
  vn_spawn_times :: "nat list"
  vn_now :: nat
  vn_finished :: "(nat \<times> validator_env) list"

definition class_checklist :: "(string \<Rightarrow> string) \<Rightarrow> playbook \<Rightarrow> string \<Rightarrow> string" where
  "class_checklist red p category =
     (case find_skill p category of
        None \<Rightarrow> []
      | Some s \<Rightarrow> red (nl @ nl @ ''Class checklist ('' @ sk_name s @ ''). Use it to look for counterevidence:'' @ nl @ sk_body s))"

definition run_validators ::
  "review_fns \<Rightarrow> review_config \<Rightarrow> string \<Rightarrow> bool \<Rightarrow> string \<Rightarrow> diff_set \<Rightarrow> nat \<Rightarrow> string \<Rightarrow> nat \<Rightarrow> validation_env \<Rightarrow>
   finding list \<Rightarrow> phase_timing list \<Rightarrow> finding list \<times> string option \<times> phase_timing list"
where
  "run_validators F cfg system recheck intent d deadline phase wall env candidates phases =
     validate_candidates (fn_H F) (fn_red F) (fn_sens F) (fn_why F) (fn_pretty F)
       \<lparr>vi_system = system, vi_intent = intent, vi_recheck = recheck,
        vi_checklist = (\<lambda>c. class_checklist (fn_red F) (rc_playbook cfg) (f_category c)),
        vi_max_tool_calls = rc_agent_max_tool_calls cfg, vi_max_seconds = rc_agent_max_seconds cfg,
        vi_deadline = deadline, vi_diff = d\<rparr>
       phase wall (vn_spawn_times env) (vn_now env) (vn_finished env) candidates phases"

section \<open>prepare\<close>

datatype rerank_state = Rr_Off | Rr_Enabled | Rr_Degraded

record prepare_env =
  pe_wall :: nat
  pe_is_repo :: bool
  pe_base_sha :: "string + string"
  pe_head_sha :: "string + string"
  pe_current_head :: "string + string"
  pe_dirty :: "string + bool"
  pe_raw_diff :: "string + string"
  pe_patch_id :: string
  pe_head_tree :: "string + string"
  pe_config_text :: string
  pe_state :: "string + review_state option"
  pe_saved :: "string + unit"
  pe_trust :: "string + unit"
  pe_web :: "string + unit"
  pe_vera :: "string + unit"
  pe_configure :: "string + rerank_state"
  pe_index :: "string + unit"
  pe_index_start :: nat
  pe_index_end :: nat
  pe_guidance :: "string + (json \<times> bool \<times> string)"
  pe_prompt :: string
  pe_validators :: validation_env
  pe_end :: nat

definition default_state :: review_state where
  "default_state =
     \<lparr>rs_version = 0, rs_reviewed_head = [], rs_reviewed_base = [], rs_patch_id = [], rs_review_key = [],
      rs_last_status = None, rs_summary_comment_id = None, rs_findings = []\<rparr>"

text \<open>The summary of a run that made no review.\<close>

definition plain_summary :: summary_input where
  "plain_summary =
     \<lparr>sm_findings = [], sm_outside_diff = [], sm_lower_severity = [], sm_coverage = [], sm_coverage_gaps = [],
      sm_status = None, sm_reason = None, sm_strategy = [], sm_routes = [], sm_publish_uncertain = False,
      sm_note = None, sm_timing = None, sm_reused = False, sm_carried_open = 0,
      sm_retrieval_unavailable = None, sm_resolved = [], sm_reopened = [], sm_unvalidated = 0\<rparr>"

definition excluded_path :: "(string \<Rightarrow> bool) \<Rightarrow> file_diff \<Rightarrow> bool" where
  "excluded_path sens f = (sens (new_path f) \<or> sens (old_path f))"

definition policy_gap :: "file_diff \<Rightarrow> string" where
  "policy_gap f = ''`'' @ new_path f @ ''` excluded by the content policy''"

text \<open>The report of a short circuit.\<close>

definition short_report ::
  "review_fns \<Rightarrow> review_config \<Rightarrow> prepare_env \<Rightarrow> string \<Rightarrow> string \<Rightarrow> string \<Rightarrow> run_status \<Rightarrow> string \<Rightarrow>
   summary_input \<Rightarrow> string list \<Rightarrow> run_stats \<Rightarrow> review_state \<Rightarrow> run_report"
where
  "short_report F cfg env base head strategy status reason inp gaps stats st =
     \<lparr>rr_status = status, rr_reason = Some reason, rr_base = base, rr_head = head, rr_strategy = strategy,
      rr_findings = [], rr_carried = carried_findings (fn_H F) st [],
      rr_plan = \<lparr>pp_inline = [], pp_summary = summary_markdown (fn_red F) (fn_H F) (fn_secs F) inp,
        pp_state = public_projection (rc_publish_uncertain cfg) st,
        pp_publish_uncertain = rc_publish_uncertain cfg\<rparr>,
      rr_ledger = ledger_report new_ledger ((pe_end env - pe_wall env) div 1000000),
      rr_publication = dry_run, rr_coverage_gaps = gaps,
      rr_timing = finish_timing [] (pe_wall env) (pe_end env), rr_stats = stats\<rparr>"

definition reused_reason :: string where "reused_reason = ''reused completed review of identical content''"

definition reuse ::
  "review_fns \<Rightarrow> review_config \<Rightarrow> prepare_env \<Rightarrow> string \<Rightarrow> string \<Rightarrow> string \<Rightarrow> review_state \<Rightarrow> string + prepare_out"
where
  "reuse F cfg env strategy base head st0 =
     (let st = st0\<lparr>rs_reviewed_head := head\<rparr>;
          lower = summary_only_open st (rc_inline_min_severity cfg);
          inp = plain_summary\<lparr>sm_findings := lower, sm_lower_severity := lower, sm_status := Some Complete,
                  sm_strategy := strategy, sm_publish_uncertain := rc_publish_uncertain cfg, sm_reused := True,
                  sm_carried_open := length (carried_findings (fn_H F) st [])\<rparr>;
          stats = no_stats\<lparr>rt_reused := True, rt_validation := ''reused'', rt_retrieval := ''not needed''\<rparr> in
      case pe_saved env of
        Inl e \<Rightarrow> Inl e
      | Inr _ \<Rightarrow>
          Inr (Short_circuit (short_report F cfg env base head strategy Complete reused_reason inp [] stats st) st))"

definition resolve_all :: "state_finding list \<Rightarrow> review_state \<Rightarrow> review_state" where
  "resolve_all fs st = fold (\<lambda>f. mark (sf_id f) StResolved) fs st"

definition nothing_to_review ::
  "review_fns \<Rightarrow> review_config \<Rightarrow> prepare_env \<Rightarrow> string \<Rightarrow> string \<Rightarrow> string \<Rightarrow> string \<Rightarrow> string list \<Rightarrow>
   review_state \<Rightarrow> string + prepare_out"
where
  "nothing_to_review F cfg env strategy base head key gaps st0 =
     (let excluded = (gaps \<noteq> []);
          opened = (if \<not> excluded \<and> rc_validate cfg then open_findings st0 else []);
          st1 = resolve_all opened st0;
          (status, reason, coverage) =
            (if excluded
             then (Partial, ''every changed file is excluded by the content policy'',
                   ''nothing; every changed file is excluded by the content policy'')
             else (Complete, ''no changes between base and head'', ''no changes between base and head''));
          st = (if rc_validate cfg then record_outcome base head (pe_patch_id env) key status st1 else st1);
          inp = plain_summary\<lparr>sm_coverage := coverage, sm_coverage_gaps := gaps, sm_status := Some status,
                  sm_reason := (if excluded then Some reason else None), sm_strategy := strategy,
                  sm_publish_uncertain := rc_publish_uncertain cfg,
                  sm_carried_open := length (carried_findings (fn_H F) st []),
                  sm_resolved := map sf_title opened\<rparr>;
          stats = no_stats\<lparr>rt_resolved := length opened, rt_validation := ''not needed'',
                    rt_retrieval := ''not needed''\<rparr> in
      case (if rc_validate cfg then pe_saved env else Inr ()) of
        Inl e \<Rightarrow> Inl e
      | Inr _ \<Rightarrow>
          Inr (Short_circuit (short_report F cfg env base head strategy status reason inp gaps stats st) st))"

text \<open>The index: the reasons it adds, why retrieval is unavailable, the reranker and its timing.\<close>

definition prepare_index ::
  "review_config \<Rightarrow> prepare_env \<Rightarrow> string list \<times> string option \<times> rerank_state \<times> phase_timing list"
where
  "prepare_index cfg env =
     (let record = (\<lambda>start outcome. record_phase ''vera_index'' [] start (pe_wall env) outcome (pe_index_end env) []) in
      if \<not> rc_vera_enabled cfg then ([], None, Rr_Off, record (pe_index_end env) ''skipped'')
      else (let (degraded, rerank) =
                  (case pe_configure env of
                     Inr r \<Rightarrow> (if r = Rr_Degraded then [''vera reranker configured but not activated''] else [], r)
                   | Inl _ \<Rightarrow> ([], Rr_Off));
                indexed = (case pe_configure env of Inr _ \<Rightarrow> pe_index env | Inl _ \<Rightarrow> Inl ''vera configuration failed'') in
            case indexed of
              Inr _ \<Rightarrow> (degraded, None, rerank, record (pe_index_start env) ''ok'')
            | Inl e \<Rightarrow>
                (degraded @ [''semantic retrieval unavailable''], Some (excerpt_bytes e 200), rerank,
                 record (pe_index_start env) (''error:'' @ excerpt_bytes e 60))))"

definition retrieval_label :: "review_config \<Rightarrow> string option \<Rightarrow> rerank_state \<Rightarrow> string" where
  "retrieval_label cfg unavailable rerank =
     (if \<not> rc_vera_enabled cfg then ''lexical-only''
      else (case unavailable of
              Some r \<Rightarrow> ''unavailable: '' @ r
            | None \<Rightarrow>
                (case rerank of
                   Rr_Enabled \<Rightarrow> ''vera+rerank''
                 | Rr_Degraded \<Rightarrow> ''vera (rerank degraded)''
                 | Rr_Off \<Rightarrow> ''vera'')))"

text \<open>The loop over the rechecked findings.\<close>

definition apply_recheck :: "(string \<Rightarrow> string) \<Rightarrow> finding \<Rightarrow> review_state \<times> string list \<Rightarrow> review_state \<times> string list" where
  "apply_recheck H rc x =
     (let (st, resolved) = x in
      case f_validation_status rc of
        None \<Rightarrow> (st, resolved)
      | Some vs \<Rightarrow>
          (let s = recheck_transition vs in
           (mark (fid H rc) s st, if s = StResolved then resolved @ [f_title rc] else resolved)))"

definition recheck_prior ::
  "review_fns \<Rightarrow> review_config \<Rightarrow> prepare_env \<Rightarrow> diff_set \<Rightarrow> string \<Rightarrow> nat \<Rightarrow> review_state \<Rightarrow> phase_timing list \<Rightarrow>
   finding list \<times> review_state \<times> string list \<times> string list \<times> phase_timing list"
where
  "recheck_prior F cfg env d intent deadline st phases =
     (let candidates = (if rc_validate cfg then recheck_candidates st else []) in
      if candidates = [] then ([], st, [], [], phases)
      else (let (rechecks, reason, phases') =
                  run_validators F cfg (pe_prompt env) True intent d deadline ''recheck'' (pe_wall env)
                    (pe_validators env) candidates phases;
                (st', resolved) = fold (apply_recheck (fn_H F)) rechecks (st, []) in
            (rechecks, st', resolved,
             (case reason of None \<Rightarrow> [] | Some r \<Rightarrow> [replace_str ''validations'' ''rechecks'' r]), phases')))"

definition omitted_reason :: "nat \<Rightarrow> string list \<Rightarrow> string list" where
  "omitted_reason max_bytes omitted =
     (if omitted = [] then []
      else [(if length omitted = 1 then ''1 file'' else nat_str (length omitted) @ '' files'')
              @ '' omitted from the reviewed diff (max_diff_bytes='' @ nat_str max_bytes @ '')''])"

definition omitted_gap :: "string \<Rightarrow> string" where
  "omitted_gap f = ''`'' @ f @ ''` diff omitted (exceeds max_diff_bytes)''"

definition ready ::
  "review_fns \<Rightarrow> review_config \<Rightarrow> review_request \<Rightarrow> prepare_env \<Rightarrow> string \<Rightarrow> string \<Rightarrow> string \<Rightarrow> string \<Rightarrow>
   diff_set \<Rightarrow> string list \<Rightarrow> review_state \<Rightarrow> string + prepare_out"
where
  "ready F cfg req env strategy base head key d policy_gaps st =
     (case pe_trust env of Inl e \<Rightarrow> Inl e | Inr _ \<Rightarrow>
     (case pe_web env of Inl e \<Rightarrow> Inl e | Inr _ \<Rightarrow>
     (case pe_vera env of Inl e \<Rightarrow> Inl e | Inr _ \<Rightarrow>
        (let deadline = pe_wall env + secs_ns (rc_run_max_seconds cfg);
             (reasons1, unavailable, rerank, phases1) = prepare_index cfg env in
         case pe_guidance env of Inl e \<Rightarrow> Inl e | Inr (guidance, notes, block) \<Rightarrow>
           (let intent = pr_intent (fn_red F) (rq_title req) (rq_body req);
                (rechecks, st', resolved, reasons2, phases2) =
                  recheck_prior F cfg env d intent deadline st phases1;
                omitted = omitted_files d (rc_max_diff_bytes cfg) in
            Inr (Ready
              \<lparr>pr_base_sha = base, pr_head_sha = head, pr_strategy = strategy, pr_diff = d,
               pr_patch_id = pe_patch_id env, pr_review_key = key, pr_ledger = new_ledger, pr_state = st',
               pr_rechecks = rechecks, pr_resolved_titles = resolved,
               pr_partial_reasons = reasons1 @ reasons2 @ omitted_reason (rc_max_diff_bytes cfg) omitted,
               pr_retrieval_unavailable = unavailable,
               pr_stats = no_stats\<lparr>rt_guidance := (if rc_guidance_on cfg \<or> notes then Some (guidance, []) else None),
                            rt_retrieval := retrieval_label cfg unavailable rerank,
                            rt_resolved := length resolved\<rparr>,
               pr_guidance_block = block, pr_coverage = [],
               pr_coverage_gaps = policy_gaps @ map omitted_gap omitted, pr_report_note = None,
               pr_deadline = deadline,
               pr_reserve = validation_reserve (rc_run_max_seconds cfg) (rc_validate cfg),
               pr_wall = pe_wall env, pr_phases = phases2, pr_stated_intent = intent\<rparr>))))))"

definition prepare ::
  "review_fns \<Rightarrow> (string list \<Rightarrow> playbook \<Rightarrow> string + unit) \<Rightarrow> review_config \<Rightarrow> review_request \<Rightarrow> string \<Rightarrow>
   prepare_env \<Rightarrow> string + prepare_out"
where
  "prepare F check_focuses cfg req strategy env =
     (case (if strategy = ''panel'' then check_focuses (rc_focuses cfg) (rc_playbook cfg) else Inr ()) of
        Inl e \<Rightarrow> Inl e
      | Inr _ \<Rightarrow>
      if \<not> pe_is_repo env then Inl ''not a git repository''
      else (case pe_base_sha env of Inl e \<Rightarrow> Inl e | Inr base \<Rightarrow>
      (case pe_head_sha env of Inl e \<Rightarrow> Inl e | Inr head \<Rightarrow>
      (case pe_current_head env of Inl e \<Rightarrow> Inl e | Inr current \<Rightarrow>
        if head \<noteq> current then Inl (''head '' @ head @ '' is not the checked-out tree'')
        else (case pe_dirty env of Inl e \<Rightarrow> Inl e | Inr dirty \<Rightarrow>
          if dirty then Inl ''working tree has uncommitted changes to tracked files''
          else (case pe_raw_diff env of Inl e \<Rightarrow> Inl e | Inr raw \<Rightarrow>
            (let parsed = parse_unified raw;
                 gaps = map policy_gap (filter (excluded_path (fn_sens F)) parsed);
                 d = filter (\<lambda>f. \<not> excluded_path (fn_sens F) f) parsed in
             case pe_head_tree env of Inl e \<Rightarrow> Inl e | Inr tree \<Rightarrow>
               (let key = review_key (fn_H F) base tree (pe_patch_id env) (pe_config_text env) in
                case pe_state env of Inl e \<Rightarrow> Inl e | Inr stored \<Rightarrow>
                  (let st = (case stored of Some s \<Rightarrow> s | None \<Rightarrow> default_state) in
                   if \<not> rq_force req \<and> \<not> blocks_reuse st (rc_inline_min_severity cfg) \<and> can_reuse st key
                   then reuse F cfg env strategy base head st
                   else if d = [] then nothing_to_review F cfg env strategy base head key gaps st
                   else ready F cfg req env strategy base head key d gaps st)))))))))"

section \<open>finish\<close>

record finish_env =
  fn_validators :: validation_env
  fn_prompt :: string
  fn_dedup :: dedup_env
  fn_saved :: "string + unit"
  fn_ledger :: run_ledger
  fn_end :: nat
  fn_skills_read :: "string list"
  fn_files_read :: nat
  fn_tools :: json
  fn_semantic_fallbacks :: nat
  fn_rerank_fallbacks :: nat

definition is_accepted :: "finding \<Rightarrow> bool" where
  "is_accepted f = (f_validation_status f = Some Accepted)"

text \<open>Accepted rechecks that were never posted.\<close>

definition reenter_findings :: "(string \<Rightarrow> string) \<Rightarrow> prepared \<Rightarrow> finding list" where
  "reenter_findings H p =
     filter (\<lambda>r. is_accepted r \<and> \<not> has_posted (pr_state p) (fid H r)) (pr_rechecks p)"

definition gate_candidates :: "review_fns \<Rightarrow> review_config \<Rightarrow> prepared \<Rightarrow> finding list \<Rightarrow> finding list" where
  "gate_candidates F cfg p candidates =
     (let H = fn_H F;
          named = map (\<lambda>f. f\<lparr>f_category := normalize_category (fn_U F) (rc_playbook cfg) (f_category f)\<rparr>)
                    (collapse (fn_U F) candidates);
          severe = filter (\<lambda>f. rc_min_severity cfg \<le> f_severity f) named;
          reenter_ids = map (fid H) (reenter_findings H p) in
      filter (\<lambda>f. \<not> (rc_validate cfg \<and> is_tracked_open (pr_state p) (fid H f) \<and> fid H f \<notin> set reenter_ids)) severe)"

definition unvalidated_note :: string where
  "unvalidated_note = ''not validated (review.validate=false, evaluation-only)''"

definition evaluation_only :: "finding \<Rightarrow> finding" where
  "evaluation_only c = c\<lparr>f_validation_status := None, f_rationale := Some unvalidated_note\<rparr>"

definition validate_gated ::
  "review_fns \<Rightarrow> review_config \<Rightarrow> prepared \<Rightarrow> finish_env \<Rightarrow> finding list \<Rightarrow>
   finding list \<times> string list \<times> phase_timing list"
where
  "validate_gated F cfg p env gated =
     (if \<not> rc_validate cfg then (map evaluation_only gated, [], pr_phases p)
      else if gated = [] then (gated, [], pr_phases p)
      else (let (cs, reason, phases) =
                  run_validators F cfg (fn_prompt env) False (pr_stated_intent p) (pr_diff p) (pr_deadline p)
                    ''validate'' (pr_wall p) (fn_validators env) gated (pr_phases p) in
            (cs, (case reason of None \<Rightarrow> [] | Some r \<Rightarrow> [r]), phases)))"

definition still_tracked :: "review_state \<Rightarrow> string \<Rightarrow> bool" where
  "still_tracked st i =
     (case find_id i st of None \<Rightarrow> False | Some f \<Rightarrow> sf_status f = StOpen \<or> sf_status f = StUncertain)"

definition below_threshold_rechecks ::
  "(string \<Rightarrow> string) \<Rightarrow> review_config \<Rightarrow> prepared \<Rightarrow> (string, finding) btree"
where
  "below_threshold_rechecks H cfg p =
     fold (\<lambda>f m. bt_insert (fid H f, f) m)
       (filter (\<lambda>f. is_accepted f \<and> f_severity f < rc_min_severity cfg) (pr_rechecks p)) []"

text \<open>The severity threshold on the corrected findings.\<close>

definition threshold ::
  "(string \<Rightarrow> string) \<Rightarrow> review_config \<Rightarrow> prepared \<Rightarrow> finding list \<Rightarrow> finding list \<times> (string, finding) btree"
where
  "threshold H cfg p fs =
     (let below = filter (\<lambda>f. \<not> rc_min_severity cfg \<le> f_severity f \<and> still_tracked (pr_state p) (fid H f)) fs in
      (filter (\<lambda>f. rc_min_severity cfg \<le> f_severity f) fs,
       fold (\<lambda>f m. bt_insert (fid H f, f) m) below (below_threshold_rechecks H cfg p)))"

definition inline_of :: "review_fns \<Rightarrow> anchored \<Rightarrow> inline_comment" where
  "inline_of F a =
     (let f = an_finding a in
      \<lparr>ic_file = f_file f, ic_line = f_start_line f, ic_end_line = f_end_line f,
       ic_body = finding_body (fn_red F) (fn_H F) f\<rparr>)"

definition inline_anchored :: "anchored list \<Rightarrow> anchored list" where
  "inline_anchored as = filter (\<lambda>a. \<not> an_quiet a \<and> an_placement a = Inline) as"

definition outside_anchored :: "anchored list \<Rightarrow> anchored list" where
  "outside_anchored as = filter (\<lambda>a. \<not> an_quiet a \<and> an_placement a = Summary) as"

text \<open>The state after the run.\<close>

definition state_of_verdict :: "finding \<Rightarrow> finding_state" where
  "state_of_verdict f =
     (case f_validation_status f of
        Some Accepted \<Rightarrow> StOpen
      | Some Rejected \<Rightarrow> StRejected
      | _ \<Rightarrow> StUncertain)"

definition reopened_title :: "finding \<Rightarrow> string" where
  "reopened_title f = ''`'' @ f_file f @ ''`:'' @ u32_str (f_start_line f) @ '' '' @ em_dash @ '' '' @ f_title f"

definition upsert_final ::
  "(string \<Rightarrow> string) \<Rightarrow> finding \<Rightarrow> review_state \<times> string list \<Rightarrow> review_state \<times> string list"
where
  "upsert_final H f x =
     (let (st, reopened) = x; s = state_of_verdict f; (st', again) = upsert H f s st in
      (st', if again \<and> s = StOpen then reopened @ [reopened_title f] else reopened))"

definition update_state ::
  "(string \<Rightarrow> string) \<Rightarrow> review_config \<Rightarrow> (string, finding) btree \<Rightarrow> finding list \<Rightarrow> review_state \<Rightarrow>
   review_state \<times> string list"
where
  "update_state H cfg below finals st0 =
     (let duplicates = map (fid H) (filter (\<lambda>f. f_duplicate_of f \<noteq> None) finals);
          st1 = st0\<lparr>rs_findings := filter (\<lambda>f. sf_id f \<notin> set duplicates) (rs_findings st0)\<rparr>;
          st2 = (if \<not> rc_validate cfg then st1
                 else fold (\<lambda>(i, f) st. if find_id i st \<noteq> None then fst (upsert H f StUncertain st) else st) below st1) in
      if \<not> rc_validate cfg then (st2, [])
      else fold (upsert_final H) (filter (\<lambda>f. f_duplicate_of f = None) finals) (st2, []))"

definition retrieval_suffix :: "finish_env \<Rightarrow> string \<Rightarrow> string" where
  "retrieval_suffix env retrieval =
     (let parts = (if fn_semantic_fallbacks env = 0 then []
                   else [''keyword-only on '' @ nat_str (fn_semantic_fallbacks env) @ '' searches''])
                @ (if fn_rerank_fallbacks env = 0 then []
                   else [''rerank fell back on '' @ nat_str (fn_rerank_fallbacks env) @ '' searches'']) in
      if parts = [] then retrieval else retrieval @ '' ('' @ join ''; '' parts @ '')'')"

definition final_stats :: "review_config \<Rightarrow> finish_env \<Rightarrow> run_stats \<Rightarrow> finding list \<Rightarrow> string list \<Rightarrow> run_stats" where
  "final_stats cfg env stats finals reopened =
     stats\<lparr>rt_guidance := map_option (\<lambda>(g, _). (g, fn_skills_read env)) (rt_guidance stats),
           rt_reopened := length reopened,
           rt_accepted := length (filter is_publishable finals),
           rt_rejected := length (filter (\<lambda>f. f_validation_status f = Some Rejected) finals),
           rt_uncertain := length (filter (\<lambda>f. f_validation_status f = Some Uncertain) finals),
           rt_unvalidated := length (filter (\<lambda>f. f_validation_status f = None) finals),
           rt_validation := (if \<not> rc_validate cfg then ''disabled'' else ''fresh''),
           rt_files_read := fn_files_read env, rt_tools := fn_tools env,
           rt_retrieval := retrieval_suffix env (rt_retrieval stats)\<rparr>"

text \<open>The findings after validation, the threshold and deduplication, with the reasons, the phases and
  the counters on the way.\<close>

record judged =
  jd_findings :: "finding list"
  jd_below :: "(string, finding) btree"
  jd_reasons :: "string list"
  jd_phases :: "phase_timing list"
  jd_stats :: run_stats

definition judge_candidates ::
  "review_fns \<Rightarrow> review_config \<Rightarrow> prepared \<Rightarrow> finish_env \<Rightarrow> finding list \<Rightarrow> judged"
where
  "judge_candidates F cfg p env candidates =
     (let H = fn_H F;
          gated = gate_candidates F cfg p candidates;
          (validated, reasons, phases) = validate_gated F cfg p env gated;
          reenter = reenter_findings H p;
          fs = canonicalize_findings H (validated @ reenter);
          rechecks_below = length (filter (\<lambda>i. i \<notin> set (map (fid H) reenter)) (bt_keys (below_threshold_rechecks H cfg p)));
          (kept, below) = threshold H cfg p fs;
          (deduped, duplicates) =
            (if rc_validate cfg
             then dedup_run H (rc_run_max_requests cfg) (pr_deadline p) (pr_state p) (fn_dedup env) kept
             else (kept, rt_duplicates (pr_stats p))) in
      \<lparr>jd_findings = deduped, jd_below = below, jd_reasons = pr_partial_reasons p @ reasons, jd_phases = phases,
       jd_stats = (pr_stats p)\<lparr>rt_candidates := length gated,
                     rt_below_threshold := length fs - length kept + rechecks_below,
                     rt_duplicates := duplicates\<rparr>\<rparr>)"

definition run_anchored :: "review_config \<Rightarrow> prepared \<Rightarrow> judged \<Rightarrow> anchored list" where
  "run_anchored cfg p j =
     anchor (pr_diff p) (filter is_publishable (jd_findings j)) (rc_max_findings cfg) (rc_inline_min_severity cfg)"

definition run_finals :: "review_config \<Rightarrow> prepared \<Rightarrow> judged \<Rightarrow> finding list" where
  "run_finals cfg p j =
     map an_finding (run_anchored cfg p j) @ filter (\<lambda>f. \<not> is_publishable f) (jd_findings j)"

definition run_outcome :: "judged \<Rightarrow> run_status" where
  "run_outcome j = (if jd_reasons j = [] then Complete else Partial)"

definition run_reason :: "judged \<Rightarrow> string option" where
  "run_reason j = (if jd_reasons j = [] then None else Some (join ''; '' (jd_reasons j)))"

text \<open>The state that is saved, with the titles of the reopened findings.\<close>

definition run_state :: "(string \<Rightarrow> string) \<Rightarrow> review_config \<Rightarrow> prepared \<Rightarrow> judged \<Rightarrow> review_state \<times> string list" where
  "run_state H cfg p j =
     (let (st, reopened) = update_state H cfg (jd_below j) (run_finals cfg p j) (pr_state p) in
      (if rc_validate cfg
       then record_outcome (pr_base_sha p) (pr_head_sha p) (pr_patch_id p) (pr_review_key p) (run_outcome j) st
       else st, reopened))"

definition run_summary ::
  "review_fns \<Rightarrow> review_config \<Rightarrow> prepared \<Rightarrow> finish_env \<Rightarrow> judged \<Rightarrow> string list \<Rightarrow> nat \<Rightarrow> timing \<Rightarrow> nat \<Rightarrow> summary_input"
where
  "run_summary F cfg p env j reopened carried t unvalidated =
     \<lparr>sm_findings = run_finals cfg p j,
      sm_outside_diff = map an_finding (outside_anchored (run_anchored cfg p j)),
      sm_lower_severity = map an_finding (filter an_quiet (run_anchored cfg p j)),
      sm_coverage = (if pr_coverage p = [] then ''(none reported)'' else pr_coverage p),
      sm_coverage_gaps = pr_coverage_gaps p, sm_status = Some (run_outcome j), sm_reason = run_reason j,
      sm_strategy = pr_strategy p, sm_routes = footer_routes (fn_red F) (fn_ledger env),
      sm_publish_uncertain = rc_publish_uncertain cfg, sm_note = pr_report_note p,
      sm_timing = Some t, sm_reused = False, sm_carried_open = carried,
      sm_retrieval_unavailable = pr_retrieval_unavailable p, sm_resolved = pr_resolved_titles p,
      sm_reopened = reopened, sm_unvalidated = unvalidated\<rparr>"

definition run_report_of ::
  "review_fns \<Rightarrow> review_config \<Rightarrow> prepared \<Rightarrow> finish_env \<Rightarrow> judged \<Rightarrow> review_state \<Rightarrow> string list \<Rightarrow> run_report"
where
  "run_report_of F cfg p env j st reopened =
     (let finals = run_finals cfg p j;
          t = finish_timing (jd_phases j) (pr_wall p) (fn_end env);
          carried = carried_findings (fn_H F) st finals;
          stats = final_stats cfg env (jd_stats j) finals reopened in
      \<lparr>rr_status = run_outcome j, rr_reason = run_reason j, rr_base = pr_base_sha p, rr_head = pr_head_sha p,
       rr_strategy = pr_strategy p, rr_findings = finals, rr_carried = carried,
       rr_plan = \<lparr>pp_inline = map (inline_of F) (inline_anchored (run_anchored cfg p j)),
         pp_summary = summary_markdown (fn_red F) (fn_H F) (fn_secs F)
           (run_summary F cfg p env j reopened (length carried) t (rt_unvalidated stats)),
         pp_state = public_projection (rc_publish_uncertain cfg) st,
         pp_publish_uncertain = rc_publish_uncertain cfg\<rparr>,
       rr_ledger = ledger_report (fn_ledger env) ((fn_end env - pr_wall p) div 1000000),
       rr_publication = dry_run, rr_coverage_gaps = pr_coverage_gaps p, rr_timing = t,
       rr_stats = stats\<rparr>)"

definition finish ::
  "review_fns \<Rightarrow> review_config \<Rightarrow> prepared \<Rightarrow> finish_env \<Rightarrow> finding list \<Rightarrow> string + run_report \<times> review_state"
where
  "finish F cfg p env candidates =
     (let j = judge_candidates F cfg p env candidates;
          (st, reopened) = run_state (fn_H F) cfg p j in
      case (if rc_validate cfg then fn_saved env else Inr ()) of
        Inl e \<Rightarrow> Inl e
      | Inr _ \<Rightarrow> Inr (run_report_of F cfg p env j st reopened, st))"

end
