(* ===== verification/Lanes.thy ===== *)
theory Lanes
  imports Review_Run
begin

text \<open>
  The review strategies: \<open>src/src/pipeline/baseline.rs\<close> (one investigator) and
  \<open>src/src/pipeline/panel.rs\<close> (one scout per focus, run concurrently), up to the candidates they hand
  to \<open>finish\<close>.

  The run of an agent (\<open>run_agent_checked\<close>) is a function of its prompts and its budget, a field of
  the environment of its lane, beside the times read, the number of requests recorded so far and the
  outcome of making the client.  The lanes of a panel finish in any order; their environments come in
  the order of completion, each with the index of its lane.  \<open>prompt_texts\<close> holds the prompt files.
\<close>

record prompt_texts =
  pt_investigator :: string
  pt_focus :: string
  pt_lead_plan :: string
  pt_worker :: string
  pt_lead_synthesize :: string

record lane_env =
  la_requests :: u32
  la_start :: nat
  la_client :: "string + unit"
  la_run :: "string \<Rightarrow> string \<Rightarrow> nat \<times> nat \<Rightarrow> (string + agent_run) option"
  la_end :: nat

section \<open>One investigator\<close>

definition add_reason :: "string \<Rightarrow> prepared \<Rightarrow> prepared" where
  "add_reason r p = p\<lparr>pr_partial_reasons := pr_partial_reasons p @ [r]\<rparr>"

definition add_phase :: "string \<Rightarrow> string \<Rightarrow> nat \<Rightarrow> string \<Rightarrow> nat \<Rightarrow> prepared \<Rightarrow> prepared" where
  "add_phase phase label start outcome now p =
     p\<lparr>pr_phases := record_phase phase label start (pr_wall p) outcome now (pr_phases p)\<rparr>"

definition note_unchecked :: "string \<Rightarrow> string list \<Rightarrow> prepared \<Rightarrow> prepared" where
  "note_unchecked who unchecked p =
     (if unchecked = [] then p
      else (add_reason (who @ '' reported '' @ nat_str (length unchecked) @ '' unchecked area(s)'') p)
             \<lparr>pr_coverage_gaps := pr_coverage_gaps p @ unchecked\<rparr>)"

definition sourced :: "string \<Rightarrow> finding \<Rightarrow> finding" where
  "sourced s f = f\<lparr>f_source := s, f_sources := [s]\<rparr>"

definition count_malformed :: "nat \<Rightarrow> prepared \<Rightarrow> prepared" where
  "count_malformed n p =
     p\<lparr>pr_stats := (pr_stats p)\<lparr>rt_malformed_findings := rt_malformed_findings (pr_stats p) + n\<rparr>\<rparr>"

definition note_repaired :: "bool \<Rightarrow> prepared \<Rightarrow> prepared" where
  "note_repaired b p = p\<lparr>pr_stats := (pr_stats p)\<lparr>rt_repaired := rt_repaired (pr_stats p) \<or> b\<rparr>\<rparr>"

text \<open>A submission of \<open>who\<close>: the prepared state, the candidates and the outcome for the timing.\<close>

definition take_submission ::
  "review_fns \<Rightarrow> string \<Rightarrow> string \<Rightarrow> json \<Rightarrow> prepared \<Rightarrow> prepared \<times> finding list \<times> string"
where
  "take_submission F who source args p =
     (let p1 = note_unchecked who (parse_not_checked args) p;
          parsed = parse_findings_checked (fn_why F) args;
          p2 = count_malformed (pf_dropped parsed) p1;
          fs = map (sourced source) (pf_findings parsed) in
      case pf_problem parsed of
        Some m \<Rightarrow> (add_reason (who @ '' submission incomplete: '' @ m) p2, fs, ''ok:malformed'')
      | None \<Rightarrow> (p2, fs, if fs = [] then ''ok'' else ''ok:candidates''))"

text \<open>A run that ended without a submission.\<close>

definition stopped_reason :: "string \<Rightarrow> stop_reason \<Rightarrow> string" where
  "stopped_reason who s =
     (case s of
        Terminal \<Rightarrow> who @ '' ended without a submission''
      | _ \<Rightarrow> who @ '' stopped early: '' @ stop_name s)"

fun stopped_outcome :: "stop_reason \<Rightarrow> string" where
  "stopped_outcome TimeBudget = ''timeout''"
| "stopped_outcome ToolBudget = ''tool_budget''"
| "stopped_outcome _ = ''error''"

text \<open>The call of a run that ended with one.\<close>

definition submission_call :: "agent_run \<Rightarrow> tool_call option" where
  "submission_call r = (if ar_stopped r = Terminal then ar_final_call r else None)"

definition investigator_result ::
  "review_fns \<Rightarrow> agent_run \<Rightarrow> prepared \<Rightarrow> prepared \<times> finding list \<times> string"
where
  "investigator_result F run p0 =
     (let p = note_repaired (ar_repaired run) p0 in
      case submission_call run of
        Some call \<Rightarrow>
          take_submission F ''investigator'' ''investigator'' (tc_arguments call)
            (p\<lparr>pr_coverage := str_or ''(none)'' (jidx (tc_arguments call) ''coverage'')\<rparr>)
      | None \<Rightarrow> (add_reason (stopped_reason ''investigator'' (ar_stopped run)) p, [], stopped_outcome (ar_stopped run)))"

definition investigate ::
  "review_fns \<Rightarrow> prompt_texts \<Rightarrow> review_config \<Rightarrow> review_request \<Rightarrow> lane_env \<Rightarrow> prepared \<Rightarrow>
   string + prepared \<times> finding list"
where
  "investigate F T cfg req env p =
     (case la_client env of Inl e \<Rightarrow> Inl e | Inr _ \<Rightarrow>
        (let user = investigator_user req (pr_diff p) (rc_max_diff_bytes cfg) @ pr_guidance_block p
                      @ tracked_block (fn_red F) (pr_state p) (rc_validate cfg);
             system = pt_investigator T @ investigator_block (fn_red F) (rc_playbook cfg);
             lim = lane_budget p (rc_agent_max_tool_calls cfg) (rc_agent_max_seconds cfg) (la_start env) in
         case la_run env system user lim of
           None \<Rightarrow> Inl ''no result''
         | Some (Inl e) \<Rightarrow> Inl e
         | Some (Inr run) \<Rightarrow>
             (let (p', candidates, outcome) = investigator_result F run p in
              Inr (add_phase ''lane'' ''investigator'' (la_start env) outcome (la_end env) p', candidates))))"

definition baseline_run ::
  "review_fns \<Rightarrow> prompt_texts \<Rightarrow> (string list \<Rightarrow> playbook \<Rightarrow> string + unit) \<Rightarrow> review_config \<Rightarrow> review_request \<Rightarrow>
   prepare_env \<Rightarrow> lane_env \<Rightarrow> finish_env \<Rightarrow> string + run_report \<times> review_state"
where
  "baseline_run F T check cfg req penv lenv fenv =
     (case prepare F check cfg req ''baseline'' penv of
        Inl e \<Rightarrow> Inl e
      | Inr (Short_circuit rep st) \<Rightarrow> Inr (rep, st)
      | Inr (Ready p) \<Rightarrow>
          (case investigate F T cfg req lenv p of
             Inl e \<Rightarrow> Inl e
           | Inr (p', candidates) \<Rightarrow> finish F cfg p' fenv candidates))"

section \<open>Focuses of a panel\<close>

definition canonical_class :: "string \<Rightarrow> string" where
  "canonical_class name =
     (let n = trim name in
      if n = ''cross-file'' then ''contracts'' else if n = ''data'' then ''logic'' else n)"

text \<open>The lines of a section of the focus template.\<close>

fun section_lines :: "string \<Rightarrow> bool \<Rightarrow> string list \<Rightarrow> string" where
  "section_lines name inside [] = []"
| "section_lines name inside (l # ls) =
     (case strip_prefix l ''## '' of
        Some n \<Rightarrow> section_lines name (trim n = name) ls
      | None \<Rightarrow> (if inside then l @ nl else []) @ section_lines name inside ls)"

definition focus_addendum_for ::
  "(string \<Rightarrow> string) \<Rightarrow> prompt_texts \<Rightarrow> string \<Rightarrow> playbook \<Rightarrow> string + string"
where
  "focus_addendum_for red T focus p =
     (let classes = map canonical_class (split_char (CHR '','') focus);
          unknown = List.find (\<lambda>n. find_skill p n = None) classes in
      case (if focus \<noteq> ''general'' then unknown else None) of
        Some name \<Rightarrow>
          Inl (''unknown panel focus '' @ [CHR 0x22] @ name @ [CHR 0x22] @ ''; valid names: general, '' @ join '', '' (skill_names p)
                 @ '' (legacy aliases: cross-file, data)'')
      | None \<Rightarrow>
          (let sec = (if focus = ''general'' then ''general'' else ''classes'');
               out = trim (section_lines sec False (lines (pt_focus T))) in
           if out = [] then Inl (''missing focus template '' @ sec)
           else Inr (red (replace_str ''{classes}'' (join '', '' classes) out))))"

fun check_all_focuses :: "(string \<Rightarrow> string) \<Rightarrow> prompt_texts \<Rightarrow> string list \<Rightarrow> playbook \<Rightarrow> string + unit" where
  "check_all_focuses red T [] p = Inr ()"
| "check_all_focuses red T (f # fs) p =
     (case focus_addendum_for red T f p of Inl e \<Rightarrow> Inl e | Inr _ \<Rightarrow> check_all_focuses red T fs p)"

definition validate_focuses :: "(string \<Rightarrow> string) \<Rightarrow> prompt_texts \<Rightarrow> string list \<Rightarrow> playbook \<Rightarrow> string + unit" where
  "validate_focuses red T focuses p =
     (if focuses = [] then Inl ''panel.focuses must contain at least one entry''
      else check_all_focuses red T focuses p)"

text \<open>The lanes: a focus and the index of a scout route, \<open>None\<close> for the default route.\<close>

definition check_lane_cardinality :: "nat \<Rightarrow> nat \<Rightarrow> string + unit" where
  "check_lane_cardinality focuses scouts =
     (if 1 < scouts \<and> scouts \<noteq> focuses
      then Inl (''panel: '' @ nat_str focuses @ '' focuses but '' @ nat_str scouts
                 @ '' scouts (must be equal, or use a single scout)'')
      else Inr ())"

definition scout_lanes :: "nat \<Rightarrow> string list \<Rightarrow> string + (string \<times> nat option) list" where
  "scout_lanes scouts focuses =
     (if scouts = 0 then Inr (map (\<lambda>f. (f, None)) focuses)
      else if scouts = 1 then Inr (map (\<lambda>f. (f, Some 0)) focuses)
      else (case check_lane_cardinality (length focuses) scouts of
              Inl e \<Rightarrow> Inl e
            | Inr _ \<Rightarrow> Inr (zip focuses (map Some [0..<scouts]))))"

section \<open>Concurrent lanes\<close>

text \<open>The task of a lane: \<open>None\<close> when it was skipped, else the agent's result (\<open>Some None\<close> is a
  timeout at the investigation deadline).\<close>

definition lane_task ::
  "u32 \<Rightarrow> nat \<Rightarrow> lane_env \<Rightarrow> string \<Rightarrow> string \<Rightarrow> nat \<times> nat \<Rightarrow> (string + agent_run) option option"
where
  "lane_task max_requests deadline env system user lim =
     (if max_requests \<le> la_requests env \<or> deadline \<le> la_start env then None
      else (case la_client env of
              Inl e \<Rightarrow> Some (Some (Inl e))
            | Inr _ \<Rightarrow> Some (la_run env system user lim)))"

record panel_state =
  ps_prepared :: prepared
  ps_raw :: "finding list"
  ps_skipped :: nat

definition scout_result ::
  "review_fns \<Rightarrow> string \<Rightarrow> (string + agent_run) option \<Rightarrow> prepared \<Rightarrow> prepared \<times> finding list \<times> string"
where
  "scout_result F focus run p =
     (let who = ''scout '' @ focus in
      case run of
        None \<Rightarrow> (add_reason (who @ '' reached investigation deadline'') p, [], ''timeout'')
      | Some (Inl e) \<Rightarrow> (add_reason (who @ '' failed: '' @ e) p, [], ''error:'' @ excerpt_bytes e 60)
      | Some (Inr r) \<Rightarrow>
          (case submission_call r of
             Some call \<Rightarrow>
               take_submission F who (''panel:'' @ focus) (tc_arguments call) (note_repaired (ar_repaired r) p)
           | None \<Rightarrow>
               (add_reason (stopped_reason who (ar_stopped r))
                  (if ar_stopped r = Terminal then note_repaired (ar_repaired r) p else p),
                [], stopped_outcome (ar_stopped r))))"

definition scout_system :: "review_fns \<Rightarrow> prompt_texts \<Rightarrow> review_config \<Rightarrow> string \<Rightarrow> string" where
  "scout_system F T cfg focus =
     pt_investigator T @ investigator_block (fn_red F) (rc_playbook cfg) @ nl @ nl @ ''# Focus: '' @ focus @ nl @ nl
       @ (case focus_addendum_for (fn_red F) T focus (rc_playbook cfg) of Inl _ \<Rightarrow> [] | Inr a \<Rightarrow> a)"

definition scout_done ::
  "review_fns \<Rightarrow> prompt_texts \<Rightarrow> review_config \<Rightarrow> nat \<Rightarrow> string \<Rightarrow> nat \<Rightarrow> (string \<times> nat option) list \<Rightarrow>
   nat \<times> lane_env \<Rightarrow> panel_state \<Rightarrow> panel_state"
where
  "scout_done F T cfg scout_tool_calls user deadline lanes x s =
     (let (i, env) = x; focus = fst (lanes ! i); p = ps_prepared s;
          lim = clamp_budget scout_tool_calls (rc_agent_max_seconds cfg) deadline (la_start env);
          label = ''panel:'' @ focus in
      case lane_task (rc_run_max_requests cfg) deadline env (scout_system F T cfg focus) user lim of
        None \<Rightarrow>
          s\<lparr>ps_prepared := add_phase ''lane'' label (la_start env) ''skipped'' (la_end env) p,
            ps_skipped := ps_skipped s + 1\<rparr>
      | Some run \<Rightarrow>
          (let (p', fs, outcome) = scout_result F focus run p in
           s\<lparr>ps_prepared := add_phase ''lane'' label (la_start env) outcome (la_end env) p',
             ps_raw := ps_raw s @ fs\<rparr>))"

definition skipped_reason :: "nat \<Rightarrow> prepared \<Rightarrow> prepared" where
  "skipped_reason n p =
     (if 0 < n
      then add_reason (''investigation deadline or run budget exhausted before '' @ nat_str n @ '' lanes'') p
      else p)"

definition panel_lanes ::
  "review_fns \<Rightarrow> prompt_texts \<Rightarrow> review_config \<Rightarrow> review_request \<Rightarrow> nat \<Rightarrow> nat \<Rightarrow> (nat \<times> lane_env) list \<Rightarrow>
   prepared \<Rightarrow> string + prepared \<times> finding list"
where
  "panel_lanes F T cfg req scouts scout_tool_calls envs p =
     (case scout_lanes scouts (rc_focuses cfg) of
        Inl e \<Rightarrow> Inl e
      | Inr lanes \<Rightarrow>
          (let user = investigator_user req (pr_diff p) (rc_max_diff_bytes cfg) @ pr_guidance_block p
                        @ tracked_block (fn_red F) (pr_state p) (rc_validate cfg);
               s = fold (scout_done F T cfg scout_tool_calls user (investigation_deadline p) lanes) envs
                     \<lparr>ps_prepared = p, ps_raw = [], ps_skipped = 0\<rparr>;
               n = length lanes in
           Inr ((skipped_reason (ps_skipped s) (ps_prepared s))
                  \<lparr>pr_report_note := Some (''panel: '' @ nat_str n @ '' scouts, '' @ nat_str (length (ps_raw s))
                      @ '' raw candidates '' @ arrow_sep @ '' ''
                      @ nat_str (length (collapse (fn_U F) (ps_raw s))) @ '' unique''),
                   pr_coverage := nat_str n @ '' scout lanes ('' @ join '', '' (rc_focuses cfg)
                      @ ''); unioned and merged''\<rparr>,
                ps_raw s)))"

definition panel_run ::
  "review_fns \<Rightarrow> prompt_texts \<Rightarrow> review_config \<Rightarrow> review_request \<Rightarrow> nat \<Rightarrow> nat \<Rightarrow> prepare_env \<Rightarrow>
   (nat \<times> lane_env) list \<Rightarrow> finish_env \<Rightarrow> string + run_report \<times> review_state"
where
  "panel_run F T cfg req scouts scout_tool_calls penv envs fenv =
     (case prepare F (validate_focuses (fn_red F) T) cfg req ''panel'' penv of
        Inl e \<Rightarrow> Inl e
      | Inr (Short_circuit rep st) \<Rightarrow> Inr (rep, st)
      | Inr (Ready p) \<Rightarrow>
          (case panel_lanes F T cfg req scouts scout_tool_calls envs p of
             Inl e \<Rightarrow> Inl e
           | Inr (p', raw) \<Rightarrow> finish F cfg p' fenv raw))"

end
