(* ===== verification/Routes.thy ===== *)
theory Routes
  imports Provider Text_Util
begin

text \<open>
  The model routes of \<open>src/src/config.rs\<close>: protocol, reasoning settings, a route with its fallbacks,
  and \<open>select_worker_route\<close> of \<open>src/src/pipeline/delegated.rs\<close>.  A temperature is the text of the
  number; a hash map of headers is a list of pairs in the order of its iteration.
\<close>

datatype protocol = OpenaiChat | OpenaiResponses | Anthropic | Gemini | Scripted

definition is_http :: "protocol \<Rightarrow> bool" where
  "is_http p = (p \<noteq> Scripted)"

fun effort_str :: "reasoning_effort \<Rightarrow> string" where
  "effort_str ENone = ''none''"
| "effort_str EMinimal = ''minimal''"
| "effort_str ELow = ''low''"
| "effort_str EMedium = ''medium''"
| "effort_str EHigh = ''high''"
| "effort_str EXhigh = ''xhigh''"
| "effort_str EMax = ''max''"

datatype reasoning_field = AutoField | OpenaiField | OpenrouterField

record reasoning_spec =
  rp_effort :: reasoning_effort
  rp_budget_tokens :: "nat option"
  rp_field :: reasoning_field

datatype reasoning = Effort reasoning_effort | Spec reasoning_spec

fun effort_of :: "reasoning \<Rightarrow> reasoning_effort" where
  "effort_of (Effort e) = e"
| "effort_of (Spec s) = rp_effort s"

fun budget_tokens :: "reasoning \<Rightarrow> nat option" where
  "budget_tokens (Effort _) = None"
| "budget_tokens (Spec s) = rp_budget_tokens s"

fun field_setting :: "reasoning \<Rightarrow> reasoning_field" where
  "field_setting (Effort _) = AutoField"
| "field_setting (Spec s) = rp_field s"

definition effective_budget :: "reasoning \<Rightarrow> nat" where
  "effective_budget r = (case budget_tokens r of Some b \<Rightarrow> b | None \<Rightarrow> effort_budget (effort_of r))"

definition reasoning_enabled :: "reasoning \<Rightarrow> bool" where
  "reasoning_enabled r = (effort_of r \<noteq> ENone)"

datatype model_route =
  Model_Route
    (mr_protocol: protocol)
    (mr_base_url: "string option")
    (mr_api_key_env: "string option")
    (mr_model: string)
    (mr_max_output_tokens: u32)
    (mr_timeout_secs: nat)
    (mr_cache: bool)
    (mr_temperature: string)
    (mr_extra_headers: "(string \<times> string) list")
    (mr_session_header: "string option")
    (mr_script: "string option")
    (mr_reasoning: reasoning)
    (mr_fallback: "model_route list")

definition routes :: "model_route \<Rightarrow> model_route list" where
  "routes r = r # mr_fallback r"

definition credentials_available :: "(string \<Rightarrow> bool) \<Rightarrow> model_route \<Rightarrow> bool" where
  "credentials_available is_set r =
     (\<not> is_http (mr_protocol r) \<or> (case mr_api_key_env r of None \<Rightarrow> False | Some e \<Rightarrow> is_set e))"

definition base_url :: "model_route \<Rightarrow> string" where
  "base_url r = (case mr_base_url r of Some u \<Rightarrow> u | None \<Rightarrow> [])"

text \<open>\<open>route_headers\<close> of \<open>provider/http.rs\<close>; \<open>session\<close> is the identifier of the run.\<close>

definition route_headers :: "string \<Rightarrow> model_route \<Rightarrow> (string \<times> string) list" where
  "route_headers session r =
     mr_extra_headers r @ (case mr_session_header r of Some name \<Rightarrow> [(name, session)] | None \<Rightarrow> [])"

text \<open>The workers with a model, in turn; the investigator when there is none.\<close>

definition select_worker_route :: "model_route list \<Rightarrow> model_route \<Rightarrow> nat \<Rightarrow> model_route" where
  "select_worker_route workers investigator i =
     (let named = filter (\<lambda>w. mr_model w \<noteq> []) workers in
      if named = [] then investigator else named ! (i mod length named))"

lemma select_worker_route_named:
  assumes n: "filter (\<lambda>w. mr_model w \<noteq> []) workers \<noteq> []"
  shows "select_worker_route workers investigator i \<in> set (filter (\<lambda>w. mr_model w \<noteq> []) workers)"
  unfolding select_worker_route_def Let_def if_not_P[OF n] using n by (intro nth_mem) simp

end
