(* ===== verification/Delegated.thy ===== *)
theory Delegated
  imports Lanes Routes
begin

text \<open>
  The delegated strategy, \<open>src/src/pipeline/delegated.rs\<close>: a lead plans questions, workers answer them
  concurrently, the lead synthesizes the candidates.

  The raw report of a worker is cut with \<open>&s[..6000]\<close>, a slice that panics inside a character; such a
  panic ends the run, so the definitions from the report on return an option, \<open>None\<close> for the panic.
  The worker lanes come in the order of completion, each with the index of its question.
\<close>

record plan_question =
  pq_id :: string
  pq_question :: string
  pq_symbols :: "string list"
  pq_expected_evidence :: string
  pq_stop_condition :: string
  pq_files_hint :: "string list"

definition de_plan_question :: "json \<Rightarrow> plan_question option" where
  "de_plan_question v =
     (if \<not> struct_shape 6 v then None
      else (case (defaulted [] as_str 0 ''id'' v, required as_str 1 ''question'' v,
                  defaulted [] (de_vec as_str) 2 ''symbols'' v, defaulted [] as_str 3 ''expected_evidence'' v,
                  defaulted [] as_str 4 ''stop_condition'' v, defaulted [] (de_vec as_str) 5 ''files_hint'' v) of
              (Some i, Some q, Some s, Some e, Some c, Some f) \<Rightarrow>
                Some \<lparr>pq_id = i, pq_question = q, pq_symbols = s, pq_expected_evidence = e,
                      pq_stop_condition = c, pq_files_hint = f\<rparr>
            | _ \<Rightarrow> None))"

record worker_report =
  wr_question_id :: string
  wr_result :: string
  wr_answer :: string
  wr_raw :: string
  wr_findings :: "finding list"
  wr_gaps :: "string list"

definition worker_failure_reason :: "nat \<Rightarrow> string \<Rightarrow> string \<Rightarrow> string" where
  "worker_failure_reason index model detail =
     ''worker '' @ nat_str index @ '' ('' @ model @ '') did not complete: '' @ detail"

record delegated_config =
  dc_max_questions :: nat
  dc_worker_max_tool_calls :: nat
  dc_worker_max_seconds :: nat
  dc_workers :: "model_route list"
  dc_investigator :: model_route

record delegated_env =
  dg_plan :: lane_env
  dg_baseline :: lane_env
  dg_clients :: "(string + unit) list"
  dg_workers :: "(nat \<times> lane_env) list"
  dg_now :: nat
  dg_synthesis :: lane_env

section \<open>The plan\<close>

definition plan_user :: "review_fns \<Rightarrow> review_config \<Rightarrow> review_request \<Rightarrow> prepared \<Rightarrow> string" where
  "plan_user F cfg req p =
     investigator_user req (pr_diff p) (rc_max_diff_bytes cfg) @ pr_guidance_block p
       @ tracked_block (fn_red F) (pr_state p) (rc_validate cfg)
       @ (if pr_rechecks p = [] then []
          else nl @ nl @ ''Prior findings under recheck:'' @ nl
            @ concat (map (\<lambda>r. ''- '' @ f_file r @ '':'' @ nat_str (unat (f_start_line r)) @ '' '' @ f_title r @ nl)
                (pr_rechecks p)))"

definition plan_system :: "review_fns \<Rightarrow> prompt_texts \<Rightarrow> review_config \<Rightarrow> nat \<Rightarrow> string" where
  "plan_system F T cfg max_questions =
     replace_str ''{max_questions}'' (nat_str max_questions) (pt_lead_plan T)
       @ investigator_block (fn_red F) (rc_playbook cfg)"

fun plan_outcome :: "stop_reason \<Rightarrow> string" where
  "plan_outcome Terminal = ''ok''"
| "plan_outcome s = stopped_outcome s"

definition questions_of :: "agent_run \<Rightarrow> plan_question list" where
  "questions_of run =
     (case ar_final_call run of
        None \<Rightarrow> []
      | Some c \<Rightarrow>
          (case as_array (jidx (tc_arguments c) ''questions'') of
             None \<Rightarrow> []
           | Some a \<Rightarrow> List.map_filter de_plan_question a))"

definition plan_result :: "nat \<Rightarrow> agent_run \<Rightarrow> prepared \<Rightarrow> prepared \<times> plan_question list" where
  "plan_result max_questions run p =
     (case ar_stopped run of
        Terminal \<Rightarrow> (p, take max_questions (questions_of run))
      | s \<Rightarrow> (add_reason (''lead planner stopped early: '' @ stop_name s) p, []))"

section \<open>The workers\<close>

definition question_id :: "nat \<Rightarrow> plan_question \<Rightarrow> string" where
  "question_id i q = (if pq_id q = [] then ''q'' @ nat_str (i + 1) else pq_id q)"

definition question_text ::
  "review_fns \<Rightarrow> review_config \<Rightarrow> prepared \<Rightarrow> nat \<Rightarrow> plan_question \<Rightarrow> string"
where
  "question_text F cfg p i q =
     ''Question '' @ question_id i q @ '': '' @ pq_question q @ nl @ nl
       @ ''Symbols to start from: '' @ join '', '' (pq_symbols q) @ nl @ nl
       @ ''Expected evidence: '' @ pq_expected_evidence q @ nl @ nl
       @ ''Stop condition: '' @ pq_stop_condition q @ nl @ nl
       @ ''Files to look at first: '' @ join '', '' (pq_files_hint q) @ nl @ nl
       @ ''Diff (context):'' @ nl @ render_truncated (pr_diff p) (rc_max_diff_bytes cfg)
       @ pr_guidance_block p @ tracked_block (fn_red F) (pr_state p) (rc_validate cfg)"

text \<open>\<open>&s[..6000]\<close>.\<close>

definition raw_report :: "string \<Rightarrow> string option" where
  "raw_report s =
     (if 6000 < length s
      then (if is_char_boundary s 6000 then Some (take 6000 s @ ''...[truncated]'') else None)
      else Some s)"

definition blocked :: "string \<Rightarrow> string \<Rightarrow> string \<Rightarrow> worker_report" where
  "blocked qid answer gap =
     \<lparr>wr_question_id = qid, wr_result = ''blocked'', wr_answer = answer, wr_raw = [], wr_findings = [],
      wr_gaps = [''question '' @ qid @ '': '' @ gap]\<rparr>"

definition submitted_report ::
  "(json \<Rightarrow> string) \<Rightarrow> review_fns \<Rightarrow> string \<Rightarrow> json \<Rightarrow> (worker_report \<times> string) option"
where
  "submitted_report pj F qid a =
     (case raw_report (pj a) of
        None \<Rightarrow> None
      | Some raw \<Rightarrow>
          (let fs = map (sourced (''delegated:worker:'' @ qid))
                      (parse_candidate_findings (fn_why F) (jidx a ''candidate_findings'')) in
           Some (\<lparr>wr_question_id = qid, wr_result = str_or ''answered'' (jidx a ''result''),
                  wr_answer = str_or [] (jidx a ''answer''), wr_raw = raw, wr_findings = fs,
                  wr_gaps = (case as_array (jidx a ''gaps'') of
                               None \<Rightarrow> [] | Some g \<Rightarrow> List.map_filter as_str g)\<rparr>,
                 if fs = [] then ''ok'' else ''ok:candidates'')))"

definition worker_result ::
  "(json \<Rightarrow> string) \<Rightarrow> review_fns \<Rightarrow> string \<Rightarrow> (string + agent_run) option \<Rightarrow> (worker_report \<times> string) option"
where
  "worker_result pj F qid run =
     (case run of
        None \<Rightarrow> Some (blocked qid ''worker reached investigation deadline'' ''investigation deadline reached'', ''timeout'')
      | Some (Inl e) \<Rightarrow> Some (blocked qid (''worker failed: '' @ e) (''worker failed: '' @ e), ''error'')
      | Some (Inr r) \<Rightarrow>
          (case ar_final_call r of
             Some call \<Rightarrow> submitted_report pj F qid (tc_arguments call)
           | None \<Rightarrow>
               Some (blocked qid (''worker stopped without submitting ('' @ stop_name (ar_stopped r) @ '')'')
                       ''worker did not submit'', stopped_outcome (ar_stopped r))))"

record workers_state =
  wk_prepared :: prepared
  wk_reports :: "worker_report list"
  wk_skipped :: nat

definition note_blocked :: "nat \<Rightarrow> string \<Rightarrow> worker_report \<Rightarrow> prepared \<Rightarrow> prepared" where
  "note_blocked i model r p =
     (if wr_result r = ''blocked'' then add_reason (worker_failure_reason i model (wr_answer r)) p else p)"

definition worker_done ::
  "(json \<Rightarrow> string) \<Rightarrow> review_fns \<Rightarrow> prompt_texts \<Rightarrow> review_config \<Rightarrow> delegated_config \<Rightarrow> prepared \<Rightarrow> plan_question list \<Rightarrow>
   nat \<times> lane_env \<Rightarrow> workers_state option \<Rightarrow> workers_state option"
where
  "worker_done pj F T cfg dc p0 qs x st =
     (case st of None \<Rightarrow> None | Some s \<Rightarrow>
        (let (i, env) = x; q = qs ! i; qid = question_id i q; label = ''worker:'' @ qid;
             deadline = investigation_deadline p0; p = wk_prepared s;
             lim = clamp_budget (dc_worker_max_tool_calls dc) (dc_worker_max_seconds dc) deadline (la_start env);
             system = pt_worker T @ nl @ nl @ classes_block (fn_red F) (rc_playbook cfg);
             model = mr_model (select_worker_route (dc_workers dc) (dc_investigator dc) i) in
         case lane_task (rc_run_max_requests cfg) deadline env system (question_text F cfg p0 i q) lim of
           None \<Rightarrow>
             Some (s\<lparr>wk_prepared := add_phase ''lane'' label (la_start env) ''skipped'' (la_end env) p,
                     wk_skipped := wk_skipped s + 1\<rparr>)
         | Some run \<Rightarrow>
             (case worker_result pj F qid run of
                None \<Rightarrow> None
              | Some (r, outcome) \<Rightarrow>
                  Some (s\<lparr>wk_prepared := note_blocked i model r
                             (add_phase ''lane'' label (la_start env) outcome (la_end env) p),
                          wk_reports := wk_reports s @ [r]\<rparr>))))"

definition report_gaps :: "worker_report \<Rightarrow> string list" where
  "report_gaps r =
     wr_gaps r @ (if wr_result r = ''blocked''
                  then [''question '' @ wr_question_id r @ '' blocked: '' @ wr_answer r] else [])"

section \<open>The synthesis\<close>

definition raw_candidates :: "worker_report list \<Rightarrow> finding list" where
  "raw_candidates rs = concat (map wr_findings rs)"

definition worker_section :: "worker_report list \<Rightarrow> string" where
  "worker_section rs =
     concat (map (\<lambda>r. nl @ ''### Worker report for '' @ wr_question_id r @ nl @ nl @ wr_raw r @ nl) rs)"

definition synthesis_user ::
  "review_fns \<Rightarrow> review_config \<Rightarrow> review_request \<Rightarrow> prepared \<Rightarrow> worker_report list \<Rightarrow> string"
where
  "synthesis_user F cfg req p rs =
     ''PR title: '' @ (case rq_title req of Some t \<Rightarrow> t | None \<Rightarrow> ''(untitled)'') @ nl @ nl
       @ ''Diff summary:'' @ nl @ render_truncated (pr_diff p) (rc_max_diff_bytes cfg) @ nl @ nl
       @ ''Worker reports:'' @ nl @ worker_section rs @ pr_guidance_block p
       @ tracked_block (fn_red F) (pr_state p) (rc_validate cfg)"

text \<open>The worker a candidate of the lead is attributed to.\<close>

definition origin :: "worker_report list \<Rightarrow> finding \<Rightarrow> string" where
  "origin rs c =
     (case List.find (\<lambda>r. list_ex (\<lambda>wf. f_defect_key wf = f_defect_key c \<or> f_file wf = f_file c) (wr_findings r)) rs of
        Some r \<Rightarrow> ''delegated:worker:'' @ wr_question_id r
      | None \<Rightarrow> ''delegated:lead'')"

definition lead_unchecked :: "json \<Rightarrow> string list" where
  "lead_unchecked args =
     parse_not_checked (JObj [(''not_checked'',
       (case jget args ''not_checked'' of
          Some v \<Rightarrow> v
        | None \<Rightarrow> (case jget args ''unresolved'' of Some v \<Rightarrow> v | None \<Rightarrow> JNull)))])"

definition synthesis_result ::
  "review_fns \<Rightarrow> worker_report list \<Rightarrow> agent_run \<Rightarrow> prepared \<Rightarrow> prepared \<times> finding list"
where
  "synthesis_result F rs run p =
     (case submission_call run of
        Some call \<Rightarrow>
          (let args = tc_arguments call;
               p1 = note_unchecked ''lead synthesis'' (lead_unchecked args)
                      (p\<lparr>pr_coverage := str_or ''(none)'' (jidx args ''coverage'')\<rparr>);
               parsed = parse_findings_checked (fn_why F) args;
               p2 = count_malformed (pf_dropped parsed) p1;
               p3 = (case pf_problem parsed of
                       Some m \<Rightarrow> add_reason (''lead synthesis submission incomplete: '' @ m) p2 | None \<Rightarrow> p2) in
           (p3, map (\<lambda>c. sourced (origin rs c) c) (pf_findings parsed)))
      | None \<Rightarrow> (add_reason (stopped_reason ''lead synthesis'' (ar_stopped run)) p, raw_candidates rs))"

definition synthesis_outcome :: "agent_run \<Rightarrow> string" where
  "synthesis_outcome run =
     (if ar_stopped run = Terminal \<and> ar_final_call run \<noteq> None then ''ok'' else stopped_outcome (ar_stopped run))"

definition synthesize ::
  "review_fns \<Rightarrow> prompt_texts \<Rightarrow> review_config \<Rightarrow> review_request \<Rightarrow> delegated_env \<Rightarrow> worker_report list \<Rightarrow>
   prepared \<Rightarrow> string + prepared \<times> finding list"
where
  "synthesize F T cfg req E rs p =
     (if investigation_deadline p \<le> dg_now E
      then Inr (add_reason ''investigation deadline reached before lead synthesis''
                  (add_phase ''synthesis'' ''lead'' (dg_now E) ''skipped'' (dg_now E) p), raw_candidates rs)
      else
        (let env = dg_synthesis E in
         case la_client env of Inl e \<Rightarrow> Inl e | Inr _ \<Rightarrow>
           (case la_run env (pt_lead_synthesize T @ nl @ nl @ classes_block (fn_red F) (rc_playbook cfg))
                   (synthesis_user F cfg req p rs) (lane_budget p 4 (rc_agent_max_seconds cfg) (la_start env)) of
              None \<Rightarrow>
                Inr (add_reason ''lead synthesis reached investigation deadline''
                       (add_phase ''synthesis'' ''lead'' (la_start env) ''timeout'' (la_end env) p), raw_candidates rs)
            | Some (Inl e) \<Rightarrow> Inl e
            | Some (Inr run) \<Rightarrow>
                Inr (synthesis_result F rs run
                       (add_phase ''synthesis'' ''lead'' (la_start env) (synthesis_outcome run) (la_end env)
                          (note_repaired (ar_repaired run) p))))))"

section \<open>The strategy\<close>

fun first_error :: "(string + unit) list \<Rightarrow> string option" where
  "first_error [] = None"
| "first_error (Inl e # rs) = Some e"
| "first_error (Inr _ # rs) = first_error rs"

definition run_workers ::
  "(json \<Rightarrow> string) \<Rightarrow> review_fns \<Rightarrow> prompt_texts \<Rightarrow> review_config \<Rightarrow> delegated_config \<Rightarrow> delegated_env \<Rightarrow> plan_question list \<Rightarrow>
   prepared \<Rightarrow> (prepared \<times> worker_report list) option"
where
  "run_workers pj F T cfg dc E qs p =
     (case fold (worker_done pj F T cfg dc p qs) (dg_workers E)
             (Some \<lparr>wk_prepared = p, wk_reports = [], wk_skipped = 0\<rparr>) of
        None \<Rightarrow> None
      | Some s \<Rightarrow>
          (let p1 = skipped_reason (wk_skipped s) (wk_prepared s) in
           Some (p1\<lparr>pr_coverage_gaps := pr_coverage_gaps p1 @ concat (map report_gaps (wk_reports s))\<rparr>,
                 wk_reports s)))"

definition delegated_candidates ::
  "(json \<Rightarrow> string) \<Rightarrow> review_fns \<Rightarrow> prompt_texts \<Rightarrow> review_config \<Rightarrow> delegated_config \<Rightarrow> review_request \<Rightarrow> delegated_env \<Rightarrow>
   prepared \<Rightarrow> (string + prepared \<times> finding list) option"
where
  "delegated_candidates pj F T cfg dc req E p =
     (let env = dg_plan E in
      case la_client env of Inl e \<Rightarrow> Some (Inl e) | Inr _ \<Rightarrow>
        (case la_run env (plan_system F T cfg (dc_max_questions dc)) (plan_user F cfg req p)
                (lane_budget p 6 (rc_agent_max_seconds cfg) (la_start env)) of
           None \<Rightarrow> Some (Inl ''no result'')
         | Some (Inl e) \<Rightarrow> Some (Inl e)
         | Some (Inr run) \<Rightarrow>
             (let (p1, qs) = plan_result (dc_max_questions dc) run
                    (add_phase ''plan'' ''lead'' (la_start env) (plan_outcome (ar_stopped run)) (la_end env) p) in
              if qs = []
              then Some (investigate F T cfg req (dg_baseline E)
                           (add_reason ''lead produced no questions; fell back to baseline'' p1))
              else
                (case first_error (take (length qs) (dg_clients E)) of
                   Some e \<Rightarrow> Some (Inl e)
                 | None \<Rightarrow>
                     (case run_workers pj F T cfg dc E qs p1 of
                        None \<Rightarrow> None
                      | Some (p2, rs) \<Rightarrow> Some (synthesize F T cfg req E rs p2))))))"

definition delegated_run ::
  "(json \<Rightarrow> string) \<Rightarrow> review_fns \<Rightarrow> prompt_texts \<Rightarrow> (string list \<Rightarrow> playbook \<Rightarrow> string + unit) \<Rightarrow> review_config \<Rightarrow> delegated_config \<Rightarrow>
   review_request \<Rightarrow> prepare_env \<Rightarrow> delegated_env \<Rightarrow> finish_env \<Rightarrow>
   (string + run_report \<times> review_state) option"
where
  "delegated_run pj F T check cfg dc req penv E fenv =
     (case prepare F check cfg req ''delegated'' penv of
        Inl e \<Rightarrow> Some (Inl e)
      | Inr (Short_circuit rep st) \<Rightarrow> Some (Inr (rep, st))
      | Inr (Ready p) \<Rightarrow>
          (case delegated_candidates pj F T cfg dc req E p of
             None \<Rightarrow> None
           | Some (Inl e) \<Rightarrow> Some (Inl e)
           | Some (Inr (p', candidates)) \<Rightarrow> Some (finish F cfg p' fenv candidates)))"

section \<open>Dispatch on the strategy\<close>

text \<open>\<open>run\<close> of \<open>src/src/pipeline/mod.rs\<close>.\<close>

datatype strategy = Baseline | Delegated | Panel

record strategy_env =
  st_prepare :: prepare_env
  st_investigator :: lane_env
  st_delegated :: delegated_env
  st_scouts :: "(nat \<times> lane_env) list"
  st_finish :: finish_env

record strategy_config =
  sc_delegated :: delegated_config
  sc_scouts :: nat
  sc_scout_tool_calls :: nat

definition review_run ::
  "(json \<Rightarrow> string) \<Rightarrow> review_fns \<Rightarrow> prompt_texts \<Rightarrow> review_config \<Rightarrow> strategy_config \<Rightarrow> review_request \<Rightarrow>
   strategy_env \<Rightarrow> strategy \<Rightarrow> (string + run_report \<times> review_state) option"
where
  "review_run pj F T cfg sc req E s =
     (let check = validate_focuses (fn_red F) T in
      case s of
        Baseline \<Rightarrow> Some (baseline_run F T check cfg req (st_prepare E) (st_investigator E) (st_finish E))
      | Delegated \<Rightarrow>
          delegated_run pj F T check cfg (sc_delegated sc) req (st_prepare E) (st_delegated E) (st_finish E)
      | Panel \<Rightarrow>
          Some (panel_run F T cfg req (sc_scouts sc) (sc_scout_tool_calls sc) (st_prepare E) (st_scouts E) (st_finish E)))"

end
