(* ===== verification/Review_Props.thy ===== *)
theory Review_Props
  imports Review_Run Validation_Props Dedup_Props
begin

text \<open>
  Properties of a review as a whole: one finding per identity, what is published was accepted by a
  validator of this run and stands where the thresholds and the diff allow it, an evaluation run
  changes nothing, and an incomplete run never counts as complete.
\<close>

section \<open>One finding per identity\<close>

text \<open>\<open>g\<close> is \<open>f\<close> up to category, evidence and sources.\<close>

definition same_judgment :: "finding \<Rightarrow> finding \<Rightarrow> bool" where
  "same_judgment f g =
     (g = f\<lparr>f_category := f_category g, f_supporting_evidence := f_supporting_evidence g,
            f_sources := f_sources g\<rparr>)"

lemma same_judgment_refl [simp]: "same_judgment f f"
  by (simp add: same_judgment_def)

lemma same_judgment_trans: "same_judgment f g \<Longrightarrow> same_judgment g h \<Longrightarrow> same_judgment f h"
  by (cases f; cases g; cases h) (auto simp: same_judgment_def)

lemma same_judgment_facts:
  assumes "same_judgment f g"
  shows "fid H g = fid H f" "is_publishable g = is_publishable f" "f_severity g = f_severity f"
    "f_validation_status g = f_validation_status f" "f_duplicate_of g = f_duplicate_of f"
    "f_file g = f_file f" "f_start_line g = f_start_line f"
  using assms by (cases f; cases g; auto simp: same_judgment_def fid_def is_publishable_def)+

lemma keep_one_from: "same_judgment kept (keep_one kept f) \<or> same_judgment f (keep_one kept f)"
  by (auto simp: keep_one_def same_judgment_def)

lemma keep_one_publishable: "is_publishable (keep_one kept f) = (is_publishable kept \<or> is_publishable f)"
  by (auto simp: keep_one_def is_publishable_def)

definition canonical :: "(string \<Rightarrow> string) \<Rightarrow> finding list \<Rightarrow> finding list \<Rightarrow> bool" where
  "canonical H fs out =
     (distinct (map (fid H) out) \<and> fid H ` set out = fid H ` set fs
      \<and> (\<forall>g\<in>set out. \<exists>f\<in>set fs. same_judgment f g)
      \<and> (\<forall>g\<in>set out. is_publishable g = (\<exists>f\<in>set fs. fid H f = fid H g \<and> is_publishable f)))"

lemma canonical_step:
  assumes c: "canonical H fs out"
  shows "canonical H (fs @ [f]) (canonicalize_step H out f)"
proof (cases "position (\<lambda>g. fid H g = fid H f) out")
  case None
  then have new: "\<forall>g\<in>set out. fid H g \<noteq> fid H f" by (simp add: position_None)
  have nin: "fid H f \<notin> fid H ` set out" using new by auto
  have "\<not> (\<exists>h\<in>set fs. fid H h = fid H f \<and> is_publishable h)"
    using c nin by (metis canonical_def image_eqI)
  moreover have "fid H g \<noteq> fid H f" if "g \<in> set out" for g using new that by blast
  ultimately show ?thesis using c None nin
    by (auto simp: canonical_def canonicalize_step_def)
next
  case (Some i)
  then have i: "i < length out" "fid H (out ! i) = fid H f" using position_Some by fastforce+
  define k where "k = keep_one (out ! i) f"
  have kid: "fid H k = fid H f"
    using keep_one_from[of "out ! i" f] i(2) same_judgment_facts(1)[of _ k H] by (auto simp: k_def)
  have out: "canonicalize_step H out f = out[i := k]" using Some by (simp add: canonicalize_step_def k_def)
  have ids: "map (fid H) (out[i := k]) = map (fid H) out"
    using i kid by (simp add: map_update list_update_same_conv)
  have d: "distinct (map (fid H) out)" using c by (simp add: canonical_def)
  have outi: "out ! i \<in> set out" using i(1) by simp
  have mem: "g \<in> set (out[i := k]) \<Longrightarrow> g = k \<or> (g \<in> set out \<and> fid H g \<noteq> fid H f)" for g
  proof -
    assume "g \<in> set (out[i := k])"
    then obtain j where j: "j < length out" "g = out[i := k] ! j" by (auto simp: in_set_conv_nth)
    show ?thesis
    proof (cases "j = i")
      case False
      then have "g = out ! j" using j by simp
      moreover have "fid H (out ! j) \<noteq> fid H (out ! i)"
        using d False j(1) i(1) by (metis distinct_conv_nth length_map nth_map)
      ultimately show ?thesis using j(1) i(2) by auto
    qed (use j i in auto)
  qed
  have "fid H ` set (out[i := k]) = fid H ` set out" using ids by (metis list.set_map)
  moreover have "fid H f \<in> fid H ` set fs" using c outi i(2) by (metis canonical_def image_eqI)
  ultimately have a: "fid H ` set (out[i := k]) = fid H ` set (fs @ [f])"
    using c by (auto simp: canonical_def)
  have b: "\<exists>h\<in>set (fs @ [f]). same_judgment h g" if g: "g \<in> set (out[i := k])" for g
  proof -
    consider "g = k" | "g \<in> set out" using mem[OF g] by blast
    then show ?thesis
    proof cases
      case 1
      obtain h where "h \<in> set fs" "same_judgment h (out ! i)" using c outi by (auto simp: canonical_def)
      then show ?thesis using keep_one_from[of "out ! i" f] 1 same_judgment_trans[of h "out ! i" k]
        by (auto simp: k_def)
    qed (use c in \<open>auto simp: canonical_def\<close>)
  qed
  have p: "is_publishable g = (\<exists>h\<in>set (fs @ [f]). fid H h = fid H g \<and> is_publishable h)"
    if g: "g \<in> set (out[i := k])" for g
  proof -
    consider "g = k" | "g \<in> set out" "fid H g \<noteq> fid H f" using mem[OF g] by blast
    then show ?thesis
    proof cases
      case 1
      have "is_publishable (out ! i) = (\<exists>h\<in>set fs. fid H h = fid H (out ! i) \<and> is_publishable h)"
        using c outi by (auto simp: canonical_def)
      then show ?thesis using 1 kid i(2) by (auto simp: k_def keep_one_publishable)
    qed (use c in \<open>auto simp: canonical_def\<close>)
  qed
  show ?thesis unfolding out canonical_def using ids d a b p by simp
qed

lemma foldl_canonical: "canonical H fs out \<Longrightarrow> canonical H (fs @ gs) (foldl (canonicalize_step H) out gs)"
proof (induction gs arbitrary: fs out)
  case (Cons g gs)
  from Cons.IH[OF canonical_step[OF Cons.prems, of g]] show ?case by simp
qed simp

lemma canonicalize_canonical: "canonical H fs (canonicalize_findings H fs)"
  using foldl_canonical[of H "[]" "[]" fs] by (simp add: canonicalize_findings_def canonical_def)

text \<open>After validation, findings of the same identity become one: the result has each identity
  exactly once, loses none, takes its judgment from one of them, and is publishable exactly when one
  of them was.\<close>

theorem canonical_findings:
  "distinct (map (fid H) (canonicalize_findings H fs))
   \<and> fid H ` set (canonicalize_findings H fs) = fid H ` set fs
   \<and> list_all (\<lambda>g. list_ex (\<lambda>f. same_judgment f g) fs
        \<and> is_publishable g = list_ex (\<lambda>f. fid H f = fid H g \<and> is_publishable f) fs)
      (canonicalize_findings H fs)"
  using canonicalize_canonical[of H fs] by (auto simp: canonical_def list_all_iff list_ex_iff)

section \<open>Deduplication only removes\<close>

lemma removal_only_list:
  assumes "removal_only H carried fs res"
  shows "length (fst res) = length fs" "j < length fs \<Longrightarrow> same_core (fs ! j) (fst res ! j)"
    "j < length fs \<Longrightarrow> is_publishable (fst res ! j) \<Longrightarrow> is_publishable (fs ! j)"
proof -
  show l: "length (fst res) = length fs"
    using assms by (auto simp: removal_only_def dedup_inv_def split: sum.splits)
  show c: "j < length fs \<Longrightarrow> same_core (fs ! j) (fst res ! j)"
    using assms by (auto simp: removal_only_def dedup_inv_def split: sum.splits)
  assume j: "j < length fs" and p: "is_publishable (fst res ! j)"
  show "is_publishable (fs ! j)"
  proof (cases "f_duplicate_of (fst res ! j) = f_duplicate_of (fs ! j)")
    case True
    then show ?thesis using p same_core_status[OF c[OF j]] by (simp add: is_publishable_def)
  next
    case False
    then show ?thesis using assms j by (auto simp: removal_only_def dedup_inv_def split: sum.splits)
  qed
qed

lemma dedup_run_cases:
  "fst (dedup_run H m dl st env fs) = fs
   \<or> (\<exists>args. fst (dedup_run H m dl st env fs) = fst (apply_dedup H fs (carried_findings H st fs) args))"
proof -
  let ?c = "carried_findings H st fs"
  let ?r = "dedup_run H m dl st env fs"
  let ?apply = "\<lambda>c :: tool_call. case apply_dedup H fs ?c (tc_arguments c) of (gs, Inl e) \<Rightarrow> (gs, 0) | (gs, Inr n) \<Rightarrow> (gs, n)"
  have e: "fst (?apply c) = fst (apply_dedup H fs ?c (tc_arguments c))" for c
    by (simp split: prod.splits sum.splits)
  consider "?r = (fs, 0)" | c where "?r = ?apply c"
  proof (cases "de_calls env")
    case None
    then show ?thesis using that(1) by (simp add: dedup_run_def Let_def)
  next
    case (Some calls)
    show ?thesis
    proof (cases "\<exists>c. calls = [c] \<and> tc_name c = ''submit_groups''")
      case True
      then obtain c where "calls = [c]" "tc_name c = ''submit_groups''" by blast
      then have "?r = (fs, 0) \<or> ?r = ?apply c" using Some by (simp add: dedup_run_def Let_def)
      then show ?thesis using that(1) that(2)[of c] by argo
    next
      case False
      then have "?r = (fs, 0)" using Some
        by (auto simp: dedup_run_def Let_def split: list.splits)
      then show ?thesis using that by blast
    qed
  qed
  then show ?thesis
  proof cases
    case (2 c)
    then have "fst ?r = fst (apply_dedup H fs ?c (tc_arguments c))" by (simp only: e)
    then show ?thesis by blast
  qed simp
qed

lemma dedup_run_list:
  shows "length (fst (dedup_run H m dl st env fs)) = length fs"
    and "j < length fs \<Longrightarrow> same_core (fs ! j) (fst (dedup_run H m dl st env fs) ! j)"
    and "j < length fs \<Longrightarrow> is_publishable (fst (dedup_run H m dl st env fs) ! j) \<Longrightarrow> is_publishable (fs ! j)"
proof -
  have "length (fst (dedup_run H m dl st env fs)) = length fs
    \<and> (\<forall>j<length fs. same_core (fs ! j) (fst (dedup_run H m dl st env fs) ! j)
        \<and> (is_publishable (fst (dedup_run H m dl st env fs) ! j) \<longrightarrow> is_publishable (fs ! j)))"
    using dedup_run_cases[of H m dl st env fs]
      removal_only_list[OF apply_dedup_removal[of H "carried_findings H st fs" fs]]
    by (elim disjE exE) simp_all
  then show "length (fst (dedup_run H m dl st env fs)) = length fs"
    and "j < length fs \<Longrightarrow> same_core (fs ! j) (fst (dedup_run H m dl st env fs) ! j)"
    and "j < length fs \<Longrightarrow> is_publishable (fst (dedup_run H m dl st env fs) ! j) \<Longrightarrow> is_publishable (fs ! j)"
    by auto
qed

section \<open>What is published\<close>

text \<open>The verdict of a validator that finished for the gated candidate \<open>i\<close>.\<close>

definition verdict_of ::
  "review_fns \<Rightarrow> review_config \<Rightarrow> string \<Rightarrow> bool \<Rightarrow> string \<Rightarrow> diff_set \<Rightarrow> nat \<Rightarrow> validation_env \<Rightarrow> finding list \<Rightarrow>
   nat \<Rightarrow> verdict_rec \<Rightarrow> bool"
where
  "verdict_of F cfg system recheck intent d deadline E cs i v =
     (\<exists>e. (i, e) \<in> set (vn_finished E) \<and> i < length cs \<and>
        judged_by (fn_why F)
          (validator_task (fn_pretty F)
             \<lparr>vi_system = system, vi_intent = intent, vi_recheck = recheck,
              vi_checklist = (\<lambda>c. class_checklist (fn_red F) (rc_playbook cfg) (f_category c)),
              vi_max_tool_calls = rc_agent_max_tool_calls cfg, vi_max_seconds = rc_agent_max_seconds cfg,
              vi_deadline = deadline, vi_diff = d\<rparr> e (fresh_candidate (cs ! i))) v
        \<and> trim (vd_rationale v) \<noteq> [])"

text \<open>Every spawned validator finished, once.\<close>

definition all_finished :: "nat \<Rightarrow> validation_env \<Rightarrow> finding list \<Rightarrow> bool" where
  "all_finished deadline E cs =
     (length (vn_spawn_times E) = length cs \<and> distinct (map fst (vn_finished E))
      \<and> set (map fst (vn_finished E)) = {..<spawned_count deadline (vn_spawn_times E) cs})"

text \<open>Validation changes neither the identity of a candidate nor its duplicate mark.\<close>

definition identity :: "finding \<Rightarrow> string \<times> string \<times> string option" where
  "identity f = (f_file f, f_defect_key f, f_duplicate_of f)"

lemma identity_fid: "identity f = identity g \<Longrightarrow> fid H f = fid H g"
  by (simp add: identity_def fid_def)

lemma identity_updates [simp]:
  "identity (fresh_candidate c) = identity c" "identity (inconclusive r c) = identity c"
  "identity (c\<lparr>f_validated_fix := x\<rparr>) = identity c"
  "identity (apply_verdict red sens d t v c) = identity c"
  by (simp_all add: identity_def fresh_candidate_def inconclusive_def apply_verdict_def Let_def split: option.splits)

lemma map_update_identity: "identity y = identity (xs ! i) \<Longrightarrow> map identity (xs[i := y]) = map identity xs"
  by (cases "i < length xs") (simp_all add: map_update list_update_same_conv list_update_beyond)

lemma judge_identity: "judge red sens why d env result c0 = (c, ok, reason, outcome) \<Longrightarrow> identity c = identity c0"
  by (drule judge_cases) auto

lemma skip_identity: "map identity (vs_candidates (foldl (skip_one H phase wall now) r is)) = map identity (vs_candidates r)"
  by (induction "is" arbitrary: r) (simp_all add: skip_one_def Let_def map_update_identity)

lemma finish_one_identity:
  "map identity (vs_candidates (finish_one H red sens why pretty inp cs phase wall r x)) = map identity (vs_candidates r)"
proof -
  obtain i env where x: "x = (i, env)" by (cases x)
  obtain c ok reason outcome where j:
    "judge red sens why (vi_diff inp) env (validator_task pretty inp env (cs ! i)) (vs_candidates r ! i)
       = (c, ok, reason, outcome)" by (metis prod_cases4)
  show ?thesis using map_update_identity[OF judge_identity[OF j]] x j by (simp add: finish_one_def Let_def)
qed

lemma finish_identity:
  "map identity (vs_candidates (foldl (finish_one H red sens why pretty inp cs phase wall) r xs)) = map identity (vs_candidates r)"
  by (induction xs arbitrary: r) (simp_all add: finish_one_identity)

lemma run_validators_identity:
  "run_validators F cfg system recheck intent d deadline phase wall E cs phases = (out, reason, ps) \<Longrightarrow>
   map identity out = map identity cs"
  unfolding run_validators_def validate_candidates_def Let_def
  by (auto simp: finish_identity skip_identity comp_def split: option.splits)

lemma run_validators_sound:
  assumes r: "run_validators F cfg system recheck intent d deadline phase wall E cs phases = (out, reason, ps)"
    and E: "all_finished deadline E cs"
  shows "length out = length cs"
    and "i < length cs \<Longrightarrow> f_validation_status (out ! i) \<noteq> None"
    and "i < length cs \<Longrightarrow> f_validation_status (out ! i) = Some Accepted \<or> reason = None \<Longrightarrow>
      \<exists>v. verdict_of F cfg system recheck intent d deadline E cs i v \<and> f_validation_status (out ! i) = Some (vd_status v)"
proof -
  let ?inp = "\<lparr>vi_system = system, vi_intent = intent, vi_recheck = recheck,
        vi_checklist = (\<lambda>c. class_checklist (fn_red F) (rc_playbook cfg) (f_category c)),
        vi_max_tool_calls = rc_agent_max_tool_calls cfg, vi_max_seconds = rc_agent_max_seconds cfg,
        vi_deadline = deadline, vi_diff = d\<rparr>"
  have u: "validate_candidates (fn_H F) (fn_red F) (fn_sens F) (fn_why F) (fn_pretty F) ?inp phase wall
      (vn_spawn_times E) (vn_now E) (vn_finished E) cs phases = (out, reason, ps)"
    using r by (simp only: run_validators_def)
  have h: "length (vn_spawn_times E) = length cs" "distinct (map fst (vn_finished E))"
    "set (map fst (vn_finished E)) = {..<spawned_count (vi_deadline ?inp) (vn_spawn_times E) cs}"
    using E by (simp_all add: all_finished_def)
  note S = validate_candidates_sound[OF u h]
  show "length out = length cs"
    using run_validators_identity[OF r] map_eq_imp_length_eq by blast
  show "i < length cs \<Longrightarrow> f_validation_status (out ! i) \<noteq> None" using S[of i] by blast
  assume i: "i < length cs" and a: "f_validation_status (out ! i) = Some Accepted \<or> reason = None"
  then obtain e v where "(i, e) \<in> set (vn_finished E)"
    "judged_by (fn_why F) (validator_task (fn_pretty F) ?inp e (fresh_candidate (cs ! i))) v"
    "f_validation_status (out ! i) = Some (vd_status v)" "trim (vd_rationale v) \<noteq> []"
    using S[of i] by blast
  then show "\<exists>v. verdict_of F cfg system recheck intent d deadline E cs i v \<and> f_validation_status (out ! i) = Some (vd_status v)"
    using i unfolding verdict_of_def by blast
qed

section \<open>The findings of a run\<close>

abbreviation validated_findings ::
  "review_fns \<Rightarrow> review_config \<Rightarrow> prepared \<Rightarrow> finish_env \<Rightarrow> finding list \<Rightarrow> finding list"
where
  "validated_findings F cfg p env candidates \<equiv>
     fst (validate_gated F cfg p env (gate_candidates F cfg p candidates))"

lemma judged_from_canonical:
  assumes j: "j = judge_candidates F cfg p env candidates" and g: "g \<in> set (jd_findings j)"
  obtains h where "h \<in> set (canonicalize_findings (fn_H F)
        (validated_findings F cfg p env candidates @ reenter_findings (fn_H F) p))"
    "same_core h g" "is_publishable g \<Longrightarrow> is_publishable h" "rc_min_severity cfg \<le> f_severity h"
proof -
  define V where "V = validated_findings F cfg p env candidates"
  define C where "C = canonicalize_findings (fn_H F) (V @ reenter_findings (fn_H F) p)"
  define K where "K = filter (\<lambda>f. rc_min_severity cfg \<le> f_severity f) C"
  have js: "jd_findings j = (if rc_validate cfg
      then fst (dedup_run (fn_H F) (rc_run_max_requests cfg) (pr_deadline p) (pr_state p) (fn_dedup env) K) else K)"
    by (simp add: j judge_candidates_def Let_def threshold_def K_def C_def V_def split: prod.splits)
  have "\<exists>h\<in>set K. same_core h g \<and> (is_publishable g \<longrightarrow> is_publishable h)"
  proof (cases "rc_validate cfg")
    case True
    then obtain i where i: "i < length K"
      "g = fst (dedup_run (fn_H F) (rc_run_max_requests cfg) (pr_deadline p) (pr_state p) (fn_dedup env) K) ! i"
      using g js dedup_run_list(1) by (auto simp: in_set_conv_nth)
    then show ?thesis using dedup_run_list(2,3)[OF i(1)] nth_mem[OF i(1)] by metis
  next
    case False
    then have "g \<in> set K" using g js by simp
    then show ?thesis by (intro bexI[of _ g]) simp_all
  qed
  then obtain h where "h \<in> set C" "same_core h g" "is_publishable g \<longrightarrow> is_publishable h"
    "rc_min_severity cfg \<le> f_severity h" by (auto simp: K_def)
  with that show thesis by (simp add: C_def V_def)
qed

lemma same_core_facts:
  assumes "same_core a b"
  shows "f_severity b = f_severity a" "f_file b = f_file a" "f_start_line b = f_start_line a"
    "f_validation_status b = f_validation_status a" "fid H b = fid H a"
  using assms by (cases a; cases b; auto simp: same_core_def fid_def)+

text \<open>What \<open>finish\<close> returns.\<close>

lemma finish_result:
  assumes "finish F cfg p env candidates = Inr (rep, st)"
  defines "j \<equiv> judge_candidates F cfg p env candidates"
  shows "rr_findings rep = run_finals cfg p j"
    "pp_inline (rr_plan rep) = map (inline_of F) (inline_anchored (run_anchored cfg p j))"
    "rr_status rep = run_outcome j"
    "st = fst (run_state (fn_H F) cfg p j)"
    "pp_state (rr_plan rep) = public_projection (rc_publish_uncertain cfg) st"
proof -
  obtain st1 reopened where u: "run_state (fn_H F) cfg p j = (st1, reopened)" by fastforce
  have "rep = run_report_of F cfg p env j st1 reopened \<and> st = st1"
    using assms(1) u by (auto simp: finish_def Let_def j_def[symmetric] split: sum.splits)
  then show "rr_findings rep = run_finals cfg p j"
    "pp_inline (rr_plan rep) = map (inline_of F) (inline_anchored (run_anchored cfg p j))"
    "rr_status rep = run_outcome j"
    "st = fst (run_state (fn_H F) cfg p j)"
    "pp_state (rr_plan rep) = public_projection (rc_publish_uncertain cfg) st"
    using u by (auto simp: run_report_of_def Let_def)
qed

lemma anchored_from:
  assumes "a \<in> set (anchor d fs m lo)"
  obtains f where "f \<in> set fs" "well_anchored d lo f a"
proof -
  from assms obtain i where i: "i < length fs" "a = anchor d fs m lo ! i" by (auto simp: in_set_conv_nth)
  have "well_anchored d lo (fs ! i) a" using list_all2_nthD[OF anchor_well_placed i(1)] i(2) by metis
  then show thesis using that nth_mem[OF i(1)] by blast
qed

lemma well_anchored_facts:
  assumes "well_anchored d lo f a"
  shows "f_severity (an_finding a) = f_severity f" "is_publishable (an_finding a) = is_publishable f"
    "fid H (an_finding a) = fid H f" "f_file (an_finding a) = f_file f"
    "f_start_line (an_finding a) = f_start_line f"
    "f_validation_status (an_finding a) = f_validation_status f"
    "f_duplicate_of (an_finding a) = f_duplicate_of f"
    "an_placement a = Inline \<Longrightarrow> lo \<le> f_severity f \<and> on_head_side d (f_file f) (f_start_line f)"
proof -
  obtain n where e: "an_finding a = f\<lparr>f_end_line := n\<rparr>"
    using assms unfolding well_anchored_def by metis
  show "f_severity (an_finding a) = f_severity f" "is_publishable (an_finding a) = is_publishable f"
    "fid H (an_finding a) = fid H f" "f_file (an_finding a) = f_file f"
    "f_start_line (an_finding a) = f_start_line f"
    "f_validation_status (an_finding a) = f_validation_status f"
    "f_duplicate_of (an_finding a) = f_duplicate_of f"
    by (simp_all add: e is_publishable_def fid_def)
  show "an_placement a = Inline \<Longrightarrow> lo \<le> f_severity f \<and> on_head_side d (f_file f) (f_start_line f)"
    using assms by (simp add: well_anchored_def)
qed

lemma run_finals_from:
  assumes "f \<in> set (run_finals cfg p j)" "is_publishable f"
  obtains g where "g \<in> set (jd_findings j)" "is_publishable g" "fid H f = fid H g"
    "f_severity f = f_severity g" "f_validation_status f = f_validation_status g"
proof -
  from assms obtain a where a: "a \<in> set (run_anchored cfg p j)" "f = an_finding a"
    by (auto simp: run_finals_def)
  from a(1) obtain g where g: "g \<in> set (filter is_publishable (jd_findings j))"
    "well_anchored (pr_diff p) (rc_inline_min_severity cfg) g a"
    unfolding run_anchored_def by (rule anchored_from)
  show thesis by (rule that[of g]) (use g a(2) well_anchored_facts[OF g(2)] in auto)
qed

lemma inline_run_bound: "length (inline_anchored (run_anchored cfg p j)) \<le> rc_max_findings cfg"
proof -
  have "length (inline_anchored as) \<le> inline_count as" for as
    unfolding inline_anchored_def inline_count_def by (induction as) auto
  also have "inline_count (run_anchored cfg p j) \<le> rc_max_findings cfg"
    unfolding run_anchored_def by (simp add: anchor_inline_cap)
  finally show ?thesis .
qed

text \<open>Whatever the models answer, the plan of a run has at most the configured number of inline
  comments; each of them is the comment of a publishable finding of the report, which reaches both
  severity thresholds and stands on a head-side line of the reviewed diff; and no publishable finding
  of the report is below the minimum severity.\<close>

lemma finish_places_comments:
  assumes "finish F cfg p env candidates = Inr (rep, st)"
  shows "length (pp_inline (rr_plan rep)) \<le> rc_max_findings cfg
    \<and> (\<forall>c\<in>set (pp_inline (rr_plan rep)). \<exists>f\<in>set (rr_findings rep).
         is_publishable f \<and> ic_file c = f_file f \<and> ic_line c = f_start_line f
         \<and> ic_body c = finding_body (fn_red F) (fn_H F) f
         \<and> rc_inline_min_severity cfg \<le> f_severity f
         \<and> on_head_side (pr_diff p) (f_file f) (f_start_line f))
    \<and> (\<forall>f\<in>set (rr_findings rep). is_publishable f \<longrightarrow> rc_min_severity cfg \<le> f_severity f)"
proof -
  define j where "j = judge_candidates F cfg p env candidates"
  note R = finish_result[OF assms, folded j_def]
  have "length (pp_inline (rr_plan rep)) \<le> rc_max_findings cfg"
    using inline_run_bound by (simp add: R(2))
  moreover have "\<exists>f\<in>set (rr_findings rep). is_publishable f \<and> ic_file c = f_file f \<and> ic_line c = f_start_line f
      \<and> ic_body c = finding_body (fn_red F) (fn_H F) f \<and> rc_inline_min_severity cfg \<le> f_severity f
      \<and> on_head_side (pr_diff p) (f_file f) (f_start_line f)"
    if c: "c \<in> set (pp_inline (rr_plan rep))" for c
  proof -
    from c obtain a where a: "a \<in> set (run_anchored cfg p j)" "an_placement a = Inline" "c = inline_of F a"
      by (auto simp: R(2) inline_anchored_def)
    from a(1) obtain g where g: "g \<in> set (filter is_publishable (jd_findings j))"
      "well_anchored (pr_diff p) (rc_inline_min_severity cfg) g a"
      unfolding run_anchored_def by (rule anchored_from)
    have "an_finding a \<in> set (rr_findings rep)" using a(1) by (simp add: R(1) run_finals_def)
    then show ?thesis
      by (rule bexI[rotated]) (use well_anchored_facts[OF g(2)] g(1) a(2,3) in \<open>simp add: inline_of_def Let_def\<close>)
  qed
  moreover have "rc_min_severity cfg \<le> f_severity f"
    if f: "f \<in> set (rr_findings rep)" "is_publishable f" for f
  proof -
    from f obtain g where g: "g \<in> set (jd_findings j)" "f_severity f = f_severity g"
      unfolding R(1) by (rule run_finals_from) blast
    from j_def g(1) obtain h where "same_core h g" "rc_min_severity cfg \<le> f_severity h"
      by (rule judged_from_canonical) blast
    then show ?thesis using g(2) same_core_facts(1)[of h g] by simp
  qed
  ultimately show ?thesis by blast
qed

section \<open>Verdicts behind what is published\<close>

abbreviation run_verdict ::
  "review_fns \<Rightarrow> review_config \<Rightarrow> prepared \<Rightarrow> finish_env \<Rightarrow> finding list \<Rightarrow> nat \<Rightarrow> verdict_rec \<Rightarrow> bool"
where
  "run_verdict F cfg p env candidates i v \<equiv>
     verdict_of F cfg (fn_prompt env) False (pr_stated_intent p) (pr_diff p) (pr_deadline p) (fn_validators env)
       (gate_candidates F cfg p candidates) i v"

lemma validated_accepted:
  assumes E: "all_finished (pr_deadline p) (fn_validators env) (gate_candidates F cfg p candidates)"
    and x: "x \<in> set (validated_findings F cfg p env candidates)" "is_publishable x"
  obtains i v where "rc_validate cfg" "i < length (gate_candidates F cfg p candidates)"
    "run_verdict F cfg p env candidates i v" "vd_status v = Accepted"
    "fid (fn_H F) x = fid (fn_H F) (gate_candidates F cfg p candidates ! i)"
proof -
  let ?cs = "gate_candidates F cfg p candidates"
  have val: "rc_validate cfg"
  proof (rule ccontr)
    assume "\<not> rc_validate cfg"
    then have "x \<in> set (map evaluation_only ?cs)" using x(1) by (simp add: validate_gated_def)
    then show False using x(2) by (auto simp: evaluation_only_def is_publishable_def)
  qed
  have ne: "?cs \<noteq> []" using x(1) val by (auto simp: validate_gated_def)
  obtain out reason ps where r:
    "run_validators F cfg (fn_prompt env) False (pr_stated_intent p) (pr_diff p) (pr_deadline p) ''validate''
       (pr_wall p) (fn_validators env) ?cs (pr_phases p) = (out, reason, ps)" by (metis prod_cases3)
  have "validated_findings F cfg p env candidates = out" using val ne r by (simp add: validate_gated_def)
  then obtain i where i: "i < length out" "x = out ! i" using x(1) by (auto simp: in_set_conv_nth)
  note S = run_validators_sound[OF r E]
  have il: "i < length ?cs" using i(1) S(1) by simp
  have acc: "f_validation_status (out ! i) = Some Accepted" using x(2) i(2) by (simp add: is_publishable_def)
  obtain v where v: "run_verdict F cfg p env candidates i v" "f_validation_status (out ! i) = Some (vd_status v)"
    using S(3)[OF il] acc by blast
  have "identity (out ! i) = identity (?cs ! i)"
    using run_validators_identity[OF r] il i(1) by (metis nth_map)
  then have "fid (fn_H F) x = fid (fn_H F) (?cs ! i)" using identity_fid i(2) by blast
  with that val il v acc show thesis by simp
qed

lemma publishable_source:
  assumes f: "finish F cfg p env candidates = Inr (rep, st)" "f \<in> set (rr_findings rep)" "is_publishable f"
  obtains x where "x \<in> set (validated_findings F cfg p env candidates) \<union> set (reenter_findings (fn_H F) p)"
    "is_publishable x" "fid (fn_H F) x = fid (fn_H F) f"
proof -
  define j where "j = judge_candidates F cfg p env candidates"
  note R = finish_result[OF f(1), folded j_def]
  from f(2,3) obtain g where g: "g \<in> set (jd_findings j)" "is_publishable g" "fid (fn_H F) f = fid (fn_H F) g"
    unfolding R(1) by (rule run_finals_from) blast
  from j_def g(1) obtain h where h: "h \<in> set (canonicalize_findings (fn_H F)
        (validated_findings F cfg p env candidates @ reenter_findings (fn_H F) p))" "same_core h g" "is_publishable h"
    by (rule judged_from_canonical) (use g(2) in blast)
  have "\<exists>x\<in>set (validated_findings F cfg p env candidates @ reenter_findings (fn_H F) p).
      fid (fn_H F) x = fid (fn_H F) h \<and> is_publishable x"
    using canonicalize_canonical[of "fn_H F" "validated_findings F cfg p env candidates @ reenter_findings (fn_H F) p"]
      h(1,3) by (auto simp: canonical_def)
  then show thesis using that g(3) same_core_facts(5)[OF h(2)] by auto
qed


lemma judge_reasons:
  assumes "j = judge_candidates F cfg p env candidates"
  shows "jd_reasons j = pr_partial_reasons p @
      fst (snd (validate_gated F cfg p env (gate_candidates F cfg p candidates)))"
  using assms by (simp add: judge_candidates_def Let_def split: prod.splits)


section \<open>Evaluation runs\<close>

definition unmarked :: "finding list \<Rightarrow> bool" where
  "unmarked fs = list_all (\<lambda>f. f_duplicate_of f = None) fs"

lemma collapse_step_unmarked:
  "unmarked out \<Longrightarrow> f_duplicate_of c = None \<Longrightarrow> unmarked (collapse_step U out c)"
proof -
  assume out: "unmarked out" and c: "f_duplicate_of c = None"
  show ?thesis
  proof (cases "position (same_defect U (with_own_source c)) out")
    case None
    then show ?thesis using out c by (simp add: unmarked_def collapse_step_def Let_def with_own_source_def)
  next
    case (Some i)
    then have "out ! i \<in> set out" using position_lt[of _ out i] by simp
    then have "f_duplicate_of (merge_into (with_own_source c) (out ! i)) = None"
      using out by (simp add: unmarked_def list_all_iff merge_into_def)
    then have "f_duplicate_of x = None" if "x \<in> set (out[i := merge_into (with_own_source c) (out ! i)])" for x
      using that out set_update_subset_insert[of out i] by (auto simp: unmarked_def list_all_iff)
    then show ?thesis using Some by (simp add: unmarked_def list_all_iff collapse_step_def Let_def)
  qed
qed

lemma collapse_unmarked: "unmarked cs \<Longrightarrow> unmarked (collapse U cs)"
proof -
  have "unmarked out \<Longrightarrow> unmarked cs \<Longrightarrow> unmarked (foldl (collapse_step U) out cs)" for out
  proof (induction cs arbitrary: out)
    case (Cons c cs)
    then show ?case using collapse_step_unmarked[of out c U] by (simp add: unmarked_def)
  qed simp
  then show "unmarked cs \<Longrightarrow> unmarked (collapse U cs)" by (simp add: collapse_def unmarked_def)
qed

lemma gate_unmarked: "unmarked cs \<Longrightarrow> unmarked (gate_candidates F cfg p cs)"
  using collapse_unmarked[of cs "fn_U F"] by (auto simp: gate_candidates_def Let_def unmarked_def list_all_iff)

text \<open>With validation disabled a run is an evaluation only: it publishes no inline comment, calls no
  finding accepted, and leaves the stored state as it was.\<close>

theorem evaluation_publishes_nothing:
  assumes off: "\<not> rc_validate cfg" and rec: "pr_rechecks p = []" and cs: "unmarked candidates"
  shows "\<exists>rep. finish F cfg p env candidates = Inr (rep, pr_state p)
    \<and> pp_inline (rr_plan rep) = [] \<and> list_all (\<lambda>f. \<not> is_publishable f) (rr_findings rep)"
proof -
  define j where "j = judge_candidates F cfg p env candidates"
  have "\<exists>rep st. finish F cfg p env candidates = Inr (rep, st)"
    using off by (auto simp: finish_def Let_def split: prod.splits)
  then obtain rep st where f: "finish F cfg p env candidates = Inr (rep, st)" by blast
  note R = finish_result[OF f, folded j_def]
  let ?V = "validated_findings F cfg p env candidates"
  have re: "reenter_findings (fn_H F) p = []" by (simp add: reenter_findings_def rec)
  have V: "?V = map evaluation_only (gate_candidates F cfg p candidates)" using off by (simp add: validate_gated_def)
  then have Vn: "\<forall>x\<in>set ?V. f_validation_status x = None \<and> f_duplicate_of x = None"
    using gate_unmarked[OF cs, of F cfg p] by (auto simp: evaluation_only_def unmarked_def list_all_iff)
  have jn: "f_validation_status g = None \<and> f_duplicate_of g = None" if g: "g \<in> set (jd_findings j)" for g
  proof -
    have js: "jd_findings j = filter (\<lambda>f. rc_min_severity cfg \<le> f_severity f) (canonicalize_findings (fn_H F) ?V)"
      using off re by (simp add: j_def judge_candidates_def Let_def threshold_def split: prod.splits)
    then obtain x where "x \<in> set ?V" "same_judgment x g"
      using g canonicalize_canonical[of "fn_H F" ?V] by (auto simp: canonical_def)
    then show ?thesis using Vn same_judgment_facts[of x g] by auto
  qed
  then have np: "filter is_publishable (jd_findings j) = []" by (auto simp: filter_empty_conv is_publishable_def)
  then have an: "run_anchored cfg p j = []" by (simp add: run_anchored_def anchor_def Let_def inline_order_def)
  have fin: "rr_findings rep = filter (\<lambda>f. \<not> is_publishable f) (jd_findings j)"
    by (simp add: R(1) run_finals_def an)
  have "filter (\<lambda>f. f_duplicate_of f \<noteq> None) (rr_findings rep) = []"
    using jn by (auto simp: fin filter_empty_conv)
  then have "st = pr_state p" using off R(1,4) by (simp add: run_state_def update_state_def Let_def)
  moreover have "pp_inline (rr_plan rep) = []" by (simp add: R(2) an inline_anchored_def)
  moreover have "list_all (\<lambda>f. \<not> is_publishable f) (rr_findings rep)" by (auto simp: fin list_all_iff)
  ultimately show ?thesis using f by blast
qed

end
