(* ===== verification/Lane_Props.thy ===== *)
theory Lane_Props
  imports Delegated Review_Props
begin

text \<open>
  What the lanes of a strategy may change of the prepared run, that none of them can fail silently,
  and the properties of a whole review, whatever its strategy.
\<close>

section \<open>The frame of a lane\<close>

text \<open>A lane keeps the diff, the stored state, the rechecked findings and the deadline; it only adds
  reasons.\<close>

definition lane_frame :: "prepared \<Rightarrow> prepared \<Rightarrow> bool" where
  "lane_frame p q =
     (pr_diff q = pr_diff p \<and> pr_state q = pr_state p \<and> pr_rechecks q = pr_rechecks p
      \<and> pr_deadline q = pr_deadline p \<and> pr_stated_intent q = pr_stated_intent p
      \<and> prefix (pr_partial_reasons p) (pr_partial_reasons q))"

named_theorems frame_intros

lemma lane_frame_refl [simp, intro]: "lane_frame p p"
  by (simp add: lane_frame_def)

lemma lane_frame_trans [trans]: "lane_frame p q \<Longrightarrow> lane_frame q r \<Longrightarrow> lane_frame p r"
  by (auto simp: lane_frame_def intro: prefix_order.trans)

lemma lane_frame_silent: "lane_frame p q \<Longrightarrow> pr_partial_reasons q = [] \<Longrightarrow> pr_partial_reasons p = []"
  by (simp add: lane_frame_def)

lemma add_reason_frame [frame_intros]: "lane_frame p q \<Longrightarrow> lane_frame p (add_reason r q)"
  by (auto simp: lane_frame_def add_reason_def intro: prefix_order.trans)

lemma add_phase_frame [frame_intros]: "lane_frame p q \<Longrightarrow> lane_frame p (add_phase a b c d e q)"
  by (simp add: lane_frame_def add_phase_def)

lemma count_malformed_frame [frame_intros]: "lane_frame p q \<Longrightarrow> lane_frame p (count_malformed n q)"
  by (simp add: lane_frame_def count_malformed_def)

lemma note_repaired_frame [frame_intros]: "lane_frame p q \<Longrightarrow> lane_frame p (note_repaired b q)"
  by (simp add: lane_frame_def note_repaired_def)

lemma coverage_frame [frame_intros]: "lane_frame p q \<Longrightarrow> lane_frame p (q\<lparr>pr_coverage := c\<rparr>)"
  by (simp add: lane_frame_def)

lemma gaps_frame [frame_intros]: "lane_frame p q \<Longrightarrow> lane_frame p (q\<lparr>pr_coverage_gaps := c\<rparr>)"
  by (simp add: lane_frame_def)

lemma note_frame [frame_intros]: "lane_frame p q \<Longrightarrow> lane_frame p (q\<lparr>pr_report_note := c\<rparr>)"
  by (simp add: lane_frame_def)

lemma note_unchecked_frame [frame_intros]: "lane_frame p q \<Longrightarrow> lane_frame p (note_unchecked w u q)"
  by (simp add: note_unchecked_def gaps_frame add_reason_frame)

lemma skipped_reason_frame [frame_intros]: "lane_frame p q \<Longrightarrow> lane_frame p (skipped_reason n q)"
  by (simp add: skipped_reason_def add_reason_frame)

lemma silent_add_reason [simp]: "pr_partial_reasons (add_reason r p) \<noteq> []"
  by (simp add: add_reason_def)

lemma reasons_simps [simp]:
  "pr_partial_reasons (add_phase a b c d e p) = pr_partial_reasons p"
  "pr_partial_reasons (count_malformed n p) = pr_partial_reasons p"
  "pr_partial_reasons (note_repaired x p) = pr_partial_reasons p"
  by (simp_all add: add_phase_def count_malformed_def note_repaired_def)

lemma note_unchecked_silent [simp]:
  "pr_partial_reasons (note_unchecked w u p) = [] \<longleftrightarrow> u = [] \<and> pr_partial_reasons p = []"
  using silent_add_reason by (auto simp: note_unchecked_def)

section \<open>Submissions\<close>

text \<open>A submission that reports nothing unchecked and whose list of findings is well formed.\<close>

definition complete_submission :: "review_fns \<Rightarrow> json \<Rightarrow> bool" where
  "complete_submission F args =
     (parse_not_checked args = [] \<and> pf_problem (parse_findings_checked (fn_why F) args) = None)"

text \<open>An agent that ended with such a submission.\<close>

definition submitted_all :: "review_fns \<Rightarrow> agent_run \<Rightarrow> bool" where
  "submitted_all F r =
     (case submission_call r of None \<Rightarrow> False | Some call \<Rightarrow> complete_submission F (tc_arguments call))"

lemma take_submission_frame:
  assumes "take_submission F who source args p = (p', fs, o')"
  shows "lane_frame p p'" "pr_partial_reasons p' = [] \<longleftrightarrow> pr_partial_reasons p = [] \<and> complete_submission F args"
  using assms
  by (auto simp: take_submission_def Let_def complete_submission_def intro!: frame_intros split: option.splits)

lemma scout_result_frame:
  assumes "scout_result F focus run p = (p', fs, o')"
  shows "lane_frame p p'"
    and "pr_partial_reasons p' = [] \<longleftrightarrow>
      pr_partial_reasons p = [] \<and> (case run of Some (Inr r) \<Rightarrow> submitted_all F r | _ \<Rightarrow> False)"
proof -
  have "lane_frame p p' \<and> (pr_partial_reasons p' = [] \<longleftrightarrow>
      pr_partial_reasons p = [] \<and> (case run of Some (Inr r) \<Rightarrow> submitted_all F r | _ \<Rightarrow> False))"
  proof (cases "\<exists>r call. run = Some (Inr r) \<and> submission_call r = Some call")
    case True
    then obtain r call where r: "run = Some (Inr r)" "submission_call r = Some call" by blast
    then have "take_submission F (''scout '' @ focus) (''panel:'' @ focus) (tc_arguments call)
        (note_repaired (ar_repaired r) p) = (p', fs, o')"
      using assms by (simp add: scout_result_def Let_def)
    from take_submission_frame[OF this] r show ?thesis
      using lane_frame_trans[OF note_repaired_frame[OF lane_frame_refl]] by (simp add: submitted_all_def)
  next
    case False
    then show ?thesis using assms silent_add_reason
      by (auto simp: scout_result_def Let_def submitted_all_def intro!: frame_intros
          split: option.splits sum.splits)
  qed
  then show "lane_frame p p'" "pr_partial_reasons p' = [] \<longleftrightarrow>
      pr_partial_reasons p = [] \<and> (case run of Some (Inr r) \<Rightarrow> submitted_all F r | _ \<Rightarrow> False)" by auto
qed

lemma investigator_result_frame:
  assumes "investigator_result F run p = (p', fs, o')"
  shows "lane_frame p p'"
    and "pr_partial_reasons p' = [] \<longleftrightarrow> pr_partial_reasons p = [] \<and> submitted_all F run"
proof -
  have "lane_frame p p' \<and> (pr_partial_reasons p' = [] \<longleftrightarrow> pr_partial_reasons p = [] \<and> submitted_all F run)"
  proof (cases "submission_call run")
    case None
    then show ?thesis using assms silent_add_reason
      by (auto simp: investigator_result_def Let_def submitted_all_def intro!: frame_intros)
  next
    case (Some call)
    then have "take_submission F ''investigator'' ''investigator'' (tc_arguments call)
        ((note_repaired (ar_repaired run) p)\<lparr>pr_coverage := str_or ''(none)'' (jidx (tc_arguments call) ''coverage'')\<rparr>)
        = (p', fs, o')"
      using assms by (simp add: investigator_result_def Let_def)
    from take_submission_frame[OF this] Some show ?thesis
      using lane_frame_trans[OF coverage_frame[OF note_repaired_frame[OF lane_frame_refl]]]
      by (simp add: submitted_all_def)
  qed
  then show "lane_frame p p'" "pr_partial_reasons p' = [] \<longleftrightarrow> pr_partial_reasons p = [] \<and> submitted_all F run"
    by auto
qed

lemma investigate_frame:
  assumes "investigate F T cfg req env p = Inr (p', fs)"
  obtains sys user lim r where "la_run env sys user lim = Some (Inr r)" "lane_frame p p'"
    "pr_partial_reasons p' = [] \<Longrightarrow> submitted_all F r"
proof -
  from assms obtain sys user lim r where run: "la_run env sys user lim = Some (Inr r)"
    and p': "(let (q, candidates, outcome) = investigator_result F r p in
        (add_phase ''lane'' ''investigator'' (la_start env) outcome (la_end env) q, candidates)) = (p', fs)"
    unfolding investigate_def Let_def by (auto split: sum.splits option.splits prod.splits)
  obtain q o' where "investigator_result F r p = (q, fs, o')"
    "p' = add_phase ''lane'' ''investigator'' (la_start env) o' (la_end env) q"
    using p' by (auto split: prod.splits)
  with investigator_result_frame[OF this(1)] run that show thesis by (simp add: add_phase_frame)
qed

section \<open>The lanes of a panel\<close>

text \<open>The scout of a lane was started and ended with a complete submission.\<close>

definition lane_heard ::
  "review_fns \<Rightarrow> u32 \<Rightarrow> nat \<Rightarrow> nat \<times> lane_env \<Rightarrow> bool"
where
  "lane_heard F max_requests deadline x =
     (la_requests (snd x) < max_requests \<and> la_start (snd x) < deadline
      \<and> (\<exists>sys user lim r. la_run (snd x) sys user lim = Some (Inr r) \<and> submitted_all F r))"

lemma lane_task_heard:
  assumes "lane_task m deadline env sys user lim = Some (Some (Inr r))"
  shows "la_requests env < m" "la_start env < deadline" "la_run env sys user lim = Some (Inr r)"
  using assms by (auto simp: lane_task_def split: if_splits sum.splits)

lemma scout_done_step:
  assumes t: "t = scout_done F T cfg calls user deadline lanes x s"
  shows "lane_frame (ps_prepared s) (ps_prepared t)" "ps_skipped s \<le> ps_skipped t"
    and "pr_partial_reasons (ps_prepared t) = [] \<Longrightarrow> ps_skipped t = 0 \<Longrightarrow>
      lane_heard F (rc_run_max_requests cfg) deadline x"
proof -
  obtain i env where x: "x = (i, env)" by (cases x)
  define run where "run = lane_task (rc_run_max_requests cfg) deadline env (scout_system F T cfg (fst (lanes ! i)))
     user (clamp_budget calls (rc_agent_max_seconds cfg) deadline (la_start env))"
  have "lane_frame (ps_prepared s) (ps_prepared t) \<and> ps_skipped s \<le> ps_skipped t
    \<and> (pr_partial_reasons (ps_prepared t) = [] \<longrightarrow> ps_skipped t = 0 \<longrightarrow>
        lane_heard F (rc_run_max_requests cfg) deadline x)"
  proof (cases run)
    case None
    then show ?thesis by (simp add: t x scout_done_def Let_def run_def add_phase_frame)
  next
    case (Some res)
    obtain p' fs o' where r: "scout_result F (fst (lanes ! i)) res (ps_prepared s) = (p', fs, o')"
      by (metis prod_cases3)
    have tt: "t = s\<lparr>ps_prepared := add_phase ''lane'' (''panel:'' @ fst (lanes ! i)) (la_start env) o' (la_end env) p',
        ps_raw := ps_raw s @ fs\<rparr>"
      using Some r by (simp add: t x scout_done_def Let_def run_def)
    have "lane_heard F (rc_run_max_requests cfg) deadline x" if silent: "pr_partial_reasons p' = []"
    proof -
      from silent scout_result_frame(2)[OF r] obtain a where a: "res = Some (Inr a)" "submitted_all F a"
        by (auto split: option.splits sum.splits)
      show ?thesis using lane_task_heard[OF Some[unfolded run_def a(1)]] a(2)
        unfolding lane_heard_def x snd_conv by blast
    qed
    then show ?thesis using scout_result_frame(1)[OF r] by (simp add: tt add_phase_frame)
  qed
  then show "lane_frame (ps_prepared s) (ps_prepared t)" "ps_skipped s \<le> ps_skipped t"
    "pr_partial_reasons (ps_prepared t) = [] \<Longrightarrow> ps_skipped t = 0 \<Longrightarrow>
      lane_heard F (rc_run_max_requests cfg) deadline x" by blast+
qed

lemma scouts_fold:
  assumes "t = fold (scout_done F T cfg calls user deadline lanes) envs s"
  shows "lane_frame (ps_prepared s) (ps_prepared t) \<and> ps_skipped s \<le> ps_skipped t
    \<and> (pr_partial_reasons (ps_prepared t) = [] \<longrightarrow> ps_skipped t = 0 \<longrightarrow>
        (\<forall>x\<in>set envs. lane_heard F (rc_run_max_requests cfg) deadline x))"
  using assms
proof (induction envs arbitrary: s)
  case (Cons x envs)
  define m where "m = scout_done F T cfg calls user deadline lanes x s"
  note S = scout_done_step[OF m_def]
  have IH: "lane_frame (ps_prepared m) (ps_prepared t) \<and> ps_skipped m \<le> ps_skipped t
    \<and> (pr_partial_reasons (ps_prepared t) = [] \<longrightarrow> ps_skipped t = 0 \<longrightarrow>
        (\<forall>x\<in>set envs. lane_heard F (rc_run_max_requests cfg) deadline x))"
    using Cons by (simp add: m_def)
  have "lane_heard F (rc_run_max_requests cfg) deadline x"
    if "pr_partial_reasons (ps_prepared t) = []" "ps_skipped t = 0"
    using S(3) lane_frame_silent[OF conjunct1[OF IH] that(1)] IH that(2) by simp
  then show ?case using IH S(1,2) lane_frame_trans by auto
qed simp

lemma panel_lanes_frame:
  assumes "panel_lanes F T cfg req scouts calls envs p = Inr (p', raw)"
  shows "lane_frame p p'"
    and "pr_partial_reasons p' = [] \<Longrightarrow>
      \<forall>x\<in>set envs. lane_heard F (rc_run_max_requests cfg) (investigation_deadline p) x"
proof -
  from assms obtain lanes user t rnote cov where
    t: "t = fold (scout_done F T cfg calls user (investigation_deadline p) lanes) envs
           \<lparr>ps_prepared = p, ps_raw = [], ps_skipped = 0\<rparr>"
    and p': "p' = (skipped_reason (ps_skipped t) (ps_prepared t))\<lparr>pr_report_note := rnote, pr_coverage := cov\<rparr>"
    unfolding panel_lanes_def Let_def by (auto split: sum.splits)
  note S = scouts_fold[OF t]
  show "lane_frame p p'" unfolding p' by (intro frame_intros) (use S in simp)
  assume "pr_partial_reasons p' = []"
  then have "pr_partial_reasons (ps_prepared t) = []" "ps_skipped t = 0"
    by (simp_all add: p' skipped_reason_def split: if_splits)
  with S show "\<forall>x\<in>set envs. lane_heard F (rc_run_max_requests cfg) (investigation_deadline p) x" by blast
qed

lemma complete_run_reasons:
  assumes "finish F cfg p env candidates = Inr (rep, st)" and "rr_status rep = Complete"
  shows "pr_partial_reasons p = []"
proof -
  define j where "j = judge_candidates F cfg p env candidates"
  note R = finish_result[OF assms(1), folded j_def]
  have "jd_reasons j = []" using R(3) assms(2) by (auto simp: run_outcome_def split: if_splits)
  then show ?thesis using judge_reasons[OF j_def] by simp
qed


section \<open>The delegated strategy\<close>

lemma note_blocked_frame [frame_intros]: "lane_frame p q \<Longrightarrow> lane_frame p (note_blocked i m r q)"
  by (simp add: note_blocked_def add_reason_frame)

lemma note_blocked_silent [simp]:
  "pr_partial_reasons (note_blocked i m r p) = [] \<longleftrightarrow> wr_result r \<noteq> ''blocked'' \<and> pr_partial_reasons p = []"
  using silent_add_reason by (auto simp: note_blocked_def)

text \<open>The worker of a lane was started and submitted a result that is not \<open>blocked\<close>.\<close>

definition worker_answered :: "u32 \<Rightarrow> nat \<Rightarrow> nat \<times> lane_env \<Rightarrow> bool" where
  "worker_answered max_requests deadline x =
     (la_requests (snd x) < max_requests \<and> la_start (snd x) < deadline
      \<and> (\<exists>sys user lim r call. la_run (snd x) sys user lim = Some (Inr r) \<and> ar_final_call r = Some call
           \<and> str_or ''answered'' (jidx (tc_arguments call) ''result'') \<noteq> ''blocked''))"

lemma worker_result_answered:
  assumes "worker_result pj F qid run = Some (w, o')" "wr_result w \<noteq> ''blocked''"
  obtains r call where "run = Some (Inr r)" "ar_final_call r = Some call"
    "str_or ''answered'' (jidx (tc_arguments call) ''result'') \<noteq> ''blocked''"
  using assms
  by (auto simp: worker_result_def submitted_report_def blocked_def Let_def split: option.splits sum.splits)

lemma worker_done_step:
  assumes t: "worker_done pj F T cfg dc p0 qs x (Some s) = Some t"
  shows "lane_frame (wk_prepared s) (wk_prepared t)" "wk_skipped s \<le> wk_skipped t"
    and "pr_partial_reasons (wk_prepared t) = [] \<Longrightarrow> wk_skipped t = 0 \<Longrightarrow>
      worker_answered (rc_run_max_requests cfg) (investigation_deadline p0) x"
proof -
  obtain i env where x: "x = (i, env)" by (cases x)
  let ?deadline = "investigation_deadline p0"
  define run where "run = lane_task (rc_run_max_requests cfg) ?deadline env
     (pt_worker T @ nl @ nl @ classes_block (fn_red F) (rc_playbook cfg)) (question_text F cfg p0 i (qs ! i))
     (clamp_budget (dc_worker_max_tool_calls dc) (dc_worker_max_seconds dc) ?deadline (la_start env))"
  have "lane_frame (wk_prepared s) (wk_prepared t) \<and> wk_skipped s \<le> wk_skipped t
    \<and> (pr_partial_reasons (wk_prepared t) = [] \<longrightarrow> wk_skipped t = 0 \<longrightarrow>
        worker_answered (rc_run_max_requests cfg) ?deadline x)"
  proof (cases run)
    case None
    then show ?thesis using t by (auto simp: x worker_done_def Let_def run_def add_phase_frame)
  next
    case (Some res)
    then obtain w o' label model where w: "worker_result pj F (question_id i (qs ! i)) res = Some (w, o')"
      and tt: "t = s\<lparr>wk_prepared := note_blocked i model w (add_phase ''lane'' label (la_start env) o' (la_end env) (wk_prepared s)),
          wk_reports := wk_reports s @ [w]\<rparr>"
      using t by (auto simp: x worker_done_def Let_def run_def split: option.splits)
    have "worker_answered (rc_run_max_requests cfg) ?deadline x" if open_question: "wr_result w \<noteq> ''blocked''"
    proof -
      obtain a call where a: "res = Some (Inr a)" "ar_final_call a = Some call"
        "str_or ''answered'' (jidx (tc_arguments call) ''result'') \<noteq> ''blocked''"
        by (rule worker_result_answered[OF w open_question])
      show ?thesis using lane_task_heard[OF Some[unfolded run_def a(1)]] a(2,3)
        unfolding worker_answered_def x snd_conv by blast
    qed
    then show ?thesis by (simp add: tt note_blocked_frame add_phase_frame)
  qed
  then show "lane_frame (wk_prepared s) (wk_prepared t)" "wk_skipped s \<le> wk_skipped t"
    "pr_partial_reasons (wk_prepared t) = [] \<Longrightarrow> wk_skipped t = 0 \<Longrightarrow>
      worker_answered (rc_run_max_requests cfg) (investigation_deadline p0) x" by blast+
qed

lemma worker_done_panic: "fold (worker_done pj F T cfg dc p0 qs) envs None = None"
  by (induction envs) (simp_all add: worker_done_def)

lemma workers_fold:
  assumes "fold (worker_done pj F T cfg dc p0 qs) envs (Some s) = Some t"
  shows "lane_frame (wk_prepared s) (wk_prepared t) \<and> wk_skipped s \<le> wk_skipped t
    \<and> (pr_partial_reasons (wk_prepared t) = [] \<longrightarrow> wk_skipped t = 0 \<longrightarrow>
        (\<forall>x\<in>set envs. worker_answered (rc_run_max_requests cfg) (investigation_deadline p0) x))"
  using assms
proof (induction envs arbitrary: s)
  case (Cons x envs)
  obtain m where m: "worker_done pj F T cfg dc p0 qs x (Some s) = Some m"
    using Cons.prems worker_done_panic by (cases "worker_done pj F T cfg dc p0 qs x (Some s)") auto
  note S = worker_done_step[OF m]
  have IH: "lane_frame (wk_prepared m) (wk_prepared t) \<and> wk_skipped m \<le> wk_skipped t
    \<and> (pr_partial_reasons (wk_prepared t) = [] \<longrightarrow> wk_skipped t = 0 \<longrightarrow>
        (\<forall>x\<in>set envs. worker_answered (rc_run_max_requests cfg) (investigation_deadline p0) x))"
    using Cons m by simp
  have "worker_answered (rc_run_max_requests cfg) (investigation_deadline p0) x"
    if "pr_partial_reasons (wk_prepared t) = []" "wk_skipped t = 0"
    using S(3) lane_frame_silent[OF conjunct1[OF IH] that(1)] IH that(2) by simp
  then show ?case using IH S(1,2) lane_frame_trans by auto
qed simp

lemma run_workers_frame:
  assumes "run_workers pj F T cfg dc E qs p = Some (p', rs)"
  shows "lane_frame p p'"
    and "pr_partial_reasons p' = [] \<Longrightarrow>
      \<forall>x\<in>set (dg_workers E). worker_answered (rc_run_max_requests cfg) (investigation_deadline p) x"
proof -
  from assms obtain t where
    t: "fold (worker_done pj F T cfg dc p qs) (dg_workers E) (Some \<lparr>wk_prepared = p, wk_reports = [], wk_skipped = 0\<rparr>) = Some t"
    and p': "\<exists>gaps. p' = (skipped_reason (wk_skipped t) (wk_prepared t))\<lparr>pr_coverage_gaps := gaps\<rparr>"
    unfolding run_workers_def Let_def by (auto split: option.splits)
  note S = workers_fold[OF t]
  from p' obtain gaps where p': "p' = (skipped_reason (wk_skipped t) (wk_prepared t))\<lparr>pr_coverage_gaps := gaps\<rparr>" ..
  show "lane_frame p p'" unfolding p' by (intro frame_intros) (use S in simp)
  assume "pr_partial_reasons p' = []"
  then have "pr_partial_reasons (wk_prepared t) = []" "wk_skipped t = 0"
    by (simp_all add: p' skipped_reason_def split: if_splits)
  with S show "\<forall>x\<in>set (dg_workers E). worker_answered (rc_run_max_requests cfg) (investigation_deadline p) x"
    by blast
qed

text \<open>The lead read the reports and ended with a complete submission.\<close>

definition lead_answered :: "review_fns \<Rightarrow> lane_env \<Rightarrow> bool" where
  "lead_answered F env =
     (\<exists>sys user lim r call. la_run env sys user lim = Some (Inr r) \<and> submission_call r = Some call
        \<and> lead_unchecked (tc_arguments call) = []
        \<and> pf_problem (parse_findings_checked (fn_why F) (tc_arguments call)) = None)"

lemma synthesis_result_frame:
  assumes "synthesis_result F rs run p = (p', fs)"
  shows "lane_frame p p'"
    and "pr_partial_reasons p' = [] \<Longrightarrow> \<exists>call. submission_call run = Some call
        \<and> lead_unchecked (tc_arguments call) = []
        \<and> pf_problem (parse_findings_checked (fn_why F) (tc_arguments call)) = None"
proof -
  show "lane_frame p p'"
    using assms by (auto simp: synthesis_result_def Let_def intro!: frame_intros split: option.splits)
  show "pr_partial_reasons p' = [] \<Longrightarrow> \<exists>call. submission_call run = Some call
        \<and> lead_unchecked (tc_arguments call) = []
        \<and> pf_problem (parse_findings_checked (fn_why F) (tc_arguments call)) = None"
    using assms silent_add_reason by (auto simp: synthesis_result_def Let_def split: option.splits)
qed

lemma synthesize_frame:
  assumes "synthesize F T cfg req E rs p = Inr (p', fs)"
  shows "lane_frame p p'"
    and "pr_partial_reasons p' = [] \<Longrightarrow> lead_answered F (dg_synthesis E)"
proof -
  consider (early) "p' = add_reason ''investigation deadline reached before lead synthesis''
        (add_phase ''synthesis'' ''lead'' (dg_now E) ''skipped'' (dg_now E) p)"
    | (late) "p' = add_reason ''lead synthesis reached investigation deadline''
        (add_phase ''synthesis'' ''lead'' (la_start (dg_synthesis E)) ''timeout'' (la_end (dg_synthesis E)) p)"
    | (ok) sys user lim run where "la_run (dg_synthesis E) sys user lim = Some (Inr run)"
        "synthesis_result F rs run
           (add_phase ''synthesis'' ''lead'' (la_start (dg_synthesis E)) (synthesis_outcome run) (la_end (dg_synthesis E))
              (note_repaired (ar_repaired run) p)) = (p', fs)"
    using assms unfolding synthesize_def Let_def
    by (auto split: if_splits sum.splits option.splits)
  note cases = this
  show "lane_frame p p'"
    using cases
  proof cases
    case ok
    show ?thesis
      by (rule lane_frame_trans[OF _ synthesis_result_frame(1)[OF ok(2)]]) (intro frame_intros lane_frame_refl)
  qed (auto intro!: frame_intros)
  assume s: "pr_partial_reasons p' = []"
  show "lead_answered F (dg_synthesis E)"
    using cases
  proof cases
    case ok
    then show ?thesis using synthesis_result_frame(2)[OF ok(2) s] unfolding lead_answered_def by blast
  qed (use s silent_add_reason in auto)
qed

lemma plan_result_frame:
  assumes "plan_result m run p = (p', qs)"
  shows "lane_frame p p'" "pr_partial_reasons p' = [] \<Longrightarrow> ar_stopped run = Terminal"
    "qs \<noteq> [] \<Longrightarrow> qs = take m (questions_of run)"
  using assms silent_add_reason by (auto simp: plan_result_def intro!: frame_intros split: stop_reason.splits)

lemma delegated_candidates_frame:
  assumes "delegated_candidates pj F T cfg dc req E p = Some (Inr (p', fs))"
  shows "lane_frame p p'"
    and "pr_partial_reasons p' = [] \<Longrightarrow>
      (\<forall>x\<in>set (dg_workers E). worker_answered (rc_run_max_requests cfg) (investigation_deadline p) x)
      \<and> lead_answered F (dg_synthesis E)"
proof -
  from assms obtain run p1 qs where
    pl: "plan_result (dc_max_questions dc) run
       (add_phase ''plan'' ''lead'' (la_start (dg_plan E)) (plan_outcome (ar_stopped run)) (la_end (dg_plan E)) p) = (p1, qs)"
    and rest: "(if qs = []
       then Some (investigate F T cfg req (dg_baseline E) (add_reason ''lead produced no questions; fell back to baseline'' p1))
       else (case first_error (take (length qs) (dg_clients E)) of
               Some e \<Rightarrow> Some (Inl e)
             | None \<Rightarrow> (case run_workers pj F T cfg dc E qs p1 of
                   None \<Rightarrow> None | Some (p2, rs) \<Rightarrow> Some (synthesize F T cfg req E rs p2)))) = Some (Inr (p', fs))"
    unfolding delegated_candidates_def Let_def by (auto split: sum.splits option.splits prod.splits)
  have f1: "lane_frame p p1"
    by (rule lane_frame_trans[OF _ plan_result_frame(1)[OF pl]]) (intro frame_intros lane_frame_refl)
  have "lane_frame p p' \<and> (pr_partial_reasons p' = [] \<longrightarrow>
      (\<forall>x\<in>set (dg_workers E). worker_answered (rc_run_max_requests cfg) (investigation_deadline p) x)
      \<and> lead_answered F (dg_synthesis E))"
  proof (cases "qs = []")
    case True
    with rest have "investigate F T cfg req (dg_baseline E)
        (add_reason ''lead produced no questions; fell back to baseline'' p1) = Inr (p', fs)" by simp
    then have fr: "lane_frame (add_reason ''lead produced no questions; fell back to baseline'' p1) p'"
      by (rule investigate_frame)
    then have "pr_partial_reasons p' \<noteq> []" using lane_frame_silent silent_add_reason by blast
    then show ?thesis using lane_frame_trans[OF add_reason_frame[OF f1] fr] by simp
  next
    case False
    with rest obtain p2 rs where w: "run_workers pj F T cfg dc E qs p1 = Some (p2, rs)"
      and sy: "synthesize F T cfg req E rs p2 = Inr (p', fs)"
      by (auto split: option.splits)
    have dl: "investigation_deadline p1 = investigation_deadline p" if "pr_reserve p1 = pr_reserve p"
      using f1 that by (simp add: investigation_deadline_def lane_frame_def)
    have "pr_reserve p1 = pr_reserve p"
      using pl by (auto simp: plan_result_def add_phase_def add_reason_def split: stop_reason.splits)
    then show ?thesis
      using f1 run_workers_frame[OF w] synthesize_frame[OF sy] lane_frame_trans lane_frame_silent dl by metis
  qed
  then show "lane_frame p p'" "pr_partial_reasons p' = [] \<Longrightarrow>
      (\<forall>x\<in>set (dg_workers E). worker_answered (rc_run_max_requests cfg) (investigation_deadline p) x)
      \<and> lead_answered F (dg_synthesis E)" by blast+
qed


section \<open>A whole review\<close>

text \<open>The part of the diff that the content policy lets the models see.\<close>

definition reviewed_diff :: "review_fns \<Rightarrow> string \<Rightarrow> diff_set" where
  "reviewed_diff F raw = filter (\<lambda>f. \<not> excluded_path (fn_sens F) f) (parse_unified raw)"

lemma prepare_cases:
  assumes "prepare F check cfg req strategy env = Inr out"
  obtains (short) rep st where "out = Short_circuit rep st" "rr_findings rep = []" "pp_inline (rr_plan rep) = []"
    | (ready) p raw where "out = Ready p" "pe_raw_diff env = Inr raw" "pr_diff p = reviewed_diff F raw"
        "pe_dirty env = Inr False" "pe_head_sha env = pe_current_head env" "pe_trust env = Inr ()"
proof -
  have reuse: "reuse F cfg env strategy base head st0 = Inr out \<Longrightarrow>
      \<exists>rep st. out = Short_circuit rep st \<and> rr_findings rep = [] \<and> pp_inline (rr_plan rep) = []" for base head st0
    by (auto simp: reuse_def Let_def short_report_def split: sum.splits)
  have no_diff: "nothing_to_review F cfg env strategy base head key gaps st0 = Inr out \<Longrightarrow>
      \<exists>rep st. out = Short_circuit rep st \<and> rr_findings rep = [] \<and> pp_inline (rr_plan rep) = []" for base head key gaps st0
    by (auto simp: nothing_to_review_def Let_def short_report_def split: sum.splits prod.splits if_splits)
  have rdy: "ready F cfg req env strategy base head key d gaps st0 = Inr out \<Longrightarrow>
      \<exists>p. out = Ready p \<and> pr_diff p = d \<and> pe_trust env = Inr ()" for base head key d gaps st0
    by (auto simp: ready_def Let_def split: sum.splits prod.splits)
  note steps = assms[unfolded prepare_def Let_def]
  obtain base head raw tree stored where e: "pe_base_sha env = Inr base" "pe_head_sha env = Inr head"
      "pe_current_head env = Inr head" "pe_dirty env = Inr False" "pe_raw_diff env = Inr raw"
      "pe_head_tree env = Inr tree" "pe_state env = Inr stored"
    using steps by (auto split: sum.splits if_splits)
  note h = e(2-5)
  define st0 where "st0 = (case stored of Some s \<Rightarrow> s | None \<Rightarrow> default_state)"
  define key where "key = review_key (fn_H F) base tree (pe_patch_id env) (pe_config_text env)"
  define gaps where "gaps = map policy_gap (filter (excluded_path (fn_sens F)) (parse_unified raw))"
  have out: "reuse F cfg env strategy base head st0 = Inr out
       \<or> nothing_to_review F cfg env strategy base head key gaps st0 = Inr out
       \<or> ready F cfg req env strategy base head key (reviewed_diff F raw) gaps st0 = Inr out"
    using steps e unfolding st0_def key_def gaps_def reviewed_diff_def
    by (simp split: sum.splits if_split_asm)
  from out show thesis
  proof (elim disjE)
    assume "ready F cfg req env strategy base head key (reviewed_diff F raw) gaps st0 = Inr out"
    from rdy[OF this] h show thesis using ready by auto
  next
    assume "reuse F cfg env strategy base head st0 = Inr out"
    from reuse[OF this] show thesis using short by blast
  next
    assume "nothing_to_review F cfg env strategy base head key gaps st0 = Inr out"
    from no_diff[OF this] show thesis using short by blast
  qed
qed

lemma review_run_cases:
  assumes "review_run pj F T cfg sc req E s = Some (Inr (rep, st))"
  obtains (short) "rr_findings rep = []" "pp_inline (rr_plan rep) = []"
    | (full) p raw candidates where "pe_raw_diff (st_prepare E) = Inr raw" "pr_diff p = reviewed_diff F raw"
        "pe_dirty (st_prepare E) = Inr False" "pe_head_sha (st_prepare E) = pe_current_head (st_prepare E)"
        "pe_trust (st_prepare E) = Inr ()" "finish F cfg p (st_finish E) candidates = Inr (rep, st)"
proof -
  have "\<exists>strategy out. prepare F (validate_focuses (fn_red F) T) cfg req strategy (st_prepare E) = Inr out
    \<and> (case out of
         Short_circuit rep' st' \<Rightarrow> rep' = rep
       | Ready p \<Rightarrow> \<exists>p' candidates. lane_frame p p' \<and> finish F cfg p' (st_finish E) candidates = Inr (rep, st))"
  proof (cases s)
    case Baseline
    then show ?thesis using assms
      by (fastforce simp: review_run_def baseline_run_def Let_def split: sum.splits prepare_out.splits
          elim: investigate_frame)
  next
    case Delegated
    then show ?thesis using assms delegated_candidates_frame(1)
      by (fastforce simp: review_run_def delegated_run_def Let_def split: sum.splits prepare_out.splits option.splits)
  next
    case Panel
    then show ?thesis using assms panel_lanes_frame(1)
      by (fastforce simp: review_run_def panel_run_def Let_def split: sum.splits prepare_out.splits)
  qed
  then obtain strategy out where o: "prepare F (validate_focuses (fn_red F) T) cfg req strategy (st_prepare E) = Inr out"
    "case out of Short_circuit rep' st' \<Rightarrow> rep' = rep
       | Ready p \<Rightarrow> \<exists>p' candidates. lane_frame p p' \<and> finish F cfg p' (st_finish E) candidates = Inr (rep, st)" by blast
  from o(1) show thesis
  proof (cases rule: prepare_cases)
    case (short rep' st')
    then show ?thesis using o(2) that(1) by simp
  next
    case (ready p raw)
    with o(2) obtain p' candidates where "lane_frame p p'" "finish F cfg p' (st_finish E) candidates = Inr (rep, st)" by auto
    then show ?thesis using ready that(2)[of raw p' candidates] by (simp add: lane_frame_def)
  qed
qed

text \<open>C2: Whatever the strategy and whatever the models answer, the comments a review plans to post number
  at most the configured maximum, and each is the comment of a publishable finding that reaches both
  severity thresholds, on a head-side line of the pull request's diff, in a file that the content
  policy does not exclude, of a clean checkout of the head.\<close>

theorem review_comments_placed:
  assumes "review_run pj F T cfg sc req E s = Some (Inr (rep, st))"
  shows "length (pp_inline (rr_plan rep)) \<le> rc_max_findings cfg
    \<and> (\<forall>c\<in>set (pp_inline (rr_plan rep)). \<exists>f\<in>set (rr_findings rep). \<exists>raw.
         is_publishable f \<and> ic_file c = f_file f \<and> ic_line c = f_start_line f
         \<and> ic_body c = finding_body (fn_red F) (fn_H F) f
         \<and> rc_inline_min_severity cfg \<le> f_severity f \<and> rc_min_severity cfg \<le> f_severity f
         \<and> pe_raw_diff (st_prepare E) = Inr raw
         \<and> on_head_side (reviewed_diff F raw) (f_file f) (f_start_line f)
         \<and> pe_dirty (st_prepare E) = Inr False \<and> pe_head_sha (st_prepare E) = pe_current_head (st_prepare E))"
  using assms
proof (cases rule: review_run_cases)
  case short
  then show ?thesis by simp
next
  case (full p raw candidates)
  from finish_places_comments[OF full(6)] full(1-4) show ?thesis by metis
qed

end
