(* ===== verification/Review_Witness.thy ===== *)
theory Review_Witness
  imports Lane_Props
begin

text \<open>
  A small run, evaluated: one candidate on the only line of a diff, accepted by its validator, and the
  instances of the properties of a review at it.
\<close>

definition sample_fns :: review_fns where
  "sample_fns =
     \<lparr>fn_H = (\<lambda>s. s), fn_red = (\<lambda>s. s), fn_sens = (\<lambda>_. False),
      fn_U = \<lparr>uc_lower = (\<lambda>s. s), uc_alnum = (\<lambda>_. True)\<rparr>, fn_secs = (\<lambda>_. []), fn_why = (\<lambda>_. []),
      fn_pretty = (\<lambda>_. [])\<rparr>"

definition sample_config :: review_config where
  "sample_config =
     \<lparr>rc_validate = True, rc_min_severity = Low, rc_inline_min_severity = Medium, rc_max_findings = 5,
      rc_publish_uncertain = False, rc_max_diff_bytes = 1000, rc_run_max_seconds = 100,
      rc_run_max_requests = 10, rc_agent_max_tool_calls = 4, rc_agent_max_seconds = 30,
      rc_vera_enabled = False, rc_guidance_on = False, rc_focuses = [],
      rc_playbook = \<lparr>pb_reviewer = [], pb_skills = [], pb_digest = []\<rparr>\<rparr>"

definition sample_candidate :: finding where
  "sample_candidate = sample_finding\<lparr>f_start_line := 1, f_validation_status := None,
     f_source := ''investigator'', f_sources := [''investigator'']\<rparr>"

text \<open>A run without history on the one line.\<close>

definition small_run :: "prepared \<Rightarrow> bool" where
  "small_run p =
     (pr_diff p = one_line_diff \<and> pr_state p = default_state \<and> pr_rechecks p = []
      \<and> pr_partial_reasons p = [] \<and> pr_deadline p = 100000000000)"

definition sample_prepared :: prepared where
  "sample_prepared =
     \<lparr>pr_base_sha = [], pr_head_sha = [], pr_strategy = ''baseline'', pr_diff = one_line_diff,
      pr_patch_id = [], pr_review_key = [], pr_ledger = new_ledger, pr_state = default_state,
      pr_rechecks = [], pr_resolved_titles = [], pr_partial_reasons = [], pr_retrieval_unavailable = None,
      pr_stats = no_stats, pr_guidance_block = [], pr_coverage = [], pr_coverage_gaps = [],
      pr_report_note = None, pr_deadline = 100000000000, pr_reserve = 0, pr_wall = 0, pr_phases = [],
      pr_stated_intent = []\<rparr>"

definition sample_finish_env :: finish_env where
  "sample_finish_env =
     \<lparr>fn_validators = \<lparr>vn_spawn_times = [0], vn_now = 0, vn_finished = [(0, sample_validator_env)]\<rparr>,
      fn_prompt = [], fn_dedup = \<lparr>de_requests = 0, de_now = 0, de_calls = None\<rparr>, fn_saved = Inr (),
      fn_ledger = new_ledger, fn_end = 5, fn_skills_read = [], fn_files_read = 0, fn_tools = JArr [],
      fn_semantic_fallbacks = 0, fn_rerank_fallbacks = 0\<rparr>"

abbreviation sample_judged :: "prepared \<Rightarrow> judged" where
  "sample_judged p \<equiv> judge_candidates sample_fns sample_config p sample_finish_env [sample_candidate]"

lemmas sample_defs = sample_fns_def sample_config_def sample_prepared_def sample_finish_env_def
  sample_candidate_def sample_finding_def default_state_def no_stats_def

definition gated_candidate :: finding where
  "gated_candidate = sample_candidate\<lparr>f_category := ''other''\<rparr>"

lemma sample_gate:
  assumes "small_run p"
  shows "gate_candidates sample_fns sample_config p [sample_candidate] = [gated_candidate]"
  using assms
  by (simp add: gate_candidates_def collapse_def collapse_step_def with_own_source_def normalize_category_def find_skill_def reenter_findings_def is_tracked_open_def find_id_def
      gated_candidate_def small_run_def sample_defs trim_def Let_def less_eq_severity_def)

lemma sample_verdict:
  assumes "f_severity c = High" "f_start_line c = 1" "f_end_line c = None"
    and "0 < vi_max_seconds inp" "vi_deadline inp = 100000000000"
  shows "judge red sens why d sample_validator_env (validator_task pretty inp sample_validator_env c) c
     = (c\<lparr>f_validated_fix := None, f_validation_status := Some Accepted, f_counterevidence_checked := [],
          f_rationale := Some ''seen''\<rparr>, True, None, ''ok:accepted'')"
  using assms by (simp add: validator_task_def validator_budget_at_def sample_validator_env_def judge_def
      sample_verdict_call_def verdict_terminal_check_def de_verdict_def serde_defs json_defs de_status_def
      status_named_def strings_def trim_seen apply_verdict_def approved_fix_def unwrap_or_def Let_def)

definition accepted_candidate :: finding where
  "accepted_candidate = (fresh_candidate gated_candidate)\<lparr>f_validated_fix := None,
     f_validation_status := Some Accepted, f_counterevidence_checked := [], f_rationale := Some ''seen''\<rparr>"

lemma gated_candidate_facts:
  "f_severity (fresh_candidate gated_candidate) = High" "f_start_line (fresh_candidate gated_candidate) = 1"
  "f_end_line (fresh_candidate gated_candidate) = None"
  by (simp_all add: fresh_candidate_def gated_candidate_def sample_defs)

lemma sample_validated:
  assumes "small_run p"
  shows "\<exists>ps. validate_gated sample_fns sample_config p sample_finish_env [gated_candidate]
     = ([accepted_candidate], [], ps)"
  using assms
  by (simp add: validate_gated_def run_validators_def validate_candidates_def skipped_from_def
      finish_one_def sample_verdict gated_candidate_facts accepted_candidate_def small_run_def sample_defs unwrap_or_def Let_def)

lemma accepted_candidate_facts [simp]:
  "is_publishable accepted_candidate" "f_severity accepted_candidate = High" "f_file accepted_candidate = ''b.rs''"
  "f_start_line accepted_candidate = 1" "f_end_line accepted_candidate = None"
  "fid H accepted_candidate = fid H gated_candidate" "f_duplicate_of accepted_candidate = None"
  by (simp_all add: is_publishable_def accepted_candidate_def fresh_candidate_def gated_candidate_def
      sample_defs fid_def)

lemma sample_items: "length (dedup_items [accepted_candidate] (carried_findings H default_state [accepted_candidate])) < 2"
  by (simp add: dedup_items_def carried_findings_def enum_def default_state_def)

lemma sample_dedup:
  "fst (dedup_run H m dl default_state env [accepted_candidate]) = [accepted_candidate]"
  using sample_items[of H] by (simp add: dedup_run_def Let_def)

lemma sample_judged_findings:
  assumes p: "small_run p"
  shows "jd_findings (sample_judged p) = [accepted_candidate]" "jd_reasons (sample_judged p) = []"
proof -
  have re: "reenter_findings H p = []" for H using p by (simp add: reenter_findings_def small_run_def)
  obtain ps where v: "validate_gated sample_fns sample_config p sample_finish_env [gated_candidate]
     = ([accepted_candidate], [], ps)" using sample_validated[OF p] by blast
  have can: "canonicalize_findings H [accepted_candidate] = [accepted_candidate]" for H
    by (simp add: canonicalize_findings_def canonicalize_step_def)
  have cfg: "rc_validate sample_config" "rc_min_severity sample_config = Low" by (simp_all add: sample_config_def)
  obtain n where d: "dedup_run (fn_H sample_fns) (rc_run_max_requests sample_config) 100000000000 default_state
      (fn_dedup sample_finish_env) [accepted_candidate] = ([accepted_candidate], n)"
    using sample_dedup by (metis prod.collapse)
  show "jd_findings (sample_judged p) = [accepted_candidate]" "jd_reasons (sample_judged p) = []"
    using p
    by (simp_all add: judge_candidates_def sample_gate[OF p] v re can cfg d threshold_def Let_def
        less_eq_severity_def small_run_def)
qed

lemma finish_saved:
  assumes "fn_saved env = Inr ()"
  obtains rep st where "finish F cfg p env candidates = Inr (rep, st)"
proof -
  have "\<exists>rep st. finish F cfg p env candidates = Inr (rep, st)"
    using assms by (simp add: finish_def Let_def split: prod.splits)
  then show thesis using that by blast
qed

lemma sample_finish:
  assumes p: "small_run p"
  obtains rep st where
    "finish sample_fns sample_config p sample_finish_env [sample_candidate] = Inr (rep, st)"
    "rr_findings rep = run_finals sample_config p (sample_judged p)" "rr_status rep = Complete"
    "pp_inline (rr_plan rep) = map (inline_of sample_fns) (inline_anchored (run_anchored sample_config p (sample_judged p)))"
proof -
  have "fn_saved sample_finish_env = Inr ()" by (simp add: sample_finish_env_def)
  then obtain rep st where f: "finish sample_fns sample_config p sample_finish_env [sample_candidate]
      = Inr (rep, st)" by (rule finish_saved)
  note R = finish_result[OF f]
  show thesis by (rule that[OF f R(1) _ R(2)]) (simp add: R(3) run_outcome_def sample_judged_findings[OF p])
qed

lemma sample_all_finished:
  assumes p: "small_run p"
  shows "all_finished (pr_deadline p) (fn_validators sample_finish_env)
     (gate_candidates sample_fns sample_config p [sample_candidate])"
  using p by (auto simp: all_finished_def sample_gate[OF p] spawned_count_def skipped_from_def sample_finish_env_def
      unwrap_or_def small_run_def)

lemma one_line_head: "on_head_side one_line_diff ''b.rs'' 1"
  by code_simp

lemma sample_anchored:
  assumes p: "small_run p"
  obtains a where "run_anchored sample_config p (sample_judged p) = [a]" "is_publishable (an_finding a)"
    "\<not> an_quiet a" "an_placement a = Inline"
proof -
  let ?as = "anchor one_line_diff [accepted_candidate] (rc_max_findings sample_config) (rc_inline_min_severity sample_config)"
  have e: "run_anchored sample_config p (sample_judged p) = ?as"
    using p by (simp add: run_anchored_def sample_judged_findings small_run_def)
  have "length ?as = 1" "inline_count ?as = 1"
    using one_line_head by (simp_all add: anchor_inline_cap sample_config_def less_eq_severity_def)
  moreover from this(1) obtain a where "?as = [a]" by (metis length_Suc_conv One_nat_def length_0_conv)
  ultimately have a: "?as = [a]" "an_placement a = Inline" by (auto simp: inline_count_def split: if_splits)
  have "a \<in> set ?as" by (simp add: a(1))
  then obtain g where g: "g \<in> set [accepted_candidate]" "well_anchored one_line_diff (rc_inline_min_severity sample_config) g a"
    by (rule anchored_from)
  have "is_publishable (an_finding a)"
    unfolding well_anchored_facts(2)[OF g(2)] using g(1) by simp
  moreover have "\<not> an_quiet a" using g(2) a(2) unfolding well_anchored_def by blast
  ultimately show thesis using that[of a] a e by simp
qed

lemma sample_small: "small_run sample_prepared"
  by (simp add: small_run_def sample_prepared_def)



lemma evaluation_publishes_nothing_witness:
  "\<exists>rep. finish sample_fns (sample_config\<lparr>rc_validate := False\<rparr>) sample_prepared sample_finish_env [sample_candidate]
      = Inr (rep, default_state) \<and> pp_inline (rr_plan rep) = []"
  using evaluation_publishes_nothing[of "sample_config\<lparr>rc_validate := False\<rparr>" sample_prepared "[sample_candidate]"
      sample_fns sample_finish_env]
  by (auto simp: sample_prepared_def sample_config_def sample_candidate_def sample_finding_def unmarked_def)

section \<open>A run from the diff to the report\<close>

definition sample_prepare_env :: prepare_env where
  "sample_prepare_env =
     \<lparr>pe_wall = 0, pe_is_repo = True, pe_base_sha = Inr ''b'', pe_head_sha = Inr ''h'', pe_current_head = Inr ''h'',
      pe_dirty = Inr False, pe_raw_diff = Inr (render one_line_diff), pe_patch_id = [], pe_head_tree = Inr [],
      pe_config_text = [], pe_state = Inr None, pe_saved = Inr (), pe_trust = Inr (), pe_web = Inr (),
      pe_vera = Inr (), pe_configure = Inr Rr_Off, pe_index = Inr (), pe_index_start = 0, pe_index_end = 0,
      pe_guidance = Inr (JNull, False, []), pe_prompt = [],
      pe_validators = \<lparr>vn_spawn_times = [], vn_now = 0, vn_finished = []\<rparr>, pe_end = 0\<rparr>"

definition sample_request :: review_request where
  "sample_request = \<lparr>rq_title = None, rq_body = [], rq_force = False, rq_repository_public = False\<rparr>"

text \<open>An agent that answers with one call, whatever it is asked.\<close>

definition one_call :: "json \<Rightarrow> lane_env" where
  "one_call args =
     \<lparr>la_requests = 0, la_start = 0, la_client = Inr (),
      la_run = (\<lambda>_ _ _. Some (Inr \<lparr>ar_final_call = Some \<lparr>tc_id = [], tc_name = [], tc_arguments = args\<rparr>,
         ar_transcript_len = 3, ar_tool_calls = 0, ar_stopped = Terminal, ar_repaired = False\<rparr>)),
      la_end = 0\<rparr>"

definition sample_item :: json where
  "sample_item = JObj [(''defect_key'', JStr ''k''), (''severity'', JStr ''high''), (''file'', JStr ''b.rs''),
     (''start_line'', JNat 1), (''title'', JStr ''t''), (''claim'', JStr ''c''),
     (''introduced_by_change'', JBool True)]"

definition sample_submission :: json where
  "sample_submission = JObj [(''findings'', JArr [sample_item])]"

lemma trim_t: "trim ''t'' = ''t''"
  by (rule trim_word) (simp add: ascii_graphic_def)

lemma sample_parsed:
  "parse_findings_checked why sample_submission
     = \<lparr>pf_findings = [sample_candidate\<lparr>f_source := [], f_sources := []\<rparr>], pf_dropped = 0, pf_problem = None\<rparr>"
  "parse_not_checked sample_submission = []"
  by (simp_all add: parse_findings_checked_def parse_not_checked_def sample_submission_def sample_item_def
      parse_item_def normalize_finding_json_def path_to_file_def description_to_claim_def with_title_def trim_t
      de_finding_def serde_defs json_defs de_severity_def severity_named_def strings_def strip_verdict_def
      sample_candidate_def sample_finding_def Let_def)

lemma render_one_line: "parse_unified (render one_line_diff) = one_line_diff" "length (render one_line_diff) \<le> 1000"
proof -
  show "parse_unified (render one_line_diff) = one_line_diff"
    by (rule parse_render)
      (simp add: one_line_diff_def wf_file_def wf_hunk_def wf_line_def hunk_numbered_def
        ascii_word_def ascii_graphic_def str_simps)
  show "length (render one_line_diff) \<le> 1000" by code_simp
qed

lemma sample_prepare:
  obtains p where "prepare sample_fns check sample_config sample_request ''baseline'' sample_prepare_env = Inr (Ready p)"
    "small_run p"
proof -
  have d: "filter (\<lambda>f. \<not> excluded_path (fn_sens sample_fns) f) one_line_diff = one_line_diff"
    by (simp add: excluded_path_def sample_fns_def)
  have ne: "one_line_diff \<noteq> []" by (simp add: one_line_diff_def)
  have om: "omitted_files one_line_diff 1000 = []" using fitting_diff_is_complete[OF render_one_line(2)] by blast
  have nr: "\<not> can_reuse default_state k" for k by (simp add: can_reuse_def default_state_def STATE_VERSION_def)
  have nc: "recheck_candidates default_state = []" by (simp add: recheck_candidates_def open_findings_def default_state_def)
  have "\<exists>p. prepare sample_fns check sample_config sample_request ''baseline'' sample_prepare_env = Inr (Ready p)
    \<and> small_run p"
    by (simp add: prepare_def sample_prepare_env_def render_one_line d ne om nr nc ready_def prepare_index_def
        recheck_prior_def sample_config_def sample_request_def omitted_reason_def small_run_def secs_ns_def Let_def)
  then show thesis using that by blast
qed

lemma sample_investigation:
  assumes p: "small_run p"
  obtains p' where "investigate sample_fns T sample_config sample_request (one_call sample_submission) p
      = Inr (p', [sample_candidate])" "small_run p'"
proof -
  have "\<exists>p'. investigate sample_fns T sample_config sample_request (one_call sample_submission) p
      = Inr (p', [sample_candidate])"
    by (simp add: investigate_def one_call_def investigator_result_def submission_call_def take_submission_def
        sample_parsed sourced_def sample_candidate_def sample_finding_def Let_def)
  then obtain p' where i: "investigate sample_fns T sample_config sample_request (one_call sample_submission) p
      = Inr (p', [sample_candidate])" by blast
  then have f: "lane_frame p p'" by (rule investigate_frame)
  have "pr_partial_reasons p' = []"
    using i p by (simp add: investigate_def one_call_def investigator_result_def submission_call_def take_submission_def
        sample_parsed small_run_def note_unchecked_def Let_def split: prod.splits) auto
  with f i p show thesis using that by (simp add: small_run_def lane_frame_def)
qed

definition no_texts :: prompt_texts where
  "no_texts = \<lparr>pt_investigator = [], pt_focus = [], pt_lead_plan = [], pt_worker = [], pt_lead_synthesize = []\<rparr>"

definition sample_route :: model_route where
  "sample_route = Model_Route Scripted None None ''m'' 100 60 False ''0'' [] None None (Effort ENone) []"

definition sample_delegated :: delegated_config where
  "sample_delegated = \<lparr>dc_max_questions = 3, dc_worker_max_tool_calls = 4, dc_worker_max_seconds = 30,
     dc_workers = [], dc_investigator = sample_route\<rparr>"

definition sample_plan :: json where
  "sample_plan = JObj [(''questions'', JArr [JObj [(''question'', JStr ''q'')]])]"

definition sample_delegated_env :: delegated_env where
  "sample_delegated_env =
     \<lparr>dg_plan = one_call sample_plan, dg_baseline = one_call sample_submission, dg_clients = [Inr ()],
      dg_workers = [(0, one_call (JObj []))], dg_now = 0, dg_synthesis = one_call sample_submission\<rparr>"

definition sample_strategy_env :: strategy_env where
  "sample_strategy_env =
     \<lparr>st_prepare = sample_prepare_env, st_investigator = one_call sample_submission,
      st_delegated = sample_delegated_env, st_scouts = [], st_finish = sample_finish_env\<rparr>"

definition sample_strategy_config :: strategy_config where
  "sample_strategy_config = \<lparr>sc_delegated = sample_delegated, sc_scouts = 0, sc_scout_tool_calls = 4\<rparr>"

lemma review_comments_placed_witness:
  "\<exists>rep st c. review_run (\<lambda>_. []) sample_fns no_texts sample_config sample_strategy_config sample_request
       sample_strategy_env Baseline = Some (Inr (rep, st))
     \<and> c \<in> set (pp_inline (rr_plan rep)) \<and> length (pp_inline (rr_plan rep)) \<le> 5
     \<and> (\<exists>f\<in>set (rr_findings rep). is_publishable f \<and> ic_line c = f_start_line f
          \<and> on_head_side (reviewed_diff sample_fns (render one_line_diff)) (f_file f) (f_start_line f))"
proof -
  obtain p where p: "prepare sample_fns (validate_focuses (fn_red sample_fns) no_texts) sample_config sample_request
      ''baseline'' sample_prepare_env = Inr (Ready p)" "small_run p" by (rule sample_prepare)
  obtain q where q: "investigate sample_fns no_texts sample_config sample_request (one_call sample_submission) p
      = Inr (q, [sample_candidate])" "small_run q" by (rule sample_investigation[OF p(2)])
  obtain rep st where f: "finish sample_fns sample_config q sample_finish_env [sample_candidate] = Inr (rep, st)"
    "pp_inline (rr_plan rep) = map (inline_of sample_fns) (inline_anchored (run_anchored sample_config q (sample_judged q)))"
    by (rule sample_finish[OF q(2)])
  have r: "review_run (\<lambda>_. []) sample_fns no_texts sample_config sample_strategy_config sample_request
       sample_strategy_env Baseline = Some (Inr (rep, st))"
    by (simp add: review_run_def baseline_run_def sample_strategy_env_def p q f(1) Let_def)
  obtain a where "run_anchored sample_config q (sample_judged q) = [a]" "\<not> an_quiet a" "an_placement a = Inline"
    by (rule sample_anchored[OF q(2)])
  then have c: "inline_of sample_fns a \<in> set (pp_inline (rr_plan rep))" by (simp add: f(2) inline_anchored_def)
  have raw: "pe_raw_diff (st_prepare sample_strategy_env) = Inr (render one_line_diff)"
    by (simp add: sample_strategy_env_def sample_prepare_env_def)
  have max: "rc_max_findings sample_config = 5" by (simp add: sample_config_def)
  from review_comments_placed[OF r] c raw max r show ?thesis
    by (intro exI[of _ rep] exI[of _ st] exI[of _ "inline_of sample_fns a"]) fastforce
qed

text \<open>Lanes that find nothing.\<close>

lemma empty_finish:
  assumes "pr_partial_reasons p = []" "rc_validate cfg"
  obtains rep st where "finish F cfg p sample_finish_env [] = Inr (rep, st)" "rr_status rep = Complete"
proof -
  have "fn_saved sample_finish_env = Inr ()" by (simp add: sample_finish_env_def)
  then obtain rep st where f: "finish F cfg p sample_finish_env [] = Inr (rep, st)" by (rule finish_saved)
  have "gate_candidates F cfg p [] = []" by (simp add: gate_candidates_def collapse_def Let_def)
  then have "jd_reasons (judge_candidates F cfg p sample_finish_env []) = []"
    using assms judge_reasons[OF refl, of F cfg p sample_finish_env "[]"] by (simp add: validate_gated_def)
  then show thesis using that f finish_result(3)[OF f] by (simp add: run_outcome_def)
qed

definition empty_submission :: json where
  "empty_submission = JObj [(''findings'', JArr [])]"

lemma empty_parsed:
  "parse_findings_checked why empty_submission = \<lparr>pf_findings = [], pf_dropped = 0, pf_problem = None\<rparr>"
  "parse_not_checked empty_submission = []" "lead_unchecked empty_submission = []"
  by (simp_all add: parse_findings_checked_def parse_not_checked_def lead_unchecked_def empty_submission_def json_defs)

definition panel_config :: review_config where
  "panel_config = sample_config\<lparr>rc_focuses := [''general'']\<rparr>"

lemma sample_validates: "rc_validate sample_config" "rc_validate panel_config"
  by (simp_all add: panel_config_def sample_config_def)

lemma sample_panel:
  "\<exists>p'. panel_lanes sample_fns no_texts panel_config sample_request 0 4 [(0, one_call empty_submission)]
      sample_prepared = Inr (p', []) \<and> pr_partial_reasons p' = []"
  by (simp add: panel_lanes_def scout_lanes_def panel_config_def sample_config_def scout_done_def lane_task_def
      one_call_def sample_prepared_def investigation_deadline_def scout_result_def submission_call_def
      take_submission_def empty_parsed skipped_reason_def note_unchecked_def count_malformed_def note_repaired_def
      Let_def)


lemma sample_delegation:
  "\<exists>p'. delegated_candidates (\<lambda>_. []) sample_fns no_texts sample_config sample_delegated sample_request
      (sample_delegated_env\<lparr>dg_synthesis := one_call empty_submission\<rparr>) sample_prepared = Some (Inr (p', []))
      \<and> pr_partial_reasons p' = []"
proof -
  have q: "de_plan_question (JObj [(''question'', JStr ''q'')]) = Some \<lparr>pq_id = [], pq_question = ''q'', pq_symbols = [],
      pq_expected_evidence = [], pq_stop_condition = [], pq_files_hint = []\<rparr>"
    by (simp add: de_plan_question_def serde_defs json_defs)
  have c: "parse_candidate_findings why JNull = []" for why
    by (simp add: parse_candidate_findings_def parse_findings_def parse_findings_checked_def json_defs)
  show ?thesis
    by (simp add: delegated_candidates_def sample_delegated_env_def one_call_def sample_plan_def plan_result_def
        questions_of_def q json_defs sample_delegated_def run_workers_def worker_done_def lane_task_def
        sample_config_def sample_prepared_def investigation_deadline_def worker_result_def submitted_report_def
        raw_report_def c synthesize_def synthesis_result_def submission_call_def empty_parsed note_blocked_def
        skipped_reason_def note_unchecked_def count_malformed_def note_repaired_def add_phase_def map_filter_simps
        Let_def)
qed


end
