(* ===== verification/Wire.thy ===== *)
theory Wire
  imports Routes Json Http_Transport
begin

text \<open>
  What the four protocol adapters of \<open>src/src/provider\<close> share: the request they hand to the transport,
  indexing into and updating JSON values, error messages, and a contract: a retry in the same slot
  always gives up one of the adjustments an attempt has left.

  \<open>wire_fns\<close> gathers code that is not in the repository: the JSON parser and printer, and the identity
  of a URL; and the identifier of the run that the session header carries.
\<close>

record wire_fns =
  wf_parse :: "string \<Rightarrow> string + json"
  wf_print :: "json \<Rightarrow> string"
  wf_identity :: "string \<Rightarrow> string"
  wf_session :: string

record http_request =
  hr_url :: string
  hr_headers :: "(string \<times> string) list"
  hr_body :: json

section \<open>JSON values\<close>

text \<open>\<open>v[i]\<close>, and \<open>v[k] = w\<close> on an object (the code assigns to objects only).\<close>

definition jat :: "json \<Rightarrow> nat \<Rightarrow> json" where
  "jat v i = (case v of JArr a \<Rightarrow> if i < length a then a ! i else JNull | _ \<Rightarrow> JNull)"

definition jset :: "string \<Rightarrow> json \<Rightarrow> json \<Rightarrow> json" where
  "jset k w v = (case v of JObj kvs \<Rightarrow> JObj (obj_insert k w kvs) | _ \<Rightarrow> v)"

definition jpath :: "json \<Rightarrow> string list \<Rightarrow> json" where
  "jpath v ks = foldl jidx v ks"

definition u64_or_0 :: "json \<Rightarrow> nat" where
  "u64_or_0 v = (case as_u64 v of Some n \<Rightarrow> n | None \<Rightarrow> 0)"

definition text_or_empty :: "string option \<Rightarrow> string" where
  "text_or_empty s = (case s of Some t \<Rightarrow> t | None \<Rightarrow> [])"

text \<open>\<open>if parts.is_empty() { None } else { Some(parts.join("\n")) }\<close>.\<close>

definition joined :: "string list \<Rightarrow> string option" where
  "joined parts = (if parts = [] then None else Some (join [CHR 0x0A] parts))"

section \<open>URLs\<close>

definition trim_slashes :: "string \<Rightarrow> string" where
  "trim_slashes s = rev (dropWhile (\<lambda>c. c = CHR ''/'') (rev s))"

text \<open>\<open>trim_end_matches("/v1")\<close>.\<close>

function trim_v1 :: "string \<Rightarrow> string" where
  "trim_v1 s = (case strip_suffix s ''/v1'' of Some t \<Rightarrow> trim_v1 t | None \<Rightarrow> s)"
  by pat_completeness auto
termination
  by (relation "measure length") (auto simp: strip_suffix_Some)

declare trim_v1.simps [simp del]

section \<open>Requests and errors\<close>

definition requested_reasoning :: "model_route \<Rightarrow> string" where
  "requested_reasoning r =
     (if reasoning_enabled (mr_reasoning r) then effort_str (effort_of (mr_reasoning r)) else ''none'')"

definition thinking_on :: "model_route \<Rightarrow> attempt_state \<Rightarrow> bool" where
  "thinking_on r a = (reasoning_enabled (mr_reasoning r) \<and> \<not> at_drop_reasoning a)"

definition sent_effort_of :: "model_route \<Rightarrow> attempt_state \<Rightarrow> reasoning_effort" where
  "sent_effort_of r a = capped_effort (effort_of (mr_reasoning r)) a"

definition effective_reasoning :: "model_route \<Rightarrow> attempt_state \<Rightarrow> string" where
  "effective_reasoning r a = (if thinking_on r a then effort_str (sent_effort_of r a) else ''none'')"

definition asked_budget :: "model_route \<Rightarrow> attempt_state \<Rightarrow> nat" where
  "asked_budget r a = capped_budget (budget_tokens (mr_reasoning r)) (effort_of (mr_reasoning r)) a"

text \<open>The budget that is sent and the limit on the whole output.\<close>

definition sent_budget :: "nat \<Rightarrow> nat \<Rightarrow> nat" where
  "sent_budget max_out b = min b (max_out - 1024)"

definition raised_max :: "nat \<Rightarrow> nat \<Rightarrow> nat" where
  "raised_max max_out b = (if max_out \<le> b + 1024 then b + max_out else max_out)"

lemma sent_budget_below: "0 < max_out \<Longrightarrow> sent_budget max_out b < raised_max max_out (sent_budget max_out b)"
  by (auto simp: sent_budget_def raised_max_def)

lemma raised_max_bounds: "max_out \<le> raised_max max_out b" "raised_max max_out (sent_budget max_out b) \<le> 2 * max_out"
  by (auto simp: sent_budget_def raised_max_def)

definition bearer_headers :: "wire_fns \<Rightarrow> model_route \<Rightarrow> string \<Rightarrow> (string \<times> string) list" where
  "bearer_headers W r api_key =
     [(''authorization'', ''Bearer '' @ api_key), (''content-type'', ''application/json'')]
       @ route_headers (wf_session W) r"

definition http_error :: "nat \<Rightarrow> string \<Rightarrow> provider_error" where
  "http_error status body = Http (''HTTP '' @ nat_str status @ '': '' @ excerpt_bytes body 400)"

definition bad_json :: "string \<Rightarrow> string \<Rightarrow> provider_error" where
  "bad_json e body = Other (''bad JSON response: '' @ e @ '': '' @ excerpt_bytes body 300)"

text \<open>What follows the adjustments: an error status, a body that is no JSON, or \<open>k\<close> on the value.\<close>

definition read_body :: "wire_fns \<Rightarrow> nat \<Rightarrow> string \<Rightarrow> (json \<Rightarrow> parse_result) \<Rightarrow> parse_result" where
  "read_body W status body k =
     (if 400 \<le> status then ParseErr (http_error status body)
      else (case wf_parse W body of Inl e \<Rightarrow> ParseErr (bad_json e body) | Inr v \<Rightarrow> k v))"

definition no_cache_retry :: string where "no_cache_retry = ''400: retrying without prompt cache hint''"

text \<open>A prompt cache key that the provider rejects.\<close>

definition cache_key_rejected :: "model_route \<Rightarrow> string option \<Rightarrow> nat \<Rightarrow> string \<Rightarrow> attempt_state \<Rightarrow> bool" where
  "cache_key_rejected r cache_key status body a =
     (status = 400 \<and> mr_cache r \<and> \<not> at_drop_cache_hint a \<and> cache_key \<noteq> None
      \<and> str_contains body ''prompt_cache_key'')"

definition cache_key_field :: "model_route \<Rightarrow> string option \<Rightarrow> attempt_state \<Rightarrow> (string \<times> json) list" where
  "cache_key_field r cache_key a =
     (case cache_key of
        Some k \<Rightarrow> if mr_cache r \<and> \<not> at_drop_cache_hint a then [(''prompt_cache_key'', JStr k)] else []
      | None \<Rightarrow> [])"

definition temperature_field :: "model_route \<Rightarrow> attempt_state \<Rightarrow> (string \<times> json) list" where
  "temperature_field r a = (if at_drop_temperature a then [] else [(''temperature'', JFloat (mr_temperature r))])"

text \<open>The arguments of a call that come as text.\<close>

definition text_arguments :: "wire_fns \<Rightarrow> json \<Rightarrow> json" where
  "text_arguments W v =
     (let raw = str_or ''{}'' v in
      case wf_parse W raw of Inr a \<Rightarrow> a | Inl _ \<Rightarrow> JObj [(''_raw'', JStr raw)])"

definition assistant :: "string option \<Rightarrow> tool_call list \<Rightarrow> json option \<Rightarrow> chat_message" where
  "assistant content calls state =
     \<lparr>cm_role = Assistant, cm_content = content, cm_tool_calls = calls, cm_tool_call_id = None,
      cm_name = None, cm_provider_state = state\<rparr>"

section \<open>Turns of a conversation\<close>

text \<open>Append \<open>parts\<close> under \<open>role\<close>, merging into the last turn when the roles match; \<open>key\<close> is the name of
  the list of parts.\<close>

definition push_turn :: "string \<Rightarrow> string \<Rightarrow> json list \<Rightarrow> json list \<Rightarrow> json list" where
  "push_turn key role parts out =
     (if out \<noteq> [] \<and> jidx (last out) ''role'' = JStr role \<and> as_array (jidx (last out) key) \<noteq> None
      then (case as_array (jidx (last out) key) of
              Some a \<Rightarrow> butlast out @ [jset key (JArr (a @ parts)) (last out)] | None \<Rightarrow> out)
      else out @ [JObj [(''role'', JStr role), (key, JArr parts)]])"

definition system_texts :: "chat_message list \<Rightarrow> string list" where
  "system_texts ms = List.map_filter (\<lambda>m. if cm_role m = System then cm_content m else None) ms"

text \<open>A turn as the adapters build it, and turns whose roles alternate.\<close>

definition is_turn :: "string \<Rightarrow> json \<Rightarrow> bool" where
  "is_turn key v = (\<exists>role parts. jidx v ''role'' = JStr role \<and> jidx v key = JArr parts \<and> is_object v)"

definition alternating :: "string \<Rightarrow> json list \<Rightarrow> bool" where
  "alternating key out =
     (list_all (is_turn key) out \<and> successively (\<lambda>v w. jidx v ''role'' \<noteq> jidx w ''role'') out)"

lemma alternating_Nil [simp]: "alternating key []"
  by (simp add: alternating_def)

lemma jidx_jset: "is_object v \<Longrightarrow> jidx (jset k w v) i = (if i = k then w else jidx v i)"
  by (cases v) (simp_all add: is_object_def jset_def jidx_def jget_def map_of_obj_insert)

lemma is_object_jset [simp]: "is_object (jset k w v) = is_object v"
  by (cases v) (simp_all add: is_object_def jset_def)

lemma alternating_replace_last:
  assumes "alternating key (out @ [v])" and "is_turn key w" and "jidx w ''role'' = jidx v ''role''"
  shows "alternating key (out @ [w])"
  using assms by (simp add: alternating_def successively_append_iff)

lemma push_turn_alternating:
  assumes out: "alternating key out" and key: "key \<noteq> ''role''"
  shows "alternating key (push_turn key role parts out)"
    and "push_turn key role parts out \<noteq> []" "jidx (last (push_turn key role parts out)) ''role'' = JStr role"
proof -
  have "alternating key (push_turn key role parts out) \<and> push_turn key role parts out \<noteq> []
    \<and> jidx (last (push_turn key role parts out)) ''role'' = JStr role"
  proof (cases "out \<noteq> [] \<and> jidx (last out) ''role'' = JStr role \<and> as_array (jidx (last out) key) \<noteq> None")
    case True
    then obtain o1 v where o1: "out = o1 @ [v]" by (metis append_butlast_last_id)
    from True o1 obtain a where a: "jidx v key = JArr a" "jidx v ''role'' = JStr role"
      by (auto simp: as_array_def split: json.splits)
    have t: "is_turn key v" using out o1 by (simp add: alternating_def)
    then have obj: "is_object v" by (auto simp: is_turn_def)
    have p: "push_turn key role parts out = o1 @ [jset key (JArr (a @ parts)) v]"
      using True o1 a by (simp add: push_turn_def as_array_def)
    have w: "is_turn key (jset key (JArr (a @ parts)) v)" "jidx (jset key (JArr (a @ parts)) v) ''role'' = JStr role"
      using obj a key by (simp_all add: is_turn_def jidx_jset)
    then show ?thesis using alternating_replace_last[of key o1 v] out o1 a p by simp
  next
    case False
    then have p: "push_turn key role parts out = out @ [JObj [(''role'', JStr role), (key, JArr parts)]]"
      by (simp only: push_turn_def if_False)
    have n: "is_turn key (JObj [(''role'', JStr role), (key, JArr parts)])"
      using key by (simp add: is_turn_def jidx_def jget_def is_object_def)
    have "jidx (last out) ''role'' \<noteq> JStr role" if "out \<noteq> []"
    proof -
      have "is_turn key (last out)" using that out by (simp add: alternating_def list_all_iff)
      then have "as_array (jidx (last out) key) \<noteq> None" by (auto simp: is_turn_def as_array_def)
      with that False show ?thesis by blast
    qed
    then show ?thesis using out n by (auto simp: p alternating_def successively_append_iff jidx_def jget_def)
  qed
  then show "alternating key (push_turn key role parts out)"
    "push_turn key role parts out \<noteq> []" "jidx (last (push_turn key role parts out)) ''role'' = JStr role" by blast+
qed

section \<open>Retries in the same slot are bounded\<close>

text \<open>What an attempt can still give up, a switch of the thinking mode, the name of the token limit
  and the cache hint included.\<close>

definition retries_left :: "attempt_state \<Rightarrow> nat" where
  "retries_left a =
     adjustments_left a + (if at_drop_cache_hint a then 0 else 1) + (if at_thinking_mode_retried a then 0 else 1)
       + (if at_tokens_key a = ''max_tokens'' then 1 else 0)"

lemma retries_left_bound: "retries_left a \<le> 6"
  by (simp add: retries_left_def adjustments_left_def)

lemma merge_retries_left: "retries_left (merge_adjustments a l) \<le> retries_left a"
proof -
  let ?m = "merge_adjustments a l"
  have "adjustments_left ?m \<le> adjustments_left a"
    by (simp add: adjustments_left_def merge_adjustments_def)
  moreover have "(if at_drop_cache_hint ?m then 0 else 1) \<le> (if at_drop_cache_hint a then 0 else (1::nat))"
    by (simp add: merge_adjustments_def)
  moreover have "at_thinking_mode_retried ?m = at_thinking_mode_retried a" by (simp add: merge_adjustments_def)
  moreover have "at_tokens_key ?m = ''max_tokens'' \<Longrightarrow> at_tokens_key a = ''max_tokens''"
    by (cases "at_tokens_key l = ''max_completion_tokens''") (simp_all add: merge_adjustments_def)
  then have "(if at_tokens_key ?m = ''max_tokens'' then 1 else 0) \<le> (if at_tokens_key a = ''max_tokens'' then 1 else (0::nat))"
    by auto
  ultimately show ?thesis unfolding retries_left_def by (intro add_mono) simp_all
qed

text \<open>The attempts of a request: before each one the adjustments that other requests learned are
  merged, and the adapter may be in any state \<open>'l\<close> that it shares with other requests; the number of
  answers in a row that ask for the same slot again.\<close>

fun same_slot_retries ::
  "('l \<Rightarrow> nat \<Rightarrow> string \<Rightarrow> attempt_state \<Rightarrow> parse_result \<times> attempt_state) \<Rightarrow>
   ('l \<times> attempt_state \<times> nat \<times> string) list \<Rightarrow> attempt_state \<Rightarrow> nat"
where
  "same_slot_retries parse [] a = 0"
| "same_slot_retries parse ((s, l, status, body) # xs) a =
     (case parse s status body (merge_adjustments a l) of
        (RetrySameSlot _, a') \<Rightarrow> Suc (same_slot_retries parse xs a')
      | _ \<Rightarrow> 0)"

locale wire_adapter =
  fixes parse :: "'l \<Rightarrow> nat \<Rightarrow> string \<Rightarrow> attempt_state \<Rightarrow> parse_result \<times> attempt_state"
  assumes retry_gives_up: "parse s status body a = (RetrySameSlot why, a') \<Longrightarrow> retries_left a' < retries_left a"
begin

lemma retries_bounded: "same_slot_retries parse xs a \<le> retries_left a"
proof (induction xs arbitrary: a)
  case (Cons x xs)
  obtain s l status body where x: "x = (s, l, status, body)" by (cases x)
  obtain p a' where p: "parse s status body (merge_adjustments a l) = (p, a')" by fastforce
  show ?case
  proof (cases p)
    case (RetrySameSlot why)
    from Cons.IH[of a'] retry_gives_up[OF p[unfolded RetrySameSlot]] merge_retries_left[of a l]
    show ?thesis by (simp add: x p RetrySameSlot)
  qed (simp_all add: x p)
qed simp

end

lemma give_up_cache_hint: "\<not> at_drop_cache_hint a \<Longrightarrow> retries_left (a\<lparr>at_drop_cache_hint := True\<rparr>) < retries_left a"
  by (simp add: retries_left_def adjustments_left_def)

lemma give_up_tokens_key:
  "at_tokens_key a = ''max_tokens'' \<Longrightarrow> retries_left (a\<lparr>at_tokens_key := ''max_completion_tokens''\<rparr>) < retries_left a"
  by (simp add: retries_left_def adjustments_left_def)

lemma give_up_mode_switch:
  "\<not> at_thinking_mode_retried a \<Longrightarrow> retries_left (a\<lparr>at_thinking_mode_retried := True\<rparr>) < retries_left a"
  by (simp add: retries_left_def adjustments_left_def)

lemma detect_400_frame:
  assumes "detect_400_fallback status body a keys effort = (p, a')"
  shows "at_drop_cache_hint a' = at_drop_cache_hint a" "at_thinking_mode_retried a' = at_thinking_mode_retried a"
    "at_tokens_key a' = at_tokens_key a"
  using assms by (auto simp: detect_400_fallback_def split: if_splits)

lemma detect_400_retries_left:
  "detect_400_fallback status body a keys effort = (Some p, a') \<Longrightarrow> retries_left a' < retries_left a"
  using detect_400_progress[of status body a keys effort p a'] detect_400_frame[of status body a keys effort "Some p" a']
  unfolding retries_left_def by simp

lemma detect_400_None: "detect_400_fallback status body a keys effort = (None, a') \<Longrightarrow> a' = a"
  by (auto simp: detect_400_fallback_def split: if_splits)

lemma read_body_no_retry: "(\<And>v. k v \<noteq> RetrySameSlot why) \<Longrightarrow> read_body W status body k \<noteq> RetrySameSlot why"
  by (simp add: read_body_def split: sum.splits)

text \<open>The common end of the four \<open>parse\<close> functions.\<close>

definition after_400 ::
  "wire_fns \<Rightarrow> nat \<Rightarrow> string \<Rightarrow> string list \<Rightarrow> model_route \<Rightarrow> (json \<Rightarrow> parse_result) \<Rightarrow> attempt_state \<Rightarrow>
   parse_result \<times> attempt_state"
where
  "after_400 W status body keys r k a =
     (case detect_400_fallback status body a keys (effort_of (mr_reasoning r)) of
        (Some p, a') \<Rightarrow> (p, a')
      | (None, a') \<Rightarrow> (read_body W status body k, a'))"

lemma after_400_gives_up:
  assumes "after_400 W status body keys r k a = (RetrySameSlot why, a')" and "\<And>v. k v \<noteq> RetrySameSlot why"
  shows "retries_left a' < retries_left a"
proof -
  obtain p b where d: "detect_400_fallback status body a keys (effort_of (mr_reasoning r)) = (p, b)" by fastforce
  show ?thesis
  proof (cases p)
    case None
    then show ?thesis using assms read_body_no_retry[of k why W status body] d by (simp add: after_400_def)
  next
    case (Some q)
    then show ?thesis using assms(1) d detect_400_retries_left[of status body a keys _ q b]
      by (simp add: after_400_def)
  qed
qed

end
