(* ===== verification/Adapter_Openai.thy ===== *)
theory Adapter_Openai
  imports Wire
begin

text \<open>
  \<open>src/src/provider/openai_chat.rs\<close>: the chat-completions protocol.  An adapter is a route, the
  credential of its environment variable and an optional cache key; \<open>chat_adapter\<close> is its view for
  the transport.
\<close>

fun role_str :: "role \<Rightarrow> string" where
  "role_str System = ''system''"
| "role_str User = ''user''"
| "role_str Assistant = ''assistant''"
| "role_str Tool = ''tool''"

definition chat_field :: "model_route \<Rightarrow> reasoning_field" where
  "chat_field r =
     (case field_setting (mr_reasoning r) of
        AutoField \<Rightarrow> if str_contains (base_url r) ''openrouter.ai'' then OpenrouterField else OpenaiField
      | f \<Rightarrow> f)"

section \<open>Building a request\<close>

definition chat_call :: "wire_fns \<Rightarrow> tool_call \<Rightarrow> json" where
  "chat_call W t =
     JObj [(''id'', JStr (tc_id t)), (''type'', JStr ''function''),
       (''function'', JObj [(''name'', JStr (tc_name t)), (''arguments'', JStr (wf_print W (tc_arguments t)))])]"

definition chat_message_json :: "wire_fns \<Rightarrow> chat_message \<Rightarrow> json" where
  "chat_message_json W m =
     JObj ([(''role'', JStr (role_str (cm_role m)))]
       @ (case cm_content m of Some c \<Rightarrow> [(''content'', JStr c)] | None \<Rightarrow> [])
       @ (if cm_tool_calls m = [] then [] else [(''tool_calls'', JArr (map (chat_call W) (cm_tool_calls m)))])
       @ (case cm_tool_call_id m of Some i \<Rightarrow> [(''tool_call_id'', JStr i)] | None \<Rightarrow> [])
       @ (case cm_name m of Some n \<Rightarrow> [(''name'', JStr n)] | None \<Rightarrow> []))"

definition chat_tool :: "tool_spec \<Rightarrow> json" where
  "chat_tool t =
     JObj [(''type'', JStr ''function''),
       (''function'', JObj [(''name'', JStr (ts_name t)), (''description'', JStr (ts_description t)),
                            (''parameters'', ts_parameters t)])]"

definition chat_reasoning :: "model_route \<Rightarrow> attempt_state \<Rightarrow> (string \<times> json) list" where
  "chat_reasoning r a =
     (if \<not> thinking_on r a then []
      else if chat_field r = OpenrouterField
      then [(''reasoning'',
             (case budget_tokens (mr_reasoning r) of
                Some b \<Rightarrow> JObj [(''max_tokens'', JNat (capped_budget (Some b) (effort_of (mr_reasoning r)) a))]
              | None \<Rightarrow> JObj [(''effort'', JStr (effort_str (sent_effort_of r a)))]))]
      else [(''reasoning_effort'', JStr (effort_str (sent_effort_of r a)))])"

definition chat_build ::
  "wire_fns \<Rightarrow> model_route \<Rightarrow> string \<Rightarrow> string option \<Rightarrow> chat_message list \<Rightarrow> tool_spec list \<Rightarrow> attempt_state \<Rightarrow>
   http_request"
where
  "chat_build W r api_key cache_key messages tools a =
     \<lparr>hr_url = trim_slashes (base_url r) @ ''/chat/completions'',
      hr_headers = bearer_headers W r api_key,
      hr_body = JObj ([(''model'', JStr (mr_model r)), (''messages'', JArr (map (chat_message_json W) messages)),
          (''tools'', JArr (map chat_tool tools)), (''tool_choice'', JStr ''auto''),
          (at_tokens_key a, JNat (unat (mr_max_output_tokens r)))]
        @ cache_key_field r cache_key a @ temperature_field r a @ chat_reasoning r a)\<rparr>"

section \<open>Reading an answer\<close>

text \<open>Content may be a string, null, or a list of parts.\<close>

definition chat_content :: "json \<Rightarrow> string option" where
  "chat_content v =
     (case v of
        JStr s \<Rightarrow> Some s
      | JArr parts \<Rightarrow>
          (let t = join [CHR 0x0A] (List.map_filter (\<lambda>p. as_str (jidx p ''text''))
                     (filter (\<lambda>p. str_or ''text'' (jidx p ''type'') = ''text'') parts)) in
           if t = [] then None else Some t)
      | _ \<Rightarrow> None)"

definition chat_tool_call :: "wire_fns \<Rightarrow> json \<Rightarrow> tool_call" where
  "chat_tool_call W t =
     \<lparr>tc_id = str_or [] (jidx t ''id''), tc_name = str_or [] (jpath t [''function'', ''name'']),
      tc_arguments = text_arguments W (jpath t [''function'', ''arguments''])\<rparr>"

definition chat_usage :: "json \<Rightarrow> usage" where
  "chat_usage v =
     \<lparr>us_prompt_tokens = u64_or_0 (jpath v [''usage'', ''prompt_tokens'']),
      us_completion_tokens = u64_or_0 (jpath v [''usage'', ''completion_tokens'']),
      us_cached_prompt_tokens =
        (case as_u64 (jpath v [''usage'', ''prompt_tokens_details'', ''cached_tokens'']) of
           Some n \<Rightarrow> n | None \<Rightarrow> u64_or_0 (jpath v [''usage'', ''prompt_cache_hit_tokens''])),
      us_cache_write_tokens = 0,
      us_reasoning_tokens = u64_or_0 (jpath v [''usage'', ''completion_tokens_details'', ''reasoning_tokens''])\<rparr>"

definition chat_truncated :: string where
  "chat_truncated =
     ''output truncated at max_output_tokens with empty content; raise max_output_tokens or lower reasoning effort''"

definition chat_answer :: "wire_fns \<Rightarrow> json \<Rightarrow> parse_result" where
  "chat_answer W v =
     (let choice = jat (jidx v ''choices'') 0; msg = jidx choice ''message'' in
      if msg = JNull
      then ParseErr (Other (''no choices[0].message in response: '' @ excerpt_bytes (wf_print W v) 500))
      else
        (let content = chat_content (jidx msg ''content'');
             calls = (case as_array (jidx msg ''tool_calls'') of None \<Rightarrow> [] | Some a \<Rightarrow> map (chat_tool_call W) a) in
         if as_str (jidx choice ''finish_reason'') = Some ''length'' \<and> content = None \<and> calls = []
         then ParseErr (Other chat_truncated)
         else ParseOk (assistant content calls None) (chat_usage v)))"

definition chat_parse ::
  "wire_fns \<Rightarrow> model_route \<Rightarrow> string option \<Rightarrow> nat \<Rightarrow> string \<Rightarrow> attempt_state \<Rightarrow> parse_result \<times> attempt_state"
where
  "chat_parse W r cache_key status body a =
     (if cache_key_rejected r cache_key status body a
      then (RetrySameSlot no_cache_retry, a\<lparr>at_drop_cache_hint := True\<rparr>)
      else if status = 400 \<and> at_tokens_key a = ''max_tokens'' \<and> str_contains body ''max_completion_tokens''
      then (RetrySameSlot ''400: retrying with max_completion_tokens'',
            a\<lparr>at_tokens_key := ''max_completion_tokens''\<rparr>)
      else after_400 W status body [''reasoning'', ''reasoning_effort''] r (chat_answer W) a)"

definition chat_adapter :: "wire_fns \<Rightarrow> model_route \<Rightarrow> string option \<Rightarrow> adapter" where
  "chat_adapter W r cache_key =
     \<lparr>ad_label = ''openai-chat:'' @ wf_identity W (base_url r), ad_model = mr_model r,
      ad_requested_reasoning = requested_reasoning r, ad_effective_reasoning = effective_reasoning r,
      ad_build = (\<lambda>_ _ a. (None, a)), ad_parse = chat_parse W r cache_key\<rparr>"

section \<open>The contract\<close>

lemma chat_answer_no_retry: "chat_answer W v \<noteq> RetrySameSlot why"
  by (simp add: chat_answer_def Let_def)

interpretation chat: wire_adapter "\<lambda>_ :: unit. chat_parse W r cache_key"
proof
  fix s :: unit and status body a why a'
  assume p: "chat_parse W r cache_key status body a = (RetrySameSlot why, a')"
  consider "cache_key_rejected r cache_key status body a" "a' = a\<lparr>at_drop_cache_hint := True\<rparr>"
    | "at_tokens_key a = ''max_tokens''" "a' = a\<lparr>at_tokens_key := ''max_completion_tokens''\<rparr>"
    | "after_400 W status body [''reasoning'', ''reasoning_effort''] r (chat_answer W) a = (RetrySameSlot why, a')"
    using p by (auto simp only: chat_parse_def prod.inject split: if_split_asm)
  then show "retries_left a' < retries_left a"
  proof cases
    case 1
    then show ?thesis using give_up_cache_hint by (simp add: cache_key_rejected_def)
  next
    case 2
    then show ?thesis using give_up_tokens_key by simp
  next
    case 3
    then show ?thesis by (rule after_400_gives_up) (rule chat_answer_no_retry)
  qed
qed


text \<open>
  \<open>src/src/provider/openai_responses.rs\<close>: the Responses protocol.  The input is a flat list of items; a
  turn of the assistant gives its text, its reasoning items as they came, and its calls, in this order.
\<close>

section \<open>Building a request\<close>

definition function_call_item :: "wire_fns \<Rightarrow> tool_call \<Rightarrow> json" where
  "function_call_item W t =
     JObj [(''type'', JStr ''function_call''), (''call_id'', JStr (tc_id t)), (''name'', JStr (tc_name t)),
           (''arguments'', JStr (wf_print W (tc_arguments t)))]"

definition echoed_items :: "chat_message \<Rightarrow> json list" where
  "echoed_items m = (case cm_provider_state m of Some (JArr items) \<Rightarrow> items | _ \<Rightarrow> [])"

definition input_items :: "wire_fns \<Rightarrow> chat_message \<Rightarrow> json list" where
  "input_items W m =
     (case cm_role m of
        System \<Rightarrow> []
      | User \<Rightarrow>
          [JObj [(''role'', JStr ''user''),
                 (''content'', JArr [JObj [(''type'', JStr ''input_text''), (''text'', JStr (text_or_empty (cm_content m)))]])]]
      | Assistant \<Rightarrow>
          (case cm_content m of
             Some c \<Rightarrow>
               [JObj [(''role'', JStr ''assistant''),
                      (''content'', JArr [JObj [(''type'', JStr ''output_text''), (''text'', JStr c)]])]]
           | None \<Rightarrow> [])
          @ echoed_items m @ map (function_call_item W) (cm_tool_calls m)
      | Tool \<Rightarrow>
          [JObj [(''type'', JStr ''function_call_output''), (''call_id'', JStr (text_or_empty (cm_tool_call_id m))),
                 (''output'', JStr (text_or_empty (cm_content m)))]])"

definition to_input :: "wire_fns \<Rightarrow> chat_message list \<Rightarrow> string list \<times> json list" where
  "to_input W messages = (system_texts messages, concat (map (input_items W) messages))"

definition resp_tool :: "tool_spec \<Rightarrow> json" where
  "resp_tool t =
     JObj [(''type'', JStr ''function''), (''name'', JStr (ts_name t)), (''description'', JStr (ts_description t)),
           (''parameters'', ts_parameters t), (''strict'', JBool False)]"

definition resp_base :: "model_route \<Rightarrow> string" where
  "resp_base r = trim_slashes (base_url r)"

definition resp_build ::
  "wire_fns \<Rightarrow> model_route \<Rightarrow> string \<Rightarrow> string option \<Rightarrow> chat_message list \<Rightarrow> tool_spec list \<Rightarrow> attempt_state \<Rightarrow>
   http_request"
where
  "resp_build W r api_key cache_key messages tools a =
     (let (instructions, items) = to_input W messages in
      \<lparr>hr_url = resp_base r @ ''/responses'', hr_headers = bearer_headers W r api_key,
       hr_body = JObj ([(''model'', JStr (mr_model r)), (''input'', JArr items),
           (''tools'', JArr (map resp_tool tools)), (''tool_choice'', JStr ''auto''),
           (''max_output_tokens'', JNat (unat (mr_max_output_tokens r))), (''store'', JBool False)]
         @ cache_key_field r cache_key a
         @ (if instructions = [] then []
            else [(''instructions'', JStr (join [CHR 0x0A, CHR 0x0A] instructions))])
         @ temperature_field r a
         @ (if thinking_on r a
            then [(''reasoning'', JObj [(''effort'', JStr (effort_str (sent_effort_of r a)))]),
                  (''include'', JArr [JStr ''reasoning.encrypted_content''])]
            else []))\<rparr>)"

section \<open>Reading an answer\<close>

definition item_texts :: "json \<Rightarrow> string list" where
  "item_texts item =
     (case as_array (jidx item ''content'') of
        None \<Rightarrow> []
      | Some cs \<Rightarrow>
          List.map_filter (\<lambda>c. as_str (jidx c ''text''))
            (filter (\<lambda>c. as_str (jidx c ''type'') = Some ''output_text'') cs))"

definition item_call :: "wire_fns \<Rightarrow> json \<Rightarrow> tool_call" where
  "item_call W item =
     \<lparr>tc_id = str_or [] (jidx item ''call_id''), tc_name = str_or [] (jidx item ''name''),
      tc_arguments = text_arguments W (jidx item ''arguments'')\<rparr>"

definition of_type :: "string \<Rightarrow> json list \<Rightarrow> json list" where
  "of_type ty items = filter (\<lambda>i. as_str (jidx i ''type'') = Some ty) items"

definition resp_usage :: "json \<Rightarrow> usage" where
  "resp_usage v =
     \<lparr>us_prompt_tokens = u64_or_0 (jpath v [''usage'', ''input_tokens'']),
      us_completion_tokens = u64_or_0 (jpath v [''usage'', ''output_tokens'']),
      us_cached_prompt_tokens = u64_or_0 (jpath v [''usage'', ''input_tokens_details'', ''cached_tokens'']),
      us_cache_write_tokens = 0,
      us_reasoning_tokens = u64_or_0 (jpath v [''usage'', ''output_tokens_details'', ''reasoning_tokens''])\<rparr>"

definition resp_truncated :: string where
  "resp_truncated =
     ''output truncated at max_output_tokens with empty output; raise max_output_tokens or lower reasoning effort''"

definition some_array :: "json list \<Rightarrow> json option" where
  "some_array items = (if items = [] then None else Some (JArr items))"

definition resp_answer :: "wire_fns \<Rightarrow> json \<Rightarrow> parse_result" where
  "resp_answer W v =
     (let items = (case as_array (jidx v ''output'') of None \<Rightarrow> [] | Some a \<Rightarrow> a);
          texts = concat (map item_texts (of_type ''message'' items));
          calls = map (item_call W) (of_type ''function_call'' items) in
      if as_str (jidx v ''status'') = Some ''incomplete''
         \<and> as_str (jpath v [''incomplete_details'', ''reason'']) = Some ''max_output_tokens''
         \<and> calls = [] \<and> texts = []
      then ParseErr (Other resp_truncated)
      else if calls = [] \<and> texts = []
      then ParseErr (Other (''no usable output items in response: '' @ excerpt_bytes (wf_print W v) 500))
      else ParseOk (assistant (joined texts) calls (some_array (of_type ''reasoning'' items))) (resp_usage v))"

definition resp_parse ::
  "wire_fns \<Rightarrow> model_route \<Rightarrow> string option \<Rightarrow> nat \<Rightarrow> string \<Rightarrow> attempt_state \<Rightarrow> parse_result \<times> attempt_state"
where
  "resp_parse W r cache_key status body a =
     (if cache_key_rejected r cache_key status body a
      then (RetrySameSlot no_cache_retry, a\<lparr>at_drop_cache_hint := True\<rparr>)
      else after_400 W status body [''reasoning''] r (resp_answer W) a)"

definition resp_adapter :: "wire_fns \<Rightarrow> model_route \<Rightarrow> string option \<Rightarrow> adapter" where
  "resp_adapter W r cache_key =
     \<lparr>ad_label = ''openai-responses:'' @ wf_identity W (resp_base r), ad_model = mr_model r,
      ad_requested_reasoning = requested_reasoning r, ad_effective_reasoning = effective_reasoning r,
      ad_build = (\<lambda>_ _ a. (None, a)), ad_parse = resp_parse W r cache_key\<rparr>"

section \<open>The contract\<close>

lemma resp_answer_no_retry: "resp_answer W v \<noteq> RetrySameSlot why"
  by (simp add: resp_answer_def Let_def)

interpretation responses: wire_adapter "\<lambda>_ :: unit. resp_parse W r cache_key"
proof
  fix s :: unit and status body a why a'
  assume p: "resp_parse W r cache_key status body a = (RetrySameSlot why, a')"
  consider "cache_key_rejected r cache_key status body a" "a' = a\<lparr>at_drop_cache_hint := True\<rparr>"
    | "after_400 W status body [''reasoning''] r (resp_answer W) a = (RetrySameSlot why, a')"
    using p by (auto simp only: resp_parse_def prod.inject split: if_split_asm)
  then show "retries_left a' < retries_left a"
  proof cases
    case 1
    then show ?thesis using give_up_cache_hint by (simp add: cache_key_rejected_def)
  next
    case 2
    then show ?thesis by (rule after_400_gives_up) (rule resp_answer_no_retry)
  qed
qed

text \<open>The reasoning items of an answer are sent back as they came, between the text of the turn and its
  calls, and every call under the identifier it had.\<close>

lemma resp_echo:
  assumes "resp_answer W v = ParseOk m u" and "as_array (jidx v ''output'') = Some items"
  shows "\<exists>head. input_items W m = head @ of_type ''reasoning'' items @ map (function_call_item W) (cm_tool_calls m)
     \<and> length head \<le> 1
     \<and> map tc_id (cm_tool_calls m) = map (\<lambda>i. str_or [] (jidx i ''call_id'')) (of_type ''function_call'' items)"
proof -
  have m: "m = assistant (joined (concat (map item_texts (of_type ''message'' items))))
      (map (item_call W) (of_type ''function_call'' items)) (some_array (of_type ''reasoning'' items))"
    using assms by (simp add: resp_answer_def Let_def split: if_splits)
  have "echoed_items m = of_type ''reasoning'' items"
    by (simp add: m echoed_items_def assistant_def some_array_def)
  then show ?thesis
    by (intro exI[of _ "case cm_content m of Some c \<Rightarrow>
         [JObj [(''role'', JStr ''assistant''),
           (''content'', JArr [JObj [(''type'', JStr ''output_text''), (''text'', JStr c)]])]] | None \<Rightarrow> []"])
      (simp add: m input_items_def assistant_def item_call_def comp_def split: option.splits)
qed

end
