(* ===== verification/Adapter_Anthropic.thy ===== *)
theory Adapter_Anthropic
  imports Wire
begin

text \<open>
  \<open>src/src/provider/anthropic.rs\<close>: the Messages protocol.  \<open>learned\<close> is the thinking mode that a
  rejection taught this client (a \<open>OnceLock\<close>, set at most once, shared by its requests); the functions
  take it and \<open>anth_parse\<close> returns it.
\<close>

datatype thinking_mode = Adaptive | Budget

definition rejected_thinking_mode :: "string \<Rightarrow> thinking_mode option" where
  "rejected_thinking_mode body =
     (if str_contains body ''thinking.type.enabled'' \<or> str_contains body ''thinking.adaptive.'' then Some Budget
      else (let l = to_ascii_lowercase body in
            if str_contains l ''adaptive'' \<and> (str_contains l ''not supported'' \<or> str_contains l ''unsupported'')
               \<and> \<not> str_contains l ''effort''
            then Some Adaptive else None))"

definition anth_base :: "model_route \<Rightarrow> string" where
  "anth_base r =
     trim_v1 (trim_slashes (case mr_base_url r of Some u \<Rightarrow> u | None \<Rightarrow> ''https://api.anthropic.com''))"

section \<open>Turns\<close>

definition text_block :: "string \<Rightarrow> json" where
  "text_block t = JObj [(''type'', JStr ''text''), (''text'', JStr t)]"

definition tool_use_block :: "tool_call \<Rightarrow> json" where
  "tool_use_block t =
     JObj [(''type'', JStr ''tool_use''), (''id'', JStr (tc_id t)), (''name'', JStr (tc_name t)), (''input'', tc_arguments t)]"

definition tool_result_block :: "chat_message \<Rightarrow> json" where
  "tool_result_block m =
     JObj [(''type'', JStr ''tool_result''),
           (''tool_use_id'', (case cm_tool_call_id m of Some i \<Rightarrow> JStr i | None \<Rightarrow> JNull)),
           (''content'', JStr (text_or_empty (cm_content m)))]"

definition assistant_parts :: "bool \<Rightarrow> chat_message \<Rightarrow> json list" where
  "assistant_parts drop_reasoning m =
     (if drop_reasoning then []
      else (case cm_provider_state m of Some (JArr items) \<Rightarrow> items | _ \<Rightarrow> []))
     @ (case cm_content m of Some c \<Rightarrow> [text_block c] | None \<Rightarrow> [])
     @ map tool_use_block (cm_tool_calls m)"

definition is_tool_result :: "json \<Rightarrow> bool" where
  "is_tool_result b = (jidx b ''type'' = JStr ''tool_result'')"

definition tool_results_turn :: "json \<Rightarrow> bool" where
  "tool_results_turn v =
     (jidx v ''role'' = JStr ''user''
      \<and> (case as_array (jidx v ''content'') of Some a \<Rightarrow> list_all is_tool_result a | None \<Rightarrow> False))"

definition push_tool_result :: "json \<Rightarrow> json list \<Rightarrow> json list" where
  "push_tool_result blk out =
     (if out \<noteq> [] \<and> tool_results_turn (last out)
      then (case as_array (jidx (last out) ''content'') of
              Some a \<Rightarrow> butlast out @ [jset ''content'' (JArr (a @ [blk])) (last out)] | None \<Rightarrow> out)
      else out @ [JObj [(''role'', JStr ''user''), (''content'', JArr [blk])]])"

definition push_block :: "bool \<Rightarrow> chat_message \<Rightarrow> json list \<Rightarrow> json list" where
  "push_block drop_reasoning m out =
     (case cm_role m of
        System \<Rightarrow> out
      | Assistant \<Rightarrow> push_turn ''content'' ''assistant'' (assistant_parts drop_reasoning m) out
      | Tool \<Rightarrow> push_tool_result (tool_result_block m) out
      | User \<Rightarrow> push_turn ''content'' ''user'' [text_block (text_or_empty (cm_content m))] out)"

definition to_blocks :: "chat_message list \<Rightarrow> bool \<Rightarrow> string list \<times> json list" where
  "to_blocks messages drop_reasoning = (system_texts messages, fold (push_block drop_reasoning) messages [])"

section \<open>Thinking\<close>

definition mode_of :: "model_route \<Rightarrow> thinking_mode option \<Rightarrow> thinking_mode" where
  "mode_of r learned =
     (case learned of
        Some m \<Rightarrow> m
      | None \<Rightarrow> if budget_tokens (mr_reasoning r) \<noteq> None then Budget else Adaptive)"

definition anth_effort :: "model_route \<Rightarrow> thinking_mode option \<Rightarrow> attempt_state \<Rightarrow> string" where
  "anth_effort r learned a =
     (if mode_of r learned = Adaptive \<and> sent_effort_of r a = EMinimal then ''low''
      else effort_str (sent_effort_of r a))"

definition anth_max_tokens :: "model_route \<Rightarrow> thinking_mode option \<Rightarrow> attempt_state \<Rightarrow> nat" where
  "anth_max_tokens r learned a =
     (let max_out = unat (mr_max_output_tokens r) in
      if thinking_on r a \<and> mode_of r learned = Budget
      then raised_max max_out (sent_budget max_out (asked_budget r a)) else max_out)"

definition anth_thinking :: "model_route \<Rightarrow> thinking_mode option \<Rightarrow> attempt_state \<Rightarrow> (string \<times> json) list" where
  "anth_thinking r learned a =
     (if \<not> thinking_on r a then []
      else (case mode_of r learned of
              Adaptive \<Rightarrow>
                [(''thinking'', JObj [(''type'', JStr ''adaptive'')]),
                 (''output_config'', JObj [(''effort'', JStr (anth_effort r learned a))])]
            | Budget \<Rightarrow>
                [(''thinking'', JObj [(''type'', JStr ''enabled''),
                    (''budget_tokens'', JNat (sent_budget (unat (mr_max_output_tokens r)) (asked_budget r a)))])]))"

definition anth_label :: "wire_fns \<Rightarrow> model_route \<Rightarrow> string" where
  "anth_label W r = ''anthropic:'' @ wf_identity W (anth_base r)"

definition anth_effective :: "model_route \<Rightarrow> thinking_mode option \<Rightarrow> attempt_state \<Rightarrow> string" where
  "anth_effective r learned a = (if thinking_on r a then anth_effort r learned a else ''none'')"

section \<open>Cache hints\<close>

definition ephemeral :: "json \<Rightarrow> json" where
  "ephemeral v = jset ''cache_control'' (JObj [(''type'', JStr ''ephemeral'')]) v"

fun update_first :: "('a \<Rightarrow> bool) \<Rightarrow> ('a \<Rightarrow> 'a) \<Rightarrow> 'a list \<Rightarrow> 'a list" where
  "update_first P f [] = []"
| "update_first P f (x # xs) = (if P x then f x # xs else x # update_first P f xs)"

definition update_last :: "('a \<Rightarrow> bool) \<Rightarrow> ('a \<Rightarrow> 'a) \<Rightarrow> 'a list \<Rightarrow> 'a list" where
  "update_last P f xs = rev (update_first P f (rev xs))"

definition is_thinking :: "json \<Rightarrow> bool" where
  "is_thinking b = (as_str (jidx b ''type'') \<in> {Some ''thinking'', Some ''redacted_thinking''})"

definition hint_turn :: "json \<Rightarrow> json" where
  "hint_turn v =
     (case as_array (jidx v ''content'') of
        Some blocks \<Rightarrow> jset ''content'' (JArr (update_last (\<lambda>b. \<not> is_thinking b) ephemeral blocks)) v
      | None \<Rightarrow> v)"

definition hint_turns :: "json list \<Rightarrow> json list" where
  "hint_turns msgs = take (length msgs - 2) msgs @ map hint_turn (drop (length msgs - 2) msgs)"

definition hint_last :: "json list \<Rightarrow> json list" where
  "hint_last vs = update_last (\<lambda>_. True) ephemeral vs"

section \<open>Building a request\<close>

definition anth_tool :: "tool_spec \<Rightarrow> json" where
  "anth_tool t =
     JObj [(''name'', JStr (ts_name t)), (''description'', JStr (ts_description t)), (''input_schema'', ts_parameters t)]"

definition anth_system :: "bool \<Rightarrow> string list \<Rightarrow> (string \<times> json) list" where
  "anth_system cache_hint texts =
     (if texts = [] then []
      else if cache_hint then [(''system'', JArr (hint_last (map text_block texts)))]
      else [(''system'', JStr (join [CHR 0x0A, CHR 0x0A] texts))])"

definition anth_build ::
  "wire_fns \<Rightarrow> model_route \<Rightarrow> string \<Rightarrow> thinking_mode option \<Rightarrow> chat_message list \<Rightarrow> tool_spec list \<Rightarrow>
   attempt_state \<Rightarrow> http_request"
where
  "anth_build W r api_key learned messages tools a =
     (let (system, msgs) = to_blocks messages (at_drop_reasoning a);
          cache_hint = (mr_cache r \<and> \<not> at_drop_cache_hint a) in
      \<lparr>hr_url = anth_base r @ ''/v1/messages'',
       hr_headers = [(''x-api-key'', api_key), (''anthropic-version'', ''2023-06-01''),
           (''content-type'', ''application/json'')] @ route_headers (wf_session W) r,
       hr_body = JObj ([(''model'', JStr (mr_model r)),
           (''messages'', JArr (if cache_hint then hint_turns msgs else msgs)),
           (''tools'', JArr (if cache_hint then hint_last (map anth_tool tools) else map anth_tool tools)),
           (''tool_choice'', JObj [(''type'', JStr ''auto'')])]
         @ anth_thinking r learned a
         @ (if thinking_on r a then [] else temperature_field r a)
         @ [(''max_tokens'', JNat (anth_max_tokens r learned a))]
         @ anth_system cache_hint system)\<rparr>)"

section \<open>Reading an answer\<close>

definition block_call :: "json \<Rightarrow> tool_call" where
  "block_call b =
     \<lparr>tc_id = str_or [] (jidx b ''id''), tc_name = str_or [] (jidx b ''name''), tc_arguments = jidx b ''input''\<rparr>"

definition anth_usage :: "json \<Rightarrow> usage" where
  "anth_usage v =
     (let n = (\<lambda>k. u64_or_0 (jpath v [''usage'', k]));
          cap = (\<lambda>x. min x (2 ^ 64 - 1)) in
      \<lparr>us_prompt_tokens = cap (cap (n ''input_tokens'' + n ''cache_read_input_tokens'') + n ''cache_creation_input_tokens''),
       us_completion_tokens = n ''output_tokens'', us_cached_prompt_tokens = n ''cache_read_input_tokens'',
       us_cache_write_tokens = n ''cache_creation_input_tokens'', us_reasoning_tokens = 0\<rparr>)"

definition anth_truncated :: string where
  "anth_truncated =
     ''output truncated at max_tokens with empty content; raise max_tokens or lower reasoning effort''"

definition anth_answer :: "json \<Rightarrow> parse_result" where
  "anth_answer v =
     (let blocks = (case as_array (jidx v ''content'') of None \<Rightarrow> [] | Some a \<Rightarrow> a);
          texts = List.map_filter (\<lambda>b. as_str (jidx b ''text''))
                    (filter (\<lambda>b. as_str (jidx b ''type'') = Some ''text'') blocks);
          calls = map block_call (filter (\<lambda>b. as_str (jidx b ''type'') = Some ''tool_use'') blocks);
          state = filter is_thinking blocks in
      if as_str (jidx v ''stop_reason'') = Some ''max_tokens'' \<and> texts = [] \<and> calls = []
      then ParseErr (Other anth_truncated)
      else ParseOk (assistant (joined texts) calls (if state = [] then None else Some (JArr state))) (anth_usage v))"

fun other_mode :: "thinking_mode \<Rightarrow> thinking_mode" where
  "other_mode Adaptive = Budget"
| "other_mode Budget = Adaptive"

fun mode_retry :: "thinking_mode \<Rightarrow> string" where
  "mode_retry Budget = ''400: model does not support adaptive thinking; retrying with a thinking budget''"
| "mode_retry Adaptive = ''400: model does not support thinking budgets; retrying with adaptive thinking''"

definition mode_rejection :: "model_route \<Rightarrow> nat \<Rightarrow> string \<Rightarrow> attempt_state \<Rightarrow> thinking_mode option" where
  "mode_rejection r status body a =
     (if status = 400 \<and> thinking_on r a \<and> \<not> at_thinking_mode_retried a
      then rejected_thinking_mode body else None)"

definition learn_mode :: "model_route \<Rightarrow> thinking_mode \<Rightarrow> thinking_mode option \<Rightarrow> thinking_mode option" where
  "learn_mode r rejected learned =
     (if mode_of r learned = rejected \<and> learned = None then Some (other_mode rejected) else learned)"

definition anth_rest ::
  "wire_fns \<Rightarrow> model_route \<Rightarrow> nat \<Rightarrow> string \<Rightarrow> attempt_state \<Rightarrow> parse_result \<times> attempt_state"
where
  "anth_rest W r status body a =
     (if status = 400 \<and> mr_cache r \<and> \<not> at_drop_cache_hint a \<and> str_contains body ''cache_control''
      then (RetrySameSlot no_cache_retry, a\<lparr>at_drop_cache_hint := True\<rparr>)
      else after_400 W status body [''thinking'', ''output_config'', ''effort''] r anth_answer a)"

definition anth_parse ::
  "wire_fns \<Rightarrow> model_route \<Rightarrow> thinking_mode option \<Rightarrow> nat \<Rightarrow> string \<Rightarrow> attempt_state \<Rightarrow>
   (parse_result \<times> attempt_state) \<times> thinking_mode option"
where
  "anth_parse W r learned status body a =
     (case mode_rejection r status body a of
        None \<Rightarrow> (anth_rest W r status body a, learned)
      | Some rejected \<Rightarrow>
          (let target = other_mode rejected; learned' = learn_mode r rejected learned in
           if mode_of r learned' = target
           then ((RetrySameSlot (mode_retry target), a\<lparr>at_thinking_mode_retried := True\<rparr>), learned')
           else (anth_rest W r status body a, learned')))"

section \<open>The contract\<close>

lemma anth_answer_no_retry: "anth_answer v \<noteq> RetrySameSlot why"
  by (simp add: anth_answer_def Let_def)

lemma anth_rest_gives_up:
  assumes "anth_rest W r status body a = (RetrySameSlot why, a')"
  shows "retries_left a' < retries_left a"
proof (cases "status = 400 \<and> mr_cache r \<and> \<not> at_drop_cache_hint a \<and> str_contains body ''cache_control''")
  case True
  then show ?thesis using assms give_up_cache_hint[of a] by (auto simp: anth_rest_def)
next
  case False
  then have "after_400 W status body [''thinking'', ''output_config'', ''effort''] r anth_answer a = (RetrySameSlot why, a')"
    using assms by (simp only: anth_rest_def if_False)
  then show ?thesis by (rule after_400_gives_up) (rule anth_answer_no_retry)
qed

interpretation messages: wire_adapter "\<lambda>learned status body a. fst (anth_parse W r learned status body a)"
proof
  fix learned status body a why a'
  assume p: "fst (anth_parse W r learned status body a) = (RetrySameSlot why, a')"
  consider "anth_rest W r status body a = (RetrySameSlot why, a')"
    | "mode_rejection r status body a \<noteq> None" "a' = a\<lparr>at_thinking_mode_retried := True\<rparr>"
    using p by (auto simp only: anth_parse_def Let_def fst_conv prod.inject split: option.splits if_split_asm)
  then show "retries_left a' < retries_left a"
  proof cases
    case 1
    then show ?thesis by (rule anth_rest_gives_up)
  next
    case 2
    then have "\<not> at_thinking_mode_retried a" by (simp add: mode_rejection_def split: if_splits)
    then show ?thesis using give_up_mode_switch 2(2) by simp
  qed
qed

end
