(* ===== verification/Adapter_Gemini.thy ===== *)
theory Adapter_Gemini
  imports Wire
begin

text \<open>
  \<open>src/src/provider/gemini.rs\<close>: the generateContent protocol.  A call has no identifier there, so the
  adapter makes one up from the tool's name and a counter, and takes it apart again for the result;
  an answer that carries signatures is kept as an ordered list of its parts.
\<close>

definition gem_base :: "model_route \<Rightarrow> string" where
  "gem_base r =
     trim_slashes (case mr_base_url r of Some u \<Rightarrow> u | None \<Rightarrow> ''https://generativelanguage.googleapis.com'')"

section \<open>Schemas\<close>

definition bad_keywords :: "string list" where
  "bad_keywords = [''additionalProperties'', ''$schema'', ''default'', ''examples'']"

primrec strip_schema :: "json \<Rightarrow> json" where
  "strip_schema JNull = JNull"
| "strip_schema (JBool b) = JBool b"
| "strip_schema (JNat n) = JNat n"
| "strip_schema (JNeg n) = JNeg n"
| "strip_schema (JFloat s) = JFloat s"
| "strip_schema (JStr s) = JStr s"
| "strip_schema (JArr a) = JArr (map strip_schema a)"
| "strip_schema (JObj kvs) =
     JObj (filter (\<lambda>kv. fst kv \<notin> set bad_keywords) (map (map_prod (\<lambda>k. k) strip_schema) kvs))"

primrec accepted_schema :: "json \<Rightarrow> bool" where
  "accepted_schema JNull = True"
| "accepted_schema (JBool b) = True"
| "accepted_schema (JNat n) = True"
| "accepted_schema (JNeg n) = True"
| "accepted_schema (JFloat s) = True"
| "accepted_schema (JStr s) = True"
| "accepted_schema (JArr a) = list_all (\<lambda>b. b) (map accepted_schema a)"
| "accepted_schema (JObj kvs) =
     list_all (\<lambda>kv. fst kv \<notin> set bad_keywords \<and> snd kv) (map (map_prod (\<lambda>k. k) accepted_schema) kvs)"

lemma strip_schema_accepted [simp]: "accepted_schema (strip_schema v)"
  by (induction v) (auto simp: list_all_iff)

section \<open>Turns\<close>

definition text_part :: "string option \<Rightarrow> json" where
  "text_part c = JObj [(''text'', JStr (text_or_empty c))]"

definition function_call :: "tool_call \<Rightarrow> string \<times> json" where
  "function_call t = (''functionCall'', JObj [(''name'', JStr (tc_name t)), (''args'', tc_arguments t)])"

definition signed :: "json \<Rightarrow> (string \<times> json) list \<Rightarrow> json" where
  "signed it kvs =
     JObj (kvs @ (case as_str (jidx it ''signature'') of Some s \<Rightarrow> [(''thoughtSignature'', JStr s)] | None \<Rightarrow> []))"

definition echo_part :: "tool_call list \<Rightarrow> json \<Rightarrow> json option" where
  "echo_part calls it =
     (if as_str (jidx it ''kind'') = Some ''text'' then Some (signed it [(''text'', jidx it ''text'')])
      else if as_str (jidx it ''kind'') = Some ''call''
      then (if u64_or_0 (jidx it ''idx'') < length calls
            then Some (signed it [function_call (calls ! u64_or_0 (jidx it ''idx''))]) else None)
      else None)"

definition unsigned_call :: "tool_call \<Rightarrow> json" where
  "unsigned_call t = JObj [function_call t, (''thoughtSignature'', JStr ''skip_thought_signature_validator'')]"

definition model_parts :: "chat_message \<Rightarrow> json list" where
  "model_parts m =
     (let echoed = (case cm_provider_state m of
                      Some (JArr items) \<Rightarrow> List.map_filter (echo_part (cm_tool_calls m)) items | _ \<Rightarrow> []) in
      if echoed \<noteq> [] then echoed
      else (case cm_content m of Some c \<Rightarrow> [text_part (Some c)] | None \<Rightarrow> []) @ map unsigned_call (cm_tool_calls m))"

text \<open>The name of the tool that a result answers.\<close>

definition answered_tool :: "chat_message \<Rightarrow> string" where
  "answered_tool m =
     (case cm_name m of
        Some n \<Rightarrow> n
      | None \<Rightarrow>
          (case cm_tool_call_id m of
             Some i \<Rightarrow> (case rsplit_once (CHR ''-'') i of Some (n, _) \<Rightarrow> n | None \<Rightarrow> [])
           | None \<Rightarrow> []))"

definition function_response :: "wire_fns \<Rightarrow> chat_message \<Rightarrow> json" where
  "function_response W m =
     (let output = text_or_empty (cm_content m);
          response = (case wf_parse W output of Inr v \<Rightarrow> v | Inl _ \<Rightarrow> JObj [(''text'', JStr output)]) in
      JObj [(''functionResponse'', JObj [(''name'', JStr (answered_tool m)), (''response'', JObj [(''content'', response)])])])"

definition push_content :: "wire_fns \<Rightarrow> chat_message \<Rightarrow> json list \<Rightarrow> json list" where
  "push_content W m out =
     (case cm_role m of
        System \<Rightarrow> out
      | User \<Rightarrow> push_turn ''parts'' ''user'' [text_part (cm_content m)] out
      | Assistant \<Rightarrow> push_turn ''parts'' ''model'' (model_parts m) out
      | Tool \<Rightarrow> push_turn ''parts'' ''user'' [function_response W m] out)"

definition contents :: "wire_fns \<Rightarrow> chat_message list \<Rightarrow> string list \<times> json list" where
  "contents W messages = (system_texts messages, fold (push_content W) messages [])"

section \<open>Building a request\<close>

definition thinking_level :: "reasoning_effort \<Rightarrow> string" where
  "thinking_level e = (if e = EMinimal \<or> e = ELow then ''low'' else ''high'')"

definition level_model :: "model_route \<Rightarrow> bool" where
  "level_model r = starts_with (mr_model r) ''gemini-3''"

definition budget_thinking :: "nat \<Rightarrow> json" where
  "budget_thinking b = JObj [(''thinkingBudget'', JNat b), (''includeThoughts'', JBool False)]"

definition gem_sent_budget :: "model_route \<Rightarrow> attempt_state \<Rightarrow> nat" where
  "gem_sent_budget r a = sent_budget (unat (mr_max_output_tokens r)) (asked_budget r a)"

definition gem_thinking :: "model_route \<Rightarrow> attempt_state \<Rightarrow> json option" where
  "gem_thinking r a =
     (if at_drop_reasoning a then None
      else if level_model r
      then (if reasoning_enabled (mr_reasoning r)
            then Some (JObj [(''thinkingLevel'', JStr (thinking_level (sent_effort_of r a)))]) else None)
      else if reasoning_enabled (mr_reasoning r) then Some (budget_thinking (gem_sent_budget r a))
      else if \<not> starts_with (mr_model r) ''gemini-2.5-pro'' then Some (budget_thinking 0)
      else None)"

definition gem_max_tokens :: "model_route \<Rightarrow> attempt_state \<Rightarrow> nat" where
  "gem_max_tokens r a =
     (let max_out = unat (mr_max_output_tokens r) in
      if thinking_on r a \<and> \<not> level_model r then raised_max max_out (gem_sent_budget r a) else max_out)"

definition declared_function :: "tool_spec \<Rightarrow> json" where
  "declared_function t =
     JObj [(''name'', JStr (ts_name t)), (''description'', JStr (ts_description t)),
           (''parameters'', strip_schema (ts_parameters t))]"

definition generation_config :: "model_route \<Rightarrow> attempt_state \<Rightarrow> json" where
  "generation_config r a =
     JObj ([(''maxOutputTokens'', JNat (gem_max_tokens r a))] @ temperature_field r a
       @ (case gem_thinking r a of Some t \<Rightarrow> [(''thinkingConfig'', t)] | None \<Rightarrow> []))"

definition gem_build ::
  "wire_fns \<Rightarrow> model_route \<Rightarrow> string \<Rightarrow> chat_message list \<Rightarrow> tool_spec list \<Rightarrow> attempt_state \<Rightarrow> http_request"
where
  "gem_build W r api_key messages tools a =
     (let (system, msgs) = contents W messages in
      \<lparr>hr_url = gem_base r @ ''/v1beta/models/'' @ mr_model r @ '':generateContent'',
       hr_headers = [(''x-goog-api-key'', api_key), (''content-type'', ''application/json'')]
           @ route_headers (wf_session W) r,
       hr_body = JObj ([(''contents'', JArr msgs),
           (''tools'', JArr [JObj [(''functionDeclarations'', JArr (map declared_function tools))]]),
           (''generationConfig'', generation_config r a)]
         @ (if system = [] then []
            else [(''systemInstruction'',
                   JObj [(''parts'', JArr [text_part (Some (join [CHR 0x0A, CHR 0x0A] system))])])]))\<rparr>)"

section \<open>Reading an answer\<close>

definition signature_of :: "json \<Rightarrow> json" where
  "signature_of p = (case as_str (jidx p ''thoughtSignature'') of Some s \<Rightarrow> JStr s | None \<Rightarrow> JNull)"

definition call_id :: "string \<Rightarrow> nat \<Rightarrow> string" where
  "call_id name idx = name @ ''-'' @ nat_str idx"

definition read_text :: "json \<Rightarrow> string list \<times> json list" where
  "read_text p =
     (case as_str (jidx p ''text'') of
        Some t \<Rightarrow> ([t], [JObj [(''kind'', JStr ''text''), (''text'', JStr t), (''signature'', signature_of p)]])
      | None \<Rightarrow> ([], []))"

definition read_call :: "nat \<Rightarrow> json \<Rightarrow> tool_call list \<times> json list" where
  "read_call idx p =
     (case jget p ''functionCall'' of
        Some fc \<Rightarrow>
          (let name = str_or [] (jidx fc ''name'') in
           ([\<lparr>tc_id = call_id name idx, tc_name = name, tc_arguments = jidx fc ''args''\<rparr>],
            [JObj [(''kind'', JStr ''call''), (''idx'', JNat idx), (''signature'', signature_of p)]]))
      | None \<Rightarrow> ([], []))"

fun read_part ::
  "json \<Rightarrow> string list \<times> tool_call list \<times> json list \<Rightarrow> string list \<times> tool_call list \<times> json list"
where
  "read_part p (texts, calls, state) =
     (texts @ fst (read_text p), calls @ fst (read_call (length calls) p),
      state @ snd (read_text p) @ snd (read_call (length calls) p))"

definition answer_parts :: "json \<Rightarrow> json list" where
  "answer_parts v =
     (case as_array (jpath (jat (jidx v ''candidates'') 0) [''content'', ''parts'']) of Some a \<Rightarrow> a | None \<Rightarrow> [])"

definition gem_usage :: "json \<Rightarrow> usage" where
  "gem_usage v =
     (let n = (\<lambda>k. u64_or_0 (jpath v [''usageMetadata'', k])) in
      \<lparr>us_prompt_tokens = n ''promptTokenCount'', us_completion_tokens = n ''candidatesTokenCount'',
       us_cached_prompt_tokens = n ''cachedContentTokenCount'', us_cache_write_tokens = 0,
       us_reasoning_tokens = n ''thoughtsTokenCount''\<rparr>)"

definition gem_answer :: "wire_fns \<Rightarrow> json \<Rightarrow> parse_result" where
  "gem_answer W v =
     (let (texts, calls, state) = fold read_part (answer_parts v) ([], [], []) in
      if calls = [] \<and> texts = []
      then ParseErr (Other (''no candidates[0].content.parts in response: '' @ excerpt_bytes (wf_print W v) 500))
      else ParseOk (assistant (joined texts) calls
                      (if \<exists>p\<in>set state. jidx p ''signature'' \<noteq> JNull then Some (JArr state) else None))
                   (gem_usage v))"

definition gem_parse ::
  "wire_fns \<Rightarrow> model_route \<Rightarrow> nat \<Rightarrow> string \<Rightarrow> attempt_state \<Rightarrow> parse_result \<times> attempt_state"
where
  "gem_parse W r status body a = after_400 W status body [''thinking''] r (gem_answer W) a"

definition gemini_adapter :: "wire_fns \<Rightarrow> model_route \<Rightarrow> adapter" where
  "gemini_adapter W r =
     \<lparr>ad_label = ''gemini:'' @ wf_identity W (gem_base r), ad_model = mr_model r,
      ad_requested_reasoning = requested_reasoning r, ad_effective_reasoning = effective_reasoning r,
      ad_build = (\<lambda>_ _ a. (None, a)), ad_parse = gem_parse W r\<rparr>"

section \<open>The contract\<close>

lemma gem_answer_no_retry: "gem_answer W v \<noteq> RetrySameSlot why"
  by (simp add: gem_answer_def split: prod.splits)

interpretation generate: wire_adapter "\<lambda>(_::unit). gem_parse W r"
proof
  fix status body a why a'
  assume "gem_parse W r status body a = (RetrySameSlot why, a')"
  then show "retries_left a' < retries_left a"
    unfolding gem_parse_def by (rule after_400_gives_up) (rule gem_answer_no_retry)
qed

end
