(* ===== verification/Adapter_Props.thy ===== *)
theory Adapter_Props
  imports Adapter_Openai Adapter_Anthropic Adapter_Gemini
begin

text \<open>
  What the protocol adapters guarantee: retries in one slot end, roles alternate where the provider
  asks for it, a thinking budget leaves room for the answer, and the reasoning of a turn goes back to
  the provider as it came.
\<close>

section \<open>Retries\<close>

text \<open>For every adapter, whatever the provider answers and whatever other requests learn meanwhile, a
  request is retried at most six times in a row in the same slot.\<close>

theorem same_slot_retries_bounded:
  fixes xs :: "(unit \<times> attempt_state \<times> nat \<times> string) list"
    and ys :: "(thinking_mode option \<times> attempt_state \<times> nat \<times> string) list"
  shows "same_slot_retries (\<lambda>_. chat_parse W r key) xs a \<le> 6
     \<and> same_slot_retries (\<lambda>_. resp_parse W r key) xs a \<le> 6
     \<and> same_slot_retries (\<lambda>_. gem_parse W r) xs a \<le> 6
     \<and> same_slot_retries (\<lambda>learned status body a. fst (anth_parse W r learned status body a)) ys a \<le> 6"
  using chat.retries_bounded[of W r key xs a] responses.retries_bounded[of W r key xs a]
    generate.retries_bounded[of W r xs a] messages.retries_bounded[of W r ys a] retries_left_bound[of a]
  by linarith

section \<open>Roles\<close>

text \<open>Tool results follow an assistant turn or another result; system messages do not count.\<close>

fun results_follow :: "bool \<Rightarrow> chat_message list \<Rightarrow> bool" where
  "results_follow ok [] = True"
| "results_follow ok (m # ms) =
     (case cm_role m of
        System \<Rightarrow> results_follow ok ms
      | User \<Rightarrow> results_follow False ms
      | Assistant \<Rightarrow> results_follow True ms
      | Tool \<Rightarrow> ok \<and> results_follow True ms)"

definition blocks_inv :: "bool \<Rightarrow> json list \<Rightarrow> bool" where
  "blocks_inv ok out =
     (alternating ''content'' out
      \<and> (ok \<longrightarrow> out \<noteq> [] \<and> (jidx (last out) ''role'' = JStr ''assistant'' \<or> tool_results_turn (last out))))"

lemma blocks_inv_push:
  assumes "alternating ''content'' out"
  shows "blocks_inv False (push_turn ''content'' role parts out)"
    and "blocks_inv True (push_turn ''content'' ''assistant'' parts out)"
  using push_turn_alternating[OF assms, of role parts] push_turn_alternating[OF assms, of "''assistant''" parts]
  by (simp_all add: blocks_inv_def)

lemma tool_result_is_result: "is_tool_result (tool_result_block m)"
  by (simp add: is_tool_result_def tool_result_block_def jidx_def jget_def)

lemma blocks_inv_result:
  assumes "blocks_inv True out"
  shows "blocks_inv True (push_tool_result (tool_result_block m) out)"
proof (cases "tool_results_turn (last out)")
  case True
  have out: "out \<noteq> []" "alternating ''content'' out" using assms by (simp_all add: blocks_inv_def)
  then obtain o1 v where v: "out = o1 @ [v]" by (metis append_butlast_last_id)
  from True v obtain a where a: "as_array (jidx v ''content'') = Some a" "list_all is_tool_result a"
    "jidx v ''role'' = JStr ''user''"
    by (auto simp: tool_results_turn_def split: option.splits)
  have "is_turn ''content'' v" using out v by (simp add: alternating_def)
  then have obj: "is_object v" by (auto simp: is_turn_def)
  let ?w = "jset ''content'' (JArr (a @ [tool_result_block m])) v"
  have p: "push_tool_result (tool_result_block m) out = o1 @ [?w]"
    using True out(1) v a by (simp add: push_tool_result_def)
  have c: "jidx ?w ''content'' = JArr (a @ [tool_result_block m])" and r: "jidx ?w ''role'' = JStr ''user''"
    using jidx_jset[OF obj] a(3) by simp_all
  have "is_object ?w" using obj by simp
  then have t: "is_turn ''content'' ?w" unfolding is_turn_def using c r by blast
  have rs: "tool_results_turn ?w"
    unfolding tool_results_turn_def c r using a(2) tool_result_is_result by (simp add: as_array_def)
  have "jidx ?w ''role'' = jidx v ''role''" unfolding r a(3) ..
  with out(2) t have "alternating ''content'' (o1 @ [?w])" unfolding v by (rule alternating_replace_last)
  then show ?thesis unfolding blocks_inv_def p using rs by (simp only: last_snoc snoc_eq_iff_butlast) blast
next
  case False
  then have l: "jidx (last out) ''role'' = JStr ''assistant''" "alternating ''content'' out" "out \<noteq> []"
    using assms by (simp_all add: blocks_inv_def)
  let ?w = "JObj [(''role'', JStr ''user''), (''content'', JArr [tool_result_block m])]"
  have p: "push_tool_result (tool_result_block m) out = out @ [?w]"
    using False by (simp add: push_tool_result_def)
  have w: "is_turn ''content'' ?w" "tool_results_turn ?w" "jidx ?w ''role'' = JStr ''user''"
    using tool_result_is_result by (simp_all add: is_turn_def tool_results_turn_def jidx_def jget_def is_object_def as_array_def)
  then show ?thesis using p l by (auto simp: blocks_inv_def alternating_def successively_append_iff)
qed

lemma blocks_inv_weaken: "blocks_inv ok out \<Longrightarrow> alternating ''content'' out"
  by (simp add: blocks_inv_def)

lemma fold_push_block:
  assumes "results_follow ok ms" and "blocks_inv ok out"
  shows "alternating ''content'' (fold (push_block drop_reasoning) ms out)"
  using assms
proof (induction ms arbitrary: ok out)
  case Nil
  then show ?case by (simp add: blocks_inv_def)
next
  case (Cons m ms)
  note alt = blocks_inv_weaken[OF Cons.prems(2)]
  show ?case
  proof (cases "cm_role m")
    case System
    then show ?thesis using Cons by (simp add: push_block_def)
  next
    case User
    then show ?thesis using Cons.prems Cons.IH[of False] blocks_inv_push(1)[OF alt] by (simp add: push_block_def)
  next
    case Assistant
    then show ?thesis using Cons.prems Cons.IH[of True] blocks_inv_push(2)[OF alt] by (simp add: push_block_def)
  next
    case Tool
    then show ?thesis using Cons.prems Cons.IH[of True] blocks_inv_result by (simp add: push_block_def)
  qed
qed

lemma contents_alternate: "alternating ''parts'' (fold (push_content W) ms out)" if "alternating ''parts'' out"
  using that
proof (induction ms arbitrary: out)
  case (Cons m ms)
  have "alternating ''parts'' (push_content W m out)"
    using Cons.prems push_turn_alternating(1)[OF Cons.prems] by (auto simp: push_content_def split: role.splits)
  then show ?case using Cons.IH by simp
qed simp

text \<open>The turns sent to Anthropic alternate between user and assistant when every tool result follows
  an assistant turn or another result, and the turns sent to Gemini always alternate.\<close>

theorem turns_alternate:
  assumes "results_follow False messages"
  shows "alternating ''content'' (snd (to_blocks messages drop_reasoning))
     \<and> alternating ''parts'' (snd (contents W messages))"
  using fold_push_block[OF assms, of "[]" drop_reasoning] contents_alternate[of "[]" W messages]
  by (simp add: to_blocks_def contents_def blocks_inv_def)

theorem turns_alternate_witness:
  "alternating ''content'' (snd (to_blocks
      [user_message ''q'', assistant None [\<lparr>tc_id = ''1'', tc_name = ''t'', tc_arguments = JNull\<rparr>] None,
       tool_message ''1'' ''t'' ''r'', user_message ''go on''] False))"
  using turns_alternate[of "[user_message ''q'', assistant None [\<lparr>tc_id = ''1'', tc_name = ''t'', tc_arguments = JNull\<rparr>] None,
       tool_message ''1'' ''t'' ''r'', user_message ''go on'']" False]
  by (simp add: user_message_def assistant_def tool_message_def)

section \<open>Thinking budgets\<close>

lemma anth_body_fields:
  "jpath (hr_body (anth_build W r key learned ms ts a)) [''max_tokens''] = JNat (anth_max_tokens r learned a)"
  "jpath (hr_body (anth_build W r key learned ms ts a)) [''thinking'', ''budget_tokens'']
     = (if thinking_on r a \<and> mode_of r learned = Budget
        then JNat (sent_budget (unat (mr_max_output_tokens r)) (asked_budget r a)) else JNull)"
  by (cases "mode_of r learned";
      simp add: anth_build_def jpath_def jidx_def jget_def anth_thinking_def temperature_field_def anth_system_def
        Let_def split: prod.splits)+

lemma gem_body_fields:
  "jpath (hr_body (gem_build W r key ms ts a)) [''generationConfig'', ''maxOutputTokens''] = JNat (gem_max_tokens r a)"
  "jpath (hr_body (gem_build W r key ms ts a)) [''generationConfig'', ''thinkingConfig'']
     = (case gem_thinking r a of Some t \<Rightarrow> t | None \<Rightarrow> JNull)"
  by (simp add: gem_build_def generation_config_def jpath_def jidx_def jget_def temperature_field_def
      split: prod.splits option.splits)+

text \<open>A thinking budget that a request carries is smaller than the limit on all output tokens that it
  carries, so the model has room to answer.\<close>

theorem thinking_budget_below_max:
  assumes "0 < mr_max_output_tokens r"
  shows "(jpath (hr_body (anth_build W r key learned ms ts a)) [''thinking'', ''budget_tokens''] = JNat b \<longrightarrow>
       (\<exists>m. jpath (hr_body (anth_build W r key learned ms ts a)) [''max_tokens''] = JNat m \<and> b < m))
     \<and> (jpath (hr_body (gem_build W r key ms ts a)) [''generationConfig'', ''thinkingConfig'', ''thinkingBudget''] = JNat b \<longrightarrow>
       (\<exists>m. jpath (hr_body (gem_build W r key ms ts a)) [''generationConfig'', ''maxOutputTokens''] = JNat m \<and> b < m))"
proof -
  have pos: "0 < unat (mr_max_output_tokens r)" using assms by (simp add: unat_gt_0 word_gt_0)
  have an: "b < anth_max_tokens r learned a"
    if "jpath (hr_body (anth_build W r key learned ms ts a)) [''thinking'', ''budget_tokens''] = JNat b"
    using that sent_budget_below[OF pos, of "asked_budget r a"]
    by (simp add: anth_body_fields anth_max_tokens_def Let_def split: if_splits)
  have gp: "jpath (hr_body (gem_build W r key ms ts a)) [''generationConfig'', ''thinkingConfig'', ''thinkingBudget'']
      = jidx (case gem_thinking r a of Some t \<Rightarrow> t | None \<Rightarrow> JNull) ''thinkingBudget''"
    using gem_body_fields(2)[of W r key ms ts a] by (simp add: jpath_def)
  have ge: "b < gem_max_tokens r a"
    if "jidx (case gem_thinking r a of Some t \<Rightarrow> t | None \<Rightarrow> JNull) ''thinkingBudget'' = JNat b"
    using that pos sent_budget_below[OF pos, of "asked_budget r a"]
    by (auto simp: gem_thinking_def gem_max_tokens_def budget_thinking_def gem_sent_budget_def thinking_on_def
        jidx_def jget_def Let_def split: if_splits)
  show ?thesis unfolding gp using an ge anth_body_fields(1) gem_body_fields(1) by auto
qed

definition budget_route :: model_route where
  "budget_route =
     Model_Route Anthropic None (Some ''K'') ''m'' 4096 60 False ''0'' [] None None
       (Spec \<lparr>rp_effort = EHigh, rp_budget_tokens = Some 2048, rp_field = AutoField\<rparr>) []"

theorem thinking_budget_below_max_witness:
  "\<forall>W. \<exists>m. jpath (hr_body (anth_build W budget_route ''k'' None [] [] default_attempt)) [''max_tokens''] = JNat m \<and> 2048 < m"
proof
  fix W
  have "0 < mr_max_output_tokens budget_route" by (simp add: budget_route_def)
  moreover have "jpath (hr_body (anth_build W budget_route ''k'' None [] [] default_attempt)) [''thinking'', ''budget_tokens'']
      = JNat 2048"
    unfolding anth_body_fields
    by (simp add: budget_route_def thinking_on_def reasoning_enabled_def default_attempt_def mode_of_def sent_budget_def
        asked_budget_def capped_budget_def)
  ultimately show "\<exists>m. jpath (hr_body (anth_build W budget_route ''k'' None [] [] default_attempt)) [''max_tokens''] = JNat m
      \<and> 2048 < m" using thinking_budget_below_max by blast
qed

section \<open>Replay\<close>

text \<open>What is sent back for a part of Gemini's answer: its text and its call, each with its signature.\<close>

definition resigned :: "json \<Rightarrow> (string \<times> json) list \<Rightarrow> json" where
  "resigned p kvs =
     JObj (kvs @ (case as_str (jidx p ''thoughtSignature'') of Some s \<Rightarrow> [(''thoughtSignature'', JStr s)] | None \<Rightarrow> []))"

definition replayed :: "json \<Rightarrow> json list" where
  "replayed p =
     (case as_str (jidx p ''text'') of Some t \<Rightarrow> [resigned p [(''text'', JStr t)]] | None \<Rightarrow> [])
     @ (case jget p ''functionCall'' of
          Some fc \<Rightarrow>
            [resigned p [(''functionCall'', JObj [(''name'', JStr (str_or [] (jidx fc ''name''))), (''args'', jidx fc ''args'')])]]
        | None \<Rightarrow> [])"

lemma as_str_signature [simp]: "as_str (signature_of p) = as_str (jidx p ''thoughtSignature'')"
  by (simp add: signature_of_def as_str_def split: option.splits json.splits)

lemma echo_text: "List.map_filter (echo_part cs) (snd (read_text p))
    = (case as_str (jidx p ''text'') of Some t \<Rightarrow> [resigned p [(''text'', JStr t)]] | None \<Rightarrow> [])"
proof (cases "as_str (jidx p ''text'')")
  case (Some t)
  have "echo_part cs (JObj [(''kind'', JStr ''text''), (''text'', JStr t), (''signature'', signature_of p)])
      = Some (resigned p [(''text'', JStr t)])"
    by (simp add: echo_part_def signed_def resigned_def jidx_def jget_def as_str_def[of "JStr _"])
  then show ?thesis using Some by (simp add: read_text_def map_filter_simps)
qed (simp add: read_text_def map_filter_simps)

lemma echo_call: "List.map_filter (echo_part (cs @ fst (read_call (length cs) p) @ ext)) (snd (read_call (length cs) p))
    = (case jget p ''functionCall'' of
          Some fc \<Rightarrow>
            [resigned p [(''functionCall'', JObj [(''name'', JStr (str_or [] (jidx fc ''name''))), (''args'', jidx fc ''args'')])]]
        | None \<Rightarrow> [])"
proof (cases "jget p ''functionCall''")
  case (Some fc)
  let ?c = "\<lparr>tc_id = call_id (str_or [] (jidx fc ''name'')) (length cs), tc_name = str_or [] (jidx fc ''name''),
    tc_arguments = jidx fc ''args''\<rparr>"
  have "echo_part (cs @ ?c # ext) (JObj [(''kind'', JStr ''call''), (''idx'', JNat (length cs)), (''signature'', signature_of p)])
      = Some (resigned p [function_call ?c])"
    by (simp add: echo_part_def signed_def resigned_def jidx_def jget_def as_str_def[of "JStr _"] u64_or_0_def as_u64_def)
  then show ?thesis using Some by (simp add: read_call_def map_filter_simps function_call_def Let_def)
qed (simp add: read_call_def map_filter_simps)

lemma map_filter_append: "List.map_filter f (xs @ ys) = List.map_filter f xs @ List.map_filter f ys"
  by (simp add: List.map_filter_def)

lemma replayed_state:
  "fold read_part ps (ts, cs, st) = (ts', cs', st') \<Longrightarrow>
     \<exists>cs2 st2. cs' = cs @ cs2 \<and> st' = st @ st2
       \<and> (\<forall>ext. List.map_filter (echo_part (cs' @ ext)) st2 = concat (map replayed ps))"
proof (induction ps arbitrary: ts cs st)
  case Nil
  then show ?case by (simp add: map_filter_simps)
next
  case (Cons p ps)
  let ?c = "fst (read_call (length cs) p)"
  have "fold read_part ps (ts @ fst (read_text p), cs @ ?c, st @ snd (read_text p) @ snd (read_call (length cs) p))
      = (ts', cs', st')" using Cons.prems by simp
  from Cons.IH[OF this] obtain cs2 st2 where IH: "cs' = (cs @ ?c) @ cs2"
    "st' = (st @ snd (read_text p) @ snd (read_call (length cs) p)) @ st2"
    "\<forall>ext. List.map_filter (echo_part (cs' @ ext)) st2 = concat (map replayed ps)" by blast
  have "List.map_filter (echo_part (cs' @ ext)) (snd (read_text p) @ snd (read_call (length cs) p) @ st2)
      = concat (map replayed (p # ps))" for ext
  proof -
    have a: "cs' @ ext = cs @ ?c @ (cs2 @ ext)" using IH(1) by simp
    have "List.map_filter (echo_part (cs' @ ext)) (snd (read_call (length cs) p))
        = List.map_filter (echo_part (cs @ ?c @ (cs2 @ ext))) (snd (read_call (length cs) p))" by (simp only: a)
    then show ?thesis using IH(3)
      by (simp only: map_filter_append echo_text echo_call list.map concat.simps replayed_def append_assoc)
  qed
  then show ?case using IH(1,2)
    by (intro exI[of _ "?c @ cs2"] exI[of _ "snd (read_text p) @ snd (read_call (length cs) p) @ st2"]) simp
qed

lemma echo_total: "st \<noteq> [] \<Longrightarrow> (\<forall>it\<in>set st. echo_part cs it \<noteq> None) \<Longrightarrow> List.map_filter (echo_part cs) st \<noteq> []"
  by (cases st) (auto simp: map_filter_simps)

lemma replayed_nonempty:
  "fold read_part ps (ts, cs, st) = (ts', cs', st') \<Longrightarrow> concat (map replayed ps) = [] \<Longrightarrow> st' = st"
proof (induction ps arbitrary: ts cs st)
  case (Cons p ps)
  have "replayed p = []" using Cons.prems(2) by simp
  then have "snd (read_text p) = []" "snd (read_call (length cs) p) = []"
    by (simp_all add: replayed_def read_text_def read_call_def Let_def split: option.splits)
  with Cons show ?case by simp
qed simp


definition signed_part :: json where
  "signed_part = JObj [(''text'', JStr ''hi''), (''thoughtSignature'', JStr ''s'')]"

definition signed_answer :: json where
  "signed_answer =
     JObj [(''candidates'', JArr [JObj [(''content'', JObj [(''parts'', JArr [signed_part])])]])]"

lemma signed_answer_parts: "answer_parts signed_answer = [signed_part]"
  by (simp add: answer_parts_def signed_answer_def jpath_def jat_def jidx_def jget_def as_array_def)

lemma signed_answer_read:
  "\<exists>m u. gem_answer W signed_answer = ParseOk m u \<and> cm_provider_state m \<noteq> None"
  by (simp add: gem_answer_def signed_answer_parts signed_part_def read_text_def read_call_def signature_of_def
      jidx_def jget_def as_str_def assistant_def)


end
