(* ===== verification/Redact.thy ===== *)
theory Redact
  imports Ordered_Map Text_Util Json
begin

text \<open>
  \<open>src/src/redact.rs\<close>: the registry of secrets and the masking of text.  The global registry behind a
  lock is a state that each operation returns updated.  Its sets and hash maps are lists and
  association lists: the matcher sorts what it is built from, so their order does not show.

  Libraries: \<open>aho\<close> builds the automaton for a list of secrets, or fails; an automaton gives the
  occurrences in a text.  \<open>regex_fns\<close> is the regular expression crate.  Times are nanoseconds.
\<close>

definition REDACTED :: string where "REDACTED = ''[REDACTED]''"
definition MIN_SECRET_LEN :: nat where "MIN_SECRET_LEN = 8"
definition EXPIRED_GRACE :: nat where "EXPIRED_GRACE = 3600 * 1000000000"

type_synonym hits = "(nat \<times> nat) list"
type_synonym automaton = "string \<Rightarrow> hits"

record matcher =
  ma_automaton :: "automaton option"
  ma_secrets :: "string list"
  ma_valid_until :: "nat option"

record registry =
  rg_permanent :: "string list"
  rg_expiring :: "(string, nat) btree"
  rg_scoped :: "(string, nat) btree"
  rg_matcher :: "matcher option"

definition empty_registry :: registry where
  "empty_registry = \<lparr>rg_permanent = [], rg_expiring = [], rg_scoped = [], rg_matcher = None\<rparr>"

section \<open>The matcher\<close>

definition new_matcher :: "(string list \<Rightarrow> automaton option) \<Rightarrow> string list \<Rightarrow> nat option \<Rightarrow> matcher" where
  "new_matcher aho secrets valid_until =
     (let sorted = remdups_adj (sort_key (\<lambda>s. (- int (length s), s)) secrets) in
      \<lparr>ma_automaton = (if sorted = [] then None else aho sorted), ma_secrets = sorted, ma_valid_until = valid_until\<rparr>)"

definition matcher_current :: "matcher \<Rightarrow> nat \<Rightarrow> bool" where
  "matcher_current mt now = (case ma_valid_until mt of None \<Rightarrow> True | Some until \<Rightarrow> now < until)"

section \<open>The registry\<close>

definition reg_register :: "string \<Rightarrow> registry \<Rightarrow> registry" where
  "reg_register v r =
     (let removed = bt_contains (rg_expiring r) v; inserted = (v \<notin> set (rg_permanent r));
          r1 = r\<lparr>rg_expiring := bt_remove v (rg_expiring r),
                 rg_permanent := (if inserted then v # rg_permanent r else rg_permanent r)\<rparr> in
      if inserted \<or> removed then r1\<lparr>rg_matcher := None\<rparr> else r1)"

definition reg_prune :: "nat \<Rightarrow> registry \<Rightarrow> registry" where
  "reg_prune now r =
     (let kept = bt_retain (\<lambda>_ until. now < until) (rg_expiring r);
          r1 = r\<lparr>rg_expiring := kept\<rparr> in
      if length kept \<noteq> length (rg_expiring r) then r1\<lparr>rg_matcher := None\<rparr> else r1)"

definition register_until :: "string \<Rightarrow> nat \<Rightarrow> nat \<Rightarrow> registry \<Rightarrow> registry" where
  "register_until v until now r0 =
     (let r = reg_prune now r0 in
      if v \<in> set (rg_permanent r) then r
      else (case map_of (rg_expiring r) v of
              Some old \<Rightarrow>
                if old < until then r\<lparr>rg_expiring := bt_insert (v, until) (rg_expiring r)\<rparr> else r
            | None \<Rightarrow> r\<lparr>rg_expiring := bt_insert (v, until) (rg_expiring r), rg_matcher := None\<rparr>))"

definition add_scoped :: "string \<Rightarrow> registry \<Rightarrow> registry" where
  "add_scoped v r =
     (let count = (case map_of (rg_scoped r) v of Some n \<Rightarrow> n | None \<Rightarrow> 0) + 1;
          r1 = r\<lparr>rg_scoped := bt_insert (v, count) (rg_scoped r)\<rparr> in
      if count = 1 then r1\<lparr>rg_matcher := None\<rparr> else r1)"

definition remove_scoped :: "string \<Rightarrow> registry \<Rightarrow> registry" where
  "remove_scoped v r =
     (case map_of (rg_scoped r) v of
        None \<Rightarrow> r
      | Some count \<Rightarrow>
          if count - 1 = 0 then r\<lparr>rg_scoped := bt_remove v (rg_scoped r), rg_matcher := None\<rparr>
          else r\<lparr>rg_scoped := bt_insert (v, count - 1) (rg_scoped r)\<rparr>)"

definition registered :: "registry \<Rightarrow> string list" where
  "registered r = rg_permanent r @ bt_keys (rg_expiring r) @ bt_keys (rg_scoped r)"

definition reg_matcher :: "(string list \<Rightarrow> automaton option) \<Rightarrow> nat \<Rightarrow> registry \<Rightarrow> matcher \<times> registry" where
  "reg_matcher aho now r0 =
     (let r = reg_prune now r0;
          fresh = new_matcher aho (filter (\<lambda>s. s \<noteq> []) (registered r))
                    (min_by_key (\<lambda>t. t) (bt_values (rg_expiring r))) in
      case rg_matcher r of
        Some mt \<Rightarrow> if matcher_current mt now then (mt, r) else (fresh, r\<lparr>rg_matcher := Some fresh\<rparr>)
      | None \<Rightarrow> (fresh, r\<lparr>rg_matcher := Some fresh\<rparr>))"

text \<open>The matcher that a call of \<open>text\<close> uses: the compiled one while it is current.\<close>

definition current_matcher :: "(string list \<Rightarrow> automaton option) \<Rightarrow> nat \<Rightarrow> registry \<Rightarrow> matcher \<times> registry" where
  "current_matcher aho now r =
     (case rg_matcher r of
        Some mt \<Rightarrow> if matcher_current mt now then (mt, r) else reg_matcher aho now r
      | None \<Rightarrow> reg_matcher aho now r)"

definition register :: "string \<Rightarrow> registry \<Rightarrow> registry" where
  "register value r = (let v = trim value in if length v < MIN_SECRET_LEN then r else reg_register v r)"

definition register_expiring :: "string \<Rightarrow> nat \<Rightarrow> nat \<Rightarrow> registry \<Rightarrow> registry" where
  "register_expiring value valid_for now r =
     (let v = trim value in
      if length v < MIN_SECRET_LEN then r else register_until v (now + valid_for + EXPIRED_GRACE) now r)"

text \<open>\<open>env\<close> is the environment of the process.\<close>

definition secret_env :: "(string \<Rightarrow> string option) \<Rightarrow> string \<Rightarrow> registry \<Rightarrow> string option \<times> registry" where
  "secret_env env name r =
     (case env name of
        Some v \<Rightarrow> if trim v = [] then (None, r) else (Some v, register v r)
      | None \<Rightarrow> (None, r))"

section \<open>Masking\<close>

text \<open>Without an automaton: the occurrences of one secret from a character boundary on.\<close>

function find_all :: "string \<Rightarrow> string \<Rightarrow> nat \<Rightarrow> hits" where
  "find_all p s from =
     (if from \<le> length s \<and> is_char_boundary s from
      then (case find_str (drop from s) p of
              None \<Rightarrow> []
            | Some found \<Rightarrow>
                (let start = from + found in
                 (start, start + length p)
                   # find_all p s (start + (if start < length s then char_len (s ! start) else 1))))
      else [])"
  by pat_completeness auto
termination
proof (relation "measure (\<lambda>(p, s, from). Suc (length s) - from)")
  fix p s :: string and "from" found start
  assume a: "from \<le> length s \<and> is_char_boundary s from" "start = from + found"
  have "0 < (if start < length s then char_len (s ! start) else 1)" by simp
  with a show "((p, s, start + (if start < length s then char_len (s ! start) else 1)), p, s, from)
      \<in> measure (\<lambda>(p, s, from). Suc (length s) - from)"
    unfolding in_measure prod.case by linarith
qed simp

declare find_all.simps [simp del]

definition matches :: "matcher \<Rightarrow> string \<Rightarrow> hits" where
  "matches mt s =
     (case ma_automaton mt of
        Some find_overlapping \<Rightarrow> find_overlapping s
      | None \<Rightarrow> concat (map (\<lambda>p. find_all p s 0) (ma_secrets mt)))"

text \<open>\<open>reach\<close>: for each byte the furthest end of an occurrence that starts there, 0 if there is none.\<close>

definition cover :: "nat list \<Rightarrow> nat \<times> nat \<Rightarrow> nat list" where
  "cover reach h = reach[fst h := max (reach ! fst h) (snd h)]"

definition reach_of :: "string \<Rightarrow> hits \<Rightarrow> nat list" where
  "reach_of s hs = foldl cover (replicate (length s) 0) hs"

text \<open>The inner loop: the end of the run of overlapping occurrences (no entry of \<open>reach\<close> lies beyond the
  text, so the bound on \<open>i\<close> only says that the access is in range).\<close>

function run_end :: "nat list \<Rightarrow> nat \<Rightarrow> nat \<Rightarrow> nat" where
  "run_end reach e i =
     (if i < e \<and> i < length reach then run_end reach (max e (reach ! i)) (Suc i) else e)"
  by pat_completeness auto
termination
  by (relation "measure (\<lambda>(reach, e, i). length reach - i)") auto

declare run_end.simps [simp del]

definition slice :: "nat \<Rightarrow> nat \<Rightarrow> string \<Rightarrow> string" where
  "slice a b s = take (b - a) (drop a s)"

text \<open>The outer loop (an occurrence ends after its start, so it always advances).\<close>

function mask_from :: "nat list \<Rightarrow> string \<Rightarrow> nat \<Rightarrow> nat \<Rightarrow> string" where
  "mask_from reach s copied start =
     (if length s \<le> start then drop copied s
      else if reach ! start = 0 then mask_from reach s copied (Suc start)
      else (let e = run_end reach (reach ! start) (Suc start) in
            if start < e then slice copied start s @ REDACTED @ mask_from reach s e e
            else drop copied s))"
  by pat_completeness auto
termination
  by (relation "measure (\<lambda>(reach, s, copied, start). length s - start)") auto

declare mask_from.simps [simp del]

definition mask :: "matcher \<Rightarrow> string \<Rightarrow> string" where
  "mask mt s = (let hs = matches mt s in if hs = [] then s else mask_from (reach_of s hs) s 0 0)"

section \<open>Text, diagnostics and JSON\<close>

record regex_fns =
  rx_is_match :: "string \<Rightarrow> string \<Rightarrow> bool"
  rx_replace_all :: "string \<Rightarrow> string \<Rightarrow> string \<Rightarrow> string"

definition patterns :: "string list" where
  "patterns =
     [''-----BEGIN [A-Z0-9 ]*PRIVATE KEY-----['' @ [CHR 0x5C] @ ''s'' @ [CHR 0x5C]
        @ ''S]*?(?:-----END [A-Z0-9 ]*PRIVATE KEY-----|$)'',
      [CHR 0x5C] @ ''b(?:gh[pousr]_[A-Za-z0-9]{36,}|github_pat_[A-Za-z0-9_]{40,})'' @ [CHR 0x5C] @ ''b'',
      [CHR 0x5C] @ ''bsk-(?:ant-|or-v1-|proj-)?[A-Za-z0-9_'' @ [CHR 0x5C] @ ''-]{20,}'' @ [CHR 0x5C] @ ''b'',
      [CHR 0x5C] @ ''b(?:AKIA|ASIA)[0-9A-Z]{16}'' @ [CHR 0x5C] @ ''b'',
      [CHR 0x5C] @ ''bAIza[0-9A-Za-z_'' @ [CHR 0x5C] @ ''-]{35}'' @ [CHR 0x5C] @ ''b'',
      [CHR 0x5C] @ ''bxox[abposr]-[A-Za-z0-9-]{10,}'' @ [CHR 0x5C] @ ''b'',
      ''(?i)'' @ [CHR 0x5C] @ ''bbearer'' @ [CHR 0x5C] @ ''s+[A-Za-z0-9._~+/'' @ [CHR 0x5C] @ ''-]{20,}=*'']"

definition redact_patterns :: "regex_fns \<Rightarrow> string \<Rightarrow> string" where
  "redact_patterns X s =
     foldl (\<lambda>out p. if rx_is_match X p out then rx_replace_all X p out REDACTED else out) s patterns"

definition redact_text :: "regex_fns \<Rightarrow> matcher \<Rightarrow> string \<Rightarrow> string" where
  "redact_text X mt s = redact_patterns X (mask mt s)"

definition query_pattern :: string where
  "query_pattern =
     ''(https?://[^'' @ [CHR 0x5C] @ ''s?#'' @ [CHR 0x22, CHR 0x27] @ ''<>]+)'' @ [CHR 0x5C] @ ''?[^'' @ [CHR 0x5C]
       @ ''s#'' @ [CHR 0x22, CHR 0x27] @ ''<>]*''"

definition diagnostic :: "regex_fns \<Rightarrow> matcher \<Rightarrow> string \<Rightarrow> string" where
  "diagnostic X mt s = redact_text X mt (rx_replace_all X query_pattern s ''$1?[query removed]'')"

primrec redact_json :: "(string \<Rightarrow> string) \<Rightarrow> json \<Rightarrow> json" where
  "redact_json t JNull = JNull"
| "redact_json t (JBool b) = JBool b"
| "redact_json t (JNat n) = JNat n"
| "redact_json t (JNeg n) = JNeg n"
| "redact_json t (JFloat s) = JFloat s"
| "redact_json t (JStr s) = JStr (t s)"
| "redact_json t (JArr a) = JArr (map (redact_json t) a)"
| "redact_json t (JObj kvs) = JObj (map (map_prod (\<lambda>k. k) (redact_json t)) kvs)"

end
