(* ===== verification/Redact_Props.thy ===== *)
theory Redact_Props
  imports Redact
begin

text \<open>
  What the redaction guarantees: the matcher in use is compiled from exactly the secrets that are
  live, and masking hides every byte of every occurrence and leaves the rest of the text as it is.
\<close>

section \<open>The registry and its compiled matcher\<close>

text \<open>The cached matcher was compiled from what is registered, and expires before any of it does.\<close>

definition matcher_fresh :: "registry \<Rightarrow> matcher \<Rightarrow> bool" where
  "matcher_fresh r mt =
     (set (ma_secrets mt) = set (registered r) - {[]}
      \<and> (\<forall>(v, t)\<in>set (rg_expiring r). \<exists>u. ma_valid_until mt = Some u \<and> u \<le> t))"

definition registry_inv :: "registry \<Rightarrow> bool" where
  "registry_inv r =
     (bt_sorted (rg_expiring r) \<and> bt_sorted (rg_scoped r)
      \<and> (\<forall>mt. rg_matcher r = Some mt \<longrightarrow> matcher_fresh r mt))"

lemma set_new_matcher [simp]: "set (ma_secrets (new_matcher aho ss t)) = set ss"
  by (simp add: new_matcher_def Let_def)

lemma valid_new_matcher [simp]: "ma_valid_until (new_matcher aho ss t) = t"
  by (simp add: new_matcher_def Let_def)

lemma set_registered:
  "set (registered r) = set (rg_permanent r) \<union> fst ` set (rg_expiring r) \<union> fst ` set (rg_scoped r)"
  by (simp add: registered_def bt_keys_def Un_assoc)

lemma filter_same_length: "length (filter P xs) = length xs \<Longrightarrow> filter P xs = xs"
  by (metis filter_id_conv length_filter_less nat_neq_iff)

lemma registry_invI:
  assumes "bt_sorted (rg_expiring r)" "bt_sorted (rg_scoped r)"
    and "\<And>mt. rg_matcher r = Some mt \<Longrightarrow> matcher_fresh r mt"
  shows "registry_inv r"
  using assms by (simp add: registry_inv_def)

lemma registry_invD:
  assumes "registry_inv r"
  shows "bt_sorted (rg_expiring r)" "bt_sorted (rg_scoped r)"
    "rg_matcher r = Some mt \<Longrightarrow> matcher_fresh r mt"
  using assms by (auto simp: registry_inv_def)

lemma fresh_cong:
  "matcher_fresh r mt \<Longrightarrow> set (registered r') = set (registered r) \<Longrightarrow> rg_expiring r' = rg_expiring r \<Longrightarrow> matcher_fresh r' mt"
  by (simp add: matcher_fresh_def)

lemma reg_prune_inv: "registry_inv r \<Longrightarrow> registry_inv (reg_prune now r)"
  by (auto simp: reg_prune_def Let_def registry_inv_def matcher_fresh_def registered_def bt_retain_def
      intro: bt_sorted_filter dest: filter_same_length)

lemma reg_prune_expiring: "set (rg_expiring (reg_prune now r)) = {(v, t) \<in> set (rg_expiring r). now < t}"
  by (auto simp: reg_prune_def Let_def bt_retain_def)

lemma reg_prune_others [simp]:
  "rg_permanent (reg_prune now r) = rg_permanent r" "rg_scoped (reg_prune now r) = rg_scoped r"
  by (simp_all add: reg_prune_def Let_def)

lemma reg_register_inv: "registry_inv r \<Longrightarrow> registry_inv (reg_register v r)"
proof -
  assume inv: "registry_inv r"
  have keep: "bt_remove v (rg_expiring r) = rg_expiring r" if "\<not> bt_contains (rg_expiring r) v"
    using that by (auto simp: bt_remove_def bt_contains_iff intro!: filter_True)
  from inv show ?thesis
    by (auto simp: reg_register_def Let_def registry_inv_def keep bt_sorted_remove
        matcher_fresh_def registered_def)
qed

lemma register_until_inv:
  assumes "registry_inv r0"
  shows "registry_inv (register_until v until now r0)"
proof -
  define r where "r = reg_prune now r0"
  have inv: "registry_inv r" using assms by (simp add: r_def reg_prune_inv)
  note D = registry_invD[OF inv]
  show ?thesis
  proof (cases "v \<in> set (rg_permanent r)")
    case True
    then show ?thesis using inv by (simp add: register_until_def r_def[symmetric])
  next
    case new: False
    show ?thesis
    proof (cases "map_of (rg_expiring r) v")
      case None
      then show ?thesis using new D
        by (simp add: register_until_def r_def[symmetric] Let_def registry_inv_def bt_sorted_insert)
    next
      case (Some old)
      have old: "(v, old) \<in> set (rg_expiring r)" using Some by (rule map_of_SomeD)
      have "matcher_fresh (r\<lparr>rg_expiring := bt_insert (v, until) (rg_expiring r)\<rparr>) mt"
        if m: "rg_matcher r = Some mt" and lt: "old < until" for mt
      proof -
        have f: "matcher_fresh r mt" using D(3) m .
        have le: "\<exists>u. ma_valid_until mt = Some u \<and> u \<le> t" if "(w, t) \<in> set (rg_expiring r)" for w t
          using f that unfolding matcher_fresh_def by blast
        have "\<exists>u. ma_valid_until mt = Some u \<and> u \<le> t"
          if e: "(w, t) \<in> set (bt_insert (v, until) (rg_expiring r))" for w t
        proof (cases "(w, t) \<in> set (rg_expiring r)")
          case False
          then have "t = until" using e set_bt_insert_subset[of "(v, until)" "rg_expiring r"] by auto
          then show ?thesis using le[OF old] lt by (meson less_imp_le order_trans)
        qed (rule le)
        moreover have "set (registered (r\<lparr>rg_expiring := bt_insert (v, until) (rg_expiring r)\<rparr>)) = set (registered r)"
          using old by (force simp: set_registered keys_bt_insert)
        ultimately show ?thesis using f unfolding matcher_fresh_def by auto
      qed
      then have "registry_inv (r\<lparr>rg_expiring := bt_insert (v, until) (rg_expiring r)\<rparr>)" if "old < until"
        using that D(1,2) by (intro registry_invI) (simp_all add: bt_sorted_insert)
      then show ?thesis using inv by (simp add: register_until_def r_def[symmetric] new Some)
    qed
  qed
qed

lemma scoped_inv:
  assumes inv: "registry_inv r" and s: "bt_sorted sc"
    and keys: "fst ` set sc = fst ` set (rg_scoped r) \<or> mt' = None" and m: "mt' = None \<or> mt' = rg_matcher r"
  shows "registry_inv (r\<lparr>rg_scoped := sc, rg_matcher := mt'\<rparr>)"
proof (rule registry_invI)
  fix mt assume "rg_matcher (r\<lparr>rg_scoped := sc, rg_matcher := mt'\<rparr>) = Some mt"
  then have "rg_matcher r = Some mt" "fst ` set sc = fst ` set (rg_scoped r)" using keys m by auto
  then show "matcher_fresh (r\<lparr>rg_scoped := sc, rg_matcher := mt'\<rparr>) mt"
    using fresh_cong[OF registry_invD(3)[OF inv]] by (simp add: set_registered)
qed (use registry_invD[OF inv] s in simp_all)

lemma add_scoped_inv:
  assumes inv: "registry_inv r"
  shows "registry_inv (add_scoped v r)"
proof -
  note D = registry_invD[OF inv]
  let ?c = "(case map_of (rg_scoped r) v of Some n \<Rightarrow> n | None \<Rightarrow> 0) + (1::nat)"
  let ?sc = "bt_insert (v, ?c) (rg_scoped r)"
  let ?m = "if ?c = 1 then None else rg_matcher r"
  have "?c \<noteq> 1 \<Longrightarrow> v \<in> fst ` set (rg_scoped r)"
    by (auto split: option.splits dest!: map_of_SomeD intro: rev_image_eqI)
  then have "fst ` set ?sc = fst ` set (rg_scoped r) \<or> ?m = None"
    by (auto simp: keys_bt_insert)
  then have "registry_inv (r\<lparr>rg_scoped := ?sc, rg_matcher := ?m\<rparr>)"
    using D by (intro scoped_inv[OF inv]) (auto simp: bt_sorted_insert)
  moreover have "add_scoped v r = r\<lparr>rg_scoped := ?sc, rg_matcher := ?m\<rparr>"
    by (simp add: add_scoped_def Let_def)
  ultimately show ?thesis by simp
qed

lemma remove_scoped_inv:
  assumes inv: "registry_inv r"
  shows "registry_inv (remove_scoped v r)"
proof (cases "map_of (rg_scoped r) v")
  case None
  then show ?thesis using inv by (simp add: remove_scoped_def)
next
  case (Some c)
  note D = registry_invD[OF inv]
  have v: "v \<in> fst ` set (rg_scoped r)" using Some by (auto dest!: map_of_SomeD intro: rev_image_eqI)
  show ?thesis
  proof (cases "c - 1 = 0")
    case True
    then show ?thesis using Some scoped_inv[OF inv bt_sorted_remove[OF D(2), of v], of None]
      by (simp add: remove_scoped_def)
  next
    case False
    have k: "fst ` set (bt_insert (v, c - 1) (rg_scoped r)) = fst ` set (rg_scoped r)"
      using v by (auto simp: keys_bt_insert)
    have "registry_inv (r\<lparr>rg_scoped := bt_insert (v, c - 1) (rg_scoped r), rg_matcher := rg_matcher r\<rparr>)"
      by (rule scoped_inv[OF inv]) (use D k in \<open>auto simp: bt_sorted_insert\<close>)
    then show ?thesis using Some False by (simp add: remove_scoped_def)
  qed
qed

lemma fresh_new_matcher:
  "matcher_fresh r (new_matcher aho (filter (\<lambda>s. s \<noteq> []) (registered r))
     (min_by_key (\<lambda>t. t) (bt_values (rg_expiring r))))"
proof -
  have "\<exists>u. min_by_key (\<lambda>t. t) (bt_values (rg_expiring r)) = Some u \<and> u \<le> t"
    if "(v, t) \<in> set (rg_expiring r)" for v t
  proof -
    have t: "t \<in> set (bt_values (rg_expiring r))" using that by (force simp: bt_values_def)
    then obtain u where u: "min_by_key (\<lambda>t. t) (bt_values (rg_expiring r)) = Some u"
      by (cases "min_by_key (\<lambda>t. t) (bt_values (rg_expiring r))") auto
    with t min_by_key_Some[OF u] show ?thesis by (auto simp: in_set_conv_nth)
  qed
  then show ?thesis by (auto simp: matcher_fresh_def)
qed

lemma reg_matcher_inv:
  assumes "registry_inv r"
  shows "registry_inv (snd (reg_matcher aho now r))"
    and "fst (reg_matcher aho now r) = mt \<Longrightarrow> matcher_fresh (reg_prune now r) mt"
proof -
  note inv = reg_prune_inv[OF assms, of now]
  define fresh where "fresh = new_matcher aho (filter (\<lambda>s. s \<noteq> []) (registered (reg_prune now r)))
    (min_by_key (\<lambda>t. t) (bt_values (rg_expiring (reg_prune now r))))"
  have f: "matcher_fresh (reg_prune now r) fresh" unfolding fresh_def by (rule fresh_new_matcher)
  have "registry_inv ((reg_prune now r)\<lparr>rg_matcher := Some fresh\<rparr>)"
    using f registry_invD(1,2)[OF inv]
    by (intro registry_invI) (auto intro: fresh_cong simp: registered_def)
  then show "registry_inv (snd (reg_matcher aho now r))"
    using inv unfolding reg_matcher_def Let_def fresh_def[symmetric] by (simp split: option.splits)
  show "fst (reg_matcher aho now r) = mt \<Longrightarrow> matcher_fresh (reg_prune now r) mt"
    using f registry_invD(3)[OF inv] unfolding reg_matcher_def Let_def fresh_def[symmetric]
    by (auto split: option.splits if_splits)
qed

text \<open>The registries that the operations reach, in any order and at any times.\<close>

inductive registry_reach :: "(string list \<Rightarrow> automaton option) \<Rightarrow> registry \<Rightarrow> bool" for aho where
  reach_empty: "registry_reach aho empty_registry"
| reach_register: "registry_reach aho r \<Longrightarrow> registry_reach aho (register v r)"
| reach_expiring: "registry_reach aho r \<Longrightarrow> registry_reach aho (register_expiring v valid now r)"
| reach_scoped: "registry_reach aho r \<Longrightarrow> registry_reach aho (add_scoped v r)"
| reach_dropped: "registry_reach aho r \<Longrightarrow> registry_reach aho (remove_scoped v r)"
| reach_matched: "registry_reach aho r \<Longrightarrow> registry_reach aho (snd (current_matcher aho now r))"

lemma current_matcher_inv: "registry_inv r \<Longrightarrow> registry_inv (snd (current_matcher aho now r))"
  using reg_matcher_inv(1)[of r, where aho = aho and now = now] by (auto simp: current_matcher_def split: option.splits)

lemma registry_reach_inv: "registry_reach aho r \<Longrightarrow> registry_inv r"
proof (induction rule: registry_reach.induct)
  case reach_empty
  show ?case by (simp add: registry_inv_def empty_registry_def)
qed (auto simp: register_def register_expiring_def Let_def intro: reg_register_inv register_until_inv
    add_scoped_inv remove_scoped_inv current_matcher_inv)

text \<open>The secrets that are live at a time.\<close>

definition live_secrets :: "nat \<Rightarrow> registry \<Rightarrow> string set" where
  "live_secrets now r =
     (set (rg_permanent r) \<union> {v. \<exists>t>now. (v, t) \<in> set (rg_expiring r)} \<union> fst ` set (rg_scoped r)) - {[]}"

lemma live_pruned: "set (registered (reg_prune now r)) - {[]} = live_secrets now r"
  by (force simp: set_registered live_secrets_def reg_prune_expiring)

lemma current_matcher_live:
  assumes inv: "registry_inv r"
  shows "set (ma_secrets (fst (current_matcher aho now r))) = live_secrets now r"
proof -
  have slow: "set (ma_secrets (fst (reg_matcher aho now r))) = live_secrets now r"
    using reg_matcher_inv(2)[OF inv refl, where aho = aho and now = now] live_pruned by (simp add: matcher_fresh_def)
  show ?thesis
  proof (cases "rg_matcher r")
    case None
    then show ?thesis using slow by (simp add: current_matcher_def)
  next
    case (Some mt)
    show ?thesis
    proof (cases "matcher_current mt now")
      case False
      then show ?thesis using slow Some by (simp add: current_matcher_def)
    next
      case True
      have f: "matcher_fresh r mt" using registry_invD(3)[OF inv Some] .
      have "now < t" if "(v, t) \<in> set (rg_expiring r)" for v t
        using f that True by (fastforce simp: matcher_fresh_def matcher_current_def)
      then have "set (registered r) - {[]} = live_secrets now r"
        by (force simp: set_registered live_secrets_def)
      then show ?thesis using Some True f by (simp add: current_matcher_def matcher_fresh_def)
    qed
  qed
qed

section \<open>Masking\<close>

text \<open>A masked text is made of the pieces of the original, each shown or hidden.\<close>

datatype piece = Shown string | Hidden string

fun piece_bytes :: "piece \<Rightarrow> string" where
  "piece_bytes (Shown s) = s"
| "piece_bytes (Hidden s) = s"

fun piece_text :: "piece \<Rightarrow> string" where
  "piece_text (Shown s) = s"
| "piece_text (Hidden s) = REDACTED"

fun piece_flags :: "piece \<Rightarrow> bool list" where
  "piece_flags (Shown s) = replicate (length s) False"
| "piece_flags (Hidden s) = replicate (length s) True"

definition covered :: "hits \<Rightarrow> nat \<Rightarrow> bool" where
  "covered hs i = (\<exists>(a, b)\<in>set hs. a \<le> i \<and> i < b)"

definition hits_ok :: "string \<Rightarrow> hits \<Rightarrow> bool" where
  "hits_ok s hs = (\<forall>(a, b)\<in>set hs. a < b \<and> b \<le> length s)"

definition reach_ok :: "nat list \<Rightarrow> bool" where
  "reach_ok reach = (\<forall>a<length reach. reach ! a \<noteq> 0 \<longrightarrow> a < reach ! a \<and> reach ! a \<le> length reach)"

definition reached :: "nat list \<Rightarrow> nat \<Rightarrow> bool" where
  "reached reach i = (\<exists>a<length reach. a \<le> i \<and> i < reach ! a)"

lemma length_cover [simp]: "length (cover reach h) = length reach"
  by (simp add: cover_def)

lemma cover_step:
  assumes "reach_ok reach" "a < b" "b \<le> length reach"
  shows "reach_ok (cover reach (a, b))"
    and "reached (cover reach (a, b)) i = (reached reach i \<or> (a \<le> i \<and> i < b))"
proof -
  show "reach_ok (cover reach (a, b))"
    using assms by (auto simp: reach_ok_def cover_def nth_list_update max_def)
  have n: "cover reach (a, b) ! j = (if j = a then max (reach ! a) b else reach ! j)" if "j < length reach" for j
    using that by (simp add: cover_def nth_list_update)
  have a: "a < length reach" using assms by simp
  show "reached (cover reach (a, b)) i = (reached reach i \<or> (a \<le> i \<and> i < b))"
  proof
    assume "reached (cover reach (a, b)) i"
    then obtain j where j: "j < length reach" "j \<le> i" "i < cover reach (a, b) ! j" by (auto simp: reached_def)
    show "reached reach i \<or> (a \<le> i \<and> i < b)"
    proof (cases "j = a \<and> i < b")
      case False
      then have "i < reach ! j" using j n[OF j(1)] by (auto simp: max_def split: if_splits)
      then show ?thesis using j unfolding reached_def by blast
    qed (use j in simp)
  next
    assume "reached reach i \<or> (a \<le> i \<and> i < b)"
    then consider j where "j < length reach" "j \<le> i" "i < reach ! j" | "a \<le> i" "i < b"
      unfolding reached_def by blast
    then show "reached (cover reach (a, b)) i"
    proof cases
      case 1
      then have "i < cover reach (a, b) ! j" using n[OF 1(1)] by auto
      with 1 show ?thesis unfolding reached_def by auto
    next
      case 2
      then have "i < cover reach (a, b) ! a" using n[OF a] by simp
      with 2 a show ?thesis unfolding reached_def by auto
    qed
  qed
qed

lemma foldl_cover:
  assumes "reach_ok reach" "\<forall>(a, b)\<in>set hs. a < b \<and> b \<le> length reach"
  shows "reach_ok (foldl cover reach hs)" "length (foldl cover reach hs) = length reach"
    "reached (foldl cover reach hs) i = (reached reach i \<or> covered hs i)"
proof -
  have "reach_ok (foldl cover reach hs) \<and> length (foldl cover reach hs) = length reach
    \<and> reached (foldl cover reach hs) i = (reached reach i \<or> covered hs i)"
    using assms
  proof (induction hs arbitrary: reach)
    case (Cons h hs)
    obtain a b where h: "h = (a, b)" by (cases h)
    with Cons.prems have ab: "a < b" "b \<le> length reach" by auto
    note st = cover_step[OF Cons.prems(1) ab]
    have "\<forall>(a, b)\<in>set hs. a < b \<and> b \<le> length (cover reach h)" using Cons.prems(2) by simp
    with Cons.IH[of "cover reach h"] st show ?case by (auto simp: h covered_def)
  qed (simp add: covered_def)
  then show "reach_ok (foldl cover reach hs)" "length (foldl cover reach hs) = length reach"
    "reached (foldl cover reach hs) i = (reached reach i \<or> covered hs i)" by blast+
qed

lemma reach_of:
  assumes "hits_ok s hs"
  shows "reach_ok (reach_of s hs)" "length (reach_of s hs) = length s"
    "reached (reach_of s hs) i = covered hs i"
proof -
  have r: "reach_ok (replicate (length s) 0)" by (simp add: reach_ok_def)
  have h: "\<forall>(a, b)\<in>set hs. a < b \<and> b \<le> length (replicate (length s) (0::nat))" using assms by (simp add: hits_ok_def)
  show "reach_ok (reach_of s hs)" "length (reach_of s hs) = length s"
    "reached (reach_of s hs) i = covered hs i"
    using foldl_cover[OF r h] by (auto simp: reach_of_def reached_def)
qed

lemma run_end:
  assumes "reach_ok reach" "i \<le> e" "e \<le> length reach"
  shows "e \<le> run_end reach e i" "run_end reach e i \<le> length reach"
    "\<And>j. i \<le> j \<Longrightarrow> j < run_end reach e i \<Longrightarrow> reach ! j \<le> run_end reach e i"
    "\<And>k. e \<le> k \<Longrightarrow> k < run_end reach e i \<Longrightarrow> \<exists>j\<ge>i. j \<le> k \<and> k < reach ! j"
proof -
  have "e \<le> run_end reach e i \<and> run_end reach e i \<le> length reach
    \<and> (\<forall>j. i \<le> j \<longrightarrow> j < run_end reach e i \<longrightarrow> reach ! j \<le> run_end reach e i)
    \<and> (\<forall>k. e \<le> k \<longrightarrow> k < run_end reach e i \<longrightarrow> (\<exists>j\<ge>i. j \<le> k \<and> k < reach ! j))"
    using assms
  proof (induction reach e i rule: run_end.induct)
    case (1 reach e i)
    show ?case
    proof (cases "i < e")
      case False
      with 1(3) have "i = e" by simp
      moreover have "run_end reach e i = e" using False by (subst run_end.simps) simp
      ultimately show ?thesis using 1(4) by simp
    next
      case True
      then have il: "i < length reach" using 1(4) by simp
      let ?e = "max e (reach ! i)"
      let ?E = "run_end reach ?e (Suc i)"
      have "reach ! i \<le> length reach" using 1(2) il by (cases "reach ! i = 0") (auto simp: reach_ok_def)
      then have IH: "?e \<le> ?E" "?E \<le> length reach"
        "\<And>j. Suc i \<le> j \<Longrightarrow> j < ?E \<Longrightarrow> reach ! j \<le> ?E"
        "\<And>k. ?e \<le> k \<Longrightarrow> k < ?E \<Longrightarrow> \<exists>j\<ge>Suc i. j \<le> k \<and> k < reach ! j"
        using 1(1)[OF _ 1(2)] True il 1(4) by auto
      have eq: "run_end reach e i = ?E" using True il by (subst run_end.simps) simp
      have a: "reach ! j \<le> ?E" if "i \<le> j" "j < ?E" for j
        using that IH(1,3) by (cases "j = i") auto
      have b: "\<exists>j\<ge>i. j \<le> k \<and> k < reach ! j" if k: "e \<le> k" "k < ?E" for k
      proof (cases "?e \<le> k")
        case True
        from IH(4)[OF this k(2)] show ?thesis by (meson Suc_leD)
      next
        case False
        then show ?thesis using k True by (intro exI[of _ i]) auto
      qed
      show ?thesis unfolding eq using IH(1,2) a b by simp
    qed
  qed
  then show "e \<le> run_end reach e i" "run_end reach e i \<le> length reach"
    "\<And>j. i \<le> j \<Longrightarrow> j < run_end reach e i \<Longrightarrow> reach ! j \<le> run_end reach e i"
    "\<And>k. e \<le> k \<Longrightarrow> k < run_end reach e i \<Longrightarrow> \<exists>j\<ge>i. j \<le> k \<and> k < reach ! j" by blast+
qed

lemma slice_append: "a \<le> b \<Longrightarrow> slice a b s @ drop b s = drop a s"
  using append_take_drop_id[of "b - a" "drop a s"] by (simp add: slice_def)

lemma length_slice: "a \<le> b \<Longrightarrow> b \<le> length s \<Longrightarrow> length (slice a b s) = b - a"
  by (simp add: slice_def)

lemma flags_const:
  assumes "\<And>i. a \<le> i \<Longrightarrow> i < b \<Longrightarrow> P i = c"
  shows "map P [a..<b] = replicate (b - a) c"
  using assms by (intro nth_equalityI) auto

lemma upt_split: "a \<le> b \<Longrightarrow> b \<le> c \<Longrightarrow> [a..<c] = [a..<b] @ [b..<c]"
  using upt_add_eq_append[of a b "c - b"] by simp

lemma mask_from_pieces:
  assumes ok: "reach_ok reach" and len: "length reach = length s"
    and "copied \<le> start" "start \<le> length s"
    and "\<And>a. a < copied \<Longrightarrow> reach ! a \<le> copied" and "\<And>a. copied \<le> a \<Longrightarrow> a < start \<Longrightarrow> reach ! a = 0"
  shows "\<exists>ps. mask_from reach s copied start = concat (map piece_text ps)
     \<and> concat (map piece_bytes ps) = drop copied s
     \<and> concat (map piece_flags ps) = map (reached reach) [copied..<length s]"
  using assms
proof (induction reach s copied start rule: mask_from.induct)
  case (1 reach s copied start)
  note prems = 1(3-8)
  have no: "reached reach i = False" if "copied \<le> i" "i < start" for i
  proof -
    have "\<not> i < reach ! a" if "a \<le> i" for a
      using prems(5)[of a] prems(6)[of a] that \<open>copied \<le> i\<close> \<open>i < start\<close> by (cases "a < copied") auto
    then show ?thesis by (auto simp: reached_def)
  qed
  consider "length s \<le> start" | "start < length s" "reach ! start = 0" | "start < length s" "reach ! start \<noteq> 0"
    by linarith
  then show ?case
  proof cases
    case 1
    then have "start = length s" using prems(4) by simp
    then have "map (reached reach) [copied..<length s] = replicate (length s - copied) False"
      using no by (intro flags_const) simp
    then show ?thesis using 1 by (subst mask_from.simps) (intro exI[of _ "[Shown (drop copied s)]"], simp)
  next
    case 2
    have "\<exists>ps. mask_from reach s copied (Suc start) = concat (map piece_text ps)
       \<and> concat (map piece_bytes ps) = drop copied s
       \<and> concat (map piece_flags ps) = map (reached reach) [copied..<length s]"
      using prems 2 by (intro "1.IH"(1)) (auto simp: less_Suc_eq)
    then show ?thesis using 2 by (subst mask_from.simps) simp
  next
    case 3
    let ?r = "reach ! start"
    let ?e = "run_end reach ?r (Suc start)"
    have r: "start < ?r" "?r \<le> length reach" using prems(1,2) 3 by (auto simp: reach_ok_def)
    have R: "?r \<le> ?e" "?e \<le> length reach"
      "\<And>j. Suc start \<le> j \<Longrightarrow> j < ?e \<Longrightarrow> reach ! j \<le> ?e"
      "\<And>k. ?r \<le> k \<Longrightarrow> k < ?e \<Longrightarrow> \<exists>j\<ge>Suc start. j \<le> k \<and> k < reach ! j"
      using run_end[OF prems(1), of "Suc start" ?r] r by auto
    have adv: "start < ?e" using r R by simp
    have before: "reach ! a \<le> ?e" if "a < ?e" for a
    proof -
      consider "a < copied" | "copied \<le> a" "a < start" | "a = start" | "Suc start \<le> a" by linarith
      then show ?thesis
        using prems(3) prems(5)[of a] prems(6)[of a] R(1) R(3)[of a] that adv by cases auto
    qed
    have "\<exists>ps. mask_from reach s ?e ?e = concat (map piece_text ps)
       \<and> concat (map piece_bytes ps) = drop ?e s
       \<and> concat (map piece_flags ps) = map (reached reach) [?e..<length s]"
      using prems(1,2) 3 R(2) before adv by (intro "1.IH"(2)) auto
    then obtain ps where ps: "mask_from reach s ?e ?e = concat (map piece_text ps)"
      "concat (map piece_bytes ps) = drop ?e s"
      "concat (map piece_flags ps) = map (reached reach) [?e..<length s]" by blast
    have yes: "reached reach i = True" if "start \<le> i" "i < ?e" for i
    proof (cases "i < ?r")
      case True
      then show ?thesis using that 3 prems(2) by (auto simp: reached_def)
    next
      case False
      then obtain j where "j \<le> i" "i < reach ! j" using R(4)[of i] \<open>i < ?e\<close> by auto
      moreover have "j < length reach" using that R(2) \<open>j \<le> i\<close> by simp
      ultimately show ?thesis unfolding reached_def by blast
    qed
    have split: "[copied..<length s] = [copied..<start] @ [start..<?e] @ [?e..<length s]"
      using prems(2,3) adv R(2) upt_split[of copied start "length s"] upt_split[of start ?e "length s"] by simp
    have flags: "map (reached reach) [copied..<length s]
        = replicate (start - copied) False @ replicate (?e - start) True @ map (reached reach) [?e..<length s]"
      using flags_const[of copied start "reached reach" False, OF no]
        flags_const[of start ?e "reached reach" True, OF yes] by (simp add: split)
    have m: "mask_from reach s copied start = slice copied start s @ REDACTED @ mask_from reach s ?e ?e"
      using 3 adv by (subst mask_from.simps) (simp add: Let_def)
    show ?thesis
      using prems(2,3) 3 adv R(2) ps
      by (intro exI[of _ "Shown (slice copied start s) # Hidden (slice start ?e s) # ps"])
        (simp add: m flags length_slice slice_append)
  qed
qed

section \<open>Every occurrence is found\<close>

definition occurrences :: "string set \<Rightarrow> string \<Rightarrow> (nat \<times> nat) set" where
  "occurrences ps s = {(i, i + length p) |i p. p \<in> ps \<and> i \<le> length s \<and> starts_with (drop i s) p}"

text \<open>A Rust string: characters follow one another.\<close>

definition utf8_string :: "string \<Rightarrow> bool" where
  "utf8_string s =
     (\<forall>i<length s. \<not> is_cont (s ! i) \<longrightarrow>
        (let e = i + char_len (s ! i) in
         e \<le> length s \<and> is_char_boundary s e \<and> (\<forall>j\<in>{Suc i..<e}. is_cont (s ! j))))"

lemma starts_with_hd: "starts_with (drop i s) p \<Longrightarrow> p \<noteq> [] \<Longrightarrow> i < length s \<and> s ! i = hd p \<and> i + length p \<le> length s"
proof -
  assume a: "starts_with (drop i s) p" "p \<noteq> []"
  then obtain t where t: "drop i s = p @ t" by (auto simp: starts_with_iff)
  then have "i < length s" using a(2) by (metis append_is_Nil_conv drop_all not_le)
  moreover have "s ! i = hd p" using t a(2) calculation by (metis hd_append2 hd_drop_conv_nth)
  moreover have "length p + length t = length s - i" using t by (metis length_append length_drop)
  ultimately show ?thesis by simp
qed

lemma find_all_set:
  assumes "p \<noteq> []" "\<not> is_cont (hd p)" "utf8_string s" "is_char_boundary s from" "from \<le> length s"
  shows "set (find_all p s from) = {(i, i + length p) |i. from \<le> i \<and> starts_with (drop i s) p}"
  using assms
proof (induction p s "from" rule: find_all.induct)
  case (1 p s "from")
  show ?case
  proof (cases "find_str (drop from s) p")
    case None
    have "\<not> starts_with (drop i s) p" if "from \<le> i" for i
      using find_str_None[OF None, of "i - from"] 1(2) that by simp
    then show ?thesis using None 1(5,6) by (subst find_all.simps) auto
  next
    case (Some found)
    let ?k = "from + found"
    have k: "starts_with (drop ?k s) p" "\<And>j. j < found \<Longrightarrow> \<not> starts_with (drop (from + j) s) p"
      using find_str_Some[OF Some] by (simp_all add: add.commute)
    have kl: "?k < length s" "s ! ?k = hd p" using starts_with_hd[OF k(1) 1(2)] by auto
    let ?n = "?k + char_len (s ! ?k)"
    have u: "?n \<le> length s" "is_char_boundary s ?n" "\<And>j. ?k < j \<Longrightarrow> j < ?n \<Longrightarrow> is_cont (s ! j)"
      using 1(4) kl 1(3) by (auto simp: utf8_string_def Let_def)
    have step: "find_all p s from = (?k, ?k + length p) # find_all p s ?n"
      using 1(5,6) Some kl by (subst find_all.simps) (simp add: Let_def)
    have IH: "set (find_all p s ?n) = {(i, i + length p) |i. ?n \<le> i \<and> starts_with (drop i s) p}"
      using 1(1)[OF _ Some refl] 1(2-6) kl u by simp
    have "i = ?k \<or> ?n \<le> i" if i: "from \<le> i" "starts_with (drop i s) p" for i
    proof (rule ccontr)
      assume n: "\<not> (i = ?k \<or> ?n \<le> i)"
      have "\<not> i < ?k" using k(2)[of "i - from"] i less_diff_conv2[OF i(1), of found] by (auto simp: add.commute)
      with n have "is_cont (s ! i)" using u(3) by simp
      then show False using starts_with_hd[OF i(2) 1(2)] 1(3) by simp
    qed
    then show ?thesis unfolding step list.set IH using k(1) by (auto intro: trans_le_add1)
  qed
qed

text \<open>What the automaton crate documents: the automaton of some patterns finds all their occurrences.\<close>

definition finds_all :: "(string list \<Rightarrow> automaton option) \<Rightarrow> bool" where
  "finds_all aho = (\<forall>ps f s. aho ps = Some f \<longrightarrow> set (f s) = occurrences (set ps) s)"

definition matcher_built :: "(string list \<Rightarrow> automaton option) \<Rightarrow> matcher \<Rightarrow> bool" where
  "matcher_built aho mt = (ma_automaton mt = (if ma_secrets mt = [] then None else aho (ma_secrets mt)))"

lemma new_matcher_built [simp]: "matcher_built aho (new_matcher aho ss t)"
  by (simp add: matcher_built_def new_matcher_def Let_def)

lemma matcher_kept:
  "rg_matcher (reg_prune now r) \<in> {None, rg_matcher r}"
  "rg_matcher (reg_register v r) \<in> {None, rg_matcher r}"
  "rg_matcher (add_scoped v r) \<in> {None, rg_matcher r}"
  "rg_matcher (remove_scoped v r) \<in> {None, rg_matcher r}"
  by (auto simp: reg_prune_def reg_register_def add_scoped_def remove_scoped_def Let_def split: option.splits)

lemma register_until_kept: "rg_matcher (register_until v until now r) \<in> {None, rg_matcher r}"
  using matcher_kept(1)[of now r] by (auto simp: register_until_def Let_def split: option.splits)

lemma current_matcher_built:
  assumes "\<And>mt. rg_matcher r = Some mt \<Longrightarrow> matcher_built aho mt"
  shows "matcher_built aho (fst (current_matcher aho now r))"
    and "rg_matcher (snd (current_matcher aho now r)) = Some mt \<Longrightarrow> matcher_built aho mt"
proof -
  have p: "rg_matcher (reg_prune now r) = Some mt \<Longrightarrow> matcher_built aho mt" for mt
    using assms matcher_kept(1)[of now r] by auto
  show "matcher_built aho (fst (current_matcher aho now r))"
    using assms p by (auto simp: current_matcher_def reg_matcher_def Let_def split: option.splits)
  show "rg_matcher (snd (current_matcher aho now r)) = Some mt \<Longrightarrow> matcher_built aho mt"
    using assms p by (auto simp: current_matcher_def reg_matcher_def Let_def split: option.splits if_splits)
qed

lemma registry_reach_built:
  "registry_reach aho r \<Longrightarrow> rg_matcher r = Some mt \<Longrightarrow> matcher_built aho mt"
proof (induction arbitrary: mt rule: registry_reach.induct)
  case (reach_register r v)
  then show ?case using matcher_kept(2)[of "trim v" r] by (auto simp: register_def Let_def split: if_splits)
next
  case (reach_expiring r v valid now)
  then show ?case using register_until_kept[of "trim v" "now + valid + EXPIRED_GRACE" now r]
    by (auto simp: register_expiring_def Let_def split: if_splits)
next
  case (reach_scoped r v)
  then show ?case using matcher_kept(3)[of v r] by auto
next
  case (reach_dropped r v)
  then show ?case using matcher_kept(4)[of v r] by auto
next
  case (reach_matched r now)
  then show ?case using current_matcher_built(2)[of r] by blast
qed (simp add: empty_registry_def)

lemma set_matches:
  assumes built: "matcher_built aho mt" and aho: "finds_all aho" and s: "utf8_string s"
    and p: "\<forall>p\<in>set (ma_secrets mt). p \<noteq> [] \<and> \<not> is_cont (hd p)"
  shows "set (matches mt s) = occurrences (set (ma_secrets mt)) s"
proof (cases "ma_automaton mt")
  case (Some f)
  then have "aho (ma_secrets mt) = Some f" using built by (auto simp: matcher_built_def split: if_splits)
  then show ?thesis using aho Some by (simp add: finds_all_def matches_def)
next
  case None
  have b: "is_char_boundary s 0" by (simp add: is_char_boundary_def)
  have f: "set (find_all q s 0) = {(i, i + length q) |i. starts_with (drop i s) q}" if "q \<in> set (ma_secrets mt)" for q
    using find_all_set[of q s 0] p that s b by simp
  have "set (matches mt s) = (\<Union>q\<in>set (ma_secrets mt). {(i, i + length q) |i. starts_with (drop i s) q})"
    using None f by (simp add: matches_def)
  also have "\<dots> = occurrences (set (ma_secrets mt)) s"
    using p starts_with_hd by (fastforce simp: occurrences_def)
  finally show ?thesis .
qed

section \<open>The guarantee\<close>

text \<open>Byte \<open>i\<close> of the text belongs to an occurrence of a secret.\<close>

definition in_secret :: "string set \<Rightarrow> string \<Rightarrow> nat \<Rightarrow> bool" where
  "in_secret ps s i = (\<exists>p\<in>ps. \<exists>k\<le>i. i < k + length p \<and> starts_with (drop k s) p)"

lemma covered_occurrences:
  assumes "set hs = occurrences ps s" and "i < length s"
  shows "covered hs i = in_secret ps s i"
proof
  assume "covered hs i"
  then show "in_secret ps s i" unfolding covered_def assms(1) by (auto simp: occurrences_def in_secret_def)
next
  assume "in_secret ps s i"
  then obtain p k where pk: "p \<in> ps" "k \<le> i" "i < k + length p" "starts_with (drop k s) p"
    unfolding in_secret_def by blast
  then have "(k, k + length p) \<in> set hs" using assms(2) unfolding assms(1) occurrences_def by auto
  with pk show "covered hs i" unfolding covered_def by blast
qed

lemma mask_pieces:
  assumes m: "set (matches mt s) = occurrences ps s" and p: "[] \<notin> ps"
  shows "\<exists>qs. mask mt s = concat (map piece_text qs) \<and> concat (map piece_bytes qs) = s
     \<and> concat (map piece_flags qs) = map (in_secret ps s) [0..<length s]"
proof -
  let ?hs = "matches mt s"
  have ok: "hits_ok s ?hs"
    using m p starts_with_hd unfolding hits_ok_def occurrences_def by fastforce
  have cov: "map (reached (reach_of s ?hs)) [0..<length s] = map (in_secret ps s) [0..<length s]"
    using reach_of(3)[OF ok] covered_occurrences[OF m] by simp
  show ?thesis
  proof (cases "?hs = []")
    case True
    then have "\<not> in_secret ps s i" if "i < length s" for i
      using covered_occurrences[OF m that] by (simp add: covered_def)
    then have "map (in_secret ps s) [0..<length s] = replicate (length s - 0) False"
      by (intro flags_const) simp
    then show ?thesis using True by (intro exI[of _ "[Shown s]"]) (simp add: mask_def)
  next
    case False
    have "\<exists>qs. mask_from (reach_of s ?hs) s 0 0 = concat (map piece_text qs)
       \<and> concat (map piece_bytes qs) = drop 0 s
       \<and> concat (map piece_flags qs) = map (reached (reach_of s ?hs)) [0..<length s]"
      using reach_of(1,2)[OF ok] by (intro mask_from_pieces) simp_all
    then show ?thesis using False cov by (simp add: mask_def Let_def)
  qed
qed



end
