(* ===== verification/Config.thy ===== *)
theory Config
  imports Delegated Preferences Json
begin

text \<open>
  \<open>src/src/config.rs\<close>: the settings of a run with their defaults, the expansion of environment
  variables, profiles.  The checks, identities and fingerprints are in \<open>Config_Checks\<close>.

  \<open>config_fns\<close> gathers library code: the URL parser, the debug form of a string, the test for a header
  name, the lower case of a string, the JSON printer and the SHA-256 digest in hexadecimal.
\<close>

datatype url_host = Domain string | Ipv4 nat | Ipv6 nat

record url_parts =
  up_scheme :: string
  up_username :: string
  up_password :: "string option"
  up_host :: "url_host option"
  up_host_str :: "string option"
  up_query_names :: "string list"
  up_plain :: string

record config_fns =
  kf_url :: "string \<Rightarrow> url_parts option"
  kf_debug :: "string \<Rightarrow> string"
  kf_header_name :: "string \<Rightarrow> bool"
  kf_lowercase :: "string \<Rightarrow> string"
  kf_print :: "json \<Rightarrow> string"
  kf_hash :: "string \<Rightarrow> string"

section \<open>Settings\<close>

datatype publish_mode = DryRun | Comment

record review_settings =
  rs_strategy :: strategy
  rs_max_findings :: nat
  rs_publish :: publish_mode
  rs_publish_uncertain :: bool
  rs_concurrency :: nat
  rs_max_tool_output_bytes :: nat
  rs_max_diff_bytes :: nat
  rs_min_severity :: severity
  rs_inline_min_severity :: severity
  rs_validate :: bool
  rs_guidance :: guidance_mode
  rs_guidance_max_bytes :: nat
  rs_notes :: string

record budget_config =
  bc_agent_max_tool_calls :: u32
  bc_agent_max_seconds :: nat
  bc_run_max_requests :: u32
  bc_run_max_seconds :: nat
  bc_retries :: u32

datatype vera_backend = Vera_Api | Vera_Local
datatype reranker_protocol = Generic | Voyage
datatype return_documents = Send bool | Omit

fun reranker_str :: "reranker_protocol \<Rightarrow> string" where
  "reranker_str Generic = ''generic''"
| "reranker_str Voyage = ''voyage''"

fun return_documents_value :: "return_documents option \<Rightarrow> string" where
  "return_documents_value None = ''false''"
| "return_documents_value (Some (Send False)) = ''false''"
| "return_documents_value (Some (Send True)) = ''true''"
| "return_documents_value (Some Omit) = ''null''"

record vera_endpoint =
  ve_base_url :: string
  ve_model :: string
  ve_api_key_env :: string
  ve_protocol :: "reranker_protocol option"
  ve_endpoint_path :: "string option"
  ve_return_documents :: "return_documents option"
  ve_candidates :: "u32 option"
  ve_max_doc_chars :: "u32 option"
  ve_max_concurrent_requests :: "u32 option"
  ve_max_in_flight_inputs :: "u32 option"
  ve_timeout_secs :: "u32 option"

definition DEFAULT_EMBED_MAX_CONCURRENT :: u32 where "DEFAULT_EMBED_MAX_CONCURRENT = 8"
definition DEFAULT_EMBED_MAX_IN_FLIGHT :: u32 where "DEFAULT_EMBED_MAX_IN_FLIGHT = 256"
definition DEFAULT_EMBED_TIMEOUT_SECS :: u32 where "DEFAULT_EMBED_TIMEOUT_SECS = 120"
definition DEFAULT_RERANK_CANDIDATES :: u32 where "DEFAULT_RERANK_CANDIDATES = 20"
definition DEFAULT_RERANK_MAX_DOC_CHARS :: u32 where "DEFAULT_RERANK_MAX_DOC_CHARS = 2000"

definition or_default :: "'a option \<Rightarrow> 'a \<Rightarrow> 'a" where
  "or_default v d = (case v of Some x \<Rightarrow> x | None \<Rightarrow> d)"

definition embedding_config_pairs :: "vera_endpoint \<Rightarrow> (string \<times> string) list" where
  "embedding_config_pairs e =
     [(''embedding.max_concurrent_requests'', u32_str (or_default (ve_max_concurrent_requests e) DEFAULT_EMBED_MAX_CONCURRENT)),
      (''embedding.max_in_flight_inputs'', u32_str (or_default (ve_max_in_flight_inputs e) DEFAULT_EMBED_MAX_IN_FLIGHT)),
      (''embedding.timeout_secs'', u32_str (or_default (ve_timeout_secs e) DEFAULT_EMBED_TIMEOUT_SECS))]"

record vera_config =
  vc_executable :: string
  vc_version :: "string option"
  vc_enabled :: bool
  vc_backend :: vera_backend
  vc_embedding :: "vera_endpoint option"
  vc_reranker :: "vera_endpoint option"
  vc_exclude :: "string list"
  vc_home :: "string option"

record github_config =
  gc_token_env :: string
  gc_summary_marker :: string
  gc_bot_login :: string
  gc_allow_forks :: bool

record delegated_settings =
  ds_max_questions :: nat
  ds_worker_max_tool_calls :: u32
  ds_worker_max_seconds :: nat

record panel_settings =
  pn_focuses :: "string list"
  pn_scout_max_tool_calls :: u32
  pn_focuses_explicit :: bool
  pn_scout_max_tool_calls_explicit :: bool

record web_search_config =
  ws_enabled :: bool
  ws_api_key_env :: string
  ws_free_first :: bool
  ws_allow_private :: bool
  ws_max_searches_per_review :: u32
  ws_max_reads_per_review :: u32

record scout_route =
  sr_name :: string
  sr_route :: model_route

record models_config =
  mo_investigator :: model_route
  mo_validator :: "model_route option"
  mo_fixer :: "model_route option"
  mo_fix_verifier :: "model_route option"
  mo_lead :: "model_route option"
  mo_workers :: "model_route list option"
  mo_scouts :: "scout_route list option"

record review_override =
  ro_strategy :: "strategy option"
  ro_max_findings :: "nat option"
  ro_publish :: "publish_mode option"
  ro_publish_uncertain :: "bool option"
  ro_concurrency :: "nat option"
  ro_max_tool_output_bytes :: "nat option"
  ro_max_diff_bytes :: "nat option"
  ro_min_severity :: "severity option"
  ro_inline_min_severity :: "severity option"
  ro_guidance :: "guidance_mode option"
  ro_notes :: "string option"

record budget_override =
  bo_agent_max_tool_calls :: "u32 option"
  bo_agent_max_seconds :: "nat option"
  bo_run_max_requests :: "u32 option"
  bo_run_max_seconds :: "nat option"
  bo_retries :: "u32 option"

record profile_override =
  po_review :: "review_override option"
  po_budget :: "budget_override option"

record config =
  cf_playbook :: playbook
  cf_builtin_deep :: bool
  cf_review :: review_settings
  cf_budget :: budget_config
  cf_models :: models_config
  cf_vera :: vera_config
  cf_web_search :: web_search_config
  cf_github :: github_config
  cf_delegated :: delegated_settings
  cf_panel :: panel_settings
  cf_profiles :: "(string \<times> profile_override) list"

section \<open>Defaults\<close>

definition default_focuses :: "string list" where "default_focuses = [''general'', ''cross-file'']"
definition default_scout_tool_calls :: u32 where "default_scout_tool_calls = 30"

definition review_default :: review_settings where
  "review_default =
     \<lparr>rs_strategy = Baseline, rs_max_findings = 10, rs_publish = DryRun, rs_publish_uncertain = False,
      rs_concurrency = 4, rs_max_tool_output_bytes = 12000, rs_max_diff_bytes = 200000, rs_min_severity = Low,
      rs_inline_min_severity = Medium, rs_validate = True, rs_guidance = Guidance_Off,
      rs_guidance_max_bytes = 16 * 1024, rs_notes = []\<rparr>"

definition budget_default :: budget_config where
  "budget_default =
     \<lparr>bc_agent_max_tool_calls = 50, bc_agent_max_seconds = 900, bc_run_max_requests = 300,
      bc_run_max_seconds = 1800, bc_retries = 3\<rparr>"

definition delegated_default :: delegated_settings where
  "delegated_default = \<lparr>ds_max_questions = 4, ds_worker_max_tool_calls = 24, ds_worker_max_seconds = 360\<rparr>"

definition panel_default :: panel_settings where
  "panel_default =
     \<lparr>pn_focuses = default_focuses, pn_scout_max_tool_calls = default_scout_tool_calls,
      pn_focuses_explicit = False, pn_scout_max_tool_calls_explicit = False\<rparr>"

text \<open>A \<open>panel:\<close> section remembers what it names.\<close>

definition panel_of :: "string list option \<Rightarrow> u32 option \<Rightarrow> panel_settings" where
  "panel_of focuses calls =
     \<lparr>pn_focuses = or_default focuses default_focuses,
      pn_scout_max_tool_calls = or_default calls default_scout_tool_calls,
      pn_focuses_explicit = (focuses \<noteq> None), pn_scout_max_tool_calls_explicit = (calls \<noteq> None)\<rparr>"

definition vera_default :: vera_config where
  "vera_default =
     \<lparr>vc_executable = ''vera'', vc_version = None, vc_enabled = False, vc_backend = Vera_Local, vc_embedding = None,
      vc_reranker = None, vc_exclude = [], vc_home = None\<rparr>"

definition github_default :: github_config where
  "github_default =
     \<lparr>gc_token_env = ''GITHUB_TOKEN'', gc_summary_marker = ''<!-- revera-summary -->'',
      gc_bot_login = ''github-actions[bot]'', gc_allow_forks = False\<rparr>"

definition web_search_default :: web_search_config where
  "web_search_default =
     \<lparr>ws_enabled = False, ws_api_key_env = ''EXA_API_KEY'', ws_free_first = False, ws_allow_private = False,
      ws_max_searches_per_review = 4, ws_max_reads_per_review = 4\<rparr>"

section \<open>Environment variables\<close>

definition name_start :: "char \<Rightarrow> bool" where
  "name_start c = (c = CHR ''_'' \<or> (is_ascii_alphanumeric c \<and> \<not> is_ascii_digit c))"

definition name_char :: "char \<Rightarrow> bool" where
  "name_char c = (c = CHR ''_'' \<or> is_ascii_alphanumeric c)"

definition is_env_name :: "string \<Rightarrow> bool" where
  "is_env_name s = (case s of [] \<Rightarrow> False | c # t \<Rightarrow> name_start c \<and> list_all name_char t)"

text \<open>A reference \<open>${NAME}\<close> at the start of a text, and the text after it.\<close>

definition env_ref :: "string \<Rightarrow> (string \<times> string) option" where
  "env_ref s =
     (case strip_prefix s ''${'' of
        None \<Rightarrow> None
      | Some t \<Rightarrow>
          (let name = takeWhile name_char t in
           case strip_prefix (dropWhile name_char t) ''}'' of
             Some rest \<Rightarrow> if is_env_name name then Some (name, rest) else None
           | None \<Rightarrow> None))"

lemma env_ref_shorter: "env_ref s = Some (name, rest) \<Longrightarrow> length rest < length s"
proof -
  assume e: "env_ref s = Some (name, rest)"
  then obtain t where t: "s = ''${'' @ t" "dropWhile name_char t = ''}'' @ rest"
    by (auto simp: env_ref_def Let_def strip_prefix_Some split: option.splits if_splits)
  have "length (dropWhile name_char t) \<le> length t" by (rule length_dropWhile_le)
  with t show ?thesis by simp
qed

text \<open>The replaced text, and the last variable that is not set.\<close>

function expand_scan :: "(string \<Rightarrow> string option) \<Rightarrow> string \<Rightarrow> string \<times> string option" where
  "expand_scan env s =
     (case s of
        [] \<Rightarrow> ([], None)
      | c # t \<Rightarrow>
          (case env_ref s of
             Some (name, rest) \<Rightarrow>
               (let (out, missing) = expand_scan env rest in
                case env name of
                  Some v \<Rightarrow> (v @ out, missing)
                | None \<Rightarrow> (out, (case missing of Some m \<Rightarrow> Some m | None \<Rightarrow> Some name)))
           | None \<Rightarrow> (let (out, missing) = expand_scan env t in (c # out, missing))))"
  by pat_completeness auto
termination
  by (relation "measure (\<lambda>(env, s). length s)") (auto dest: env_ref_shorter)

declare expand_scan.simps [simp del]

definition expand_env_with :: "(string \<Rightarrow> string option) \<Rightarrow> string \<Rightarrow> string + string" where
  "expand_env_with env s =
     (case expand_scan env s of
        (out, None) \<Rightarrow> Inr out
      | (_, Some v) \<Rightarrow> Inl (''environment variable $'' @ v @ '' referenced by config is not set''))"

section \<open>Routes\<close>

fun try_map :: "('a \<Rightarrow> 'e + 'b) \<Rightarrow> 'a list \<Rightarrow> 'e + 'b list" where
  "try_map f [] = Inr []"
| "try_map f (x # xs) =
     (case f x of
        Inl e \<Rightarrow> Inl e
      | Inr y \<Rightarrow> (case try_map f xs of Inl e \<Rightarrow> Inl e | Inr ys \<Rightarrow> Inr (y # ys)))"

lemma try_map_cong [fundef_cong]:
  "xs = ys \<Longrightarrow> (\<And>x. x \<in> set ys \<Longrightarrow> f x = g x) \<Longrightarrow> try_map f xs = try_map g ys"
  by (induction ys arbitrary: xs) (auto split: sum.splits)

definition try_opt :: "('a \<Rightarrow> 'e + 'b) \<Rightarrow> 'a option \<Rightarrow> 'e + 'b option" where
  "try_opt f v =
     (case v of None \<Rightarrow> Inr None | Some x \<Rightarrow> (case f x of Inl e \<Rightarrow> Inl e | Inr y \<Rightarrow> Inr (Some y)))"

definition and_then :: "'e + 'a \<Rightarrow> ('a \<Rightarrow> 'e + 'b) \<Rightarrow> 'e + 'b" where
  "and_then m k = (case m of Inl e \<Rightarrow> Inl e | Inr x \<Rightarrow> k x)"

lemma and_then_Inr: "and_then m k = Inr y \<longleftrightarrow> (\<exists>x. m = Inr x \<and> k x = Inr y)"
  by (simp add: and_then_def split: sum.splits)

definition is_opencode_host :: "config_fns \<Rightarrow> string \<Rightarrow> bool" where
  "is_opencode_host F url =
     (case kf_url F url of
        None \<Rightarrow> False
      | Some u \<Rightarrow>
          (case up_host_str u of
             None \<Rightarrow> False
           | Some h \<Rightarrow> (let host = kf_lowercase F h in host = ''opencode.ai'' \<or> ends_with host ''.opencode.ai'')))"

fun expand_route :: "config_fns \<Rightarrow> (string \<Rightarrow> string option) \<Rightarrow> model_route \<Rightarrow> string + model_route" where
  "expand_route F env (Model_Route protocol url key_env model max_out timeout cache temp headers session script reasoning fallback) =
     and_then (try_map (expand_route F env) fallback) (\<lambda>fallback'.
     and_then (try_opt (expand_env_with env) url) (\<lambda>url'.
     and_then (try_opt (expand_env_with env) script) (\<lambda>script'.
     and_then (try_map (\<lambda>(k, v). and_then (expand_env_with env v) (\<lambda>v'. Inr (k, v'))) headers) (\<lambda>headers'.
       Inr (Model_Route protocol url' key_env model max_out timeout cache temp headers'
              (if session = None \<and> (case url' of Some u \<Rightarrow> is_opencode_host F u | None \<Rightarrow> False)
               then Some ''x-opencode-session'' else session)
              script' reasoning fallback')))))"

section \<open>Choices\<close>

definition effective_validator :: "config \<Rightarrow> model_route" where
  "effective_validator c = or_default (mo_validator (cf_models c)) (mo_investigator (cf_models c))"

definition effective_strategy :: "config \<Rightarrow> strategy option \<Rightarrow> strategy" where
  "effective_strategy c strategy =
     (let s = or_default strategy (rs_strategy (cf_review c)) in
      if s = Baseline \<and> cf_builtin_deep c then Panel else s)"

definition effective_fixer :: "config \<Rightarrow> model_route" where
  "effective_fixer c = or_default (mo_fixer (cf_models c)) (mo_investigator (cf_models c))"

definition effective_fix_verifier :: "config \<Rightarrow> model_route" where
  "effective_fix_verifier c = or_default (mo_fix_verifier (cf_models c)) (effective_validator c)"

definition validator_inherited :: "config \<Rightarrow> bool" where
  "validator_inherited c = (mo_validator (cf_models c) = None)"

definition scout_tool_calls :: "config \<Rightarrow> u32" where
  "scout_tool_calls c =
     (if cf_builtin_deep c \<and> \<not> pn_scout_max_tool_calls_explicit (cf_panel c)
      then bc_agent_max_tool_calls (cf_budget c) else pn_scout_max_tool_calls (cf_panel c))"

definition prune_disabled_focuses :: "config \<Rightarrow> config" where
  "prune_disabled_focuses c =
     (if pn_focuses_explicit (cf_panel c) then c
      else (let enabled = skill_names (cf_playbook c);
                keep = (\<lambda>focus.
                  if focus = ''general'' then Some focus
                  else (let kept = filter (\<lambda>n. canonical_class n \<in> set enabled) (split_char (CHR '','') focus) in
                        if kept = [] then None else Some (join '','' kept))) in
            c\<lparr>cf_panel := (cf_panel c)\<lparr>pn_focuses := List.map_filter keep (pn_focuses (cf_panel c))\<rparr>\<rparr>))"

section \<open>Profiles\<close>

definition DEEP_MAX_SECONDS :: nat where "DEEP_MAX_SECONDS = 3000"

definition u64_sat_mul :: "nat \<Rightarrow> nat \<Rightarrow> nat" where
  "u64_sat_mul a b = min (a * b) (2 ^ 64 - 1)"

definition u32_sat_mul :: "u32 \<Rightarrow> nat \<Rightarrow> u32" where
  "u32_sat_mul a b = of_nat (min (unat a * b) (2 ^ 32 - 1))"

definition no_review_override :: review_override where
  "no_review_override =
     \<lparr>ro_strategy = None, ro_max_findings = None, ro_publish = None, ro_publish_uncertain = None,
      ro_concurrency = None, ro_max_tool_output_bytes = None, ro_max_diff_bytes = None, ro_min_severity = None,
      ro_inline_min_severity = None, ro_guidance = None, ro_notes = None\<rparr>"

definition builtin_profile :: "string \<Rightarrow> budget_config \<Rightarrow> review_settings \<Rightarrow> profile_override option" where
  "builtin_profile name bud review =
     (let deep = (name = ''deep'') in
      case (if name = ''quick''
            then Some (max (bc_agent_max_tool_calls bud div 2) 1, max (bc_agent_max_seconds bud div 2) 30,
                       max (bc_run_max_seconds bud div 2) 60)
            else if deep
            then Some (bc_agent_max_tool_calls bud, bc_agent_max_seconds bud,
                       min (u64_sat_mul (bc_run_max_seconds bud) 2) DEEP_MAX_SECONDS)
            else None) of
        None \<Rightarrow> None
      | Some (calls, agent_seconds, run_seconds) \<Rightarrow>
          Some \<lparr>po_review =
                  (if deep
                   then Some (no_review_override
                          \<lparr>ro_strategy := (if rs_strategy review = Baseline then Some Panel else None),
                           ro_max_diff_bytes := Some (max (rs_max_diff_bytes review) 400000),
                           ro_max_findings := Some (max (rs_max_findings review) 20)\<rparr>)
                   else None),
                po_budget =
                  Some \<lparr>bo_agent_max_tool_calls = Some calls, bo_agent_max_seconds = Some agent_seconds,
                        bo_run_max_requests = (if deep then Some (u32_sat_mul (bc_run_max_requests bud) 3) else None),
                        bo_run_max_seconds = Some run_seconds, bo_retries = None\<rparr>\<rparr>)"

definition override_review :: "review_override option \<Rightarrow> review_settings \<Rightarrow> review_settings" where
  "override_review r s =
     (case r of
        None \<Rightarrow> s
      | Some o' \<Rightarrow>
          s\<lparr>rs_strategy := or_default (ro_strategy o') (rs_strategy s),
            rs_max_findings := or_default (ro_max_findings o') (rs_max_findings s),
            rs_publish := or_default (ro_publish o') (rs_publish s),
            rs_publish_uncertain := or_default (ro_publish_uncertain o') (rs_publish_uncertain s),
            rs_concurrency := or_default (ro_concurrency o') (rs_concurrency s),
            rs_max_tool_output_bytes := or_default (ro_max_tool_output_bytes o') (rs_max_tool_output_bytes s),
            rs_max_diff_bytes := or_default (ro_max_diff_bytes o') (rs_max_diff_bytes s),
            rs_min_severity := or_default (ro_min_severity o') (rs_min_severity s),
            rs_inline_min_severity := or_default (ro_inline_min_severity o') (rs_inline_min_severity s),
            rs_guidance := or_default (ro_guidance o') (rs_guidance s),
            rs_notes := or_default (ro_notes o') (rs_notes s)\<rparr>)"

definition override_budget :: "budget_override option \<Rightarrow> budget_config \<Rightarrow> budget_config" where
  "override_budget b s =
     (case b of
        None \<Rightarrow> s
      | Some o' \<Rightarrow>
          s\<lparr>bc_agent_max_tool_calls := or_default (bo_agent_max_tool_calls o') (bc_agent_max_tool_calls s),
            bc_agent_max_seconds := or_default (bo_agent_max_seconds o') (bc_agent_max_seconds s),
            bc_run_max_requests := or_default (bo_run_max_requests o') (bc_run_max_requests s),
            bc_run_max_seconds := or_default (bo_run_max_seconds o') (bc_run_max_seconds s),
            bc_retries := or_default (bo_retries o') (bc_retries s)\<rparr>)"

definition deep_focuses :: "string list" where
  "deep_focuses =
     [''general'', ''logic,errors,state'', ''contracts,config,concurrency'',
      ''filesystem,subprocess,security,resources'', ''docs,tests'']"

definition apply_profile :: "config_fns \<Rightarrow> string \<Rightarrow> config \<Rightarrow> string + config" where
  "apply_profile F name c =
     (let builtin_deep = (name = ''deep'' \<and> map_of (cf_profiles c) name = None);
          deep_panel = (builtin_deep \<and> rs_strategy (cf_review c) = Baseline) in
      case (case map_of (cf_profiles c) name of
              Some p \<Rightarrow> Some p | None \<Rightarrow> builtin_profile name (cf_budget c) (cf_review c)) of
        None \<Rightarrow> Inl (''unknown profile '' @ kf_debug F name)
      | Some p \<Rightarrow>
          (let panel = cf_panel c;
               panel1 = (if builtin_deep \<and> \<not> pn_focuses_explicit panel
                         then panel\<lparr>pn_focuses := deep_focuses\<rparr> else panel);
               review = override_review (po_review p) (cf_review c);
               budget = override_budget (po_budget p) (cf_budget c);
               panel2 = (if deep_panel \<and> \<not> pn_scout_max_tool_calls_explicit panel1
                         then panel1\<lparr>pn_scout_max_tool_calls := bc_agent_max_tool_calls budget\<rparr> else panel1) in
           Inr (c\<lparr>cf_builtin_deep := builtin_deep, cf_review := review, cf_budget := budget, cf_panel := panel2\<rparr>)))"

end
