(* ===== verification/Config_Checks.thy ===== *)
theory Config_Checks
  imports Config Wire
begin

text \<open>
  The checks of \<open>src/src/config.rs\<close> (the shape of routes, credentials, trust, publication), the identity
  of the index and of a review, and the cache key of \<open>src/src/pipeline/mod.rs\<close>.  A function that
  bails at the first problem is a list of checks.
\<close>

type_synonym outcome = "string + unit"

definition bail_if :: "bool \<Rightarrow> string \<Rightarrow> outcome" where
  "bail_if b e = (if b then Inl e else Inr ())"

fun checks :: "outcome list \<Rightarrow> outcome" where
  "checks [] = Inr ()"
| "checks (c # cs) = (case c of Inl e \<Rightarrow> Inl e | Inr _ \<Rightarrow> checks cs)"

lemma checks_ok [simp]: "checks cs = Inr () \<longleftrightarrow> (\<forall>c\<in>set cs. c = Inr ())"
  by (induction cs) (auto split: sum.splits)

declare checks.simps [simp del]

lemma bail_if_ok [simp]: "bail_if b e = Inr () \<longleftrightarrow> \<not> b"
  by (simp add: bail_if_def)

section \<open>Identities\<close>

definition identity_url :: "config_fns \<Rightarrow> string \<Rightarrow> string" where
  "identity_url F s =
     (case kf_url F s of
        None \<Rightarrow> trim_slashes (takeWhile (\<lambda>c. c \<noteq> CHR ''?'' \<and> c \<noteq> CHR ''#'') s)
      | Some u \<Rightarrow>
          (let names = sort (up_query_names u); base = trim_slashes (up_plain u) in
           if names = [] then base else base @ ''?names='' @ kf_print F (JArr (map JStr names))))"

definition SENSITIVE_GLOBS :: "string list" where
  "SENSITIVE_GLOBS =
     [''.env'', ''.env.*'', ''**/.env'', ''**/.env.*'', ''*.pem'', ''**/*.pem'', ''*.key'', ''**/*.key'', ''*.p12'',
      ''**/*.p12'', ''*.pfx'', ''**/*.pfx'', ''**/id_rsa*'', ''**/id_ed25519*'', ''**/id_ecdsa*'', ''.npmrc'',
      ''**/.npmrc'', ''.pypirc'', ''**/.pypirc'', ''.netrc'', ''**/.netrc'', ''.revera/**'', ''.vera/**'',
      ''.vera.build/**'', ''.vera.old/**'', ''.vera.resume/**'']"

definition effective_excludes :: "vera_config \<Rightarrow> string list" where
  "effective_excludes v =
     fold (\<lambda>g out. let t = trim g in if t \<noteq> [] \<and> t \<notin> set out then out @ [t] else out)
       (vc_exclude v @ SENSITIVE_GLOBS) []"

definition opt_str :: "string option \<Rightarrow> json" where
  "opt_str v = (case v of Some s \<Rightarrow> JStr s | None \<Rightarrow> JNull)"

fun backend_str :: "vera_backend \<Rightarrow> string" where
  "backend_str Vera_Api = ''api''"
| "backend_str Vera_Local = ''local''"

definition LOCAL_VERA_BACKEND :: string where "LOCAL_VERA_BACKEND = ''potion-code''"
definition INDEX_IDENTITY_SCHEMA :: nat where "INDEX_IDENTITY_SCHEMA = 2"

definition index_identity :: "config_fns \<Rightarrow> vera_config \<Rightarrow> json" where
  "index_identity F v =
     (let embedding =
        (case vc_backend v of
           Vera_Api \<Rightarrow>
             (case vc_embedding v of
                Some e \<Rightarrow> JObj [(''base_url'', JStr (identity_url F (ve_base_url e))), (''model'', JStr (ve_model e))]
              | None \<Rightarrow> JNull)
         | Vera_Local \<Rightarrow> JObj [(''local'', JStr LOCAL_VERA_BACKEND)]) in
      JObj [(''schema'', JNat INDEX_IDENTITY_SCHEMA), (''version'', opt_str (vc_version v)),
            (''backend'', JStr (backend_str (vc_backend v))), (''embedding'', embedding),
            (''exclude'', JArr (map JStr (effective_excludes v)))])"

text \<open>The first twelve bytes of the digest, two hexadecimal digits each.\<close>

definition index_key :: "config_fns \<Rightarrow> vera_config \<Rightarrow> string" where
  "index_key F v = take 24 (kf_hash F (kf_print F (index_identity F v)))"

definition reranker_identity :: "config_fns \<Rightarrow> vera_config \<Rightarrow> json" where
  "reranker_identity F v =
     (case vc_reranker v of
        None \<Rightarrow> JNull
      | Some r \<Rightarrow>
          JObj [(''base_url'', JStr (identity_url F (ve_base_url r))), (''model'', JStr (ve_model r)),
                (''protocol'', opt_str (map_option reranker_str (ve_protocol r))),
                (''endpoint_path'', opt_str (ve_endpoint_path r)),
                (''return_documents'', JStr (return_documents_value (ve_return_documents r))),
                (''candidates'', JNat (unat (or_default (ve_candidates r) DEFAULT_RERANK_CANDIDATES))),
                (''max_doc_chars'', JNat (unat (or_default (ve_max_doc_chars r) DEFAULT_RERANK_MAX_DOC_CHARS)))])"

text \<open>\<open>PathBuf::join\<close> with a relative path, and the home of Vera; \<open>env\<close> gives the variables.\<close>

definition path_join :: "string \<Rightarrow> string \<Rightarrow> string" where
  "path_join a b = (if a = [] \<or> ends_with a ''/'' then a @ b else a @ ''/'' @ b)"

definition nonempty :: "string option \<Rightarrow> string option" where
  "nonempty v = (if v = Some [] then None else v)"

definition vera_home :: "(string \<Rightarrow> string option) \<Rightarrow> vera_config \<Rightarrow> string" where
  "vera_home env v =
     (case vc_home v of
        Some h \<Rightarrow> h
      | None \<Rightarrow>
          (case nonempty (env ''REVERA_VERA_HOME'') of
             Some h \<Rightarrow> h
           | None \<Rightarrow>
               path_join (case nonempty (env ''XDG_CACHE_HOME'') of
                            Some c \<Rightarrow> c | None \<Rightarrow> path_join (or_default (env ''HOME'') []) ''.cache'')
                 ''revera/vera-home''))"

section \<open>Credentials and endpoints\<close>

definition env_is_set :: "(string \<Rightarrow> string option) \<Rightarrow> string \<Rightarrow> bool" where
  "env_is_set vars name = (case vars name of Some v \<Rightarrow> trim v \<noteq> [] | None \<Rightarrow> False)"

definition check_credential_env :: "config_fns \<Rightarrow> string \<Rightarrow> string \<Rightarrow> string \<Rightarrow> outcome" where
  "check_credential_env F what name github_env =
     checks [bail_if (\<not> is_env_name name) (what @ '': '' @ kf_debug F name @ '' is not a valid environment variable name''),
       bail_if (name = github_env \<or> name = ''GITHUB_TOKEN'' \<or> name = ''ACTIONS_RUNTIME_TOKEN'')
         (what @ '': '' @ name @ '' is reserved for GitHub and cannot be sent to a model provider'')]"

definition loopback :: "url_parts \<Rightarrow> bool" where
  "loopback u = (up_host u \<in> {Some (Domain ''localhost''), Some (Ipv4 0x7F000001), Some (Ipv6 1)})"

definition check_endpoint_url :: "config_fns \<Rightarrow> string \<Rightarrow> string \<Rightarrow> bool \<Rightarrow> outcome" where
  "check_endpoint_url F what u strict =
     (case kf_url F u of
        None \<Rightarrow> Inl (what @ '': '' @ kf_debug F u @ '' is not an absolute URL'')
      | Some p \<Rightarrow>
          if up_username p \<noteq> [] \<or> up_password p \<noteq> None
          then Inl (what @ '': credentials must not be embedded in the URL'')
          else if up_scheme p = ''https'' then Inr ()
          else if up_scheme p = ''http'' \<and> (loopback p \<or> \<not> strict) then Inr ()
          else Inl (what @ '': scheme '' @ kf_debug F (up_scheme p)
                      @ '' is not allowed (use https; http only for localhost)''))"

fun protocol_debug :: "protocol \<Rightarrow> string" where
  "protocol_debug OpenaiChat = ''OpenaiChat''"
| "protocol_debug OpenaiResponses = ''OpenaiResponses''"
| "protocol_debug Anthropic = ''Anthropic''"
| "protocol_debug Gemini = ''Gemini''"
| "protocol_debug Scripted = ''Scripted''"

definition own_shape :: "config_fns \<Rightarrow> string \<Rightarrow> model_route \<Rightarrow> outcome" where
  "own_shape F name r =
     (let m = ''models.'' @ name @ '': '' in
      checks [bail_if (\<not> (10 \<le> mr_timeout_secs r \<and> mr_timeout_secs r \<le> 3600))
          (m @ ''timeout_secs must be between 10 and 3600 seconds''),
        bail_if (mr_protocol r \<in> {OpenaiChat, OpenaiResponses} \<and> or_default (mr_base_url r) [] = [])
          (m @ ''protocol '' @ protocol_debug (mr_protocol r) @ '' requires base_url''),
        (if mr_protocol r = Scripted
         then bail_if (mr_script r = None) (m @ ''protocol scripted requires script path'')
         else checks [
           (case mr_session_header r of
              Some h \<Rightarrow> bail_if (trim h = [] \<or> \<not> kf_header_name F h)
                         (m @ ''session_header '' @ kf_debug F h @ '' is not a valid HTTP header name'')
            | None \<Rightarrow> Inr ()),
           bail_if (is_http (mr_protocol r) \<and> or_default (mr_api_key_env r) [] = [])
             (m @ ''protocol '' @ protocol_debug (mr_protocol r) @ '' requires api_key_env'')])])"

definition fallback_name :: "string \<Rightarrow> nat \<Rightarrow> string" where
  "fallback_name name i = name @ ''.fallback['' @ nat_str i @ '']''"

lemma size_fallback: "f \<in> set (mr_fallback r) \<Longrightarrow> size f < size r"
  by (cases r) (auto dest: size_list_estimation'[OF _ order_refl, where f = size])

function check_route_shape :: "config_fns \<Rightarrow> string \<Rightarrow> model_route \<Rightarrow> outcome" where
  "check_route_shape F name r =
     checks (map (\<lambda>(i, f). check_route_shape F (fallback_name name i) f) (enum (mr_fallback r)) @ [own_shape F name r])"
  by pat_completeness auto
termination
  by (relation "measure (\<lambda>(F, name, r). size r)") (auto simp: in_set_enum intro!: size_fallback)

declare check_route_shape.simps [simp del]

definition check_route_credentials :: "string \<Rightarrow> (string \<Rightarrow> bool) \<Rightarrow> model_route \<Rightarrow> outcome" where
  "check_route_credentials name is_set r =
     (if list_ex (credentials_available is_set) (routes r) then Inr ()
      else (let env = or_default (mr_api_key_env r) [] in
            bail_if (is_http (mr_protocol r) \<and> env \<noteq> [] \<and> \<not> is_set env)
              (''models.'' @ name @ '': api_key_env '' @ env
                 @ '' is not set (or empty) in the environment; no fallback has usable credentials'')))"

section \<open>The whole configuration\<close>

definition MAX_NOTES_CHARS :: nat where "MAX_NOTES_CHARS = 8000"

definition notes_check :: "config \<Rightarrow> outcome" where
  "notes_check c =
     bail_if (MAX_NOTES_CHARS < char_count (rs_notes (cf_review c))) ''review.notes must be at most 8000 characters''"

definition focus_check :: "config_fns \<Rightarrow> string \<Rightarrow> outcome" where
  "focus_check F focus =
     bail_if (focus \<noteq> ''general'' \<and> \<not> list_all (\<lambda>s. valid_name (trim s)) (split_char (CHR '','') focus))
       (''panel.focuses entry '' @ kf_debug F focus @ '': expected general or comma-separated skill names'')"

definition settings_checks :: "config_fns \<Rightarrow> config \<Rightarrow> outcome list" where
  "settings_checks F c =
     (let limit = (\<lambda>name n. bail_if (\<not> (1 \<le> (n::u32) \<and> n \<le> 32)) (''web_search.'' @ name @ '' must be between 1 and 32''));
          ws = cf_web_search c; m = gc_summary_marker (cf_github c) in
      map (focus_check F) (pn_focuses (cf_panel c))
      @ [notes_check c,
         limit ''max_searches_per_review'' (ws_max_searches_per_review ws),
         limit ''max_reads_per_review'' (ws_max_reads_per_review ws),
         bail_if (\<not> (starts_with m ''<!-- revera'' \<and> ends_with (trim_end m) ''-->''))
           (''github.summary_marker must be an HTML comment starting with '' @ [CHR 0x27] @ ''<!-- revera'' @ [CHR 0x27]
              @ '' (got '' @ kf_debug F m @ '')'')])"

definition drop_empty :: "'a list option \<Rightarrow> 'a list option" where
  "drop_empty v = (if v = Some [] then None else v)"

definition expand_models :: "config_fns \<Rightarrow> (string \<Rightarrow> string option) \<Rightarrow> models_config \<Rightarrow> string + models_config" where
  "expand_models F env m =
     (let ex = expand_route F env in
      and_then (ex (mo_investigator m)) (\<lambda>investigator.
      and_then (try_opt ex (mo_fixer m)) (\<lambda>fixer.
      and_then (try_opt ex (mo_fix_verifier m)) (\<lambda>fix_verifier.
      and_then (try_opt ex (mo_validator m)) (\<lambda>validator.
      and_then (try_opt ex (mo_lead m)) (\<lambda>lead.
      and_then (try_opt (try_map ex) (drop_empty (mo_workers m))) (\<lambda>workers.
      and_then (try_opt (try_map (\<lambda>s. and_then (ex (sr_route s)) (\<lambda>r. Inr (s\<lparr>sr_route := r\<rparr>)))) (drop_empty (mo_scouts m)))
        (\<lambda>scouts.
         Inr \<lparr>mo_investigator = investigator, mo_validator = validator, mo_fixer = fixer,
              mo_fix_verifier = fix_verifier, mo_lead = lead, mo_workers = workers, mo_scouts = scouts\<rparr>))))))))"

definition opt_list :: "'a option \<Rightarrow> 'a list" where
  "opt_list v = (case v of Some x \<Rightarrow> [x] | None \<Rightarrow> [])"

definition worker_name :: "nat \<Rightarrow> string" where
  "worker_name i = ''workers['' @ nat_str i @ '']''"

definition named_workers :: "models_config \<Rightarrow> (string \<times> model_route) list" where
  "named_workers m = map (\<lambda>(i, w). (worker_name i, w)) (enum (or_default (mo_workers m) []))"

definition named_scouts :: "models_config \<Rightarrow> (string \<times> model_route) list" where
  "named_scouts m = map (\<lambda>s. (''scouts.'' @ sr_name s, sr_route s)) (or_default (mo_scouts m) [])"

text \<open>The routes with their names, in the order in which their shapes are checked.\<close>

definition shape_routes :: "models_config \<Rightarrow> (string \<times> model_route) list" where
  "shape_routes m =
     (let named = (\<lambda>n v. map (Pair n) (opt_list v)) in
      [(''investigator'', mo_investigator m)] @ named ''fixer'' (mo_fixer m) @ named ''fix_verifier'' (mo_fix_verifier m)
        @ named ''validator'' (mo_validator m) @ named ''lead'' (mo_lead m) @ named_workers m @ named_scouts m)"

definition expand_and_validate :: "config_fns \<Rightarrow> (string \<Rightarrow> string option) \<Rightarrow> config \<Rightarrow> string + config" where
  "expand_and_validate F env c =
     and_then (checks (settings_checks F c)) (\<lambda>_.
     and_then (expand_models F env (cf_models c)) (\<lambda>m.
     and_then (checks (map (\<lambda>(name, r). check_route_shape F name r) (shape_routes m))) (\<lambda>_.
       Inr (c\<lparr>cf_models := m\<rparr>))))"

text \<open>\<open>yaml\<close> is the deserializer of the library; its errors are replaced by the context.\<close>

definition parse_with_env ::
  "config_fns \<Rightarrow> (string \<Rightarrow> config option) \<Rightarrow> string \<Rightarrow> string \<Rightarrow> (string \<Rightarrow> string option) \<Rightarrow> string + config"
where
  "parse_with_env F yaml source label env =
     and_then (expand_env_with env source) (\<lambda>expanded.
       (case yaml expanded of
          None \<Rightarrow> Inl (''invalid config '' @ label)
        | Some cfg \<Rightarrow> expand_and_validate F env cfg))"

definition check_panel_lanes :: "config \<Rightarrow> outcome" where
  "check_panel_lanes c =
     check_lane_cardinality (length (pn_focuses (cf_panel c)))
       (case mo_scouts (cf_models c) of Some s \<Rightarrow> length s | None \<Rightarrow> 0)"

definition strategy_routes :: "strategy \<Rightarrow> models_config \<Rightarrow> (string \<times> model_route) list" where
  "strategy_routes s m =
     (case s of
        Baseline \<Rightarrow> []
      | Delegated \<Rightarrow> map (Pair ''lead'') (opt_list (mo_lead m)) @ named_workers m
      | Panel \<Rightarrow> named_scouts m)"

definition validate_for_with_env :: "config \<Rightarrow> strategy \<Rightarrow> (string \<Rightarrow> bool) \<Rightarrow> outcome" where
  "validate_for_with_env c strategy is_set =
     checks (map (\<lambda>(name, r). check_route_credentials name is_set r)
       ([(''investigator'', mo_investigator (cf_models c))]
        @ (if rs_validate (cf_review c) then [(''validator'', effective_validator c)] else [])
        @ strategy_routes strategy (cf_models c)))"

definition check_publication :: "config \<Rightarrow> publish_mode \<Rightarrow> outcome" where
  "check_publication c publish =
     bail_if (publish = Comment \<and> \<not> rs_validate (cf_review c))
       ''review.validate=false is evaluation-only and cannot be combined with publish = comment''"

section \<open>Trust\<close>

text \<open>Every route of the configuration, its fallbacks included.\<close>

definition trust_routes :: "models_config \<Rightarrow> (string \<times> model_route) list" where
  "trust_routes m =
     (let named = (\<lambda>n v. map (Pair n) (opt_list v)) in
      [(''models.investigator'', mo_investigator m)] @ named ''models.validator'' (mo_validator m)
        @ named ''models.fixer'' (mo_fixer m) @ named ''models.fix_verifier'' (mo_fix_verifier m)
        @ named ''models.lead'' (mo_lead m) @ map (\<lambda>(n, r). (''models.'' @ n, r)) (named_workers m @ named_scouts m))"

definition with_fallbacks :: "string \<times> model_route \<Rightarrow> (string \<times> model_route) list" where
  "with_fallbacks nr =
     map (\<lambda>(i, r). (if i = 0 then fst nr else fallback_name (fst nr) (i - 1), r)) (enum (routes (snd nr)))"

definition route_trust :: "config_fns \<Rightarrow> string \<Rightarrow> bool \<Rightarrow> string \<times> model_route \<Rightarrow> outcome" where
  "route_trust F gh event_mode nr =
     (let (name, r) = nr in
      if \<not> is_http (mr_protocol r) then Inr ()
      else checks [
        (case mr_base_url r of
           Some u \<Rightarrow> check_endpoint_url F (name @ ''.base_url'') u event_mode | None \<Rightarrow> Inr ()),
        (case mr_api_key_env r of
           Some e \<Rightarrow> check_credential_env F (name @ ''.api_key_env'') e gh | None \<Rightarrow> Inr ())])"

definition endpoint_trust :: "config_fns \<Rightarrow> string \<Rightarrow> bool \<Rightarrow> string \<Rightarrow> vera_endpoint \<Rightarrow> outcome" where
  "endpoint_trust F gh event_mode name e =
     checks [check_endpoint_url F (name @ ''.base_url'') (ve_base_url e) event_mode,
       check_credential_env F (name @ ''.api_key_env'') (ve_api_key_env e) gh,
       (case ve_endpoint_path e of
          Some p \<Rightarrow> bail_if (\<not> starts_with p ''/'' \<or> str_contains p ''://'' \<or> str_contains p ''..'')
                     (name @ ''.endpoint_path must be an absolute path like /rerank'')
        | None \<Rightarrow> Inr ())]"

definition embedding_checks :: "vera_backend \<Rightarrow> vera_endpoint \<Rightarrow> outcome list" where
  "embedding_checks backend e =
     concat (map (\<lambda>(k, v).
         [bail_if (v = Some 0) (''vera.embedding.'' @ k @ '' must be a positive integer''),
          bail_if (v \<noteq> None \<and> backend \<noteq> Vera_Api) (''vera.embedding.'' @ k @ '' applies to vera.backend: api only'')])
       [(''max_concurrent_requests'', ve_max_concurrent_requests e), (''max_in_flight_inputs'', ve_max_in_flight_inputs e),
        (''timeout_secs'', ve_timeout_secs e)])"

definition vera_checks :: "config_fns \<Rightarrow> string \<Rightarrow> bool \<Rightarrow> vera_config \<Rightarrow> outcome list" where
  "vera_checks F gh event_mode v =
     (let each = (\<lambda>e f. map f (opt_list e)) in
      each (vc_embedding v) (endpoint_trust F gh event_mode ''vera.embedding'')
      @ each (vc_reranker v) (endpoint_trust F gh event_mode ''vera.reranker'')
      @ each (vc_embedding v) (\<lambda>e. bail_if (ve_protocol e \<noteq> None \<or> ve_endpoint_path e \<noteq> None
            \<or> ve_return_documents e \<noteq> None \<or> ve_candidates e \<noteq> None \<or> ve_max_doc_chars e \<noteq> None)
          ''vera.embedding: protocol/endpoint_path/return_documents/candidates/max_doc_chars apply to vera.reranker only'')
      @ each (vc_reranker v) (\<lambda>r. bail_if (ve_candidates r = Some 0) ''vera.reranker.candidates must be a positive integer'')
      @ each (vc_reranker v) (\<lambda>r. bail_if (ve_max_concurrent_requests r \<noteq> None \<or> ve_max_in_flight_inputs r \<noteq> None
            \<or> ve_timeout_secs r \<noteq> None)
          ''vera.reranker: max_concurrent_requests/max_in_flight_inputs/timeout_secs apply to vera.embedding only'')
      @ concat (map (embedding_checks (vc_backend v)) (opt_list (vc_embedding v)))
      @ [bail_if (vc_backend v = Vera_Api \<and> vc_embedding v = None) ''vera.backend: api requires vera.embedding'']
      @ (if event_mode then
           [bail_if (\<not> starts_with (vc_executable v) ''/''
                \<and> (CHR ''/'' \<in> set (vc_executable v) \<or> CHR 0x5C \<in> set (vc_executable v)))
              (''vera.executable '' @ kf_debug F (vc_executable v)
                 @ '' is repository-relative; in event mode it must be a bare command name or an absolute path''),
            bail_if (case vc_home v of Some h \<Rightarrow> \<not> starts_with h ''/'' | None \<Rightarrow> False)
              ''vera.home must be an absolute path in event mode'']
         else []))"

definition check_trust :: "config_fns \<Rightarrow> bool \<Rightarrow> config \<Rightarrow> outcome" where
  "check_trust F event_mode c =
     (let gh = gc_token_env (cf_github c); ws = cf_web_search c in
      checks ([notes_check c,
          bail_if (\<not> is_env_name gh) (''github.token_env: '' @ kf_debug F gh @ '' is not a valid environment variable name'')]
        @ (if ws_enabled ws \<and> ws_api_key_env ws \<noteq> []
           then [check_credential_env F ''web_search.api_key_env'' (ws_api_key_env ws) gh] else [])
        @ map (route_trust F gh event_mode) (concat (map with_fallbacks (trust_routes (cf_models c))))
        @ (if vc_enabled (cf_vera c) then vera_checks F gh event_mode (cf_vera c) else [])))"

section \<open>The fingerprint of a review\<close>

fun guidance_str :: "guidance_mode \<Rightarrow> string" where
  "guidance_str Guidance_Off = ''off''"
| "guidance_str Guidance_Review = ''review''"
| "guidance_str Guidance_Agents = ''agents''"
| "guidance_str Guidance_Skills = ''skills''"

fun route_fingerprint :: "config_fns \<Rightarrow> model_route \<Rightarrow> json" where
  "route_fingerprint F (Model_Route protocol url key_env model max_out timeout cache temp headers session script reasoning fallback) =
     JObj ([(''extra_headers'', JArr (map JStr (sort (map fst headers)))),
         (''session_header'', opt_str session),
         (''protocol'', JStr (to_ascii_lowercase (protocol_debug protocol))),
         (''base_url'', opt_str (map_option (identity_url F) url)),
         (''model'', JStr model),
         (''max_output_tokens'', JNat (unat max_out)),
         (''timeout_secs'', JNat timeout),
         (''temperature'', JFloat temp),
         (''reasoning'', JStr (effort_str (effort_of reasoning))),
         (''reasoning_budget'', JNat (effective_budget reasoning)),
         (''script'', opt_str script)]
       @ (if fallback = [] then [] else [(''fallback'', JArr (map (route_fingerprint F) fallback))]))"

definition opt_json :: "('a \<Rightarrow> json) \<Rightarrow> 'a option \<Rightarrow> json" where
  "opt_json f v = (case v of Some x \<Rightarrow> f x | None \<Rightarrow> JNull)"

definition web_search_json :: "web_search_config \<Rightarrow> json" where
  "web_search_json w =
     JObj [(''enabled'', JBool (ws_enabled w)), (''free_first'', JBool (ws_free_first w)),
           (''allow_private'', JBool (ws_allow_private w)),
           (''max_searches_per_review'', JNat (unat (ws_max_searches_per_review w))),
           (''max_reads_per_review'', JNat (unat (ws_max_reads_per_review w)))]"

text \<open>\<open>engine\<close> and \<open>prompts\<close> are the version of the program and of its prompts.\<close>

definition review_fingerprint :: "config_fns \<Rightarrow> string \<Rightarrow> string \<Rightarrow> string \<Rightarrow> config \<Rightarrow> json" where
  "review_fingerprint F engine prompts strategy c =
     (let r = cf_review c; b = cf_budget c; d = cf_delegated c; m = cf_models c; fp = route_fingerprint F in
      JObj [(''engine'', JStr engine), (''prompts'', JStr prompts), (''strategy'', JStr strategy),
        (''max_findings'', JNat (rs_max_findings r)), (''publish_uncertain'', JBool (rs_publish_uncertain r)),
        (''min_severity'', JStr (severity_str (rs_min_severity r))),
        (''inline_min_severity'', JStr (severity_str (rs_inline_min_severity r))),
        (''validate'', JBool (rs_validate r)), (''guidance'', JStr (guidance_str (rs_guidance r))),
        (''guidance_max_bytes'', JNat (rs_guidance_max_bytes r)), (''notes'', JStr (kf_hash F (rs_notes r))),
        (''playbook'', JStr (pb_digest (cf_playbook c))), (''web_search'', web_search_json (cf_web_search c)),
        (''concurrency'', JNat (rs_concurrency r)), (''max_tool_output_bytes'', JNat (rs_max_tool_output_bytes r)),
        (''max_diff_bytes'', JNat (rs_max_diff_bytes r)),
        (''budget'', JObj [(''agent_max_tool_calls'', JNat (unat (bc_agent_max_tool_calls b))),
           (''agent_max_seconds'', JNat (bc_agent_max_seconds b)), (''run_max_requests'', JNat (unat (bc_run_max_requests b))),
           (''run_max_seconds'', JNat (bc_run_max_seconds b)), (''retries'', JNat (unat (bc_retries b)))]),
        (''delegated'', JObj [(''max_questions'', JNat (ds_max_questions d)),
           (''worker_max_tool_calls'', JNat (unat (ds_worker_max_tool_calls d))),
           (''worker_max_seconds'', JNat (ds_worker_max_seconds d))]),
        (''panel'', JObj [(''focuses'', JArr (map JStr (pn_focuses (cf_panel c)))),
           (''scout_max_tool_calls'', JNat (unat (scout_tool_calls c)))]),
        (''investigator'', fp (mo_investigator m)), (''validator'', fp (effective_validator c)),
        (''lead'', opt_json fp (mo_lead m)), (''workers'', opt_json (\<lambda>ws. JArr (map fp ws)) (mo_workers m)),
        (''scouts'', opt_json (\<lambda>ss. JArr (map (\<lambda>s. JObj [(''name'', JStr (sr_name s)), (''route'', fp (sr_route s))]) ss))
           (mo_scouts m)),
        (''vera'', JObj [(''enabled'', JBool (vc_enabled (cf_vera c))), (''index'', index_identity F (cf_vera c)),
           (''reranker'', reranker_identity F (cf_vera c))])])"

text \<open>\<open>pipeline::cache_key\<close>: the first sixteen digits of a digest.\<close>

definition cache_key :: "config_fns \<Rightarrow> string \<Rightarrow> string \<Rightarrow> config \<Rightarrow> string \<Rightarrow> string \<Rightarrow> string option \<Rightarrow> string" where
  "cache_key F engine prompts c strategy role path =
     (let fingerprint = kf_print F (review_fingerprint F engine prompts strategy c);
          material = fingerprint @ [CHR 0x00] @ role @ [CHR 0x00] @ or_default path [] in
      ''revera-'' @ take 16 (kf_hash F material))"

end
