(* ===== verification/Clients.thy ===== *)
theory Clients
  imports Config_Checks Redact Fallback Adapter_Openai Adapter_Anthropic Adapter_Gemini
begin

text \<open>
  How a route becomes a client: \<open>from_route\<close> of the adapters, \<open>HttpTransport::new\<close>, \<open>make_client\<close> of
  \<open>src/src/pipeline/mod.rs\<close>, the offline client of \<open>src/src/provider/scripted.rs\<close> and the connectivity
  probes of \<open>src/src/provider/probe.rs\<close>.

  \<open>client_env\<close> is the outside: the variables of the process, whether the HTTP stack can be set up with
  a timeout, canonical paths, and the script files, whose parser is library code.  The state that
  construction changes is the registry of secrets and the store of scripts.
\<close>

section \<open>Scripts\<close>

record script_turn =
  st_content :: "string option"
  st_calls :: "(string \<times> json) list option"
  st_expect :: "string option"

type_synonym script_file = "(string, script_turn list list) btree"

record scripted_client =
  sd_role :: string
  sd_terminal :: string
  sd_conversation :: "script_turn list"
  sd_next_id :: u32

record client_env =
  ce_vars :: "string \<Rightarrow> string option"
  ce_http :: "nat \<Rightarrow> string option"
  ce_canonical :: "string \<Rightarrow> string"
  ce_script :: "string \<Rightarrow> string + script_file"

record client_state =
  cs_registry :: registry
  cs_store :: "(string, script_file) btree"

definition pop_conversation :: "string \<Rightarrow> script_file \<Rightarrow> script_turn list \<times> script_file" where
  "pop_conversation role f =
     (case map_of f role of
        Some (conversation # rest) \<Rightarrow> (conversation, bt_modify role (\<lambda>_. rest) f)
      | _ \<Rightarrow> ([], f))"

definition scripted_new ::
  "client_env \<Rightarrow> string \<Rightarrow> string \<Rightarrow> string \<Rightarrow> client_state \<Rightarrow> (provider_error + scripted_client) \<times> client_state"
where
  "scripted_new E path role terminal s =
     (let canon = ce_canonical E path;
          loaded = (case map_of (cs_store s) canon of Some f \<Rightarrow> Inr f | None \<Rightarrow> ce_script E path) in
      case loaded of
        Inl e \<Rightarrow> (Inl (Other e), s)
      | Inr f \<Rightarrow>
          (case pop_conversation role f of
             (conversation, f') \<Rightarrow>
               (Inr \<lparr>sd_role = role, sd_terminal = terminal, sd_conversation = conversation, sd_next_id = 0\<rparr>,
                s\<lparr>cs_store := bt_insert (canon, f') (cs_store s)\<rparr>)))"

definition scripted_label :: "scripted_client \<Rightarrow> string" where
  "scripted_label c = ''scripted:'' @ sd_role c"

definition scripted_entry :: "scripted_client \<Rightarrow> ledger_entry" where
  "scripted_entry c =
     \<lparr>le_role = sd_role c, le_route = scripted_label c, le_model = ''scripted'', le_requested_reasoning = ''none'',
      le_effective_reasoning = ''none'', le_prompt_tokens = 0, le_completion_tokens = 0, le_cached_prompt_tokens = 0,
      le_cache_write_tokens = 0, le_latency_ms = 0, le_retries = 0, le_error = None, le_reasoning_tokens = 0\<rparr>"

definition last_tool_text :: "chat_message list \<Rightarrow> string" where
  "last_tool_text messages =
     (case List.find (\<lambda>m. cm_role m = Tool) (rev messages) of
        Some m \<Rightarrow> text_or_empty (cm_content m) | None \<Rightarrow> [])"

fun script_calls :: "string \<Rightarrow> u32 \<Rightarrow> (string \<times> json) list \<Rightarrow> tool_call list" where
  "script_calls role n [] = []"
| "script_calls role n ((name, args) # cs) =
     \<lparr>tc_id = ''script-'' @ role @ ''-'' @ u32_str n, tc_name = name, tc_arguments = args\<rparr> # script_calls role (n + 1) cs"

definition unmet :: "(string \<Rightarrow> string) \<Rightarrow> scripted_client \<Rightarrow> script_turn \<Rightarrow> chat_message list \<Rightarrow> string option" where
  "unmet dbg c t messages =
     (case st_expect t of
        None \<Rightarrow> None
      | Some needle \<Rightarrow>
          (let last_tool = last_tool_text messages in
           if str_contains last_tool needle then None
           else Some (''role '' @ sd_role c @ '': expected tool result to contain '' @ dbg needle @ '', got: ''
                        @ truncate_bytes last_tool 300)))"

definition terminal_message :: "scripted_client \<Rightarrow> chat_message" where
  "terminal_message c =
     assistant None [\<lparr>tc_id = ''script-exhausted'', tc_name = sd_terminal c, tc_arguments = JObj []\<rparr>] None"

definition scripted_completion :: "chat_message \<Rightarrow> completion" where
  "scripted_completion m = \<lparr>co_message = m, co_usage = no_usage, co_model = ''scripted'', co_latency_ms = 0\<rparr>"

definition scripted_complete ::
  "(string \<Rightarrow> string) \<Rightarrow> chat_message list \<Rightarrow> scripted_client \<Rightarrow> run_ledger \<Rightarrow>
   (provider_error + completion) \<times> scripted_client \<times> run_ledger"
where
  "scripted_complete dbg messages c g =
     (case sd_conversation c of
        [] \<Rightarrow> (Inr (scripted_completion (terminal_message c)), c, record_entry (scripted_entry c) g)
      | t # rest \<Rightarrow>
          (let c1 = c\<lparr>sd_conversation := rest\<rparr> in
           case unmet dbg c t messages of
             Some e \<Rightarrow> (Inl (ScriptExpectationFailed e), c1, g)
           | None \<Rightarrow>
               (let calls = script_calls (sd_role c) (sd_next_id c) (case st_calls t of Some cs \<Rightarrow> cs | None \<Rightarrow> []);
                    c2 = c1\<lparr>sd_next_id := sd_next_id c + of_nat (length calls)\<rparr> in
                (Inr (scripted_completion (assistant (st_content t) calls None)), c2,
                 record_entry (scripted_entry c) g))))"

section \<open>Clients over HTTP\<close>

record http_client =
  hc_route :: model_route
  hc_api_key :: string
  hc_cache_key :: "string option"
  hc_transport :: http_transport

datatype single_client = Http_Client http_client | Scripted_Client scripted_client

record client_request =
  cq_role :: string
  cq_cache_key :: "string option"
  cq_max_requests :: u32
  cq_retries :: u32
  cq_terminal :: string

definition new_transport ::
  "client_env \<Rightarrow> u32 \<Rightarrow> u32 \<Rightarrow> string \<Rightarrow> nat \<Rightarrow> provider_error + http_transport"
where
  "new_transport E max_requests retries role timeout =
     (case ce_http E timeout of
        Some e \<Rightarrow> Inl (Other e)
      | None \<Rightarrow> Inr \<lparr>ht_max_requests = max_requests, ht_retries = retries, ht_role = role\<rparr>)"

text \<open>\<open>from_route\<close>: the credential of the route's variable, registered for redaction.\<close>

definition from_route :: "client_env \<Rightarrow> model_route \<Rightarrow> registry \<Rightarrow> (provider_error + string) \<times> registry" where
  "from_route E r reg =
     (let name = text_or_empty (mr_api_key_env r) in
      case secret_env (ce_vars E) name reg of
        (Some key, reg1) \<Rightarrow> (Inr key, register key reg1)
      | (None, reg1) \<Rightarrow> (Inl (MissingKey name), reg1))"

text \<open>Only the two protocols of OpenAI take a cache key.\<close>

definition takes_cache_key :: "protocol \<Rightarrow> bool" where
  "takes_cache_key p = (p = OpenaiChat \<or> p = OpenaiResponses)"

definition new_http_client ::
  "client_env \<Rightarrow> client_request \<Rightarrow> model_route \<Rightarrow> client_state \<Rightarrow> (provider_error + http_client) \<times> client_state"
where
  "new_http_client E q r s =
     (case from_route E r (cs_registry s) of
        (Inl e, reg) \<Rightarrow> (Inl e, s\<lparr>cs_registry := reg\<rparr>)
      | (Inr key, reg) \<Rightarrow>
          ((case new_transport E (cq_max_requests q) (cq_retries q) (cq_role q) (mr_timeout_secs r) of
              Inl e \<Rightarrow> Inl e
            | Inr t \<Rightarrow>
                Inr \<lparr>hc_route = r, hc_api_key = key,
                     hc_cache_key = (if takes_cache_key (mr_protocol r) then cq_cache_key q else None),
                     hc_transport = t\<rparr>),
           s\<lparr>cs_registry := reg\<rparr>))"

definition make_single_client ::
  "client_env \<Rightarrow> client_request \<Rightarrow> model_route \<Rightarrow> client_state \<Rightarrow> (provider_error + single_client) \<times> client_state"
where
  "make_single_client E q r s =
     (if is_http (mr_protocol r)
      then (case new_http_client E q r s of
              (Inl e, s1) \<Rightarrow> (Inl e, s1) | (Inr c, s1) \<Rightarrow> (Inr (Http_Client c), s1))
      else (case mr_script r of
              None \<Rightarrow> (Inl (Other (''role '' @ cq_role q @ '': scripted route needs script path'')), s)
            | Some p \<Rightarrow>
                (case scripted_new E p (cq_role q) (cq_terminal q) s of
                   (Inl e, s1) \<Rightarrow> (Inl e, s1) | (Inr c, s1) \<Rightarrow> (Inr (Scripted_Client c), s1))))"

text \<open>The routes of a chain; a missing credential leaves a gap, any other error ends the construction.\<close>

fun make_routes ::
  "client_env \<Rightarrow> client_request \<Rightarrow> model_route list \<Rightarrow> client_state \<Rightarrow>
   (provider_error + (string \<times> single_client option) list) \<times> client_state"
where
  "make_routes E q [] s = (Inr [], s)"
| "make_routes E q (r # rs) s =
     (case make_single_client E q r s of
        (Inl e, s1) \<Rightarrow>
          (case e of
             MissingKey _ \<Rightarrow>
               (case make_routes E q rs s1 of
                  (Inl e', s2) \<Rightarrow> (Inl e', s2) | (Inr cs, s2) \<Rightarrow> (Inr ((mr_model r, None) # cs), s2))
           | _ \<Rightarrow> (Inl e, s1))
      | (Inr c, s1) \<Rightarrow>
          (case make_routes E q rs s1 of
             (Inl e', s2) \<Rightarrow> (Inl e', s2) | (Inr cs, s2) \<Rightarrow> (Inr ((mr_model r, Some c) # cs), s2)))"

datatype client = Single single_client | Chain fallback_client

text \<open>\<open>connect\<close> gives the behaviour of a client: what a request of it returns.\<close>

definition make_client ::
  "client_env \<Rightarrow> (string \<Rightarrow> string) \<Rightarrow> (single_client \<Rightarrow> model_client) \<Rightarrow> client_request \<Rightarrow> model_route \<Rightarrow>
   client_state \<Rightarrow> run_ledger \<Rightarrow> (provider_error + client) \<times> client_state \<times> run_ledger"
where
  "make_client E red connect q r s g =
     (if mr_fallback r = []
      then (case make_single_client E q r s of
              (Inl e, s1) \<Rightarrow> (Inl e, s1, g) | (Inr c, s1) \<Rightarrow> (Inr (Single c), s1, g))
      else (case make_routes E q (routes r) s of
              (Inl e, s1) \<Rightarrow> (Inl e, s1, g)
            | (Inr cs, s1) \<Rightarrow>
                (case new_client red (map (\<lambda>(m, c). (m, map_option connect c)) cs) (cq_role q) (cq_max_requests q) g of
                   (fc, g1) \<Rightarrow> (Inr (Chain fc), s1, g1))))"

definition client_label :: "wire_fns \<Rightarrow> single_client \<Rightarrow> string" where
  "client_label W c =
     (case c of
        Scripted_Client s \<Rightarrow> scripted_label s
      | Http_Client h \<Rightarrow>
          (let r = hc_route h in
           case mr_protocol r of
             OpenaiChat \<Rightarrow> ad_label (chat_adapter W r (hc_cache_key h))
           | OpenaiResponses \<Rightarrow> ad_label (resp_adapter W r (hc_cache_key h))
           | Anthropic \<Rightarrow> anth_label W r
           | Gemini \<Rightarrow> ad_label (gemini_adapter W r)
           | Scripted \<Rightarrow> []))"

section \<open>Connectivity probes\<close>

definition probe_transport :: "client_env \<Rightarrow> string \<Rightarrow> u32 \<Rightarrow> u32 \<Rightarrow> nat \<Rightarrow> provider_error + http_transport" where
  "probe_transport E role requests retries timeout = new_transport E requests retries role timeout"

text \<open>\<open>ask\<close>: what a request of the client returns.\<close>

definition probe_model ::
  "client_env \<Rightarrow> (http_client \<Rightarrow> chat_message list \<Rightarrow> provider_error + completion) \<Rightarrow> model_route \<Rightarrow> string \<Rightarrow>
   provider_error + unit"
where
  "probe_model E ask r key =
     (case probe_transport E ''connectivity'' 3 1 (mr_timeout_secs r) of
        Inl e \<Rightarrow> Inl e
      | Inr t \<Rightarrow>
          (if \<not> is_http (mr_protocol r) then Inl (Other ''connectivity tests require an HTTP protocol'')
           else (case ask \<lparr>hc_route = r, hc_api_key = key, hc_cache_key = None, hc_transport = t\<rparr>
                        [user_message ''Reply with OK.''] of
                   Inl e \<Rightarrow> Inl e | Inr _ \<Rightarrow> Inr ())))"

definition embedding_request :: "vera_endpoint \<Rightarrow> string \<Rightarrow> http_request" where
  "embedding_request e key =
     \<lparr>hr_url = trim_slashes (ve_base_url e) @ ''/embeddings'', hr_headers = [(''Authorization'', ''Bearer '' @ key)],
      hr_body = JObj [(''model'', JStr (ve_model e)), (''input'', JArr [JStr ''connectivity test''])]\<rparr>"

definition embedding_parse :: "wire_fns \<Rightarrow> nat \<Rightarrow> string \<Rightarrow> attempt_state \<Rightarrow> parse_result \<times> attempt_state" where
  "embedding_parse W status body a =
     ((if 200 \<le> status \<and> status < 300
          \<and> (case wf_parse W body of
               Inr v \<Rightarrow> (case as_array (jidx (jat (jidx v ''data'') 0) ''embedding'') of Some xs \<Rightarrow> xs \<noteq> [] | None \<Rightarrow> False)
             | Inl _ \<Rightarrow> False)
       then ParseOk (user_message ''ok'') no_usage
       else ParseErr (Http (''embedding probe: HTTP '' @ nat_str status))), a)"

definition embedding_adapter :: "wire_fns \<Rightarrow> vera_endpoint \<Rightarrow> adapter" where
  "embedding_adapter W e =
     \<lparr>ad_label = ''embedding-connectivity'', ad_model = ve_model e, ad_requested_reasoning = ''none'',
      ad_effective_reasoning = (\<lambda>_. ''none''), ad_build = (\<lambda>_ _ a. (None, a)), ad_parse = embedding_parse W\<rparr>"

definition models_base :: "model_route \<Rightarrow> string" where
  "models_base r =
     trim_slashes
       (case mr_base_url r of
          Some u \<Rightarrow> u
        | None \<Rightarrow>
            (case mr_protocol r of
               Anthropic \<Rightarrow> ''https://api.anthropic.com''
             | Gemini \<Rightarrow> ''https://generativelanguage.googleapis.com''
             | _ \<Rightarrow> []))"

definition models_request :: "wire_fns \<Rightarrow> model_route \<Rightarrow> string \<Rightarrow> (string \<times> (string \<times> string) list) option" where
  "models_request W r key =
     (let base = models_base r;
          extra = (if mr_protocol r = Anthropic then [(''anthropic-version'', ''2023-06-01'')] else [])
                    @ route_headers (wf_session W) r in
      case mr_protocol r of
        OpenaiChat \<Rightarrow> Some (base @ ''/models'', (''Authorization'', ''Bearer '' @ key) # extra)
      | OpenaiResponses \<Rightarrow> Some (base @ ''/models'', (''Authorization'', ''Bearer '' @ key) # extra)
      | Anthropic \<Rightarrow> Some (trim_v1 base @ ''/v1/models'', (''x-api-key'', key) # extra)
      | Gemini \<Rightarrow> Some (base @ ''/v1beta/models'', (''x-goog-api-key'', key) # extra)
      | Scripted \<Rightarrow> None)"

definition model_names :: "json \<Rightarrow> string list" where
  "model_names v =
     (let items = (case as_array (jidx v ''data'') of
                     Some a \<Rightarrow> a
                   | None \<Rightarrow> (case as_array (jidx v ''models'') of Some a \<Rightarrow> a | None \<Rightarrow> [])) in
      List.map_filter (\<lambda>i. case as_str (jidx i ''id'') of Some s \<Rightarrow> Some s | None \<Rightarrow> as_str (jidx i ''name'')) items)"

text \<open>\<open>get\<close>: the answer to a request, a status (and its display) with the body as JSON or the
  reader's error, or the error of the connection.\<close>

definition probe_models ::
  "client_env \<Rightarrow> wire_fns \<Rightarrow> (string \<Rightarrow> string) \<Rightarrow> (nat \<Rightarrow> string)
   \<Rightarrow> (string \<Rightarrow> (string \<times> string) list \<Rightarrow> string + (nat \<times> (string + json))) \<Rightarrow> model_route \<Rightarrow> string
   \<Rightarrow> provider_error + string list"
where
  "probe_models E W diag show_status get r key =
     (case probe_transport E ''model-list'' 1 0 (mr_timeout_secs r) of
        Inl e \<Rightarrow> Inl e
      | Inr _ \<Rightarrow>
          (case models_request W r key of
             None \<Rightarrow> Inr []
           | Some (url, headers) \<Rightarrow>
               (case get url headers of
                  Inl e \<Rightarrow> Inl (Http (diag e))
                | Inr (status, body) \<Rightarrow>
                    if \<not> (200 \<le> status \<and> status < 300) then Inl (Http (''model list: HTTP '' @ show_status status))
                    else (case body of Inl e \<Rightarrow> Inl (Http e) | Inr v \<Rightarrow> Inr (model_names v)))))"

end
