(* ===== verification/Config_Props.thy ===== *)
theory Config_Props
  imports Clients
begin

text \<open>
  What the checks of the configuration give: credentials go to trusted endpoints only, a checked
  configuration has a client for every role, and the identity of a review holds no credential.
\<close>

section \<open>Trust\<close>

text \<open>The endpoint is reached over TLS, or on this machine, or outside of event mode.\<close>

definition trusted_endpoint :: "config_fns \<Rightarrow> bool \<Rightarrow> string \<Rightarrow> bool" where
  "trusted_endpoint F event_mode u =
     (case kf_url F u of
        None \<Rightarrow> False
      | Some p \<Rightarrow> up_username p = [] \<and> up_password p = None
          \<and> (up_scheme p = ''https'' \<or> (up_scheme p = ''http'' \<and> (loopback p \<or> \<not> event_mode))))"

lemma check_endpoint_url_ok: "check_endpoint_url F what u strict = Inr () \<longleftrightarrow> trusted_endpoint F strict u"
  by (auto simp: check_endpoint_url_def trusted_endpoint_def split: option.splits)

lemma check_credential_env_ok:
  "check_credential_env F what name gh = Inr () \<longleftrightarrow>
     is_env_name name \<and> name \<notin> {gh, ''GITHUB_TOKEN'', ''ACTIONS_RUNTIME_TOKEN''}"
  by (auto simp: check_credential_env_def)

lemma route_in_with_fallbacks:
  "r \<in> set (routes (snd nr)) \<Longrightarrow> \<exists>name. (name, r) \<in> set (with_fallbacks nr)"
proof -
  assume "r \<in> set (routes (snd nr))"
  then obtain i where "i < length (routes (snd nr))" "routes (snd nr) ! i = r" by (auto simp: in_set_conv_nth)
  then have "(i, r) \<in> set (enum (routes (snd nr)))" by (simp add: in_set_enum)
  then show ?thesis unfolding with_fallbacks_def by force
qed


section \<open>A checked configuration has clients\<close>

lemma own_shape_http: "own_shape F name r = Inr () \<Longrightarrow> is_http (mr_protocol r) \<Longrightarrow> mr_api_key_env r \<noteq> None"
  by (cases "mr_api_key_env r") (auto simp: own_shape_def Let_def is_http_def or_default_def)

lemma own_shape_script: "own_shape F name r = Inr () \<Longrightarrow> \<not> is_http (mr_protocol r) \<Longrightarrow> mr_script r \<noteq> None"
  by (auto simp: own_shape_def Let_def is_http_def)

lemma shape_routes_own:
  assumes "check_route_shape F name r = Inr ()" and "f \<in> set (routes r)"
  shows "\<exists>n. own_shape F n f = Inr ()"
proof (cases "f = r")
  case True
  then show ?thesis using assms(1) by (subst (asm) check_route_shape.simps) auto
next
  case False
  then have "f \<in> set (mr_fallback r)" using assms(2) by (simp add: routes_def)
  then obtain i where "i < length (mr_fallback r)" "mr_fallback r ! i = f" by (auto simp: in_set_conv_nth)
  then have "(i, f) \<in> set (enum (mr_fallback r))" by (simp add: in_set_enum)
  then have "check_route_shape F (fallback_name name i) f = Inr ()"
    using assms(1) by (subst (asm) check_route_shape.simps) auto
  then show ?thesis by (subst (asm) check_route_shape.simps) auto
qed

text \<open>The outside lets clients be set up: the HTTP stack works and scripts can be read.\<close>

definition outside_ok :: "client_env \<Rightarrow> bool" where
  "outside_ok E = ((\<forall>t. ce_http E t = None) \<and> (\<forall>p. \<exists>f. ce_script E p = Inr f))"

lemma secret_env_set: "fst (secret_env vars name reg) \<noteq> None \<longleftrightarrow> env_is_set vars name"
  by (simp add: secret_env_def env_is_set_def split: option.splits)

lemma scripted_new_ok: "outside_ok E \<Longrightarrow> \<exists>c s1. scripted_new E p role terminal s = (Inr c, s1)"
proof -
  assume "outside_ok E"
  then obtain f where "ce_script E p = Inr f" unfolding outside_ok_def by blast
  then show ?thesis
    by (cases "map_of (cs_store s) (ce_canonical E p)") (auto simp: scripted_new_def Let_def split: prod.splits)
qed

lemma make_single_client_outcome:
  assumes "outside_ok E" and "own_shape F n r = Inr ()"
  shows "if credentials_available (env_is_set (ce_vars E)) r
         then \<exists>c s1. make_single_client E q r s = (Inr c, s1)
         else \<exists>m s1. make_single_client E q r s = (Inl (MissingKey m), s1)"
proof (cases "is_http (mr_protocol r)")
  case False
  then obtain p where "mr_script r = Some p" using own_shape_script[OF assms(2)] by blast
  with False scripted_new_ok[OF assms(1), of p "cq_role q" "cq_terminal q" s] show ?thesis
    by (auto simp: credentials_available_def make_single_client_def)
next
  case True
  then obtain e where e: "mr_api_key_env r = Some e" using own_shape_http[OF assms(2)] by blast
  obtain v reg where v: "secret_env (ce_vars E) e (cs_registry s) = (v, reg)" by fastforce
  have t: "\<exists>ht. new_transport E a b c d = Inr ht" for a b c d
    using assms(1) by (simp add: outside_ok_def new_transport_def)
  from t obtain ht where ht: "new_transport E (cq_max_requests q) (cq_retries q) (cq_role q) (mr_timeout_secs r) = Inr ht"
    by blast
  have "v \<noteq> None \<longleftrightarrow> env_is_set (ce_vars E) e"
    using secret_env_set[of "ce_vars E" e "cs_registry s"] v by simp
  with True e v ht show ?thesis
    by (cases v) (auto simp: credentials_available_def make_single_client_def new_http_client_def from_route_def
        text_or_empty_def)
qed

lemma make_routes_outcome:
  assumes "outside_ok E" and "\<forall>r\<in>set rs. \<exists>n. own_shape F n r = Inr ()"
  shows "\<exists>cs s1. make_routes E q rs s = (Inr cs, s1)
     \<and> list_all2 (\<lambda>r x. snd x \<noteq> None \<longleftrightarrow> credentials_available (env_is_set (ce_vars E)) r) rs cs"
  using assms(2)
proof (induction rs arbitrary: s)
  case (Cons r rs)
  obtain n where n: "own_shape F n r = Inr ()" using Cons.prems by auto
  note one = make_single_client_outcome[OF assms(1) n, of q s]
  show ?case
  proof (cases "credentials_available (env_is_set (ce_vars E)) r")
    case True
    then obtain c s1 where c: "make_single_client E q r s = (Inr c, s1)" using one by auto
    with Cons.IH[of s1] Cons.prems True show ?thesis by (auto simp: list_all2_Cons1)
  next
    case False
    then obtain m s1 where c: "make_single_client E q r s = (Inl (MissingKey m), s1)" using one by auto
    with Cons.IH[of s1] Cons.prems False show ?thesis by (auto simp: list_all2_Cons1)
  qed
qed simp

text \<open>The routes whose credentials a run with a strategy needs.\<close>

definition needed_routes :: "strategy \<Rightarrow> config \<Rightarrow> (string \<times> model_route) list" where
  "needed_routes strategy c =
     [(''investigator'', mo_investigator (cf_models c))]
       @ (if rs_validate (cf_review c) then [(''validator'', effective_validator c)] else [])
       @ strategy_routes strategy (cf_models c)"

lemma needed_in_shape:
  assumes "(name, r) \<in> set (needed_routes strategy c)"
  shows "\<exists>n. (n, r) \<in> set (shape_routes (cf_models c))"
  using assms
  by (cases strategy) (auto simp: needed_routes_def shape_routes_def strategy_routes_def effective_validator_def
      or_default_def opt_list_def Let_def split: if_splits option.splits)

definition has_route :: "client \<Rightarrow> bool" where
  "has_route c = (case c of Single _ \<Rightarrow> True | Chain fc \<Rightarrow> \<exists>x\<in>set (fc_routes fc). snd x \<noteq> None)"

lemma new_client_routes: "fc_routes (fst (new_client red rs role limit g)) = rs"
  by (simp add: new_client_def Let_def)

lemma make_client_available:
  assumes ok: "outside_ok E" and shape: "check_route_shape F name r = Inr ()"
    and av: "list_ex (credentials_available (env_is_set (ce_vars E))) (routes r)"
  shows "\<exists>cl s1 g1. make_client E red connect q r s g = (Inr cl, s1, g1) \<and> has_route cl"
proof (cases "mr_fallback r = []")
  case True
  then have "credentials_available (env_is_set (ce_vars E)) r" using av by (simp add: routes_def)
  moreover obtain n where "own_shape F n r = Inr ()" using shape_routes_own[OF shape, of r] by (auto simp: routes_def)
  ultimately show ?thesis using True make_single_client_outcome[OF ok, of F n r q s]
    by (auto simp: make_client_def has_route_def)
next
  case False
  have "\<forall>f\<in>set (routes r). \<exists>n. own_shape F n f = Inr ()" using shape_routes_own[OF shape] by blast
  from make_routes_outcome[OF ok this, of q s] obtain cs s1 where cs: "make_routes E q (routes r) s = (Inr cs, s1)"
    "list_all2 (\<lambda>r x. snd x \<noteq> None \<longleftrightarrow> credentials_available (env_is_set (ce_vars E)) r) (routes r) cs" by blast
  from av obtain f where f: "f \<in> set (routes r)" "credentials_available (env_is_set (ce_vars E)) f"
    by (auto simp: list_ex_iff)
  from f(1) obtain i where i: "i < length (routes r)" "routes r ! i = f" by (auto simp: in_set_conv_nth)
  then have x: "cs ! i \<in> set cs" "snd (cs ! i) \<noteq> None"
    using cs(2) f(2) by (auto simp: list_all2_conv_all_nth)
  let ?cs = "map (\<lambda>(m, c). (m, map_option connect c)) cs"
  obtain fc g1 where fc: "new_client red ?cs (cq_role q) (cq_max_requests q) g = (fc, g1)" by fastforce
  then have routes: "fc_routes fc = ?cs" using new_client_routes[of red ?cs "cq_role q" "cq_max_requests q" g] by simp
  have y: "(fst (cs ! i), map_option connect (snd (cs ! i))) \<in> set ?cs" using x(1) by force
  have "\<exists>y\<in>set ?cs. snd y \<noteq> None" by (rule bexI[OF _ y]) (use x(2) in simp)
  then have "has_route (Chain fc)" unfolding has_route_def client.case routes .
  then show ?thesis using False cs(1) fc by (simp add: make_client_def)
qed

text \<open>A configuration that was loaded and whose credentials were checked for a strategy has, for every
  role that the strategy uses, a client with at least one route that can be asked.\<close>

theorem validated_config_has_clients:
  assumes "expand_and_validate F env c0 = Inr c"
    and "validate_for_with_env c strategy (env_is_set (ce_vars E)) = Inr ()"
    and "outside_ok E" and "(name, r) \<in> set (needed_routes strategy c)"
  shows "\<exists>cl s1 g1. make_client E red connect q r s g = (Inr cl, s1, g1) \<and> has_route cl"
proof -
  obtain n where "(n, r) \<in> set (shape_routes (cf_models c))" using needed_in_shape[OF assms(4)] by blast
  then have shape: "check_route_shape F n r = Inr ()"
    using assms(1) by (auto simp: expand_and_validate_def and_then_Inr)
  have cred: "check_route_credentials name (env_is_set (ce_vars E)) r = Inr ()"
    using assms(2,4) by (auto simp: validate_for_with_env_def needed_routes_def)
  have "list_ex (credentials_available (env_is_set (ce_vars E))) (routes r)"
  proof (rule ccontr)
    assume no: "\<not> ?thesis"
    then have nr: "\<not> credentials_available (env_is_set (ce_vars E)) r" by (simp add: routes_def)
    then have h: "is_http (mr_protocol r)" by (simp add: credentials_available_def)
    obtain n' where o': "own_shape F n' r = Inr ()" using shape_routes_own[OF shape, of r] by (auto simp: routes_def)
    obtain e where e: "mr_api_key_env r = Some e" using own_shape_http[OF o' h] by blast
    have "e \<noteq> []" using o' h e by (auto simp: own_shape_def Let_def is_http_def or_default_def)
    then show False using cred no nr h e
      by (auto simp: check_route_credentials_def Let_def or_default_def credentials_available_def)
  qed
  then show ?thesis by (rule make_client_available[OF assms(3) shape])
qed

section \<open>No credential in an identity\<close>

fun strip_route :: "model_route \<Rightarrow> model_route" where
  "strip_route (Model_Route protocol url key_env model max_out timeout cache temp headers session script reasoning fallback) =
     Model_Route protocol url None model max_out timeout False temp (map (\<lambda>(k, v). (k, [])) headers) session script
       reasoning (map strip_route fallback)"

definition strip_endpoint :: "vera_endpoint \<Rightarrow> vera_endpoint" where
  "strip_endpoint e = e\<lparr>ve_api_key_env := []\<rparr>"

text \<open>A configuration without the names of credential variables, the values of headers and the switch of
  the cache hints.\<close>

definition without_credentials :: "config \<Rightarrow> config" where
  "without_credentials c =
     (let m = cf_models c in
      c\<lparr>cf_models :=
          \<lparr>mo_investigator = strip_route (mo_investigator m), mo_validator = map_option strip_route (mo_validator m),
           mo_fixer = map_option strip_route (mo_fixer m), mo_fix_verifier = map_option strip_route (mo_fix_verifier m),
           mo_lead = map_option strip_route (mo_lead m), mo_workers = map_option (map strip_route) (mo_workers m),
           mo_scouts = map_option (map (\<lambda>s. s\<lparr>sr_route := strip_route (sr_route s)\<rparr>)) (mo_scouts m)\<rparr>,
        cf_vera := (cf_vera c)\<lparr>vc_embedding := map_option strip_endpoint (vc_embedding (cf_vera c)),
                               vc_reranker := map_option strip_endpoint (vc_reranker (cf_vera c))\<rparr>,
        cf_web_search := (cf_web_search c)\<lparr>ws_api_key_env := []\<rparr>,
        cf_github := (cf_github c)\<lparr>gc_token_env := []\<rparr>\<rparr>)"

lemma route_fingerprint_strip [simp]: "route_fingerprint F (strip_route r) = route_fingerprint F r"
proof (induction r rule: strip_route.induct)
  case (1 protocol url key_env model max_out timeout cache temp headers session script reasoning fallback)
  have h: "map fst (map (\<lambda>(k, v). (k, [])) headers) = map fst headers" by (induction headers) auto
  have f: "map (route_fingerprint F) (map strip_route fallback) = map (route_fingerprint F) fallback"
    using 1 by simp
  show ?case unfolding strip_route.simps route_fingerprint.simps h f by simp
qed

lemma index_identity_strip [simp]:
  "index_identity F (v\<lparr>vc_embedding := map_option strip_endpoint (vc_embedding v), vc_reranker := z\<rparr>) = index_identity F v"
  by (cases "vc_embedding v"; cases "vc_backend v") (simp_all add: index_identity_def effective_excludes_def strip_endpoint_def)

lemma reranker_identity_strip [simp]:
  "reranker_identity F (v\<lparr>vc_embedding := z, vc_reranker := map_option strip_endpoint (vc_reranker v)\<rparr>) = reranker_identity F v"
  by (cases "vc_reranker v") (simp_all add: reranker_identity_def strip_endpoint_def)

text \<open>C33: neither the names of credential variables nor the values of headers enter the fingerprint of a
  review, the cache key sent to a provider or the key of the index.\<close>

theorem fingerprint_holds_no_credential:
  "review_fingerprint F engine prompts strategy (without_credentials c) = review_fingerprint F engine prompts strategy c
   \<and> cache_key F engine prompts (without_credentials c) strategy role path = cache_key F engine prompts c strategy role path
   \<and> index_key F (cf_vera (without_credentials c)) = index_key F (cf_vera c)"
proof -
  have v: "route_fingerprint F (effective_validator (without_credentials c)) = route_fingerprint F (effective_validator c)"
    by (simp add: effective_validator_def without_credentials_def Let_def or_default_def split: option.splits)
  have s: "scout_tool_calls (without_credentials c) = scout_tool_calls c"
    by (simp add: scout_tool_calls_def without_credentials_def Let_def)
  have w: "web_search_json (cf_web_search (without_credentials c)) = web_search_json (cf_web_search c)"
    by (simp add: without_credentials_def web_search_json_def Let_def)
  have fp: "review_fingerprint F engine prompts strategy (without_credentials c)
      = review_fingerprint F engine prompts strategy c"
    unfolding review_fingerprint_def Let_def v s w
    by (simp add: without_credentials_def Let_def opt_json_def comp_def split: option.splits)
  moreover have "index_key F (cf_vera (without_credentials c)) = index_key F (cf_vera c)"
    by (simp add: index_key_def without_credentials_def Let_def)
  ultimately show ?thesis by (simp add: cache_key_def)
qed

section \<open>Sensitive paths and profiles\<close>

lemma fold_excludes:
  "distinct out \<Longrightarrow>
     distinct (fold (\<lambda>g out. let t = trim g in if t \<noteq> [] \<and> t \<notin> set out then out @ [t] else out) gs out)
     \<and> set (fold (\<lambda>g out. let t = trim g in if t \<noteq> [] \<and> t \<notin> set out then out @ [t] else out) gs out)
         = set out \<union> (trim ` set gs - {[]})"
  by (induction gs arbitrary: out) (auto simp: Let_def)

lemma trim_sensitive: "g \<in> set SENSITIVE_GLOBS \<Longrightarrow> trim g = g \<and> g \<noteq> []"
  by (auto simp: SENSITIVE_GLOBS_def ascii_graphic_def intro!: trim_word)

text \<open>Whatever the configuration excludes, the index leaves out every sensitive path, and no pattern
  is listed twice.\<close>

theorem sensitive_paths_excluded:
  "set SENSITIVE_GLOBS \<subseteq> set (effective_excludes v) \<and> distinct (effective_excludes v)"
proof -
  have "trim ` set SENSITIVE_GLOBS = set SENSITIVE_GLOBS" using trim_sensitive by force
  then show ?thesis
    using fold_excludes[of "[]" "vc_exclude v @ SENSITIVE_GLOBS"] trim_sensitive
    by (auto simp: effective_excludes_def image_Un)
qed

section \<open>An example\<close>

definition example_url :: url_parts where
  "example_url =
     \<lparr>up_scheme = ''https'', up_username = [], up_password = None, up_host = Some (Domain ''h''),
      up_host_str = Some ''h'', up_query_names = [], up_plain = ''https://h''\<rparr>"

definition example_fns :: config_fns where
  "example_fns =
     \<lparr>kf_url = (\<lambda>_. Some example_url), kf_debug = (\<lambda>s. s), kf_header_name = (\<lambda>_. True), kf_lowercase = (\<lambda>s. s),
      kf_print = (\<lambda>_. []), kf_hash = (\<lambda>s. s)\<rparr>"

definition example_backup :: model_route where
  "example_backup = Model_Route Scripted None None ''m2'' 100 60 False ''0'' [] None (Some ''s'') (Effort ENone) []"

definition example_route :: model_route where
  "example_route =
     Model_Route OpenaiChat (Some ''https://h'') (Some ''K'') ''m'' 100 60 True ''0'' [] None None (Effort EHigh) [example_backup]"

definition example_config :: config where
  "example_config =
     \<lparr>cf_playbook = \<lparr>pb_reviewer = [], pb_skills = [], pb_digest = []\<rparr>, cf_builtin_deep = False,
      cf_review = review_default, cf_budget = budget_default,
      cf_models = \<lparr>mo_investigator = example_route, mo_validator = None, mo_fixer = None, mo_fix_verifier = None,
                   mo_lead = None, mo_workers = None, mo_scouts = None\<rparr>,
      cf_vera = vera_default, cf_web_search = web_search_default, cf_github = github_default,
      cf_delegated = delegated_default, cf_panel = panel_default, cf_profiles = []\<rparr>"

definition example_env :: client_env where
  "example_env =
     \<lparr>ce_vars = (\<lambda>n. if n = ''K'' then Some ''x'' else None), ce_http = (\<lambda>_. None), ce_canonical = (\<lambda>p. p),
      ce_script = (\<lambda>_. Inr [])\<rparr>"

definition example_request :: client_request where
  "example_request =
     \<lparr>cq_role = ''r'', cq_cache_key = None, cq_max_requests = 5, cq_retries = 1, cq_terminal = ''submit''\<rparr>"

definition example_state :: client_state where
  "example_state = \<lparr>cs_registry = empty_registry, cs_store = []\<rparr>"

lemma expand_scan_plain: "CHR ''$'' \<notin> set s \<Longrightarrow> expand_scan env s = (s, None)"
proof (induction s)
  case Nil
  show ?case by (subst expand_scan.simps) simp
next
  case (Cons c s)
  have "env_ref (c # s) = None"
  proof (cases "strip_prefix (c # s) ''${''")
    case (Some t)
    then show ?thesis using Cons.prems by (simp add: strip_prefix_Some)
  qed (simp add: env_ref_def)
  then show ?case using Cons by (subst expand_scan.simps) simp
qed

lemmas example_defs = example_fns_def example_config_def example_route_def example_backup_def example_url_def
  review_default_def budget_default_def vera_default_def web_search_default_def github_default_def
  delegated_default_def panel_default_def default_focuses_def

lemma example_names: "is_env_name ''K''" "is_env_name ''GITHUB_TOKEN''"
  by (simp_all add: is_env_name_def name_start_def name_char_def is_ascii_alphanumeric_def is_ascii_digit_def Let_def)

lemma example_trusted: "check_trust example_fns True example_config = Inr ()"
proof -
  have r: "concat (map with_fallbacks (trust_routes (cf_models example_config)))
      = [(''models.investigator'', example_route), (fallback_name ''models.investigator'' 0, example_backup)]"
    by (simp add: trust_routes_def with_fallbacks_def routes_def enum_def example_defs opt_list_def named_workers_def
        named_scouts_def or_default_def Let_def upt_rec)
  have "route_trust example_fns ''GITHUB_TOKEN'' True (n, example_route) = Inr ()" for n
    using example_names by (simp add: route_trust_def example_route_def check_endpoint_url_ok check_credential_env_ok
        trusted_endpoint_def example_fns_def example_url_def)
  moreover have "route_trust example_fns ''GITHUB_TOKEN'' True (n, example_backup) = Inr ()" for n
    by (simp add: route_trust_def example_backup_def is_http_def)
  ultimately show ?thesis unfolding check_trust_def r
    using example_names by (simp add: notes_check_def example_defs char_count_def MAX_NOTES_CHARS_def)
qed

lemma example_valid: "expand_and_validate example_fns (ce_vars example_env) example_config = Inr example_config"
proof -
  have m: "trim_end ''<!-- revera-summary -->'' = ''<!-- revera-summary -->''"
    using trim_end_graphic[of "CHR ''>''" "''<!-- revera-summary --''"] by (simp add: ascii_graphic_def)
  have f: "checks (settings_checks example_fns example_config) = Inr ()"
    by (simp add: settings_checks_def focus_check_def notes_check_def example_defs char_count_def MAX_NOTES_CHARS_def
        valid_name_def is_name_byte_def trim_word ascii_graphic_def starts_with_def ends_with_def Let_def m)
  have s: "own_shape example_fns n example_route = Inr ()" "own_shape example_fns n example_backup = Inr ()" for n
    by (simp_all add: own_shape_def example_route_def example_backup_def is_http_def or_default_def Let_def)
  have b: "check_route_shape example_fns n example_backup = Inr ()" for n
    by (subst check_route_shape.simps) (simp add: s, simp add: example_backup_def enum_def)
  have i: "check_route_shape example_fns n example_route = Inr ()" for n
    by (subst check_route_shape.simps) (simp add: s, simp add: example_route_def enum_def b)
  have o': "is_opencode_host example_fns u = False" for u
    by (simp add: is_opencode_host_def example_fns_def example_url_def ends_with_def)
  have e: "expand_route example_fns env example_route = Inr example_route" for env
    by (simp add: example_route_def example_backup_def and_then_def try_opt_def expand_env_with_def expand_scan_plain o')
  have "expand_models example_fns env (cf_models example_config) = Inr (cf_models example_config)" for env
    by (simp add: expand_models_def example_config_def e and_then_def try_opt_def drop_empty_def Let_def)
  then show ?thesis
    unfolding expand_and_validate_def f
    by (simp add: and_then_def shape_routes_def opt_list_def named_workers_def named_scouts_def or_default_def
        example_config_def i enum_def Let_def checks.simps)
qed


theorem validated_config_has_clients_witness:
  "\<exists>cl s1 g1. make_client example_env (\<lambda>s. s) (\<lambda>_. undefined) example_request example_route example_state new_ledger
      = (Inr cl, s1, g1) \<and> has_route cl"
proof -
  note example_valid
  moreover have "validate_for_with_env example_config Baseline (env_is_set (ce_vars example_env)) = Inr ()"
    by (simp add: validate_for_with_env_def effective_validator_def strategy_routes_def or_default_def example_config_def
        check_route_credentials_def routes_def example_route_def example_backup_def credentials_available_def is_http_def)
  moreover have "outside_ok example_env" by (simp add: outside_ok_def example_env_def)
  moreover have "(''investigator'', example_route) \<in> set (needed_routes Baseline example_config)"
    by (simp add: needed_routes_def example_config_def)
  ultimately show ?thesis by (rule validated_config_has_clients)
qed

end
