(* ===== verification/Github_Api.thy ===== *)
theory Github_Api
  imports Redact Wire Text_Util Fix_Policy
begin

text \<open>
  \<open>src/src/github/api.rs\<close> and \<open>src/src/github/event.rs\<close>: the client of the GitHub API, with its retries,
  its pagination and the payload of every request, and the pull request of a webhook payload.

  GitHub is \<open>ga_http\<close>: the reply to a request after the exchanges so far, with the time since the first
  attempt of that request; it may answer anything.  An operation takes the exchanges so far and returns
  them extended, so that a property can speak of every request and of the reply it got.  \<open>gh_fns\<close> holds
  the JSON parser and the redaction of text.  Sleeping between attempts is not modelled.
\<close>

section \<open>Requests and replies\<close>

record gh_request =
  gq_method :: string
  gq_url :: string
  gq_headers :: "(string \<times> string) list"
  gq_body :: "json option"

datatype gh_reply = Reply nat "string option" string | Broken string

type_synonym exchanges = "(gh_request \<times> gh_reply) list"

datatype gh_error = Http_Error nat string | Transport_Error string | Api_Error string

type_synonym 'a gh = "exchanges \<Rightarrow> (gh_error + 'a) \<times> exchanges"

record retry_policy =
  ry_attempts :: nat
  ry_deadline :: nat
  ry_max_wait :: nat

definition seconds :: "nat \<Rightarrow> nat" where "seconds n = n * 1000000000"

definition retry_default :: retry_policy where
  "retry_default = \<lparr>ry_attempts = 3, ry_deadline = seconds 60, ry_max_wait = seconds 20\<rparr>"

record github_api =
  ga_base :: string
  ga_token :: string
  ga_http :: "exchanges \<Rightarrow> gh_request \<Rightarrow> gh_reply \<times> nat"
  ga_retry :: retry_policy

record gh_fns =
  gf_json :: "string \<Rightarrow> json option"
  gf_redact :: "string \<Rightarrow> string"

text \<open>\<open>GitHubApi::new\<close>: \<open>vars\<close> is the environment, \<open>http\<close> the client it builds.\<close>

definition api_new ::
  "(string \<Rightarrow> string option) \<Rightarrow> (exchanges \<Rightarrow> gh_request \<Rightarrow> gh_reply \<times> nat) \<Rightarrow> string \<Rightarrow> registry \<Rightarrow> github_api \<times> registry"
where
  "api_new vars http token reg =
     (let base = (case vars ''GITHUB_API_URL'' of Some u \<Rightarrow> u | None \<Rightarrow> ''https://api.github.com'') in
      (\<lparr>ga_base = trim_slashes base, ga_token = token, ga_http = http, ga_retry = retry_default\<rparr>, register token reg))"

section \<open>Errors\<close>

definition placement_marks :: "string list" where
  "placement_marks =
     [''part of the diff'', ''could not be resolved'', ''pull_request_review_thread'', ''start_line'', ''same hunk'',
      ''position'']"

text \<open>\<open>lower\<close> is \<open>str::to_lowercase\<close>, whose tables are the library's.\<close>

definition is_placement_rejection :: "(string \<Rightarrow> string) \<Rightarrow> gh_error \<Rightarrow> bool" where
  "is_placement_rejection lower e =
     (case e of Http_Error status body \<Rightarrow> status = 422 \<and> list_ex (str_contains (lower body)) placement_marks | _ \<Rightarrow> False)"

definition is_transient :: "gh_error \<Rightarrow> bool" where
  "is_transient e =
     (case e of Http_Error status _ \<Rightarrow> status = 429 \<or> 500 \<le> status | Transport_Error _ \<Rightarrow> True | Api_Error _ \<Rightarrow> False)"

definition is_ambiguous :: "gh_error \<Rightarrow> bool" where
  "is_ambiguous e =
     (case e of Http_Error status _ \<Rightarrow> 500 \<le> status | Transport_Error _ \<Rightarrow> True | Api_Error _ \<Rightarrow> False)"

text \<open>What \<open>to_string\<close> shows: the outermost context of an error.\<close>

definition gh_error_str :: "gh_fns \<Rightarrow> gh_error \<Rightarrow> string" where
  "gh_error_str F e =
     (case e of
        Http_Error status body \<Rightarrow> ''GitHub HTTP '' @ nat_str status @ '': '' @ gf_redact F (take_chars 300 body)
      | Transport_Error _ \<Rightarrow> ''github request failed''
      | Api_Error m \<Rightarrow> m)"

section \<open>Sending\<close>

text \<open>Steps over the exchanges; an error of any kind ends the sequence.\<close>

definition gh_fail :: "'e \<Rightarrow> 's \<Rightarrow> ('e + 'a) \<times> 's" where "gh_fail e h = (Inl e, h)"
definition gh_ret :: "'a \<Rightarrow> 's \<Rightarrow> ('e + 'a) \<times> 's" where "gh_ret x h = (Inr x, h)"

definition gh_then :: "('s \<Rightarrow> ('e + 'a) \<times> 's) \<Rightarrow> ('a \<Rightarrow> 's \<Rightarrow> ('e + 'b) \<times> 's) \<Rightarrow> 's \<Rightarrow> ('e + 'b) \<times> 's" where
  "gh_then m f h = (case m h of (Inl e, h1) \<Rightarrow> (Inl e, h1) | (Inr x, h1) \<Rightarrow> f x h1)"

definition retry_after :: "string option \<Rightarrow> nat option" where
  "retry_after header =
     (case header of None \<Rightarrow> None | Some v \<Rightarrow> map_option seconds (parse_u64 (trim v)))"

definition api_headers :: "github_api \<Rightarrow> (string \<times> string) list" where
  "api_headers A =
     [(''Authorization'', ''Bearer '' @ ga_token A), (''Accept'', ''application/vnd.github+json''),
      (''X-GitHub-Api-Version'', ''2022-11-28'')]"

text \<open>A failure comes with the hint of \<open>Retry-After\<close> and the time since the first attempt.\<close>

definition send_once ::
  "gh_fns \<Rightarrow> github_api \<Rightarrow> gh_request \<Rightarrow> exchanges \<Rightarrow> ((gh_error \<times> nat option \<times> nat) + json) \<times> exchanges"
where
  "send_once F A rq h =
     (let rq' = rq\<lparr>gq_headers := api_headers A\<rparr>; (reply, elapsed) = ga_http A h rq' in
      ((case reply of
          Broken e \<Rightarrow> Inl (Transport_Error e, None, elapsed)
        | Reply status header body \<Rightarrow>
            if 400 \<le> status then Inl (Http_Error status body, retry_after header, elapsed)
            else (case gf_json F body of
                    Some v \<Rightarrow> Inr v
                  | None \<Rightarrow> Inl (Api_Error (''malformed GitHub response (HTTP '' @ nat_str status @ ''): not JSON''), None, elapsed))),
       h @ [(rq', reply)]))"

definition backoff_for :: "github_api \<Rightarrow> nat option \<Rightarrow> nat \<Rightarrow> nat" where
  "backoff_for A hint attempt =
     min (case hint of Some w \<Rightarrow> w | None \<Rightarrow> 500000000 * 2 ^ (attempt - 1)) (ry_max_wait (ga_retry A))"

function send_attempt :: "gh_fns \<Rightarrow> github_api \<Rightarrow> gh_request \<Rightarrow> nat \<Rightarrow> json gh" where
  "send_attempt F A rq attempt h =
     (case send_once F A rq h of
        (Inr v, h1) \<Rightarrow> (Inr v, h1)
      | (Inl (e, hint, elapsed), h1) \<Rightarrow>
          if \<not> is_transient e \<or> ry_attempts (ga_retry A) \<le> attempt
             \<or> ry_deadline (ga_retry A) < elapsed + backoff_for A hint attempt
          then (Inl e, h1)
          else send_attempt F A rq (attempt + 1) h1)"
  by pat_completeness auto
termination
  by (relation "measure (\<lambda>(F, A, rq, attempt, h). ry_attempts (ga_retry A) - attempt)") auto

declare send_attempt.simps [simp del]

definition send_idempotent :: "gh_fns \<Rightarrow> github_api \<Rightarrow> gh_request \<Rightarrow> json gh" where
  "send_idempotent F A rq = send_attempt F A rq 1"

definition send_post :: "gh_fns \<Rightarrow> github_api \<Rightarrow> gh_request \<Rightarrow> json gh" where
  "send_post F A rq h =
     (case send_once F A rq h of (Inr v, h1) \<Rightarrow> (Inr v, h1) | (Inl (e, _, _), h1) \<Rightarrow> (Inl e, h1))"

definition get_req :: "string \<Rightarrow> gh_request" where
  "get_req url = \<lparr>gq_method = ''GET'', gq_url = url, gq_headers = [], gq_body = None\<rparr>"

definition json_req :: "string \<Rightarrow> string \<Rightarrow> json \<Rightarrow> gh_request" where
  "json_req method url body = \<lparr>gq_method = method, gq_url = url, gq_headers = [], gq_body = Some body\<rparr>"

definition repo_url :: "github_api \<Rightarrow> string \<Rightarrow> string \<Rightarrow> string \<Rightarrow> string" where
  "repo_url A owner repo rest = ga_base A @ ''/repos/'' @ owner @ ''/'' @ repo @ rest"

definition need :: "string \<Rightarrow> 'a option \<Rightarrow> 'a gh" where
  "need context v = (case v of Some x \<Rightarrow> gh_ret x | None \<Rightarrow> gh_fail (Api_Error context))"

definition oid_of :: "json \<Rightarrow> string option" where
  "oid_of v = (case as_str v of Some s \<Rightarrow> if is_oid s then Some s else None | None \<Rightarrow> None)"

section \<open>Pull requests\<close>

definition pull_json :: "gh_fns \<Rightarrow> github_api \<Rightarrow> string \<Rightarrow> string \<Rightarrow> nat \<Rightarrow> json gh" where
  "pull_json F A owner repo n = send_idempotent F A (get_req (repo_url A owner repo (''/pulls/'' @ nat_str n)))"

definition get_pull :: "gh_fns \<Rightarrow> github_api \<Rightarrow> string \<Rightarrow> string \<Rightarrow> nat \<Rightarrow> string gh" where
  "get_pull F A owner repo n =
     gh_then (pull_json F A owner repo n) (\<lambda>v.
       need ''malformed GitHub pull payload: missing head.sha'' (oid_of (jpath v [''head'', ''sha''])))"

definition base_name :: "json \<Rightarrow> string option" where
  "base_name v = (case as_str (jpath v [''base'', ''ref'']) of Some s \<Rightarrow> if s = [] then None else Some s | None \<Rightarrow> None)"

definition get_pull_target :: "gh_fns \<Rightarrow> github_api \<Rightarrow> string \<Rightarrow> string \<Rightarrow> nat \<Rightarrow> (string \<times> string) gh" where
  "get_pull_target F A owner repo n =
     gh_then (pull_json F A owner repo n) (\<lambda>v.
     gh_then (need ''malformed GitHub pull payload: missing head.sha'' (oid_of (jpath v [''head'', ''sha'']))) (\<lambda>head.
     gh_then (need ''malformed GitHub pull payload: missing base.ref'' (base_name v)) (\<lambda>base.
       gh_ret (head, base))))"

section \<open>The Git data API\<close>

definition git_get_commit :: "gh_fns \<Rightarrow> github_api \<Rightarrow> string \<Rightarrow> string \<Rightarrow> string \<Rightarrow> json gh" where
  "git_get_commit F A owner repo sha =
     send_idempotent F A (get_req (repo_url A owner repo (''/git/commits/'' @ sha)))"

definition git_create_blob :: "gh_fns \<Rightarrow> github_api \<Rightarrow> string \<Rightarrow> string \<Rightarrow> string \<Rightarrow> json gh" where
  "git_create_blob F A owner repo content =
     send_post F A (json_req ''POST'' (repo_url A owner repo ''/git/blobs'')
       (JObj [(''content'', JStr content), (''encoding'', JStr ''utf-8'')]))"

definition git_create_tree :: "gh_fns \<Rightarrow> github_api \<Rightarrow> string \<Rightarrow> string \<Rightarrow> string \<Rightarrow> json list \<Rightarrow> json gh" where
  "git_create_tree F A owner repo base_tree items =
     send_post F A (json_req ''POST'' (repo_url A owner repo ''/git/trees'')
       (JObj [(''base_tree'', JStr base_tree), (''tree'', JArr items)]))"

definition git_create_commit ::
  "gh_fns \<Rightarrow> github_api \<Rightarrow> string \<Rightarrow> string \<Rightarrow> string \<Rightarrow> string \<Rightarrow> string \<Rightarrow> json gh"
where
  "git_create_commit F A owner repo parent tree message =
     send_post F A (json_req ''POST'' (repo_url A owner repo ''/git/commits'')
       (JObj [(''message'', JStr (gf_redact F message)), (''tree'', JStr tree), (''parents'', JArr [JStr parent])]))"

definition git_get_ref :: "gh_fns \<Rightarrow> github_api \<Rightarrow> string \<Rightarrow> string \<Rightarrow> string \<Rightarrow> json gh" where
  "git_get_ref F A owner repo branch =
     send_idempotent F A (get_req (repo_url A owner repo (''/git/ref/heads/'' @ branch)))"

definition git_create_ref :: "gh_fns \<Rightarrow> github_api \<Rightarrow> string \<Rightarrow> string \<Rightarrow> string \<Rightarrow> string \<Rightarrow> json gh" where
  "git_create_ref F A owner repo branch sha =
     send_post F A (json_req ''POST'' (repo_url A owner repo ''/git/refs'')
       (JObj [(''ref'', JStr (''refs/heads/'' @ branch)), (''sha'', JStr sha)]))"

definition git_fast_forward_ref :: "gh_fns \<Rightarrow> github_api \<Rightarrow> string \<Rightarrow> string \<Rightarrow> string \<Rightarrow> string \<Rightarrow> json gh" where
  "git_fast_forward_ref F A owner repo branch sha =
     send_post F A (json_req ''PATCH'' (repo_url A owner repo (''/git/refs/heads/'' @ branch))
       (JObj [(''sha'', JStr sha), (''force'', JBool False)]))"

definition create_draft_pull ::
  "gh_fns \<Rightarrow> github_api \<Rightarrow> string \<Rightarrow> string \<Rightarrow> string \<Rightarrow> string \<Rightarrow> string \<Rightarrow> string \<Rightarrow> json gh"
where
  "create_draft_pull F A owner repo head base title body =
     send_post F A (json_req ''POST'' (repo_url A owner repo ''/pulls'')
       (JObj [(''head'', JStr head), (''base'', JStr base), (''title'', JStr (gf_redact F title)),
              (''body'', JStr (gf_redact F body)), (''draft'', JBool True)]))"

section \<open>Comments\<close>

record gh_comment =
  gc_id :: nat
  gc_body :: string
  gc_author :: "string option"
  gc_author_is_bot :: bool

record review_comment =
  rv_path :: string
  rv_line :: u32
  rv_end_line :: "u32 option"
  rv_body :: string

definition positive_id :: "json \<Rightarrow> nat option" where
  "positive_id v = (case as_u64 (jidx v ''id'') of Some n \<Rightarrow> if 0 < n then Some n else None | None \<Rightarrow> None)"

definition parse_comment :: "string \<Rightarrow> json \<Rightarrow> gh_error + gh_comment" where
  "parse_comment what c =
     (case positive_id c of
        None \<Rightarrow> Inl (Api_Error (''malformed GitHub '' @ what @ '': missing id''))
      | Some n \<Rightarrow>
          Inr \<lparr>gc_id = n, gc_body = str_or [] (jidx c ''body''), gc_author = as_str (jpath c [''user'', ''login'']),
               gc_author_is_bot = (as_str (jpath c [''user'', ''type'']) = Some ''Bot'')\<rparr>)"

fun parse_comments :: "string \<Rightarrow> json list \<Rightarrow> gh_error + gh_comment list" where
  "parse_comments what [] = Inr []"
| "parse_comments what (c # cs) =
     (case parse_comment what c of
        Inl e \<Rightarrow> Inl e
      | Inr x \<Rightarrow> (case parse_comments what cs of Inl e \<Rightarrow> Inl e | Inr xs \<Rightarrow> Inr (x # xs)))"

definition MAX_PAGES :: nat where "MAX_PAGES = 50"

definition page_url :: "string \<Rightarrow> nat \<Rightarrow> string" where
  "page_url url page = url @ ''?per_page=100&page='' @ nat_str page"

fun list_pages :: "gh_fns \<Rightarrow> github_api \<Rightarrow> string \<Rightarrow> string \<Rightarrow> nat list \<Rightarrow> gh_comment list \<Rightarrow> gh_comment list gh" where
  "list_pages F A url what [] out =
     gh_fail (Api_Error (''GitHub '' @ what @ '' list exceeds '' @ nat_str MAX_PAGES @ '' pages''))"
| "list_pages F A url what (page # pages) out =
     gh_then (send_idempotent F A (get_req (page_url url page))) (\<lambda>v.
     gh_then (need (''malformed GitHub '' @ what @ '' list: not an array'') (as_array v)) (\<lambda>arr.
       (case parse_comments what arr of
          Inl e \<Rightarrow> gh_fail e
        | Inr cs \<Rightarrow> if length arr < 100 then gh_ret (out @ cs) else list_pages F A url what pages (out @ cs))))"

definition list_comments :: "gh_fns \<Rightarrow> github_api \<Rightarrow> string \<Rightarrow> string \<Rightarrow> gh_comment list gh" where
  "list_comments F A url what = list_pages F A url what [1..<Suc MAX_PAGES] []"

definition list_issue_comments :: "gh_fns \<Rightarrow> github_api \<Rightarrow> string \<Rightarrow> string \<Rightarrow> nat \<Rightarrow> gh_comment list gh" where
  "list_issue_comments F A owner repo n =
     list_comments F A (repo_url A owner repo (''/issues/'' @ nat_str n @ ''/comments'')) ''issue comment''"

definition list_review_comments :: "gh_fns \<Rightarrow> github_api \<Rightarrow> string \<Rightarrow> string \<Rightarrow> nat \<Rightarrow> gh_comment list gh" where
  "list_review_comments F A owner repo n =
     list_comments F A (repo_url A owner repo (''/pulls/'' @ nat_str n @ ''/comments'')) ''review comment''"

definition viewer_login :: "gh_fns \<Rightarrow> github_api \<Rightarrow> exchanges \<Rightarrow> string option \<times> exchanges" where
  "viewer_login F A h =
     (case send_idempotent F A (get_req (ga_base A @ ''/user'')) h of
        (Inl _, h1) \<Rightarrow> (None, h1) | (Inr v, h1) \<Rightarrow> (as_str (jidx v ''login''), h1))"

definition create_issue_comment :: "gh_fns \<Rightarrow> github_api \<Rightarrow> string \<Rightarrow> string \<Rightarrow> nat \<Rightarrow> string \<Rightarrow> gh_comment gh" where
  "create_issue_comment F A owner repo n body0 =
     (let body = gf_redact F body0 in
      gh_then (send_post F A (json_req ''POST'' (repo_url A owner repo (''/issues/'' @ nat_str n @ ''/comments''))
                 (JObj [(''body'', JStr body)]))) (\<lambda>v.
        (case parse_comment ''created comment'' v of
           Inl e \<Rightarrow> gh_fail e | Inr c \<Rightarrow> gh_ret (c\<lparr>gc_body := body\<rparr>))))"

definition update_issue_comment :: "gh_fns \<Rightarrow> github_api \<Rightarrow> string \<Rightarrow> string \<Rightarrow> nat \<Rightarrow> string \<Rightarrow> gh_comment gh" where
  "update_issue_comment F A owner repo comment_id body0 =
     (let body = gf_redact F body0 in
      gh_then (send_idempotent F A (json_req ''PATCH'' (repo_url A owner repo (''/issues/comments/'' @ nat_str comment_id))
                 (JObj [(''body'', JStr body)]))) (\<lambda>v.
        (case parse_comment ''updated comment'' v of
           Inl e \<Rightarrow> gh_fail e
         | Inr c \<Rightarrow>
             if gc_id c \<noteq> comment_id
             then gh_fail (Api_Error (''malformed GitHub response: updated comment '' @ nat_str (gc_id c)
                             @ '' but asked for '' @ nat_str comment_id))
             else gh_ret (c\<lparr>gc_body := body\<rparr>))))"

definition review_comment_json :: "gh_fns \<Rightarrow> review_comment \<Rightarrow> json" where
  "review_comment_json F c =
     (let line = max (rv_line c) 1; v = (\<lambda>n. [(''path'', JStr (rv_path c)), (''line'', JNat (unat n)), (''side'', JStr ''RIGHT''),
            (''body'', JStr (gf_redact F (rv_body c)))]) in
      case rv_end_line c of
        Some e \<Rightarrow>
          if line < e then JObj (v e @ [(''start_line'', JNat (unat line)), (''start_side'', JStr ''RIGHT'')]) else JObj (v line)
      | None \<Rightarrow> JObj (v line))"

definition create_review ::
  "gh_fns \<Rightarrow> github_api \<Rightarrow> string \<Rightarrow> string \<Rightarrow> nat \<Rightarrow> string \<Rightarrow> string \<Rightarrow> review_comment list \<Rightarrow> nat gh"
where
  "create_review F A owner repo n commit_id body comments =
     gh_then (send_post F A (json_req ''POST'' (repo_url A owner repo (''/pulls/'' @ nat_str n @ ''/reviews''))
       (JObj [(''commit_id'', JStr commit_id), (''event'', JStr ''COMMENT''), (''body'', JStr (gf_redact F body)),
              (''comments'', JArr (map (review_comment_json F) comments))]))) (\<lambda>v.
       need ''malformed GitHub review response: missing id'' (positive_id v))"

section \<open>The event of a pull request\<close>

record pr_event =
  pe_repo_full_name :: string
  pe_number :: nat
  pe_title :: string
  pe_body :: string
  pe_head_sha :: string
  pe_head_ref :: string
  pe_head_repo_full_name :: string
  pe_base_sha :: string
  pe_base_ref :: string
  pe_repository_public :: bool

definition owner_repo :: "pr_event \<Rightarrow> string \<times> string" where
  "owner_repo ev = (case split_once (CHR ''/'') (pe_repo_full_name ev) of Some p \<Rightarrow> p | None \<Rightarrow> ([], pe_repo_full_name ev))"

definition is_fork :: "pr_event \<Rightarrow> bool" where
  "is_fork ev = (pe_head_repo_full_name ev \<noteq> pe_repo_full_name ev)"

definition str_at :: "json \<Rightarrow> string list \<Rightarrow> string + string" where
  "str_at v parts =
     (case as_str (jpath v parts) of Some s \<Rightarrow> Inr s | None \<Rightarrow> Inl (''event payload missing '' @ join ''.'' parts))"

definition visible_to_all :: "json \<Rightarrow> bool" where
  "visible_to_all v =
     ((case as_bool (jpath v [''repository'', ''private'']) of
         Some b \<Rightarrow> Some b | None \<Rightarrow> as_bool (jpath v [''pull_request'', ''base'', ''repo'', ''private''])) = Some False)"

text \<open>\<open>parse\<close> of a payload that was read and is JSON.\<close>

definition parse_event :: "json \<Rightarrow> string + pr_event" where
  "parse_event v =
     (if jidx v ''pull_request'' = JNull then Inl ''unsupported event: payload has no pull_request object''
      else sum_then (str_at v [''repository'', ''full_name'']) (\<lambda>full_name.
           sum_then (case as_u64 (jidx v ''number'') of Some n \<Rightarrow> Inr n | None \<Rightarrow> Inl ''event payload missing number'') (\<lambda>n.
           sum_then (str_at v [''pull_request'', ''head'', ''sha'']) (\<lambda>head_sha.
           sum_then (str_at v [''pull_request'', ''head'', ''ref'']) (\<lambda>head_ref.
           sum_then (str_at v [''pull_request'', ''head'', ''repo'', ''full_name'']) (\<lambda>head_repo.
           sum_then (str_at v [''pull_request'', ''base'', ''sha'']) (\<lambda>base_sha.
           sum_then (str_at v [''pull_request'', ''base'', ''ref'']) (\<lambda>base_ref.
             Inr \<lparr>pe_repo_full_name = full_name, pe_number = n,
                  pe_title = str_or [] (jpath v [''pull_request'', ''title'']),
                  pe_body = str_or [] (jpath v [''pull_request'', ''body'']), pe_head_sha = head_sha, pe_head_ref = head_ref,
                  pe_head_repo_full_name = head_repo, pe_base_sha = base_sha, pe_base_ref = base_ref,
                  pe_repository_public = visible_to_all v\<rparr>))))))))"

end
