(* ===== verification/Publish.thy ===== *)
theory Publish
  imports Github_Api Pipeline
begin

text \<open>
  \<open>src/src/github/publish.rs\<close>: the state blob of the summary comment, whose comments count as the
  program's own, and \<open>publish\<close>.  \<open>publish_fns\<close> holds the libraries: the JSON text of the state (its
  derived serialization), base64, and the digest, case mapping and formatting that the called
  functions take.
\<close>

record publish_fns =
  pf_gh :: gh_fns
  pf_state_json :: "review_state \<Rightarrow> string"
  pf_state_of :: "string \<Rightarrow> review_state option"
  pf_b64 :: "string \<Rightarrow> string"
  pf_unb64 :: "string \<Rightarrow> string option"
  pf_hash :: "string \<Rightarrow> string"
  pf_lower :: "string \<Rightarrow> string"
  pf_secs :: "nat \<Rightarrow> string"

abbreviation px_red :: "publish_fns \<Rightarrow> string \<Rightarrow> string" where
  "px_red F \<equiv> gf_redact (pf_gh F)"

section \<open>The state blob\<close>

definition STATE_PREFIX :: string where "STATE_PREFIX = ''<!-- revera-state:''"
definition STATE_SUFFIX :: string where "STATE_SUFFIX = '' -->''"

definition encode_state :: "publish_fns \<Rightarrow> review_state \<Rightarrow> string" where
  "encode_state F s = STATE_PREFIX @ pf_b64 F (px_red F (pf_state_json F s)) @ STATE_SUFFIX"

definition decode_state :: "publish_fns \<Rightarrow> string \<Rightarrow> review_state option" where
  "decode_state F body =
     (case find_str body STATE_PREFIX of
        None \<Rightarrow> None
      | Some i \<Rightarrow>
          (let rest = drop (i + length STATE_PREFIX) body in
           case find_str rest STATE_SUFFIX of
             None \<Rightarrow> None
           | Some j \<Rightarrow> Option.bind (pf_unb64 F (trim (take j rest))) (pf_state_of F)))"

section \<open>Ownership\<close>

record gh_identity =
  id_viewer :: "string option"
  id_bot_login :: string

definition resolve_identity :: "gh_fns \<Rightarrow> github_api \<Rightarrow> string \<Rightarrow> exchanges \<Rightarrow> gh_identity \<times> exchanges" where
  "resolve_identity G A bot_login h =
     (case viewer_login G A h of (v, h1) \<Rightarrow> (\<lparr>id_viewer = v, id_bot_login = bot_login\<rparr>, h1))"

definition owns :: "gh_identity \<Rightarrow> gh_comment \<Rightarrow> bool" where
  "owns me c =
     (case (gc_author c, id_viewer me) of
        (None, _) \<Rightarrow> False
      | (Some a, Some v) \<Rightarrow> a = v
      | (Some a, None) \<Rightarrow> a = id_bot_login me)"

definition managed_candidate :: "publish_fns \<Rightarrow> string \<Rightarrow> gh_identity \<Rightarrow> gh_comment \<Rightarrow> bool" where
  "managed_candidate F mkr me c =
     (starts_with (trim_start (gc_body c)) mkr \<and> decode_state F (gc_body c) \<noteq> None \<and> owns me c)"

definition find_managed ::
  "publish_fns \<Rightarrow> gh_comment list \<Rightarrow> string \<Rightarrow> nat option \<Rightarrow> gh_identity \<Rightarrow> gh_comment option"
where
  "find_managed F comments mkr expected_id me =
     (let cands = filter (managed_candidate F mkr me) comments in
      case (case expected_id of None \<Rightarrow> None | Some i \<Rightarrow> List.find (\<lambda>c. gc_id c = i) cands) of
        Some c \<Rightarrow> Some c
      | None \<Rightarrow> (case cands of [] \<Rightarrow> None | c # _ \<Rightarrow> Some c))"

definition revera_id :: "string \<Rightarrow> string option" where
  "revera_id body =
     (case rev (lines (trim_end body)) of
        [] \<Rightarrow> None
      | line # _ \<Rightarrow>
          (case strip_prefix line ''<!-- revera-id:'' of
             None \<Rightarrow> None
           | Some r \<Rightarrow>
               (case strip_suffix r ''-->'' of
                  None \<Rightarrow> None
                | Some t \<Rightarrow>
                    (let i = trim t in if length i = 12 \<and> list_all is_ascii_hexdigit i then Some i else None))))"

definition posted_revera_ids :: "gh_comment list \<Rightarrow> gh_identity \<Rightarrow> string list" where
  "posted_revera_ids comments me = List.map_filter (\<lambda>c. revera_id (gc_body c)) (filter (owns me) comments)"

section \<open>The summary comment\<close>

definition open_line :: "publish_fns \<Rightarrow> state_finding \<Rightarrow> string" where
  "open_line F f =
     ''- '' @ public_code_span (px_red F) (sf_file f) @ '':'' @ u32_str (sf_start_line f) @ '' '' @ em_dash @ '' ''
       @ public_line (px_red F) (sf_title f) @ (if sf_posted f then '' (posted)'' else []) @ nl"

definition open_section :: "publish_fns \<Rightarrow> review_state \<Rightarrow> string" where
  "open_section F st =
     (let open_fs = filter (\<lambda>f. sf_status f = StOpen) (rs_findings st) in
      if open_fs = [] then [] else nl @ ''### Open findings'' @ nl @ nl @ concat (map (open_line F) open_fs))"

definition FIX_START :: string where "FIX_START = ''<!-- revera:fix-status -->''"
definition FIX_END :: string where "FIX_END = ''<!-- /revera:fix-status -->''"

definition fix_status_block :: "string \<Rightarrow> string option" where
  "fix_status_block body =
     (case find_str body FIX_START of
        None \<Rightarrow> None
      | Some start \<Rightarrow>
          (case find_str (drop (start + length FIX_START) body) FIX_END of
             None \<Rightarrow> None
           | Some e \<Rightarrow> Some (take (length FIX_START + e + length FIX_END) (drop start body))))"

definition summary_text :: "publish_fns \<Rightarrow> string \<Rightarrow> run_report \<Rightarrow> review_state \<Rightarrow> string" where
  "summary_text F mkr report staged = mkr @ nl @ pp_summary (rr_plan report) @ open_section F staged"

definition state_blob :: "publish_fns \<Rightarrow> run_report \<Rightarrow> review_state \<Rightarrow> string" where
  "state_blob F report staged = encode_state F (public_projection (pp_publish_uncertain (rr_plan report)) staged)"

section \<open>Publication\<close>

definition reconcile_review ::
  "gh_fns \<Rightarrow> github_api \<Rightarrow> pr_event \<Rightarrow> gh_identity \<Rightarrow> string list \<Rightarrow> exchanges \<Rightarrow> bool \<times> exchanges"
where
  "reconcile_review G A ev me ids h =
     (if ids = [] then (False, h)
      else (case list_review_comments G A (fst (owner_repo ev)) (snd (owner_repo ev)) (pe_number ev) h of
              (Inl _, h1) \<Rightarrow> (False, h1)
            | (Inr cs, h1) \<Rightarrow> (list_all (\<lambda>i. i \<in> set (posted_revera_ids cs me)) ids, h1)))"

definition moved_target :: "run_report \<Rightarrow> pr_event \<Rightarrow> string \<Rightarrow> string \<Rightarrow> string option" where
  "moved_target report ev live_head live_base =
     (if live_head \<noteq> rr_head report then Some (''head moved '' @ rr_head report @ '' -> '' @ live_head)
      else if live_base \<noteq> pe_base_ref ev then Some (''base changed '' @ pe_base_ref ev @ '' -> '' @ live_base)
      else None)"

definition comment_mode :: publication where
  "comment_mode = \<lparr>pu_mode = ''comment'', pu_review_id = None, pu_summary_comment_id = None, pu_skipped_reason = None\<rparr>"

definition with_timing :: "publish_fns \<Rightarrow> nat \<Rightarrow> string \<Rightarrow> run_report \<Rightarrow> run_report" where
  "with_timing F ms outcome report =
     (let t = append_publish (tm_total_ms (rr_timing report)) ms outcome (rr_timing report); p = rr_plan report in
      report\<lparr>rr_timing := t, rr_plan := p\<lparr>pp_summary := refresh_timing_line (pf_secs F) (pp_summary p) t\<rparr>\<rparr>)"

definition skip_report :: "publish_fns \<Rightarrow> string \<Rightarrow> run_report \<Rightarrow> run_report" where
  "skip_report F reason report =
     (let p = rr_plan report in
      with_timing F 0 ''skipped''
        (report\<lparr>rr_status := Partial, rr_plan := p\<lparr>pp_summary := mark_incomplete_summary (pp_summary p)\<rparr>,
            rr_reason := Some (case rr_reason report of Some r \<Rightarrow> r @ ''; '' @ reason | None \<Rightarrow> reason),
            rr_publication := comment_mode\<lparr>pu_skipped_reason := Some reason\<rparr>\<rparr>))"

definition unposted :: "review_state \<Rightarrow> inline_comment \<Rightarrow> bool" where
  "unposted st c = (case revera_id (ic_body c) of Some i \<Rightarrow> \<not> has_posted st i | None \<Rightarrow> False)"

definition review_comments :: "nat \<Rightarrow> review_state \<Rightarrow> run_report \<Rightarrow> review_comment list" where
  "review_comments max_findings st report =
     map (\<lambda>c. \<lparr>rv_path = ic_file c, rv_line = ic_line c, rv_end_line = ic_end_line c, rv_body = ic_body c\<rparr>)
       (take max_findings (filter (unposted st) (pp_inline (rr_plan report))))"

definition inline_rejected :: string where
  "inline_rejected = ''inline review rejected by GitHub (422); findings listed in summary only''"

definition review_body :: string where "review_body = ''Revera inline review findings''"

text \<open>The inline review: the outcome for the timing, what is known of the publication, and the state with
  the comments that are on the pull request now marked.\<close>

definition post_review ::
  "publish_fns \<Rightarrow> github_api \<Rightarrow> pr_event \<Rightarrow> gh_identity \<Rightarrow> string \<Rightarrow> review_comment list \<Rightarrow> review_state
   \<Rightarrow> (string \<times> publication \<times> review_state) gh"
where
  "post_review F A ev me head comments st h =
     (if comments = [] then (Inr (''skipped'', comment_mode, st), h)
      else (let ids = List.map_filter (\<lambda>c. revera_id (rv_body c)) comments in
            case create_review (pf_gh F) A (fst (owner_repo ev)) (snd (owner_repo ev)) (pe_number ev) head review_body comments h of
              (Inr n, h1) \<Rightarrow> (Inr (''ok'', comment_mode\<lparr>pu_review_id := Some n\<rparr>, mark_posted ids st), h1)
            | (Inl e, h1) \<Rightarrow>
                if is_placement_rejection (pf_lower F) e
                then (Inr (''ok:inline-rejected'', comment_mode\<lparr>pu_skipped_reason := Some inline_rejected\<rparr>, st), h1)
                else if is_ambiguous e
                then (case reconcile_review (pf_gh F) A ev me ids h1 of
                        (True, h2) \<Rightarrow> (Inr (''ok:reconciled'', comment_mode, mark_posted ids st), h2)
                      | (False, h2) \<Rightarrow> (Inl e, h2))
                else (Inl e, h1)))"

text \<open>The identifier of the new comment is recorded in its blob; that this update may fail is ignored.\<close>

definition adopt ::
  "publish_fns \<Rightarrow> github_api \<Rightarrow> pr_event \<Rightarrow> string \<Rightarrow> run_report \<Rightarrow> review_state \<Rightarrow> gh_comment \<Rightarrow> (gh_comment \<times> review_state) gh"
where
  "adopt F A ev mkr report staged c h =
     (let staged' = staged\<lparr>rs_summary_comment_id := Some (gc_id c)\<rparr>;
          block = (case fix_status_block (gc_body c) of Some b \<Rightarrow> nl @ b | None \<Rightarrow> []);
          b2 = summary_text F mkr report staged' @ block @ nl @ state_blob F report staged' in
      case update_issue_comment (pf_gh F) A (fst (owner_repo ev)) (snd (owner_repo ev)) (gc_id c) b2 h of
        (_, h1) \<Rightarrow> (Inr (c, staged'), h1))"

text \<open>The summary comment: the comment and the state that its blob records.\<close>

definition create_summary ::
  "publish_fns \<Rightarrow> github_api \<Rightarrow> pr_event \<Rightarrow> gh_identity \<Rightarrow> string \<Rightarrow> run_report \<Rightarrow> review_state \<Rightarrow> string
   \<Rightarrow> (gh_comment \<times> review_state) gh"
where
  "create_summary F A ev me mkr report staged body h =
     (let owner = fst (owner_repo ev); repo = snd (owner_repo ev) in
      case create_issue_comment (pf_gh F) A owner repo (pe_number ev) (body @ nl @ state_blob F report staged) h of
        (Inr c, h1) \<Rightarrow> adopt F A ev mkr report staged c h1
      | (Inl e, h1) \<Rightarrow>
          if is_ambiguous e
          then (case list_issue_comments (pf_gh F) A owner repo (pe_number ev) h1 of
                  (Inl e', h2) \<Rightarrow> (Inl e', h2)
                | (Inr now, h2) \<Rightarrow>
                    (case find_managed F now mkr None me of
                       Some c \<Rightarrow> adopt F A ev mkr report staged c h2 | None \<Rightarrow> (Inl e, h2)))
          else (Inl e, h1))"

definition upsert_summary ::
  "publish_fns \<Rightarrow> github_api \<Rightarrow> pr_event \<Rightarrow> gh_identity \<Rightarrow> string \<Rightarrow> run_report \<Rightarrow> review_state
   \<Rightarrow> (gh_comment \<times> review_state) gh"
where
  "upsert_summary F A ev me mkr report st =
     (let owner = fst (owner_repo ev); repo = snd (owner_repo ev); G = pf_gh F;
          staged = mark_posted (surfaced_ids (pf_hash F) (rr_findings report)) st in
      gh_then (list_issue_comments G A owner repo (pe_number ev)) (\<lambda>comments.
        (let managed = find_managed F comments mkr (rs_summary_comment_id st) me;
             block = (case Option.bind managed (\<lambda>c. fix_status_block (gc_body c)) of Some b \<Rightarrow> nl @ b @ nl | None \<Rightarrow> []);
             body = summary_text F mkr report staged @ block in
         case managed of
           Some c \<Rightarrow>
             (let staged' = staged\<lparr>rs_summary_comment_id := Some (gc_id c)\<rparr> in
              gh_then (update_issue_comment G A owner repo (gc_id c) (body @ nl @ state_blob F report staged')) (\<lambda>u.
                gh_ret (u, staged')))
         | None \<Rightarrow> create_summary F A ev me mkr report staged body)))"

record publish_out =
  po_result :: "gh_error + publication"
  po_report :: run_report
  po_state :: review_state

definition publish_fail :: "gh_error \<Rightarrow> run_report \<Rightarrow> review_state \<Rightarrow> publish_out" where
  "publish_fail e report st = \<lparr>po_result = Inl e, po_report = report, po_state = st\<rparr>"

text \<open>\<open>ms\<close> is the time the inline review took.\<close>

definition publish_fresh ::
  "publish_fns \<Rightarrow> github_api \<Rightarrow> nat \<Rightarrow> pr_event \<Rightarrow> nat \<Rightarrow> string \<Rightarrow> string \<Rightarrow> run_report \<Rightarrow> review_state \<Rightarrow> exchanges
   \<Rightarrow> publish_out \<times> exchanges"
where
  "publish_fresh F A ms ev max_findings mkr bot_login report st h =
     (let owner = fst (owner_repo ev); repo = snd (owner_repo ev) in
      case resolve_identity (pf_gh F) A bot_login h of
        (me, h1) \<Rightarrow>
          (case list_review_comments (pf_gh F) A owner repo (pe_number ev) h1 of
             (Inl e, h2) \<Rightarrow> (publish_fail e report st, h2)
           | (Inr listed, h2) \<Rightarrow>
               (let st1 = mark_posted (posted_revera_ids listed me) st in
                case post_review F A ev me (rr_head report) (review_comments max_findings st1 report) st1 h2 of
                  (Inl e, h3) \<Rightarrow>
                    (publish_fail e (report\<lparr>rr_timing := append_publish (tm_total_ms (rr_timing report)) ms
                        (''error:'' @ excerpt_bytes (gh_error_str (pf_gh F) e) 60) (rr_timing report)\<rparr>) st1, h3)
                | (Inr (outcome, pubn, st2), h3) \<Rightarrow>
                    (let report1 = with_timing F (if outcome = ''skipped'' then 0 else ms) outcome report in
                     case upsert_summary F A ev me mkr report1 st2 h3 of
                       (Inl e, h4) \<Rightarrow> (publish_fail e report1 st2, h4)
                     | (Inr (c, staged), h4) \<Rightarrow>
                         (let pubn1 = pubn\<lparr>pu_summary_comment_id := Some (gc_id c)\<rparr> in
                          (\<lparr>po_result = Inr pubn1, po_report = report1\<lparr>rr_publication := pubn1\<rparr>, po_state = staged\<rparr>, h4))))))"

definition publish ::
  "publish_fns \<Rightarrow> github_api \<Rightarrow> nat \<Rightarrow> pr_event \<Rightarrow> nat \<Rightarrow> string \<Rightarrow> string \<Rightarrow> run_report \<Rightarrow> review_state \<Rightarrow> exchanges
   \<Rightarrow> publish_out \<times> exchanges"
where
  "publish F A ms ev max_findings mkr bot_login report st h =
     (case get_pull_target (pf_gh F) A (fst (owner_repo ev)) (snd (owner_repo ev)) (pe_number ev) h of
        (Inl e, h1) \<Rightarrow> (publish_fail e report st, h1)
      | (Inr (live_head, live_base), h1) \<Rightarrow>
          (case moved_target report ev live_head live_base of
             Some reason \<Rightarrow>
               (let report' = skip_report F reason report in
                (\<lparr>po_result = Inr (rr_publication report'), po_report = report',
                  po_state = mark_publication_incomplete st\<rparr>, h1))
           | None \<Rightarrow> publish_fresh F A ms ev max_findings mkr bot_login report st h1))"

end
