(* ===== verification/Github_Props.thy ===== *)
theory Github_Props
  imports Github_Api
begin

text \<open>
  What the operations of \<open>Github_Api\<close> send, and what their results rest on.  \<open>emits act Q\<close>: whatever was
  exchanged before, \<open>act\<close> only adds exchanges, and its result and those satisfy \<open>Q\<close>.  The rules of
  \<open>emits\<close> follow the combinators, so that a property of an operation is read off its definition.
\<close>

named_theorems emits_rules

definition emits :: "(exchanges \<Rightarrow> 'r \<times> exchanges) \<Rightarrow> ('r \<Rightarrow> exchanges \<Rightarrow> bool) \<Rightarrow> bool" where
  "emits act Q = (\<forall>h. \<exists>t. snd (act h) = h @ t \<and> Q (fst (act h)) t)"

lemma emitsI: "(\<And>h. \<exists>t. snd (act h) = h @ t \<and> Q (fst (act h)) t) \<Longrightarrow> emits act Q"
  by (simp add: emits_def)

lemma emitsE:
  assumes "emits act Q"
  obtains t where "snd (act h) = h @ t" and "Q (fst (act h)) t"
  using assms by (auto simp: emits_def)

lemma emitsD: "emits act Q \<Longrightarrow> act h = (r, h') \<Longrightarrow> \<exists>t. h' = h @ t \<and> Q r t"
  by (metis emitsE fst_conv snd_conv)

lemma emits_mono: "emits act P \<Longrightarrow> (\<And>r t. P r t \<Longrightarrow> Q r t) \<Longrightarrow> emits act Q"
  unfolding emits_def by blast

lemma emits_conj: "emits act P \<Longrightarrow> emits act Q \<Longrightarrow> emits act (\<lambda>r t. P r t \<and> Q r t)"
  by (rule emitsI) (metis emitsE same_append_eq)

lemma emits_ret [emits_rules]: "Q (Inr x) [] \<Longrightarrow> emits (gh_ret x) Q"
  by (simp add: emits_def gh_ret_def)

lemma emits_fail [emits_rules]: "Q (Inl e) [] \<Longrightarrow> emits (gh_fail e) Q"
  by (simp add: emits_def gh_fail_def)

lemma emits_then:
  assumes "emits m P" and "\<And>e t. P (Inl e) t \<Longrightarrow> Q (Inl e) t"
    and "\<And>x t. P (Inr x) t \<Longrightarrow> emits (f x) (\<lambda>r u. Q r (t @ u))"
  shows "emits (gh_then m f) Q"
proof (rule emitsI)
  fix h
  obtain t where t: "snd (m h) = h @ t" "P (fst (m h)) t" using assms(1) by (rule emitsE)
  show "\<exists>t. snd (gh_then m f h) = h @ t \<and> Q (fst (gh_then m f h)) t"
  proof (cases "fst (m h)")
    case (Inl e)
    then have "gh_then m f h = (Inl e, h @ t)" using t(1) by (cases "m h") (simp add: gh_then_def)
    with Inl t(2) assms(2) show ?thesis by simp
  next
    case (Inr x)
    then have eq: "gh_then m f h = f x (h @ t)" using t(1) by (cases "m h") (simp add: gh_then_def)
    obtain u where "snd (f x (h @ t)) = (h @ t) @ u" "Q (fst (f x (h @ t))) (t @ u)"
      by (rule emitsE[OF assms(3)]) (use Inr t(2) in simp)
    then show ?thesis unfolding eq by (intro exI[of _ "t @ u"]) simp
  qed
qed

lemma emits_need [emits_rules]:
  "(\<And>x. v = Some x \<Longrightarrow> Q (Inr x) []) \<Longrightarrow> (v = None \<Longrightarrow> Q (Inl (Api_Error context)) []) \<Longrightarrow> emits (need context v) Q"
  by (cases v) (simp_all add: need_def emits_ret emits_fail)

section \<open>Single requests\<close>

text \<open>The JSON of a reply that is a success.\<close>

definition reply_json :: "gh_fns \<Rightarrow> gh_request \<times> gh_reply \<Rightarrow> json option" where
  "reply_json F x = (case snd x of Reply status _ body \<Rightarrow> if status < 400 then gf_json F body else None | Broken _ \<Rightarrow> None)"

definition sent :: "github_api \<Rightarrow> gh_request \<Rightarrow> gh_request" where
  "sent A rq = rq\<lparr>gq_headers := api_headers A\<rparr>"

lemma send_once_emits:
  "\<exists>x. snd (send_once F A rq h) = h @ [x] \<and> fst x = sent A rq
     \<and> reply_json F x = (case fst (send_once F A rq h) of Inr v \<Rightarrow> Some v | Inl _ \<Rightarrow> None)"
  by (auto simp: send_once_def Let_def sent_def reply_json_def split: prod.splits gh_reply.splits option.splits if_splits)

text \<open>At most \<open>n\<close> attempts of one request, the last of which gave the result.\<close>

definition tries :: "gh_fns \<Rightarrow> github_api \<Rightarrow> gh_request \<Rightarrow> nat \<Rightarrow> gh_error + json \<Rightarrow> exchanges \<Rightarrow> bool" where
  "tries F A rq n r t =
     (t \<noteq> [] \<and> length t \<le> n \<and> (\<forall>x\<in>set t. fst x = sent A rq) \<and> (\<forall>x\<in>set (butlast t). reply_json F x = None)
      \<and> reply_json F (last t) = (case r of Inr v \<Rightarrow> Some v | Inl _ \<Rightarrow> None))"

lemma send_attempt_emits:
  "\<exists>t. snd (send_attempt F A rq k h) = h @ t
     \<and> tries F A rq (Suc (ry_attempts (ga_retry A) - k)) (fst (send_attempt F A rq k h)) t"
proof (induction F A rq k h rule: send_attempt.induct)
  case (1 F A rq k h)
  obtain x where x: "snd (send_once F A rq h) = h @ [x]" "fst x = sent A rq"
    "reply_json F x = (case fst (send_once F A rq h) of Inr v \<Rightarrow> Some v | Inl _ \<Rightarrow> None)" using send_once_emits by blast
  show ?case
  proof (cases "send_once F A rq h")
    case (Pair r h1)
    have h1: "h1 = h @ [x]" using x(1) Pair by simp
    show ?thesis
    proof (cases r)
      case (Inr v)
      then have "send_attempt F A rq k h = (Inr v, h1)" using Pair by (subst send_attempt.simps) simp
      then show ?thesis using x h1 Pair Inr by (intro exI[of _ "[x]"]) (simp add: tries_def)
    next
      case (Inl f)
      obtain e hint elapsed where f: "f = (e, hint, elapsed)" by (cases f)
      let ?stop = "\<not> is_transient e \<or> ry_attempts (ga_retry A) \<le> k
        \<or> ry_deadline (ga_retry A) < elapsed + backoff_for A hint k"
      show ?thesis
      proof (cases ?stop)
        case True
        then have "send_attempt F A rq k h = (Inl e, h1)" using Pair Inl f by (subst send_attempt.simps) simp
        then show ?thesis using x h1 Pair Inl by (intro exI[of _ "[x]"]) (simp add: tries_def)
      next
        case False
        then have eq: "send_attempt F A rq k h = send_attempt F A rq (k + 1) h1"
          using Pair Inl f by (subst send_attempt.simps) simp
        have "\<exists>t. snd (send_attempt F A rq (k + 1) h1) = h1 @ t
            \<and> tries F A rq (Suc (ry_attempts (ga_retry A) - (k + 1))) (fst (send_attempt F A rq (k + 1) h1)) t"
          by (rule "1.IH"[OF Pair[symmetric] Inl f[symmetric] refl False])
        then obtain t where t: "snd (send_attempt F A rq (k + 1) h1) = h1 @ t"
          "tries F A rq (Suc (ry_attempts (ga_retry A) - (k + 1))) (fst (send_attempt F A rq (k + 1) h1)) t" by blast
        have "tries F A rq (Suc (ry_attempts (ga_retry A) - k)) (fst (send_attempt F A rq (k + 1) h1)) (x # t)"
          using t(2) False x(2,3) Pair Inl by (auto simp: tries_def)
        then show ?thesis unfolding eq using t(1) h1 by (intro exI[of _ "x # t"]) simp
      qed
    qed
  qed
qed

lemma emits_idempotent: "emits (send_idempotent F A rq) (tries F A rq (max 1 (ry_attempts (ga_retry A))))"
proof -
  have "Suc (ry_attempts (ga_retry A) - 1) = max 1 (ry_attempts (ga_retry A))" by simp
  then show ?thesis using send_attempt_emits[of F A rq 1] unfolding emits_def send_idempotent_def by metis
qed

lemma emits_post: "emits (send_post F A rq) (tries F A rq 1)"
proof (rule emitsI)
  fix h
  obtain x where x: "snd (send_once F A rq h) = h @ [x]" "fst x = sent A rq"
    "reply_json F x = (case fst (send_once F A rq h) of Inr v \<Rightarrow> Some v | Inl _ \<Rightarrow> None)" using send_once_emits by blast
  then show "\<exists>t. snd (send_post F A rq h) = h @ t \<and> tries F A rq 1 (fst (send_post F A rq h)) t"
    by (intro exI[of _ "[x]"]) (auto simp: send_post_def tries_def split: prod.splits sum.splits)
qed

lemma triesD:
  assumes "tries F A rq n r t"
  shows "\<And>x. x \<in> set t \<Longrightarrow> fst x = sent A rq" "t \<noteq> []" "length t \<le> n"
    "\<And>x v. x \<in> set t \<Longrightarrow> reply_json F x = Some v \<Longrightarrow> r = Inr v"
    "\<And>v. r = Inr v \<Longrightarrow> \<exists>x\<in>set t. reply_json F x = Some v"
proof -
  show "\<And>x. x \<in> set t \<Longrightarrow> fst x = sent A rq" "t \<noteq> []" "length t \<le> n" using assms by (auto simp: tries_def)
  have l: "last t \<in> set t" using assms by (simp add: tries_def)
  show "\<exists>x\<in>set t. reply_json F x = Some v" if "r = Inr v" for v using assms that l by (auto simp: tries_def)
  show "r = Inr v" if "x \<in> set t" "reply_json F x = Some v" for x v
  proof (cases "x \<in> set (butlast t)")
    case True
    then show ?thesis using assms that(2) by (simp add: tries_def)
  next
    case False
    then have "x = last t" using that(1) assms by (metis append_butlast_last_id rotate1.simps(2) set_ConsD set_rotate1 tries_def)
    then show ?thesis using assms that(2) by (auto simp: tries_def split: sum.splits)
  qed
qed

lemma tries_one: "tries F A rq 1 r t \<Longrightarrow> \<exists>reply. t = [(sent A rq, reply)]"
  by (cases t) (auto simp: tries_def prod_eq_iff intro: exI[of _ "snd (hd t)"])

lemma sent_sel [simp]:
  "gq_method (sent A rq) = gq_method rq" "gq_url (sent A rq) = gq_url rq" "gq_body (sent A rq) = gq_body rq"
  by (simp_all add: sent_def)

lemma req_sel [simp]:
  "gq_method (get_req u) = ''GET''" "gq_url (get_req u) = u" "gq_body (get_req u) = None"
  "gq_method (json_req m u b) = m" "gq_url (json_req m u b) = u" "gq_body (json_req m u b) = Some b"
  by (simp_all add: get_req_def json_req_def)

section \<open>Reads\<close>

definition only_reads :: "exchanges \<Rightarrow> bool" where
  "only_reads t = (\<forall>x\<in>set t. gq_method (fst x) = ''GET'')"

lemma only_reads_simps [simp]:
  "only_reads []" "only_reads (t @ u) \<longleftrightarrow> only_reads t \<and> only_reads u"
  by (auto simp: only_reads_def)

lemma tries_reads: "tries F A (get_req u) n r t \<Longrightarrow> only_reads t"
  by (auto simp: only_reads_def dest: triesD(1))

lemma emits_get: "emits (send_idempotent F A (get_req u)) (\<lambda>r t. only_reads t)"
  by (rule emits_mono[OF emits_idempotent]) (rule tries_reads)

text \<open>The comments in the arrays that were answered.\<close>

definition comments_in :: "gh_fns \<Rightarrow> string \<Rightarrow> exchanges \<Rightarrow> gh_comment set" where
  "comments_in F what t =
     {c. \<exists>x\<in>set t. \<exists>v arr j. reply_json F x = Some v \<and> as_array v = Some arr \<and> j \<in> set arr \<and> parse_comment what j = Inr c}"

lemma comments_in_simps [simp]:
  "comments_in F what [] = {}" "comments_in F what (t @ u) = comments_in F what t \<union> comments_in F what u"
  by (auto simp: comments_in_def)

lemma set_parse_comments:
  "parse_comments what arr = Inr cs \<Longrightarrow> set cs = {c. \<exists>j\<in>set arr. parse_comment what j = Inr c}"
proof (induction arr arbitrary: cs)
  case (Cons j arr)
  then obtain x xs where "parse_comment what j = Inr x" "parse_comments what arr = Inr xs" "cs = x # xs"
    by (auto split: sum.splits)
  with Cons.IH show ?case by auto
qed simp

lemma comments_in_tries:
  assumes "tries F A rq n (Inr v) t" and "as_array v = Some arr" and "parse_comments what arr = Inr cs"
  shows "comments_in F what t = set cs"
proof -
  obtain x where x: "x \<in> set t" "reply_json F x = Some v" using triesD(5)[OF assms(1) refl] by blast
  have only: "w = v" if "y \<in> set t" "reply_json F y = Some w" for y w using triesD(4)[OF assms(1) that] by simp
  have "comments_in F what t \<subseteq> {c. \<exists>j\<in>set arr. parse_comment what j = Inr c}"
    unfolding comments_in_def using only assms(2) by force
  moreover have "{c. \<exists>j\<in>set arr. parse_comment what j = Inr c} \<subseteq> comments_in F what t"
    unfolding comments_in_def using x assms(2) by blast
  ultimately show ?thesis unfolding set_parse_comments[OF assms(3)] by (rule equalityI)
qed

text \<open>A listing reads pages only, and returns every comment that the pages answered.\<close>

definition lists :: "gh_fns \<Rightarrow> string \<Rightarrow> string \<Rightarrow> gh_comment list \<Rightarrow> gh_error + gh_comment list \<Rightarrow> exchanges \<Rightarrow> bool" where
  "lists F url what out r t =
     (only_reads t \<and> (\<forall>x\<in>set t. \<exists>p. gq_url (fst x) = page_url url p)
      \<and> (\<forall>cs. r = Inr cs \<longrightarrow> set cs = set out \<union> comments_in F what t))"

lemma emits_pages: "emits (list_pages F A url what pages out) (lists F url what out)"
proof (induction pages arbitrary: out)
  case Nil
  then show ?case by (auto intro: emits_fail simp: lists_def)
next
  case (Cons page pages)
  let ?rq = "get_req (page_url url page)" and ?n = "max 1 (ry_attempts (ga_retry A))"
  have page: "only_reads t \<and> (\<forall>x\<in>set t. \<exists>p. gq_url (fst x) = page_url url p)" if t: "tries F A ?rq ?n r t" for r t
    using tries_reads[OF t] by (simp add: triesD(1)[OF t]) blast
  have step: "emits (case parse_comments what arr of
        Inl e \<Rightarrow> gh_fail e
      | Inr cs \<Rightarrow> if length arr < 100 then gh_ret (out @ cs) else list_pages F A url what pages (out @ cs))
        (\<lambda>r u. lists F url what out r (t @ u))" if t: "tries F A ?rq ?n (Inr v) t" and arr: "as_array v = Some arr" for v arr t
  proof (cases "parse_comments what arr")
    case (Inl e)
    then show ?thesis using page[OF t] by (auto intro!: emits_fail simp: lists_def)
  next
    case (Inr cs)
    note c = comments_in_tries[OF t arr Inr]
    show ?thesis
    proof (cases "length arr < 100")
      case True
      then show ?thesis using Inr page[OF t] c by (auto intro!: emits_ret simp: lists_def)
    next
      case False
      have "emits (list_pages F A url what pages (out @ cs)) (\<lambda>r u. lists F url what out r (t @ u))"
        by (rule emits_mono[OF Cons.IH]) (use page[OF t] c in \<open>auto simp: lists_def\<close>)
      then show ?thesis using Inr False by simp
    qed
  qed
  show ?case unfolding list_pages.simps
  proof (rule emits_then[OF emits_idempotent])
    fix e t
    assume "tries F A ?rq ?n (Inl e) t"
    then show "lists F url what out (Inl e) t" using page by (simp add: lists_def)
  next
    fix v t
    assume t: "tries F A ?rq ?n (Inr v) t"
    show "emits (gh_then (need (''malformed GitHub '' @ what @ '' list: not an array'') (as_array v))
          (\<lambda>arr. case parse_comments what arr of Inl e \<Rightarrow> gh_fail e
             | Inr cs \<Rightarrow> if length arr < 100 then gh_ret (out @ cs) else list_pages F A url what pages (out @ cs)))
        (\<lambda>r u. lists F url what out r (t @ u))"
      by (rule emits_then[OF emits_need[where Q = "\<lambda>r u. u = [] \<and> (\<forall>arr. r = Inr arr \<longrightarrow> as_array v = Some arr)"]])
        (use page[OF t] step[OF t] in \<open>auto simp: lists_def\<close>)
  qed
qed

definition issue_comments_url :: "github_api \<Rightarrow> string \<Rightarrow> string \<Rightarrow> nat \<Rightarrow> string" where
  "issue_comments_url A owner repo n = repo_url A owner repo (''/issues/'' @ nat_str n @ ''/comments'')"

definition review_comments_url :: "github_api \<Rightarrow> string \<Rightarrow> string \<Rightarrow> nat \<Rightarrow> string" where
  "review_comments_url A owner repo n = repo_url A owner repo (''/pulls/'' @ nat_str n @ ''/comments'')"

lemma emits_listings:
  "emits (list_issue_comments F A owner repo n) (lists F (issue_comments_url A owner repo n) ''issue comment'' [])"
  "emits (list_review_comments F A owner repo n) (lists F (review_comments_url A owner repo n) ''review comment'' [])"
  by (simp_all add: list_issue_comments_def list_review_comments_def list_comments_def emits_pages
      issue_comments_url_def review_comments_url_def)

text \<open>The login that an exchange with \<open>/user\<close> answered.\<close>

definition user_login :: "gh_fns \<Rightarrow> github_api \<Rightarrow> gh_request \<times> gh_reply \<Rightarrow> string option" where
  "user_login F A x =
     (if gq_url (fst x) = ga_base A @ ''/user''
      then Option.bind (reply_json F x) (\<lambda>v. as_str (jidx v ''login'')) else None)"

lemma emits_viewer:
  "emits (viewer_login F A) (\<lambda>v t. only_reads t \<and> (\<forall>x\<in>set t. gq_url (fst x) = ga_base A @ ''/user'')
     \<and> (\<forall>x\<in>set t. \<forall>a. user_login F A x = Some a \<longrightarrow> v = Some a) \<and> (v \<noteq> None \<longrightarrow> (\<exists>x\<in>set t. user_login F A x = v)))"
proof (rule emitsI)
  fix h
  let ?rq = "get_req (ga_base A @ ''/user'')" and ?n = "max 1 (ry_attempts (ga_retry A))"
  obtain t where t: "snd (send_idempotent F A ?rq h) = h @ t" "tries F A ?rq ?n (fst (send_idempotent F A ?rq h)) t"
    by (rule emitsE[OF emits_idempotent])
  have u: "\<forall>x\<in>set t. gq_url (fst x) = ga_base A @ ''/user''" using triesD(1)[OF t(2)] by simp
  show "\<exists>t. snd (viewer_login F A h) = h @ t \<and> only_reads t \<and> (\<forall>x\<in>set t. gq_url (fst x) = ga_base A @ ''/user'')
     \<and> (\<forall>x\<in>set t. \<forall>a. user_login F A x = Some a \<longrightarrow> fst (viewer_login F A h) = Some a)
     \<and> (fst (viewer_login F A h) \<noteq> None \<longrightarrow> (\<exists>x\<in>set t. user_login F A x = fst (viewer_login F A h)))"
  proof (cases "send_idempotent F A ?rq h")
    case (Pair r h1)
    have none: "\<forall>x\<in>set t. user_login F A x = None" if "r = Inl e" for e
    proof
      fix x
      assume "x \<in> set t"
      then have "reply_json F x = None" using that triesD(4)[OF t(2), of x] Pair by (cases "reply_json F x") auto
      then show "user_login F A x = None" by (simp add: user_login_def)
    qed
    show ?thesis
    proof (cases r)
      case (Inl e)
      then show ?thesis using none[OF Inl] t(1) Pair u tries_reads[OF t(2)] by (intro exI[of _ t]) (simp add: viewer_login_def)
    next
      case (Inr v)
      have all: "\<And>x w. x \<in> set t \<Longrightarrow> reply_json F x = Some w \<Longrightarrow> w = v" using triesD(4)[OF t(2)] Pair Inr by auto
      have ex: "\<exists>x\<in>set t. reply_json F x = Some v" using triesD(5)[OF t(2)] Pair Inr by simp
      have r: "fst (viewer_login F A h) = as_str (jidx v ''login'')" "snd (viewer_login F A h) = h @ t"
        using t(1) Pair Inr by (simp_all add: viewer_login_def)
      have a: "\<forall>x\<in>set t. \<forall>a. user_login F A x = Some a \<longrightarrow> fst (viewer_login F A h) = Some a"
        unfolding r using all by (auto simp: user_login_def bind_eq_Some_conv split: if_splits)
      have b: "\<exists>x\<in>set t. user_login F A x = fst (viewer_login F A h)"
      proof -
        obtain x where x: "x \<in> set t" "reply_json F x = Some v" using ex by blast
        then have "user_login F A x = as_str (jidx v ''login'')" using u by (simp add: user_login_def)
        then show ?thesis using x(1) r by auto
      qed
      show ?thesis using a b r(2) u tries_reads[OF t(2)] by blast
    qed
  qed
qed

end
