(* ===== verification/Publish_Props.thy ===== *)
theory Publish_Props
  imports Publish Github_Props
begin

text \<open>
  What \<open>publish\<close> does to a pull request: nothing when the target moved, no inline comment that is
  there already, at most one review and one summary comment, edits of its own comment only; and the
  state blob it leaves is the one the next run reads.
\<close>

section \<open>Requests\<close>

definition pull_url :: "github_api \<Rightarrow> pr_event \<Rightarrow> string" where
  "pull_url A ev = repo_url A (fst (owner_repo ev)) (snd (owner_repo ev)) (''/pulls/'' @ nat_str (pe_number ev))"

definition reviews_url :: "github_api \<Rightarrow> pr_event \<Rightarrow> string" where
  "reviews_url A ev =
     repo_url A (fst (owner_repo ev)) (snd (owner_repo ev)) (''/pulls/'' @ nat_str (pe_number ev) @ ''/reviews'')"

definition listing_url :: "github_api \<Rightarrow> pr_event \<Rightarrow> string" where
  "listing_url A ev = review_comments_url A (fst (owner_repo ev)) (snd (owner_repo ev)) (pe_number ev)"

definition summaries_url :: "github_api \<Rightarrow> pr_event \<Rightarrow> string" where
  "summaries_url A ev = issue_comments_url A (fst (owner_repo ev)) (snd (owner_repo ev)) (pe_number ev)"

definition comment_url :: "github_api \<Rightarrow> pr_event \<Rightarrow> nat \<Rightarrow> string" where
  "comment_url A ev i = repo_url A (fst (owner_repo ev)) (snd (owner_repo ev)) (''/issues/comments/'' @ nat_str i)"

definition review_payload :: "gh_fns \<Rightarrow> string \<Rightarrow> string \<Rightarrow> review_comment list \<Rightarrow> json" where
  "review_payload G head body cs =
     JObj [(''commit_id'', JStr head), (''event'', JStr ''COMMENT''), (''body'', JStr (gf_redact G body)),
           (''comments'', JArr (map (review_comment_json G) cs))]"

definition review_request_of :: "publish_fns \<Rightarrow> github_api \<Rightarrow> pr_event \<Rightarrow> string \<Rightarrow> review_comment list \<Rightarrow> gh_request" where
  "review_request_of F A ev head cs =
     sent A (json_req ''POST'' (reviews_url A ev) (review_payload (pf_gh F) head review_body cs))"

lemma emits_create_review:
  "emits (create_review (pf_gh F) A (fst (owner_repo ev)) (snd (owner_repo ev)) (pe_number ev) head review_body cs)
     (\<lambda>r t. \<exists>reply. t = [(review_request_of F A ev head cs, reply)])"
  unfolding create_review_def review_request_of_def reviews_url_def review_payload_def
proof (rule emits_then[OF emits_post])
  fix v t
  assume "tries (pf_gh F) A (json_req ''POST''
      (repo_url A (fst (owner_repo ev)) (snd (owner_repo ev)) (''/pulls/'' @ nat_str (pe_number ev) @ ''/reviews''))
      (JObj [(''commit_id'', JStr head), (''event'', JStr ''COMMENT''), (''body'', JStr (gf_redact (pf_gh F) review_body)),
        (''comments'', JArr (map (review_comment_json (pf_gh F)) cs))])) 1 (Inr v) t"
  from tries_one[OF this] show "emits (need ''malformed GitHub review response: missing id'' (positive_id v))
      (\<lambda>r u. \<exists>reply. t @ u = [(sent A (json_req ''POST''
      (repo_url A (fst (owner_repo ev)) (snd (owner_repo ev)) (''/pulls/'' @ nat_str (pe_number ev) @ ''/reviews''))
      (JObj [(''commit_id'', JStr head), (''event'', JStr ''COMMENT''), (''body'', JStr (gf_redact (pf_gh F) review_body)),
        (''comments'', JArr (map (review_comment_json (pf_gh F)) cs))])), reply)])"
    by (intro emits_need) auto
qed (rule tries_one)

text \<open>Reads of the repository; they are no requests for the login.\<close>

definition repo_reads :: "github_api \<Rightarrow> exchanges \<Rightarrow> bool" where
  "repo_reads A t = (\<forall>x\<in>set t. gq_method (fst x) = ''GET'' \<and> starts_with (gq_url (fst x)) (ga_base A @ ''/repos/''))"

lemma repo_reads_simps [simp]: "repo_reads A []" "repo_reads A (t @ u) \<longleftrightarrow> repo_reads A t \<and> repo_reads A u"
  by (auto simp: repo_reads_def)

lemma starts_repo_url: "starts_with (repo_url A owner repo rest @ q) (ga_base A @ ''/repos/'')"
  using starts_with_append[of "ga_base A @ ''/repos/''" "owner @ ''/'' @ repo @ rest @ q"]
  by (simp add: repo_url_def)

lemma listing_reads:
  "lists F (issue_comments_url A owner repo n) what out r t \<Longrightarrow> repo_reads A t"
  "lists F (review_comments_url A owner repo n) what out r t \<Longrightarrow> repo_reads A t"
  unfolding lists_def repo_reads_def only_reads_def page_url_def issue_comments_url_def review_comments_url_def
  by (metis starts_repo_url)+

lemma emits_listing_reads: "emits (list_review_comments G A owner repo n) (\<lambda>r t. repo_reads A t)"
  by (rule emits_mono[OF emits_listings(2)]) (rule listing_reads(2))

lemma emits_reconcile: "emits (reconcile_review G A ev me ids) (\<lambda>r t. repo_reads A t)"
proof (rule emitsI)
  fix h
  obtain t where "snd (list_review_comments G A (fst (owner_repo ev)) (snd (owner_repo ev)) (pe_number ev) h) = h @ t" "repo_reads A t"
    by (rule emitsE[OF emits_listing_reads])
  then show "\<exists>t. snd (reconcile_review G A ev me ids h) = h @ t \<and> repo_reads A t"
    by (cases "ids = []") (auto simp: reconcile_review_def split: prod.splits sum.splits)
qed

text \<open>The inline review is one request, and reads after it.\<close>

lemma emits_post_review:
  "emits (post_review F A ev me head cs st) (\<lambda>r t. if cs = [] then t = []
     else \<exists>reply u. t = (review_request_of F A ev head cs, reply) # u \<and> repo_reads A u)"
proof (rule emitsI)
  fix h
  let ?c = "create_review (pf_gh F) A (fst (owner_repo ev)) (snd (owner_repo ev)) (pe_number ev) head review_body cs h"
  let ?ids = "List.map_filter (\<lambda>c. revera_id (rv_body c)) cs"
  show "\<exists>t. snd (post_review F A ev me head cs st h) = h @ t \<and> (if cs = [] then t = []
     else \<exists>reply u. t = (review_request_of F A ev head cs, reply) # u \<and> repo_reads A u)"
  proof (cases "cs = []")
    case False
    obtain reply where c: "snd ?c = h @ [(review_request_of F A ev head cs, reply)]"
      by (rule emitsE[OF emits_create_review]) blast
    obtain u where u: "snd (reconcile_review (pf_gh F) A ev me ?ids (snd ?c)) = snd ?c @ u" "repo_reads A u"
      by (rule emitsE[OF emits_reconcile])
    have "snd (post_review F A ev me head cs st h) = snd ?c \<or> snd (post_review F A ev me head cs st h) = snd ?c @ u"
      using False u(1) by (auto simp: post_review_def Let_def split: prod.splits sum.splits bool.splits)
    then show ?thesis using False c u(2) by (auto intro: exI[of _ "[]"])
  qed (simp add: post_review_def)
qed

section \<open>The summary comment\<close>

text \<open>The comments that may be edited: own ones among those that were listed, and one that was created.\<close>

definition own_ids :: "publish_fns \<Rightarrow> string \<Rightarrow> gh_identity \<Rightarrow> exchanges \<Rightarrow> nat set" where
  "own_ids F mkr me t =
     gc_id ` {c \<in> comments_in (pf_gh F) ''issue comment'' t. managed_candidate F mkr me c}
     \<union> {i. \<exists>x\<in>set t. gq_method (fst x) = ''POST'' \<and> Option.bind (reply_json (pf_gh F) x) positive_id = Some i}"

lemma own_ids_append [simp]: "own_ids F mkr me (t @ u) = own_ids F mkr me t \<union> own_ids F mkr me u"
  by (auto simp: own_ids_def)

definition summary_exchange :: "publish_fns \<Rightarrow> github_api \<Rightarrow> pr_event \<Rightarrow> nat set \<Rightarrow> gh_request \<Rightarrow> bool" where
  "summary_exchange F A ev own rq =
     ((gq_method rq = ''GET'' \<and> starts_with (gq_url rq) (ga_base A @ ''/repos/'')) \<or> (gq_method rq = ''POST'' \<and> gq_url rq = summaries_url A ev)
      \<or> (gq_method rq = ''PATCH'' \<and> gq_url rq \<in> comment_url A ev ` own))"

definition posts :: "exchanges \<Rightarrow> exchanges" where
  "posts t = filter (\<lambda>x. gq_method (fst x) = ''POST'') t"

lemma posts_simps [simp]: "posts [] = []" "posts (t @ u) = posts t @ posts u"
  by (auto simp: posts_def)

lemma posts_reads: "repo_reads A t \<Longrightarrow> posts t = []"
  by (auto simp: posts_def repo_reads_def filter_empty_conv)

definition summary_trace :: "publish_fns \<Rightarrow> github_api \<Rightarrow> pr_event \<Rightarrow> nat set \<Rightarrow> nat \<Rightarrow> exchanges \<Rightarrow> bool" where
  "summary_trace F A ev own n t = ((\<forall>x\<in>set t. summary_exchange F A ev own (fst x)) \<and> length (posts t) \<le> n)"

lemma summary_trace_reads: "repo_reads A t \<Longrightarrow> summary_trace F A ev own 0 t"
  by (auto simp: summary_trace_def summary_exchange_def repo_reads_def posts_def filter_empty_conv)

lemma summary_trace_append:
  "summary_trace F A ev own m t \<Longrightarrow> summary_trace F A ev own n u \<Longrightarrow> summary_trace F A ev own (m + n) (t @ u)"
  by (auto simp: summary_trace_def)

lemma summary_trace_mono:
  "summary_trace F A ev own m t \<Longrightarrow> own \<subseteq> own' \<Longrightarrow> m \<le> n \<Longrightarrow> summary_trace F A ev own' n t"
  by (fastforce simp: summary_trace_def summary_exchange_def)

lemma emits_update:
  "i \<in> own \<Longrightarrow> emits (update_issue_comment (pf_gh F) A (fst (owner_repo ev)) (snd (owner_repo ev)) i body)
     (\<lambda>r t. summary_trace F A ev own 0 t)"
  unfolding update_issue_comment_def Let_def
proof (rule emits_then[OF emits_idempotent])
  assume i: "i \<in> own"
  let ?rq = "json_req ''PATCH'' (repo_url A (fst (owner_repo ev)) (snd (owner_repo ev)) (''/issues/comments/'' @ nat_str i))
    (JObj [(''body'', JStr (gf_redact (pf_gh F) body))])"
  have patch: "summary_trace F A ev own 0 t" if "tries (pf_gh F) A ?rq n r t" for n r t
    using i triesD(1)[OF that]
    by (auto simp: summary_trace_def summary_exchange_def comment_url_def posts_def filter_empty_conv)
  fix v t
  assume "tries (pf_gh F) A ?rq (max 1 (ry_attempts (ga_retry A))) (Inr v) t"
  from patch[OF this] show "emits (case parse_comment ''updated comment'' v of Inl e \<Rightarrow> gh_fail e
      | Inr c \<Rightarrow> if gc_id c \<noteq> i then gh_fail (Api_Error (''malformed GitHub response: updated comment '' @ nat_str (gc_id c)
                   @ '' but asked for '' @ nat_str i)) else gh_ret (c\<lparr>gc_body := gf_redact (pf_gh F) body\<rparr>))
      (\<lambda>r u. summary_trace F A ev own 0 (t @ u))"
    by (auto intro!: emits_rules split: sum.splits)
next
  assume i: "i \<in> own"
  fix e t
  assume "tries (pf_gh F) A (json_req ''PATCH'' (repo_url A (fst (owner_repo ev)) (snd (owner_repo ev)) (''/issues/comments/'' @ nat_str i))
    (JObj [(''body'', JStr (gf_redact (pf_gh F) body))])) (max 1 (ry_attempts (ga_retry A))) (Inl e) t"
  from triesD(1)[OF this] show "summary_trace F A ev own 0 t" using i
    by (auto simp: summary_trace_def summary_exchange_def comment_url_def posts_def filter_empty_conv)
qed

lemma emits_create:
  "emits (create_issue_comment (pf_gh F) A (fst (owner_repo ev)) (snd (owner_repo ev)) (pe_number ev) body)
     (\<lambda>r t. summary_trace F A ev {} 1 t \<and> (\<forall>c. r = Inr c \<longrightarrow> gc_id c \<in> own_ids F mkr me t))"
  unfolding create_issue_comment_def Let_def
proof (rule emits_then[OF emits_post])
  let ?rq = "json_req ''POST'' (repo_url A (fst (owner_repo ev)) (snd (owner_repo ev)) (''/issues/'' @ nat_str (pe_number ev) @ ''/comments''))
    (JObj [(''body'', JStr (gf_redact (pf_gh F) body))])"
  have one: "summary_trace F A ev {} 1 t" if "tries (pf_gh F) A ?rq 1 r t" for r t
    using tries_one[OF that]
    by (auto simp: summary_trace_def summary_exchange_def summaries_url_def issue_comments_url_def posts_def)
  fix e t
  assume "tries (pf_gh F) A ?rq 1 (Inl e) t"
  then show "summary_trace F A ev {} 1 t \<and> (\<forall>c. Inl e = Inr c \<longrightarrow> gc_id c \<in> own_ids F mkr me t)" using one by simp
next
  let ?rq = "json_req ''POST'' (repo_url A (fst (owner_repo ev)) (snd (owner_repo ev)) (''/issues/'' @ nat_str (pe_number ev) @ ''/comments''))
    (JObj [(''body'', JStr (gf_redact (pf_gh F) body))])"
  fix v t
  assume t: "tries (pf_gh F) A ?rq 1 (Inr v) t"
  then obtain x where x: "x \<in> set t" "reply_json (pf_gh F) x = Some v" using triesD(5) by blast
  have m: "gq_method (fst x) = ''POST''" using triesD(1)[OF t x(1)] by simp
  have own: "gc_id c \<in> own_ids F mkr me t" if "parse_comment ''created comment'' v = Inr c" for c
    using that x m by (auto simp: own_ids_def parse_comment_def split: option.splits intro!: bexI[OF _ x(1)])
  have one: "summary_trace F A ev {} 1 t"
    using tries_one[OF t]
    by (auto simp: summary_trace_def summary_exchange_def summaries_url_def issue_comments_url_def posts_def)
  show "emits (case parse_comment ''created comment'' v of Inl e \<Rightarrow> gh_fail e
      | Inr c \<Rightarrow> gh_ret (c\<lparr>gc_body := gf_redact (pf_gh F) body\<rparr>))
      (\<lambda>r u. summary_trace F A ev {} 1 (t @ u) \<and> (\<forall>c. r = Inr c \<longrightarrow> gc_id c \<in> own_ids F mkr me (t @ u)))"
    using one own by (auto intro!: emits_rules split: sum.splits)
qed

lemma found_member: "List.find P xs = Some x \<Longrightarrow> x \<in> set xs"
  by (auto simp: find_Some_iff)

lemma find_managed_own:
  assumes "find_managed F cs mkr eid me = Some c"
  shows "c \<in> set cs" "managed_candidate F mkr me c"
proof -
  have "c \<in> set (filter (managed_candidate F mkr me) cs)"
    using assms by (auto simp: find_managed_def Let_def simp del: set_filter split: option.splits list.splits
        dest!: found_member)
  then show "c \<in> set cs" "managed_candidate F mkr me c" by auto
qed

lemma emits_adopt:
  "gc_id c \<in> own \<Longrightarrow> emits (adopt F A ev mkr report staged c) (\<lambda>r t. summary_trace F A ev own 0 t)"
proof (rule emitsI)
  fix h
  assume c: "gc_id c \<in> own"
  define b where "b = summary_text F mkr report (staged\<lparr>rs_summary_comment_id := Some (gc_id c)\<rparr>)
    @ (case fix_status_block (gc_body c) of Some b \<Rightarrow> nl @ b | None \<Rightarrow> []) @ nl
    @ state_blob F report (staged\<lparr>rs_summary_comment_id := Some (gc_id c)\<rparr>)"
  have "snd (adopt F A ev mkr report staged c h)
      = snd (update_issue_comment (pf_gh F) A (fst (owner_repo ev)) (snd (owner_repo ev)) (gc_id c) b h)"
    by (simp add: adopt_def Let_def b_def split: prod.splits)
  with emits_update[OF c, of F A ev b]
  show "\<exists>t. snd (adopt F A ev mkr report staged c h) = h @ t \<and> summary_trace F A ev own 0 t" by (metis emitsE)
qed

lemma emits_summaries:
  "emits (list_issue_comments (pf_gh F) A owner repo n)
     (\<lambda>r t. repo_reads A t \<and> (\<forall>cs. r = Inr cs \<longrightarrow> set cs = comments_in (pf_gh F) ''issue comment'' t))"
  by (rule emits_mono[OF emits_listings(1)]) (rule conjI, erule listing_reads(1), simp add: lists_def)

lemma emits_create_summary:
  "emits (create_summary F A ev me mkr report staged body) (\<lambda>r t. summary_trace F A ev (own_ids F mkr me t) 1 t)"
proof (rule emitsI)
  fix h
  let ?b = "body @ nl @ state_blob F report staged"
  let ?create = "create_issue_comment (pf_gh F) A (fst (owner_repo ev)) (snd (owner_repo ev)) (pe_number ev) ?b h"
  let ?goal = "\<exists>t. snd (create_summary F A ev me mkr report staged body h) = h @ t
    \<and> summary_trace F A ev (own_ids F mkr me t) 1 t"
  obtain t where t: "snd ?create = h @ t" "summary_trace F A ev {} 1 t"
    "\<forall>c. fst ?create = Inr c \<longrightarrow> gc_id c \<in> own_ids F mkr me t"
    by (rule emitsE[OF emits_create[of F A ev ?b mkr me], of h]) blast
  have closing: ?goal if "snd (create_summary F A ev me mkr report staged body h) = h @ t @ u"
    "summary_trace F A ev (own_ids F mkr me (t @ u)) 0 u" for u
  proof -
    have "summary_trace F A ev (own_ids F mkr me (t @ u)) (1 + 0) (t @ u)"
      by (rule summary_trace_append[OF summary_trace_mono[OF t(2)] that(2)]) simp_all
    then show ?thesis using that(1) by (intro exI[of _ "t @ u"]) simp
  qed
  show ?goal
  proof (cases ?create)
    case (Pair r h1)
    have h1: "h1 = h @ t" using t(1) Pair by simp
    show ?thesis
    proof (cases r)
      case (Inr c)
      have "gc_id c \<in> own_ids F mkr me t" using t(3) Pair Inr by simp
      from emits_adopt[OF this] obtain u where u: "snd (adopt F A ev mkr report staged c h1) = h1 @ u"
        "summary_trace F A ev (own_ids F mkr me t) 0 u" by (metis emitsE)
      show ?thesis by (rule closing[of u]) (use Pair Inr u h1 in \<open>auto simp: create_summary_def Let_def intro: summary_trace_mono\<close>)
    next
      case (Inl e)
      show ?thesis
      proof (cases "is_ambiguous e")
        case False
        show ?thesis by (rule closing[of "[]"]) (use Pair Inl False h1 in \<open>auto simp: create_summary_def Let_def summary_trace_reads\<close>)
      next
        case True
        let ?list = "list_issue_comments (pf_gh F) A (fst (owner_repo ev)) (snd (owner_repo ev)) (pe_number ev) h1"
        obtain u where u: "snd ?list = h1 @ u" "repo_reads A u"
          "\<forall>cs. fst ?list = Inr cs \<longrightarrow> set cs = comments_in (pf_gh F) ''issue comment'' u"
          by (rule emitsE[OF emits_summaries, of F A "fst (owner_repo ev)" "snd (owner_repo ev)" "pe_number ev" h1]) blast
        have stop: ?thesis if "snd (create_summary F A ev me mkr report staged body h) = snd ?list"
          by (rule closing[of u]) (use that u h1 in \<open>simp_all add: summary_trace_reads\<close>)
        show ?thesis
        proof (cases ?list)
          case (Pair r2 h2)
          note list = Pair
          show ?thesis
          proof (cases r2)
            case (Inl e')
            then show ?thesis using stop list \<open>?create = (r, h1)\<close> \<open>r = Inl e\<close> True by (simp add: create_summary_def Let_def)
          next
            case (Inr now)
            show ?thesis
            proof (cases "find_managed F now mkr None me")
              case None
              then show ?thesis using stop list Inr \<open>?create = (r, h1)\<close> \<open>r = Inl e\<close> True by (simp add: create_summary_def Let_def)
            next
              case (Some c)
              have "gc_id c \<in> own_ids F mkr me u"
                using find_managed_own[OF Some] u(3) list Inr by (auto simp: own_ids_def)
              from emits_adopt[OF this] obtain w where w: "snd (adopt F A ev mkr report staged c h2) = h2 @ w"
                "summary_trace F A ev (own_ids F mkr me u) 0 w" by (metis emitsE)
              have "summary_trace F A ev (own_ids F mkr me (t @ u @ w)) (0 + 0) (u @ w)"
                by (rule summary_trace_append[OF summary_trace_reads[OF u(2)] summary_trace_mono[OF w(2)]]) auto
              then show ?thesis
                by (intro closing[of "u @ w"])
                  (use list Inr Some \<open>?create = (r, h1)\<close> \<open>r = Inl e\<close> True w(1) u(1) h1 in \<open>simp_all add: create_summary_def Let_def\<close>)
            qed
          qed
        qed
      qed
    qed
  qed
qed

lemma emits_upsert:
  "emits (upsert_summary F A ev me mkr report st) (\<lambda>r t. summary_trace F A ev (own_ids F mkr me t) 1 t)"
  unfolding upsert_summary_def Let_def
proof (rule emits_then[OF emits_summaries])
  fix e t
  assume "repo_reads A t \<and> (\<forall>cs. Inl e = Inr cs \<longrightarrow> set cs = comments_in (pf_gh F) ''issue comment'' t)"
  then show "summary_trace F A ev (own_ids F mkr me t) 1 t"
    by (intro summary_trace_mono[OF summary_trace_reads]) auto
next
  fix comments t
  assume "repo_reads A t \<and> (\<forall>cs. Inr comments = Inr cs \<longrightarrow> set cs = comments_in (pf_gh F) ''issue comment'' t)"
  then have t: "repo_reads A t" "set comments = comments_in (pf_gh F) ''issue comment'' t" by simp_all
  have pre: "summary_trace F A ev (own_ids F mkr me (t @ u)) 1 (t @ u)"
    if "summary_trace F A ev own 1 u" "own \<subseteq> own_ids F mkr me (t @ u)" for own u
    using summary_trace_append[OF summary_trace_reads[OF t(1)] summary_trace_mono[OF that(1,2)], of 1] by simp
  show "emits (case find_managed F comments mkr (rs_summary_comment_id st) me of
      None \<Rightarrow> create_summary F A ev me mkr report (mark_posted (surfaced_ids (pf_hash F) (rr_findings report)) st)
        (summary_text F mkr report (mark_posted (surfaced_ids (pf_hash F) (rr_findings report)) st)
         @ (case Option.bind (find_managed F comments mkr (rs_summary_comment_id st) me) (\<lambda>c. fix_status_block (gc_body c)) of
              None \<Rightarrow> [] | Some b \<Rightarrow> nl @ b @ nl))
    | Some c \<Rightarrow> gh_then (update_issue_comment (pf_gh F) A (fst (owner_repo ev)) (snd (owner_repo ev)) (gc_id c)
        ((summary_text F mkr report (mark_posted (surfaced_ids (pf_hash F) (rr_findings report)) st)
         @ (case Option.bind (find_managed F comments mkr (rs_summary_comment_id st) me) (\<lambda>c. fix_status_block (gc_body c)) of
              None \<Rightarrow> [] | Some b \<Rightarrow> nl @ b @ nl))
         @ nl @ state_blob F report (mark_posted (surfaced_ids (pf_hash F) (rr_findings report)) st
                \<lparr>rs_summary_comment_id := Some (gc_id c)\<rparr>)))
        (\<lambda>u. gh_ret (u, mark_posted (surfaced_ids (pf_hash F) (rr_findings report)) st\<lparr>rs_summary_comment_id := Some (gc_id c)\<rparr>)))
      (\<lambda>r u. summary_trace F A ev (own_ids F mkr me (t @ u)) 1 (t @ u))"
  proof (cases "find_managed F comments mkr (rs_summary_comment_id st) me")
    case None
    show ?thesis unfolding None option.case
      by (rule emits_mono[OF emits_create_summary]) (rule pre, assumption, simp)
  next
    case (Some c)
    have c: "gc_id c \<in> own_ids F mkr me t" using find_managed_own[OF Some] t(2) by (auto simp: own_ids_def)
    have q: "summary_trace F A ev (own_ids F mkr me (t @ u)) 1 (t @ u)"
      if "summary_trace F A ev (own_ids F mkr me t) 0 u" for u
      by (rule pre[OF summary_trace_mono[OF that order_refl]]) auto
    show ?thesis unfolding Some option.case
      by (rule emits_then[OF emits_update[OF c]], erule q, rule emits_ret) (simp only: append_Nil2, erule q)
  qed
qed

section \<open>The whole publication\<close>

lemma emits_pull:
  "emits (pull_json G A (fst (owner_repo ev)) (snd (owner_repo ev)) (pe_number ev))
     (\<lambda>r t. (\<forall>x\<in>set t. fst x = sent A (get_req (pull_url A ev)))
        \<and> (\<forall>v. r = Inr v \<longrightarrow> (\<exists>x\<in>set t. reply_json G x = Some v)))"
  unfolding pull_json_def pull_url_def by (rule emits_mono[OF emits_idempotent]) (auto dest: triesD(1) triesD(5))

text \<open>An answer for the pull request that names the reviewed head and base.\<close>

definition says_fresh :: "gh_fns \<Rightarrow> github_api \<Rightarrow> pr_event \<Rightarrow> run_report \<Rightarrow> gh_request \<times> gh_reply \<Rightarrow> bool" where
  "says_fresh G A ev report x =
     (gq_url (fst x) = pull_url A ev
      \<and> (case reply_json G x of
           Some v \<Rightarrow> oid_of (jpath v [''head'', ''sha'']) = Some (rr_head report) \<and> base_name v = Some (pe_base_ref ev)
         | None \<Rightarrow> False))"

lemma emits_target:
  "emits (get_pull_target G A (fst (owner_repo ev)) (snd (owner_repo ev)) (pe_number ev))
     (\<lambda>r t. (\<forall>x\<in>set t. fst x = sent A (get_req (pull_url A ev)))
        \<and> (r = Inr (rr_head report, pe_base_ref ev) \<longrightarrow> (\<exists>x\<in>set t. says_fresh G A ev report x)))"
proof -
  let ?Q = "\<lambda>r t. (\<forall>x\<in>set t. fst x = sent A (get_req (pull_url A ev)))
        \<and> (r = Inr (rr_head report, pe_base_ref ev) \<longrightarrow> (\<exists>x\<in>set t. says_fresh G A ev report x))"
  have step: "emits (gh_then (need ''malformed GitHub pull payload: missing head.sha'' (oid_of (jpath v [''head'', ''sha'']))) (\<lambda>head.
       gh_then (need ''malformed GitHub pull payload: missing base.ref'' (base_name v)) (\<lambda>base. gh_ret (head, base))))
       (\<lambda>r u. ?Q r (t @ u))"
    if t: "(\<forall>x\<in>set t. fst x = sent A (get_req (pull_url A ev)))" "\<exists>x\<in>set t. reply_json G x = Some v" for v t
  proof -
    have fresh: "\<exists>x\<in>set t. says_fresh G A ev report x"
      if "oid_of (jpath v [''head'', ''sha'']) = Some (rr_head report)" "base_name v = Some (pe_base_ref ev)"
    proof -
      obtain x where x: "x \<in> set t" "reply_json G x = Some v" using t(2) by blast
      with t(1) that have "says_fresh G A ev report x" by (simp add: says_fresh_def)
      with x(1) show ?thesis by blast
    qed
    show ?thesis
      by (rule emits_then[OF emits_need[where Q = "\<lambda>r u. u = [] \<and> (\<forall>x. r = Inr x \<longrightarrow> oid_of (jpath v [''head'', ''sha'']) = Some x)"]])
        (use t(1) fresh in \<open>auto intro!: emits_then[OF emits_need[where Q = "\<lambda>r u. u = [] \<and> (\<forall>x. r = Inr x \<longrightarrow> base_name v = Some x)"]] emits_ret\<close>)
  qed
  show ?thesis unfolding get_pull_target_def
    by (rule emits_then[OF emits_pull]) (use step in auto)
qed

text \<open>The author that counts as the program: the login that was answered, else the configured one.\<close>

definition own_author :: "gh_fns \<Rightarrow> github_api \<Rightarrow> string \<Rightarrow> exchanges \<Rightarrow> string" where
  "own_author G A login t = (case List.map_filter (user_login G A) t of a # _ \<Rightarrow> a | [] \<Rightarrow> login)"

lemma no_login:
  "repo_reads A t \<Longrightarrow> List.map_filter (user_login G A) t = []"
  by (induction t) (auto simp: List.map_filter_def user_login_def repo_reads_def starts_with_def split: if_splits)

lemma owns_author:
  assumes "\<forall>x\<in>set t. \<forall>a. user_login G A x = Some a \<longrightarrow> id_viewer me = Some a"
    and "id_viewer me \<noteq> None \<longrightarrow> (\<exists>x\<in>set t. user_login G A x = id_viewer me)"
  shows "owns me c \<longleftrightarrow> gc_author c = Some (own_author G A (id_bot_login me) t)"
proof (cases "id_viewer me")
  case None
  then have "\<forall>x\<in>set t. user_login G A x = None" using assms(1) by (metis not_Some_eq option.distinct(1))
  then have "List.map_filter (user_login G A) t = []" by (induction t) (auto simp: List.map_filter_def)
  then show ?thesis using None by (auto simp: owns_def own_author_def split: option.splits)
next
  case (Some v)
  have all: "\<forall>a\<in>set (List.map_filter (user_login G A) t). a = v"
    using assms(1) Some by (auto simp: List.map_filter_def)
  have "v \<in> set (List.map_filter (user_login G A) t)"
    using assms(2) Some by (force simp: List.map_filter_def)
  then have "own_author G A (id_bot_login me) t = v"
    using all by (cases "List.map_filter (user_login G A) t") (auto simp: own_author_def)
  then show ?thesis using Some by (auto simp: owns_def split: option.splits)
qed

definition names_login :: "gh_fns \<Rightarrow> github_api \<Rightarrow> gh_identity \<Rightarrow> exchanges \<Rightarrow> bool" where
  "names_login G A me t =
     ((\<forall>x\<in>set t. gq_method (fst x) = ''GET'' \<and> gq_url (fst x) = ga_base A @ ''/user'')
      \<and> (\<forall>x\<in>set t. \<forall>a. user_login G A x = Some a \<longrightarrow> id_viewer me = Some a)
      \<and> (id_viewer me \<noteq> None \<longrightarrow> (\<exists>x\<in>set t. user_login G A x = id_viewer me)))"

lemma emits_identity:
  "emits (resolve_identity G A login) (\<lambda>me t. id_bot_login me = login \<and> names_login G A me t)"
proof (rule emitsI)
  fix h
  obtain t where "snd (viewer_login G A h) = h @ t" "only_reads t" "\<forall>x\<in>set t. gq_url (fst x) = ga_base A @ ''/user''"
    "\<forall>x\<in>set t. \<forall>a. user_login G A x = Some a \<longrightarrow> fst (viewer_login G A h) = Some a"
    "fst (viewer_login G A h) \<noteq> None \<longrightarrow> (\<exists>x\<in>set t. user_login G A x = fst (viewer_login G A h))"
    by (rule emitsE[OF emits_viewer, of G A h]) blast
  then show "\<exists>t. snd (resolve_identity G A login h) = h @ t
      \<and> id_bot_login (fst (resolve_identity G A login h)) = login \<and> names_login G A (fst (resolve_identity G A login h)) t"
    by (cases "viewer_login G A h", intro exI[of _ t]) (simp add: resolve_identity_def names_login_def only_reads_def)
qed

text \<open>The steps of a publication whose target is fresh: the target, the login, the inline comments that
  are there, the inline review, the summary comment.\<close>

definition review_step ::
  "publish_fns \<Rightarrow> github_api \<Rightarrow> pr_event \<Rightarrow> nat \<Rightarrow> run_report \<Rightarrow> review_state \<Rightarrow> gh_identity \<Rightarrow> gh_comment list \<Rightarrow> exchanges \<Rightarrow> bool"
where
  "review_step F A ev mx report st me listed t =
     (let cs = review_comments mx (mark_posted (posted_revera_ids listed me) st) report in
      if cs = [] then t = []
      else \<exists>reply u. t = (review_request_of F A ev (rr_head report) cs, reply) # u \<and> repo_reads A u)"

definition fresh_run ::
  "publish_fns \<Rightarrow> github_api \<Rightarrow> pr_event \<Rightarrow> nat \<Rightarrow> string \<Rightarrow> string \<Rightarrow> run_report \<Rightarrow> review_state \<Rightarrow> exchanges \<Rightarrow> bool"
where
  "fresh_run F A ev mx mkr login report st t =
     (\<exists>t0 t1 t2 t3 t4 me listed.
        t = t0 @ t1 @ t2 @ t3 @ t4 \<and> (\<forall>x\<in>set t0. fst x = sent A (get_req (pull_url A ev)))
        \<and> (\<exists>x\<in>set t0. says_fresh (pf_gh F) A ev report x) \<and> id_bot_login me = login \<and> names_login (pf_gh F) A me t1
        \<and> lists (pf_gh F) (listing_url A ev) ''review comment'' [] (Inr listed) t2
        \<and> review_step F A ev mx report st me listed t3 \<and> summary_trace F A ev (own_ids F mkr me t4) 1 t4)"

lemma publish_fresh_trace:
  assumes "publish_fresh F A ms ev mx mkr login report st h = (out, h')"
    and t0: "(\<forall>x\<in>set t0. fst x = sent A (get_req (pull_url A ev)))" "\<exists>x\<in>set t0. says_fresh (pf_gh F) A ev report x"
  shows "\<exists>t. h' = h @ t \<and> (only_reads t \<or> fresh_run F A ev mx mkr login report st (t0 @ t))"
proof -
  obtain me h1 where id: "resolve_identity (pf_gh F) A login h = (me, h1)" by fastforce
  obtain t1 where t1: "h1 = h @ t1" "id_bot_login me = login" "names_login (pf_gh F) A me t1"
    using emitsD[OF emits_identity id] by blast
  let ?list = "list_review_comments (pf_gh F) A (fst (owner_repo ev)) (snd (owner_repo ev)) (pe_number ev) h1"
  obtain r2 h2 where list: "?list = (r2, h2)" by fastforce
  obtain t2 where t2: "h2 = h1 @ t2" "lists (pf_gh F) (listing_url A ev) ''review comment'' [] r2 t2"
    using emitsD[OF emits_listings(2) list] unfolding listing_url_def by blast
  show ?thesis
  proof (cases r2)
    case (Inl e)
    then have "h' = h2" using assms(1) id list by (simp add: publish_fresh_def Let_def)
    then show ?thesis using t1 t2 by (intro exI[of _ "t1 @ t2"]) (auto simp: names_login_def lists_def only_reads_def)
  next
    case (Inr listed)
    let ?st1 = "mark_posted (posted_revera_ids listed me) st"
    let ?cs = "review_comments mx ?st1 report"
    obtain r3 h3 where post: "post_review F A ev me (rr_head report) ?cs ?st1 h2 = (r3, h3)" by fastforce
    obtain t3 where t3: "h3 = h2 @ t3" "review_step F A ev mx report st me listed t3"
      using emitsD[OF emits_post_review post] unfolding review_step_def Let_def by blast
    have run: "fresh_run F A ev mx mkr login report st (t0 @ t1 @ t2 @ t3 @ t4)"
      if "summary_trace F A ev (own_ids F mkr me t4) 1 t4" for t4
      unfolding fresh_run_def using t0 t1(2,3) t2(2) t3(2) that Inr by blast
    show ?thesis
    proof (cases r3)
      case (Inl e)
      then have "h' = h3" using assms(1) id list \<open>r2 = Inr listed\<close> post by (simp add: publish_fresh_def Let_def)
      moreover have "summary_trace F A ev (own_ids F mkr me []) 1 []" by (simp add: summary_trace_def)
      ultimately show ?thesis using run[of "[]"] t1(1) t2(1) t3(1) by (intro exI[of _ "t1 @ t2 @ t3"]) simp
    next
      case (Inr p)
      obtain outcome pubn st2 where p: "p = (outcome, pubn, st2)" by (cases p)
      let ?rep = "with_timing F (if outcome = ''skipped'' then 0 else ms) outcome report"
      obtain r4 h4 where up: "upsert_summary F A ev me mkr ?rep st2 h3 = (r4, h4)" by fastforce
      obtain t4 where t4: "h4 = h3 @ t4" "summary_trace F A ev (own_ids F mkr me t4) 1 t4"
        using emitsD[OF emits_upsert up] by blast
      have "h' = h4" using assms(1) id list \<open>r2 = Inr listed\<close> post Inr p up
        by (simp add: publish_fresh_def Let_def split: sum.splits prod.splits)
      then show ?thesis using run[OF t4(2)] t1(1) t2(1) t3(1) t4(1) by (intro exI[of _ "t1 @ t2 @ t3 @ t4"]) simp
    qed
  qed
qed

lemma publish_trace:
  assumes "publish F A ms ev mx mkr login report st h = (out, h')"
  shows "\<exists>t. h' = h @ t \<and> (only_reads t \<or> fresh_run F A ev mx mkr login report st t)"
proof -
  let ?get = "get_pull_target (pf_gh F) A (fst (owner_repo ev)) (snd (owner_repo ev)) (pe_number ev) h"
  obtain r h1 where get: "?get = (r, h1)" by fastforce
  obtain t0 where t0: "h1 = h @ t0" "\<forall>x\<in>set t0. fst x = sent A (get_req (pull_url A ev))"
    "r = Inr (rr_head report, pe_base_ref ev) \<longrightarrow> (\<exists>x\<in>set t0. says_fresh (pf_gh F) A ev report x)"
    using emitsD[OF emits_target get] by blast
  have reads: "only_reads t0" using t0(2) by (auto simp: only_reads_def)
  have stop: ?thesis if "h' = h1" using that t0(1) reads by blast
  show ?thesis
  proof (cases r)
    case (Inl e)
    then show ?thesis using stop assms get by (simp add: publish_def)
  next
    case (Inr p)
    obtain live_head live_base where p: "p = (live_head, live_base)" by (cases p)
    show ?thesis
    proof (cases "moved_target report ev live_head live_base")
      case (Some reason)
      then show ?thesis using stop assms get Inr p by (simp add: publish_def Let_def)
    next
      case None
      then have "live_head = rr_head report" "live_base = pe_base_ref ev" by (simp_all add: moved_target_def split: if_splits)
      then have fresh: "\<exists>x\<in>set t0. says_fresh (pf_gh F) A ev report x" using t0(3) Inr p by simp
      have "publish_fresh F A ms ev mx mkr login report st h1 = (out, h')" using assms get Inr p None by (simp add: publish_def)
      from publish_fresh_trace[OF this t0(2) fresh] obtain t where
        "h' = h1 @ t" "only_reads t \<or> fresh_run F A ev mx mkr login report st (t0 @ t)" by blast
      then show ?thesis using t0(1) reads by (intro exI[of _ "t0 @ t"]) (auto simp: only_reads_def)
    qed
  qed
qed

section \<open>Properties\<close>

text \<open>C3: whatever GitHub answers, a publication writes to the pull request only after GitHub named the
  reviewed commit as its head and the reviewed branch as its base.\<close>

theorem writes_follow_fresh_target:
  assumes "publish F A ms ev mx mkr login report st h = (out, h @ t)" and "(rq, reply) \<in> set t" and "gq_method rq \<noteq> ''GET''"
  shows "\<exists>x v. x \<in> set t \<and> gq_url (fst x) = pull_url A ev \<and> reply_json (pf_gh F) x = Some v
    \<and> oid_of (jpath v [''head'', ''sha'']) = Some (rr_head report) \<and> base_name v = Some (pe_base_ref ev)"
proof -
  have "\<not> only_reads t" using assms(2,3) unfolding only_reads_def by force
  then have "fresh_run F A ev mx mkr login report st t" using publish_trace[OF assms(1)] by auto
  then obtain t0 u where "t = t0 @ u" "\<exists>x\<in>set t0. says_fresh (pf_gh F) A ev report x" unfolding fresh_run_def by blast
  then obtain x where "x \<in> set t" "says_fresh (pf_gh F) A ev report x" by auto
  moreover from this obtain v where "reply_json (pf_gh F) x = Some v" by (auto simp: says_fresh_def split: option.splits)
  ultimately show ?thesis by (intro exI[of _ x] exI[of _ v]) (simp add: says_fresh_def)
qed

lemma urls_differ: "reviews_url A ev \<noteq> summaries_url A ev"
  by (simp add: reviews_url_def summaries_url_def issue_comments_url_def repo_url_def)

lemma append_same_drop: "drop (length h) (h @ t) = t"
  by simp

lemma distinct_two:
  "length a \<le> 1 \<Longrightarrow> length b \<le> 1 \<Longrightarrow> \<forall>x\<in>set a. f x = p \<Longrightarrow> \<forall>x\<in>set b. f x = q \<Longrightarrow> p \<noteq> q \<Longrightarrow> distinct (map f (a @ b))"
  by (cases a; cases b) auto

lemma fresh_run_posts:
  assumes "fresh_run F A ev mx mkr login report st t"
  shows "\<exists>a b. posts t = a @ b \<and> length a \<le> 1 \<and> length b \<le> 1
    \<and> (\<forall>x\<in>set a. gq_url (fst x) = reviews_url A ev) \<and> (\<forall>x\<in>set b. gq_url (fst x) = summaries_url A ev)"
proof -
  obtain t0 t1 t2 t3 t4 me listed where t: "t = t0 @ t1 @ t2 @ t3 @ t4"
    and "\<forall>x\<in>set t0. fst x = sent A (get_req (pull_url A ev))" "names_login (pf_gh F) A me t1"
    "lists (pf_gh F) (listing_url A ev) ''review comment'' [] (Inr listed) t2"
    and s: "review_step F A ev mx report st me listed t3" "summary_trace F A ev (own_ids F mkr me t4) 1 t4"
    using assms unfolding fresh_run_def by blast
  then have "posts t0 = []" "posts t1 = []" "posts t2 = []"
    by (auto simp: posts_def filter_empty_conv names_login_def lists_def only_reads_def)
  moreover have "length (posts t3) \<le> 1 \<and> (\<forall>x\<in>set (posts t3). gq_url (fst x) = reviews_url A ev)"
  proof (cases "review_comments mx (mark_posted (posted_revera_ids listed me) st) report = []")
    case False
    then obtain rq reply u where t3: "t3 = (rq, reply) # u" "gq_url rq = reviews_url A ev" "repo_reads A u"
      using s(1) by (auto simp: review_step_def Let_def review_request_of_def)
    then have "posts u = []" by (blast intro: posts_reads)
    then show ?thesis using t3 by (simp add: posts_def)
  qed (use s(1) in \<open>simp add: review_step_def posts_def\<close>)
  moreover have "length (posts t4) \<le> 1 \<and> (\<forall>x\<in>set (posts t4). gq_url (fst x) = summaries_url A ev)"
    using s(2) by (auto simp: summary_trace_def summary_exchange_def posts_def)
  ultimately show ?thesis unfolding t by (intro exI[of _ "posts t3"] exI[of _ "posts t4"]) simp
qed

text \<open>C18: a publication never repeats a request that creates something: at most one review and at most one
  summary comment are posted, whatever fails in between.\<close>

theorem nothing_created_twice:
  "distinct (map (\<lambda>x. gq_url (fst x))
     (posts (drop (length h) (snd (publish F A ms ev mx mkr login report st h)))))"
proof -
  obtain out h' where p: "publish F A ms ev mx mkr login report st h = (out, h')" by fastforce
  then obtain t where t: "h' = h @ t" "only_reads t \<or> fresh_run F A ev mx mkr login report st t" using publish_trace by blast
  have "distinct (map (\<lambda>x. gq_url (fst x)) (posts t))"
  proof (cases "only_reads t")
    case True
    then show ?thesis by (simp add: posts_def only_reads_def filter_False)
  next
    case False
    then have "fresh_run F A ev mx mkr login report st t" using t(2) by simp
    from fresh_run_posts[OF this] obtain a b where ab: "posts t = a @ b" "length a \<le> 1" "length b \<le> 1"
      "\<forall>x\<in>set a. gq_url (fst x) = reviews_url A ev" "\<forall>x\<in>set b. gq_url (fst x) = summaries_url A ev"
      by blast
    show ?thesis unfolding ab(1) by (rule distinct_two[OF ab(2-5) urls_differ])
  qed
  then show ?thesis unfolding p snd_conv t(1) append_same_drop .
qed

section \<open>Comments that are there\<close>

lemma set_map_filter_ids: "set (List.map_filter f xs) = {y. \<exists>x\<in>set xs. f x = Some y}"
  by (induction xs) (auto simp: map_filter_simps split: option.splits)

lemma set_posted_ids:
  "set (posted_revera_ids cs me) = {i. \<exists>c\<in>set cs. owns me c \<and> revera_id (gc_body c) = Some i}"
  by (auto simp: posted_revera_ids_def set_map_filter_ids)

lemma has_posted_marked:
  "has_posted st i \<Longrightarrow> has_posted (mark_posted ids st) i"
  "is_tracked_open st i \<Longrightarrow> i \<in> set ids \<Longrightarrow> has_posted (mark_posted ids st) i"
proof -
  have "has_posted (mark_posted ids st) i = list_ex (\<lambda>f. sf_id f = i \<and> (sf_posted f \<or> sf_id f \<in> set ids)
      \<and> (sf_status f = StOpen \<or> sf_status f = StUncertain)) (rs_findings st)"
  proof -
    have "list_ex (\<lambda>f. sf_id f = i \<and> sf_posted f \<and> (sf_status f = StOpen \<or> sf_status f = StUncertain))
        (map (\<lambda>f. if sf_id f \<in> set ids then f\<lparr>sf_posted := True\<rparr> else f) fs)
      = list_ex (\<lambda>f. sf_id f = i \<and> (sf_posted f \<or> sf_id f \<in> set ids) \<and> (sf_status f = StOpen \<or> sf_status f = StUncertain)) fs" for fs
      by (induction fs) auto
    then show ?thesis by (simp add: has_posted_def mark_posted_def)
  qed
  then show "has_posted st i \<Longrightarrow> has_posted (mark_posted ids st) i"
    "is_tracked_open st i \<Longrightarrow> i \<in> set ids \<Longrightarrow> has_posted (mark_posted ids st) i"
    by (auto simp: has_posted_def is_tracked_open_def list_ex_iff)
qed

lemma review_comments_new:
  assumes "c \<in> set (review_comments mx (mark_posted ids st) report)"
  shows "\<exists>i. revera_id (rv_body c) = Some i \<and> \<not> has_posted st i \<and> (is_tracked_open st i \<longrightarrow> i \<notin> set ids)"
proof -
  obtain d where d: "d \<in> set (pp_inline (rr_plan report))" "unposted (mark_posted ids st) d" "rv_body c = ic_body d"
    using assms unfolding review_comments_def by (auto dest!: in_set_takeD)
  then show ?thesis using has_posted_marked[of st _ ids] by (auto simp: unposted_def split: option.splits)
qed

lemma length_review_comments: "length (review_comments mx st report) \<le> mx"
  by (simp add: review_comments_def)

text \<open>The identifiers of the program's own inline comments that GitHub listed.\<close>

definition listing_pages :: "github_api \<Rightarrow> pr_event \<Rightarrow> exchanges \<Rightarrow> exchanges" where
  "listing_pages A ev t = filter (\<lambda>x. starts_with (gq_url (fst x)) (listing_url A ev)) t"

definition ids_on_pull :: "gh_fns \<Rightarrow> github_api \<Rightarrow> pr_event \<Rightarrow> string \<Rightarrow> exchanges \<Rightarrow> string set" where
  "ids_on_pull G A ev login t =
     {i. \<exists>c\<in>comments_in G ''review comment'' (listing_pages A ev t).
        gc_author c = Some (own_author G A login t) \<and> revera_id (gc_body c) = Some i}"

lemma listing_url_apart:
  "\<not> starts_with (pull_url A ev) (listing_url A ev)" "\<not> starts_with (ga_base A @ ''/user'') (listing_url A ev)"
  by (auto simp: starts_with_def pull_url_def listing_url_def review_comments_url_def repo_url_def)

lemma pages_of_steps:
  assumes "\<forall>x\<in>set t0. fst x = sent A (get_req (pull_url A ev))" "names_login G A me t1"
    "lists G (listing_url A ev) ''review comment'' [] r t2"
  shows "listing_pages A ev (t0 @ t1 @ t2) = t2" "own_author G A login (t0 @ t1 @ t2) = own_author G A login t1"
proof -
  have a: "listing_pages A ev t0 = []" "listing_pages A ev t1 = []"
    using assms(1,2) listing_url_apart by (auto simp: listing_pages_def names_login_def filter_empty_conv)
  have "\<forall>x\<in>set t2. starts_with (gq_url (fst x)) (listing_url A ev)"
    using assms(3) by (auto simp: lists_def page_url_def)
  then have "listing_pages A ev t2 = t2" by (simp add: listing_pages_def)
  with a show "listing_pages A ev (t0 @ t1 @ t2) = t2" by (simp add: listing_pages_def)
  have "repo_reads A t0" using assms(1) starts_repo_url[of A _ _ _ "[]"] by (auto simp: repo_reads_def pull_url_def)
  moreover have "repo_reads A t2" using assms(3) listing_reads(2) unfolding listing_url_def by blast
  ultimately show "own_author G A login (t0 @ t1 @ t2) = own_author G A login t1"
    using no_login[of A t0 G] no_login[of A t2 G] by (simp add: own_author_def List.map_filter_def)
qed

lemma split_unique:
  "xs @ y # ys = xs' @ y' # ys' \<Longrightarrow> P y \<Longrightarrow> \<forall>z\<in>set xs' \<union> set ys'. \<not> P z \<Longrightarrow> xs = xs' \<and> y = y' \<and> ys = ys'"
  by (auto simp: append_eq_append_conv2 append_eq_Cons_conv Cons_eq_append_conv)


section \<open>The state blob\<close>

text \<open>A pattern whose first byte does not occur in it again cannot overlap what stands before it.\<close>

lemma find_str_after:
  assumes "c \<notin> set p" and "\<not> str_contains a (c # p)"
  shows "find_str (a @ (c # p) @ b) (c # p) = Some (length a)"
  using assms(2)
proof (induction a)
  case (Cons x a)
  have sub: "\<not> str_contains a (c # p)" using Cons.prems by (metis append_Cons str_contains_iff)
  have "\<not> starts_with ((x # a) @ (c # p) @ b) (c # p)"
  proof
    assume "starts_with ((x # a) @ (c # p) @ b) (c # p)"
    then obtain t where t: "(x # a) @ ((c # p) @ b) = (c # p) @ t" unfolding starts_with_iff by blast
    then obtain u where "x # a = (c # p) @ u \<or> (c # p = (x # a) @ u \<and> (c # p) @ b = u @ t)"
      unfolding append_eq_append_conv2 by metis
    then show False
    proof
      assume "x # a = (c # p) @ u"
      then have "x # a = [] @ (c # p) @ u" by simp
      then show False using Cons.prems str_contains_iff by blast
    next
      assume u: "c # p = (x # a) @ u \<and> (c # p) @ b = u @ t"
      show False
      proof (cases u)
        case Nil
        then have "x # a = [] @ (c # p) @ []" using u by simp
        then show False using Cons.prems str_contains_iff by blast
      next
        case (Cons d v)
        then have "d = c" "d \<in> set p" using u by auto
        then show False using assms(1) by simp
      qed
    qed
  qed
  then show ?case using Cons.IH[OF sub] by simp
qed (use starts_with_append[of "c # p" b] in simp)

lemma STATE_PREFIX_Cons: "STATE_PREFIX = CHR ''<'' # ''!-- revera-state:''" "CHR ''<'' \<notin> set ''!-- revera-state:''"
  by (simp_all add: STATE_PREFIX_def)

lemma STATE_SUFFIX_Cons: "STATE_SUFFIX = CHR '' '' # ''-->''" "CHR '' '' \<notin> set ''-->''"
  by (simp_all add: STATE_SUFFIX_def)

lemma decode_encode:
  assumes "\<not> str_contains before STATE_PREFIX" and "ascii_word (pf_b64 F j)"
    and "j = px_red F (pf_state_json F s)" and "pf_unb64 F (pf_b64 F j) = Some j" and "pf_state_of F j = Some s"
  shows "decode_state F (before @ encode_state F s @ rest) = Some s"
proof -
  have b: "\<not> str_contains (pf_b64 F j) STATE_SUFFIX"
    using assms(2) by (auto simp: str_contains_iff STATE_SUFFIX_def ascii_word_def ascii_graphic_def)
  have "find_str (before @ STATE_PREFIX @ pf_b64 F j @ STATE_SUFFIX @ rest) STATE_PREFIX = Some (length before)"
    unfolding STATE_PREFIX_Cons(1) by (rule find_str_after[OF STATE_PREFIX_Cons(2)]) (use assms(1) STATE_PREFIX_Cons(1) in simp)
  moreover have "find_str (pf_b64 F j @ STATE_SUFFIX @ rest) STATE_SUFFIX = Some (length (pf_b64 F j))"
    unfolding STATE_SUFFIX_Cons(1) by (rule find_str_after[OF STATE_SUFFIX_Cons(2)]) (use b STATE_SUFFIX_Cons(1) in simp)
  ultimately show ?thesis
    using assms(4,5) by (simp add: decode_state_def encode_state_def Let_def assms(3)[symmetric] trim_word[OF assms(2)])
qed

definition managed_body :: "publish_fns \<Rightarrow> string \<Rightarrow> run_report \<Rightarrow> review_state \<Rightarrow> string \<Rightarrow> string" where
  "managed_body F mkr report staged block = summary_text F mkr report staged @ block @ nl @ state_blob F report staged"


section \<open>Whose comment is edited\<close>

definition repo_only :: "github_api \<Rightarrow> exchanges \<Rightarrow> bool" where
  "repo_only A t = (\<forall>x\<in>set t. starts_with (gq_url (fst x)) (ga_base A @ ''/repos/''))"

lemma repo_only_login: "repo_only A t \<Longrightarrow> List.map_filter (user_login G A) t = []"
  by (induction t) (auto simp: List.map_filter_def user_login_def repo_only_def starts_with_def split: if_splits)

lemma repo_only_parts:
  "\<forall>x\<in>set t. fst x = sent A (get_req (pull_url A ev)) \<Longrightarrow> repo_only A t"
  "lists G (listing_url A ev) what out r t \<Longrightarrow> repo_only A t"
  "review_step F A ev mx report st me listed t \<Longrightarrow> repo_only A t"
  "summary_trace F A ev own n t \<Longrightarrow> repo_only A t"
proof -
  note s = starts_repo_url[of A _ _ _ "[]", simplified]
  show "\<forall>x\<in>set t. fst x = sent A (get_req (pull_url A ev)) \<Longrightarrow> repo_only A t"
    using s by (auto simp: repo_only_def pull_url_def)
  show "lists G (listing_url A ev) what out r t \<Longrightarrow> repo_only A t"
    using listing_reads(2) unfolding listing_url_def repo_only_def repo_reads_def by blast
  show "review_step F A ev mx report st me listed t \<Longrightarrow> repo_only A t"
    using s by (auto simp: review_step_def Let_def repo_only_def repo_reads_def review_request_of_def reviews_url_def split: if_splits)
  show "summary_trace F A ev own n t \<Longrightarrow> repo_only A t"
    using s by (fastforce simp: summary_trace_def summary_exchange_def repo_only_def summaries_url_def issue_comments_url_def
        comment_url_def)
qed

text \<open>C12: a publication edits only a comment that GitHub listed under the program's account, with the marker at
  its start and a state in it, or one whose creation GitHub acknowledged in this publication.\<close>

theorem edits_only_own_comment:
  assumes "publish F A ms ev mx mkr login report st h = (out, h @ t)" and "(rq, reply) \<in> set t" and "gq_method rq = ''PATCH''"
  shows "\<exists>i. gq_url rq = comment_url A ev i
    \<and> ((\<exists>c. c \<in> comments_in (pf_gh F) ''issue comment'' t \<and> gc_id c = i \<and> starts_with (trim_start (gc_body c)) mkr
          \<and> decode_state F (gc_body c) \<noteq> None \<and> gc_author c = Some (own_author (pf_gh F) A login t))
      \<or> (\<exists>x. x \<in> set t \<and> gq_method (fst x) = ''POST'' \<and> Option.bind (reply_json (pf_gh F) x) positive_id = Some i))"
proof -
  have "\<not> only_reads t" using assms(2,3) unfolding only_reads_def by force
  then have "fresh_run F A ev mx mkr login report st t" using publish_trace[OF assms(1)] by auto
  then obtain s0 s1 s2 s3 s4 me listed where t: "t = s0 @ s1 @ s2 @ s3 @ s4"
    and f: "\<forall>x\<in>set s0. fst x = sent A (get_req (pull_url A ev))" "id_bot_login me = login" "names_login (pf_gh F) A me s1"
      "lists (pf_gh F) (listing_url A ev) ''review comment'' [] (Inr listed) s2"
      "review_step F A ev mx report st me listed s3" "summary_trace F A ev (own_ids F mkr me s4) 1 s4"
    unfolding fresh_run_def by blast
  have "own_author (pf_gh F) A login t = own_author (pf_gh F) A login s1"
    using repo_only_login[OF repo_only_parts(1)[OF f(1)]] repo_only_login[OF repo_only_parts(2)[OF f(4)]]
      repo_only_login[OF repo_only_parts(3)[OF f(5)]] repo_only_login[OF repo_only_parts(4)[OF f(6)]]
    by (simp add: own_author_def t List.map_filter_def)
  then have own: "owns me c \<longleftrightarrow> gc_author c = Some (own_author (pf_gh F) A login t)" for c
    using owns_author[of s1 "pf_gh F" A me c] f(2,3) by (simp add: names_login_def)
  have "\<forall>x\<in>set (s0 @ s1 @ s2). gq_method (fst x) \<noteq> ''PATCH''"
    using f(1,3,4) by (auto simp: names_login_def lists_def only_reads_def)
  moreover have "\<forall>x\<in>set s3. gq_method (fst x) \<noteq> ''PATCH''"
    using f(5) by (fastforce simp: review_step_def Let_def repo_reads_def review_request_of_def split: if_splits)
  ultimately have "(rq, reply) \<notin> set (s0 @ s1 @ s2 @ s3)" using assms(3) by force
  then have "(rq, reply) \<in> set s4" using assms(2) t by simp
  then have "summary_exchange F A ev (own_ids F mkr me s4) rq" using f(6) by (auto simp: summary_trace_def)
  then obtain i where i: "gq_url rq = comment_url A ev i" "i \<in> own_ids F mkr me s4"
    using assms(3) by (auto simp: summary_exchange_def)
  have "i \<in> own_ids F mkr me t" unfolding t using i(2) by simp
  then show ?thesis using i(1) unfolding own_ids_def managed_candidate_def own by blast
qed

end
