(* ===== verification/Deliver.thy ===== *)
theory Deliver
  imports Github_Api
begin

text \<open>
  \<open>src/src/fix/deliver.rs\<close>: the controller's writes to GitHub once a repair is approved: a commit built
  through the Git data API, a draft pull request on a new branch, or a fast-forward of the reviewed
  branch.  \<open>deliver_fns\<close> holds lower-casing, \<open>redact::diagnostic\<close> and the case-insensitive match of the
  sensitive globs, which are library code or modelled elsewhere.
\<close>

record repository =
  rp_owner :: string
  rp_name :: string

datatype deliver_error =
    Permission_Denied
  | NotFound
  | ProtectedBranch
  | MovedHead
  | RefExists
  | Conflict
  | Validation_Rejected string
  | Malformed_Reply string
  | Request_Failed string
  | Invalid_Input string
  | DraftFailed string deliver_error

record deliver_fns =
  df_gh :: gh_fns
  df_lower :: "string \<Rightarrow> string"
  df_diag :: "string \<Rightarrow> string"
  df_sensitive :: "string \<Rightarrow> bool"

type_synonym 'a delivery_step = "exchanges \<Rightarrow> (deliver_error + 'a) \<times> exchanges"

section \<open>Errors and checks\<close>

definition protection_marks :: "string list" where
  "protection_marks = [''protected branch'', ''protected ref'', ''repository rule'', ''gh006'', ''gh013'']"

definition map_error :: "deliver_fns \<Rightarrow> gh_error \<Rightarrow> deliver_error" where
  "map_error F e =
     (case e of
        Http_Error status raw \<Rightarrow>
          (let body = df_lower F raw in
           if (status = 403 \<or> status = 409 \<or> status = 422) \<and> list_ex (str_contains body) protection_marks then ProtectedBranch
           else if status = 403 then Permission_Denied
           else if status = 404 then NotFound
           else if (status = 409 \<or> status = 422) \<and> (str_contains body ''fast forward'' \<or> str_contains body ''fast-forward'')
           then MovedHead
           else if status = 422 \<and> str_contains body ''reference already exists'' then RefExists
           else if status = 409 then Conflict
           else if status = 422 then Validation_Rejected (df_diag F (excerpt_bytes raw 500))
           else Request_Failed (df_diag F (gh_error_str (df_gh F) e)))
      | _ \<Rightarrow> Request_Failed (df_diag F (gh_error_str (df_gh F) e)))"

definition lift_api :: "deliver_fns \<Rightarrow> 'a gh \<Rightarrow> 'a delivery_step" where
  "lift_api F m h = (case m h of (Inl e, h1) \<Rightarrow> (Inl (map_error F e), h1) | (Inr x, h1) \<Rightarrow> (Inr x, h1))"

definition ensure :: "bool \<Rightarrow> deliver_error \<Rightarrow> unit delivery_step" where
  "ensure b e = (if b then gh_ret () else gh_fail e)"

definition require :: "'a option \<Rightarrow> deliver_error \<Rightarrow> 'a delivery_step" where
  "require v e = (case v of Some x \<Rightarrow> gh_ret x | None \<Rightarrow> gh_fail e)"

definition repo_name_ok :: "string \<Rightarrow> bool" where
  "repo_name_ok n =
     (n \<noteq> [] \<and> n \<noteq> ''.'' \<and> n \<noteq> ''..'' \<and> list_all (\<lambda>c. is_ascii_alphanumeric c \<or> c \<in> set ''-_.'') n)"

definition repo_check :: "repository \<Rightarrow> unit delivery_step" where
  "repo_check r = ensure (repo_name_ok (rp_owner r) \<and> repo_name_ok (rp_name r)) (Invalid_Input ''invalid repository name'')"

definition oid_check :: "string \<Rightarrow> unit delivery_step" where
  "oid_check s = ensure (is_oid s) (Invalid_Input ''full SHA required'')"

definition branch_name_ok :: "string \<Rightarrow> bool" where
  "branch_name_ok s =
     (s \<noteq> [] \<and> length s \<le> 200 \<and> list_all (\<lambda>c. is_ascii_alphanumeric c \<or> c \<in> set ''-_/'' \<or> c = CHR ''.'') s
      \<and> \<not> str_contains s ''..''
      \<and> list_all (\<lambda>c. c \<noteq> [] \<and> \<not> starts_with c ''.'' \<and> \<not> ends_with c ''.'' \<and> \<not> ends_with c ''.lock'') (split_char (CHR ''/'') s)
      \<and> \<not> starts_with s ''-'')"

definition branch_check :: "string \<Rightarrow> unit delivery_step" where
  "branch_check s = ensure (branch_name_ok s) (Invalid_Input ''invalid branch name'')"

definition response_oid :: "json \<Rightarrow> string \<Rightarrow> string delivery_step" where
  "response_oid v key = require (oid_of (jidx v key)) (Malformed_Reply (''missing '' @ key @ '' SHA''))"

definition ref_acknowledged :: "json \<Rightarrow> string \<Rightarrow> string \<Rightarrow> bool" where
  "ref_acknowledged v branch sha =
     (jidx v ''ref'' = JStr (''refs/heads/'' @ branch) \<and> jpath v [''object'', ''sha''] = JStr sha
      \<and> jpath v [''object'', ''type''] = JStr ''commit'')"

definition ref_response :: "json \<Rightarrow> string \<Rightarrow> string \<Rightarrow> unit delivery_step" where
  "ref_response v branch sha = ensure (ref_acknowledged v branch sha) (Malformed_Reply ''ref acknowledgement mismatch'')"

section \<open>The commit\<close>

definition result_mode :: "file_change \<Rightarrow> nat option" where
  "result_mode f = (case fc_new_mode f of Some m \<Rightarrow> Some m | None \<Rightarrow> fc_old_mode f)"

definition deliverable_change :: "deliver_fns \<Rightarrow> file_change \<Rightarrow> bool" where
  "deliverable_change F f =
     (valid_path (fc_path f) \<and> \<not> df_sensitive F (fc_path f) \<and> \<not> fc_binary f \<and> fc_size f \<le> MAX_FILE_BYTES
      \<and> (result_mode f = Some MODE_REGULAR \<or> result_mode f = Some MODE_EXECUTABLE)
      \<and> \<not> (fc_new_mode f = Some MODE_EXECUTABLE \<and> fc_old_mode f \<noteq> Some MODE_EXECUTABLE))"

definition safe_content :: "deliver_fns \<Rightarrow> string \<Rightarrow> bool" where
  "safe_content F content =
     (length content \<le> MAX_FILE_BYTES \<and> CHR 0x00 \<notin> set content \<and> gf_redact (df_gh F) content = content)"

fun check_changes :: "deliver_fns \<Rightarrow> string list \<Rightarrow> file_change list \<Rightarrow> deliver_error option" where
  "check_changes F seen [] = None"
| "check_changes F seen (f # fs) =
     (if fc_path f \<in> set seen \<or> \<not> deliverable_change F f then Some (Invalid_Input ''unsafe file change'')
      else if fc_status f = Deleted then check_changes F (fc_path f # seen) fs
      else (case fc_new_content f of
              None \<Rightarrow> Some (Invalid_Input ''missing new file content'')
            | Some content \<Rightarrow>
                if \<not> safe_content F content then Some (Invalid_Input ''unsafe file content'')
                else check_changes F (fc_path f # seen) fs))"

fun octal :: "nat \<Rightarrow> string" where
  "octal n = (if n < 8 then [digit_char n] else octal (n div 8) @ [digit_char (n mod 8)])"

definition tree_item :: "file_change \<Rightarrow> json \<Rightarrow> json" where
  "tree_item f sha =
     JObj [(''path'', JStr (fc_path f)), (''mode'', JStr (octal (case result_mode f of Some m \<Rightarrow> m | None \<Rightarrow> 0))),
           (''type'', JStr ''blob''), (''sha'', sha)]"

fun tree_items :: "deliver_fns \<Rightarrow> github_api \<Rightarrow> repository \<Rightarrow> file_change list \<Rightarrow> json list \<Rightarrow> json list delivery_step" where
  "tree_items F A r [] items = gh_ret items"
| "tree_items F A r (f # fs) items =
     (if fc_status f = Deleted then tree_items F A r fs (items @ [tree_item f JNull])
      else gh_then (lift_api F (git_create_blob (df_gh F) A (rp_owner r) (rp_name r)
                      (case fc_new_content f of Some c \<Rightarrow> c | None \<Rightarrow> []))) (\<lambda>b.
           gh_then (response_oid b ''sha'') (\<lambda>sha. tree_items F A r fs (items @ [tree_item f (JStr sha)]))))"

definition commit_input_ok :: "file_change list \<Rightarrow> string \<Rightarrow> bool" where
  "commit_input_ok changes message =
     (changes \<noteq> [] \<and> length changes \<le> 100 \<and> message \<noteq> [] \<and> length message \<le> 16000)"

definition create_commit ::
  "deliver_fns \<Rightarrow> github_api \<Rightarrow> repository \<Rightarrow> string \<Rightarrow> file_change list \<Rightarrow> string \<Rightarrow> string delivery_step"
where
  "create_commit F A r parent_sha changes message =
     gh_then (repo_check r) (\<lambda>_.
     gh_then (oid_check parent_sha) (\<lambda>_.
     gh_then (ensure (commit_input_ok changes message) (Invalid_Input ''empty/oversized changes or commit message'')) (\<lambda>_.
     gh_then (case check_changes F [] changes of Some e \<Rightarrow> gh_fail e | None \<Rightarrow> gh_ret ()) (\<lambda>_.
     gh_then (lift_api F (git_get_commit (df_gh F) A (rp_owner r) (rp_name r) parent_sha)) (\<lambda>parent.
     gh_then (response_oid parent ''sha'') (\<lambda>answered_sha.
     gh_then (ensure (answered_sha = parent_sha) (Malformed_Reply ''parent commit mismatch'')) (\<lambda>_.
     gh_then (response_oid (jidx parent ''tree'') ''sha'') (\<lambda>base_tree.
     gh_then (tree_items F A r changes []) (\<lambda>items.
     gh_then (lift_api F (git_create_tree (df_gh F) A (rp_owner r) (rp_name r) base_tree items)) (\<lambda>t.
     gh_then (response_oid t ''sha'') (\<lambda>tree.
     gh_then (lift_api F (git_create_commit (df_gh F) A (rp_owner r) (rp_name r) parent_sha tree message)) (\<lambda>commit.
       response_oid commit ''sha''))))))))))))"

section \<open>The draft pull request\<close>

record draft_pull =
  dp_number :: nat
  dp_url :: string
  dp_branch :: string
  dp_commit :: string

definition parse_draft :: "string \<Rightarrow> string \<Rightarrow> json \<Rightarrow> deliver_error + draft_pull" where
  "parse_draft branch commit v =
     (case as_u64 (jidx v ''number'') of
        Some n \<Rightarrow>
          if n = 0 then Inl (Malformed_Reply ''PR number'')
          else (case as_str (jidx v ''html_url'') of
                  Some url \<Rightarrow>
                    if \<not> starts_with url ''https://'' then Inl (Malformed_Reply ''PR URL'')
                    else if jidx v ''draft'' \<noteq> JBool True then Inl (Malformed_Reply ''created PR is not a draft'')
                    else Inr \<lparr>dp_number = n, dp_url = url, dp_branch = branch, dp_commit = commit\<rparr>
                | None \<Rightarrow> Inl (Malformed_Reply ''PR URL''))
      | None \<Rightarrow> Inl (Malformed_Reply ''PR number''))"

definition branch_name :: "string \<Rightarrow> string \<Rightarrow> nat \<Rightarrow> string" where
  "branch_name pre commit i =
     (if i = 0 then pre @ ''-'' @ take 12 commit else pre @ ''-'' @ take 12 commit @ ''-'' @ nat_str i)"

definition open_draft_at ::
  "deliver_fns \<Rightarrow> github_api \<Rightarrow> repository \<Rightarrow> string \<Rightarrow> string \<Rightarrow> string \<Rightarrow> string \<Rightarrow> string \<Rightarrow> draft_pull delivery_step"
where
  "open_draft_at F A r branch commit base_ref title body h =
     (case create_draft_pull (df_gh F) A (rp_owner r) (rp_name r) branch base_ref title body h of
        (Inl e, h1) \<Rightarrow> (Inl (DraftFailed branch (map_error F e)), h1)
      | (Inr v, h1) \<Rightarrow>
          ((case parse_draft branch commit v of Inl cause \<Rightarrow> Inl (DraftFailed branch cause) | Inr d \<Rightarrow> Inr d), h1))"

fun try_branches ::
  "deliver_fns \<Rightarrow> github_api \<Rightarrow> repository \<Rightarrow> string \<Rightarrow> string \<Rightarrow> string \<Rightarrow> string \<Rightarrow> string \<Rightarrow> nat list \<Rightarrow> draft_pull delivery_step"
where
  "try_branches F A r commit pre base_ref title body [] = gh_fail RefExists"
| "try_branches F A r commit pre base_ref title body (i # js) =
     gh_then (branch_check (branch_name pre commit i)) (\<lambda>_ h.
       (case lift_api F (git_create_ref (df_gh F) A (rp_owner r) (rp_name r) (branch_name pre commit i) commit) h of
          (Inl RefExists, h1) \<Rightarrow> try_branches F A r commit pre base_ref title body js h1
        | (Inl e, h1) \<Rightarrow> (Inl e, h1)
        | (Inr v, h1) \<Rightarrow>
            gh_then (ref_response v (branch_name pre commit i) commit) (\<lambda>_.
              open_draft_at F A r (branch_name pre commit i) commit base_ref title body) h1))"

definition open_draft_pr ::
  "deliver_fns \<Rightarrow> github_api \<Rightarrow> repository \<Rightarrow> string \<Rightarrow> string \<Rightarrow> string \<Rightarrow> string \<Rightarrow> string \<Rightarrow> draft_pull delivery_step"
where
  "open_draft_pr F A r commit branch_prefix base_ref title body =
     gh_then (repo_check r) (\<lambda>_.
     gh_then (oid_check commit) (\<lambda>_.
     gh_then (branch_check branch_prefix) (\<lambda>_.
     gh_then (branch_check base_ref) (\<lambda>_.
     gh_then (ensure (title \<noteq> [] \<and> length title \<le> 500 \<and> length body \<le> 60000) (Invalid_Input ''PR text size'')) (\<lambda>_.
       try_branches F A r commit branch_prefix base_ref title body [0..<8])))))"

section \<open>The fast-forward\<close>

definition single_parent :: "json list \<Rightarrow> string \<Rightarrow> bool" where
  "single_parent parents sha = (length parents = 1 \<and> jidx (parents ! 0) ''sha'' = JStr sha)"

definition fast_forward_branch ::
  "deliver_fns \<Rightarrow> github_api \<Rightarrow> repository \<Rightarrow> string \<Rightarrow> string \<Rightarrow> string \<Rightarrow> unit delivery_step"
where
  "fast_forward_branch F A r branch expected_head commit =
     gh_then (repo_check r) (\<lambda>_.
     gh_then (branch_check branch) (\<lambda>_.
     gh_then (oid_check expected_head) (\<lambda>_.
     gh_then (oid_check commit) (\<lambda>_.
     gh_then (lift_api F (git_get_commit (df_gh F) A (rp_owner r) (rp_name r) commit)) (\<lambda>target.
     gh_then (require (as_array (jidx target ''parents'')) (Malformed_Reply ''commit parents'')) (\<lambda>parents.
     gh_then (ensure (single_parent parents expected_head) (Invalid_Input ''fix commit must have exactly the approved head as parent'')) (\<lambda>_.
     gh_then (lift_api F (git_get_ref (df_gh F) A (rp_owner r) (rp_name r) branch)) (\<lambda>head.
     gh_then (ensure (jpath head [''object'', ''sha''] = JStr expected_head) MovedHead) (\<lambda>_.
     gh_then (ref_response head branch expected_head) (\<lambda>_.
     gh_then (lift_api F (git_fast_forward_ref (df_gh F) A (rp_owner r) (rp_name r) branch commit)) (\<lambda>v.
       ref_response v branch commit)))))))))))"

end
