(* ===== verification/Deliver_Props.thy ===== *)
theory Deliver_Props
  imports Deliver Github_Props
begin

text \<open>
  What the delivery of a repair can write to GitHub: only checked contents, a draft pull request only on
  a branch that was just created for the commit, and a fast-forward only from the approved head.
\<close>

section \<open>Rules for the checks\<close>

lemma emits_ensure_then:
  "(b \<Longrightarrow> emits (f ()) Q) \<Longrightarrow> (\<not> b \<Longrightarrow> Q (Inl e) []) \<Longrightarrow> emits (gh_then (ensure b e) f) Q"
  by (cases b) (simp_all add: emits_def gh_then_def ensure_def gh_ret_def gh_fail_def)

lemma emits_require_then:
  "(\<And>x. v = Some x \<Longrightarrow> emits (f x) Q) \<Longrightarrow> (v = None \<Longrightarrow> Q (Inl e) []) \<Longrightarrow> emits (gh_then (require v e) f) Q"
  by (cases v) (simp_all add: emits_def gh_then_def require_def gh_ret_def gh_fail_def)

lemma emits_require: "(\<And>x. v = Some x \<Longrightarrow> Q (Inr x) []) \<Longrightarrow> (v = None \<Longrightarrow> Q (Inl e) []) \<Longrightarrow> emits (require v e) Q"
  by (cases v) (simp_all add: emits_def require_def gh_ret_def gh_fail_def)

lemma emits_ensure: "(b \<Longrightarrow> Q (Inr ()) []) \<Longrightarrow> (\<not> b \<Longrightarrow> Q (Inl e) []) \<Longrightarrow> emits (ensure b e) Q"
  by (cases b) (simp_all add: emits_def ensure_def gh_ret_def gh_fail_def)

lemma emits_lift:
  assumes "emits m P" "\<And>e t. P (Inl e) t \<Longrightarrow> Q (Inl (map_error F e)) t" "\<And>x t. P (Inr x) t \<Longrightarrow> Q (Inr x) t"
  shows "emits (lift_api F m) Q"
proof (rule emitsI)
  fix h
  obtain t where t: "snd (m h) = h @ t" "P (fst (m h)) t" using assms(1) by (rule emitsE)
  then show "\<exists>t. snd (lift_api F m h) = h @ t \<and> Q (fst (lift_api F m h)) t"
    using assms(2,3)[of _ t] by (cases "m h"; cases "fst (m h)") (auto simp: lift_api_def)
qed

lemma emits_call:
  assumes "emits m P" "\<And>e t. P (Inl e) t \<Longrightarrow> Q (Inl (map_error F e)) t"
    "\<And>x t. P (Inr x) t \<Longrightarrow> emits (f x) (\<lambda>r u. Q r (t @ u))"
  shows "emits (gh_then (lift_api F m) f) Q"
proof (rule emits_then)
  show "emits (lift_api F m) (\<lambda>r t. case r of Inl e \<Rightarrow> Q (Inl e) t | Inr x \<Rightarrow> P (Inr x) t)"
    by (rule emits_lift[OF assms(1)]) (simp_all add: assms(2))
qed (simp_all add: assms(3))

lemma gh_then_ret: "gh_then (gh_ret x) f = f x"
  by (rule ext) (simp add: gh_then_def gh_ret_def)

section \<open>The fast-forward\<close>

definition ref_url :: "github_api \<Rightarrow> repository \<Rightarrow> string \<Rightarrow> string" where
  "ref_url A r branch = repo_url A (rp_owner r) (rp_name r) (''/git/ref/heads/'' @ branch)"

definition commit_url :: "github_api \<Rightarrow> repository \<Rightarrow> string \<Rightarrow> string" where
  "commit_url A r sha = repo_url A (rp_owner r) (rp_name r) (''/git/commits/'' @ sha)"

definition move_request :: "github_api \<Rightarrow> repository \<Rightarrow> string \<Rightarrow> string \<Rightarrow> gh_request" where
  "move_request A r branch sha =
     sent A (json_req ''PATCH'' (repo_url A (rp_owner r) (rp_name r) (''/git/refs/heads/'' @ branch))
       (JObj [(''sha'', JStr sha), (''force'', JBool False)]))"

definition says :: "gh_fns \<Rightarrow> string \<Rightarrow> (json \<Rightarrow> bool) \<Rightarrow> exchanges \<Rightarrow> bool" where
  "says G url P t = (\<exists>x v. x \<in> set t \<and> gq_url (fst x) = url \<and> reply_json G x = Some v \<and> P v)"

lemma says_append [simp]: "says G url P (t @ u) \<longleftrightarrow> says G url P t \<or> says G url P u"
  by (auto simp: says_def)

lemma tries_says: "tries G A rq n (Inr v) t \<Longrightarrow> P v \<Longrightarrow> says G (gq_url rq) P t"
  unfolding says_def using triesD(5)[of G A rq n "Inr v" t v] triesD(1)[of G A rq n "Inr v" t] by force

definition moves :: "deliver_fns \<Rightarrow> github_api \<Rightarrow> repository \<Rightarrow> string \<Rightarrow> string \<Rightarrow> string \<Rightarrow> exchanges \<Rightarrow> bool" where
  "moves F A r branch expected commit t =
     (only_reads t
      \<or> (\<exists>t1 reply. t = t1 @ [(move_request A r branch commit, reply)] \<and> only_reads t1
           \<and> says (df_gh F) (commit_url A r commit)
               (\<lambda>v. \<exists>ps. as_array (jidx v ''parents'') = Some ps \<and> single_parent ps expected) t1
           \<and> says (df_gh F) (ref_url A r branch) (\<lambda>v. ref_acknowledged v branch expected) t1))"

lemma emits_fast_forward:
  "emits (fast_forward_branch F A r branch expected commit) (\<lambda>_ t. moves F A r branch expected commit t)"
proof -
  let ?M = "moves F A r branch expected commit"
  let ?n = "max 1 (ry_attempts (ga_retry A))"
  have nil: "?M []" by (simp add: moves_def)
  have reads: "only_reads t \<Longrightarrow> ?M t" for t by (simp add: moves_def)
  have last: "emits (gh_then (lift_api F (git_fast_forward_ref (df_gh F) A (rp_owner r) (rp_name r) branch commit)) (\<lambda>v.
       ref_response v branch commit)) (\<lambda>_ u. ?M (t @ u))"
    if t: "only_reads t" "says (df_gh F) (commit_url A r commit)
          (\<lambda>v. \<exists>ps. as_array (jidx v ''parents'') = Some ps \<and> single_parent ps expected) t"
      "says (df_gh F) (ref_url A r branch) (\<lambda>v. ref_acknowledged v branch expected) t" for t
  proof -
    have one: "?M (t @ u)" if "tries (df_gh F) A (json_req ''PATCH'' (repo_url A (rp_owner r) (rp_name r) (''/git/refs/heads/'' @ branch))
       (JObj [(''sha'', JStr commit), (''force'', JBool False)])) 1 x u" for x u
      using tries_one[OF that] t by (auto simp: moves_def move_request_def)
    show ?thesis unfolding git_fast_forward_ref_def ref_response_def
      by (rule emits_call[OF emits_post], erule one, rule emits_ensure) (simp_all only: append_Nil2 one)
  qed
  have second: "emits (gh_then (lift_api F (git_get_ref (df_gh F) A (rp_owner r) (rp_name r) branch)) (\<lambda>head.
     gh_then (ensure (jpath head [''object'', ''sha''] = JStr expected) MovedHead) (\<lambda>_.
     gh_then (ref_response head branch expected) (\<lambda>_.
     gh_then (lift_api F (git_fast_forward_ref (df_gh F) A (rp_owner r) (rp_name r) branch commit)) (\<lambda>v.
       ref_response v branch commit))))) (\<lambda>_ u. ?M (t @ u))"
    if t: "only_reads t" "says (df_gh F) (commit_url A r commit)
          (\<lambda>v. \<exists>ps. as_array (jidx v ''parents'') = Some ps \<and> single_parent ps expected) t" for t
    unfolding git_get_ref_def
  proof (rule emits_call[OF emits_idempotent])
    fix e u
    assume "tries (df_gh F) A (get_req (repo_url A (rp_owner r) (rp_name r) (''/git/ref/heads/'' @ branch))) ?n (Inl e) u"
    then show "?M (t @ u)" using reads t(1) tries_reads by (metis only_reads_simps(2))
  next
    fix head u
    assume u: "tries (df_gh F) A (get_req (repo_url A (rp_owner r) (rp_name r) (''/git/ref/heads/'' @ branch))) ?n (Inr head) u"
    have ru: "only_reads (t @ u)" using t(1) tries_reads[OF u] by simp
    show "emits (gh_then (ensure (jpath head [''object'', ''sha''] = JStr expected) MovedHead) (\<lambda>_.
     gh_then (ref_response head branch expected) (\<lambda>_.
     gh_then (lift_api F (git_fast_forward_ref (df_gh F) A (rp_owner r) (rp_name r) branch commit)) (\<lambda>v.
       ref_response v branch commit)))) (\<lambda>_ w. ?M (t @ u @ w))"
      unfolding ref_response_def[of head]
    proof (intro emits_ensure_then)
      assume "ref_acknowledged head branch expected"
      then have "says (df_gh F) (ref_url A r branch) (\<lambda>v. ref_acknowledged v branch expected) u"
        using tries_says[OF u] by (simp add: ref_url_def)
      then show "emits (gh_then (lift_api F (git_fast_forward_ref (df_gh F) A (rp_owner r) (rp_name r) branch commit)) (\<lambda>v.
       ref_response v branch commit)) (\<lambda>_ w. ?M (t @ u @ w))"
        using last[OF ru] t(2) by simp
    qed (use reads[OF ru] in simp_all)
  qed
  show ?thesis
    unfolding fast_forward_branch_def repo_check_def branch_check_def oid_check_def git_get_commit_def
  proof (intro emits_ensure_then nil emits_call[OF emits_idempotent])
    fix e u
    assume "tries (df_gh F) A (get_req (repo_url A (rp_owner r) (rp_name r) (''/git/commits/'' @ commit))) ?n (Inl e) u"
    then show "?M u" using reads tries_reads by blast
  next
    fix target u
    assume u: "tries (df_gh F) A (get_req (repo_url A (rp_owner r) (rp_name r) (''/git/commits/'' @ commit))) ?n (Inr target) u"
    show "emits (gh_then (require (as_array (jidx target ''parents'')) (Malformed_Reply ''commit parents'')) (\<lambda>parents.
     gh_then (ensure (single_parent parents expected) (Invalid_Input ''fix commit must have exactly the approved head as parent'')) (\<lambda>_.
     gh_then (lift_api F (git_get_ref (df_gh F) A (rp_owner r) (rp_name r) branch)) (\<lambda>head.
     gh_then (ensure (jpath head [''object'', ''sha''] = JStr expected) MovedHead) (\<lambda>_.
     gh_then (ref_response head branch expected) (\<lambda>_.
     gh_then (lift_api F (git_fast_forward_ref (df_gh F) A (rp_owner r) (rp_name r) branch commit)) (\<lambda>v.
       ref_response v branch commit)))))))
       (\<lambda>_ w. ?M (u @ w))"
    proof (intro emits_require_then emits_ensure_then second)
      fix ps
      assume "as_array (jidx target ''parents'') = Some ps" "single_parent ps expected"
      then show "says (df_gh F) (commit_url A r commit) (\<lambda>v. \<exists>ps. as_array (jidx v ''parents'') = Some ps \<and> single_parent ps expected) u"
        using tries_says[OF u, of "\<lambda>v. \<exists>ps. as_array (jidx v ''parents'') = Some ps \<and> single_parent ps expected"]
        by (simp add: commit_url_def)
    qed (use reads tries_reads[OF u] in simp_all)
  qed
qed

text \<open>C7: the only write of a fast-forward moves the branch to the fix commit, without force and as the last request,
  after GitHub answered that the commit's only parent is the approved head and that the branch stands there.\<close>

theorem fast_forward_from_approved_head:
  assumes "fast_forward_branch F A r branch expected commit h = (res, h @ t)" and "(rq, reply) \<in> set t"
    and "gq_method rq \<noteq> ''GET''"
  shows "\<exists>t1. t = t1 @ [(rq, reply)] \<and> rq = move_request A r branch commit
    \<and> says (df_gh F) (commit_url A r commit)
        (\<lambda>v. \<exists>ps. as_array (jidx v ''parents'') = Some ps \<and> single_parent ps expected) t1
    \<and> says (df_gh F) (ref_url A r branch) (\<lambda>v. ref_acknowledged v branch expected) t1"
proof -
  have "moves F A r branch expected commit t" using emitsD[OF emits_fast_forward assms(1)] by simp
  moreover have "\<not> only_reads t" using assms(2,3) unfolding only_reads_def by force
  ultimately obtain t1 reply' where t: "t = t1 @ [(move_request A r branch commit, reply')]" "only_reads t1"
    "says (df_gh F) (commit_url A r commit) (\<lambda>v. \<exists>ps. as_array (jidx v ''parents'') = Some ps \<and> single_parent ps expected) t1"
    "says (df_gh F) (ref_url A r branch) (\<lambda>v. ref_acknowledged v branch expected) t1"
    unfolding moves_def by blast
  have "(rq, reply) \<notin> set t1" using t(2) assms(3) unfolding only_reads_def by force
  then have "(rq, reply) = (move_request A r branch commit, reply')" using assms(2) t(1) by simp
  then show ?thesis using t by blast
qed

section \<open>The commit\<close>

definition all_requests :: "(gh_request \<Rightarrow> bool) \<Rightarrow> exchanges \<Rightarrow> bool" where
  "all_requests P t = (\<forall>x\<in>set t. P (fst x))"

lemma all_requests_simps [simp]:
  "all_requests P []" "all_requests P (t @ u) \<longleftrightarrow> all_requests P t \<and> all_requests P u"
  "all_requests P (x # t) \<longleftrightarrow> P (fst x) \<and> all_requests P t"
  by (auto simp: all_requests_def)

lemma emits_all_then:
  "emits m (\<lambda>_ t. all_requests P t) \<Longrightarrow> (\<And>x. emits (f x) (\<lambda>_ t. all_requests P t))
     \<Longrightarrow> emits (gh_then m f) (\<lambda>_ t. all_requests P t)"
  by (erule emits_then) (simp_all add: emits_mono)

lemma emits_all_lift: "emits m (\<lambda>_ t. all_requests P t) \<Longrightarrow> emits (lift_api F m) (\<lambda>_ t. all_requests P t)"
  by (erule emits_lift) simp_all

lemma emits_all_post: "P (sent A rq) \<Longrightarrow> emits (send_post F A rq) (\<lambda>_ t. all_requests P t)"
  by (rule emits_mono[OF emits_post]) (simp add: all_requests_def triesD(1))

lemma emits_all_get: "P (sent A rq) \<Longrightarrow> emits (send_idempotent F A rq) (\<lambda>_ t. all_requests P t)"
  by (rule emits_mono[OF emits_idempotent]) (simp add: all_requests_def triesD(1))

lemma emits_all_oid: "emits (response_oid v key) (\<lambda>_ t. all_requests P t)"
  unfolding response_oid_def by (rule emits_require) simp_all

definition content_ok :: "deliver_fns \<Rightarrow> file_change \<Rightarrow> bool" where
  "content_ok F f =
     (fc_status f = Deleted \<or> (case fc_new_content f of Some c \<Rightarrow> safe_content F c | None \<Rightarrow> False))"

definition checked_changes :: "deliver_fns \<Rightarrow> file_change list \<Rightarrow> bool" where
  "checked_changes F fs = (distinct (map fc_path fs) \<and> list_all (\<lambda>f. deliverable_change F f \<and> content_ok F f) fs)"

lemma check_changes_ok:
  "check_changes F seen fs = None \<Longrightarrow> checked_changes F fs \<and> set (map fc_path fs) \<inter> set seen = {}"
proof (induction fs arbitrary: seen)
  case (Cons f fs)
  have f: "fc_path f \<notin> set seen" "deliverable_change F f" "content_ok F f" "check_changes F (fc_path f # seen) fs = None"
    using Cons.prems by (auto simp: content_ok_def split: if_splits option.splits)
  from Cons.IH[OF f(4)] f(1-3) show ?case by (auto simp: checked_changes_def)
qed (simp add: checked_changes_def)

definition git_url :: "github_api \<Rightarrow> repository \<Rightarrow> string \<Rightarrow> string" where
  "git_url A r what = repo_url A (rp_owner r) (rp_name r) (''/git/'' @ what)"

definition blob_payload :: "file_change \<Rightarrow> json" where
  "blob_payload f =
     JObj [(''content'', JStr (case fc_new_content f of Some c \<Rightarrow> c | None \<Rightarrow> [])), (''encoding'', JStr ''utf-8'')]"

text \<open>The writes of a commit: the content of a change, a tree, a commit whose only parent is the given one.\<close>

definition commit_write :: "github_api \<Rightarrow> repository \<Rightarrow> string \<Rightarrow> file_change list \<Rightarrow> gh_request \<Rightarrow> bool" where
  "commit_write A r parent changes rq =
     (gq_method rq = ''POST''
      \<and> (gq_url rq = git_url A r ''blobs'' \<and> list_ex (\<lambda>f. fc_status f \<noteq> Deleted \<and> gq_body rq = Some (blob_payload f)) changes
         \<or> gq_url rq = git_url A r ''trees''
         \<or> gq_url rq = git_url A r ''commits''
           \<and> (case gq_body rq of Some b \<Rightarrow> jidx b ''parents'' = JArr [JStr parent] | None \<Rightarrow> False)))"

lemma emits_tree_items:
  "set fs \<subseteq> set changes \<Longrightarrow> emits (tree_items F A r fs items)
     (\<lambda>_ t. all_requests (\<lambda>rq. gq_method rq = ''GET'' \<or> commit_write A r parent changes rq) t)"
proof (induction fs arbitrary: items)
  case (Cons f fs)
  let ?P = "\<lambda>rq. gq_method rq = ''GET'' \<or> commit_write A r parent changes rq"
  have IH: "emits (tree_items F A r fs items) (\<lambda>_ t. all_requests ?P t)" for items using Cons by simp
  show ?case
  proof (cases "fc_status f = Deleted")
    case False
    have w: "?P (sent A (json_req ''POST'' (repo_url A (rp_owner r) (rp_name r) ''/git/blobs'')
        (JObj [(''content'', JStr (case fc_new_content f of Some c \<Rightarrow> c | None \<Rightarrow> [])), (''encoding'', JStr ''utf-8'')])))"
      using False Cons.prems by (auto simp: commit_write_def git_url_def blob_payload_def list_ex_iff)
    show ?thesis using False unfolding tree_items.simps git_create_blob_def
      by (simp only: if_False) (intro emits_all_then emits_all_lift emits_all_post w emits_all_oid IH)
  qed (simp add: IH)
qed (simp add: emits_ret)

lemma emits_create_commit:
  "emits (create_commit F A r parent changes message) (\<lambda>_ t. t = []
     \<or> (repo_name_ok (rp_owner r) \<and> repo_name_ok (rp_name r) \<and> commit_input_ok changes message \<and> checked_changes F changes
        \<and> all_requests (\<lambda>rq. gq_method rq = ''GET'' \<or> commit_write A r parent changes rq) t))"
proof -
  let ?P = "\<lambda>rq. gq_method rq = ''GET'' \<or> commit_write A r parent changes rq"
  let ?Q = "\<lambda>t. t = [] \<or> (repo_name_ok (rp_owner r) \<and> repo_name_ok (rp_name r) \<and> commit_input_ok changes message
    \<and> checked_changes F changes \<and> all_requests ?P t)"
  have tree: "?P (sent A (json_req ''POST'' (repo_url A (rp_owner r) (rp_name r) ''/git/trees'') b))" for b
    by (simp add: commit_write_def git_url_def)
  have commit: "?P (sent A (json_req ''POST'' (repo_url A (rp_owner r) (rp_name r) ''/git/commits'')
      (JObj [(''message'', m), (''tree'', s), (''parents'', JArr [JStr parent])])))" for m s
    by (simp add: commit_write_def git_url_def jidx_def jget_def)
  have main: "emits (gh_then (lift_api F (git_get_commit (df_gh F) A (rp_owner r) (rp_name r) parent)) (\<lambda>p.
     gh_then (response_oid p ''sha'') (\<lambda>answered_sha.
     gh_then (ensure (answered_sha = parent) (Malformed_Reply ''parent commit mismatch'')) (\<lambda>_.
     gh_then (response_oid (jidx p ''tree'') ''sha'') (\<lambda>base_tree.
     gh_then (tree_items F A r changes []) (\<lambda>items.
     gh_then (lift_api F (git_create_tree (df_gh F) A (rp_owner r) (rp_name r) base_tree items)) (\<lambda>t.
     gh_then (response_oid t ''sha'') (\<lambda>tree.
     gh_then (lift_api F (git_create_commit (df_gh F) A (rp_owner r) (rp_name r) parent tree message)) (\<lambda>commit.
       response_oid commit ''sha'')))))))) ) (\<lambda>_ t. all_requests ?P t)"
    unfolding git_get_commit_def git_create_tree_def git_create_commit_def
    by (intro emits_all_then emits_all_lift emits_all_post emits_all_oid emits_tree_items tree commit emits_ensure emits_all_get)
      simp_all
  show ?thesis unfolding create_commit_def repo_check_def oid_check_def
  proof (intro emits_ensure_then)
    assume ok: "repo_name_ok (rp_owner r) \<and> repo_name_ok (rp_name r)" "commit_input_ok changes message"
    show "emits (gh_then (case check_changes F [] changes of Some e \<Rightarrow> gh_fail e | None \<Rightarrow> gh_ret ()) (\<lambda>_.
     gh_then (lift_api F (git_get_commit (df_gh F) A (rp_owner r) (rp_name r) parent)) (\<lambda>p.
     gh_then (response_oid p ''sha'') (\<lambda>answered_sha.
     gh_then (ensure (answered_sha = parent) (Malformed_Reply ''parent commit mismatch'')) (\<lambda>_.
     gh_then (response_oid (jidx p ''tree'') ''sha'') (\<lambda>base_tree.
     gh_then (tree_items F A r changes []) (\<lambda>items.
     gh_then (lift_api F (git_create_tree (df_gh F) A (rp_owner r) (rp_name r) base_tree items)) (\<lambda>t.
     gh_then (response_oid t ''sha'') (\<lambda>tree.
     gh_then (lift_api F (git_create_commit (df_gh F) A (rp_owner r) (rp_name r) parent tree message)) (\<lambda>commit.
       response_oid commit ''sha'')))))))))) (\<lambda>_ t. ?Q t)"
    proof (cases "check_changes F [] changes")
      case None
      then have "checked_changes F changes" using check_changes_ok by blast
      with ok show ?thesis unfolding None option.case gh_then_ret by (intro emits_mono[OF main]) simp
    next
      case (Some e)
      then show ?thesis by (simp add: emits_def gh_then_def gh_fail_def)
    qed
  qed simp_all
qed

text \<open>C13: building a commit writes only when every change passed the checks, and then only blobs with the checked
  content of a change, trees, and commits whose only parent is the approved one; no reference is touched.\<close>

theorem commit_writes_checked_content:
  assumes "create_commit F A r parent changes message h = (res, h @ t)" and "(rq, reply) \<in> set t" and "gq_method rq \<noteq> ''GET''"
  shows "commit_write A r parent changes rq \<and> commit_input_ok changes message \<and> checked_changes F changes"
  using emitsD[OF emits_create_commit assms(1)] assms(2,3) by (force simp: all_requests_def)

section \<open>The draft pull request\<close>

definition ref_request :: "github_api \<Rightarrow> repository \<Rightarrow> string \<Rightarrow> string \<Rightarrow> gh_request" where
  "ref_request A r branch sha =
     sent A (json_req ''POST'' (repo_url A (rp_owner r) (rp_name r) ''/git/refs'')
       (JObj [(''ref'', JStr (''refs/heads/'' @ branch)), (''sha'', JStr sha)]))"

definition pulls_url :: "github_api \<Rightarrow> repository \<Rightarrow> string" where
  "pulls_url A r = repo_url A (rp_owner r) (rp_name r) ''/pulls''"

definition draft_request :: "deliver_fns \<Rightarrow> github_api \<Rightarrow> repository \<Rightarrow> string \<Rightarrow> string \<Rightarrow> string \<Rightarrow> string \<Rightarrow> gh_request" where
  "draft_request F A r branch base_ref title body =
     sent A (json_req ''POST'' (pulls_url A r)
       (JObj [(''head'', JStr branch), (''base'', JStr base_ref), (''title'', JStr (gf_redact (df_gh F) title)),
              (''body'', JStr (gf_redact (df_gh F) body)), (''draft'', JBool True)]))"

text \<open>The branch was created at the commit by the last of the exchanges.\<close>

definition created_last :: "deliver_fns \<Rightarrow> github_api \<Rightarrow> repository \<Rightarrow> string \<Rightarrow> string \<Rightarrow> exchanges \<Rightarrow> bool" where
  "created_last F A r commit branch refs =
     (refs \<noteq> [] \<and> branch_name_ok branch \<and> fst (last refs) = ref_request A r branch commit
      \<and> (case reply_json (df_gh F) (last refs) of Some v \<Rightarrow> ref_acknowledged v branch commit | None \<Rightarrow> False))"

definition draft_trace ::
  "deliver_fns \<Rightarrow> github_api \<Rightarrow> repository \<Rightarrow> string \<Rightarrow> string \<Rightarrow> string \<Rightarrow> string \<Rightarrow> nat \<Rightarrow> exchanges \<Rightarrow> bool"
where
  "draft_trace F A r commit base_ref title body n t =
     (\<exists>refs. length refs \<le> n \<and> all_requests (\<lambda>rq. gq_url rq = git_url A r ''refs'') refs
        \<and> (t = refs \<or> (\<exists>branch reply. t = refs @ [(draft_request F A r branch base_ref title body, reply)]
                         \<and> created_last F A r commit branch refs)))"

lemma draft_trace_Cons:
  assumes "draft_trace F A r commit base_ref title body n t" and "gq_url (fst x) = git_url A r ''refs''"
  shows "draft_trace F A r commit base_ref title body (Suc n) (x # t)"
proof -
  obtain refs where "length refs \<le> n" "all_requests (\<lambda>rq. gq_url rq = git_url A r ''refs'') refs"
    "t = refs \<or> (\<exists>branch reply. t = refs @ [(draft_request F A r branch base_ref title body, reply)]
       \<and> created_last F A r commit branch refs)"
    using assms(1) unfolding draft_trace_def by blast
  then show ?thesis unfolding draft_trace_def
    by (intro exI[of _ "x # refs"]) (use assms(2) in \<open>auto simp: created_last_def\<close>)
qed

lemma tries_single:
  "tries F A rq 1 r t \<Longrightarrow> \<exists>x. t = [x] \<and> fst x = sent A rq \<and> (\<forall>v. r = Inr v \<longrightarrow> reply_json F x = Some v)"
  by (cases t) (auto simp: tries_def)

lemma emits_draft_at:
  "emits (open_draft_at F A r branch commit base_ref title body)
     (\<lambda>_ t. \<exists>reply. t = [(draft_request F A r branch base_ref title body, reply)])"
proof (rule emitsI)
  fix h
  obtain t where t: "snd (create_draft_pull (df_gh F) A (rp_owner r) (rp_name r) branch base_ref title body h) = h @ t"
    "\<exists>reply. t = [(draft_request F A r branch base_ref title body, reply)]"
    unfolding create_draft_pull_def draft_request_def pulls_url_def
    by (rule emitsE[OF emits_post]) (drule tries_one, blast)
  moreover have "snd (open_draft_at F A r branch commit base_ref title body h)
      = snd (create_draft_pull (df_gh F) A (rp_owner r) (rp_name r) branch base_ref title body h)"
    by (simp add: open_draft_at_def split: prod.splits sum.splits)
  ultimately show "\<exists>t. snd (open_draft_at F A r branch commit base_ref title body h) = h @ t
      \<and> (\<exists>reply. t = [(draft_request F A r branch base_ref title body, reply)])" by metis
qed

lemma emits_try_branches:
  "emits (try_branches F A r commit pre base_ref title body js) (\<lambda>_ t. draft_trace F A r commit base_ref title body (length js) t)"
proof (induction js)
  case Nil
  then show ?case by (auto intro!: emits_fail simp: draft_trace_def)
next
  case (Cons i js)
  let ?b = "branch_name pre commit i" and ?T = "draft_trace F A r commit base_ref title body"
  let ?ref = "lift_api F (git_create_ref (df_gh F) A (rp_owner r) (rp_name r) ?b commit)"
  have nil: "?T n []" for n by (simp add: draft_trace_def)
  show ?case unfolding try_branches.simps branch_check_def
  proof (rule emits_ensure_then)
    assume ok: "branch_name_ok ?b"
    show "emits (\<lambda>h. case ?ref h of (Inl RefExists, h1) \<Rightarrow> try_branches F A r commit pre base_ref title body js h1
        | (Inl e, h1) \<Rightarrow> (Inl e, h1)
        | (Inr v, h1) \<Rightarrow> gh_then (ref_response v ?b commit) (\<lambda>_. open_draft_at F A r ?b commit base_ref title body) h1)
      (\<lambda>_ t. ?T (length (i # js)) t)"
    proof (rule emitsI)
      fix h
      let ?run = "case ?ref h of (Inl RefExists, h1) \<Rightarrow> try_branches F A r commit pre base_ref title body js h1
        | (Inl e, h1) \<Rightarrow> (Inl e, h1)
        | (Inr v, h1) \<Rightarrow> gh_then (ref_response v ?b commit) (\<lambda>_. open_draft_at F A r ?b commit base_ref title body) h1"
      have ref: "emits ?ref (\<lambda>res t. \<exists>x. t = [x] \<and> fst x = ref_request A r ?b commit \<and> (\<forall>v. res = Inr v \<longrightarrow> reply_json (df_gh F) x = Some v))"
        unfolding git_create_ref_def ref_request_def
        by (rule emits_lift[OF emits_post]) (drule tries_single, simp)+
      obtain x where x: "snd (?ref h) = h @ [x]" "fst x = ref_request A r ?b commit"
        "\<forall>v. fst (?ref h) = Inr v \<longrightarrow> reply_json (df_gh F) x = Some v"
        by (rule emitsE[OF ref, of h]) blast
      have url: "gq_url (fst x) = git_url A r ''refs''" using x(2) by (simp add: ref_request_def git_url_def)
      have one: "?T (length (i # js)) [x]" using draft_trace_Cons[OF nil url] by simp
      show "\<exists>t. snd ?run = h @ t \<and> ?T (length (i # js)) t"
      proof (cases "?ref h")
        case (Pair res h1)
        have h1: "h1 = h @ [x]" using x(1) Pair by simp
        show ?thesis
        proof (cases res)
          case (Inl e)
          show ?thesis
          proof (cases "e = RefExists")
            case True
            obtain t where t: "snd (try_branches F A r commit pre base_ref title body js h1) = h1 @ t" "?T (length js) t"
              by (rule emitsE[OF Cons.IH])
            have "?T (length (i # js)) (x # t)" using draft_trace_Cons[OF t(2) url] by simp
            then show ?thesis using Pair Inl True t(1) h1 by (intro exI[of _ "x # t"]) simp
          next
            case False
            then have "snd ?run = h1" using Pair Inl by (cases e) simp_all
            then show ?thesis using h1 one by blast
          qed
        next
          case (Inr v)
          show ?thesis
          proof (cases "ref_acknowledged v ?b commit")
            case True
            obtain reply where d: "snd (open_draft_at F A r ?b commit base_ref title body h1)
                = h1 @ [(draft_request F A r ?b base_ref title body, reply)]"
              by (rule emitsE[OF emits_draft_at, of F A r ?b commit base_ref title body h1]) blast
            have run: "snd ?run = h @ [x, (draft_request F A r ?b base_ref title body, reply)]"
              using Pair Inr True d h1 by (simp add: ref_response_def ensure_def gh_then_ret)
            have "created_last F A r commit ?b [x]"
              using x(2,3) Pair Inr True ok by (simp add: created_last_def)
            then have "?T (length (i # js)) [x, (draft_request F A r ?b base_ref title body, reply)]"
              unfolding draft_trace_def using url by (intro exI[of _ "[x]"]) auto
            then show ?thesis using run by blast
          next
            case False
            then have "snd ?run = h1" using Pair Inr by (simp add: ref_response_def ensure_def gh_then_def gh_fail_def)
            then show ?thesis using h1 one by blast
          qed
        qed
      qed
    qed
  qed (rule nil)
qed

text \<open>C24: a pull request is opened at most once, as a draft and as the last request, for the branch that GitHub has
  just acknowledged to have created at the commit; at most eight branches are tried.\<close>

theorem draft_opened_on_created_branch:
  assumes "open_draft_pr F A r commit pre base_ref title body h = (res, h @ t)" and "(rq, reply) \<in> set t"
    and "gq_url rq = pulls_url A r"
  shows "\<exists>refs branch. t = refs @ [(rq, reply)] \<and> rq = draft_request F A r branch base_ref title body
    \<and> created_last F A r commit branch refs \<and> length refs \<le> 8"
proof -
  have "emits (open_draft_pr F A r commit pre base_ref title body) (\<lambda>_ t. draft_trace F A r commit base_ref title body 8 t)"
    unfolding open_draft_pr_def repo_check_def oid_check_def branch_check_def
  proof (intro emits_ensure_then)
    show "emits (try_branches F A r commit pre base_ref title body [0..<8]) (\<lambda>_ t. draft_trace F A r commit base_ref title body 8 t)"
      using emits_try_branches[of F A r commit pre base_ref title body "[0..<8]"] by simp
  qed (simp_all add: draft_trace_def)
  from emitsD[OF this assms(1)] obtain refs where refs: "length refs \<le> 8" "all_requests (\<lambda>rq. gq_url rq = git_url A r ''refs'') refs"
    and t: "t = refs \<or> (\<exists>branch reply. t = refs @ [(draft_request F A r branch base_ref title body, reply)]
       \<and> created_last F A r commit branch refs)"
    unfolding draft_trace_def by auto
  have "git_url A r ''refs'' \<noteq> pulls_url A r" by (simp add: git_url_def pulls_url_def repo_url_def)
  then have no: "(rq, reply) \<notin> set refs" using refs(2) assms(3) unfolding all_requests_def by force
  with t assms(2) obtain branch reply' where "t = refs @ [(draft_request F A r branch base_ref title body, reply')]"
    "created_last F A r commit branch refs" by blast
  moreover from this have "(rq, reply) = (draft_request F A r branch base_ref title body, reply')" using no assms(2) by simp
  ultimately show ?thesis using refs(1) by blast
qed

end
