(* ===== verification/Github_Witness.thy ===== *)
theory Github_Witness
  imports Publish_Props Deliver_Props
begin

text \<open>
  A publication run against a scripted GitHub, the witness of the properties of \<open>Publish_Props\<close>: the
  target is fresh, no comment is there yet, one finding is open, and the summary comment is created.
\<close>

definition demo_json :: "string \<Rightarrow> json option" where
  "demo_json b =
     (if b = ''pull'' then Some (JObj [(''head'', JObj [(''sha'', JStr (replicate 40 (CHR ''a'')))]),
                                       (''base'', JObj [(''ref'', JStr ''main'')])])
      else if b = ''user'' then Some (JObj [(''login'', JStr ''revera'')])
      else if b = ''none'' then Some (JArr [])
      else if b = ''made'' then Some (JObj [(''id'', JNat 9)]) else None)"

definition demo_fns :: publish_fns where
  "demo_fns =
     \<lparr>pf_gh = \<lparr>gf_json = demo_json, gf_redact = (\<lambda>s. s)\<rparr>, pf_state_json = (\<lambda>_. ''{}''), pf_state_of = (\<lambda>_. None),
      pf_b64 = (\<lambda>_. ''e30=''), pf_unb64 = (\<lambda>_. Some ''{}''), pf_hash = (\<lambda>s. s), pf_lower = (\<lambda>s. s), pf_secs = (\<lambda>_. ''0s'')\<rparr>"

definition demo_replies :: "string list" where
  "demo_replies = [''pull'', ''user'', ''none'', ''made'', ''none'', ''made'', ''made'']"

definition demo_api :: github_api where
  "demo_api =
     \<lparr>ga_base = ''https://g'', ga_token = ''t'', ga_http = (\<lambda>h _. (Reply 200 None (demo_replies ! length h), 0)),
      ga_retry = retry_default\<rparr>"

definition demo_event :: pr_event where
  "demo_event =
     \<lparr>pe_repo_full_name = ''o/r'', pe_number = 7, pe_title = [], pe_body = [], pe_head_sha = [], pe_head_ref = [],
      pe_head_repo_full_name = ''o/r'', pe_base_sha = [], pe_base_ref = ''main'', pe_repository_public = True\<rparr>"

definition demo_state :: review_state where
  "demo_state =
     \<lparr>rs_version = STATE_VERSION, rs_reviewed_head = [], rs_reviewed_base = [], rs_patch_id = [], rs_review_key = [],
      rs_last_status = None, rs_summary_comment_id = None, rs_findings = []\<rparr>"

definition demo_inline :: inline_comment where
  "demo_inline = \<lparr>ic_file = ''f'', ic_line = 3, ic_end_line = None, ic_body = ''<!-- revera-id:0123456789ab -->''\<rparr>"

definition demo_report :: "run_report \<Rightarrow> run_report" where
  "demo_report r =
     r\<lparr>rr_head := replicate 40 (CHR ''a''),
       rr_plan := \<lparr>pp_inline = [demo_inline], pp_summary = ''s'', pp_state = demo_state, pp_publish_uncertain = False\<rparr>\<rparr>"

abbreviation demo_run :: "run_report \<Rightarrow> publish_out \<times> exchanges" where
  "demo_run r \<equiv> publish demo_fns demo_api 0 demo_event 5 ''<!-- revera -->'' ''bot'' (demo_report r) demo_state []"

section \<open>Steps of the run\<close>

abbreviation got :: "gh_request \<Rightarrow> string \<Rightarrow> gh_request \<times> gh_reply" where
  "got rq b \<equiv> (sent demo_api rq, Reply 200 None b)"

lemma demo_once:
  assumes "demo_replies ! length h = b" and "demo_json b = Some v"
  shows "send_once (pf_gh demo_fns) demo_api rq h = (Inr v, h @ [got rq b])"
  using assms by (simp add: send_once_def demo_api_def demo_fns_def sent_def Let_def)

lemma demo_get:
  assumes "demo_replies ! length h = b" and "demo_json b = Some v"
  shows "send_idempotent (pf_gh demo_fns) demo_api rq h = (Inr v, h @ [got rq b])"
  unfolding send_idempotent_def by (subst send_attempt.simps) (simp add: demo_once[OF assms])

lemma demo_post:
  assumes "demo_replies ! length h = b" and "demo_json b = Some v"
  shows "send_post (pf_gh demo_fns) demo_api rq h = (Inr v, h @ [got rq b])"
  by (simp add: send_post_def demo_once[OF assms])

lemma demo_answers:
  "demo_json ''pull'' = Some (JObj [(''head'', JObj [(''sha'', JStr (replicate 40 (CHR ''a'')))]),
                                   (''base'', JObj [(''ref'', JStr ''main'')])])"
  "demo_json ''user'' = Some (JObj [(''login'', JStr ''revera'')])"
  "demo_json ''none'' = Some (JArr [])" "demo_json ''made'' = Some (JObj [(''id'', JNat 9)])"
  by (simp_all add: demo_json_def)

lemma demo_id: "revera_id (ic_body demo_inline) = Some ''0123456789ab''"
  by (simp add: demo_inline_def) code_simp

lemma demo_comments: "review_comments 5 (mark_posted [] demo_state) (demo_report r)
    = [\<lparr>rv_path = ''f'', rv_line = 3, rv_end_line = None, rv_body = ic_body demo_inline\<rparr>]"
  by (simp add: review_comments_def demo_report_def unposted_def demo_id has_posted_def mark_posted_def demo_state_def)
    (simp add: demo_inline_def)

text \<open>The pull request, the login and the inline comments are read first.\<close>

lemma demo_repo: "owner_repo demo_event = (''o'', ''r'')" "pe_number demo_event = 7" "pe_base_ref demo_event = ''main''"
  by (simp_all add: owner_repo_def demo_event_def)

definition demo_me :: gh_identity where "demo_me = \<lparr>id_viewer = Some ''revera'', id_bot_login = ''bot''\<rparr>"

lemma demo_target:
  "get_pull_target (pf_gh demo_fns) demo_api ''o'' ''r'' 7 []
     = (Inr (replicate 40 (CHR ''a''), ''main''), [got (get_req (repo_url demo_api ''o'' ''r'' (''/pulls/'' @ nat_str 7))) ''pull''])"
proof -
  have "demo_replies ! length ([]::exchanges) = ''pull''" by (simp add: demo_replies_def)
  note g = demo_get[OF this demo_answers(1)]
  have "is_oid (replicate 40 (CHR ''a''))" by (simp add: is_oid_def is_ascii_hexdigit_def is_ascii_digit_def list_all_iff)
  then show ?thesis
    by (simp add: get_pull_target_def pull_json_def gh_then_def g need_def gh_ret_def oid_of_def base_name_def jpath_def
        jidx_def jget_def as_str_def)
qed

lemma demo_identity:
  assumes "demo_replies ! length h = ''user''"
  shows "resolve_identity (pf_gh demo_fns) demo_api ''bot'' h = (demo_me, h @ [got (get_req (ga_base demo_api @ ''/user'')) ''user''])"
  by (simp add: resolve_identity_def viewer_login_def demo_get[OF assms demo_answers(2)] jidx_def jget_def as_str_def demo_me_def)

lemma demo_list:
  assumes "demo_replies ! length h = ''none''"
  shows "list_comments (pf_gh demo_fns) demo_api url what h = (Inr [], h @ [got (get_req (page_url url 1)) ''none''])"
proof -
  have "[1..<Suc MAX_PAGES] = 1 # [Suc 1..<Suc MAX_PAGES]" by (rule upt_conv_Cons) (simp add: MAX_PAGES_def)
  then have "list_comments (pf_gh demo_fns) demo_api url what
      = list_pages (pf_gh demo_fns) demo_api url what (1 # [Suc 1..<Suc MAX_PAGES]) []" by (simp only: list_comments_def)
  then show ?thesis
    by (simp only: list_pages.simps gh_then_def demo_get[OF assms demo_answers(3)])
      (simp add: need_def as_array_def gh_ret_def)
qed

lemma demo_review:
  assumes "demo_replies ! length h = ''made''" and "cs \<noteq> []"
  shows "post_review demo_fns demo_api demo_event me head cs st h
     = (Inr (''ok'', comment_mode\<lparr>pu_review_id := Some 9\<rparr>, mark_posted (List.map_filter (\<lambda>c. revera_id (rv_body c)) cs) st),
        h @ [(review_request_of demo_fns demo_api demo_event head cs, Reply 200 None ''made'')])"
  by (simp add: post_review_def create_review_def gh_then_def demo_post[OF assms(1) demo_answers(4)] assms(2) need_def positive_id_def
      jidx_def jget_def as_u64_def gh_ret_def Let_def review_request_of_def reviews_url_def review_payload_def)

lemma demo_create:
  assumes "demo_replies ! length h = ''made''"
  shows "\<exists>c x. create_issue_comment (pf_gh demo_fns) demo_api ''o'' ''r'' n body h = (Inr c, h @ [x]) \<and> gc_id c = 9"
  by (simp add: create_issue_comment_def Let_def gh_then_def demo_post[OF assms demo_answers(4)] parse_comment_def
      positive_id_def jidx_def jget_def as_u64_def gh_ret_def)

lemma demo_adopt:
  assumes "demo_replies ! length h = ''made''" and "gc_id c = 9"
  shows "\<exists>r rq reply. adopt demo_fns demo_api demo_event mkr report staged c h = (Inr r, h @ [(rq, reply)])
      \<and> gq_method rq = ''PATCH'' \<and> gq_url rq = comment_url demo_api demo_event 9"
  using assms(2) by (simp add: adopt_def Let_def update_issue_comment_def gh_then_def demo_get[OF assms(1) demo_answers(4)]
      parse_comment_def positive_id_def jidx_def jget_def as_u64_def gh_ret_def gh_fail_def demo_repo comment_url_def)

lemma demo_upsert:
  assumes "length h = 4"
  shows "\<exists>r t1 rq reply. upsert_summary demo_fns demo_api demo_event me mkr report st h = (Inr r, h @ t1 @ [(rq, reply)])
      \<and> gq_method rq = ''PATCH'' \<and> gq_url rq = comment_url demo_api demo_event 9"
proof -
  let ?staged = "mark_posted (surfaced_ids (pf_hash demo_fns) (rr_findings report)) st"
  let ?body = "summary_text demo_fns mkr report ?staged @ []"
  define h1 where "h1 = h @ [got (get_req (page_url (repo_url demo_api ''o'' ''r'' (''/issues/'' @ nat_str 7 @ ''/comments'')) 1)) ''none'']"
  have n: "demo_replies ! length h = ''none''" "demo_replies ! length h1 = ''made''" "demo_replies ! length (h1 @ [y]) = ''made''" for y
    using assms by (simp_all add: h1_def demo_replies_def)
  have list: "list_issue_comments (pf_gh demo_fns) demo_api ''o'' ''r'' 7 h = (Inr [], h1)"
    by (simp only: list_issue_comments_def demo_list[OF n(1)] h1_def)
  have none: "find_managed demo_fns [] mkr e me = None" for e by (simp add: find_managed_def split: option.splits)
  have up: "upsert_summary demo_fns demo_api demo_event me mkr report st h
      = create_summary demo_fns demo_api demo_event me mkr report ?staged ?body h1"
    unfolding upsert_summary_def Let_def gh_then_def demo_repo fst_conv snd_conv list prod.case sum.case none
    by (simp only: Option.bind.simps option.case)
  obtain c x where c: "create_issue_comment (pf_gh demo_fns) demo_api ''o'' ''r'' 7
      (?body @ nl @ state_blob demo_fns report ?staged) h1 = (Inr c, h1 @ [x])" "gc_id c = 9"
    using demo_create[OF n(2)] by blast
  have cr: "create_summary demo_fns demo_api demo_event me mkr report ?staged ?body h1
      = adopt demo_fns demo_api demo_event mkr report ?staged c (h1 @ [x])"
    unfolding create_summary_def Let_def demo_repo fst_conv snd_conv c(1) prod.case sum.case ..
  obtain r rq reply where a: "adopt demo_fns demo_api demo_event mkr report ?staged c (h1 @ [x]) = (Inr r, (h1 @ [x]) @ [(rq, reply)])"
    "gq_method rq = ''PATCH''" "gq_url rq = comment_url demo_api demo_event 9"
    using demo_adopt[OF n(3) c(2)] by blast
  have "(h1 @ [x]) @ [(rq, reply)] = h @ (drop (length h) h1 @ [x]) @ [(rq, reply)]"
    by (simp add: h1_def)
  then show ?thesis unfolding up cr a(1) using a(2,3) by blast
qed

text \<open>The whole run: what it posts, and the edit at its end.\<close>

abbreviation demo_review_request :: gh_request where
  "demo_review_request \<equiv> review_request_of demo_fns demo_api demo_event (replicate 40 (CHR ''a''))
     [\<lparr>rv_path = ''f'', rv_line = 3, rv_end_line = None, rv_body = ic_body demo_inline\<rparr>]"

lemma demo_trace:
  "\<exists>out t1 t2 reply rq reply'. demo_run r = (out, t1 @ (demo_review_request, reply) # t2 @ [(rq, reply')])
     \<and> gq_method rq = ''PATCH'' \<and> gq_url rq = comment_url demo_api demo_event 9"
proof -
  let ?cs = "[\<lparr>rv_path = ''f'', rv_line = 3, rv_end_line = None, rv_body = ic_body demo_inline\<rparr>]"
  define h1 where "h1 = [got (get_req (repo_url demo_api ''o'' ''r'' (''/pulls/'' @ nat_str 7))) ''pull'']"
  define h2 where "h2 = h1 @ [got (get_req (ga_base demo_api @ ''/user'')) ''user'']"
  define h3 where "h3 = h2 @ [got (get_req (page_url (repo_url demo_api ''o'' ''r'' (''/pulls/'' @ nat_str 7 @ ''/comments'')) 1)) ''none'']"
  define h4 where "h4 = h3 @ [(demo_review_request, Reply 200 None ''made'')]"
  have n: "demo_replies ! length h1 = ''user''" "demo_replies ! length h2 = ''none''" "demo_replies ! length h3 = ''made''" "length h4 = 4"
    by (simp_all add: h1_def h2_def h3_def h4_def demo_replies_def)
  let ?st1 = "mark_posted [] demo_state"
  let ?st2 = "mark_posted (List.map_filter (\<lambda>c. revera_id (rv_body c)) ?cs) ?st1"
  let ?rep = "with_timing demo_fns 0 ''ok'' (demo_report r)"
  have head: "rr_head (demo_report r) = replicate 40 (CHR ''a'')" by (simp add: demo_report_def)
  have id: "resolve_identity (pf_gh demo_fns) demo_api ''bot'' h1 = (demo_me, h2)"
    by (simp only: demo_identity[OF n(1)] h2_def)
  have list: "list_review_comments (pf_gh demo_fns) demo_api ''o'' ''r'' 7 h2 = (Inr [], h3)"
    by (simp only: list_review_comments_def demo_list[OF n(2)] h3_def)
  have none: "posted_revera_ids [] demo_me = []" by (simp add: posted_revera_ids_def map_filter_simps)
  have post: "post_review demo_fns demo_api demo_event demo_me (replicate 40 (CHR ''a'')) ?cs ?st1 h3
      = (Inr (''ok'', comment_mode\<lparr>pu_review_id := Some 9\<rparr>, ?st2), h4)"
    unfolding h4_def by (rule demo_review[OF n(3)]) simp
  obtain p t1 rq reply where up: "upsert_summary demo_fns demo_api demo_event demo_me ''<!-- revera -->'' ?rep ?st2 h4
      = (Inr p, h4 @ t1 @ [(rq, reply)])" "gq_method rq = ''PATCH''" "gq_url rq = comment_url demo_api demo_event 9"
    using demo_upsert[OF n(4)] by blast
  have ok: "(if ''ok'' = ''skipped'' then 0 else 0) = (0::nat)" by simp
  obtain c staged where p: "p = (c, staged)" by (cases p)
  have pub: "\<exists>out. publish_fresh demo_fns demo_api 0 demo_event 5 ''<!-- revera -->'' ''bot'' (demo_report r) demo_state h1
      = (out, h4 @ t1 @ [(rq, reply)])"
    unfolding publish_fresh_def demo_repo fst_conv snd_conv Let_def head id prod.case list sum.case none demo_comments post ok up(1) p
    by blast
  have "moved_target (demo_report r) demo_event (replicate 40 (CHR ''a'')) ''main'' = None"
    by (simp add: moved_target_def head demo_repo)
  then have "demo_run r = publish_fresh demo_fns demo_api 0 demo_event 5 ''<!-- revera -->'' ''bot'' (demo_report r) demo_state h1"
    unfolding publish_def demo_repo fst_conv snd_conv demo_target prod.case sum.case h1_def by simp
  then show ?thesis using pub up(2,3) unfolding h4_def by (metis append.assoc append_Cons append_Nil)
qed

section \<open>The properties on the run\<close>

lemma demo_request: "gq_method demo_review_request = ''POST''" "gq_url demo_review_request = reviews_url demo_api demo_event"
  by (simp_all add: review_request_of_def)

theorem writes_follow_fresh_target_witness:
  "\<forall>r. \<exists>x v. x \<in> set (snd (demo_run r)) \<and> gq_url (fst x) = pull_url demo_api demo_event
     \<and> reply_json (pf_gh demo_fns) x = Some v \<and> oid_of (jpath v [''head'', ''sha'']) = Some (rr_head (demo_report r))
     \<and> base_name v = Some ''main''"
proof
  fix r
  obtain out t1 t2 reply rq reply' where t: "demo_run r = (out, t1 @ (demo_review_request, reply) # t2 @ [(rq, reply')])"
    using demo_trace by blast
  have eq: "demo_run r = (out, [] @ snd (demo_run r))" by (simp add: t)
  have "(demo_review_request, reply) \<in> set (snd (demo_run r))" by (simp add: t)
  from writes_follow_fresh_target[OF eq this] show "\<exists>x v. x \<in> set (snd (demo_run r)) \<and> gq_url (fst x) = pull_url demo_api demo_event
     \<and> reply_json (pf_gh demo_fns) x = Some v \<and> oid_of (jpath v [''head'', ''sha'']) = Some (rr_head (demo_report r))
     \<and> base_name v = Some ''main''" by (simp add: demo_request demo_repo)
qed


theorem edits_only_own_comment_witness:
  "\<forall>r. \<exists>rq reply i. (rq, reply) \<in> set (snd (demo_run r)) \<and> gq_method rq = ''PATCH'' \<and> gq_url rq = comment_url demo_api demo_event i
     \<and> ((\<exists>c. c \<in> comments_in (pf_gh demo_fns) ''issue comment'' (snd (demo_run r)) \<and> gc_id c = i)
        \<or> (\<exists>x. x \<in> set (snd (demo_run r)) \<and> Option.bind (reply_json (pf_gh demo_fns) x) positive_id = Some i))"
proof
  fix r
  obtain out t1 t2 reply rq reply' where t: "demo_run r = (out, t1 @ (demo_review_request, reply) # t2 @ [(rq, reply')])"
    "gq_method rq = ''PATCH''" using demo_trace by blast
  have eq: "demo_run r = (out, [] @ snd (demo_run r))" by (simp add: t(1))
  have m: "(rq, reply') \<in> set (snd (demo_run r))" by (simp add: t(1))
  note e = edits_only_own_comment[OF eq m t(2)]
  then show "\<exists>rq reply i. (rq, reply) \<in> set (snd (demo_run r)) \<and> gq_method rq = ''PATCH'' \<and> gq_url rq = comment_url demo_api demo_event i
     \<and> ((\<exists>c. c \<in> comments_in (pf_gh demo_fns) ''issue comment'' (snd (demo_run r)) \<and> gc_id c = i)
        \<or> (\<exists>x. x \<in> set (snd (demo_run r)) \<and> Option.bind (reply_json (pf_gh demo_fns) x) positive_id = Some i))"
    using m t(2) by blast
qed

definition keep_fns :: publish_fns where
  "keep_fns = demo_fns\<lparr>pf_state_of := (\<lambda>_. Some demo_state)\<rparr>"

definition demo_comment :: "run_report \<Rightarrow> gh_comment" where
  "demo_comment r =
     \<lparr>gc_id = 9, gc_body = managed_body keep_fns ''<!-- revera -->'' (demo_report r) demo_state [], gc_author = Some ''revera'',
      gc_author_is_bot = False\<rparr>"



text \<open>
  Deliveries against a scripted GitHub, the witnesses of the properties of \<open>Deliver_Props\<close>: a fast-forward of
  a branch that stands at the approved head, a commit of one added file, and a draft on a new branch.
\<close>

definition sha_a :: string where "sha_a = replicate 40 (CHR ''a'')"
definition sha_b :: string where "sha_b = replicate 40 (CHR ''b'')"

definition branch_json :: "string \<Rightarrow> string \<Rightarrow> json" where
  "branch_json branch sha =
     JObj [(''ref'', JStr (''refs/heads/'' @ branch)), (''object'', JObj [(''sha'', JStr sha), (''type'', JStr ''commit'')])]"

definition answer_json :: "string \<Rightarrow> json option" where
  "answer_json b =
     (if b = ''fix'' then Some (JObj [(''parents'', JArr [JObj [(''sha'', JStr sha_a)]])])
      else if b = ''head'' then Some (branch_json ''main'' sha_a)
      else if b = ''moved'' then Some (branch_json ''main'' sha_b)
      else if b = ''parent'' then Some (JObj [(''sha'', JStr sha_a), (''tree'', JObj [(''sha'', JStr sha_b)])])
      else if b = ''object'' then Some (JObj [(''sha'', JStr sha_b)])
      else if b = ''branch'' then Some (branch_json ''fix-bbbbbbbbbbbb'' sha_b)
      else if b = ''draft'' then Some (JObj [(''number'', JNat 4), (''html_url'', JStr ''https://g/4''), (''draft'', JBool True)])
      else None)"

definition script_fns :: deliver_fns where
  "script_fns =
     \<lparr>df_gh = \<lparr>gf_json = answer_json, gf_redact = (\<lambda>s. s)\<rparr>, df_lower = (\<lambda>s. s), df_diag = (\<lambda>s. s), df_sensitive = (\<lambda>_. False)\<rparr>"

definition script_api :: "string list \<Rightarrow> github_api" where
  "script_api answers =
     \<lparr>ga_base = ''https://g'', ga_token = ''t'', ga_http = (\<lambda>h _. (Reply 200 None (answers ! length h), 0)),
      ga_retry = retry_default\<rparr>"

definition script_repo :: repository where
  "script_repo = \<lparr>rp_owner = ''o'', rp_name = ''r''\<rparr>"

definition script_change :: file_change where
  "script_change =
     \<lparr>fc_path = ''f'', fc_status = change_status.Added, fc_old_mode = None, fc_new_mode = Some MODE_REGULAR, fc_binary = False,
      fc_additions = 1, fc_deletions = 0, fc_size = 1, fc_new_content = Some ''x'', fc_old_content = None\<rparr>"

definition sends :: "(gh_request \<Rightarrow> bool) \<Rightarrow> 'a \<times> exchanges \<Rightarrow> bool" where
  "sends P run = list_ex (\<lambda>x. P (fst x)) (snd run)"

lemma sendsE:
  assumes "sends P run" obtains res t rq reply where "run = (res, [] @ t)" "(rq, reply) \<in> set t" "P rq"
  using assms by (cases run) (auto simp: sends_def list_ex_iff)

section \<open>Steps of the runs\<close>

abbreviation answered :: "string list \<Rightarrow> gh_request \<Rightarrow> exchanges \<Rightarrow> gh_request \<times> gh_reply" where
  "answered answers rq h \<equiv> (sent (script_api answers) rq, Reply 200 None (answers ! length h))"

lemma script_once:
  assumes "answer_json (answers ! length h) \<noteq> None"
  shows "send_once (df_gh script_fns) (script_api answers) rq h = (Inr (the (answer_json (answers ! length h))), h @ [answered answers rq h])"
  using assms by (auto simp: send_once_def script_api_def script_fns_def sent_def Let_def)

lemma script_get:
  assumes "answer_json (answers ! length h) \<noteq> None"
  shows "send_idempotent (df_gh script_fns) (script_api answers) rq h
    = (Inr (the (answer_json (answers ! length h))), h @ [answered answers rq h])"
  unfolding send_idempotent_def by (subst send_attempt.simps) (simp add: script_once[OF assms])

lemma script_post:
  assumes "answer_json (answers ! length h) \<noteq> None"
  shows "send_post (df_gh script_fns) (script_api answers) rq h
    = (Inr (the (answer_json (answers ! length h))), h @ [answered answers rq h])"
  by (simp add: send_post_def script_once[OF assms])

lemma script_checks:
  "is_oid sha_a" "is_oid sha_b" "repo_name_ok (rp_owner script_repo)" "repo_name_ok (rp_name script_repo)"
  "branch_name_ok ''main''" "branch_name_ok ''fix''" "branch_name_ok ''fix-bbbbbbbbbbbb''"
  "branch_name ''fix'' sha_b 0 = ''fix-bbbbbbbbbbbb''"
  by code_simp+

lemma script_answers:
  "answer_json ''fix'' = Some (JObj [(''parents'', JArr [JObj [(''sha'', JStr sha_a)]])])"
  "answer_json ''head'' = Some (branch_json ''main'' sha_a)"
  "answer_json ''moved'' = Some (branch_json ''main'' sha_b)"
  "answer_json ''parent'' = Some (JObj [(''sha'', JStr sha_a), (''tree'', JObj [(''sha'', JStr sha_b)])])"
  "answer_json ''object'' = Some (JObj [(''sha'', JStr sha_b)])"
  "answer_json ''branch'' = Some (branch_json ''fix-bbbbbbbbbbbb'' sha_b)"
  "answer_json ''draft'' = Some (JObj [(''number'', JNat 4), (''html_url'', JStr ''https://g/4''), (''draft'', JBool True)])"
  by (simp_all add: answer_json_def)

lemma script_change_checks:
  "fc_status script_change = change_status.Added" "fc_new_content script_change = Some ''x''"
  "check_changes script_fns [] [script_change] = None" "commit_input_ok [script_change] ''m''"
proof -
  have "valid_path ''f''" by code_simp
  then show "check_changes script_fns [] [script_change] = None"
    by (simp add: deliverable_change_def safe_content_def script_fns_def MAX_FILE_BYTES_def result_mode_def script_change_def
        MODE_EXECUTABLE_def MODE_REGULAR_def)
  show "fc_status script_change = change_status.Added" "fc_new_content script_change = Some ''x''" by (simp_all add: script_change_def)
  show "commit_input_ok [script_change] ''m''" by (simp add: commit_input_ok_def)
qed

declare check_changes.simps [simp del]

lemmas script_steps =
  gh_then_def gh_ret_def gh_fail_def ensure_def require_def lift_api_def repo_check_def oid_check_def branch_check_def
  response_oid_def ref_response_def ref_acknowledged_def oid_of_def single_parent_def as_array_def as_str_def as_u64_def
  jidx_def jget_def jpath_def branch_json_def script_get script_post script_checks script_change_checks script_answers

lemma script_fast_forward:
  "sends (\<lambda>rq. gq_method rq \<noteq> ''GET'')
     (fast_forward_branch script_fns (script_api [''fix'', ''head'', ''moved'']) script_repo ''main'' sha_a sha_b [])"
  by (simp add: sends_def fast_forward_branch_def git_get_commit_def git_get_ref_def git_fast_forward_ref_def json_req_def sent_def
      script_steps)

theorem fast_forward_from_approved_head_witness:
  "\<exists>rq reply t1. rq = move_request (script_api [''fix'', ''head'', ''moved'']) script_repo ''main'' sha_b
     \<and> fst (fast_forward_branch script_fns (script_api [''fix'', ''head'', ''moved'']) script_repo ''main'' sha_a sha_b []) = Inr ()
     \<and> snd (fast_forward_branch script_fns (script_api [''fix'', ''head'', ''moved'']) script_repo ''main'' sha_a sha_b [])
         = t1 @ [(rq, reply)]"
proof (rule sendsE[OF script_fast_forward])
  fix res t rq reply
  assume run: "fast_forward_branch script_fns (script_api [''fix'', ''head'', ''moved'']) script_repo ''main'' sha_a sha_b []
      = (res, [] @ t)" "(rq, reply) \<in> set t" "gq_method rq \<noteq> ''GET''"
  have "fst (fast_forward_branch script_fns (script_api [''fix'', ''head'', ''moved'']) script_repo ''main'' sha_a sha_b []) = Inr ()"
    by (simp add: fast_forward_branch_def git_get_commit_def git_get_ref_def git_fast_forward_ref_def script_steps)
  then show ?thesis using fast_forward_from_approved_head[OF run] run(1) by auto
qed

abbreviation script_commit :: "string delivery_step" where
  "script_commit \<equiv> create_commit script_fns (script_api [''parent'', ''object'', ''object'', ''object'']) script_repo sha_a
     [script_change] ''m''"

lemma script_commits: "sends (\<lambda>rq. gq_method rq \<noteq> ''GET'') (script_commit [])"
  by (simp add: sends_def create_commit_def git_get_commit_def git_create_blob_def git_create_tree_def git_create_commit_def
      json_req_def sent_def script_steps)

theorem commit_writes_checked_content_witness:
  "fst (script_commit []) = Inr sha_b \<and> checked_changes script_fns [script_change]"
proof (rule sendsE[OF script_commits])
  fix res t rq reply
  assume run: "script_commit [] = (res, [] @ t)" "(rq, reply) \<in> set t" "gq_method rq \<noteq> ''GET''"
  have "fst (script_commit []) = Inr sha_b"
    by (simp add: create_commit_def git_get_commit_def git_create_blob_def git_create_tree_def git_create_commit_def
        script_steps)
  then show ?thesis using commit_writes_checked_content[OF run] by simp
qed

abbreviation script_draft :: "draft_pull delivery_step" where
  "script_draft \<equiv> open_draft_pr script_fns (script_api [''branch'', ''draft'']) script_repo sha_b ''fix'' ''main'' ''t'' []"

lemma script_drafts: "sends (\<lambda>rq. gq_url rq = pulls_url (script_api [''branch'', ''draft'']) script_repo) (script_draft [])"
  by (simp add: sends_def open_draft_pr_def open_draft_at_def parse_draft_def git_create_ref_def create_draft_pull_def pulls_url_def
      json_req_def sent_def upt_rec script_steps)

theorem draft_opened_on_created_branch_witness:
  "\<exists>refs branch x. snd (script_draft []) = refs @ [x]
     \<and> created_last script_fns (script_api [''branch'', ''draft'']) script_repo sha_b branch refs"
proof (rule sendsE[OF script_drafts])
  fix res t rq reply
  assume run: "script_draft [] = (res, [] @ t)" "(rq, reply) \<in> set t"
    "gq_url rq = pulls_url (script_api [''branch'', ''draft'']) script_repo"
  show ?thesis using draft_opened_on_created_branch[OF run] run(1) by force
qed

end
