(* ===== verification/Sandbox.thy ===== *)
theory Sandbox
  imports Config Fix_Generate
begin

text \<open>
  \<open>src/src/fix/sandbox.rs\<close> and \<open>src/src/fix/tests.rs\<close>: the command line of bubblewrap for a profile, the
  probe, the capture of a child's output, and the run of a test command.  The host is a record: which
  paths exist and what they are.  What a child does (its exit, the chunks it writes, or that the
  time limit passes) is an argument.  Destinations and variables are UTF-8 strings here; the
  source refuses other destinations.
\<close>

section \<open>Profiles and hosts\<close>

record sandbox_limits =
  lm_cpu_s :: nat
  lm_mem_bytes :: nat
  lm_fsize :: nat
  lm_nproc :: nat
  lm_wall :: nat

definition sandbox_limits_default :: sandbox_limits where
  "sandbox_limits_default =
     \<lparr>lm_cpu_s = 300, lm_mem_bytes = 2 * 1024 * 1024 * 1024, lm_fsize = 16 * 1024 * 1024, lm_nproc = 128,
      lm_wall = secs_ns 360\<rparr>"

record sandbox_profile =
  sp_net :: bool
  sp_binds_rw :: "(string \<times> string) list"
  sp_binds_ro :: "(string \<times> string) list"
  sp_env :: "(string \<times> string) list"
  sp_limits :: sandbox_limits

definition profile_default :: sandbox_profile where
  "profile_default = \<lparr>sp_net = False, sp_binds_rw = [], sp_binds_ro = [], sp_env = [], sp_limits = sandbox_limits_default\<rparr>"

record sandbox_status =
  st_available :: bool
  st_proc :: bool
  st_reason :: "string option"

datatype sandbox_error = Sandbox_Unavailable string | Bad_Profile string | Sandbox_Io string

record sandbox_output =
  so_code :: "int option"
  so_timed_out :: bool
  so_stdout :: string
  so_stderr :: string
  so_truncated :: bool

datatype host_node = Host_File | Host_Dir | Host_Link | Host_Special

record host =
  ho_linux :: bool
  ho_exists :: "string \<Rightarrow> bool"
  ho_is_file :: "string \<Rightarrow> bool"
  ho_meta :: "string \<Rightarrow> string + host_node"
  ho_canonical :: "string \<Rightarrow> string + string"

section \<open>The command line\<close>

definition FIXED_ENV :: "(string \<times> string) list" where
  "FIXED_ENV =
     [(''PATH'', ''/usr/local/bin:/usr/bin:/bin''), (''HOME'', ''/tmp''), (''TMPDIR'', ''/tmp''), (''LC_ALL'', ''C.UTF-8''),
      (''PWD'', ''/work'')]"

definition network_files :: "string list" where
  "network_files = [''/etc/ssl'', ''/etc/resolv.conf'', ''/etc/hosts'', ''/etc/nsswitch.conf'']"

definition setenv :: "string \<times> string \<Rightarrow> string list" where
  "setenv kv = [''--setenv'', fst kv, snd kv]"

definition base_args :: "host \<Rightarrow> bool \<Rightarrow> bool \<Rightarrow> string list" where
  "base_args H proc net =
     [''--unshare-all'', ''--die-with-parent'', ''--new-session'', ''--clearenv'', ''--cap-drop'', ''ALL'',
      ''--ro-bind'', ''/usr'', ''/usr'', ''--symlink'', ''usr/bin'', ''/bin'', ''--symlink'', ''usr/lib'', ''/lib'']
     @ (if ho_exists H ''/usr/lib64'' then [''--symlink'', ''usr/lib64'', ''/lib64''] else [])
     @ [''--dev-bind'', ''/dev/null'', ''/dev/null'', ''--dev-bind'', ''/dev/urandom'', ''/dev/urandom'',
        ''--tmpfs'', ''/tmp'', ''--dir'', ''/work'']
     @ (if proc then [''--proc'', ''/proc''] else [])
     @ (if net then ''--share-net'' # concat (map (\<lambda>p. [''--ro-bind'', p, p]) (filter (ho_exists H) network_files)) else [])
     @ concat (map setenv FIXED_ENV)
     @ [''--chdir'', ''/work'']"

definition roots :: "string list" where
  "roots = [''/work'', ''/input'', ''/output'', ''/revera'']"

definition allowed_destination :: "string \<Rightarrow> bool" where
  "allowed_destination name =
     (starts_with name ''/'' \<and> ''..'' \<notin> set (split_char (CHR ''/'') name)
      \<and> list_ex (\<lambda>r. name = r \<or> starts_with name (r @ ''/'')) roots)"

fun collect :: "('a \<Rightarrow> 'e + 'b list) \<Rightarrow> 'a list \<Rightarrow> 'e + 'b list" where
  "collect f [] = Inr []"
| "collect f (x # xs) = sum_then (f x) (\<lambda>a. sum_then (collect f xs) (\<lambda>b. Inr (a @ b)))"

definition bind_args :: "host \<Rightarrow> string \<Rightarrow> string \<times> string \<Rightarrow> sandbox_error + string list" where
  "bind_args H flag hi =
     (let (src, inside) = hi; unreal = Inl (Bad_Profile ''bind source must be a real file or directory, never a socket/symlink'') in
      if \<not> allowed_destination inside
      then Inl (Bad_Profile ''bind destinations must be under /work, /input, /output or /revera'')
      else (case ho_meta H src of
              Inl e \<Rightarrow> Inl (Sandbox_Io e)
            | Inr Host_Link \<Rightarrow> unreal
            | Inr k \<Rightarrow>
                (case ho_canonical H src of
                   Inl e \<Rightarrow> Inl (Sandbox_Io e)
                 | Inr c \<Rightarrow> if c \<noteq> src \<or> k = Host_Special then unreal else Inr [flag, src, inside])))"

definition forbidden_env :: "string list" where
  "forbidden_env = [''GITHUB_TOKEN'', ''GH_TOKEN'', ''ACTIONS_RUNTIME_TOKEN'', ''LD_PRELOAD'', ''LD_LIBRARY_PATH'']"

definition env_args :: "string \<times> string \<Rightarrow> sandbox_error + string list" where
  "env_args kv =
     (if \<not> is_env_name (fst kv) \<or> fst kv \<in> set forbidden_env
      then Inl (Bad_Profile ''forbidden environment variable'') else Inr (setenv kv))"

definition limit_args :: "sandbox_limits \<Rightarrow> string list" where
  "limit_args l =
     map (\<lambda>(name, n). ''--'' @ name @ ''='' @ nat_str n @ '':'' @ nat_str n)
       [(''cpu'', lm_cpu_s l), (''as'', lm_mem_bytes l), (''fsize'', lm_fsize l), (''nproc'', lm_nproc l), (''core'', 0)]"

definition zero_limit :: "sandbox_limits \<Rightarrow> bool" where
  "zero_limit l = (lm_wall l = 0 \<or> lm_cpu_s l = 0 \<or> lm_mem_bytes l = 0 \<or> lm_nproc l = 0 \<or> lm_fsize l = 0)"

text \<open>The arguments of \<open>/usr/bin/bwrap\<close>, which starts with an empty environment.\<close>

definition sandbox_command :: "host \<Rightarrow> sandbox_status \<Rightarrow> sandbox_profile \<Rightarrow> string list \<Rightarrow> sandbox_error + string list" where
  "sandbox_command H st p argv =
     (if \<not> st_available st then Inl (Sandbox_Unavailable (case st_reason st of Some r \<Rightarrow> r | None \<Rightarrow> []))
      else if argv = [] \<or> zero_limit (sp_limits p) then Inl (Bad_Profile ''empty command or zero limits'')
      else sum_then (collect (bind_args H ''--ro-bind'') (sp_binds_ro p)) (\<lambda>ro.
           sum_then (collect (bind_args H ''--bind'') (sp_binds_rw p)) (\<lambda>rw.
           sum_then (collect env_args (sp_env p)) (\<lambda>ev.
             Inr (base_args H (st_proc st) (sp_net p) @ ro @ rw @ ev @ [''--remount-ro'', ''/'', ''--'', ''/usr/bin/prlimit'']
                  @ limit_args (sp_limits p) @ ''--'' # argv)))))"

section \<open>The probe\<close>

definition probe_failure_reason :: "string \<Rightarrow> string" where
  "probe_failure_reason reason =
     (if str_contains reason (''Can'' @ [CHR 0x27] @ ''t remount readonly'')
      then trim_end reason @ '' On SELinux hosts, run the container with the container_engine_t label (see docs/server.md, ''
             @ [CHR 0x22] @ ''Sandbox runtime and test tools'' @ [CHR 0x22] @ '').''
      else reason)"

datatype probe_attempt = Probe_Exit bool string | Probe_Error string | Probe_Timeout

text \<open>The reason an attempt leaves; standard error has been decoded with replacement characters.\<close>

definition attempt_reason :: "(string \<Rightarrow> string) \<Rightarrow> probe_attempt \<Rightarrow> string" where
  "attempt_reason diag a =
     (case a of Probe_Exit _ stderr \<Rightarrow> diag (excerpt_bytes (from_utf8_lossy stderr) 1000)
      | Probe_Error e \<Rightarrow> e | Probe_Timeout \<Rightarrow> ''probe timed out'')"

definition probe_works :: "probe_attempt \<Rightarrow> bool" where
  "probe_works a = (case a of Probe_Exit ok _ \<Rightarrow> ok | _ \<Rightarrow> False)"

text \<open>\<open>with_proc\<close> and \<open>without\<close> are the attempts with and without \<open>/proc\<close>; the second is made when the first failed.\<close>

definition probe :: "(string \<Rightarrow> string) \<Rightarrow> host \<Rightarrow> probe_attempt \<Rightarrow> probe_attempt \<Rightarrow> sandbox_status" where
  "probe diag H with_proc without =
     (if \<not> ho_linux H \<or> \<not> ho_is_file H ''/usr/bin/bwrap'' \<or> \<not> ho_is_file H ''/usr/bin/prlimit''
      then \<lparr>st_available = False, st_proc = False, st_reason = Some ''Linux, /usr/bin/bwrap and /usr/bin/prlimit are required''\<rparr>
      else if probe_works with_proc then \<lparr>st_available = True, st_proc = True, st_reason = None\<rparr>
      else if probe_works without
      then \<lparr>st_available = True, st_proc = False,
            st_reason = Some (''/proc unavailable; using proc-free isolation: '' @ attempt_reason diag with_proc)\<rparr>
      else \<lparr>st_available = False, st_proc = False, st_reason = Some (probe_failure_reason (attempt_reason diag without))\<rparr>)"

section \<open>Running\<close>

definition CAPTURE_BYTES :: nat where "CAPTURE_BYTES = 32 * 1024"

text \<open>The chunks that are read from a pipe until it is closed.\<close>

definition capture :: "nat \<Rightarrow> string list \<Rightarrow> string \<times> bool" where
  "capture cap chunks =
     fold (\<lambda>c (kept, truncated). let room = cap - length kept in (kept @ take room c, truncated \<or> room < length c)) chunks ([], False)"

datatype child = Child_Failed string | Child_Exit "int option" "string list" "string list" | Child_Hangs

definition shown_output :: "(string \<Rightarrow> string) \<Rightarrow> string \<Rightarrow> string" where
  "shown_output red out = excerpt_bytes (red (from_utf8_lossy out)) CAPTURE_BYTES"

definition sandbox_run ::
  "(string \<Rightarrow> string) \<Rightarrow> host \<Rightarrow> sandbox_status \<Rightarrow> sandbox_profile \<Rightarrow> string list \<Rightarrow> child \<Rightarrow> sandbox_error + sandbox_output"
where
  "sandbox_run red H st p argv c =
     sum_then (sandbox_command H st p argv) (\<lambda>_.
       (case c of
          Child_Failed e \<Rightarrow> Inl (Sandbox_Io e)
        | Child_Exit code out err \<Rightarrow>
            (let (o1, t1) = capture CAPTURE_BYTES out; (e1, t2) = capture CAPTURE_BYTES err in
             Inr \<lparr>so_code = code, so_timed_out = False, so_stdout = shown_output red o1, so_stderr = shown_output red e1,
                  so_truncated = (t1 \<or> t2)\<rparr>)
        | Child_Hangs \<Rightarrow>
            Inr \<lparr>so_code = None, so_timed_out = True, so_stdout = [], so_stderr = ''wall-clock limit exceeded'',
                 so_truncated = False\<rparr>))"

section \<open>Tests\<close>

record test_result =
  tr_outcome :: test_outcome
  tr_output :: "sandbox_output option"
  tr_reason :: "string option"

definition test_profile :: "sandbox_profile \<Rightarrow> string \<Rightarrow> sandbox_profile" where
  "test_profile profile tree_copy =
     profile_default\<lparr>sp_net := False, sp_binds_rw := [(tree_copy, ''/work'')], sp_limits := sp_limits profile\<rparr>"

definition sandbox_error_str :: "sandbox_error \<Rightarrow> string" where
  "sandbox_error_str e =
     (case e of Sandbox_Unavailable r \<Rightarrow> ''sandbox unavailable: '' @ r | Bad_Profile m \<Rightarrow> ''invalid sandbox profile: '' @ m
      | Sandbox_Io m \<Rightarrow> ''sandbox I/O: '' @ m)"

definition run_tests ::
  "(string \<Rightarrow> string) \<Rightarrow> (string \<Rightarrow> string) \<Rightarrow> host \<Rightarrow> sandbox_status \<Rightarrow> sandbox_profile \<Rightarrow> string list \<Rightarrow> string \<Rightarrow> child \<Rightarrow> test_result"
where
  "run_tests red diag H st profile command tree_copy c =
     (if command = [] then \<lparr>tr_outcome = NotConfigured, tr_output = None, tr_reason = None\<rparr>
      else (case sandbox_run red H st (test_profile profile tree_copy) command c of
              Inr o1 \<Rightarrow>
                \<lparr>tr_outcome = (if so_timed_out o1 then TimedOut else if so_code o1 = Some 0 then Passed else TestFailed),
                 tr_output = Some o1, tr_reason = None\<rparr>
            | Inl e \<Rightarrow>
                \<lparr>tr_outcome = Unavailable, tr_output = None, tr_reason = Some (diag (sandbox_error_str e))\<rparr>))"

text \<open>On a copy of the tree: \<open>copied\<close> and \<open>removed\<close> say what became of the copy.\<close>

definition run_tests_on_copy ::
  "(string \<Rightarrow> string) \<Rightarrow> (string \<Rightarrow> string) \<Rightarrow> host \<Rightarrow> sandbox_status \<Rightarrow> sandbox_profile \<Rightarrow> string list \<Rightarrow> string \<Rightarrow> child
   \<Rightarrow> string + unit \<Rightarrow> string + unit \<Rightarrow> string + test_result"
where
  "run_tests_on_copy red diag H st profile command copy c copied removed =
     sum_then copied (\<lambda>_. sum_then removed (\<lambda>_. Inr (run_tests red diag H st profile command copy c)))"

section \<open>What a sandbox may see\<close>

definition real_source :: "host \<Rightarrow> string \<Rightarrow> bool" where
  "real_source H src =
     ((ho_meta H src = Inr Host_File \<or> ho_meta H src = Inr Host_Dir) \<and> ho_canonical H src = Inr src)"

definition bind_ok :: "host \<Rightarrow> string \<times> string \<Rightarrow> bool" where
  "bind_ok H hi = (real_source H (fst hi) \<and> allowed_destination (snd hi))"

definition env_ok :: "string \<times> string \<Rightarrow> bool" where
  "env_ok kv = (is_env_name (fst kv) \<and> fst kv \<notin> set forbidden_env)"

definition profile_ok :: "host \<Rightarrow> sandbox_profile \<Rightarrow> bool" where
  "profile_ok H p =
     (list_all (bind_ok H) (sp_binds_ro p) \<and> list_all (bind_ok H) (sp_binds_rw p) \<and> list_all env_ok (sp_env p)
      \<and> \<not> zero_limit (sp_limits p))"

definition bind_flag :: "string \<Rightarrow> string \<times> string \<Rightarrow> string list" where
  "bind_flag flag hi = [flag, fst hi, snd hi]"

lemma collect_Inr:
  assumes "\<And>x. f x = Inr (g x) \<longleftrightarrow> ok x" and "\<And>x a. f x = Inr a \<Longrightarrow> a = g x"
  shows "collect f xs = Inr ys \<longleftrightarrow> list_all ok xs \<and> ys = concat (map g xs)"
proof (induction xs arbitrary: ys)
  case (Cons x xs)
  show ?case
  proof (cases "f x")
    case (Inl e)
    then show ?thesis using assms(1)[of x] by simp
  next
    case (Inr a)
    then show ?thesis using assms(1)[of x] assms(2)[OF Inr] by (auto simp: sum_then_Inr Cons)
  qed
qed auto

lemma bind_args_Inr: "bind_args H flag hi = Inr a \<longleftrightarrow> bind_ok H hi \<and> a = bind_flag flag hi"
  by (cases hi) (auto simp: bind_args_def bind_ok_def real_source_def bind_flag_def Let_def split: sum.splits host_node.splits if_splits)

lemma env_args_Inr: "env_args kv = Inr a \<longleftrightarrow> env_ok kv \<and> a = setenv kv"
  by (auto simp: env_args_def env_ok_def)

lemma collect_binds: "collect (bind_args H flag) xs = Inr ys \<longleftrightarrow> list_all (bind_ok H) xs \<and> ys = concat (map (bind_flag flag) xs)"
  by (rule collect_Inr) (simp_all add: bind_args_Inr)

lemma collect_env: "collect env_args xs = Inr ys \<longleftrightarrow> list_all env_ok xs \<and> ys = concat (map setenv xs)"
  by (rule collect_Inr) (simp_all add: env_args_Inr)

lemma sandbox_command_Inr:
  "sandbox_command H st p argv = Inr cmd \<longleftrightarrow>
     st_available st \<and> argv \<noteq> [] \<and> profile_ok H p
     \<and> cmd = base_args H (st_proc st) (sp_net p) @ concat (map (bind_flag ''--ro-bind'') (sp_binds_ro p))
         @ concat (map (bind_flag ''--bind'') (sp_binds_rw p)) @ concat (map setenv (sp_env p))
         @ [''--remount-ro'', ''/'', ''--'', ''/usr/bin/prlimit''] @ limit_args (sp_limits p) @ ''--'' # argv"
  by (auto simp: sandbox_command_def sum_then_Inr collect_binds collect_env profile_ok_def)

lemma share_net_iff: "''--share-net'' \<in> set (base_args H proc net) \<longleftrightarrow> net"
  by (auto simp: base_args_def network_files_def FIXED_ENV_def setenv_def)

lemma capture_append: "capture cap (cs @ [c]) =
   (fst (capture cap cs) @ take (cap - length (fst (capture cap cs))) c,
    snd (capture cap cs) \<or> cap - length (fst (capture cap cs)) < length c)"
  by (simp add: capture_def Let_def split: prod.splits)

text \<open>What is kept of an output is its first 32 KiB, and it is marked as truncated exactly when something
  was left out, however the output arrives in chunks.\<close>

theorem capture_is_prefix: "capture cap chunks = (take cap (concat chunks), cap < length (concat chunks))"
proof (induction chunks rule: rev_induct)
  case (snoc c cs)
  show ?case unfolding capture_append snoc by (cases "cap < length (concat cs)") auto
qed (simp add: capture_def)

end
