(* ===== verification/Fix_Tools.thy ===== *)
theory Fix_Tools
  imports Fix_Policy Agent "HOL-Library.AList"
begin

text \<open>
  \<open>src/src/fix/tools.rs\<close> with the writes of \<open>src/src/fsutil.rs\<close> it uses: the tools of a repair agent over
  its working tree.  The tree is the list of the entries below the root with their paths, in the order
  in which directories are read.  \<open>tool_fns\<close> holds what is not in the repository: the sensitive globs'
  matcher and the redaction of text (modelled elsewhere), the path of the root, the compilers of globs and regular expressions,
  UTF-8 validation, the JSON printer, and the operating system: which operations on which path fail, and
  the texts of its errors.
\<close>

section \<open>The tree\<close>

datatype node = Regular_File string nat | Directory | Symbolic_Link | Special_File

type_synonym tree = "(string \<times> node) list"

record tool_fns =
  tf_sensitive :: "string \<Rightarrow> bool"
  tf_redact :: "string \<Rightarrow> string"
  tf_utf8 :: "string \<Rightarrow> bool"
  tf_glob :: "string \<Rightarrow> string + (string \<Rightarrow> bool)"
  tf_regex :: "string \<Rightarrow> string + (string \<Rightarrow> bool)"
  tf_print :: "json \<Rightarrow> string"
  tf_fails :: "string \<Rightarrow> string \<Rightarrow> bool"
  tf_os :: "string \<Rightarrow> string \<Rightarrow> string"
  tf_mode :: nat
  tf_root :: string

definition below :: "string \<Rightarrow> string \<Rightarrow> string" where
  "below d c = (if d = [] then c else d @ ''/'' @ c)"

text \<open>\<open>resolve\<close>: the walk down to the path; a component that does not exist is no error.\<close>

fun resolve_from :: "tool_fns \<Rightarrow> tree \<Rightarrow> string \<Rightarrow> string list \<Rightarrow> string + unit" where
  "resolve_from F t at [] = Inr ()"
| "resolve_from F t at (c # cs) =
     (let full = below at c in
      if tf_fails F ''stat'' full \<or> (case map_of t at of Some (Regular_File _ _) \<Rightarrow> True | _ \<Rightarrow> False)
      then Inl (tf_os F ''stat'' full)
      else (case map_of t full of
              Some Symbolic_Link \<Rightarrow> Inl ''symlinks are forbidden''
            | Some Special_File \<Rightarrow> Inl ''not a regular file/directory''
            | _ \<Rightarrow> resolve_from F t full cs))"

definition resolve_path :: "tool_fns \<Rightarrow> tree \<Rightarrow> string \<Rightarrow> string + unit" where
  "resolve_path F t p =
     (if \<not> valid_path p \<or> tf_sensitive F p then Inl ''path forbidden by content policy''
      else resolve_from F t [] (split_char (CHR ''/'') p))"

definition tool_read :: "tool_fns \<Rightarrow> tree \<Rightarrow> string \<Rightarrow> string + string" where
  "tool_read F t p =
     sum_then (resolve_path F t p) (\<lambda>_.
       if tf_fails F ''open'' p then Inl (tf_os F ''open'' p)
       else (case map_of t p of
               Some (Regular_File s _) \<Rightarrow>
                 if MAX_FILE_BYTES < length s then Inl ''file exceeds 1 MB''
                 else if tf_fails F ''read'' p then Inl (tf_os F ''read'' p)
                 else if tf_utf8 F s then Inr s else Inl ''not UTF-8 text''
             | Some _ \<Rightarrow> Inl (tf_os F ''read'' p)
             | None \<Rightarrow> Inl (tf_os F ''open'' p)))"

section \<open>Listing\<close>

definition child_of :: "string \<Rightarrow> string \<Rightarrow> bool" where
  "child_of d p =
     (case strip_prefix p (if d = [] then [] else d @ ''/'') of
        Some rest \<Rightarrow> rest \<noteq> [] \<and> CHR ''/'' \<notin> set rest
      | None \<Rightarrow> False)"

definition children :: "tree \<Rightarrow> string \<Rightarrow> tree" where
  "children t d = filter (\<lambda>(p, n). child_of d p) t"

definition succeeded :: "'e + 'a \<Rightarrow> bool" where
  "succeeded x = (case x of Inl _ \<Rightarrow> False | Inr _ \<Rightarrow> True)"

definition MAX_ENTRIES :: nat where "MAX_ENTRIES = 20000"

text \<open>The entries of one directory: how many were seen, the directories still to read, the files found.\<close>

fun scan_entries ::
  "tool_fns \<Rightarrow> tree \<Rightarrow> tree \<Rightarrow> nat \<Rightarrow> string list \<Rightarrow> string list \<Rightarrow> string + nat \<times> string list \<times> string list"
where
  "scan_entries F t [] seen dirs out = Inr (seen, dirs, out)"
| "scan_entries F t ((p, n) # es) seen dirs out =
     (if tf_fails F ''entry'' p then Inl (tf_os F ''entry'' p)
      else if MAX_ENTRIES < seen + 1 then Inl ''tree exceeds 20000 entries''
      else if \<not> tf_utf8 F p then Inl ''non UTF-8 path''
      else if \<not> succeeded (resolve_path F t p) then scan_entries F t es (seen + 1) dirs out
      else if tf_fails F ''type'' p then Inl (tf_os F ''type'' p)
      else (case n of
              Directory \<Rightarrow> scan_entries F t es (seen + 1) (p # dirs) out
            | Regular_File _ _ \<Rightarrow> scan_entries F t es (seen + 1) dirs (out @ [p])
            | _ \<Rightarrow> scan_entries F t es (seen + 1) dirs out))"

lemma scan_entries_measure:
  "scan_entries F t es seen dirs out = Inr (seen', dirs', out')
     \<Longrightarrow> 2 * (MAX_ENTRIES - seen') + length dirs' \<le> 2 * (MAX_ENTRIES - seen) + length dirs"
proof (induction es arbitrary: seen dirs out)
  case (Cons e es)
  have "seen + 1 \<le> MAX_ENTRIES \<and> (\<exists>ds o'. scan_entries F t es (seen + 1) ds o' = Inr (seen', dirs', out') \<and> length ds \<le> Suc (length dirs))"
    using Cons.prems by (cases e; cases "snd e") (auto simp: not_less intro: le_SucI split: if_splits)
  then obtain ds o' where "seen + 1 \<le> MAX_ENTRIES" "scan_entries F t es (seen + 1) ds o' = Inr (seen', dirs', out')"
    "length ds \<le> Suc (length dirs)" by blast
  with Cons.IH[of "seen + 1" ds o'] show ?case by linarith
qed simp

function walk :: "tool_fns \<Rightarrow> tree \<Rightarrow> nat \<Rightarrow> string list \<Rightarrow> string list \<Rightarrow> string + string list" where
  "walk F t seen [] out = Inr out"
| "walk F t seen (d # ds) out =
     (if tf_fails F ''read_dir'' d then Inl (tf_os F ''read_dir'' d)
      else (case scan_entries F t (children t d) seen ds out of
              Inl e \<Rightarrow> Inl e
            | Inr (seen', ds', out') \<Rightarrow> walk F t seen' ds' out'))"
  by pat_completeness auto
termination
proof (relation "measure (\<lambda>(F, t, seen, dirs, out). 2 * (MAX_ENTRIES - seen) + length dirs)", goal_cases)
  case (2 F t seen d ds out a x y xa ya)
  then show ?case using scan_entries_measure[of F t "children t d" seen ds out] by fastforce
qed simp

declare walk.simps [simp del]

definition tool_files :: "tool_fns \<Rightarrow> tree \<Rightarrow> string + string list" where
  "tool_files F t = sum_then (walk F t 0 [[]] []) (\<lambda>ps. Inr (sort ps))"

fun dir_names :: "tool_fns \<Rightarrow> tree \<Rightarrow> tree \<Rightarrow> string + string list" where
  "dir_names F t [] = Inr []"
| "dir_names F t ((p, n) # es) =
     (if tf_fails F ''entry'' p then Inl (tf_os F ''entry'' p)
      else if \<not> tf_utf8 F p then Inl ''non UTF-8 path''
      else sum_then (dir_names F t es) (\<lambda>ns. Inr (if succeeded (resolve_path F t p) then p # ns else ns)))"

definition list_dir :: "tool_fns \<Rightarrow> tree \<Rightarrow> string \<Rightarrow> string + string" where
  "list_dir F t p =
     sum_then (if p = [] then Inr () else resolve_path F t p) (\<lambda>_.
       if tf_fails F ''read_dir'' p \<or> (p \<noteq> [] \<and> map_of t p \<noteq> Some Directory) then Inl (tf_os F ''read_dir'' p)
       else sum_then (dir_names F t (take 1001 (children t p))) (\<lambda>ns. Inr (join [CHR 0x0A] (take 200 (sort ns)))))"

section \<open>Reading and searching\<close>

definition numbered_lines :: "nat \<Rightarrow> string \<Rightarrow> string" where
  "numbered_lines start s =
     concat (map (\<lambda>(i, l). nat_str (i + 1) @ ''| '' @ l @ [CHR 0x0A]) (take 400 (drop (start - 1) (enum (lines s)))))"

fun grep_lines :: "(string \<Rightarrow> bool) \<Rightarrow> string \<Rightarrow> (nat \<times> string) list \<Rightarrow> string \<Rightarrow> nat \<Rightarrow> bool \<times> string \<times> nat" where
  "grep_lines re p [] out n = (False, out, n)"
| "grep_lines re p ((i, l) # ls) out n =
     (let out1 = (if re l then out @ p @ '':'' @ nat_str (i + 1) @ '':'' @ excerpt_bytes l 1000 @ [CHR 0x0A] else out);
          n1 = (if re l then n + 1 else n) in
      if 200 \<le> n1 \<or> 64 * 1024 \<le> length out1 then (True, out1, n1) else grep_lines re p ls out1 n1)"

fun grep_files :: "tool_fns \<Rightarrow> tree \<Rightarrow> (string \<Rightarrow> bool) \<Rightarrow> string list \<Rightarrow> nat \<Rightarrow> string \<Rightarrow> nat \<Rightarrow> string" where
  "grep_files F t re [] bytes out n = out"
| "grep_files F t re (p # ps) bytes out n =
     (case tool_read F t p of
        Inl _ \<Rightarrow> grep_files F t re ps bytes out n
      | Inr s \<Rightarrow>
          if 16 * 1024 * 1024 < bytes + length s then out
          else (case grep_lines re p (enum (lines s)) out n of
                  (True, out1, _) \<Rightarrow> out1
                | (False, out1, n1) \<Rightarrow> grep_files F t re ps (bytes + length s) out1 n1))"

definition tool_grep :: "tool_fns \<Rightarrow> tree \<Rightarrow> string \<Rightarrow> string + string" where
  "tool_grep F t pat =
     (if 1000 < length pat then Inl ''pattern too large''
      else sum_then (tf_regex F pat) (\<lambda>re.
           sum_then (tool_files F t) (\<lambda>ps. Inr (grep_files F t re ps 0 [] 0))))"

section \<open>Writing\<close>

definition shown :: "tool_fns \<Rightarrow> string \<Rightarrow> string" where
  "shown F p = (if p = [] then tf_root F else tf_root F @ ''/'' @ p)"

definition check_dir :: "tool_fns \<Rightarrow> tree \<Rightarrow> string \<Rightarrow> string + unit" where
  "check_dir F t d =
     (if tf_fails F ''stat'' d then Inl (''stat '' @ shown F d)
      else (case (if d = [] then Some Directory else map_of t d) of
              Some Symbolic_Link \<Rightarrow> Inl (shown F d @ '' is a symlink; refusing to write through it'')
            | Some Directory \<Rightarrow> Inr ()
            | None \<Rightarrow> Inr ()
            | Some _ \<Rightarrow> Inl (shown F d @ '' exists and is not a directory'')))"

fun ensure_dir :: "tool_fns \<Rightarrow> tree \<Rightarrow> string \<Rightarrow> string list \<Rightarrow> (string + string) \<times> tree" where
  "ensure_dir F t at [] = (Inr at, t)"
| "ensure_dir F t at (c # cs) =
     (let cur = below at c in
      case check_dir F t cur of
        Inl e \<Rightarrow> (Inl e, t)
      | Inr _ \<Rightarrow>
          if map_of t cur \<noteq> None then ensure_dir F t cur cs
          else if tf_fails F ''mkdir'' cur then (Inl (''create '' @ shown F cur), t)
          else ensure_dir F (AList.update cur Directory t) cur cs)"

definition check_regular_target :: "tool_fns \<Rightarrow> tree \<Rightarrow> string \<Rightarrow> string + unit" where
  "check_regular_target F t p =
     (case map_of t p of
        Some Symbolic_Link \<Rightarrow> Inl (shown F p @ '' is a symlink; refusing to replace it'')
      | Some (Regular_File _ _) \<Rightarrow> Inr ()
      | None \<Rightarrow> Inr ()
      | Some _ \<Rightarrow> Inl (shown F p @ '' exists and is not a regular file''))"

text \<open>A new file with the mode of new files takes the place of the target, or nothing changes.\<close>

definition write_atomic :: "tool_fns \<Rightarrow> tree \<Rightarrow> string \<Rightarrow> string \<Rightarrow> string \<Rightarrow> (string + unit) \<times> tree" where
  "write_atomic F t d name content =
     (let target = below d name in
      case sum_then (check_dir F t d) (\<lambda>_. check_regular_target F t target) of
        Inl e \<Rightarrow> (Inl e, t)
      | Inr _ \<Rightarrow>
          if tf_fails F ''write'' target then (Inl (tf_os F ''write'' target), t)
          else (Inr (), AList.update target (Regular_File content (tf_mode F)) t))"

definition write_repo_file :: "tool_fns \<Rightarrow> tree \<Rightarrow> string \<Rightarrow> string \<Rightarrow> (string + unit) \<times> tree" where
  "write_repo_file F t p content =
     (let cs = split_char (CHR ''/'') p in
      case ensure_dir F t [] (butlast cs) of
        (Inl e, t1) \<Rightarrow> (Inl e, t1)
      | (Inr d, t1) \<Rightarrow> write_atomic F t1 d (last cs) content)"

definition old_mode :: "tree \<Rightarrow> string \<Rightarrow> nat option" where
  "old_mode t p = (case map_of t p of Some (Regular_File _ m) \<Rightarrow> Some m | _ \<Rightarrow> None)"

definition match_count :: "string \<Rightarrow> string \<Rightarrow> nat" where
  "match_count old s = length (filter (\<lambda>i. take (length old) (drop i s) = old) [0..<Suc (length s) - length old])"

definition replace_first :: "string \<Rightarrow> string \<Rightarrow> string \<Rightarrow> string" where
  "replace_first old new s =
     (case find_str s old of None \<Rightarrow> s | Some i \<Rightarrow> take i s @ new @ drop (i + length old) s)"

definition string_arg :: "json \<Rightarrow> string \<Rightarrow> string + string" where
  "string_arg a key = (case as_str (jidx a key) of Some s \<Rightarrow> Inr s | None \<Rightarrow> Inl (''missing '' @ key))"

definition new_content :: "tool_fns \<Rightarrow> tree \<Rightarrow> string \<Rightarrow> json \<Rightarrow> string \<Rightarrow> string + string" where
  "new_content F t name a p =
     (if name = ''write_file'' then string_arg a ''content''
      else sum_then (string_arg a ''old'') (\<lambda>old.
           sum_then (string_arg a ''new'') (\<lambda>new.
           sum_then (tool_read F t p) (\<lambda>s.
             if old = [] \<or> match_count old s \<noteq> 1 then Inl ''old must match exactly once''
             else Inr (replace_first old new s)))))"

definition allowed_content :: "tool_fns \<Rightarrow> string \<Rightarrow> string + unit" where
  "allowed_content F content =
     (if MAX_FILE_BYTES < length content \<or> CHR 0x00 \<in> set content then Inl ''content exceeds 1 MB or contains NUL''
      else if tf_redact F content \<noteq> content then Inl ''content contains credential material''
      else Inr ())"

definition put_content :: "tool_fns \<Rightarrow> tree \<Rightarrow> string \<Rightarrow> string \<Rightarrow> (string + string) \<times> tree" where
  "put_content F t p content =
     (let mode = old_mode t p in
      case write_repo_file F t p content of
        (Inl e, t1) \<Rightarrow> (Inl e, t1)
      | (Inr _, t1) \<Rightarrow>
          (case mode of
             None \<Rightarrow> (Inr ''written'', t1)
           | Some m \<Rightarrow>
               if tf_fails F ''chmod'' p then (Inl (tf_os F ''chmod'' p), t1)
               else (Inr ''written'', AList.update p (Regular_File content m) t1)))"

definition remove_regular :: "tool_fns \<Rightarrow> tree \<Rightarrow> string \<Rightarrow> (string + string) \<times> tree" where
  "remove_regular F t p =
     (case map_of t p of
        Some (Regular_File _ _) \<Rightarrow>
          if tf_fails F ''unlink'' p then (Inl (tf_os F ''unlink'' p), t) else (Inr ''deleted'', AList.delete p t)
      | _ \<Rightarrow> (Inl (tf_os F ''unlink'' p), t))"

definition write_tool :: "tool_fns \<Rightarrow> bool \<Rightarrow> tree \<Rightarrow> string \<Rightarrow> json \<Rightarrow> (string + string) \<times> tree" where
  "write_tool F writable t name a =
     (if \<not> writable then (Inl ''read-only verifier'', t)
      else (case sum_then (string_arg a ''path'') (\<lambda>p. sum_then (resolve_path F t p) (\<lambda>_. Inr p)) of
              Inl e \<Rightarrow> (Inl e, t)
            | Inr p \<Rightarrow>
                if name = ''delete_file'' then remove_regular F t p
                else (case sum_then (new_content F t name a p) (\<lambda>c. sum_then (allowed_content F c) (\<lambda>_. Inr c)) of
                        Inl e \<Rightarrow> (Inl e, t)
                      | Inr content \<Rightarrow> put_content F t p content)))"

section \<open>The tools\<close>

definition read_tool :: "tool_fns \<Rightarrow> tree \<Rightarrow> string \<Rightarrow> json \<Rightarrow> string + string" where
  "read_tool F t name a =
     (if name = ''read_file''
      then sum_then (string_arg a ''path'') (\<lambda>p. sum_then (tool_read F t p) (\<lambda>s.
             Inr (numbered_lines (max 1 (case as_u64 (jidx a ''start_line'') of Some n \<Rightarrow> n | None \<Rightarrow> 1)) s)))
      else if name = ''list_dir'' then list_dir F t (str_or [] (jidx a ''path''))
      else if name = ''find_files''
      then sum_then (string_arg a ''glob'') (\<lambda>g. sum_then (tf_glob F g) (\<lambda>matches.
             sum_then (tool_files F t) (\<lambda>ps. Inr (join [CHR 0x0A] (take 200 (filter matches ps))))))
      else if name = ''grep'' then sum_then (string_arg a ''pattern'') (tool_grep F t)
      else Inl ''unknown or unavailable tool'')"

definition call_inner :: "tool_fns \<Rightarrow> bool \<Rightarrow> tree \<Rightarrow> string \<Rightarrow> json \<Rightarrow> (string + string) \<times> tree" where
  "call_inner F writable t name a =
     (if name = ''write_file'' \<or> name = ''replace_in_file'' \<or> name = ''delete_file'' then write_tool F writable t name a
      else (read_tool F t name a, t))"

definition call_tool :: "tool_fns \<Rightarrow> bool \<Rightarrow> tree \<Rightarrow> string \<Rightarrow> json \<Rightarrow> string \<times> tree" where
  "call_tool F writable t name a =
     (case call_inner F writable t name a of
        (Inr s, t1) \<Rightarrow> (excerpt_bytes (tf_redact F s) (64 * 1024), t1)
      | (Inl e, t1) \<Rightarrow> (tf_print F (JObj [(''error'', JStr (tf_redact F e))]), t1))"

text \<open>A sequence of calls; which operations of the operating system fail may differ from call to call.\<close>

fun call_tools :: "tool_fns \<Rightarrow> bool \<Rightarrow> tree \<Rightarrow> ((string \<Rightarrow> string \<Rightarrow> bool) \<times> string \<times> json) list \<Rightarrow> tree" where
  "call_tools F writable t [] = t"
| "call_tools F writable t ((fails, name, a) # cs) =
     call_tools F writable (snd (call_tool (F\<lparr>tf_fails := fails\<rparr>) writable t name a)) cs"

definition typed :: "string \<Rightarrow> json" where
  "typed ty = JObj [(''type'', JStr ty)]"

definition fix_tool_spec :: "string \<Rightarrow> string \<Rightarrow> (string \<times> string) list \<Rightarrow> string list \<Rightarrow> tool_spec" where
  "fix_tool_spec name description properties needed =
     \<lparr>ts_name = name, ts_description = description,
      ts_parameters = JObj [(''type'', JStr ''object''), (''properties'', JObj (map (\<lambda>(k, ty). (k, typed ty)) properties)),
                            (''required'', JArr (map JStr needed)), (''additionalProperties'', JBool False)]\<rparr>"

definition tool_specs :: "bool \<Rightarrow> tool_spec list" where
  "tool_specs writable =
     [fix_tool_spec ''read_file'' ''Read at most 400 numbered lines'' [(''path'', ''string''), (''start_line'', ''integer'')] [''path''],
      fix_tool_spec ''list_dir'' ''List a directory (empty path means root)'' [(''path'', ''string'')] [],
      fix_tool_spec ''find_files'' ''Find files by glob'' [(''glob'', ''string'')] [''glob''],
      fix_tool_spec ''grep'' ''Bounded Rust regex search'' [(''pattern'', ''string'')] [''pattern'']]
     @ (if writable
        then [fix_tool_spec ''write_file'' ''Write a UTF-8 file, at most 1 MB'' [(''path'', ''string''), (''content'', ''string'')]
                [''path'', ''content''],
              fix_tool_spec ''replace_in_file'' ''Replace one exact unique match''
                [(''path'', ''string''), (''old'', ''string''), (''new'', ''string'')] [''path'', ''old'', ''new''],
              fix_tool_spec ''delete_file'' ''Delete a regular file'' [(''path'', ''string'')] [''path'']]
        else [])"

section \<open>Paths\<close>

definition plain_component :: "string \<Rightarrow> bool" where
  "plain_component c = (\<not> bad_component c \<and> list_all (\<lambda>x. x \<noteq> CHR ''/'' \<and> x \<notin> set forbidden_path_bytes) c)"

lemma split_char_free: "x \<in> set (split_char d s) \<Longrightarrow> d \<notin> set x"
  by (induction s arbitrary: x) (auto split: list.splits if_splits)

lemma split_char_subset: "\<Union> (set ` set (split_char d s)) \<subseteq> set s"
  by (induction s) (auto split: list.splits, blast+)

lemma split_char_single: "d \<notin> set c \<Longrightarrow> split_char d c = [c]"
  by (induction c) auto

lemma split_char_append: "d \<notin> set c \<Longrightarrow> split_char d (c @ d # s) = c # split_char d s"
  by (induction c) auto

lemma split_char_join:
  assumes "cs \<noteq> []" and "\<And>c. c \<in> set cs \<Longrightarrow> d \<notin> set c"
  shows "split_char d (join [d] cs) = cs"
  using assms by (induction "[d]" cs rule: join.induct) (auto simp: split_char_single split_char_append)

lemma set_join: "set (join sep cs) \<subseteq> set sep \<union> \<Union> (set ` set cs)"
  by (induction sep cs rule: join.induct) auto

lemma join_snoc: "cs \<noteq> [] \<Longrightarrow> join sep (cs @ [c]) = join sep cs @ sep @ c"
  by (induction sep cs rule: join.induct) auto

lemma valid_path_join:
  assumes "cs \<noteq> []" and "list_all plain_component cs"
  shows "valid_path (join ''/'' cs)"
proof -
  have s: "split_char (CHR ''/'') (join ''/'' cs) = cs"
    using assms by (intro split_char_join) (auto simp: list_all_iff plain_component_def)
  have "join ''/'' cs \<noteq> []" using s assms by (auto simp: plain_component_def bad_component_def)
  moreover have "set (join ''/'' cs) \<inter> set forbidden_path_bytes = {}"
    using set_join[of "''/''" cs] assms(2) by (fastforce simp: list_all_iff plain_component_def forbidden_path_bytes_def)
  ultimately show ?thesis using assms(2) by (auto simp: valid_path_def s list_ex_iff list_all_iff plain_component_def)
qed

lemma valid_path_components: "valid_path p \<Longrightarrow> list_all plain_component (split_char (CHR ''/'') p)"
proof (unfold list_all_iff, intro ballI)
  fix c assume p: "valid_path p" and c: "c \<in> set (split_char (CHR ''/'') p)"
  have "set c \<subseteq> set p" using c split_char_subset by fastforce
  then show "plain_component c"
    using p c split_char_free[OF c] by (auto simp: valid_path_def plain_component_def list_ex_iff list_all_iff)
qed

lemma below_join:
  assumes "list_all plain_component cs"
  shows "below (join ''/'' cs) c = join ''/'' (cs @ [c])"
proof (cases "cs = []")
  case False
  then have "join ''/'' cs \<noteq> []" using valid_path_join[OF False assms] by (auto simp: valid_path_def)
  then show ?thesis using False by (simp add: below_def join_snoc)
qed (simp add: below_def)

section \<open>What the tools can change\<close>

definition plain_node :: "node option \<Rightarrow> bool" where
  "plain_node n = (n \<noteq> Some Symbolic_Link \<and> n \<noteq> Some Special_File)"

definition clean_node :: "tool_fns \<Rightarrow> string \<Rightarrow> node option \<Rightarrow> bool" where
  "clean_node F p n =
     (case n of
        None \<Rightarrow> True
      | Some Directory \<Rightarrow> True
      | Some (Regular_File s _) \<Rightarrow>
          \<not> tf_sensitive F p \<and> length s \<le> MAX_FILE_BYTES \<and> CHR 0x00 \<notin> set s \<and> tf_redact F s = s
      | _ \<Rightarrow> False)"

definition confined_to :: "tool_fns \<Rightarrow> tree \<Rightarrow> tree \<Rightarrow> bool" where
  "confined_to F t t' =
     (\<forall>q. map_of t' q = map_of t q \<or> (valid_path q \<and> plain_node (map_of t q) \<and> clean_node F q (map_of t' q)))"

lemma confined_refl [simp]: "confined_to F t t"
  by (simp add: confined_to_def)

lemma confined_trans: "confined_to F t t' \<Longrightarrow> confined_to F t' t'' \<Longrightarrow> confined_to F t t''"
  unfolding confined_to_def by metis

lemma confined_update:
  "valid_path q \<Longrightarrow> plain_node (map_of t q) \<Longrightarrow> clean_node F q (Some n) \<Longrightarrow> confined_to F t (AList.update q n t)"
  by (auto simp: confined_to_def update_conv)

lemma check_dir_plain: "check_dir F t d = Inr u \<Longrightarrow> d \<noteq> [] \<Longrightarrow> map_of t d = None \<or> map_of t d = Some Directory"
  by (auto simp: check_dir_def split: if_splits option.splits node.splits)

lemma ensure_dir_confined:
  assumes "ensure_dir F t (join ''/'' as) cs = (r, t1)" and "list_all plain_component (as @ cs)"
  shows "confined_to F t t1 \<and> (\<forall>q n. map_of t q = Some n \<longrightarrow> map_of t1 q = Some n) \<and> (\<forall>d. r = Inr d \<longrightarrow> d = join ''/'' (as @ cs))"
  using assms
proof (induction cs arbitrary: as t)
  case (Cons c cs)
  let ?cur = "join ''/'' (as @ [c])"
  have cur: "below (join ''/'' as) c = ?cur" using Cons.prems(2) by (intro below_join) simp
  have v: "valid_path ?cur" using Cons.prems(2) by (intro valid_path_join) simp_all
  show ?case
  proof (cases "check_dir F t ?cur")
    case (Inl e)
    then show ?thesis using Cons.prems(1) by (auto simp: cur Let_def)
  next
    case (Inr u)
    have n: "map_of t ?cur = None \<or> map_of t ?cur = Some Directory"
      using check_dir_plain[OF Inr] v by (auto simp: valid_path_def)
    have rest: "list_all plain_component ((as @ [c]) @ cs)" using Cons.prems(2) by simp
    show ?thesis
    proof (cases "map_of t ?cur \<noteq> None")
      case True
      then show ?thesis using Cons.prems(1) Cons.IH[of t "as @ [c]"] rest Inr by (simp add: cur Let_def)
    next
      case False
      let ?t = "AList.update ?cur Directory t"
      have up: "confined_to F t ?t" using v False by (intro confined_update) (simp_all add: plain_node_def clean_node_def)
      show ?thesis
      proof (cases "tf_fails F ''mkdir'' ?cur")
        case True
        then show ?thesis using Cons.prems(1) Inr False by (auto simp: cur Let_def)
      next
        case nofail: False
        have "ensure_dir F ?t ?cur cs = (r, t1)" using Cons.prems(1) Inr False nofail by (simp add: cur Let_def)
        from Cons.IH[OF this rest] have h: "confined_to F ?t t1" "\<forall>q n. map_of ?t q = Some n \<longrightarrow> map_of t1 q = Some n"
          "\<forall>d. r = Inr d \<longrightarrow> d = join ''/'' ((as @ [c]) @ cs)" by blast+
        have "map_of t1 q = Some n" if q: "map_of t q = Some n" for q n
        proof -
          have "map_of ?t q = Some n" using q False by (auto simp: update_conv)
          then show ?thesis using h(2) by blast
        qed
        then show ?thesis using confined_trans[OF up h(1)] h(3) by simp
      qed
    qed
  qed
qed auto

lemma resolve_path_ok: "resolve_path F t p = Inr u \<Longrightarrow> valid_path p \<and> \<not> tf_sensitive F p"
  by (auto simp: resolve_path_def split: if_splits)

lemma allowed_content_clean:
  "allowed_content F s = Inr u \<Longrightarrow> \<not> tf_sensitive F p \<Longrightarrow> clean_node F p (Some (Regular_File s m))"
  by (auto simp: allowed_content_def clean_node_def split: if_splits)

text \<open>A write puts the content at the path, creates directories above it, and changes nothing else.\<close>

lemma write_repo_file_confined:
  assumes w: "write_repo_file F t p s = (r, t1)" and p: "valid_path p" "\<not> tf_sensitive F p" "allowed_content F s = Inr u"
  shows "confined_to F t t1 \<and> (\<forall>q n. map_of t q = Some n \<longrightarrow> q \<noteq> p \<longrightarrow> map_of t1 q = Some n)
    \<and> (\<forall>v. r = Inr v \<longrightarrow> map_of t1 p = Some (Regular_File s (tf_mode F)))"
proof -
  let ?cs = "split_char (CHR ''/'') p"
  have cs: "list_all plain_component ?cs" "?cs \<noteq> []" using valid_path_components[OF p(1)] by simp_all
  obtain rd t0 where e: "ensure_dir F t [] (butlast ?cs) = (rd, t0)" by fastforce
  have b: "list_all plain_component ([] @ butlast ?cs)" using cs(1) by (auto simp: list_all_iff dest: in_set_butlastD)
  have e': "ensure_dir F t (join ''/'' []) (butlast ?cs) = (rd, t0)" using e by simp
  note d = ensure_dir_confined[OF e' b]
  show ?thesis
  proof (cases rd)
    case (Inl x)
    then show ?thesis using w d by (auto simp: write_repo_file_def Let_def e)
  next
    case (Inr dir)
    then have "below dir (last ?cs) = join ''/'' (butlast ?cs @ [last ?cs])" using d b below_join[of "butlast ?cs"] by simp
    then have target: "below dir (last ?cs) = p" using cs(2) join_split_char[of "CHR ''/''" p] by simp
    have w': "write_atomic F t0 dir (last ?cs) s = (r, t1)" using w Inr by (simp add: write_repo_file_def Let_def e)
    show ?thesis
    proof (cases "sum_then (check_dir F t0 dir) (\<lambda>_. check_regular_target F t0 p)")
      case (Inl x)
      then show ?thesis using w' d by (auto simp: write_atomic_def target Let_def)
    next
      case ok: (Inr y)
      then have "plain_node (map_of t0 p)"
        by (auto simp: sum_then_Inr check_regular_target_def plain_node_def split: option.splits node.splits)
      then have "confined_to F t0 (AList.update p (Regular_File s (tf_mode F)) t0)"
        using p allowed_content_clean by (intro confined_update) auto
      then show ?thesis using w' d confined_trans ok
        by (auto simp: write_atomic_def target Let_def update_conv split: if_splits)
    qed
  qed
qed

lemma put_content_confined:
  assumes w: "put_content F t p s = (r, t')" and p: "valid_path p" "\<not> tf_sensitive F p" "allowed_content F s = Inr u"
  shows "confined_to F t t' \<and> (\<forall>q n. map_of t q = Some n \<longrightarrow> q \<noteq> p \<longrightarrow> map_of t' q = Some n)
    \<and> (\<forall>v. r = Inr v \<longrightarrow> (\<exists>m. map_of t' p = Some (Regular_File s m) \<and> (\<forall>m0. old_mode t p = Some m0 \<longrightarrow> m = m0)))"
proof -
  obtain r1 t1 where w1: "write_repo_file F t p s = (r1, t1)" by fastforce
  note h = write_repo_file_confined[OF w1 p]
  show ?thesis
  proof (cases "\<exists>v m. r1 = Inr v \<and> old_mode t p = Some m \<and> \<not> tf_fails F ''chmod'' p")
    case False
    then show ?thesis using w h by (auto simp: put_content_def Let_def w1 split: sum.splits option.splits if_splits)
  next
    case True
    then obtain v m where t': "r1 = Inr v" "old_mode t p = Some m" "t' = AList.update p (Regular_File s m) t1" "r = Inr ''written''"
      using w by (auto simp: put_content_def Let_def w1)
    have "confined_to F t1 t'" unfolding t'(3)
      using h t'(1) p allowed_content_clean by (intro confined_update) (auto simp: plain_node_def)
    then show ?thesis using h t' confined_trans by (auto simp: update_conv)
  qed
qed

lemma remove_regular_confined:
  "remove_regular F t p = (r, t') \<Longrightarrow> valid_path p \<Longrightarrow> confined_to F t t'"
  by (auto simp: remove_regular_def confined_to_def delete_conv plain_node_def clean_node_def split: option.splits node.splits if_splits)

lemma write_tool_confined: "confined_to F t (snd (write_tool F w t name a))"
proof (cases "sum_then (string_arg a ''path'') (\<lambda>p. sum_then (resolve_path F t p) (\<lambda>_. Inr p))")
  case (Inl e)
  then show ?thesis by (simp add: write_tool_def)
next
  case (Inr p)
  then have p: "valid_path p" "\<not> tf_sensitive F p" by (auto simp: sum_then_Inr dest!: resolve_path_ok)
  show ?thesis
  proof (cases "sum_then (new_content F t name a p) (\<lambda>c. sum_then (allowed_content F c) (\<lambda>_. Inr c))")
    case (Inl e)
    then show ?thesis using Inr remove_regular_confined[OF _ p(1)] by (simp add: write_tool_def prod_eq_iff)
  next
    case c: (Inr c)
    then obtain u where "allowed_content F c = Inr u" by (auto simp: sum_then_Inr)
    then have "confined_to F t (snd (put_content F t p c))"
      using put_content_confined[OF prod.collapse[symmetric] p] by blast
    then show ?thesis using Inr c remove_regular_confined[OF _ p(1)] by (simp add: write_tool_def prod_eq_iff)
  qed
qed

lemma call_tool_confined: "confined_to F t (snd (call_tool F w t name a))"
proof -
  have "snd (call_tool F w t name a) = snd (call_inner F w t name a)" by (simp add: call_tool_def split: prod.splits sum.splits)
  then show ?thesis using write_tool_confined[of F t w name a] by (simp add: call_inner_def)
qed

lemma clean_fails: "clean_node (F\<lparr>tf_fails := fails\<rparr>) p n = clean_node F p n"
  by (cases n; cases "the n") (simp_all add: clean_node_def)

lemma confined_fails: "confined_to (F\<lparr>tf_fails := fails\<rparr>) t t' = confined_to F t t'"
  by (simp add: confined_to_def clean_fails)


text \<open>The tools of a verifier leave the tree as it is.\<close>

theorem verifier_tools_read_only: "call_tools F False t cs = t"
  by (induction F "False" t cs rule: call_tools.induct)
    (auto simp: call_tool_def call_inner_def write_tool_def split: prod.splits sum.splits)

lemma match_count_found:
  assumes "match_count old s = 1" and "old \<noteq> []"
  obtains i where "find_str s old = Some i" "s = take i s @ old @ drop (i + length old) s"
proof (cases "find_str s old")
  case None
  then have "match_count old s = 0"
    using find_str_None[OF None] assms(2) by (auto simp: match_count_def starts_with_def filter_empty_conv)
  then show ?thesis using assms by simp
next
  case (Some i)
  then have "starts_with (drop i s) old" by (simp add: find_str_Some)
  then obtain post where "drop i s = old @ post" by (auto simp: starts_with_iff)
  then have "s = take i s @ old @ post" by (metis append_take_drop_id)
  moreover have "drop (i + length old) s = post" using \<open>drop i s = old @ post\<close> by (metis add.commute append_eq_conv_conj drop_drop)
  ultimately show ?thesis using that Some by simp
qed

lemma tool_read_file: "tool_read F t p = Inr s \<Longrightarrow> \<exists>m. map_of t p = Some (Regular_File s m)"
  by (auto simp: tool_read_def sum_then_Inr split: if_splits option.splits node.splits)

text \<open>A successful replacement rewrites the only place where the text occurs, keeps the rest of the file and its
  mode, and leaves every other entry of the tree as it was.\<close>

theorem replacement_is_exact:
  assumes "call_inner F w t ''replace_in_file'' a = (Inr r, t')"
  shows "\<exists>p pre old new post m. jidx a ''path'' = JStr p \<and> jidx a ''old'' = JStr old \<and> jidx a ''new'' = JStr new
    \<and> map_of t p = Some (Regular_File (pre @ old @ post) m) \<and> map_of t' p = Some (Regular_File (pre @ new @ post) m)
    \<and> match_count old (pre @ old @ post) = 1 \<and> (\<forall>q. map_of t q = None \<or> q = p \<or> map_of t' q = map_of t q)"
proof -
  obtain p s u v where p: "string_arg a ''path'' = Inr p" "resolve_path F t p = Inr u" "new_content F t ''replace_in_file'' a p = Inr s"
    "allowed_content F s = Inr v" "put_content F t p s = (Inr r, t')"
    using assms by (auto simp: call_inner_def write_tool_def sum_then_Inr split: if_splits sum.splits)
  obtain old new c where c: "string_arg a ''old'' = Inr old" "string_arg a ''new'' = Inr new" "tool_read F t p = Inr c"
    "old \<noteq> []" "match_count old c = 1" "s = replace_first old new c"
    using p(3) by (auto simp: new_content_def sum_then_Inr split: if_splits)
  obtain i where i: "find_str c old = Some i" "c = take i c @ old @ drop (i + length old) c" using match_count_found[OF c(5,4)] by blast
  obtain m where m: "map_of t p = Some (Regular_File c m)" using tool_read_file[OF c(3)] by blast
  have "valid_path p" "\<not> tf_sensitive F p" using resolve_path_ok[OF p(2)] by simp_all
  note h = put_content_confined[OF p(5) this p(4)]
  have "old_mode t p = Some m" by (simp add: old_mode_def m)
  then have t': "map_of t' p = Some (Regular_File (take i c @ new @ drop (i + length old) c) m)"
    using h c(6) i(1) by (auto simp: replace_first_def)
  have args: "jidx a ''path'' = JStr p" "jidx a ''old'' = JStr old" "jidx a ''new'' = JStr new"
    using p(1) c(1,2) by (auto simp: string_arg_def as_str_def split: json.splits option.splits)
  have rest: "\<forall>q. map_of t q = None \<or> q = p \<or> map_of t' q = map_of t q" using h by force
  show ?thesis using m i(2) t' args rest c(5) by metis
qed

end
