(* ===== verification/Stage_Props.thy ===== *)
theory Stage_Props
  imports Fix_Stages Config_Props
begin

text \<open>
  The properties of the repair stages: what a submission of an agent is worth, and what the sandbox of a
  stage can see.
\<close>

section \<open>Submissions after redaction\<close>

lemma map_of_map_prod: "map_of (map (map_prod (\<lambda>k. k) f) kvs) k = map_option f (map_of kvs k)"
  by (induction kvs) auto

lemma field_of_redact: "field_of i k (redact_json red v) = map_option (redact_json red) (field_of i k v)"
  by (cases v) (simp_all add: field_of_def map_of_map_prod)

lemma as_str_redact: "as_str (redact_json red v) = map_option red (as_str v)"
  by (cases v) (simp_all add: as_str_def)

lemma required_redact: "required d i k (redact_json red v) = (case field_of i k v of None \<Rightarrow> None | Some w \<Rightarrow> d (redact_json red w))"
  by (simp add: required_def field_of_redact split: option.splits)

lemma required_str_redact: "required as_str i k (redact_json red v) = map_option red (required as_str i k v)"
  by (simp add: required_def field_of_redact as_str_redact split: option.splits)

lemma de_entry_id: "de_entry what named why v = Some (i, d, n) \<Longrightarrow> required as_str 0 ''id'' v = Some i"
  by (auto simp: de_entry_def split: if_splits option.splits)

lemma de_entry_redact:
  assumes "de_entry what named why v = Some e" and "de_entry what named why (redact_json red v) = Some e'"
  shows "fst e' = red (fst e)"
proof -
  obtain i d n i' d' n' where e: "e = (i, d, n)" "e' = (i', d', n')" by (metis prod_cases3)
  then show ?thesis
    using de_entry_id[of what named why v i d n] de_entry_id[of what named why "redact_json red v" i' d' n'] assms
    by (simp add: required_str_redact)
qed

lemma de_list_redact:
  assumes "\<And>v e e'. d v = Some e \<Longrightarrow> d (redact_json red v) = Some e' \<Longrightarrow> fst e' = red (fst e)"
    and "de_list d vs = Some es" and "de_list d (map (redact_json red) vs) = Some es'"
  shows "map fst es' = map red (map fst es)"
  using assms(2,3)
proof (induction vs arbitrary: es es')
  case (Cons v vs)
  then obtain e fs e' fs' where "d v = Some e" "de_list d vs = Some fs" "es = e # fs" "d (redact_json red v) = Some e'"
    "de_list d (map (redact_json red) vs) = Some fs'" "es' = e' # fs'"
    by (auto split: option.splits)
  then show ?case using assms(1) Cons.IH by simp
qed simp

lemma required_vec_redact:
  assumes "required (de_vec (de_entry what named why)) i k v = Some es"
    and "required (de_vec (de_entry what named why)) i k (redact_json red v) = Some es'"
  shows "map fst es' = map red (map fst es)"
proof -
  obtain w where w: "field_of i k v = Some w" "de_vec (de_entry what named why) w = Some es"
    "de_vec (de_entry what named why) (redact_json red w) = Some es'"
    using assms by (auto simp: required_redact required_def[of _ i k v] split: option.splits)
  then obtain vs where "w = JArr vs" by (cases w) (auto simp: de_vec_def)
  have rd: "\<And>v e e'. de_entry what named why v = Some e \<Longrightarrow> de_entry what named why (redact_json red v) = Some e' \<Longrightarrow> fst e' = red (fst e)"
    by (rule de_entry_redact)
  show ?thesis using w \<open>w = JArr vs\<close> de_list_redact[of "de_entry what named why" red vs, OF rd] by (simp add: de_vec_def)
qed

lemma terminal_ids_redact:
  assumes "terminal_ids s v = Some ids" and "terminal_ids s (redact_json red v) = Some ids'"
  shows "ids' = map red ids"
proof (cases s)
  case Stage_Generate
  obtain x x' where x: "de_fix_submission v = Some x" "ids = map fst (fs_per_finding x)"
    "de_fix_submission (redact_json red v) = Some x'" "ids' = map fst (fs_per_finding x')"
    using assms by (auto simp: terminal_ids_def Stage_Generate)
  have "required (de_vec (de_entry ''disposition'' disposition_named ''note'')) 1 ''per_finding'' v = Some (fs_per_finding x)"
    "required (de_vec (de_entry ''disposition'' disposition_named ''note'')) 1 ''per_finding'' (redact_json red v) = Some (fs_per_finding x')"
    using x(1,3) by (auto simp: de_fix_submission_def split: if_splits option.splits)
  then show ?thesis using required_vec_redact x(2,4) by simp
next
  case Stage_Verify
  obtain x x' where x: "de_verification v = Some x" "ids = map fst (vf_per_finding x)"
    "de_verification (redact_json red v) = Some x'" "ids' = map fst (vf_per_finding x')"
    using assms by (auto simp: terminal_ids_def Stage_Verify)
  have "required (de_vec (de_entry ''verdict'' verdict_named ''rationale'')) 0 ''per_finding'' v = Some (vf_per_finding x)"
    "required (de_vec (de_entry ''verdict'' verdict_named ''rationale'')) 0 ''per_finding'' (redact_json red v) = Some (vf_per_finding x')"
    using x(1,3) by (auto simp: de_verification_def split: if_splits option.splits)
  then show ?thesis using required_vec_redact x(2,4) by simp
qed

section \<open>What a stage returns\<close>

definition submitted_ids :: "stage_result \<Rightarrow> string list option" where
  "submitted_ids res =
     (case res of
        Generated a \<Rightarrow> map_option (\<lambda>x. map fst (fs_per_finding x)) (sr_submission a)
      | Verified a \<Rightarrow> map_option (\<lambda>x. map fst (vf_per_finding x)) (sr_submission a))"

definition stage_stopped :: "stage_result \<Rightarrow> fix_stop" where
  "stage_stopped res = (case res of Generated a \<Rightarrow> sr_stopped a | Verified a \<Rightarrow> sr_stopped a)"

lemma finish_stage_facts:
  assumes "end_of e = (v0, st0, c, rp)" and "judged_end F s r g v0 st0 = (v, st)"
  shows "submitted_ids (finish_stage F s r g ms e) = Option.bind v (terminal_ids s)"
    and "stage_stopped (finish_stage F s r g ms e) = st"
  using assms by (cases s; cases v; simp add: finish_stage_def submitted_ids_def stage_stopped_def terminal_ids_def)+

lemma stop_run_final: "ar_final_call (stop_run c reason st) = c" "ar_stopped (stop_run c reason st) = reason"
  by (simp_all add: stop_run_def)

lemma stage_agent_step_final: "agent_step cfg env st = Inl run \<Longrightarrow> ar_final_call run \<noteq> None \<Longrightarrow> ar_stopped run = Terminal"
  by (auto simp: agent_step_def on_reply_def on_text_def on_plain_reply_def on_terminal_def on_calls_after_notice_def Let_def
      stop_run_final split: if_splits reply.splits option.splits)

lemma agent_loop_final: "agent_loop cfg envs st = Inl run \<Longrightarrow> ar_final_call run \<noteq> None \<Longrightarrow> ar_stopped run = Terminal"
proof (induction envs arbitrary: st)
  case (Cons env envs)
  then show ?case using stage_agent_step_final by (cases "agent_step cfg env st") auto
qed simp

text \<open>C15: Whatever the model submits, a submission that a stage returns accounts for every selected finding exactly
  once, up to the redaction of its text, and was the final call of the agent.\<close>

theorem stage_result_covers_findings:
  assumes "run_with_client F prompt r s n = Some (Inr res)" and "submitted_ids res = Some ids'"
  shows "\<exists>ids. distinct ids \<and> set ids = set (request_ids F r) \<and> ids' = map (sf_redact F) ids \<and> stage_stopped res = Stop_Terminal"
proof -
  obtain e where res: "res = finish_stage F s r (rn_ledger n) (rn_ms n) e"
    and e: "e \<in> {Agent_Cut, Agent_Error} \<or> (\<exists>run. e = Agent_Returned run
      \<and> run_agent_checked (stage_agent F r s) (prompt s) (stage_prompt F r) (rn_envs n) = Inl run)"
    using assms(1) by (auto simp: run_with_client_def Let_def split: sum.splits if_splits)
  obtain v0 st0 c rp where end0: "end_of e = (v0, st0, c, rp)" by (metis prod_cases4)
  obtain w st where judged: "judged_end F s r (rn_ledger n) v0 st0 = (w, st)" by fastforce
  note f = finish_stage_facts[OF end0 judged, where ms = "rn_ms n", folded res]
  obtain v where v: "v0 = Some v" "check_terminal F s r v = None" "w = Some (redact_json (sf_redact F) v)"
    "terminal_ids s (redact_json (sf_redact F) v) = Some ids'"
    using judged assms(2) unfolding f(1) by (auto simp: judged_end_def Let_def split: option.splits if_splits)
  then obtain ids where ids: "terminal_ids s v = Some ids" "distinct ids" "set ids = set (request_ids F r)"
    by (auto simp: check_terminal_def split: if_splits option.splits)
  obtain run where run: "e = Agent_Returned run" "agent_loop (stage_agent F r s) (rn_envs n)
      (agent_start (stage_agent F r s) (prompt s) (stage_prompt F r)) = Inl run"
    using e v(1) end0 by (auto simp: end_of_def run_agent_checked_def)
  have "ar_final_call run \<noteq> None" using v(1) run(1) end0 by (auto simp: end_of_def)
  then have "st0 = Stop_Terminal" using agent_loop_final[OF run(2)] run(1) end0 by (simp add: end_of_def stop_of_def)
  then have "st = Stop_Terminal" using judged by (simp add: judged_end_def v(1,2))
  then show ?thesis using ids terminal_ids_redact[OF ids(1) v(4)] f(2) by blast
qed

section \<open>What the sandbox of a stage can see\<close>

lemma new_credential_entry:
  "(k, v) \<in> set (new_credential credential r env)
     \<Longrightarrow> k \<notin> set (map fst env) \<and> credential k = Some v \<and> mr_api_key_env r = Some k"
  by (auto simp: new_credential_def split: option.splits if_splits)

lemma new_credential_distinct: "distinct (map fst env) \<Longrightarrow> distinct (map fst (env @ new_credential credential r env))"
  by (force simp: new_credential_def split: option.splits)

lemma route_env_entries:
  assumes "route_env credential rs env g = (Inr env', g')" and "distinct (map fst env)"
  shows "distinct (map fst env') \<and> (\<forall>k v. (k, v) \<in> set env' \<longrightarrow>
     (k, v) \<in> set env \<or> credential k = Some v \<and> (\<exists>m\<in>set rs. mr_api_key_env m = Some k))"
  using assms
proof (induction rs arbitrary: env g)
  case (Cons r rs)
  let ?env = "env @ new_credential credential r env"
  obtain g2 where "route_env credential rs ?env g2 = (Inr env', g')" using Cons.prems(1) by (auto split: if_splits)
  from Cons.IH[OF this new_credential_distinct[OF Cons.prems(2)]] show ?case
    using new_credential_entry[of _ _ credential r env] by (metis Un_iff insert_iff list.simps(15) set_append)
qed simp

definition github_names :: "config \<Rightarrow> string list" where
  "github_names cfg = [gc_token_env (cf_github cfg), ''GITHUB_TOKEN'', ''ACTIONS_RUNTIME_TOKEN'']"

lemma check_route_names:
  assumes "check_route K route github_env = Inr u" and "m \<in> set (routes route)" and "mr_api_key_env m = Some k"
  shows "k \<notin> {github_env, ''GITHUB_TOKEN'', ''ACTIONS_RUNTIME_TOKEN''}"
proof -
  have "check_credential_env K ''fix model'' k github_env = Inr ()"
    using assms by (force simp: check_route_def split: sum.splits)
  then show ?thesis by (simp add: check_credential_env_def)
qed

text \<open>The secrets and paths that the child of a stage may see.\<close>

definition isolated ::
  "config \<Rightarrow> repair_request \<Rightarrow> string \<Rightarrow> string \<Rightarrow> stage \<Rightarrow> sandbox_env \<Rightarrow> sandbox_profile \<Rightarrow> bool"
where
  "isolated cfg r tree io_dir s x p =
     (list_all (\<lambda>(k, v). k \<notin> set (github_names cfg) \<and> k \<notin> set forbidden_env \<and> xe_credential x k = Some v
         \<and> list_ex (\<lambda>m. mr_api_key_env m = Some k) (routes (stage_route s cfg))) (sp_env p)
      \<and> distinct (map fst (sp_env p))
      \<and> set (map fst (sp_binds_rw p)) = {path_child io_dir ''out''} \<union> (if s = Stage_Generate then {tree} else {})
      \<and> list_all (\<lambda>hi. real_source (xe_host x) (fst hi) \<and> allowed_destination (snd hi)) (sp_binds_rw p @ sp_binds_ro p)
      \<and> \<not> path_within io_dir tree
      \<and> lm_wall (sp_limits p) \<le> secs_ns (sb_seconds (fq_budget r) + 5) + TERMINAL_GRACE)"

text \<open>C4: When the child of a stage is started, its environment holds nothing but credentials of the stage's own model
  routes, none of them GitHub's; it can write only to the output directory and, when it generates, to
  the tree; everything bound is a real file or directory; and every finding was accepted or carried over.\<close>

theorem repair_child_isolated:
  assumes "xo_profile (run_in_sandbox F K cfg r tree io_dir s limits x g) = Some p"
  shows "isolated cfg r tree io_dir s x p
    \<and> list_all (\<lambda>f. f_validation_status f = Some Accepted \<or> is_carried f) (fq_findings r)"
proof -
  let ?route = "stage_route s cfg"
  obtain executable u v env g1 cmd where v: "validate_request F r s = Inr v" and c: "check_route K ?route (gc_token_env (cf_github cfg)) = Inr u"
    and io: "\<not> path_within io_dir tree" and env: "route_env (xe_credential x) (routes ?route) [] g = (Inr env, g1)"
    and p: "p = stage_profile executable tree io_dir s env (stage_limits r limits)"
    and cmd: "sandbox_command (xe_host x) (xe_status x) p (stage_argv s) = Inr cmd"
    using assms
    by (auto simp: run_in_sandbox_def run_child_def sandbox_failed_def Let_def sum_then_Inr split: sum.splits if_splits prod.splits)
  note ok = iffD1[OF sandbox_command_Inr cmd]
  have e: "distinct (map fst env)" "\<And>k v. (k, v) \<in> set env \<Longrightarrow> xe_credential x k = Some v \<and> (\<exists>m\<in>set (routes ?route). mr_api_key_env m = Some k)"
    using route_env_entries[OF env] by auto
  have names: "k \<notin> set (github_names cfg)" if "(k, v) \<in> set env" for k v
    using e(2)[OF that] check_route_names[OF c] by (auto simp: github_names_def)
  have "list_all env_ok env" using ok by (simp add: profile_ok_def p stage_profile_def)
  then have "isolated cfg r tree io_dir s x p"
    using e names io ok by (auto simp: isolated_def p stage_profile_def profile_ok_def bind_ok_def list_all_iff list_ex_iff env_ok_def
        stage_limits_def)
  moreover have "list_all (\<lambda>f. f_validation_status f = Some Accepted \<or> is_carried f) (fq_findings r)"
    using v by (auto simp: validate_request_def list_all_iff list_ex_iff split: if_splits)
  ultimately show ?thesis by simp
qed

text \<open>The configuration with the routes of the models, whose headers may hold secrets, never stays behind, and what
  stays has been redacted.\<close>

theorem secret_config_removed:
  "set (xo_files (run_in_sandbox F K cfg r tree io_dir s limits x g))
     \<subseteq> {(''request.json'', redact_json (sf_redact F) (sf_request F r))}"
  by (auto simp: run_in_sandbox_def run_child_def sandbox_failed_def Let_def split: sum.splits if_splits prod.splits)

section \<open>An example\<close>

text \<open>A tree with one file, and a replacement in it.\<close>

definition edit_fns :: tool_fns where
  "edit_fns =
     \<lparr>tf_sensitive = (\<lambda>_. False), tf_redact = (\<lambda>s. s), tf_utf8 = (\<lambda>_. True), tf_glob = Inl, tf_regex = Inl, tf_print = (\<lambda>_. []),
      tf_fails = (\<lambda>_ _. False), tf_os = (\<lambda>a _. a), tf_mode = 420, tf_root = ''/w''\<rparr>"

definition edit_args :: json where
  "edit_args = JObj [(''path'', JStr ''f''), (''old'', JStr ''X''), (''new'', JStr ''YY'')]"

lemma edit_run:
  "call_inner edit_fns True [(''f'', Regular_File ''aXb'' 420)] ''replace_in_file'' edit_args
     = (Inr ''written'', [(''f'', Regular_File ''aYYb'' 420)])"
proof -
  have "valid_path ''f''" by code_simp
  moreover have "match_count ''X'' ''aXb'' = 1" "replace_first ''X'' ''YY'' ''aXb'' = ''aYYb''" by code_simp+
  ultimately show ?thesis
    by (simp add: call_inner_def write_tool_def edit_args_def string_arg_def jidx_def jget_def as_str_def resolve_path_def
        edit_fns_def new_content_def tool_read_def MAX_FILE_BYTES_def allowed_content_def put_content_def old_mode_def
        write_repo_file_def write_atomic_def check_dir_def check_regular_target_def below_def Let_def)
qed

theorem replacement_is_exact_witness:
  "\<exists>pre old new post. ''aXb'' = pre @ old @ post \<and> ''aYYb'' = pre @ new @ post \<and> match_count old (pre @ old @ post) = 1"
  using replacement_is_exact[OF edit_run] by (auto split: if_splits)

text \<open>An agent that answers at once, for one accepted finding.\<close>

definition stage_finding :: finding where
  "stage_finding =
     \<lparr>f_defect_key = ''k'', f_category = [], f_duplicate_of = None, f_severity = Low, f_file = ''f'', f_start_line = 1, f_end_line = None,
      f_title = [], f_claim = [], f_trigger = [], f_impact = [], f_introduced_by_change = False, f_supporting_evidence = [],
      f_counterevidence_checked = [], f_validation_status = Some Accepted, f_suggested_fix = None, f_validated_fix = None,
      f_suggestion = None, f_source = [], f_rationale = None, f_sources = []\<rparr>"

definition stage_request :: repair_request where
  "stage_request =
     \<lparr>fq_head = replicate 40 (CHR ''a''), fq_findings = [stage_finding], fq_budget = stage_budget_default, fq_constraints = [],
      fq_patch = None, fq_tests = None\<rparr>"

definition stage_example :: stage_fns where
  "stage_example =
     \<lparr>sf_hash = (\<lambda>_. ''0123456789ab''), sf_request = (\<lambda>_. JObj []), sf_result = (\<lambda>_. Inl []), sf_parse = (\<lambda>_. Inl []), sf_print = (\<lambda>_. []),
      sf_refused = (\<lambda>_. []), sf_redact = (\<lambda>s. s), sf_diag = (\<lambda>s. s)\<rparr>"

definition stage_answer :: json where
  "stage_answer =
     JObj [(''summary'', JStr ''s''),
           (''per_finding'', JArr [JObj [(''id'', JStr ''0123456789ab''), (''disposition'', JStr ''fixed''), (''note'', JStr [])]])]"

definition stage_call :: tool_call where
  "stage_call = \<lparr>tc_id = ''1'', tc_name = ''submit_fix'', tc_arguments = stage_answer\<rparr>"

definition stage_message :: chat_message where
  "stage_message =
     \<lparr>cm_role = Assistant, cm_content = None, cm_tool_calls = [stage_call], cm_tool_call_id = None, cm_name = None,
      cm_provider_state = None\<rparr>"

abbreviation stage_turn :: "usage \<Rightarrow> turn_env" where
  "stage_turn u \<equiv>
     \<lparr>te_top = 0, te_grace = 0, te_soft = 0, te_hard = 0,
      te_reply = Replied \<lparr>co_message = stage_message, co_usage = u, co_model = [], co_latency_ms = 0\<rparr>,
      te_took = 0, te_repair = 0, te_remind = 0, te_soft2 = 0, te_hard2 = 0, te_late = 0, te_tool = (\<lambda>_. []), te_batch_timeout = False\<rparr>"

abbreviation stage_example_run :: "usage \<Rightarrow> stage_run" where
  "stage_example_run u \<equiv>
     \<lparr>rn_tools = Inr (), rn_cut = False, rn_failed = False, rn_envs = [stage_turn u], rn_ledger = new_ledger, rn_ms = 0\<rparr>"

lemma stage_ids: "request_ids stage_example stage_request = [''0123456789ab'']"
  by (simp add: request_ids_def stage_example_def stage_request_def fid_def finding_id_def)

lemma stage_answer_ids: "terminal_ids Stage_Generate stage_answer = Some [''0123456789ab'']"
  by (simp add: terminal_ids_def de_fix_submission_def stage_answer_def known_fields_def de_entry_def disposition_named_def
      serde_defs as_str_def)

lemma stage_answer_ok: "check_terminal stage_example Stage_Generate stage_request stage_answer = None"
  by (simp add: check_terminal_def stage_answer_ids stage_ids) (simp add: stage_example_def)

lemma stage_returns:
  "\<exists>run. run_agent_checked (stage_agent stage_example stage_request Stage_Generate) sys usr [stage_turn u] = Inl run
     \<and> ar_final_call run = Some stage_call \<and> ar_stopped run = Terminal"
proof -
  let ?cfg = "stage_agent stage_example stage_request Stage_Generate"
  have c: "ag_max_tool_calls ?cfg = 40" "ag_max_seconds ?cfg = 300" "ag_terminal ?cfg = stage_terminal Stage_Generate"
    "ag_check ?cfg = check_terminal stage_example Stage_Generate stage_request"
    by (simp_all add: stage_agent_def stage_request_def stage_budget_default_def)
  have name: "ts_name (stage_terminal Stage_Generate) = ''submit_fix''" by (simp add: stage_terminal_def)
  show ?thesis
    by (simp add: run_agent_checked_def agent_step_def agent_start_def begin_turn_def turn_limit_def soft_left_def soft_deadline_def
        soft_ns_def total_ns_def secs_ns_def clamp_def c on_reply_def push_msg_def stage_message_def name on_terminal_def repair_msg_def
        stage_call_def stage_answer_ok stop_run_def)
qed

lemma redact_id: "redact_json (\<lambda>s. s) v = v"
  by (induction v) (auto intro!: map_idI)

theorem stage_result_covers_findings_witness:
  "\<forall>u. \<exists>res ids. run_with_client stage_example (\<lambda>_. []) stage_request Stage_Generate (stage_example_run u) = Some (Inr res)
     \<and> submitted_ids res = Some ids \<and> set ids = {''0123456789ab''} \<and> stage_stopped res = Stop_Terminal"
proof
  fix u
  obtain run where run: "run_agent_checked (stage_agent stage_example stage_request Stage_Generate) [] (stage_prompt stage_example stage_request)
      [stage_turn u] = Inl run" "ar_final_call run = Some stage_call" "ar_stopped run = Terminal"
    using stage_returns by blast
  let ?e = "Agent_Returned run" and ?res = "finish_stage stage_example Stage_Generate stage_request new_ledger 0 (Agent_Returned run)"
  have r: "run_with_client stage_example (\<lambda>_. []) stage_request Stage_Generate (stage_example_run u) = Some (Inr ?res)"
    by (simp add: run_with_client_def run)
  have e: "end_of ?e = (Some stage_answer, Stop_Terminal, ar_tool_calls run, ar_repaired run)"
    by (simp add: end_of_def run stage_call_def stop_of_def)
  have "judged_end stage_example Stage_Generate stage_request new_ledger (Some stage_answer) Stop_Terminal = (Some stage_answer, Stop_Terminal)"
    by (simp add: judged_end_def stage_answer_ok) (simp add: stage_example_def redact_id)
  then have i: "submitted_ids ?res = Some [''0123456789ab'']" by (simp add: finish_stage_facts[OF e] stage_answer_ids)
  have "stage_stopped ?res = Stop_Terminal" using stage_result_covers_findings[OF r i] by blast
  with r i show
    "\<exists>res ids. run_with_client stage_example (\<lambda>_. []) stage_request Stage_Generate (stage_example_run u) = Some (Inr res)
     \<and> submitted_ids res = Some ids \<and> set ids = {''0123456789ab''} \<and> stage_stopped res = Stop_Terminal"
    by (intro exI[of _ ?res] exI[of _ "[''0123456789ab'']"]) simp
qed

text \<open>A sandbox on a host where every path is what it should be.\<close>

definition repair_route :: model_route where
  "repair_route = Model_Route OpenaiChat (Some ''https://h'') (Some ''K'') ''m'' 100 60 True ''0'' [] None None (Effort EHigh) []"

definition repair_config :: config where
  "repair_config = example_config\<lparr>cf_models := (cf_models example_config)\<lparr>mo_fixer := Some repair_route\<rparr>\<rparr>"

definition repair_host :: host where
  "repair_host =
     \<lparr>ho_linux = True, ho_exists = (\<lambda>_. True), ho_is_file = (\<lambda>_. True), ho_meta = (\<lambda>_. Inr Host_Dir), ho_canonical = Inr\<rparr>"

definition repair_outside :: sandbox_env where
  "repair_outside =
     \<lparr>xe_executable = Inr ''/bin/revera'', xe_io_exists = False, xe_host = repair_host,
      xe_status = \<lparr>st_available = True, st_proc = True, st_reason = None\<rparr>, xe_mkdir = Inr (), xe_credential = (\<lambda>_. Some ''secret''),
      xe_write_config = Inr (), xe_write_request = Inr (), xe_child = Child_Exit (Some 0) [] [], xe_meta = Inr (Host_File, 1),
      xe_bytes = Inr []\<rparr>"

abbreviation repair_run :: sandbox_end where
  "repair_run \<equiv> run_in_sandbox stage_example example_fns repair_config stage_request ''/t'' ''/io'' Stage_Generate sandbox_limits_default repair_outside
     empty_registry"

lemma repair_started: "xo_profile repair_run
    = Some (stage_profile ''/bin/revera'' ''/t'' ''/io'' Stage_Generate [(''K'', ''secret'')] (stage_limits stage_request sandbox_limits_default))"
proof -
  let ?p = "stage_profile ''/bin/revera'' ''/t'' ''/io'' Stage_Generate [(''K'', ''secret'')] (stage_limits stage_request sandbox_limits_default)"
  have v: "validate_request stage_example stage_request Stage_Generate = Inr ()"
    by (simp add: validate_request_def stage_ids MAX_REQUEST_def)
      (simp add: stage_example_def stage_request_def stage_finding_def stage_budget_default_def is_oid_def is_ascii_hexdigit_def
        is_ascii_digit_def list_all_iff)
  have r: "stage_route Stage_Generate repair_config = repair_route"
    by (simp add: stage_route_def effective_fixer_def or_default_def repair_config_def)
  have "check_credential_env example_fns ''fix model'' ''K'' ''GITHUB_TOKEN'' = Inr ()" using example_names by (simp add: check_credential_env_ok)
  moreover have "check_endpoint_url example_fns ''fix model'' ''https://h'' True = Inr ()"
    by (simp add: check_endpoint_url_ok trusted_endpoint_def example_fns_def example_url_def)
  moreover have g: "gc_token_env (cf_github repair_config) = ''GITHUB_TOKEN''"
    by (simp add: repair_config_def example_config_def github_default_def)
  ultimately have c: "check_route example_fns repair_route (gc_token_env (cf_github repair_config)) = Inr ()"
    unfolding g check_route_def routes_def by (simp add: repair_route_def checks.simps)
  have env: "route_env (xe_credential repair_outside) (routes repair_route) [] empty_registry = (Inr [(''K'', ''secret'')], register ''secret'' empty_registry)"
    by (simp add: routes_def repair_route_def is_http_def new_credential_def repair_outside_def)
  have dest: "allowed_destination ''/output''" "allowed_destination ''/work''" "allowed_destination ''/revera''"
    "allowed_destination ''/input/config.json''" "allowed_destination ''/input/request.json''" "\<not> path_within ''/io'' ''/t''"
    by code_simp+
  have "profile_ok repair_host ?p"
    using dest example_names(1) by (simp add: profile_ok_def stage_profile_def bind_ok_def real_source_def repair_host_def env_ok_def forbidden_env_def
        zero_limit_def stage_limits_def sandbox_limits_default_def secs_ns_def stage_request_def stage_budget_default_def TERMINAL_GRACE_def)
  then obtain cmd where cmd: "sandbox_command repair_host \<lparr>st_available = True, st_proc = True, st_reason = None\<rparr> ?p (stage_argv Stage_Generate) = Inr cmd"
    using sandbox_command_Inr by (force simp: stage_argv_def)
  show ?thesis
    unfolding run_in_sandbox_def r Let_def v c
    using dest(6) by (simp add: starts_with_def Let_def env[unfolded repair_outside_def, simplified] run_child_def cmd repair_outside_def)
qed

theorem repair_child_isolated_witness:
  "\<exists>p. xo_profile repair_run = Some p \<and> sp_env p = [(''K'', ''secret'')]
     \<and> isolated repair_config stage_request ''/t'' ''/io'' Stage_Generate repair_outside p"
  using repair_child_isolated[OF repair_started] repair_started by (simp add: stage_profile_def)

end
