(* ===== verification/Spec2Isabelle.thy ===== *)
theory Spec2Isabelle
  imports Review_State_Props Report_Props Dedup_Props Fallback Http_Transport Agent_Props Fix_Guarantees Queue_Props Mentions Preferences Review_Witness Adapter_Openai Adapter_Anthropic Adapter_Gemini Adapter_Props Redact_Props Config_Props Guidance Github_Witness Stage_Props
begin

text \<open>
  Revera reviews pull requests with language models and, on request, repairs what it found.  This
  development models the core of the program (\<open>src/src\<close>, Rust) in HOL and proves what makes it
  correct.  Every definition is a translation of the code its entry in \<open>PROJECT.json\<close> names; names
  are the source's, with a suffix where HOL has one already.

  The program and its parts.  A pull request arrives as a webhook (\<open>server/events.rs\<close>), becomes a job
  in the queue (\<open>server/queue.rs\<close>), and the runner starts a review: the diff is parsed
  (\<open>diff.rs\<close>), language models are asked through a chain of provider routes
  (\<open>provider/fallback.rs\<close>, \<open>provider/http.rs\<close>) by agents that may call tools (\<open>agent.rs\<close>), their
  findings are parsed, merged and validated (\<open>pipeline/common.rs\<close>, \<open>findings.rs\<close>), deduplicated
  (\<open>pipeline/dedup.rs\<close>), placed on lines of the diff (\<open>pipeline/anchor.rs\<close>) and published
  (\<open>report.rs\<close>); \<open>state.rs\<close> remembers what was published.  A finding can be repaired
  (\<open>server/fixes.rs\<close>): a request is recorded and rate limited, a worker generates a patch in a
  sandbox, tests and verifies it, and after approval it is written to GitHub.

  Conventions.  A \<open>String\<close> is its list of UTF-8 bytes.  A \<open>u32\<close> that may wrap is a \<open>32 word\<close>; lengths,
  indices and 64-bit counters are \<open>nat\<close>; times are \<open>nat\<close> nanoseconds, \<open>int\<close> seconds, or the text the
  program stores.  \<open>Result\<close> is a sum with the error on the left.  State is passed explicitly.
  Code that is not in the repository is an argument: \<open>H\<close> the SHA-256 digest in hexadecimal, \<open>red\<close>
  and \<open>diag\<close> the redaction of secrets where the caller does not look inside, \<open>sens\<close> and \<open>ci\<close> glob
  matching, the RFC 3339 parser, the Unicode tables, fresh identifiers.  What comes from the
  outside (answers of GitHub and of the models, clocks, whether a file could be written, what other
  tasks did meanwhile) is a field of an environment record (\<open>turn_env\<close>, \<open>attempt_env\<close>, \<open>step_env\<close>,
  \<open>delivery_env\<close>) over which every theorem quantifies.

  The library.
  \<^item> \<open>Revera_Prelude\<close>, \<open>Rust_Str\<close>, \<open>Text_Util\<close>, \<open>Json\<close>, \<open>Ordered_Map\<close>: machine integers, the functions of
    Rust's iterators, strings, \<open>serde_json\<close> values and \<open>BTreeMap\<close> that the sources use.
  \<^item> \<open>Interfaces\<close>: the locales \<open>keyed_store\<close> and \<open>keyed_map\<close> (a store of entries under keys; interpreted
    on the review state in \<open>Review_State_Props\<close> and on \<open>BTreeMap\<close> in \<open>Ordered_Map\<close>) and \<open>budget\<close>
    (promises that never pass a limit; interpreted on the request ledger in \<open>Provider\<close>).
    The locale \<open>rate_limiter\<close>, a sliding window over a log of times, is interpreted on the
    log of repair requests in \<open>Fix_Guarantees\<close>.
  \<^item> \<open>Json\<close> also holds what \<open>derive(Deserialize)\<close> generates, as decoders over \<open>json\<close>.
    \<open>Wire\<close>: JSON access as the adapters write it, and the locale \<open>wire_adapter\<close> (an adapter gives up a
    rejected field each time it asks for the same request again), interpreted on all four adapters.
  The components.
  \<^item> \<open>Text_Util\<close> (\<open>text.rs\<close>), \<open>Diff\<close> and \<open>Diff_Props\<close> (\<open>diff.rs\<close>): the parser of unified diffs as a fold
    of \<open>parse_line\<close> over the lines with the parser's variables as a record, rendering, the selection
    of files under a byte budget.  Line numbers are consecutive, parsing inverts rendering, and
    where the parser goes wrong (a deleted line that looks like a header).
  \<^item> \<open>Findings\<close> (\<open>findings.rs\<close>): findings, the merge of candidates, which loses none, and the check of
    suggestions.  \<open>Anchor\<close> (\<open>pipeline/anchor.rs\<close>), \<open>Dedup\<close> with \<open>Dedup_Props\<close> (\<open>pipeline/dedup.rs\<close>).
  \<^item> \<open>Review_State\<close> with \<open>Review_State_Props\<close> (\<open>state.rs\<close>): the stored findings as a keyed store, pruning
    to 200, the public projection.
  \<^item> \<open>Report_Text\<close>, \<open>Report\<close> and their properties (\<open>report.rs\<close>), \<open>Handoff\<close> (\<open>handoff.rs\<close>), \<open>Timing\<close>
    (\<open>timing.rs\<close>): nothing that is published forges a marker, an incomplete run says so.
  \<^item> \<open>Provider\<close> (\<open>provider/mod.rs\<close>): messages and the ledger; \<open>Routes\<close>: the routes of \<open>config.rs\<close>; \<open>Http_Transport\<close> (\<open>provider/http.rs\<close>): one
    attempt is \<open>send_step\<close>, the loop runs over a list of environments; \<open>Fallback\<close>
    (\<open>provider/fallback.rs\<close>): the sticky route; \<open>Agent\<close> with \<open>Agent_Props\<close> (\<open>agent.rs\<close>): one turn is
    \<open>agent_step\<close>.  The loops return within as many steps as the budgets allow; the lists of
    environments are the fuel, and the theorems say how long a list is enough.
  \<^item> \<open>Preferences\<close> (\<open>server/dashboard.rs\<close>, \<open>server/external.rs\<close>), \<open>Events\<close>
    (\<open>server/events.rs\<close>), \<open>Queue\<close> with \<open>Queue_Props\<close> (\<open>server/queue.rs\<close> and the queue's users in
    \<open>server/mod.rs\<close>), \<open>Mentions\<close> (\<open>server/mentions.rs\<close>), \<open>Jobs\<close> (the job list of
    \<open>server/dashboard.rs\<close>).  A world is the queue with the admissions its callers hold; the
    invariants hold in every reachable world.
  \<^item> Repairs (\<open>server/fixes.rs\<close>, \<open>fix/policy.rs\<close>, \<open>fix/workspace.rs\<close>, \<open>fix/mod.rs\<close>): \<open>Fix_Settings\<close>,
    \<open>Fix_Policy\<close>, \<open>Fix_Record\<close> (the durable record and its trail), \<open>Fix_Store\<close> (admission of requests,
    saving, loading at start), \<open>Fix_Control\<close> (confirm, stop, invalidate, publish, follow up) and
    \<open>Fix_Generate\<close> (the worker; each await point of the source ends a step, so that other tasks can
    change the store in between).  \<open>Fix_World\<close> holds the lemmas per operation,
    \<open>Fix_Runs\<close> the worlds that any interleaving of the operations reaches, \<open>Fix_Progress\<close> what one
    worker can do, \<open>Fix_Guarantees\<close> the properties.
  \<^item> The review pipeline: \<open>Submissions\<close> (decoding and repairing what a model submits; \<open>findings.rs\<close>,
    \<open>pipeline/common.rs\<close>), \<open>Validation\<close> with \<open>Validation_Props\<close> (\<open>pipeline/validate.rs\<close>: one validator
    per candidate, finishing in any order), \<open>Playbook\<close> (\<open>playbook.rs\<close>), \<open>Ledger_Report\<close> (\<open>report.rs\<close>),
    \<open>Pipeline\<close> and \<open>Review_Run\<close> (\<open>prepare\<close> and \<open>finish\<close> of \<open>pipeline/common.rs\<close>, the request of
    \<open>pipeline/dedup.rs\<close>), \<open>Lanes\<close> and \<open>Delegated\<close> (the strategies
    of \<open>pipeline/baseline.rs\<close>, \<open>panel.rs\<close>, \<open>delegated.rs\<close> and their dispatch in \<open>pipeline/mod.rs\<close>).  A lane
    or a validator is an environment with the answer of its agent; concurrent ones come as a list of
    indices with environments in the order of completion.  \<open>Review_Props\<close> and \<open>Lane_Props\<close>: what is
    published was accepted by a validator of this run and stands on the diff; a run that was cut short
    anywhere never reports itself complete.  \<open>Review_Witness\<close> evaluates one run from the diff to the
    report.
  \<^item> The protocol adapters: \<open>Adapter_Openai\<close>, \<open>Adapter_Anthropic\<close>, \<open>Adapter_Gemini\<close>
    (the files of \<open>provider\<close> with these names; both protocols of OpenAI in one): the body of a request from the messages of the agent
    and the message from a response.  \<open>Adapter_Props\<close>: retries in the same slot are bounded, turns
    alternate, thinking fits its limit, signatures are replayed.  Parsing and printing of JSON text
    are fields of \<open>wire_fns\<close>.
  \<^item> \<open>Config\<close>, \<open>Config_Checks\<close> (\<open>config.rs\<close>): settings, profiles and checks, with the YAML and URL parsers as
    parameters; \<open>Clients\<close> (\<open>pipeline/mod.rs\<close>, \<open>provider/scripted.rs\<close>, \<open>provider/probe.rs\<close>): from a route to
    a client.  \<open>Config_Props\<close>: what a configuration that passed its checks promises.
  \<^item> \<open>Redact\<close> with \<open>Redact_Props\<close> (\<open>redact.rs\<close>): the registry of secrets and the masking loop, against a
    specification by covered bytes; the automaton is a parameter that finds every
    occurrence.
  \<^item> \<open>Guidance\<close> (\<open>guidance.rs\<close>): which files of the base commit reach the prompt, and how much of them.
  \<^item> GitHub: \<open>Github_Api\<close> (\<open>github/api.rs\<close>, \<open>github/event.rs\<close>) sends every request through \<open>ga_http\<close>, the reply of
    GitHub to a request after all exchanges so far, which may be anything; an operation extends the list
    of exchanges.  \<open>Github_Props\<close>: \<open>emits m P\<close> says what exchanges a step adds, with one rule per combinator
    and per operation of the client.  \<open>Publish\<close> with \<open>Publish_Props\<close> (\<open>github/publish.rs\<close>): the publication
    of a report writes only on the reviewed target, creates nothing twice and edits only its own comment.
    \<open>Deliver\<close> with \<open>Deliver_Props\<close> (\<open>fix/deliver.rs\<close>): the commit, the draft and the fast-forward of an
    approved repair.  \<open>Github_Witness\<close>: runs against a scripted GitHub.
  \<^item> The stages of a repair (\<open>fix/mod.rs\<close>): \<open>Sandbox\<close> (\<open>fix/sandbox.rs\<close>, \<open>fix/tests.rs\<close>) computes the command line
    of the sandbox from a profile and a host; \<open>Fix_Tools\<close> (\<open>fix/tools.rs\<close>, \<open>fsutil.rs\<close>) has the tools of the
    agent over a tree of entries, and what any sequence of calls can change; \<open>Fix_Stages\<close> the checks of
    requests and submissions, the run of the agent and the controller around the child.  \<open>Stage_Props\<close>:
    what the child can see and write, and what a submission is worth.  Walking the tree ends because every
    entry that is seen counts towards the limit of 20000.
  Bounds and fuel.  \<open>fix_worker_finishes\<close>: seven steps per allowed attempt and six more.
  \<open>agent_returns\<close>: \<open>max_tool_calls + 5\<close> requests.  \<open>send_returns\<close>: the requests the budget has left and
  one more.  No other definition takes fuel; the remaining loops are structural or have a measure.

  Not modelled: sockets, processes, files and git (their outcomes are environment fields); the HTML
  dashboard and the command line; the texts of prompts beyond what the theorems speak of; test code.
\<close>

end
